(* ===== verification/Prelude.thy ===== *)
theory Prelude
  imports Main "HOL-Library.Word" "HOL-Library.AList"
begin

text \<open>
  Shared vocabulary of the development: Python exceptions as values of a sum type and the
  sequencing of computations that may raise, Python's dynamically typed values and
  insertion-ordered dictionaries, bytes, and the bit-field lemmas the decoders share.
\<close>

section \<open>Exceptions as values\<close>

text \<open>
  The exceptions the modelled code can raise. \<open>EndOfData\<close> is the disassembler's own
  \<open>_EndOfData\<close>, \<open>DebugError\<close> that of the WinUAE debugger; the others are Python's.
\<close>

datatype exn =
    ValueError
  | KeyError string
  | IndexError
  | RuntimeError string
  | EndOfData
  | DebugError string
  | TypeError
  | AttributeError

type_synonym 'a res = "exn + 'a"

text \<open>Collections: inversion rules of raising computations, and bit-field bounds.\<close>

named_theorems res_inv
named_theorems bit_field

fun res_bind :: "'a res \<Rightarrow> ('a \<Rightarrow> 'b res) \<Rightarrow> 'b res" where
  "res_bind (Inl e) f = Inl e"
| "res_bind (Inr x) f = f x"

text \<open>A comprehension whose element expression may raise: the first exception wins.\<close>

fun res_map :: "('a \<Rightarrow> 'b res) \<Rightarrow> 'a list \<Rightarrow> 'b list res" where
  "res_map f [] = Inr []"
| "res_map f (x # xs) =
     res_bind (f x) (\<lambda>y. res_bind (res_map f xs) (\<lambda>ys. Inr (y # ys)))"

lemma res_bind_Inr_iff [res_inv]:
  "res_bind m f = Inr y \<longleftrightarrow> (\<exists>x. m = Inr x \<and> f x = Inr y)"
  by (cases m) auto

lemma res_bind_Inl_iff [res_inv]:
  "res_bind m f = Inl e \<longleftrightarrow> m = Inl e \<or> (\<exists>x. m = Inr x \<and> f x = Inl e)"
  by (cases m) auto

lemma res_bind_cong [fundef_cong]:
  "m = m' \<Longrightarrow> (\<And>x. m' = Inr x \<Longrightarrow> f x = f' x) \<Longrightarrow> res_bind m f = res_bind m' f'"
  by (cases m') auto

lemma res_bind_assoc:
  "res_bind (res_bind m f) g = res_bind m (\<lambda>x. res_bind (f x) g)"
  by (cases m) auto

lemma res_map_Inr_length: "res_map f xs = Inr ys \<Longrightarrow> length ys = length xs"
  by (induction xs arbitrary: ys) (auto simp: res_inv)

lemma res_map_Inr_nth:
  "res_map f xs = Inr ys \<Longrightarrow> i < length xs \<Longrightarrow> f (xs ! i) = Inr (ys ! i)"
proof (induction xs arbitrary: ys i)
  case Nil
  then show ?case by simp
next
  case (Cons x xs)
  then show ?case by (cases i) (auto simp: res_inv)
qed

lemma res_map_Inl:
  "res_map f xs = Inl e \<Longrightarrow> \<exists>x \<in> set xs. f x = Inl e"
  by (induction xs) (auto simp: res_inv)

lemma res_map_total:
  "(\<And>x. x \<in> set xs \<Longrightarrow> f x = Inr (g x)) \<Longrightarrow> res_map f xs = Inr (map g xs)"
  by (induction xs) auto

section \<open>Python values\<close>

text \<open>
  Messages are Python dictionaries with string keys; a dictionary is an association list
  in insertion order with distinct keys. Strings are lists of characters: every string the
  bridge sees is decoded as latin-1, whose code points are exactly the 256 values of
  \<open>char\<close>.
\<close>

datatype pyval =
    VNone
  | VBool bool
  | VInt int
  | VStr string
  | VList "pyval list"
  | VDict "(string \<times> pyval) list"

type_synonym pydict = "(string \<times> pyval) list"

text \<open>\<open>d[k] = v\<close>: overwrite in place, append when the key is new.\<close>

definition dict_set :: "pydict \<Rightarrow> string \<Rightarrow> pyval \<Rightarrow> pydict" where
  "dict_set d k v = AList.update k v d"

text \<open>\<open>d.get(k, v)\<close> and \<open>d[k]\<close>.\<close>

definition dict_get :: "pydict \<Rightarrow> string \<Rightarrow> pyval \<Rightarrow> pyval" where
  "dict_get d k v = (case map_of d k of None \<Rightarrow> v | Some w \<Rightarrow> w)"

definition dict_index :: "pydict \<Rightarrow> string \<Rightarrow> pyval res" where
  "dict_index d k = (case map_of d k of None \<Rightarrow> Inl (KeyError k) | Some w \<Rightarrow> Inr w)"

lemma map_of_dict_set [simp]: "map_of (dict_set d k v) = (map_of d)(k \<mapsto> v)"
  by (simp add: dict_set_def update_conv')

lemma dict_index_Inr_iff:
  "dict_index d k = Inr v \<longleftrightarrow> map_of d k = Some v"
  by (simp add: dict_index_def split: option.split)

lemma dict_index_in_dom: "map_of d k \<noteq> None \<Longrightarrow> \<exists>v. dict_index d k = Inr v"
  by (auto simp: dict_index_def)

text \<open>Python truth of a value.\<close>

fun truthy :: "pyval \<Rightarrow> bool" where
  "truthy VNone = False"
| "truthy (VBool b) = b"
| "truthy (VInt i) = (i \<noteq> 0)"
| "truthy (VStr s) = (s \<noteq> [])"
| "truthy (VList xs) = (xs \<noteq> [])"
| "truthy (VDict d) = (d \<noteq> [])"

section \<open>Bytes and bit fields\<close>

type_synonym byte = "8 word"

text \<open>The bit fields of an instruction word are masks and shifts on Python integers.\<close>

unbundle bit_operations_syntax

lemma and_mask_mod: "0 \<le> n \<Longrightarrow> (x::int) AND (2 ^ nat n - 1) = x mod 2 ^ nat n"
  by (simp flip: take_bit_eq_mod mask_eq_exp_minus_1 add: take_bit_eq_mask)

lemma and_3 [bit_field]: "(x::int) AND 3 = x mod 4"
  using and_mask_mod [of 2 x] by simp

lemma and_7 [bit_field]: "(x::int) AND 7 = x mod 8"
  using and_mask_mod [of 3 x] by simp

lemma and_15 [bit_field]: "(x::int) AND 15 = x mod 16"
  using and_mask_mod [of 4 x] by simp

lemma and_127 [bit_field]: "(x::int) AND 127 = x mod 128"
  using and_mask_mod [of 7 x] by simp

lemma and_255 [bit_field]: "(x::int) AND 255 = x mod 256"
  using and_mask_mod [of 8 x] by simp

lemma and_65535 [bit_field]: "(x::int) AND 65535 = x mod 65536"
  using and_mask_mod [of 16 x] by simp

lemma and_32bit [bit_field]: "(x::int) AND 4294967295 = x mod 4294967296"
  using and_mask_mod [of 32 x] by simp

lemma and_7_range: "0 \<le> (x::int) AND 7 \<and> (x::int) AND 7 < 8"
  by (simp add: bit_field)

lemma and_3_cases: "(x::int) AND 3 = 0 \<or> x AND 3 = 1 \<or> x AND 3 = 2 \<or> x AND 3 = 3"
  unfolding and_3 by presburger

lemma and_7_cases:
  "(x::int) AND 7 = 0 \<or> x AND 7 = 1 \<or> x AND 7 = 2 \<or> x AND 7 = 3 \<or>
   x AND 7 = 4 \<or> x AND 7 = 5 \<or> x AND 7 = 6 \<or> x AND 7 = 7"
  unfolding and_7 by presburger

text \<open>A number written as two fields.\<close>

lemma field_split:
  fixes lo hi m :: int
  assumes "0 \<le> lo" and "lo < m"
  shows "(hi * m + lo) div m = hi" and "(hi * m + lo) mod m = lo"
  using assms by simp_all

lemma and_1 [bit_field]: "(x::int) AND 1 = x mod 2"
  by (simp add: and_one_eq)

text \<open>Big-endian assembly of two bytes: shifting and or-ing is positional.\<close>

lemma push_or_add:
  assumes "0 \<le> (b::int)" and "b < 2 ^ n"
  shows "push_bit n a OR b = a * 2 ^ n + b"
proof -
  have b: "b = take_bit n b"
    using assms by (simp add: take_bit_int_eq_self)
  have "push_bit n a AND b = 0"
    by (subst b) (auto intro!: bit_eqI simp: bit_simps)
  with plus_and_or [of "push_bit n a" b] show ?thesis
    by (simp add: push_bit_eq_mult)
qed

lemma uint_byte_range [simp]: "0 \<le> uint (b::byte)" "uint (b::byte) < 256"
  using uint_lt2p [of b] by simp_all

lemma word_of_bytes:
  "push_bit 8 (uint (a::byte)) OR uint (b::byte) = uint a * 256 + uint b"
  using push_or_add [of "uint b" 8 "uint a"] by simp

lemma long_of_words:
  "0 \<le> lo \<Longrightarrow> lo < 65536 \<Longrightarrow> push_bit 16 (hi::int) OR lo = hi * 65536 + lo"
  using push_or_add [of lo 16 hi] by simp

end
