(* ===== verification/Pystr.thy ===== *)
theory Pystr
  imports Prelude
begin

text \<open>
  The Python string operations the code uses: \<open>split\<close> (by one character, with a limit, by
  a two-character separator), \<open>join\<close>, \<open>strip\<close>, \<open>rstrip\<close>, \<open>startswith\<close>, \<open>isdigit\<close>,
  \<open>int(s, base)\<close>, the decimal and hexadecimal formats of integers, \<open>bytes.hex\<close> and
  \<open>bytes.fromhex\<close>, on latin-1 strings, with the inverse laws between them.
  The interpreter's configurable limit on the length of decimal conversions
  (\<open>sys.set_int_max_str_digits\<close>) is taken as switched off.
\<close>

section \<open>Characters\<close>

abbreviation chr_code :: "char \<Rightarrow> nat" where
  "chr_code c \<equiv> of_char c"

text \<open>\<open>str.isspace\<close> on latin-1, what \<open>strip\<close> removes.\<close>

definition is_space :: "char \<Rightarrow> bool" where
  "is_space c = (let n = chr_code c in
     (9 \<le> n \<and> n \<le> 13) \<or> (28 \<le> n \<and> n \<le> 32) \<or> n = 133 \<or> n = 160)"

text \<open>The white space \<open>int(...)\<close> skips on latin-1, and the one \<open>bytes.fromhex\<close> skips.\<close>

definition is_int_space :: "char \<Rightarrow> bool" where
  "is_int_space c = (let n = chr_code c in
     (9 \<le> n \<and> n \<le> 13) \<or> n = 32 \<or> n = 133 \<or> n = 160)"

definition is_hex_space :: "char \<Rightarrow> bool" where
  "is_hex_space c = (let n = chr_code c in (9 \<le> n \<and> n \<le> 13) \<or> n = 32)"

text \<open>\<open>str.isdigit\<close>: the decimal digits and the latin-1 superscripts 2, 3 and 1.\<close>

definition is_digit_char :: "char \<Rightarrow> bool" where
  "is_digit_char c = (let n = chr_code c in
     (48 \<le> n \<and> n \<le> 57) \<or> n = 178 \<or> n = 179 \<or> n = 185)"

definition py_isdigit :: "string \<Rightarrow> bool" where
  "py_isdigit s = (s \<noteq> [] \<and> list_all is_digit_char s)"

section \<open>Stripping, splitting, joining\<close>

definition py_lstrip :: "string \<Rightarrow> string" where
  "py_lstrip s = dropWhile is_space s"

definition py_strip :: "string \<Rightarrow> string" where
  "py_strip s = rev (dropWhile is_space (rev (py_lstrip s)))"

definition rstrip_char :: "char \<Rightarrow> string \<Rightarrow> string" where
  "rstrip_char c s = rev (dropWhile (\<lambda>x. x = c) (rev s))"

fun cons_head :: "char \<Rightarrow> string list \<Rightarrow> string list" where
  "cons_head x [] = [[x]]"
| "cons_head x (p # ps) = (x # p) # ps"

fun split_char :: "char \<Rightarrow> string \<Rightarrow> string list" where
  "split_char c [] = [[]]"
| "split_char c (x # xs) =
     (if x = c then [] # split_char c xs else cons_head x (split_char c xs))"

text \<open>\<open>s.split(c, n)\<close>: at most \<open>n\<close> cuts.\<close>

fun split_max :: "char \<Rightarrow> nat \<Rightarrow> string \<Rightarrow> string list" where
  "split_max c 0 s = [s]"
| "split_max c (Suc n) s =
     (if c \<in> set s
      then takeWhile (\<lambda>x. x \<noteq> c) s # split_max c n (tl (dropWhile (\<lambda>x. x \<noteq> c) s))
      else [s])"

text \<open>\<open>s.split("),")\<close> and its like: a separator of two characters.\<close>

fun split_pair :: "char \<Rightarrow> char \<Rightarrow> string \<Rightarrow> string list" where
  "split_pair a b [] = [[]]"
| "split_pair a b [x] = [[x]]"
| "split_pair a b (x # y # ys) =
     (if x = a \<and> y = b then [] # split_pair a b ys
      else cons_head x (split_pair a b (y # ys)))"

fun py_join :: "string \<Rightarrow> string list \<Rightarrow> string" where
  "py_join sep [] = []"
| "py_join sep [p] = p"
| "py_join sep (p # q # ps) = p @ sep @ py_join sep (q # ps)"

definition py_startswith :: "string \<Rightarrow> string \<Rightarrow> bool" where
  "py_startswith s p = (take (length p) s = p)"

text \<open>\<open>s[:s.index(c)]\<close> and \<open>s[s.index(c) + 1:]\<close> for a character that occurs in \<open>s\<close>.\<close>

definition before_char :: "char \<Rightarrow> string \<Rightarrow> string" where
  "before_char c s = takeWhile (\<lambda>x. x \<noteq> c) s"

definition after_char :: "char \<Rightarrow> string \<Rightarrow> string" where
  "after_char c s = tl (dropWhile (\<lambda>x. x \<noteq> c) s)"

lemma split_char_not_Nil [simp]: "split_char c s \<noteq> []"
proof (cases s)
  case Nil
  then show ?thesis by simp
next
  case (Cons x xs)
  then show ?thesis by (cases "split_char c xs") auto
qed

lemma split_pair_not_Nil [simp]: "split_pair a b s \<noteq> []"
proof (induction a b s rule: split_pair.induct)
  case (3 a b x y ys)
  then show ?case by (cases "split_pair a b (y # ys)") auto
qed auto

lemma py_join_Cons: "ps \<noteq> [] \<Longrightarrow> py_join sep (p # ps) = p @ sep @ py_join sep ps"
  by (cases ps) auto

lemma py_join_cons_head:
  "ps \<noteq> [] \<Longrightarrow> py_join sep (cons_head x ps) = x # py_join sep ps"
  by (cases ps rule: list.exhaust; cases "tl ps") auto

lemma join_split_char [simp]: "py_join [c] (split_char c s) = s"
  by (induction s) (auto simp: py_join_Cons py_join_cons_head)

lemma split_char_no_sep: "c \<notin> set s \<Longrightarrow> split_char c s = [s]"
  by (induction s) auto

lemma split_char_append:
  "c \<notin> set p \<Longrightarrow> split_char c (p @ c # s) = p # split_char c s"
  by (induction p) auto

lemma split_join:
  assumes "ps \<noteq> []" and "\<forall>p \<in> set ps. c \<notin> set p"
  shows "split_char c (py_join [c] ps) = ps"
  using assms
proof (induction ps)
  case Nil
  then show ?case by simp
next
  case (Cons p ps)
  show ?case
  proof (cases "ps = []")
    case True
    with Cons.prems show ?thesis by (simp add: split_char_no_sep)
  next
    case False
    with Cons show ?thesis by (simp add: py_join_Cons split_char_append)
  qed
qed

lemma split_char_parts: "p \<in> set (split_char c s) \<Longrightarrow> c \<notin> set p"
proof (induction s arbitrary: p)
  case Nil
  then show ?case by simp
next
  case (Cons x xs)
  obtain q qs where q: "split_char c xs = q # qs"
    by (cases "split_char c xs") auto
  with Cons show ?case by (fastforce split: if_splits)
qed

lemma split_char_chars: "p \<in> set (split_char c s) \<Longrightarrow> set p \<subseteq> set s"
proof (induction s arbitrary: p)
  case Nil
  then show ?case by simp
next
  case (Cons x xs)
  obtain q qs where q: "split_char c xs = q # qs"
    by (cases "split_char c xs") auto
  with Cons show ?case by (fastforce split: if_splits)
qed

text \<open>
  Splitting a concatenation: the last part of the first string continues in the second.
\<close>

lemma split_char_concat:
  "split_char c (s @ t) =
     butlast (split_char c s) @ split_char c (last (split_char c s) @ t)"
proof (induction s)
  case Nil
  then show ?case by simp
next
  case (Cons x xs)
  obtain q qs where q: "split_char c xs = q # qs"
    by (cases "split_char c xs") auto
  have nc: "c \<notin> set (last (split_char c xs))"
    by (meson last_in_set split_char_not_Nil split_char_parts)
  show ?case
  proof (cases "x = c")
    case True
    with Cons q show ?thesis by auto
  next
    case False
    with Cons q show ?thesis by (cases "qs = []") auto
  qed
qed

lemma py_strip_no_space:
  assumes "\<forall>c \<in> set s. \<not> is_space c"
  shows "py_strip s = s"
proof -
  have l: "dropWhile is_space t = t" if "\<forall>c \<in> set t. \<not> is_space c" for t
    using that by (cases t) auto
  show ?thesis
    using assms l [of s] l [of "rev s"] by (simp add: py_strip_def py_lstrip_def)
qed

lemma py_strip_ends:
  assumes "s \<noteq> []" and "\<not> is_space (hd s)" and "\<not> is_space (last s)"
  shows "py_strip s = s"
proof -
  have "dropWhile is_space s = s"
    using assms by (cases s) auto
  moreover have "dropWhile is_space (rev s) = rev s"
    using assms by (cases "rev s") (auto simp: hd_rev [symmetric])
  ultimately show ?thesis by (simp add: py_strip_def py_lstrip_def)
qed

lemma set_py_strip: "set (py_strip s) \<subseteq> set s"
proof
  fix x assume "x \<in> set (py_strip s)"
  then have "x \<in> set (rev (dropWhile is_space s))"
    unfolding py_strip_def py_lstrip_def by (metis set_dropWhileD set_rev)
  then show "x \<in> set s"
    by (metis set_dropWhileD set_rev)
qed

lemma before_after_char:
  "c \<in> set s \<Longrightarrow> s = before_char c s @ c # after_char c s"
  unfolding before_char_def after_char_def
  by (metis (mono_tags, lifting) dropWhile_eq_Cons_conv dropWhile_eq_Nil_conv hd_dropWhile
      list.collapse takeWhile_dropWhile_id)

lemma before_char_append: "c \<notin> set p \<Longrightarrow> before_char c (p @ c # s) = p"
  unfolding before_char_def by (induction p) auto

lemma after_char_append: "c \<notin> set p \<Longrightarrow> after_char c (p @ c # s) = s"
  unfolding after_char_def by (induction p) auto

lemma py_startswith_append [simp]: "py_startswith (p @ s) p"
  by (simp add: py_startswith_def)

section \<open>Integers to text\<close>

definition digit_char :: "bool \<Rightarrow> nat \<Rightarrow> char" where
  "digit_char upper n = char_of (if n < 10 then 48 + n else if upper then 55 + n else 87 + n)"

fun nat_digits :: "bool \<Rightarrow> nat \<Rightarrow> nat \<Rightarrow> string" where
  "nat_digits upper b n =
     (if n < b \<or> b < 2 then [digit_char upper n]
      else nat_digits upper b (n div b) @ [digit_char upper (n mod b)])"

declare nat_digits.simps [simp del]

text \<open>\<open>f"{n}"\<close>.\<close>

definition fmt_dec :: "int \<Rightarrow> string" where
  "fmt_dec i = (if i < 0 then CHR ''-'' # nat_digits False 10 (nat (- i))
                else nat_digits False 10 (nat i))"

text \<open>
  \<open>f"{n:0wX}"\<close> and \<open>f"{n:0wx}"\<close>: the zeros go between the sign and the digits, and the
  width counts the sign.
\<close>

definition fmt_hex :: "bool \<Rightarrow> nat \<Rightarrow> int \<Rightarrow> string" where
  "fmt_hex upper w i =
     (let sg = (if i < 0 then ''-'' else '''');
          ds = nat_digits upper 16 (nat \<bar>i\<bar>)
      in sg @ replicate (w - length sg - length ds) (CHR ''0'') @ ds)"

text \<open>\<open>f"{n:02d}"\<close>.\<close>

definition fmt_dec_pad :: "nat \<Rightarrow> int \<Rightarrow> string" where
  "fmt_dec_pad w i =
     (let sg = (if i < 0 then ''-'' else '''');
          ds = nat_digits False 10 (nat \<bar>i\<bar>)
      in sg @ replicate (w - length sg - length ds) (CHR ''0'') @ ds)"

text \<open>For evaluation the digits are taken from the integer itself.\<close>

function int_digits :: "bool \<Rightarrow> int \<Rightarrow> int \<Rightarrow> string" where
  "int_digits upper b i =
     (if i < b \<or> b < 2 then [digit_char upper (nat i)]
      else int_digits upper b (i div b) @ [digit_char upper (nat (i mod b))])"
  by pat_completeness auto
termination
  by (relation "measure (\<lambda>(u, b, i). nat i)") (auto intro: int_div_less_self)

declare int_digits.simps [simp del]

lemma nat_digits_int: "nat_digits upper b n = int_digits upper (int b) (int n)"
proof (induction upper b n rule: nat_digits.induct)
  case (1 upper b n)
  then show ?case
    by (subst nat_digits.simps, subst int_digits.simps)
       (simp add: nat_mod_distrib flip: zdiv_int zmod_int)
qed

lemma fmt_digits_code [code]:
  "fmt_dec i = (if i < 0 then CHR ''-'' # int_digits False 10 (- i) else int_digits False 10 i)"
  "fmt_hex upper w i =
     (let sg = (if i < 0 then ''-'' else ''''); ds = int_digits upper 16 \<bar>i\<bar>
      in sg @ replicate (w - length sg - length ds) (CHR ''0'') @ ds)"
  "fmt_dec_pad w i =
     (let sg = (if i < 0 then ''-'' else ''''); ds = int_digits False 10 \<bar>i\<bar>
      in sg @ replicate (w - length sg - length ds) (CHR ''0'') @ ds)"
  by (simp_all add: fmt_dec_def fmt_hex_def fmt_dec_pad_def nat_digits_int)

text \<open>\<open>f"{s:ws}"\<close>, \<open>s.ljust(w)\<close> and \<open>f"{s:>ws}"\<close>.\<close>

definition fmt_left :: "nat \<Rightarrow> string \<Rightarrow> string" where
  "fmt_left w s = s @ replicate (w - length s) (CHR '' '')"

definition fmt_right :: "nat \<Rightarrow> string \<Rightarrow> string" where
  "fmt_right w s = replicate (w - length s) (CHR '' '') @ s"

section \<open>Text to integers\<close>

definition digit_val :: "char \<Rightarrow> nat option" where
  "digit_val c = (let n = chr_code c in
     if 48 \<le> n \<and> n \<le> 57 then Some (n - 48)
     else if 97 \<le> n \<and> n \<le> 122 then Some (n - 87)
     else if 65 \<le> n \<and> n \<le> 90 then Some (n - 55)
     else None)"

text \<open>
  The digits of \<open>int(s, b)\<close>: single underscores may stand between digits. The flag says
  that an underscore may not come next (at the start and after an underscore).
\<close>

fun int_body :: "nat \<Rightarrow> bool \<Rightarrow> nat \<Rightarrow> string \<Rightarrow> nat option" where
  "int_body b us acc [] = (if us then None else Some acc)"
| "int_body b us acc (c # cs) =
     (if c = CHR ''_'' then (if us then None else int_body b True acc cs)
      else case digit_val c of
             None \<Rightarrow> None
           | Some d \<Rightarrow> if d < b then int_body b False (acc * b + d) cs else None)"

text \<open>Base 16 allows a prefix \<open>0x\<close>, with one underscore after it.\<close>

definition strip_hex_prefix :: "string \<Rightarrow> string" where
  "strip_hex_prefix s =
     (if py_startswith s ''0x'' \<or> py_startswith s ''0X''
      then (let t = drop 2 s in if py_startswith t ''_'' then tl t else t)
      else s)"

definition int_trim :: "string \<Rightarrow> string" where
  "int_trim s = rev (dropWhile is_int_space (rev (dropWhile is_int_space s)))"

definition py_int_opt :: "nat \<Rightarrow> string \<Rightarrow> int option" where
  "py_int_opt b s =
     (let t = int_trim s;
          neg = py_startswith t ''-'';
          u = (if neg \<or> py_startswith t ''+'' then tl t else t);
          v = (if b = 16 then strip_hex_prefix u else u)
      in map_option (\<lambda>n. if neg then - int n else int n) (int_body b True 0 v))"

definition py_int :: "nat \<Rightarrow> string \<Rightarrow> int res" where
  "py_int b s = (case py_int_opt b s of None \<Rightarrow> Inl ValueError | Some i \<Rightarrow> Inr i)"

section \<open>Bytes and hexadecimal text\<close>

definition hex_digit :: "char \<Rightarrow> nat option" where
  "hex_digit c = (case digit_val c of
     None \<Rightarrow> None | Some d \<Rightarrow> if d < 16 then Some d else None)"

text \<open>\<open>bytes.fromhex\<close>: white space is skipped between bytes, not inside one.\<close>

fun fromhex_opt :: "string \<Rightarrow> byte list option" where
  "fromhex_opt [] = Some []"
| "fromhex_opt [c] = (if is_hex_space c then Some [] else None)"
| "fromhex_opt (c # d # cs) =
     (if is_hex_space c then fromhex_opt (d # cs)
      else case (hex_digit c, hex_digit d) of
             (Some a, Some b) \<Rightarrow> map_option (Cons (of_nat (16 * a + b))) (fromhex_opt cs)
           | _ \<Rightarrow> None)"

definition bytes_fromhex :: "string \<Rightarrow> byte list res" where
  "bytes_fromhex s = (case fromhex_opt s of None \<Rightarrow> Inl ValueError | Some bs \<Rightarrow> Inr bs)"

definition byte_hex :: "bool \<Rightarrow> byte \<Rightarrow> string" where
  "byte_hex upper b = [digit_char upper (unat b div 16), digit_char upper (unat b mod 16)]"

text \<open>\<open>bytes.hex()\<close>, and \<open>bytes.hex().upper()\<close> with the flag set.\<close>

definition bytes_hex :: "bool \<Rightarrow> byte list \<Rightarrow> string" where
  "bytes_hex upper bs = concat (map (byte_hex upper) bs)"

section \<open>Round trips\<close>

lemma of_char_digit_char:
  "n < 36 \<Longrightarrow> chr_code (digit_char u n) = (if n < 10 then 48 + n else if u then 55 + n else 87 + n)"
  by (simp add: digit_char_def of_char_of)

lemma digit_val_digit_char: "n < 36 \<Longrightarrow> digit_val (digit_char u n) = Some n"
  by (simp add: digit_val_def of_char_digit_char Let_def)

lemma hex_digit_digit_char: "n < 16 \<Longrightarrow> hex_digit (digit_char u n) = Some n"
  by (simp add: hex_digit_def digit_val_digit_char)

lemma digit_char_eq_iff:
  "n < 36 \<Longrightarrow> digit_char u n = c \<longleftrightarrow>
     chr_code c = (if n < 10 then 48 + n else if u then 55 + n else 87 + n)"
  by (metis of_char_digit_char of_char_eq_iff)

lemma digit_char_plain:
  assumes "n < 36"
  shows "\<not> is_int_space (digit_char u n)" "\<not> is_space (digit_char u n)"
    "\<not> is_hex_space (digit_char u n)" "digit_char u n \<noteq> CHR ''_''"
    "digit_char u n \<noteq> CHR ''-''" "digit_char u n \<noteq> CHR ''+''" "digit_char u n \<noteq> CHR ''|''"
    "digit_char u n \<noteq> CHR '':''" "digit_char u n \<noteq> CHR '',''"
  using assms
  by (auto simp: is_int_space_def is_space_def is_hex_space_def of_char_digit_char Let_def
      digit_char_eq_iff)

lemma nat_digits_not_Nil [simp]: "nat_digits u b n \<noteq> []"
  by (subst nat_digits.simps) simp

lemma nat_digits_chars:
  assumes "2 \<le> b" and "c \<in> set (nat_digits u b n)"
  shows "\<exists>d < b. c = digit_char u d"
  using assms
proof (induction u b n rule: nat_digits.induct)
  case (1 u b n)
  show ?case
  proof (cases "n < b")
    case True
    with "1.prems" show ?thesis by (subst (asm) nat_digits.simps) auto
  next
    case False
    with "1.prems" have "c \<in> set (nat_digits u b (n div b)) \<or> c = digit_char u (n mod b)"
      by (subst (asm) nat_digits.simps) auto
    then show ?thesis
    proof
      assume "c \<in> set (nat_digits u b (n div b))"
      with "1.IH" "1.prems" False show ?thesis by simp
    next
      assume "c = digit_char u (n mod b)"
      then show ?thesis using "1.prems"(1) by (intro exI [of _ "n mod b"]) simp
    qed
  qed
qed

lemma int_body_append_digit:
  "int_body b us acc s = Some m \<Longrightarrow> d < b \<Longrightarrow> b \<le> 36 \<Longrightarrow>
   int_body b us acc (s @ [digit_char u d]) = Some (m * b + d)"
proof (induction b us acc s rule: int_body.induct)
  case (1 b us acc)
  then show ?case by (auto simp: digit_char_plain digit_val_digit_char split: if_splits)
next
  case (2 b us acc c cs)
  then show ?case by (auto split: if_splits option.splits)
qed

lemma int_body_nat_digits:
  assumes "2 \<le> b" and "b \<le> 36"
  shows "int_body b True 0 (nat_digits u b n) = Some n"
  using assms
proof (induction u b n rule: nat_digits.induct)
  case (1 u b n)
  show ?case
  proof (cases "n < b")
    case True
    with "1.prems" show ?thesis
      by (subst nat_digits.simps) (simp add: digit_char_plain digit_val_digit_char)
  next
    case False
    with 1 have "int_body b True 0 (nat_digits u b (n div b)) = Some (n div b)" by simp
    from int_body_append_digit [OF this, of "n mod b" u] "1.prems" False show ?thesis
      by (subst nat_digits.simps) simp
  qed
qed

lemma int_body_zeros:
  "0 < b \<Longrightarrow> s \<noteq> [] \<Longrightarrow> int_body b True 0 s = Some m \<Longrightarrow>
   int_body b us 0 (replicate k (CHR ''0'') @ s) = Some m"
proof (induction k arbitrary: us)
  case 0
  then show ?case by (cases s) (auto split: if_splits)
next
  case (Suc k)
  then show ?case by (simp add: digit_val_def Let_def)
qed

lemma drop_spaces_id:
  "\<forall>c \<in> set s. \<not> P c \<Longrightarrow> rev (dropWhile P (rev (dropWhile P s))) = s"
proof -
  have l: "dropWhile P t = t" if "\<forall>c \<in> set t. \<not> P c" for t
    using that by (cases t) auto
  assume "\<forall>c \<in> set s. \<not> P c"
  then show ?thesis using l [of s] l [of "rev s"] by simp
qed

lemma digit_char_0: "digit_char u 0 = CHR ''0''"
  by (simp add: digit_char_eq_iff)

lemma hex_text_no_prefix:
  assumes "\<forall>c \<in> set s. \<exists>d < 16. c = digit_char u d"
  shows "strip_hex_prefix s = s"
proof -
  have nx: "digit_char u d \<noteq> CHR ''x'' \<and> digit_char u d \<noteq> CHR ''X''" if "d < 16" for d
    using that by (simp add: digit_char_eq_iff)
  have "CHR ''x'' \<notin> set s" "CHR ''X'' \<notin> set s"
    using assms nx by metis+
  then show ?thesis
    by (cases s rule: list.exhaust; cases "tl s")
       (auto simp: strip_hex_prefix_def py_startswith_def)
qed

text \<open>
  A sign followed by text made of digits (zeros in front allowed) reads back as the signed
  value, in bases 10 and 16.
\<close>

lemma py_int_signed_digits:
  assumes b: "b = 10 \<or> b = 16" and ds: "\<forall>c \<in> set ds. \<exists>d < b. c = digit_char u d"
    and ne: "ds \<noteq> []" and val: "int_body b True 0 ds = Some n"
  shows "py_int b ((if neg then ''-'' else '''') @ ds) = Inr (if neg then - int n else int n)"
proof -
  let ?s = "(if neg then ''-'' else '''') @ ds"
  have b36: "b \<le> 36" "b \<le> 16" using b by auto
  have plain: "\<not> is_int_space c" "c \<noteq> CHR ''-''" "c \<noteq> CHR ''+''" if "c \<in> set ds" for c
    using ds that b36 digit_char_plain by (metis less_le_trans)+
  have "\<forall>c \<in> set ?s. \<not> is_int_space c"
    using plain by (auto simp: is_int_space_def)
  then have strip: "int_trim ?s = ?s"
    unfolding int_trim_def by (rule drop_spaces_id)
  obtain c cs where c: "ds = c # cs" using ne by (cases ds) auto
  have pre: "b = 16 \<Longrightarrow> strip_hex_prefix ds = ds"
    by (rule hex_text_no_prefix [where u = u]) (use ds in simp)
  have "py_int_opt b ?s = Some (if neg then - int n else int n)"
  proof (cases neg)
    case True
    with strip pre val show ?thesis
      by (auto simp: py_int_opt_def py_startswith_def Let_def)
  next
    case False
    with strip plain [of c] c pre val show ?thesis
      by (auto simp: py_int_opt_def py_startswith_def Let_def simp del: int_body.simps)
  qed
  then show ?thesis by (simp add: py_int_def)
qed

lemma py_int_fmt_dec [simp]: "py_int 10 (fmt_dec i) = Inr i"
proof -
  let ?ds = "nat_digits False 10 (nat \<bar>i\<bar>)"
  have "py_int 10 ((if i < 0 then ''-'' else '''') @ ?ds) =
      Inr (if i < 0 then - int (nat \<bar>i\<bar>) else int (nat \<bar>i\<bar>))"
    by (rule py_int_signed_digits [where u = False])
       (auto simp: int_body_nat_digits dest: nat_digits_chars [rotated])
  moreover have "fmt_dec i = (if i < 0 then ''-'' else '''') @ ?ds"
    by (simp add: fmt_dec_def)
  ultimately show ?thesis by simp
qed

lemma py_int_fmt_hex [simp]: "py_int 16 (fmt_hex u w i) = Inr i"
proof -
  let ?d = "nat_digits u 16 (nat \<bar>i\<bar>)"
  let ?k = "w - length (if i < 0 then ''-'' else '''') - length ?d"
  let ?ds = "replicate ?k (CHR ''0'') @ ?d"
  have "\<forall>c \<in> set ?ds. \<exists>d < 16. c = digit_char u d"
    using nat_digits_chars [of 16 _ u "nat \<bar>i\<bar>"] digit_char_0 [of u] by (auto intro: exI [of _ 0])
  moreover have "int_body 16 True 0 ?ds = Some (nat \<bar>i\<bar>)"
    by (rule int_body_zeros) (simp_all add: int_body_nat_digits)
  ultimately have "py_int 16 ((if i < 0 then ''-'' else '''') @ ?ds) =
      Inr (if i < 0 then - int (nat \<bar>i\<bar>) else int (nat \<bar>i\<bar>))"
    by (intro py_int_signed_digits [where u = u]) auto
  then show ?thesis by (auto simp: fmt_hex_def Let_def)
qed

lemma fromhex_bytes_hex [simp]: "fromhex_opt (bytes_hex u bs) = Some bs"
proof (induction bs)
  case Nil
  then show ?case by (simp add: bytes_hex_def)
next
  case (Cons b bs)
  have "unat b < 256" using unsigned_less [of b] by simp
  then have "unat b div 16 < 16" by simp
  then show ?case
    using Cons by (simp add: bytes_hex_def byte_hex_def hex_digit_digit_char digit_char_plain)
qed

lemma bytes_fromhex_hex [simp]: "bytes_fromhex (bytes_hex u bs) = Inr bs"
  by (simp add: bytes_fromhex_def)

lemma length_bytes_hex [simp]: "length (bytes_hex u bs) = 2 * length bs"
  by (induction bs) (auto simp: bytes_hex_def byte_hex_def)

lemma bytes_hex_append: "bytes_hex u (xs @ ys) = bytes_hex u xs @ bytes_hex u ys"
  by (simp add: bytes_hex_def)

lemma bytes_hex_inj: "bytes_hex u xs = bytes_hex u ys \<longleftrightarrow> xs = ys"
  by (metis fromhex_bytes_hex option.inject)

text \<open>The characters of formatted numbers: letters, digits and the minus sign.\<close>

definition alnum_char :: "char \<Rightarrow> bool" where
  "alnum_char c = (let n = chr_code c in
     n = 45 \<or> (48 \<le> n \<and> n \<le> 57) \<or> (65 \<le> n \<and> n \<le> 90) \<or> (97 \<le> n \<and> n \<le> 122))"

lemma alnum_char_digit: "d < 36 \<Longrightarrow> alnum_char (digit_char u d)"
  by (auto simp: alnum_char_def of_char_digit_char Let_def)

lemma alnum_char_not_space: "alnum_char c \<Longrightarrow> \<not> is_space c"
  by (auto simp: alnum_char_def is_space_def Let_def)

lemma alnum_char_neq:
  "alnum_char c \<Longrightarrow> c \<noteq> CHR ''|''" "alnum_char c \<Longrightarrow> c \<noteq> CHR '',''"
  "alnum_char c \<Longrightarrow> c \<noteq> CHR '':''" "alnum_char c \<Longrightarrow> c \<noteq> CHR ''(''"
  "alnum_char c \<Longrightarrow> c \<noteq> CHR '')''" "alnum_char c \<Longrightarrow> c \<noteq> CHR 0x0A"
  "alnum_char c \<Longrightarrow> c \<noteq> CHR ''~''" "alnum_char c \<Longrightarrow> c \<noteq> CHR ''#''"
  by (auto simp: alnum_char_def Let_def)

lemma nat_digits_alnum:
  "2 \<le> b \<Longrightarrow> b \<le> 36 \<Longrightarrow> c \<in> set (nat_digits u b n) \<Longrightarrow> alnum_char c"
  by (auto dest!: nat_digits_chars intro: alnum_char_digit)

lemma fmt_dec_alnum: "c \<in> set (fmt_dec i) \<Longrightarrow> alnum_char c"
  by (auto simp: fmt_dec_def alnum_char_def [of "CHR ''-''"] dest: nat_digits_alnum [rotated 2]
      split: if_splits)

lemma fmt_hex_alnum: "c \<in> set (fmt_hex u w i) \<Longrightarrow> alnum_char c"
  by (auto simp: fmt_hex_def alnum_char_def [of "CHR ''-''"] alnum_char_def [of "CHR ''0''"]
      Let_def dest: nat_digits_alnum [rotated 2] split: if_splits)

lemma fmt_dec_not_Nil [simp]: "fmt_dec i \<noteq> []"
  by (simp add: fmt_dec_def)

lemma fmt_hex_not_Nil [simp]: "fmt_hex u w i \<noteq> []"
  by (simp add: fmt_hex_def Let_def)

section \<open>Hexadecimal text of a fixed width\<close>

fun fixed_hex :: "bool \<Rightarrow> nat \<Rightarrow> nat \<Rightarrow> string" where
  "fixed_hex u 0 n = []"
| "fixed_hex u (Suc w) n = fixed_hex u w (n div 16) @ [digit_char u (n mod 16)]"

lemma length_fixed_hex [simp]: "length (fixed_hex u w n) = w"
  by (induction w arbitrary: n) simp_all

lemma fixed_hex_0: "fixed_hex u w 0 = replicate w (CHR ''0'')"
  by (induction w) (simp_all add: digit_char_0 replicate_append_same)

lemma nat_digits_fixed:
  "n < 16 ^ w \<Longrightarrow> 0 < w \<Longrightarrow>
   replicate (w - length (nat_digits u 16 n)) (CHR ''0'') @ nat_digits u 16 n = fixed_hex u w n \<and>
   length (nat_digits u 16 n) \<le> w"
proof (induction w arbitrary: n)
  case (Suc w)
  show ?case
  proof (cases "n < 16")
    case True
    then show ?thesis by (simp add: nat_digits.simps [of u 16 n] fixed_hex_0)
  next
    case False
    with Suc.prems have "0 < w" by (cases w) simp_all
    moreover have "n div 16 < 16 ^ w"
      using Suc.prems by (simp add: less_mult_imp_div_less mult.commute)
    ultimately show ?thesis
      using Suc.IH [of "n div 16"] False by (simp add: nat_digits.simps [of u 16 n] Suc_diff_le)
  qed
qed simp

lemma fmt_hex_fixed:
  "0 \<le> i \<Longrightarrow> i < 16 ^ w \<Longrightarrow> 0 < w \<Longrightarrow> fmt_hex u w i = fixed_hex u w (nat i)"
  using nat_digits_fixed [of "nat i" w u] by (simp add: fmt_hex_def nat_less_iff)

lemma byte_hex_fixed: "byte_hex u b = fixed_hex u 2 (unat b)"
  using unsigned_less [of b, where ?'a = nat] by (simp add: byte_hex_def numeral_2_eq_2)

lemma fixed_hex_add:
  "fixed_hex u (v + w) n = fixed_hex u v (n div 16 ^ w) @ fixed_hex u w n"
  by (induction w arbitrary: n) (simp_all add: div_mult2_eq)

lemma fixed_hex_mod: "fixed_hex u w (n mod 16 ^ w) = fixed_hex u w n"
proof (induction w arbitrary: n)
  case (Suc w)
  have "n mod 16 ^ Suc w div 16 = n div 16 mod 16 ^ w"
    by (simp add: mod_mult2_eq)
  moreover have "n mod 16 ^ Suc w mod 16 = n mod 16"
    by (simp add: mod_mod_cancel)
  ultimately show ?case using Suc [of "n div 16"] by simp
qed simp

lemma fixed_hex_byte: "fixed_hex u 2 n = byte_hex u (of_nat n)"
  using fixed_hex_mod [of u 2 n]
  by (simp add: byte_hex_fixed unsigned_of_nat take_bit_eq_mod)

text \<open>A big-endian word or long written in hexadecimal is the hexadecimal text of its bytes.\<close>

lemma fmt_hex_byte: "fmt_hex u 2 (uint (b::byte)) = byte_hex u b"
  by (simp add: fmt_hex_fixed byte_hex_fixed)

lemma fmt_hex_word:
  "fmt_hex u 4 (uint (a::byte) * 256 + uint (b::byte)) = bytes_hex u [a, b]"
proof -
  have ab: "nat (uint a * 256 + uint b) = unat a * 256 + unat b"
    by (simp add: nat_add_distrib nat_mult_distrib)
  have "uint a \<le> 255" "uint b \<le> 255"
    using uint_byte_range(2) [of a] uint_byte_range(2) [of b] by linarith+
  then have lt: "uint a * 256 + uint b < 16 ^ 4" by simp
  let ?n = "unat a * 256 + unat b"
  have b: "unat b < 256" using unsigned_less [of b, where ?'a = nat] by simp
  then have "?n div 16 ^ 2 = unat a" "?n mod 16 ^ 2 = unat b" by simp_all
  with fixed_hex_add [of u 2 2 ?n] fixed_hex_mod [of u 2 ?n]
  have "fixed_hex u 4 ?n = fixed_hex u 2 (unat a) @ fixed_hex u 2 (unat b)"
    by simp
  then show ?thesis
    using lt by (simp add: fmt_hex_fixed ab bytes_hex_def byte_hex_fixed)
qed

section \<open>Lines, words, substrings, case\<close>

text \<open>\<open>str.splitlines\<close> and \<open>str.split()\<close>.\<close>

definition is_line_break :: "char \<Rightarrow> bool" where
  "is_line_break c \<longleftrightarrow> (of_char c :: nat) \<in> {10, 11, 12, 13, 28, 29, 30, 133}"

fun lines_acc :: "string \<Rightarrow> string \<Rightarrow> string list" where
  "lines_acc acc [] = (if acc = [] then [] else [rev acc])"
| "lines_acc acc (c # s) =
     (if is_line_break c then
        rev acc # lines_acc [] (if c = CHR 0x0D \<and> s \<noteq> [] \<and> hd s = CHR 0x0A then tl s else s)
      else lines_acc (c # acc) s)"

definition py_splitlines :: "string \<Rightarrow> string list" where
  "py_splitlines s = lines_acc [] s"

fun words_acc :: "string \<Rightarrow> string \<Rightarrow> string list" where
  "words_acc acc [] = (if acc = [] then [] else [rev acc])"
| "words_acc acc (c # s) =
     (if is_space c then (if acc = [] then words_acc [] s else rev acc # words_acc [] s)
      else words_acc (c # acc) s)"

definition py_words :: "string \<Rightarrow> string list" where
  "py_words s = words_acc [] s"

lemma line_break_space: "is_line_break c \<Longrightarrow> is_space c"
  by (auto simp: is_line_break_def is_space_def)

lemma space_no_break [simp]: "\<not> is_line_break (CHR '' '')"
  by (simp add: is_line_break_def)

lemma lines_acc_line:
  "\<forall>c \<in> set l. \<not> is_line_break c \<Longrightarrow>
   lines_acc acc (l @ CHR 0x0A # s) = rev (rev l @ acc) # lines_acc [] s"
  by (induction l arbitrary: acc) (simp_all add: is_line_break_def)

lemma words_acc_last: "\<forall>c \<in> set w. \<not> is_space c \<Longrightarrow> w \<noteq> [] \<or> acc \<noteq> [] \<Longrightarrow> words_acc acc w = [rev acc @ w]"
  by (induction w arbitrary: acc) auto

lemma words_acc_word:
  "\<forall>c \<in> set w. \<not> is_space c \<Longrightarrow> w \<noteq> [] \<or> acc \<noteq> [] \<Longrightarrow>
   words_acc acc (w @ CHR '' '' # s) = (rev acc @ w) # words_acc [] s"
  by (induction w arbitrary: acc) (auto simp: is_space_def)

text \<open>\<open>p in s\<close> for strings.\<close>

fun py_in :: "string \<Rightarrow> string \<Rightarrow> bool" where
  "py_in p [] = (p = [])"
| "py_in p (c # s) = (py_startswith (c # s) p \<or> py_in p s)"

text \<open>\<open>str.lower\<close> on latin-1.\<close>

definition lower_char :: "char \<Rightarrow> char" where
  "lower_char c =
     (let n = chr_code c
      in if (65 \<le> n \<and> n \<le> 90) \<or> (192 \<le> n \<and> n \<le> 222 \<and> n \<noteq> 215) then char_of (n + 32) else c)"

definition py_lower :: "string \<Rightarrow> string" where
  "py_lower s = map lower_char s"

text \<open>\<open>repr\<close> of a text.\<close>

definition repr_char :: "char \<Rightarrow> char \<Rightarrow> string" where
  "repr_char q c =
     (let n = chr_code c
      in if c = q \<or> n = 0x5C then [CHR 0x5C, c]
         else if n = 10 then [CHR 0x5C, CHR ''n''] else if n = 13 then [CHR 0x5C, CHR ''r''] else if n = 9 then [CHR 0x5C, CHR ''t'']
         else if n < 32 \<or> (127 \<le> n \<and> n \<le> 160) \<or> n = 173 then CHR 0x5C # CHR ''x'' # fmt_hex False 2 (int n)
         else [c])"

definition py_repr :: "string \<Rightarrow> string" where
  "py_repr s =
     (let q = (if CHR 0x27 \<in> set s \<and> CHR 0x22 \<notin> set s then CHR 0x22 else CHR 0x27)
      in q # concat (map (repr_char q) s) @ [q])"

lemma after_char_less: "c \<in> set s \<Longrightarrow> length (after_char c s) < length s"
  unfolding after_char_def by (induction s) auto

end
