(* ===== verification/Lvo.thy ===== *)
theory Lvo
  imports Pystr
begin

text \<open>
  The library vector tables of \<open>disasm.py\<close> (\<open>EXEC_LVOS\<close>, \<open>DOS_LVOS\<close>, \<open>INTUITION_LVOS\<close> and
  \<open>GFX_LVOS\<close>), \<open>ALL_LVOS\<close> and the lookup \<open>_lvo_name\<close> that tries them in that order. The
  tables are association lists in the order of the source, whose keys are distinct.
\<close>

section \<open>The tables\<close>

definition EXEC_LVOS :: "(int \<times> string) list" where
  "EXEC_LVOS =
    [(-0x1E, ''Supervisor''), (-0x24, ''execPrivate1''), (-0x2A, ''execPrivate2''),
     (-0x30, ''execPrivate3''), (-0x36, ''execPrivate4''), (-0x3C, ''execPrivate5''),
     (-0x42, ''execPrivate6''), (-0x48, ''InitCode''), (-0x4E, ''InitStruct''),
     (-0x54, ''MakeLibrary''), (-0x5A, ''MakeFunctions''), (-0x60, ''FindResident''),
     (-0x66, ''InitResident''), (-0x6C, ''Alert''), (-0x72, ''Debug''), (-0x78, ''Disable''),
     (-0x7E, ''Enable''), (-0x84, ''Forbid''), (-0x8A, ''Permit''), (-0x90, ''SetSR''),
     (-0x96, ''SuperState''), (-0x9C, ''UserState''), (-0xA2, ''SetIntVector''),
     (-0xA8, ''AddIntServer''), (-0xAE, ''RemIntServer''), (-0xB4, ''Cause''),
     (-0xBA, ''Allocate''), (-0xC0, ''Deallocate''), (-0xC6, ''AllocMem''),
     (-0xCC, ''AllocAbs''), (-0xD2, ''FreeMem''), (-0xD8, ''AvailMem''), (-0xDE, ''AllocEntry''),
     (-0xE4, ''FreeEntry''), (-0xEA, ''Insert''), (-0xF0, ''AddHead''), (-0xF6, ''AddTail''),
     (-0xFC, ''Remove''), (-0x102, ''RemHead''), (-0x108, ''RemTail''), (-0x10E, ''Enqueue''),
     (-0x114, ''FindName''), (-0x11A, ''AddTask''), (-0x120, ''RemTask''),
     (-0x126, ''FindTask''), (-0x12C, ''SetTaskPri''), (-0x132, ''SetSignal''),
     (-0x138, ''SetExcept''), (-0x13E, ''Wait''), (-0x144, ''Signal''),
     (-0x14A, ''AllocSignal''), (-0x150, ''FreeSignal''), (-0x156, ''AllocTrap''),
     (-0x15C, ''FreeTrap''), (-0x162, ''AddPort''), (-0x168, ''RemPort''), (-0x16E, ''PutMsg''),
     (-0x174, ''GetMsg''), (-0x17A, ''ReplyMsg''), (-0x180, ''WaitPort''),
     (-0x186, ''FindPort''), (-0x18C, ''AddLibrary''), (-0x192, ''RemLibrary''),
     (-0x198, ''OldOpenLibrary''), (-0x19E, ''CloseLibrary''), (-0x1A4, ''SetFunction''),
     (-0x1AA, ''SumLibrary''), (-0x1B0, ''AddDevice''), (-0x1B6, ''RemDevice''),
     (-0x1BC, ''OpenDevice''), (-0x1C2, ''CloseDevice''), (-0x1C8, ''DoIO''),
     (-0x1CE, ''SendIO''), (-0x1D4, ''CheckIO''), (-0x1DA, ''WaitIO''), (-0x1E0, ''AbortIO''),
     (-0x1E6, ''AddResource''), (-0x1EC, ''RemResource''), (-0x1F2, ''OpenResource''),
     (-0x1F8, ''execPrivate7''), (-0x1FE, ''execPrivate8''), (-0x204, ''execPrivate9''),
     (-0x20A, ''RawDoFmt''), (-0x210, ''GetCC''), (-0x216, ''TypeOfMem''), (-0x21C, ''Procure''),
     (-0x222, ''Vacate''), (-0x228, ''OpenLibrary''), (-0x22E, ''InitSemaphore''),
     (-0x234, ''ObtainSemaphore''), (-0x23A, ''ReleaseSemaphore''),
     (-0x240, ''AttemptSemaphore''), (-0x246, ''ObtainSemaphoreList''),
     (-0x24C, ''ReleaseSemaphoreList''), (-0x252, ''FindSemaphore''), (-0x258, ''AddSemaphore''),
     (-0x25E, ''RemSemaphore''), (-0x264, ''SumKickData''), (-0x26A, ''AddMemList''),
     (-0x270, ''CopyMem''), (-0x276, ''CopyMemQuick''), (-0x27C, ''CacheClearU''),
     (-0x282, ''CacheClearE''), (-0x288, ''CacheControl''), (-0x28E, ''CreateIORequest''),
     (-0x294, ''DeleteIORequest''), (-0x29A, ''CreateMsgPort''), (-0x2A0, ''DeleteMsgPort''),
     (-0x2A6, ''ObtainSemaphoreShared''), (-0x2AC, ''AllocVec''), (-0x2B2, ''FreeVec''),
     (-0x2B8, ''CreatePool''), (-0x2BE, ''DeletePool''), (-0x2C4, ''AllocPooled''),
     (-0x2CA, ''FreePooled''), (-0x2D0, ''AttemptSemaphoreShared''), (-0x2D6, ''ColdReboot''),
     (-0x2DC, ''StackSwap''), (-0x2E2, ''execPrivate10''), (-0x2E8, ''execPrivate11''),
     (-0x2EE, ''execPrivate12''), (-0x2F4, ''execPrivate13''), (-0x2FA, ''CachePreDMA''),
     (-0x300, ''CachePostDMA''), (-0x306, ''AddMemHandler''), (-0x30C, ''RemMemHandler''),
     (-0x312, ''ObtainQuickVector''), (-0x318, ''execPrivate14''), (-0x31E, ''execPrivate15''),
     (-0x324, ''execPrivate16''), (-0x32A, ''execPrivate17''), (-0x330, ''execPrivate18''),
     (-0x336, ''execPrivate19''), (-0x33C, ''NewMinList''), (-0x342, ''execPrivate20''),
     (-0x348, ''execPrivate21''), (-0x34E, ''execPrivate22''), (-0x354, ''execPrivate23''),
     (-0x35A, ''execPrivate24''), (-0x360, ''execPrivate25''), (-0x366, ''execPrivate26''),
     (-0x36C, ''execPrivate27''), (-0x372, ''execPrivate28''), (-0x378, ''execPrivate29''),
     (-0x37E, ''execPrivate30''), (-0x384, ''execPrivate31''), (-0x38A, ''execPrivate32''),
     (-0x390, ''execPrivate33'')]"

definition DOS_LVOS :: "(int \<times> string) list" where
  "DOS_LVOS =
    [(-0x1E, ''Open''), (-0x24, ''Close''), (-0x2A, ''Read''), (-0x30, ''Write''),
     (-0x36, ''Input''), (-0x3C, ''Output''), (-0x42, ''Seek''), (-0x48, ''DeleteFile''),
     (-0x4E, ''Rename''), (-0x54, ''Lock''), (-0x5A, ''UnLock''), (-0x60, ''DupLock''),
     (-0x66, ''Examine''), (-0x6C, ''ExNext''), (-0x72, ''Info''), (-0x78, ''CreateDir''),
     (-0x7E, ''CurrentDir''), (-0x84, ''IoErr''), (-0x8A, ''CreateProc''), (-0x90, ''Exit''),
     (-0x96, ''LoadSeg''), (-0x9C, ''UnLoadSeg''), (-0xA2, ''dosPrivate1''),
     (-0xA8, ''dosPrivate2''), (-0xAE, ''DeviceProc''), (-0xB4, ''SetComment''),
     (-0xBA, ''SetProtection''), (-0xC0, ''DateStamp''), (-0xC6, ''Delay''),
     (-0xCC, ''WaitForChar''), (-0xD2, ''ParentDir''), (-0xD8, ''IsInteractive''),
     (-0xDE, ''Execute''), (-0xE4, ''AllocDosObject''), (-0xEA, ''FreeDosObject''),
     (-0xF0, ''DoPkt''), (-0xF6, ''SendPkt''), (-0xFC, ''WaitPkt''), (-0x102, ''ReplyPkt''),
     (-0x108, ''AbortPkt''), (-0x10E, ''LockRecord''), (-0x114, ''LockRecords''),
     (-0x11A, ''UnLockRecord''), (-0x120, ''UnLockRecords''), (-0x126, ''SelectInput''),
     (-0x12C, ''SelectOutput''), (-0x132, ''FGetC''), (-0x138, ''FPutC''), (-0x13E, ''UnGetC''),
     (-0x144, ''FRead''), (-0x14A, ''FWrite''), (-0x150, ''FGets''), (-0x156, ''FPuts''),
     (-0x15C, ''VFWritef''), (-0x162, ''VFPrintf''), (-0x168, ''Flush''), (-0x16E, ''SetVBuf''),
     (-0x174, ''DupLockFromFH''), (-0x17A, ''OpenFromLock''), (-0x180, ''ParentOfFH''),
     (-0x186, ''ExamineFH''), (-0x18C, ''SetFileDate''), (-0x192, ''NameFromLock''),
     (-0x198, ''NameFromFH''), (-0x19E, ''SplitName''), (-0x1A4, ''SameLock''),
     (-0x1AA, ''SetMode''), (-0x1B0, ''ExAll''), (-0x1B6, ''ReadLink''), (-0x1BC, ''MakeLink''),
     (-0x1C2, ''ChangeMode''), (-0x1C8, ''SetFileSize''), (-0x1CE, ''SetIoErr''),
     (-0x1D4, ''Fault''), (-0x1DA, ''PrintFault''), (-0x1E0, ''ErrorReport''), (-0x1EC, ''Cli''),
     (-0x1F2, ''CreateNewProc''), (-0x1F8, ''RunCommand''), (-0x1FE, ''GetConsoleTask''),
     (-0x204, ''SetConsoleTask''), (-0x20A, ''GetFileSysTask''), (-0x210, ''SetFileSysTask''),
     (-0x216, ''GetArgStr''), (-0x21C, ''SetArgStr''), (-0x222, ''FindCliProc''),
     (-0x228, ''MaxCli''), (-0x22E, ''SetCurrentDirName''), (-0x234, ''GetCurrentDirName''),
     (-0x23A, ''SetProgramName''), (-0x240, ''GetProgramName''), (-0x246, ''SetPrompt''),
     (-0x24C, ''GetPrompt''), (-0x252, ''SetProgramDir''), (-0x258, ''GetProgramDir''),
     (-0x25E, ''SystemTagList''), (-0x264, ''AssignLock''), (-0x26A, ''AssignLate''),
     (-0x270, ''AssignPath''), (-0x276, ''AssignAdd''), (-0x27C, ''RemAssignList''),
     (-0x282, ''GetDeviceProc''), (-0x288, ''FreeDeviceProc''), (-0x28E, ''LockDosList''),
     (-0x294, ''UnLockDosList''), (-0x29A, ''AttemptLockDosList''), (-0x2A0, ''RemDosEntry''),
     (-0x2A6, ''AddDosEntry''), (-0x2AC, ''FindDosEntry''), (-0x2B2, ''NextDosEntry''),
     (-0x2B8, ''MakeDosEntry''), (-0x2BE, ''FreeDosEntry''), (-0x2C4, ''IsFileSystem''),
     (-0x2CA, ''Format''), (-0x2D0, ''Relabel''), (-0x2D6, ''Inhibit''),
     (-0x2DC, ''AddBuffers''), (-0x2E2, ''CompareDates''), (-0x2E8, ''DateToStr''),
     (-0x2EE, ''StrToDate''), (-0x2F4, ''InternalLoadSeg''), (-0x2FA, ''InternalUnLoadSeg''),
     (-0x300, ''NewLoadSeg''), (-0x306, ''AddSegment''), (-0x30C, ''FindSegment''),
     (-0x312, ''RemSegment''), (-0x318, ''CheckSignal''), (-0x31E, ''ReadArgs''),
     (-0x324, ''FindArg''), (-0x32A, ''ReadItem''), (-0x330, ''StrToLong''),
     (-0x336, ''MatchFirst''), (-0x33C, ''MatchNext''), (-0x342, ''MatchEnd''),
     (-0x348, ''ParsePattern''), (-0x34E, ''MatchPattern''), (-0x354, ''dosPrivate3''),
     (-0x35A, ''FreeArgs''), (-0x366, ''FilePart''), (-0x36C, ''PathPart''),
     (-0x372, ''AddPart''), (-0x378, ''StartNotify''), (-0x37E, ''EndNotify''),
     (-0x384, ''SetVar''), (-0x38A, ''GetVar''), (-0x390, ''DeleteVar''), (-0x396, ''FindVar''),
     (-0x39C, ''dosPrivate4''), (-0x3A2, ''CliInitNewcli''), (-0x3A8, ''CliInitRun''),
     (-0x3AE, ''WriteChars''), (-0x3B4, ''PutStr''), (-0x3BA, ''VPrintf''),
     (-0x3C0, ''dosPrivate5''), (-0x3C6, ''ParsePatternNoCase''),
     (-0x3CC, ''MatchPatternNoCase''), (-0x3D2, ''dosPrivate6''), (-0x3D8, ''SameDevice''),
     (-0x3DE, ''ExAllEnd''), (-0x3E4, ''SetOwner''), (-0x3F6, ''VolumeRequestHook''),
     (-0x3FC, ''dosPrivate7''), (-0x402, ''GetCurrentDir''), (-0x468, ''PutErrStr''),
     (-0x46E, ''ErrorOutput''), (-0x474, ''SelectError''), (-0x480, ''DoShellMethodTagList''),
     (-0x486, ''ScanStackToken'')]"

definition INTUITION_LVOS :: "(int \<times> string) list" where
  "INTUITION_LVOS =
    [(-0x1E, ''OpenIntuition''), (-0x24, ''Intuition''), (-0x2A, ''AddGadget''),
     (-0x30, ''ClearDMRequest''), (-0x36, ''ClearMenuStrip''), (-0x3C, ''ClearPointer''),
     (-0x42, ''CloseScreen''), (-0x48, ''CloseWindow''), (-0x4E, ''CloseWorkBench''),
     (-0x54, ''CurrentTime''), (-0x5A, ''DisplayAlert''), (-0x60, ''DisplayBeep''),
     (-0x66, ''DoubleClick''), (-0x6C, ''DrawBorder''), (-0x72, ''DrawImage''),
     (-0x78, ''EndRequest''), (-0x7E, ''GetDefPrefs''), (-0x84, ''GetPrefs''),
     (-0x8A, ''InitRequester''), (-0x90, ''ItemAddress''), (-0x96, ''ModifyIDCMP''),
     (-0x9C, ''ModifyProp''), (-0xA2, ''MoveScreen''), (-0xA8, ''MoveWindow''),
     (-0xAE, ''OffGadget''), (-0xB4, ''OffMenu''), (-0xBA, ''OnGadget''), (-0xC0, ''OnMenu''),
     (-0xC6, ''OpenScreen''), (-0xCC, ''OpenWindow''), (-0xD2, ''OpenWorkBench''),
     (-0xD8, ''PrintIText''), (-0xDE, ''RefreshGadgets''), (-0xE4, ''RemoveGadget''),
     (-0xEA, ''ReportMouse''), (-0xF0, ''Request''), (-0xF6, ''ScreenToBack''),
     (-0xFC, ''ScreenToFront''), (-0x102, ''SetDMRequest''), (-0x108, ''SetMenuStrip''),
     (-0x10E, ''SetPointer''), (-0x114, ''SetWindowTitles''), (-0x11A, ''ShowTitle''),
     (-0x120, ''SizeWindow''), (-0x126, ''ViewAddress''), (-0x12C, ''ViewPortAddress''),
     (-0x132, ''WindowToBack''), (-0x138, ''WindowToFront''), (-0x13E, ''WindowLimits''),
     (-0x144, ''SetPrefs''), (-0x14A, ''IntuiTextLength''), (-0x150, ''WBenchToBack''),
     (-0x156, ''WBenchToFront''), (-0x15C, ''AutoRequest''), (-0x162, ''BeginRefresh''),
     (-0x168, ''BuildSysRequest''), (-0x16E, ''EndRefresh''), (-0x174, ''FreeSysRequest''),
     (-0x17A, ''MakeScreen''), (-0x180, ''RemakeDisplay''), (-0x186, ''RethinkDisplay''),
     (-0x18C, ''AllocRemember''), (-0x192, ''AlohaWorkbench''), (-0x198, ''FreeRemember''),
     (-0x19E, ''LockIBase''), (-0x1A4, ''UnlockIBase''), (-0x1AA, ''GetScreenData''),
     (-0x1B0, ''RefreshGList''), (-0x1B6, ''AddGList''), (-0x1BC, ''RemoveGList''),
     (-0x1C2, ''ActivateWindow''), (-0x1C8, ''RefreshWindowFrame''),
     (-0x1CE, ''ActivateGadget''), (-0x1D4, ''NewModifyProp''), (-0x1DA, ''QueryOverscan''),
     (-0x1E0, ''MoveWindowInFrontOf''), (-0x1E6, ''ChangeWindowBox''), (-0x1EC, ''SetEditHook''),
     (-0x1F2, ''SetMouseQueue''), (-0x1F8, ''ZipWindow''), (-0x1FE, ''LockPubScreen''),
     (-0x204, ''UnlockPubScreen''), (-0x20A, ''LockPubScreenList''),
     (-0x210, ''UnlockPubScreenList''), (-0x216, ''NextPubScreen''),
     (-0x21C, ''SetDefaultPubScreen''), (-0x222, ''SetPubScreenModes''),
     (-0x228, ''PubScreenStatus''), (-0x22E, ''ObtainGIRPort''), (-0x234, ''ReleaseGIRPort''),
     (-0x23A, ''GadgetMouse''), (-0x240, ''intuitionPrivate1''),
     (-0x246, ''GetDefaultPubScreen''), (-0x24C, ''EasyRequestArgs''),
     (-0x252, ''BuildEasyRequestArgs''), (-0x258, ''SysReqHandler''),
     (-0x25E, ''OpenWindowTagList''), (-0x264, ''OpenScreenTagList''),
     (-0x26A, ''DrawImageState''), (-0x270, ''PointInImage''), (-0x276, ''EraseImage''),
     (-0x27C, ''NewObjectA''), (-0x282, ''DisposeObject''), (-0x288, ''SetAttrsA''),
     (-0x28E, ''GetAttr''), (-0x294, ''SetGadgetAttrsA''), (-0x29A, ''NextObject''),
     (-0x2A0, ''intuitionPrivate2''), (-0x2A6, ''MakeClass''), (-0x2AC, ''AddClass''),
     (-0x2B2, ''GetScreenDrawInfo''), (-0x2B8, ''FreeScreenDrawInfo''),
     (-0x2BE, ''ResetMenuStrip''), (-0x2C4, ''RemoveClass''), (-0x2CA, ''FreeClass''),
     (-0x2D0, ''intuitionPrivate3''), (-0x2D6, ''intuitionPrivate4''),
     (-0x300, ''AllocScreenBuffer''), (-0x306, ''FreeScreenBuffer''),
     (-0x30C, ''ChangeScreenBuffer''), (-0x312, ''ScreenDepth''), (-0x318, ''ScreenPosition''),
     (-0x31E, ''ScrollWindowRaster''), (-0x324, ''LendMenus''), (-0x32A, ''DoGadgetMethodA''),
     (-0x330, ''SetWindowPointerA''), (-0x336, ''TimedDisplayAlert''), (-0x33C, ''HelpControl''),
     (-0x342, ''ShowWindow''), (-0x348, ''HideWindow''), (-0x4BC, ''IntuitionControlA'')]"

definition GFX_LVOS :: "(int \<times> string) list" where
  "GFX_LVOS =
    [(-0x1E, ''BltBitMap''), (-0x24, ''BltTemplate''), (-0x2A, ''ClearEOL''),
     (-0x30, ''ClearScreen''), (-0x36, ''TextLength''), (-0x3C, ''Text''), (-0x42, ''SetFont''),
     (-0x48, ''OpenFont''), (-0x4E, ''CloseFont''), (-0x54, ''AskSoftStyle''),
     (-0x5A, ''SetSoftStyle''), (-0x60, ''AddBob''), (-0x66, ''AddVSprite''),
     (-0x6C, ''DoCollision''), (-0x72, ''DrawGList''), (-0x78, ''InitGels''),
     (-0x7E, ''InitMasks''), (-0x84, ''RemIBob''), (-0x8A, ''RemVSprite''),
     (-0x90, ''SetCollision''), (-0x96, ''SortGList''), (-0x9C, ''AddAnimOb''),
     (-0xA2, ''Animate''), (-0xA8, ''GetGBuffers''), (-0xAE, ''InitGMasks''),
     (-0xB4, ''DrawEllipse''), (-0xBA, ''AreaEllipse''), (-0xC0, ''LoadRGB4''),
     (-0xC6, ''InitRastPort''), (-0xCC, ''InitVPort''), (-0xD2, ''MrgCop''),
     (-0xD8, ''MakeVPort''), (-0xDE, ''LoadView''), (-0xE4, ''WaitBlit''), (-0xEA, ''SetRast''),
     (-0xF0, ''Move''), (-0xF6, ''Draw''), (-0xFC, ''AreaMove''), (-0x102, ''AreaDraw''),
     (-0x108, ''AreaEnd''), (-0x10E, ''WaitTOF''), (-0x114, ''QBlit''), (-0x11A, ''InitArea''),
     (-0x120, ''SetRGB4''), (-0x126, ''QBSBlit''), (-0x12C, ''BltClear''),
     (-0x132, ''RectFill''), (-0x138, ''BltPattern''), (-0x13E, ''ReadPixel''),
     (-0x144, ''WritePixel''), (-0x14A, ''Flood''), (-0x150, ''PolyDraw''),
     (-0x156, ''SetAPen''), (-0x15C, ''SetBPen''), (-0x162, ''SetDrMd''), (-0x168, ''InitView''),
     (-0x16E, ''CBump''), (-0x174, ''CMove''), (-0x17A, ''CWait''), (-0x180, ''VBeamPos''),
     (-0x186, ''InitBitMap''), (-0x18C, ''ScrollRaster''), (-0x192, ''WaitBOVP''),
     (-0x198, ''GetSprite''), (-0x19E, ''FreeSprite''), (-0x1A4, ''ChangeSprite''),
     (-0x1AA, ''MoveSprite''), (-0x1B0, ''LockLayerRom''), (-0x1B6, ''UnlockLayerRom''),
     (-0x1BC, ''SyncSBitMap''), (-0x1C2, ''CopySBitMap''), (-0x1C8, ''OwnBlitter''),
     (-0x1CE, ''DisownBlitter''), (-0x1D4, ''InitTmpRas''), (-0x1DA, ''AskFont''),
     (-0x1E0, ''AddFont''), (-0x1E6, ''RemFont''), (-0x1EC, ''AllocRaster''),
     (-0x1F2, ''FreeRaster''), (-0x1F8, ''AndRectRegion''), (-0x1FE, ''OrRectRegion''),
     (-0x204, ''NewRegion''), (-0x20A, ''ClearRectRegion''), (-0x210, ''ClearRegion''),
     (-0x216, ''DisposeRegion''), (-0x21C, ''FreeVPortCopLists''), (-0x222, ''FreeCopList''),
     (-0x228, ''ClipBlit''), (-0x22E, ''XorRectRegion''), (-0x234, ''FreeCprList''),
     (-0x23A, ''GetColorMap''), (-0x240, ''FreeColorMap''), (-0x246, ''GetRGB4''),
     (-0x24C, ''ScrollVPort''), (-0x252, ''UCopperListInit''), (-0x258, ''FreeGBuffers''),
     (-0x25E, ''BltBitMapRastPort''), (-0x264, ''OrRegionRegion''),
     (-0x26A, ''XorRegionRegion''), (-0x270, ''AndRegionRegion''), (-0x276, ''SetRGB4CM''),
     (-0x27C, ''BltMaskBitMapRastPort''), (-0x282, ''graphicsPrivate1''),
     (-0x288, ''graphicsPrivate2''), (-0x28E, ''AttemptLockLayerRom''), (-0x294, ''GfxNew''),
     (-0x29A, ''GfxFree''), (-0x2A0, ''GfxAssociate''), (-0x2A6, ''BitMapScale''),
     (-0x2AC, ''ScalerDiv''), (-0x2B2, ''TextExtent''), (-0x2B8, ''TextFit''),
     (-0x2BE, ''GfxLookUp''), (-0x2C4, ''VideoControl''), (-0x2CA, ''OpenMonitor''),
     (-0x2D0, ''CloseMonitor''), (-0x2D6, ''FindDisplayInfo''), (-0x2DC, ''NextDisplayInfo''),
     (-0x2E2, ''graphicsPrivate3''), (-0x2E8, ''graphicsPrivate4''),
     (-0x2EE, ''graphicsPrivate5''), (-0x2F4, ''GetDisplayInfoData''), (-0x2FA, ''FontExtent''),
     (-0x300, ''ReadPixelLine8''), (-0x306, ''WritePixelLine8''), (-0x30C, ''ReadPixelArray8''),
     (-0x312, ''WritePixelArray8''), (-0x318, ''GetVPModeID''), (-0x31E, ''ModeNotAvailable''),
     (-0x324, ''WeighTAMatch''), (-0x32A, ''EraseRect''), (-0x330, ''ExtendFont''),
     (-0x336, ''StripFont''), (-0x33C, ''CalcIVG''), (-0x342, ''AttachPalExtra''),
     (-0x348, ''ObtainBestPenA''), (-0x34E, ''graphicsPrivate6''), (-0x354, ''SetRGB32''),
     (-0x35A, ''GetAPen''), (-0x360, ''GetBPen''), (-0x366, ''GetDrMd''),
     (-0x36C, ''GetOutlinePen''), (-0x372, ''LoadRGB32''), (-0x378, ''SetChipRev''),
     (-0x37E, ''SetABPenDrMd''), (-0x384, ''GetRGB32''), (-0x38A, ''graphicsPrivate7''),
     (-0x390, ''graphicsPrivate8''), (-0x396, ''AllocBitMap''), (-0x39C, ''FreeBitMap''),
     (-0x3A2, ''GetExtSpriteA''), (-0x3A8, ''CoerceMode''), (-0x3AE, ''ChangeVPBitMap''),
     (-0x3B4, ''ReleasePen''), (-0x3BA, ''ObtainPen''), (-0x3C0, ''GetBitMapAttr''),
     (-0x3C6, ''AllocDBufInfo''), (-0x3CC, ''FreeDBufInfo''), (-0x3D2, ''SetOutlinePen''),
     (-0x3D8, ''SetWriteMask''), (-0x3DE, ''SetMaxPen''), (-0x3E4, ''SetRGB32CM''),
     (-0x3EA, ''ScrollRasterBF''), (-0x3F0, ''FindColor''), (-0x3F6, ''graphicsPrivate9''),
     (-0x3FC, ''AllocSpriteDataA''), (-0x402, ''ChangeExtSpriteA''),
     (-0x408, ''FreeSpriteData''), (-0x40E, ''SetRPAttrsA''), (-0x414, ''GetRPAttrsA''),
     (-0x41A, ''BestModeIDA''), (-0x420, ''WriteChunkyPixels'')]"

text \<open>\<open>ALL_LVOS\<close>, exec first.\<close>

definition ALL_LVOS :: "(string \<times> (int \<times> string) list) list" where
  "ALL_LVOS = [(''exec'', EXEC_LVOS), (''dos'', DOS_LVOS), (''intuition'', INTUITION_LVOS),
               (''gfx'', GFX_LVOS)]"

text \<open>\<open>_lvo_name\<close>: the first table with a (non-empty) name for the offset.\<close>

fun lvo_search :: "(string \<times> (int \<times> string) list) list \<Rightarrow> int \<Rightarrow> string option" where
  "lvo_search [] off = None"
| "lvo_search ((lib, table) # rest) off =
     (case map_of table off of
        None \<Rightarrow> lvo_search rest off
      | Some name \<Rightarrow>
          if name = [] then lvo_search rest off
          else Some (if lib \<noteq> ''exec'' then name @ '' ['' @ lib @ '']'' else name))"

definition lvo_name :: "int \<Rightarrow> string option" where
  "lvo_name off = lvo_search ALL_LVOS off"

section \<open>The tables are well formed\<close>

text \<open>Offsets descend, so no key is given twice; each is a jump slot of six bytes.\<close>

fun descending :: "int list \<Rightarrow> bool" where
  "descending (a # b # xs) = (b < a \<and> descending (b # xs))"
| "descending _ = True"

lemma descending_below: "descending (a # xs) \<Longrightarrow> x \<in> set xs \<Longrightarrow> x < a"
proof (induction xs arbitrary: a)
  case Nil
  then show ?case by simp
next
  case (Cons b xs)
  show ?case
  proof (cases "x = b")
    case True
    with Cons.prems show ?thesis by simp
  next
    case False
    with Cons.prems have "x < b" by (intro Cons.IH) simp_all
    with Cons.prems show ?thesis by simp
  qed
qed

lemma descending_distinct: "descending xs \<Longrightarrow> distinct xs"
proof (induction xs)
  case Nil
  then show ?case by simp
next
  case (Cons a xs)
  then have "descending xs" by (cases xs) simp_all
  with Cons descending_below [of a xs] show ?case by force
qed

definition vector_table :: "(int \<times> string) list \<Rightarrow> bool" where
  "vector_table t \<longleftrightarrow>
     descending (map fst t) \<and>
     list_all (\<lambda>(k, n). k \<le> -30 \<and> -32768 \<le> k \<and> k mod 6 = 0 \<and> n \<noteq> []) t"

lemma vector_tables:
  "vector_table EXEC_LVOS" "vector_table DOS_LVOS"
  "vector_table INTUITION_LVOS" "vector_table GFX_LVOS"
  by code_simp+

end
