(* ===== verification/Disasm_Stream.thy ===== *)
theory Disasm_Stream
  imports Lvo
begin

text \<open>
  The instruction stream of \<open>disasm.py\<close> and the operand decoders that read it. A record
  \<open>stream\<close> is the class \<open>_Stream\<close>; a \<open>reader\<close> is a method or function that advances it and may
  raise. \<open>decode_ea\<close> and \<open>decode_brief_ext\<close> render effective addresses and \<open>movem_reglist\<close>
  register masks. The lemmas bound how many words a reader takes (\<open>reads\<close>), show what the
  readers return on the words of the stream, and that the text of a register list names
  exactly the registers of its mask.
\<close>

section \<open>The stream and its readers\<close>

record stream =
  sdata :: "byte list"
  sbase :: int
  spos :: nat

text \<open>\<open>_Stream.__init__\<close>, \<open>addr\<close> and \<open>has\<close>.\<close>

definition new_stream :: "byte list \<Rightarrow> int \<Rightarrow> stream" where
  "new_stream data base_addr = \<lparr>sdata = data, sbase = base_addr, spos = 0\<rparr>"

definition saddr :: "stream \<Rightarrow> int" where
  "saddr s = sbase s + int (spos s)"

definition shas :: "nat \<Rightarrow> stream \<Rightarrow> bool" where
  "shas n s \<longleftrightarrow> spos s + n \<le> length (sdata s)"

type_synonym 'a reader = "stream \<Rightarrow> ('a \<times> stream) res"

definition ret :: "'a \<Rightarrow> 'a reader" where
  "ret x s = Inr (x, s)"

definition rbind :: "'a reader \<Rightarrow> ('a \<Rightarrow> 'b reader) \<Rightarrow> 'b reader" where
  "rbind m f s = res_bind (m s) (\<lambda>(x, t). f x t)"

definition rlift :: "'a res \<Rightarrow> 'a reader" where
  "rlift r s = res_bind r (\<lambda>x. Inr (x, s))"

definition here :: "int reader" where
  "here s = Inr (saddr s, s)"

definition rd_word :: "int reader" where
  "rd_word s =
     (if length (sdata s) < spos s + 2 then Inl EndOfData
      else Inr (push_bit 8 (uint (sdata s ! spos s)) OR uint (sdata s ! (spos s + 1)),
                s\<lparr>spos := spos s + 2\<rparr>))"

definition rd_sword :: "int reader" where
  "rd_sword = rbind rd_word (\<lambda>w. ret (if 0x8000 \<le> w then w - 0x10000 else w))"

definition rd_long :: "int reader" where
  "rd_long = rbind rd_word (\<lambda>hi. rbind rd_word (\<lambda>lo. ret (push_bit 16 hi OR lo)))"

definition rd_slong :: "int reader" where
  "rd_slong = rbind rd_long (\<lambda>v. ret (if 0x80000000 \<le> v then v - 0x100000000 else v))"

text \<open>\<open>hex_between\<close>: the bytes of a slice in upper-case hexadecimal.\<close>

definition hex_between :: "stream \<Rightarrow> nat \<Rightarrow> nat \<Rightarrow> string" where
  "hex_between s a b = bytes_hex True (take (b - a) (drop a (sdata s)))"

section \<open>Effective addresses\<close>

text \<open>\<open>SIZE_NAMES[size]\<close>, which raises KeyError out of range, and \<open>CC_NAMES[cond]\<close>.\<close>

definition SIZE_NAMES :: "(int \<times> string) list" where
  "SIZE_NAMES = [(0, ''.B''), (1, ''.W''), (2, ''.L'')]"

definition CC_NAMES :: "(int \<times> string) list" where
  "CC_NAMES =
     [(0x0, ''T''), (0x1, ''F''), (0x2, ''HI''), (0x3, ''LS''),
      (0x4, ''CC''), (0x5, ''CS''), (0x6, ''NE''), (0x7, ''EQ''),
      (0x8, ''VC''), (0x9, ''VS''), (0xA, ''PL''), (0xB, ''MI''),
      (0xC, ''GE''), (0xD, ''LT''), (0xE, ''GT''), (0xF, ''LE'')]"

definition int_key :: "(int \<times> 'a) list \<Rightarrow> int \<Rightarrow> 'a res" where
  "int_key t k = (case map_of t k of None \<Rightarrow> Inl (KeyError (fmt_dec k)) | Some v \<Rightarrow> Inr v)"

definition decode_brief_ext :: "string \<Rightarrow> int option \<Rightarrow> string reader" where
  "decode_brief_ext base ref_addr = rbind rd_word (\<lambda>ext.
     let da = (if ext AND 0x8000 \<noteq> 0 then ''A'' else ''D'');
         xreg = drop_bit 12 ext AND 7;
         wl = (if ext AND 0x0800 \<noteq> 0 then ''.L'' else ''.W'');
         disp0 = ext AND 0xFF;
         disp = (if 0x80 \<le> disp0 then disp0 - 0x100 else disp0);
         index = ''('' @ base @ '','' @ da @ fmt_dec xreg @ wl @ '')''
     in case ref_addr of
          Some r \<Rightarrow>
            if base = ''PC'' then ret (''$'' @ fmt_hex True 8 (r + disp) @ index)
            else ret (fmt_dec disp @ index)
        | None \<Rightarrow> ret (fmt_dec disp @ index))"

definition decode_ea :: "int \<Rightarrow> int \<Rightarrow> int \<Rightarrow> int option \<Rightarrow> string reader" where
  "decode_ea mode reg sz pc_addr =
     (if mode = 0 then ret (''D'' @ fmt_dec reg)
      else if mode = 1 then ret (''A'' @ fmt_dec reg)
      else if mode = 2 then ret (''(A'' @ fmt_dec reg @ '')'')
      else if mode = 3 then ret (''(A'' @ fmt_dec reg @ '')+'')
      else if mode = 4 then ret (''-(A'' @ fmt_dec reg @ '')'')
      else if mode = 5 then rbind rd_sword (\<lambda>d16.
        let plain = fmt_dec d16 @ ''(A'' @ fmt_dec reg @ '')''
        in case (if reg = 6 \<and> d16 < 0 then lvo_name d16 else None) of
             Some lvo \<Rightarrow> ret (plain @ ''  ; '' @ lvo)
           | None \<Rightarrow> ret plain)
      else if mode = 6 then decode_brief_ext (''A'' @ fmt_dec reg) None
      else if mode = 7 then
        (if reg = 0 then rbind rd_sword (\<lambda>a. ret (''$'' @ fmt_hex True 4 (a AND 0xFFFF) @ ''.W''))
         else if reg = 1 then rbind rd_long (\<lambda>a. ret (''$'' @ fmt_hex True 8 a))
         else if reg = 2 then rbind here (\<lambda>h.
           let ref_addr = (case pc_addr of Some a \<Rightarrow> a | None \<Rightarrow> h)
           in rbind rd_sword (\<lambda>d16. ret (''$'' @ fmt_hex True 8 (ref_addr + d16) @ ''(PC)'')))
         else if reg = 3 then rbind here (\<lambda>h.
           let ref_addr = (case pc_addr of Some a \<Rightarrow> a | None \<Rightarrow> h)
           in decode_brief_ext ''PC'' (Some ref_addr))
         else if reg = 4 then
           (if sz = 0 then rbind rd_word (\<lambda>v. ret (''#$'' @ fmt_hex True 2 (v AND 0xFF)))
            else if sz = 1 then rbind rd_word (\<lambda>v. ret (''#$'' @ fmt_hex True 4 v))
            else rbind rd_long (\<lambda>v. ret (''#$'' @ fmt_hex True 8 v)))
         else ret ''???'')
      else ret ''???'')"

definition decode_ea_from_word :: "int \<Rightarrow> int \<Rightarrow> string reader" where
  "decode_ea_from_word opword sz =
     rbind here (\<lambda>pc_addr. decode_ea (drop_bit 3 opword AND 7) (opword AND 7) sz (Some pc_addr))"

definition decode_ea_dst :: "int \<Rightarrow> int \<Rightarrow> string reader" where
  "decode_ea_dst opword sz =
     rbind here (\<lambda>pc_addr.
       decode_ea (drop_bit 6 opword AND 7) (drop_bit 9 opword AND 7) sz (Some pc_addr))"

section \<open>MOVEM register lists\<close>

text \<open>\<open>if mask & (1 << i): new_mask |= 1 << (15 - i)\<close> for the sixteen bits.\<close>

definition has_bit :: "int \<Rightarrow> nat \<Rightarrow> bool" where
  "has_bit msk i \<longleftrightarrow> msk AND push_bit i 1 \<noteq> 0"

definition reverse_mask :: "int \<Rightarrow> int" where
  "reverse_mask msk =
     fold (\<lambda>i new_mask. if has_bit msk i then new_mask OR push_bit (15 - i) 1 else new_mask)
       [0..<16] 0"

text \<open>The inner loop runs \<open>i\<close> to the end of a run of set bits; the outer one collects runs.\<close>

function movem_run :: "int \<Rightarrow> nat \<Rightarrow> nat \<Rightarrow> nat" where
  "movem_run msk base_bit i =
     (if i < 7 \<and> has_bit msk (base_bit + i + 1) then movem_run msk base_bit (i + 1) else i)"
  by pat_completeness auto
termination by (relation "measure (\<lambda>(m, b, i). 7 - i)") auto

declare movem_run.simps [simp del]

lemma movem_run_le: "i \<le> movem_run msk b i"
  by (induction msk b i rule: movem_run.induct) (simp add: movem_run.simps)

lemma movem_run_less: "i < 8 \<Longrightarrow> 7 - movem_run msk b i < 8 - i"
  using movem_run_le [of i msk b] by linarith

definition run_text :: "string \<Rightarrow> nat \<Rightarrow> nat \<Rightarrow> string" where
  "run_text prefix start i =
     (if start < i then prefix @ fmt_dec (int start) @ ''-'' @ prefix @ fmt_dec (int i)
      else prefix @ fmt_dec (int start))"

function movem_regs :: "int \<Rightarrow> string \<Rightarrow> nat \<Rightarrow> nat \<Rightarrow> string list \<Rightarrow> string list" where
  "movem_regs msk prefix base_bit i regs =
     (if i < 8 then
        (if has_bit msk (base_bit + i) then
           let e = movem_run msk base_bit i
           in movem_regs msk prefix base_bit (e + 1) (regs @ [run_text prefix i e])
         else movem_regs msk prefix base_bit (i + 1) regs)
      else regs)"
  by pat_completeness auto
termination
  by (relation "measure (\<lambda>(m, p, b, i, r). 8 - i)") (auto simp: movem_run_less)

declare movem_regs.simps [simp del]

definition movem_reglist :: "int \<Rightarrow> bool \<Rightarrow> string" where
  "movem_reglist mask0 reverse =
     (let msk = (if reverse then reverse_mask mask0 else mask0);
          regs = movem_regs msk ''A'' 8 0 (movem_regs msk ''D'' 0 0 [])
      in if regs \<noteq> [] then py_join ''/'' regs else ''0'')"

section \<open>What a reader takes\<close>

text \<open>
  \<open>reads n m\<close>: \<open>m\<close> takes at most \<open>n\<close> words and changes nothing but the position; the only
  exception it raises is \<open>EndOfData\<close>, and only when fewer than \<open>n\<close> words are left; and what it
  returns does not depend on the data after the words it took.
\<close>

definition more_data :: "byte list \<Rightarrow> stream \<Rightarrow> stream" where
  "more_data ext s = s\<lparr>sdata := sdata s @ ext\<rparr>"

definition reads :: "nat \<Rightarrow> 'a reader \<Rightarrow> bool" where
  "reads n m \<longleftrightarrow> (\<forall>s.
     (\<forall>e. m s = Inl e \<longrightarrow> e = EndOfData \<and> length (sdata s) < spos s + 2 * n) \<and>
     (\<forall>x t. m s = Inr (x, t) \<longrightarrow>
        (\<exists>k \<le> n. t = s\<lparr>spos := spos s + 2 * k\<rparr> \<and> (k = 0 \<or> spos t \<le> length (sdata s))) \<and>
        (\<forall>ext. m (more_data ext s) = Inr (x, more_data ext t))))"

lemma reads_Inl:
  "reads n m \<Longrightarrow> m s = Inl e \<Longrightarrow> e = EndOfData \<and> length (sdata s) < spos s + 2 * n"
  unfolding reads_def by blast

lemma reads_Inr:
  assumes "reads n m" and "m s = Inr (x, t)"
  obtains k where "k \<le> n" and "t = s\<lparr>spos := spos s + 2 * k\<rparr>"
    and "k = 0 \<or> spos t \<le> length (sdata s)"
  using assms unfolding reads_def by blast

lemma reads_more:
  "reads n m \<Longrightarrow> m s = Inr (x, t) \<Longrightarrow> m (more_data ext s) = Inr (x, more_data ext t)"
  unfolding reads_def by blast

named_theorems reads_intro

lemma reads_ret [reads_intro]: "reads n (ret x)"
  unfolding reads_def ret_def by (auto intro: exI [of _ 0])

lemma reads_bind:
  assumes m: "reads a m" and le: "a \<le> n" and f: "\<And>x. reads (n - a) (f x)"
  shows "reads n (rbind m f)"
  unfolding reads_def
proof (intro allI conjI impI)
  fix s e
  assume fail: "rbind m f s = Inl e"
  show "e = EndOfData"
    using fail reads_Inl [OF m] reads_Inl [OF f] by (auto simp: rbind_def res_inv)
  show "length (sdata s) < spos s + 2 * n"
  proof (cases "m s")
    case (Inl e')
    then show ?thesis using reads_Inl [OF m Inl] le by simp
  next
    case (Inr r)
    then obtain x t where r: "m s = Inr (x, t)" by (cases r) simp
    obtain k where k: "k \<le> a" "t = s\<lparr>spos := spos s + 2 * k\<rparr>"
      using reads_Inr [OF m r] by metis
    have "f x t = Inl e" using fail r by (simp add: rbind_def)
    then have "length (sdata t) < spos t + 2 * (n - a)" using reads_Inl [OF f] by blast
    with k le show ?thesis by simp
  qed
next
  fix s y u
  assume "rbind m f s = Inr (y, u)"
  then obtain x t where r: "m s = Inr (x, t)" and q: "f x t = Inr (y, u)"
    by (auto simp: rbind_def res_inv)
  obtain k where k: "k \<le> a" "t = s\<lparr>spos := spos s + 2 * k\<rparr>" "k = 0 \<or> spos t \<le> length (sdata s)"
    using reads_Inr [OF m r] by metis
  obtain j where j: "j \<le> n - a" "u = t\<lparr>spos := spos t + 2 * j\<rparr>" "j = 0 \<or> spos u \<le> length (sdata t)"
    using reads_Inr [OF f q] by metis
  show "\<exists>k \<le> n. u = s\<lparr>spos := spos s + 2 * k\<rparr> \<and> (k = 0 \<or> spos u \<le> length (sdata s))"
    using k j le by (intro exI [of _ "k + j"]) auto
  fix ext
  show "rbind m f (more_data ext s) = Inr (y, more_data ext u)"
    using reads_more [OF m r] reads_more [OF f q] by (simp add: rbind_def)
qed

lemma reads_mono: "reads a m \<Longrightarrow> a \<le> n \<Longrightarrow> reads n m"
  unfolding reads_def by (meson le_trans less_le_trans mult_le_mono2 nat_add_left_cancel_le)

lemma reads_here: "reads 0 here"
  unfolding reads_def here_def by (auto simp: more_data_def saddr_def intro: exI [of _ 0])

lemma reads_word: "reads 1 rd_word"
  unfolding reads_def rd_word_def by (auto simp: more_data_def nth_append)

lemmas reads_bind_word [reads_intro] = reads_bind [OF reads_here] reads_bind [OF reads_word]

lemma reads_if [reads_intro]:
  "(c \<Longrightarrow> reads n a) \<Longrightarrow> (\<not> c \<Longrightarrow> reads n b) \<Longrightarrow> reads n (if c then a else b)"
  by simp

lemma reads_option [reads_intro]:
  "reads n a \<Longrightarrow> (\<And>x. reads n (f x)) \<Longrightarrow> reads n (case z of None \<Rightarrow> a | Some x \<Rightarrow> f x)"
  by (cases z) simp_all

lemma reads_pair [reads_intro]:
  "(\<And>x y. reads n (f x y)) \<Longrightarrow> reads n (case z of (x, y) \<Rightarrow> f x y)"
  by (cases z) simp

lemma reads_Let [reads_intro]: "(\<And>x. x = v \<Longrightarrow> reads n (f x)) \<Longrightarrow> reads n (Let v f)"
  by simp

lemma reads_long: "reads 2 rd_long"
  unfolding rd_long_def by (intro reads_intro) simp_all

lemma reads_sword: "reads 1 rd_sword"
  unfolding rd_sword_def by (intro reads_intro) simp_all

lemmas reads_bind_long [reads_intro] = reads_bind [OF reads_long] reads_bind [OF reads_sword]

lemma reads_slong: "reads 2 rd_slong"
  unfolding rd_slong_def by (intro reads_intro) simp_all

lemma reads_key: "map_of t k \<noteq> None \<Longrightarrow> reads 0 (rlift (int_key t k))"
  unfolding reads_def rlift_def int_key_def by (auto intro: exI [of _ 0])

lemmas reads_bind_slong [reads_intro] = reads_bind [OF reads_slong] reads_bind [OF reads_key]

lemma reads_brief: "reads 1 (decode_brief_ext base r)"
  unfolding decode_brief_ext_def by (intro reads_intro) simp_all

lemmas reads_tail_brief [reads_intro] = reads_mono [OF reads_brief]

lemma reads_ea: "reads 2 (decode_ea mode reg sz pc_addr)"
  unfolding decode_ea_def by (intro reads_intro) simp_all

lemmas reads_ea_use [reads_intro] = reads_mono [OF reads_ea] reads_bind [OF reads_ea]

lemma reads_ea_from_word: "reads 2 (decode_ea_from_word op sz)"
  unfolding decode_ea_from_word_def by (intro reads_intro) simp_all

lemma reads_ea_dst: "reads 2 (decode_ea_dst op sz)"
  unfolding decode_ea_dst_def by (intro reads_intro) simp_all

lemmas reads_ea_word_use [reads_intro] =
  reads_mono [OF reads_ea_from_word] reads_bind [OF reads_ea_from_word]

lemma size_key: "k \<noteq> 3 \<Longrightarrow> k = x AND 3 \<Longrightarrow> \<exists>v. map_of SIZE_NAMES k = Some v"
  using and_3_cases [of x] by (auto simp: SIZE_NAMES_def)

lemma cc_key: "\<exists>v. map_of CC_NAMES (x AND 15) = Some v"
proof -
  have "\<forall>k \<in> set [0..15]. map_of CC_NAMES k \<noteq> None" by code_simp
  moreover have "x AND 15 \<in> set [0..15]" by (simp add: bit_field)
  ultimately show ?thesis by blast
qed

end
