(* ===== verification/Disasm.thy ===== *)
theory Disasm
  imports Disasm_Stream
begin

text \<open>
  The instruction decoders of \<open>disasm.py\<close>: one definition per \<open>_decode_*\<close> function, in the
  order of the source, and \<open>decode_one\<close>, which dispatches on the top four bits of the
  instruction word. \<open>Inr (None, s)\<close> is the source's \<open>return None\<close>.
\<close>

type_synonym decoder = "string option reader"

definition say :: "string \<Rightarrow> decoder" where
  "say t = ret (Some t)"

definition refuse :: decoder where
  "refuse = ret None"

section \<open>Groups 0000 to 0011\<close>

definition bit_op_name :: "int \<Rightarrow> string" where
  "bit_op_name k = fmt_left 9 ([''BTST'', ''BCHG'', ''BCLR'', ''BSET''] ! nat k)"

definition decode_imm_op :: "int \<Rightarrow> string \<Rightarrow> int \<Rightarrow> decoder" where
  "decode_imm_op op name size_bits =
     rbind (rlift (int_key SIZE_NAMES size_bits)) (\<lambda>sz.
     rbind (if size_bits = 0 then
              rbind rd_word (\<lambda>w. let imm = w AND 0xFF in ret (''#$'' @ fmt_hex True 2 imm))
            else if size_bits = 1 then
              rbind rd_word (\<lambda>imm. ret (''#$'' @ fmt_hex True 4 imm))
            else
              rbind rd_long (\<lambda>imm. ret (''#$'' @ fmt_hex True 8 imm))) (\<lambda>imm_str.
     rbind (decode_ea_from_word op size_bits) (\<lambda>ea.
       say (name @ fmt_left 4 sz @ '' '' @ imm_str @ '','' @ ea))))"

text \<open>\<open>ORI\<close>, \<open>ANDI\<close> and \<open>EORI\<close> to \<open>CCR\<close> and \<open>SR\<close> have instruction words of their own.\<close>

definition decode_logic_imm :: "int \<Rightarrow> string \<Rightarrow> int \<Rightarrow> int \<Rightarrow> int \<Rightarrow> decoder" where
  "decode_logic_imm op name size_bits ccr sr =
     (if size_bits = 3 then refuse
      else if op = ccr then
        rbind rd_word (\<lambda>w. let val = w AND 0xFF in
          say (fmt_left 9 name @ ''#$'' @ fmt_hex True 2 val @ '',CCR''))
      else if op = sr then
        rbind rd_word (\<lambda>val. say (fmt_left 9 name @ ''#$'' @ fmt_hex True 4 val @ '',SR''))
      else decode_imm_op op name size_bits)"

definition decode_0000 :: "int \<Rightarrow> decoder" where
  "decode_0000 op =
     (if op AND 0x0100 \<noteq> 0 then
        (let dreg = drop_bit 9 op AND 7; mode = drop_bit 3 op AND 7; reg = op AND 7;
             bit_ops =
               (let bit_op = drop_bit 6 op AND 3
                in rbind (decode_ea_from_word op 0) (\<lambda>ea.
                     say (bit_op_name bit_op @ ''D'' @ fmt_dec dreg @ '','' @ ea)))
         in if mode = 1 then
              (let opmode = drop_bit 6 op AND 7
               in rbind rd_sword (\<lambda>disp.
                    let mem = fmt_dec disp @ ''(A'' @ fmt_dec reg @ '')''
                    in if opmode = 4 then say (''MOVEP.W  '' @ mem @ '',D'' @ fmt_dec dreg)
                       else if opmode = 5 then say (''MOVEP.L  '' @ mem @ '',D'' @ fmt_dec dreg)
                       else if opmode = 6 then say (''MOVEP.W  D'' @ fmt_dec dreg @ '','' @ mem)
                       else if opmode = 7 then say (''MOVEP.L  D'' @ fmt_dec dreg @ '','' @ mem)
                       else bit_ops))
            else bit_ops)
      else
        (let sub_op = drop_bit 9 op AND 7; size_bits = drop_bit 6 op AND 3
         in if sub_op = 0 then decode_logic_imm op ''ORI'' size_bits 0x003C 0x007C
            else if sub_op = 1 then decode_logic_imm op ''ANDI'' size_bits 0x023C 0x027C
            else if sub_op = 2 then
              (if size_bits = 3 then refuse else decode_imm_op op ''SUBI'' size_bits)
            else if sub_op = 3 then
              (if size_bits = 3 then refuse else decode_imm_op op ''ADDI'' size_bits)
            else if sub_op = 4 then
              (let bit_op = drop_bit 6 op AND 3
               in rbind rd_word (\<lambda>w. let bit_num = w AND 0xFF in
                  rbind (decode_ea_from_word op 0) (\<lambda>ea.
                    say (bit_op_name bit_op @ ''#'' @ fmt_dec bit_num @ '','' @ ea))))
            else if sub_op = 5 then decode_logic_imm op ''EORI'' size_bits 0x0A3C 0x0A7C
            else if sub_op = 6 then
              (if size_bits = 3 then refuse else decode_imm_op op ''CMPI'' size_bits)
            else refuse))"

text \<open>\<open>size_map = {0x1: 0, 0x3: 1, 0x2: 2}\<close>\<close>

definition size_map :: "(int \<times> int) list" where
  "size_map = [(1, 0), (3, 1), (2, 2)]"

definition decode_move :: "int \<Rightarrow> int \<Rightarrow> decoder" where
  "decode_move op top4 =
     rbind (rlift (int_key size_map top4)) (\<lambda>sb.
     rbind (rlift (int_key SIZE_NAMES sb)) (\<lambda>sz.
       let dst_reg = drop_bit 9 op AND 7; dst_mode = drop_bit 6 op AND 7 in
       rbind here (\<lambda>pc_addr.
       let src_mode = drop_bit 3 op AND 7; src_reg = op AND 7 in
       rbind (decode_ea src_mode src_reg sb (Some pc_addr)) (\<lambda>src.
         if dst_mode = 1 then
           (if sb = 0 then refuse
            else let dst = ''A'' @ fmt_dec dst_reg
                 in say (''MOVEA'' @ fmt_left 3 sz @ '' '' @ src @ '','' @ dst))
         else
           rbind here (\<lambda>pc_addr2.
           rbind (decode_ea dst_mode dst_reg sb (Some pc_addr2)) (\<lambda>dst.
             say (''MOVE'' @ fmt_left 4 sz @ '' '' @ src @ '','' @ dst)))))))"

section \<open>Group 0100\<close>

text \<open>The unary operations: \<open>f"NEG{SIZE_NAMES[size_bits]:5s}{ea}"\<close> and its like.\<close>

definition unary_op :: "int \<Rightarrow> int \<Rightarrow> string \<Rightarrow> nat \<Rightarrow> string \<Rightarrow> decoder" where
  "unary_op op size_bits name w gap =
     rbind (decode_ea_from_word op size_bits) (\<lambda>ea.
     rbind (rlift (int_key SIZE_NAMES size_bits)) (\<lambda>sz. say (name @ fmt_left w sz @ gap @ ea)))"

definition with_ea :: "int \<Rightarrow> int \<Rightarrow> string \<Rightarrow> string \<Rightarrow> decoder" where
  "with_ea op sz pre post =
     rbind (decode_ea_from_word op sz) (\<lambda>ea. say (pre @ ea @ post))"

definition decode_0100 :: "int \<Rightarrow> decoder" where
  "decode_0100 op =
     (let reg = op AND 7; size_bits = drop_bit 6 op AND 3
      in if op = 0x4E70 then say ''RESET''
         else if op = 0x4E71 then say ''NOP''
         else if op = 0x4E72 then
           rbind rd_word (\<lambda>val. say (''STOP     #$'' @ fmt_hex True 4 val))
         else if op = 0x4E73 then say ''RTE''
         else if op = 0x4E75 then say ''RTS''
         else if op = 0x4E76 then say ''TRAPV''
         else if op = 0x4E77 then say ''RTR''
         else if op = 0x4AFC then say ''ILLEGAL''
         else if op AND 0xFFF0 = 0x4E40 then
           (let vec = op AND 0xF in say (''TRAP     #'' @ fmt_dec vec))
         else if op AND 0xFFF8 = 0x4E50 then
           rbind rd_sword (\<lambda>disp.
             say (''LINK     A'' @ fmt_dec reg @ '',#$'' @ fmt_hex True 4 (disp AND 0xFFFF)))
         else if op AND 0xFFF8 = 0x4E58 then say (''UNLK     A'' @ fmt_dec reg)
         else if op AND 0xFFF0 = 0x4E60 then
           (if op AND 8 \<noteq> 0 then say (''MOVE     USP,A'' @ fmt_dec reg)
            else say (''MOVE     A'' @ fmt_dec reg @ '',USP''))
         else if op AND 0xFFF8 = 0x4840 then say (''SWAP     D'' @ fmt_dec reg)
         else if op AND 0xFFC0 = 0x4840 then with_ea op 2 ''PEA      '' ''''
         else if op AND 0xFFF8 = 0x4880 then say (''EXT.W    D'' @ fmt_dec reg)
         else if op AND 0xFFF8 = 0x48C0 then say (''EXT.L    D'' @ fmt_dec reg)
         else if op AND 0xFFF8 = 0x49C0 then say (''EXTB.L   D'' @ fmt_dec reg)
         else if op AND 0xFB80 = 0x4880 then
           (let sz_bit = drop_bit 6 op AND 1;
                sz = (if sz_bit = 0 then ''.W'' else ''.L'');
                direction = drop_bit 10 op AND 1
            in rbind rd_word (\<lambda>rmask.
                 let mode = drop_bit 3 op AND 7; is_predec = (mode = 4) in
                 rbind (decode_ea_from_word op (1 + sz_bit)) (\<lambda>ea.
                   let reglist = movem_reglist rmask is_predec in
                   if direction = 0 then
                     say (''MOVEM'' @ fmt_left 3 sz @ '' '' @ reglist @ '','' @ ea)
                   else say (''MOVEM'' @ fmt_left 3 sz @ '' '' @ ea @ '','' @ reglist))))
         else if op AND 0xF1C0 = 0x41C0 then
           (let areg = drop_bit 9 op AND 7 in with_ea op 2 ''LEA      '' ('',A'' @ fmt_dec areg))
         else if op AND 0xF1C0 = 0x4180 then
           (let dreg = drop_bit 9 op AND 7 in with_ea op 1 ''CHK.W    '' ('',D'' @ fmt_dec dreg))
         else if op AND 0xFFC0 = 0x4E80 then with_ea op 2 ''JSR      '' ''''
         else if op AND 0xFFC0 = 0x4EC0 then with_ea op 2 ''JMP      '' ''''
         else if op AND 0xFF00 = 0x4A00 then
           (if size_bits = 3 then with_ea op 0 ''TAS      '' ''''
            else unary_op op size_bits ''TST'' 5 '''')
         else if op AND 0xFF00 = 0x4400 then
           (if size_bits = 3 then refuse else unary_op op size_bits ''NEG'' 5 '''')
         else if op AND 0xFF00 = 0x4000 then
           (if size_bits = 3 then with_ea op 1 ''MOVE     SR,'' ''''
            else unary_op op size_bits ''NEGX'' 4 '' '')
         else if op AND 0xFF00 = 0x4200 then
           (if size_bits = 3 then refuse else unary_op op size_bits ''CLR'' 5 '''')
         else if op AND 0xFF00 = 0x4600 then
           (if size_bits = 3 then with_ea op 1 ''MOVE     '' '',SR''
            else unary_op op size_bits ''NOT'' 5 '''')
         else if op AND 0xFFC0 = 0x4800 then with_ea op 0 ''NBCD     '' ''''
         else if op AND 0xFFC0 = 0x44C0 then with_ea op 1 ''MOVE     '' '',CCR''
         else if op AND 0xFFC0 = 0x46C0 then with_ea op 1 ''MOVE     '' '',SR''
         else if op AND 0xFFC0 = 0x40C0 then with_ea op 1 ''MOVE     SR,'' ''''
         else refuse)"

section \<open>Groups 0101 and 0110\<close>

definition decode_0101 :: "int \<Rightarrow> decoder" where
  "decode_0101 op =
     (let size_bits = drop_bit 6 op AND 3
      in if size_bits = 3 then
           (let cond = drop_bit 8 op AND 0xF; mode = drop_bit 3 op AND 7; reg = op AND 7
            in if mode = 1 then
                 rbind rd_sword (\<lambda>disp. rbind here (\<lambda>a.
                   let target = a - 2 + disp in
                   rbind (rlift (int_key CC_NAMES cond)) (\<lambda>cc.
                     say (''DB'' @ fmt_left 6 cc @ '' D'' @ fmt_dec reg @ '',$'' @
                          fmt_hex True 8 target))))
               else
                 rbind (decode_ea_from_word op 0) (\<lambda>ea.
                 rbind (rlift (int_key CC_NAMES cond)) (\<lambda>cc.
                   say (''S'' @ fmt_left 7 cc @ '' '' @ ea))))
         else
           (let data0 = drop_bit 9 op AND 7; data = (if data0 = 0 then 8 else data0)
            in rbind (rlift (int_key SIZE_NAMES size_bits)) (\<lambda>sz.
               rbind (decode_ea_from_word op size_bits) (\<lambda>ea.
                 if op AND 0x0100 \<noteq> 0 then
                   say (''SUBQ'' @ fmt_left 4 sz @ '' #'' @ fmt_dec data @ '','' @ ea)
                 else say (''ADDQ'' @ fmt_left 4 sz @ '' #'' @ fmt_dec data @ '','' @ ea)))))"

definition decode_branch :: "int \<Rightarrow> decoder" where
  "decode_branch op =
     (let cond = drop_bit 8 op AND 0xF; disp8 = op AND 0xFF
      in rbind here (\<lambda>pc_of_ext.
         rbind (if disp8 = 0 then
                  rbind rd_sword (\<lambda>disp. ret (pc_of_ext + disp, ''.W''))
                else if disp8 = 0xFF then
                  rbind rd_slong (\<lambda>disp. ret (pc_of_ext + disp, ''.L''))
                else
                  ret (pc_of_ext + (if 0x80 \<le> disp8 then disp8 - 0x100 else disp8), ''.S''))
           (\<lambda>(target, sz).
             if cond = 0 then say (''BRA'' @ fmt_left 5 sz @ '' $'' @ fmt_hex True 8 target)
             else if cond = 1 then say (''BSR'' @ fmt_left 5 sz @ '' $'' @ fmt_hex True 8 target)
             else rbind (rlift (int_key CC_NAMES cond)) (\<lambda>cc.
               say (''B'' @ cc @ fmt_left 5 sz @ ''$'' @ fmt_hex True 8 target)))))"

section \<open>Groups 1000 to 1110\<close>

text \<open>The two-operand forms shared by OR, AND, ADD and SUB: the direction is \<open>opmode < 3\<close>.\<close>

definition dn_ea :: "int \<Rightarrow> string \<Rightarrow> nat \<Rightarrow> decoder" where
  "dn_ea op name w =
     (let dreg = drop_bit 9 op AND 7; opmode = drop_bit 6 op AND 7; size_bits = opmode AND 3
      in if size_bits = 3 then refuse
         else rbind (rlift (int_key SIZE_NAMES size_bits)) (\<lambda>sz.
              rbind (decode_ea_from_word op size_bits) (\<lambda>ea.
                if opmode < 3 then say (name @ fmt_left w sz @ ea @ '',D'' @ fmt_dec dreg)
                else say (name @ fmt_left w sz @ ''D'' @ fmt_dec dreg @ '','' @ ea))))"

definition bcd_op :: "int \<Rightarrow> string \<Rightarrow> decoder" where
  "bcd_op op name =
     (let dreg = drop_bit 9 op AND 7; rm = drop_bit 3 op AND 1; ry = op AND 7
      in if rm \<noteq> 0 then
           say (name @ ''     -(A'' @ fmt_dec ry @ ''),-(A'' @ fmt_dec dreg @ '')'')
         else say (name @ ''     D'' @ fmt_dec ry @ '',D'' @ fmt_dec dreg))"

definition decode_1000 :: "int \<Rightarrow> decoder" where
  "decode_1000 op =
     (let dreg = drop_bit 9 op AND 7; opmode = drop_bit 6 op AND 7; mode = drop_bit 3 op AND 7
      in if opmode = 3 then with_ea op 1 ''DIVU.W   '' ('',D'' @ fmt_dec dreg)
         else if opmode = 7 then with_ea op 1 ''DIVS.W   '' ('',D'' @ fmt_dec dreg)
         else if opmode = 4 \<and> (mode = 0 \<or> mode = 1) then bcd_op op ''SBCD''
         else dn_ea op ''OR'' 6)"

definition decode_addsub :: "int \<Rightarrow> string \<Rightarrow> decoder" where
  "decode_addsub op name =
     (let dreg = drop_bit 9 op AND 7; opmode = drop_bit 6 op AND 7; size_bits = opmode AND 3;
          ry = op AND 7; mode = drop_bit 3 op AND 7
      in if opmode = 3 then with_ea op 1 (name @ ''A.W   '') ('',A'' @ fmt_dec dreg)
         else if opmode = 7 then with_ea op 2 (name @ ''A.L   '') ('',A'' @ fmt_dec dreg)
         else if opmode = 4 \<or> opmode = 5 \<or> opmode = 6 then
           (if size_bits = 3 then refuse
            else rbind (rlift (int_key SIZE_NAMES size_bits)) (\<lambda>sz.
              let xname = name @ ''X'' in
              if mode = 0 then
                say (xname @ fmt_left 4 sz @ '' D'' @ fmt_dec ry @ '',D'' @ fmt_dec dreg)
              else if mode = 1 then
                say (xname @ fmt_left 4 sz @ '' -(A'' @ fmt_dec ry @ ''),-(A'' @ fmt_dec dreg @ '')'')
              else dn_ea op name 6))
         else dn_ea op name 6)"

definition decode_1011 :: "int \<Rightarrow> decoder" where
  "decode_1011 op =
     (let dreg = drop_bit 9 op AND 7; opmode = drop_bit 6 op AND 7
      in if opmode = 3 then with_ea op 1 ''CMPA.W   '' ('',A'' @ fmt_dec dreg)
         else if opmode = 7 then with_ea op 2 ''CMPA.L   '' ('',A'' @ fmt_dec dreg)
         else if opmode < 3 then
           (let size_bits = opmode
            in rbind (decode_ea_from_word op size_bits) (\<lambda>ea.
               rbind (rlift (int_key SIZE_NAMES size_bits)) (\<lambda>sz.
                 say (''CMP'' @ fmt_left 5 sz @ ea @ '',D'' @ fmt_dec dreg))))
         else
           (let size_bits = opmode - 4
            in if 2 < size_bits then refuse
               else rbind (rlift (int_key SIZE_NAMES size_bits)) (\<lambda>sz.
                 let mode = drop_bit 3 op AND 7; ry = op AND 7 in
                 if mode = 1 then
                   say (''CMPM'' @ fmt_left 4 sz @ '' (A'' @ fmt_dec ry @ '')+,(A'' @
                        fmt_dec dreg @ '')+'')
                 else
                   rbind (decode_ea_from_word op size_bits) (\<lambda>ea.
                     say (''EOR'' @ fmt_left 5 sz @ ''D'' @ fmt_dec dreg @ '','' @ ea)))))"

definition decode_1100 :: "int \<Rightarrow> decoder" where
  "decode_1100 op =
     (let dreg = drop_bit 9 op AND 7; opmode = drop_bit 6 op AND 7; mode = drop_bit 3 op AND 7;
          ry = op AND 7
      in if opmode = 3 then with_ea op 1 ''MULU.W   '' ('',D'' @ fmt_dec dreg)
         else if opmode = 7 then with_ea op 1 ''MULS.W   '' ('',D'' @ fmt_dec dreg)
         else if opmode = 4 \<and> (mode = 0 \<or> mode = 1) then bcd_op op ''ABCD''
         else if opmode = 5 \<and> mode = 0 then
           say (''EXG      D'' @ fmt_dec dreg @ '',D'' @ fmt_dec ry)
         else if opmode = 5 \<and> mode = 1 then
           say (''EXG      A'' @ fmt_dec dreg @ '',A'' @ fmt_dec ry)
         else if opmode = 6 \<and> mode = 1 then
           say (''EXG      D'' @ fmt_dec dreg @ '',A'' @ fmt_dec ry)
         else dn_ea op ''AND'' 5)"

definition shift_name :: "int \<Rightarrow> int \<Rightarrow> string" where
  "shift_name op shift_type =
     [''AS'', ''LS'', ''ROX'', ''RO''] ! nat shift_type @
     (if op AND 0x0100 \<noteq> 0 then ''L'' else ''R'')"

definition decode_shift :: "int \<Rightarrow> decoder" where
  "decode_shift op =
     (let size_bits = drop_bit 6 op AND 3
      in if size_bits = 3 then
           with_ea op 1 (fmt_left 9 (shift_name op (drop_bit 9 op AND 3))) ''''
         else
           (let dreg = op AND 7; name = shift_name op (drop_bit 3 op AND 3)
            in rbind (rlift (int_key SIZE_NAMES size_bits)) (\<lambda>sz.
               if op AND 0x0020 \<noteq> 0 then
                 (let creg = drop_bit 9 op AND 7
                  in say (name @ fmt_left 5 sz @ ''D'' @ fmt_dec creg @ '',D'' @ fmt_dec dreg))
               else
                 (let count0 = drop_bit 9 op AND 7; count = (if count0 = 0 then 8 else count0)
                  in say (name @ fmt_left 5 sz @ ''#'' @ fmt_dec count @ '',D'' @ fmt_dec dreg)))))"

section \<open>Dispatch\<close>

definition decode_moveq :: "int \<Rightarrow> decoder" where
  "decode_moveq op =
     (if op AND 0x0100 \<noteq> 0 then refuse
      else let dreg = drop_bit 9 op AND 7; data0 = op AND 0xFF;
               data = (if 0x80 \<le> data0 then data0 - 0x100 else data0)
           in say (''MOVEQ    #'' @ fmt_dec data @ '',D'' @ fmt_dec dreg))"

definition decode_group :: "int \<Rightarrow> decoder" where
  "decode_group op =
     (let top4 = drop_bit 12 op AND 0xF
      in if top4 = 0x0 then decode_0000 op
         else if top4 = 0x1 \<or> top4 = 0x2 \<or> top4 = 0x3 then decode_move op top4
         else if top4 = 0x4 then decode_0100 op
         else if top4 = 0x5 then decode_0101 op
         else if top4 = 0x6 then decode_branch op
         else if top4 = 0x7 then decode_moveq op
         else if top4 = 0x8 then decode_1000 op
         else if top4 = 0x9 then decode_addsub op ''SUB''
         else if top4 = 0xA then say (''DC.W     $'' @ fmt_hex True 4 op @ ''  ; A-line trap'')
         else if top4 = 0xB then decode_1011 op
         else if top4 = 0xC then decode_1100 op
         else if top4 = 0xD then decode_addsub op ''ADD''
         else if top4 = 0xE then decode_shift op
         else if top4 = 0xF then say (''DC.W     $'' @ fmt_hex True 4 op @ ''  ; F-line trap'')
         else refuse)"

text \<open>
  \<open>except _EndOfData: raise\<close>, \<open>except Exception: pass\<close>. In the second case the source leaves
  the position where the exception found it; the caller rewinds, and by \<open>reads_group\<close> below
  the case does not arise.
\<close>

definition decode_one :: decoder where
  "decode_one =
     rbind rd_word (\<lambda>op s.
       case decode_group op s of
         Inl EndOfData \<Rightarrow> Inl EndOfData
       | Inl _ \<Rightarrow> Inr (None, s)
       | Inr r \<Rightarrow> Inr r)"

section \<open>What the decoders take\<close>

lemma reads_say [reads_intro]: "reads n (say t)"
  unfolding say_def by (rule reads_ret)

lemma reads_refuse [reads_intro]: "reads n refuse"
  unfolding refuse_def by (rule reads_ret)

lemma reads_imm_op:
  "map_of SIZE_NAMES sb \<noteq> None \<Longrightarrow> reads 4 (decode_imm_op op name sb)"
  unfolding decode_imm_op_def 
  by (intro reads_intro reads_bind [where a=2 and m="if _ then _ else _"]) simp_all

lemmas reads_imm_tail [reads_intro] = reads_mono [OF reads_imm_op]

lemma reads_logic_imm:
  "reads 4 (decode_logic_imm op name (x AND 3) ccr sr)"
  unfolding decode_logic_imm_def by (intro reads_intro) (simp_all add: size_key)

lemmas reads_logic_tail [reads_intro] = reads_mono [OF reads_logic_imm]

lemma reads_0000: "reads 4 (decode_0000 op)"
  unfolding decode_0000_def Let_def
  by (intro reads_intro) (simp_all add: size_key)

lemma rbind_rlift: "rbind (rlift (Inr x)) f = f x"
  by (simp add: rbind_def rlift_def fun_eq_iff)

lemma move_key:
  "top4 = 1 \<or> top4 = 2 \<or> top4 = 3 \<Longrightarrow>
   \<exists>sb v. int_key size_map top4 = Inr sb \<and> map_of SIZE_NAMES sb = Some v"
  by (auto simp: size_map_def SIZE_NAMES_def int_key_def)

lemma reads_move:
  assumes "top4 = 1 \<or> top4 = 2 \<or> top4 = 3"
  shows "reads 4 (decode_move op top4)"
proof -
  from move_key [OF assms] obtain sb v
    where "int_key size_map top4 = Inr sb" "map_of SIZE_NAMES sb = Some v"
    by blast
  then show ?thesis
    unfolding decode_move_def Let_def
    by (simp only: rbind_rlift, intro reads_intro) simp_all
qed

lemma reads_with_ea [reads_intro]: "2 \<le> n \<Longrightarrow> reads n (with_ea op sz a b)"
  unfolding with_ea_def by (intro reads_intro) simp_all

lemma reads_unary_op [reads_intro]: "2 \<le> n \<Longrightarrow> map_of SIZE_NAMES k \<noteq> None \<Longrightarrow> 
   reads n (unary_op op k name w gap)"
  unfolding unary_op_def by (intro reads_intro) simp_all

lemma reads_0100: "reads 4 (decode_0100 op)"
  unfolding decode_0100_def Let_def
  by (intro reads_intro) (simp_all add: size_key)

lemma reads_0101: "reads 4 (decode_0101 op)"
  unfolding decode_0101_def Let_def
  by (intro reads_intro) (simp_all add: size_key cc_key)

lemma reads_branch: "reads 4 (decode_branch op)"
  unfolding decode_branch_def Let_def
  by (intro reads_intro reads_bind [where a=2 and m="if _ then _ else _"]) (simp_all add: size_key cc_key)

lemma reads_dn_ea [reads_intro]: "2 \<le> n \<Longrightarrow> reads n (dn_ea op name w)"
  unfolding dn_ea_def Let_def by (intro reads_intro) (simp_all add: size_key)

lemma reads_1000: "reads 4 (decode_1000 op)"
  unfolding decode_1000_def Let_def bcd_op_def
  by (intro reads_intro) simp_all

lemma reads_addsub: "reads 4 (decode_addsub op name)"
  unfolding decode_addsub_def Let_def
  by (intro reads_intro) (simp_all add: size_key)

lemma reads_1011: "reads 4 (decode_1011 op)"
  unfolding decode_1011_def Let_def
  apply (intro reads_intro)
  using and_7_cases [of "drop_bit 6 op"]
  apply (auto simp: SIZE_NAMES_def)
  done

lemma reads_1100: "reads 4 (decode_1100 op)"
  unfolding decode_1100_def Let_def bcd_op_def
  by (intro reads_intro) simp_all

lemma reads_shift: "reads 4 (decode_shift op)"
  unfolding decode_shift_def Let_def
  by (intro reads_intro) (simp_all add: size_key)

lemma reads_moveq: "reads 4 (decode_moveq op)"
  unfolding decode_moveq_def Let_def
  by (intro reads_intro)

lemma reads_group: "reads 4 (decode_group op)"
  unfolding decode_group_def Let_def
  by (intro reads_if reads_0000 reads_move reads_0100 reads_0101 reads_branch reads_moveq
      reads_1000 reads_addsub reads_1011 reads_1100 reads_shift reads_say reads_refuse)

lemma decode_one_eq: "decode_one = rbind rd_word decode_group"
proof -
  have "(case decode_group op s of
           Inl EndOfData \<Rightarrow> Inl EndOfData | Inl _ \<Rightarrow> Inr (None, s) | Inr r \<Rightarrow> Inr r) =
        decode_group op s" for op s
    using reads_Inl [OF reads_group] by (auto split: sum.split exn.split)
  then show ?thesis by (simp add: decode_one_def)
qed

lemma reads_one: "reads 5 decode_one"
  unfolding decode_one_eq by (rule reads_bind [OF reads_word]) (simp_all add: reads_group)

lemma decode_one_takes_word:
  assumes "decode_one s = Inr (x, t)"
  shows "spos s + 2 \<le> spos t"
proof -
  from assms obtain op u where u: "rd_word s = Inr (op, u)" and t: "decode_group op u = Inr (x, t)"
    by (auto simp: decode_one_eq rbind_def res_inv)
  have "spos u = spos s + 2" using u by (auto simp: rd_word_def split: if_splits)
  moreover obtain k where "t = u\<lparr>spos := spos u + 2 * k\<rparr>"
    using reads_Inr [OF reads_group t] by metis
  ultimately show ?thesis by simp
qed

end
