(* ===== verification/Disassemble.thy ===== *)
theory Disassemble
  imports Disasm
begin

text \<open>
  \<open>disassemble\<close> and \<open>disassemble_hex\<close> of \<open>disasm.py\<close>. The loop is written over any decoder;
  the locale \<open>instruction_decoder\<close> states what it needs of one (\<open>_decode_one\<close> promises it:
  the interpretation \<open>m68k\<close>), and its lemmas show that a listing is total, gapless and stable
  under more data.
\<close>

section \<open>The loop\<close>

type_synonym row = "int \<times> string \<times> string"

text \<open>\<open>w = s.word(); result.append((addr, hexstr, f"DC.W     ${w:04X}"))\<close>\<close>

definition dc_word :: "row reader" where
  "dc_word =
     rbind here (\<lambda>addr. rbind rd_word (\<lambda>w.
       ret (addr, fmt_hex True 4 w, ''DC.W     $'' @ fmt_hex True 4 w)))"

text \<open>
  One turn of the loop reads at \<open>start\<close>; a truncated instruction and an unknown one are
  rewound to it (\<open>s.pos = start\<close>). A raised \<open>EndOfData\<close> ends the loop.
\<close>

fun dis_loop :: "decoder \<Rightarrow> nat \<Rightarrow> stream \<Rightarrow> row list res" where
  "dis_loop dec 0 s = Inr []"
| "dis_loop dec (Suc n) s =
     (if \<not> shas 2 s then Inr []
      else let addr = saddr s; start = spos s in
        case dec s of
          Inl EndOfData \<Rightarrow>
            (if shas 2 s then res_bind (dc_word s) (\<lambda>(row, _). Inr [row]) else Inr [])
        | Inl e \<Rightarrow> Inl e
        | Inr (None, t) \<Rightarrow>
            res_bind (dc_word (t\<lparr>spos := start\<rparr>)) (\<lambda>(row, u).
            res_bind (dis_loop dec n u) (\<lambda>rows. Inr (row # rows)))
        | Inr (Some mnemonic, t) \<Rightarrow>
            res_bind (dis_loop dec n t) (\<lambda>rows.
              Inr ((addr, hex_between t start (spos t), mnemonic) # rows)))"

definition disassemble :: "byte list \<Rightarrow> int \<Rightarrow> int \<Rightarrow> row list res" where
  "disassemble data base_addr count = dis_loop decode_one (nat count) (new_stream data base_addr)"

definition disassemble_hex :: "string \<Rightarrow> int \<Rightarrow> int \<Rightarrow> row list res" where
  "disassemble_hex hex_data base_addr count =
     res_bind (bytes_fromhex hex_data) (\<lambda>data. disassemble data base_addr count)"

section \<open>Listings\<close>

definition row_addr :: "row \<Rightarrow> int" where "row_addr r = fst r"
definition row_hex :: "row \<Rightarrow> string" where "row_hex r = fst (snd r)"

lemma row_simps [simp]: "row_addr (a, h, m) = a" "row_hex (a, h, m) = h"
  by (simp_all add: row_addr_def row_hex_def)

text \<open>
  \<open>listing s rows t\<close>: the rows describe, without gap or overlap, the bytes from the position
  of \<open>s\<close> to that of \<open>t\<close>, in pieces of one to five words.
\<close>

inductive listing :: "stream \<Rightarrow> row list \<Rightarrow> stream \<Rightarrow> bool" where
  nothing: "listing s [] s"
| row: "1 \<le> k \<Longrightarrow> k \<le> 5 \<Longrightarrow> shas (2 * k) s \<Longrightarrow>
    listing (s\<lparr>spos := spos s + 2 * k\<rparr>) rows t \<Longrightarrow>
    listing s ((saddr s, hex_between s (spos s) (spos s + 2 * k), mn) # rows) t"

inductive_cases listing_ConsE: "listing s (r # rows) t"

lemma listing_last: "listing s [r] t \<Longrightarrow> spos s < spos t"
  by (auto elim!: listing_ConsE elim: listing.cases)

lemma listing_bytes:
  "listing s rows t \<Longrightarrow> spos s \<le> length (sdata s) \<Longrightarrow>
   \<exists>m. t = s\<lparr>spos := spos s + m\<rparr> \<and> spos t \<le> length (sdata s) \<and>
     concat (map row_hex rows) = hex_between s (spos s) (spos t)"
proof (induction rule: listing.induct)
  case (nothing s)
  then show ?case by (auto simp: hex_between_def bytes_hex_def intro: exI [of _ 0])
next
  case (row k s rows t mn)
  then obtain m where m: "t = s\<lparr>spos := spos s + 2 * k + m\<rparr>" "spos t \<le> length (sdata s)"
    "concat (map row_hex rows) =
       hex_between (s\<lparr>spos := spos s + 2 * k\<rparr>) (spos s + 2 * k) (spos t)"
    by (auto simp: shas_def)
  have "hex_between s (spos s) (spos s + 2 * k) @ hex_between s (spos s + 2 * k) (spos t) =
      hex_between s (spos s) (spos t)"
    using m(1) take_add [of "2 * k" m "drop (spos s) (sdata s)"]
    by (simp add: hex_between_def add.commute flip: bytes_hex_append)
  with m show ?case
    by (intro exI [of _ "2 * k + m"]) (simp add: hex_between_def)
qed

lemma listing_rows:
  "listing s rows t \<Longrightarrow> r \<in> set rows \<Longrightarrow> length (row_hex r) \<in> {4, 8, 12, 16, 20}"
proof (induction rule: listing.induct)
  case (row k s rows t mn)
  have "k = 1 \<or> k = 2 \<or> k = 3 \<or> k = 4 \<or> k = 5" using row by linarith
  with row show ?case by (auto simp: hex_between_def shas_def)
qed simp

lemma listing_addr:
  "listing s rows t \<Longrightarrow> i < length rows \<Longrightarrow>
   row_addr (rows ! i) = saddr s + int (length (concat (map row_hex (take i rows)))) div 2"
proof (induction arbitrary: i rule: listing.induct)
  case (row k s rows t mn)
  show ?case
  proof (cases i)
    case 0
    then show ?thesis by simp
  next
    case (Suc j)
    have "length (hex_between s (spos s) (spos s + 2 * k)) = 4 * k"
      using row by (simp add: hex_between_def shas_def)
    with row Suc show ?thesis by (simp add: saddr_def)
  qed
qed simp

lemma more_data_simps [simp]:
  "spos (more_data ext s) = spos s" "saddr (more_data ext s) = saddr s"
  "(more_data ext s)\<lparr>spos := p\<rparr> = more_data ext (s\<lparr>spos := p\<rparr>)"
  by (simp_all add: more_data_def saddr_def)

lemma more_data_has: "shas n s \<Longrightarrow> shas n (more_data ext s)"
  by (simp add: more_data_def shas_def)

lemma hex_between_more:
  "b \<le> length (sdata s) \<Longrightarrow> a \<le> b \<Longrightarrow> hex_between (more_data ext s) a b = hex_between s a b"
  by (simp add: hex_between_def more_data_def)

lemma hex_between_spos [simp]: "hex_between (s\<lparr>spos := p\<rparr>) a b = hex_between s a b"
  by (simp add: hex_between_def)

lemma hex_between_2:
  "shas 2 s \<Longrightarrow> hex_between s (spos s) (spos s + 2) =
     bytes_hex True [sdata s ! spos s, sdata s ! (spos s + 1)]"
proof -
  assume "shas 2 s"
  then obtain a b r where "drop (spos s) (sdata s) = a # b # r"
    by (metis Cons_nth_drop_Suc Suc_eq_plus1 Suc_le_lessD add_2_eq_Suc' less_Suc_eq_le shas_def
        Suc_lessD)
  moreover from this have "sdata s ! spos s = a" "sdata s ! (spos s + 1) = b"
    by (metis hd_drop_conv_nth list.sel(1) drop_eq_Nil leI list.distinct(1))
       (metis calculation nth_drop nth_Cons_0 nth_Cons_Suc One_nat_def drop_eq_Nil leI
         list.distinct(1) nat_le_linear)
  ultimately show ?thesis by (simp add: hex_between_def)
qed

text \<open>The fallback row shows the word at the position, like any other row.\<close>

lemma dc_word_row:
  assumes "shas 2 s"
  shows "dc_word s = Inr ((saddr s, hex_between s (spos s) (spos s + 2),
     ''DC.W     $'' @ hex_between s (spos s) (spos s + 2)), s\<lparr>spos := spos s + 2\<rparr>)"
proof -
  have "\<not> length (sdata s) < spos s + 2" using assms by (simp add: shas_def)
  then show ?thesis
    by (simp add: hex_between_2 [OF assms] dc_word_def rbind_def here_def rd_word_def ret_def
        word_of_bytes fmt_hex_word del: add_2_eq_Suc')
qed

lemma butlast_step: "take (length xs - 1) ys = butlast xs \<Longrightarrow> take (length xs) (x # ys) = butlast (x # xs)"
  by (cases xs) simp_all

section \<open>What a decoder promises\<close>

locale instruction_decoder =
  fixes dec :: decoder
  assumes dec_fails:
      "dec s = Inl e \<Longrightarrow> e = EndOfData \<and> length (sdata s) < spos s + 10"
    and dec_takes:
      "dec s = Inr (x, t) \<Longrightarrow>
       \<exists>k. 1 \<le> k \<and> k \<le> 5 \<and> shas (2 * k) s \<and> t = s\<lparr>spos := spos s + 2 * k\<rparr>"
    and dec_extends:
      "dec s = Inr (x, t) \<Longrightarrow> dec (more_data ext s) = Inr (x, more_data ext t)"
begin

lemma dec_cases [consumes 0, case_names truncated unknown known]:
  obtains "dec s = Inl EndOfData" and "length (sdata s) < spos s + 10"
  | t where "dec s = Inr (None, t)" and "\<And>p. t\<lparr>spos := p\<rparr> = s\<lparr>spos := p\<rparr>"
  | k mn where "1 \<le> k" and "k \<le> 5" and "shas (2 * k) s"
      and "dec s = Inr (Some mn, s\<lparr>spos := spos s + 2 * k\<rparr>)"
proof (cases "dec s")
  case (Inl e)
  with dec_fails [OF Inl] that(1) show thesis by simp
next
  case (Inr r)
  obtain x t where r: "r = (x, t)" by (cases r)
  from dec_takes [OF Inr [unfolded r]] obtain k
    where k: "1 \<le> k" "k \<le> 5" "shas (2 * k) s" "t = s\<lparr>spos := spos s + 2 * k\<rparr>"
    by blast
  show thesis
  proof (cases x)
    case None
    with Inr r k(4) that(2) [of t] show thesis by simp
  next
    case (Some mn)
    with Inr r k that(3) [of k mn] show thesis by simp
  qed
qed

text \<open>The loop never raises; its rows are a listing that stops only for a good reason.\<close>

lemma loop_listing:
  "\<exists>rows t. dis_loop dec n s = Inr rows \<and> listing s rows t \<and> length rows \<le> n \<and>
     (length rows = n \<or> length (sdata s) < spos t + 10)"
proof (induction n arbitrary: s)
  case 0
  show ?case by (intro exI [of _ "[]"] exI [of _ s]) (simp add: listing.nothing)
next
  case (Suc n)
  show ?case
  proof (cases "shas 2 s")
    case False
    then show ?thesis
      by (intro exI [of _ "[]"] exI [of _ s]) (simp add: listing.nothing shas_def)
  next
    case has: True
    note one = listing.row [of 1 s, simplified, OF has]
    show ?thesis
    proof (cases s rule: dec_cases)
      case truncated
      with has one [OF listing.nothing] show ?thesis
        by (intro exI [of _ "s\<lparr>spos := spos s + 2\<rparr>"] exI) (auto simp: dc_word_row)
    next
      case (unknown t)
      from Suc [of "s\<lparr>spos := spos s + 2\<rparr>"] obtain rows u where
        "dis_loop dec n (s\<lparr>spos := spos s + 2\<rparr>) = Inr rows" "listing (s\<lparr>spos := spos s + 2\<rparr>) rows u"
        "length rows \<le> n" "length rows = n \<or> length (sdata s) < spos u + 10"
        by auto
      with unknown has show ?thesis
        by (intro exI conjI [rotated]) (auto simp: dc_word_row Let_def intro: one)
    next
      case (known k mn)
      from Suc [of "s\<lparr>spos := spos s + 2 * k\<rparr>"] obtain rows u where
        "dis_loop dec n (s\<lparr>spos := spos s + 2 * k\<rparr>) = Inr rows"
        "listing (s\<lparr>spos := spos s + 2 * k\<rparr>) rows u"
        "length rows \<le> n" "length rows = n \<or> length (sdata s) < spos u + 10"
        by auto
      with known has show ?thesis
        by (intro exI conjI [rotated]) (auto simp: Let_def intro: listing.row)
    qed
  qed
qed

text \<open>More data at the end changes at most the last row.\<close>

lemma loop_extends:
  "dis_loop dec n s = Inr rows \<Longrightarrow> dis_loop dec n (more_data ext s) = Inr rows' \<Longrightarrow>
   take (length rows - 1) rows' = butlast rows"
proof (induction n arbitrary: s rows rows')
  case (Suc n)
  show ?case
  proof (cases "shas 2 s")
    case False
    with Suc.prems show ?thesis by simp
  next
    case has: True
    note has' = more_data_has [OF has, of ext]
    show ?thesis
    proof (cases s rule: dec_cases)
      case truncated
      with Suc.prems has show ?thesis by (auto simp: dc_word_row)
    next
      case (unknown t)
      note more = dec_extends [OF unknown(1), of ext]
      obtain r rs where rows: "rows = r # rs" "dis_loop dec n (s\<lparr>spos := spos s + 2\<rparr>) = Inr rs"
        and r: "dc_word s = Inr (r, s\<lparr>spos := spos s + 2\<rparr>)"
        using Suc.prems(1) unknown has by (auto simp: dc_word_row Let_def res_inv)
      obtain rs' where "rows' = r # rs'"
        "dis_loop dec n (more_data ext (s\<lparr>spos := spos s + 2\<rparr>)) = Inr rs'"
        using Suc.prems(2) more has has' r unknown(2)
        by (auto simp: dc_word_row Let_def res_inv hex_between_more shas_def)
      with Suc.IH [OF rows(2)] rows(1) show ?thesis by (simp add: butlast_step)
    next
      case (known k mn)
      note more = dec_extends [OF known(4), of ext]
      obtain rs where rows: "dis_loop dec n (s\<lparr>spos := spos s + 2 * k\<rparr>) = Inr rs"
        "rows = (saddr s, hex_between s (spos s) (spos s + 2 * k), mn) # rs"
        using Suc.prems(1) known has by (auto simp: Let_def res_inv)
      obtain rs' where
        "rows' = (saddr s, hex_between s (spos s) (spos s + 2 * k), mn) # rs'"
        "dis_loop dec n (more_data ext (s\<lparr>spos := spos s + 2 * k\<rparr>)) = Inr rs'"
        using Suc.prems(2) more has' known(3)
        by (auto simp: Let_def res_inv hex_between_more shas_def)
      with Suc.IH [OF rows(1)] rows(2) show ?thesis by (simp add: butlast_step)
    qed
  qed
qed simp

end

section \<open>The decoder of the 68000\<close>

interpretation m68k: instruction_decoder decode_one
proof unfold_locales
  fix s e
  assume "decode_one s = Inl e"
  with reads_Inl [OF reads_one] show "e = EndOfData \<and> length (sdata s) < spos s + 10"
    by fastforce
next
  fix s x t
  assume *: "decode_one s = Inr (x, t)"
  from reads_Inr [OF reads_one *] obtain k where
    "k \<le> 5" "t = s\<lparr>spos := spos s + 2 * k\<rparr>" "k = 0 \<or> spos t \<le> length (sdata s)"
    by metis
  with decode_one_takes_word [OF *]
  show "\<exists>k. 1 \<le> k \<and> k \<le> 5 \<and> shas (2 * k) s \<and> t = s\<lparr>spos := spos s + 2 * k\<rparr>"
    by (intro exI [of _ k]) (auto simp: shas_def)
next
  fix s x t ext
  assume "decode_one s = Inr (x, t)"
  then show "decode_one (more_data ext s) = Inr (x, more_data ext t)"
    by (rule reads_more [OF reads_one])
qed

lemma disassemble_listing:
  "\<exists>rows t. disassemble data base_addr count = Inr rows \<and> listing (new_stream data base_addr) rows t \<and>
     length rows \<le> nat count \<and> (length rows = nat count \<or> length data < spos t + 10) \<and>
     spos t \<le> length data \<and> concat (map row_hex rows) = bytes_hex True (take (spos t) data)"
proof -
  let ?s = "new_stream data base_addr"
  obtain rows t where rows: "dis_loop decode_one (nat count) ?s = Inr rows" "listing ?s rows t"
    "length rows \<le> nat count" "length rows = nat count \<or> length data < spos t + 10"
    using m68k.loop_listing [of "nat count" ?s] by (auto simp: new_stream_def)
  moreover from listing_bytes [OF rows(2)] have "spos t \<le> length data"
    "concat (map row_hex rows) = bytes_hex True (take (spos t) data)"
    by (auto simp: new_stream_def hex_between_def)
  ultimately show ?thesis by (auto simp: disassemble_def)
qed

text \<open>
  C1. A listing accounts for the memory it was given: \<open>disassemble\<close> always returns, with at most
  \<open>count\<close> rows; their hexadecimal columns joined are the bytes of a prefix of the data; each row
  is one to five words long and carries the address of its first byte; and with rows to spare
  fewer than ten bytes are left undecoded.
\<close>

theorem disassemble_covers:
  "\<exists>rows m. disassemble data base_addr count = Inr rows \<and> length rows \<le> nat count \<and>
     m \<le> length data \<and> concat (map row_hex rows) = bytes_hex True (take m data) \<and>
     (\<forall>r \<in> set rows. length (row_hex r) \<in> {4, 8, 12, 16, 20}) \<and>
     (\<forall>i < length rows. row_addr (rows ! i) =
        base_addr + int (length (concat (map row_hex (take i rows)))) div 2) \<and>
     (length rows < nat count \<longrightarrow> length data < m + 10)"
proof -
  obtain rows t where rows: "disassemble data base_addr count = Inr rows" "listing (new_stream data base_addr) rows t"
    "length rows \<le> nat count" "length rows = nat count \<or> length data < spos t + 10"
    "spos t \<le> length data" "concat (map row_hex rows) = bytes_hex True (take (spos t) data)"
    using disassemble_listing [of data base_addr count] by blast
  with listing_rows [OF rows(2)] listing_addr [OF rows(2)] show ?thesis
    by (intro exI [of _ rows] exI [of _ "spos t"]) (auto simp: new_stream_def saddr_def)
qed

theorem disassemble_covers_witness:
  "\<exists>m \<le> length [0x4E, 0x75, 0x20 :: byte].
     ''4E75'' = bytes_hex True (take m [0x4E, 0x75, 0x20]) \<and>
     length [0x4E, 0x75, 0x20 :: byte] < m + 10"
proof -
  have ev: "disassemble [0x4E, 0x75, 0x20] 4096 5 = Inr [(4096, ''4E75'', ''RTS'')]"
    by code_simp
  from disassemble_covers [of "[0x4E, 0x75, 0x20]" 4096 5] show ?thesis
    unfolding ev by (elim exE conjE) (rule exI, rule conjI, assumption, auto)
qed

text \<open>
  Reading more memory does not change what was already shown: appending bytes to the data
  leaves every row but the last as it was (the last may have been an instruction cut short).
\<close>

theorem disassemble_extends:
  assumes "disassemble data base_addr count = Inr rows"
    and "disassemble (data @ ext) base_addr count = Inr rows'"
  shows "take (length rows - 1) rows' = butlast rows"
proof -
  have "new_stream (data @ ext) base_addr = more_data ext (new_stream data base_addr)"
    by (simp add: new_stream_def more_data_def)
  with m68k.loop_extends assms show ?thesis by (simp add: disassemble_def)
qed

theorem disassemble_extends_witness:
  "take 1 [(0, ''7001'', ''MOVEQ    #1,D0''), (2, ''4EAEFFE2'', ''JSR      -30(A6)  ; Supervisor'')] =
   butlast [(0, ''7001'', ''MOVEQ    #1,D0''), (2, ''4EAE'', ''DC.W     $4EAE'')]"
proof -
  have short: "disassemble [0x70, 0x01, 0x4E, 0xAE] 0 9 =
      Inr [(0, ''7001'', ''MOVEQ    #1,D0''), (2, ''4EAE'', ''DC.W     $4EAE'')]"
    by code_simp
  have long: "disassemble ([0x70, 0x01, 0x4E, 0xAE] @ [0xFF, 0xE2]) 0 9 =
      Inr [(0, ''7001'', ''MOVEQ    #1,D0''), (2, ''4EAEFFE2'', ''JSR      -30(A6)  ; Supervisor'')]"
    by code_simp
  from disassemble_extends [OF short long] show ?thesis by simp
qed

text \<open>
  A hexadecimal dump of memory, as INSPECT answers it, disassembles like the bytes it
  shows, in either case.
\<close>

theorem disassemble_hex_bytes:
  "disassemble_hex (bytes_hex upper data) base_addr count = disassemble data base_addr count"
  by (simp add: disassemble_hex_def)

end
