(* ===== verification/Disasm_Operands.thy ===== *)
theory Disasm_Operands
  imports Disassemble
begin

text \<open>
  What the texts of \<open>disasm.py\<close> mean: the register list of MOVEM names the registers of its
  mask, branches show their target whatever its distance, MOVEQ and displacement operands
  show the signed value that was encoded; and the one instruction the decoder loses.
\<close>

section \<open>Register lists\<close>

text \<open>Reading a list back: \<open>D0-D3/A6\<close> stands for five registers, \<open>0\<close> for none.\<close>

fun reg_range :: "string \<Rightarrow> string list" where
  "reg_range [p, a] = [[p, a]]"
| "reg_range [p, a, m, q, b] =
     map (\<lambda>k. [p, digit_char False k]) [chr_code a - 48 ..< chr_code b - 47]"
| "reg_range _ = []"

definition reglist_regs :: "string \<Rightarrow> string list" where
  "reglist_regs t = (if t = ''0'' then [] else concat (map reg_range (split_char (CHR ''/'') t)))"

definition register_name :: "nat \<Rightarrow> string" where
  "register_name i = (if i < 8 then ''D'' @ fmt_dec (int i) else ''A'' @ fmt_dec (int (i - 8)))"

lemma fmt_dec_digit: "i < 10 \<Longrightarrow> fmt_dec (int i) = [digit_char False i]"
  by (simp add: fmt_dec_def nat_digits.simps)

lemma reg_range_run:
  "i \<le> e \<Longrightarrow> e < 8 \<Longrightarrow> reg_range (run_text [c] i e) = map (\<lambda>k. [c, digit_char False k]) [i..<e + 1]"
  by (cases "i = e") (simp_all add: run_text_def fmt_dec_digit of_char_digit_char)

lemma movem_run_spec:
  "i < 8 \<Longrightarrow> movem_run m b i < 8 \<and>
     (\<forall>k. i < k \<and> k \<le> movem_run m b i \<longrightarrow> has_bit m (b + k)) \<and>
     (\<forall>k. k = movem_run m b i + 1 \<and> k < 8 \<longrightarrow> \<not> has_bit m (b + k))"
proof (induction m b i rule: movem_run.induct)
  case (1 m b i)
  show ?case
  proof (cases "i < 7 \<and> has_bit m (b + i + 1)")
    case True
    then have run: "movem_run m b i = movem_run m b (i + 1)"
      by (subst movem_run.simps) simp
    have "has_bit m (b + k)" if "i < k" "k \<le> movem_run m b (i + 1)" for k
      using that 1 True by (cases "k = i + 1") auto
    with 1 True show ?thesis by (simp add: run)
  next
    case False
    then have "movem_run m b i = i" by (subst movem_run.simps) auto
    with False 1 show ?thesis by auto
  qed
qed

lemma movem_regs_names:
  "i \<le> 8 \<Longrightarrow> concat (map reg_range (movem_regs m [c] b i acc)) =
     concat (map reg_range acc) @
     map (\<lambda>k. [c, digit_char False k]) (filter (\<lambda>k. has_bit m (b + k)) [i..<8])"
proof (induction m "[c]" b i acc rule: movem_regs.induct)
  case (1 m b i acc)
  show ?case
  proof (cases "i < 8 \<and> has_bit m (b + i)")
    case True
    let ?e = "movem_run m b i"
    have e: "i \<le> ?e" "?e < 8" "\<forall>k. i < k \<and> k \<le> ?e \<longrightarrow> has_bit m (b + k)"
      using True movem_run_le movem_run_spec by auto
    have "[i..<8] = [i..<?e + 1] @ [?e + 1..<8]"
      using e by (metis Suc_eq_plus1 Suc_leI le_SucI le_add_diff_inverse upt_add_eq_append)
    moreover have "filter (\<lambda>k. has_bit m (b + k)) [i..<?e + 1] = [i..<?e + 1]"
      using e True by (auto simp: filter_id_conv less_Suc_eq_le le_less)
    ultimately have "filter (\<lambda>k. has_bit m (b + k)) [i..<8] =
        [i..<?e + 1] @ filter (\<lambda>k. has_bit m (b + k)) [?e + 1..<8]"
      by (metis filter_append)
    with 1(1) True e show ?thesis
      by (subst movem_regs.simps) (simp add: Let_def reg_range_run)
  next
    case False
    show ?thesis
    proof (cases "i < 8")
      case True
      with False 1(2) show ?thesis
        by (subst movem_regs.simps) (simp add: upt_conv_Cons)
    next
      case False
      then show ?thesis by (subst movem_regs.simps) simp
    qed
  qed
qed

text \<open>The pieces of a list contain no separator and are not the empty list's text.\<close>

definition piece :: "string \<Rightarrow> bool" where
  "piece t \<longleftrightarrow> CHR ''/'' \<notin> set t \<and> t \<noteq> ''0''"

lemma run_text_piece: "c = CHR ''D'' \<or> c = CHR ''A'' \<Longrightarrow> piece (run_text [c] i e)"
  using fmt_dec_alnum [of "CHR ''/''"] by (auto simp: piece_def run_text_def alnum_char_def)

lemma movem_regs_pieces:
  "c = CHR ''D'' \<or> c = CHR ''A'' \<Longrightarrow> list_all piece acc \<Longrightarrow>
   list_all piece (movem_regs m [c] b i acc)"
proof (induction m "[c]" b i acc rule: movem_regs.induct)
  case (1 m b i acc)
  note piece = run_text_piece [OF 1(3)]
  show ?case
  proof (cases "i < 8")
    case True
    with 1 piece show ?thesis
      by (subst movem_regs.simps) (simp only: if_True Let_def list_all_append list.pred_inject split: if_split, simp)
  next
    case False
    with 1 show ?thesis by (subst movem_regs.simps) simp
  qed
qed

lemma reglist_regs_join:
  assumes "list_all piece ts"
  shows "reglist_regs (if ts \<noteq> [] then py_join ''/'' ts else ''0'') = concat (map reg_range ts)"
proof (cases "ts = []")
  case True
  then show ?thesis by (simp add: reglist_regs_def)
next
  case False
  then have ts: "split_char (CHR ''/'') (py_join ''/'' ts) = ts"
    using assms by (intro split_join) (simp_all add: list_all_iff piece_def)
  moreover have "split_char (CHR ''/'') ''0'' = [''0'']" by (simp add: split_char_no_sep)
  moreover have "ts \<noteq> [''0'']" using assms by (auto simp: piece_def)
  ultimately have "py_join ''/'' ts \<noteq> ''0''" by metis
  with ts False show ?thesis by (simp add: reglist_regs_def)
qed

lemma has_bit_bit: "has_bit m i \<longleftrightarrow> bit m i"
  by (simp only: has_bit_def bit_iff_and_push_bit_not_eq_0)

lemma fold_set_bits:
  "bit (fold (\<lambda>i acc. if P i then acc OR push_bit (15 - i) 1 else acc) is a) j \<longleftrightarrow>
     bit a j \<or> (\<exists>i \<in> set is. P i \<and> 15 - i = j)" for a :: int
  by (induction "is" arbitrary: a) (auto simp: bit_or_iff bit_push_bit_iff bit_1_iff bit_exp_iff)

lemma reverse_mask_bit: "i < 16 \<Longrightarrow> has_bit (reverse_mask m) i = has_bit m (15 - i)"
  unfolding has_bit_bit reverse_mask_def fold_set_bits
  by (auto intro: bexI [of _ "15 - i"])

text \<open>
  A register list names the registers of the mask: read back, the text of MOVEM's list is the
  registers whose bits are set, in the order D0 to D7, A0 to A7; for the predecrement mode the
  bits count from the other end.
\<close>

theorem movem_reglist_names:
  "reglist_regs (movem_reglist m reverse) =
     map register_name (filter (\<lambda>i. has_bit m (if reverse then 15 - i else i)) [0..<16])"
proof -
  let ?m = "if reverse then reverse_mask m else m"
  let ?d = "movem_regs ?m ''D'' 0 0 []"
  let ?ts = "movem_regs ?m ''A'' 8 0 ?d"
  have str: "movem_reglist m reverse = (if ?ts \<noteq> [] then py_join ''/'' ?ts else ''0'')"
    by (simp add: movem_reglist_def Let_def)
  have halves: "[0..<16] = [0..<8] @ [8..<16]" by code_simp
  have "list_all piece ?ts"
    by (intro movem_regs_pieces) simp_all
  then have "reglist_regs (movem_reglist m reverse) = concat (map reg_range ?ts)"
    unfolding str by (rule reglist_regs_join)
  also have "\<dots> = map (\<lambda>k. [CHR ''D'', digit_char False k]) (filter (\<lambda>k. has_bit ?m k) [0..<8]) @
      map (\<lambda>k. [CHR ''A'', digit_char False k]) (filter (\<lambda>k. has_bit ?m (8 + k)) [0..<8])"
    by (simp add: movem_regs_names)
  also have "map (\<lambda>k. [CHR ''D'', digit_char False k]) (filter (\<lambda>k. has_bit ?m k) [0..<8]) =
      map register_name (filter (has_bit ?m) [0..<8])"
    by (intro map_cong refl) (simp add: register_name_def fmt_dec_digit)
  also have "map (\<lambda>k. [CHR ''A'', digit_char False k]) (filter (\<lambda>k. has_bit ?m (8 + k)) [0..<8]) =
      map register_name (filter (has_bit ?m) (map ((+) 8) [0..<8]))"
    unfolding filter_map map_map comp_def
    by (intro map_cong refl) (simp add: register_name_def fmt_dec_digit)
  also have "map ((+) 8) [0..<8] = [8..<16]"
    by code_simp
  also have "map register_name (filter (has_bit ?m) [0..<8]) @ map register_name (filter (has_bit ?m) [8..<16]) =
      map register_name (filter (has_bit ?m) [0..<16])"
    unfolding halves filter_append map_append ..
  also have "filter (has_bit ?m) [0..<16] =
      filter (\<lambda>i. has_bit m (if reverse then 15 - i else i)) [0..<16]"
    by (intro filter_cong) (simp_all add: reverse_mask_bit)
  finally show ?thesis .
qed

section \<open>Signed fields\<close>

text \<open>Two's complement bytes, big-endian.\<close>

definition be16 :: "int \<Rightarrow> byte list" where
  "be16 i = [of_int (i div 256), of_int i]"

definition be32 :: "int \<Rightarrow> byte list" where
  "be32 i = be16 (i div 65536) @ be16 i"

lemma length_be [simp]: "length (be16 i) = 2" "length (be32 i) = 4"
  by (simp_all add: be16_def be32_def)

text \<open>\<open>at s bs\<close>: the stream is positioned at the bytes \<open>bs\<close>.\<close>

definition at :: "stream \<Rightarrow> byte list \<Rightarrow> bool" where
  "at s bs \<longleftrightarrow> (\<exists>rest. drop (spos s) (sdata s) = bs @ rest)"

definition skip :: "nat \<Rightarrow> stream \<Rightarrow> stream" where
  "skip n s = s\<lparr>spos := spos s + n\<rparr>"

lemma skip_simps [simp]: "skip m (skip n s) = skip (n + m) s" "saddr (skip n s) = saddr s + int n"
  by (simp_all add: skip_def saddr_def)

lemma rd_word_at:
  assumes "at s (a # b # bs)"
  shows "rd_word s = Inr (uint a * 256 + uint b, skip 2 s)" and "at (skip 2 s) bs"
proof -
  from assms obtain rest where d: "drop (spos s) (sdata s) = a # b # bs @ rest"
    by (auto simp: at_def)
  have len: "spos s + 2 \<le> length (sdata s)"
    using arg_cong [OF d, of length] by simp
  have "sdata s ! (spos s + k) = (a # b # bs @ rest) ! k" for k
    using nth_drop [of "spos s" "sdata s" k] len d by simp
  from this [of 0] this [of 1] have "sdata s ! spos s = a" "sdata s ! (spos s + 1) = b"
    by simp_all
  with len show "rd_word s = Inr (uint a * 256 + uint b, skip 2 s)"
    by (simp add: rd_word_def skip_def word_of_bytes)
  have "drop (spos s + 2) (sdata s) = bs @ rest"
    using arg_cong [OF d, of "drop 2"] by (simp add: add.commute)
  then show "at (skip 2 s) bs" by (simp add: at_def skip_def)
qed

lemma be16_value: "uint (of_int (i div 256) :: byte) * 256 + uint (of_int i :: byte) = i mod 65536"
proof -
  have "i mod 65536 = i mod 256 + 256 * (i div 256 mod 256)"
    using mod_mult2_eq' [of i 256 256] by (simp add: algebra_simps)
  then show ?thesis by (simp add: uint_word_of_int take_bit_eq_mod unsigned_of_int)
qed

lemma signed_field:
  assumes "- h \<le> i" and "i < (h::int)" and m: "m = 2 * h"
  shows "(if h \<le> i mod m then i mod m - m else i mod m) = i"
proof (cases "i < 0")
  case True
  have "i mod m = (i + m) mod m" by simp
  also have "\<dots> = i + m" using assms True by (intro mod_pos_pos_trivial) simp_all
  finally show ?thesis using assms by simp
next
  case False
  then have "i mod m = i" using assms by (intro mod_pos_pos_trivial) simp_all
  with assms show ?thesis by simp
qed

lemma rd_word_be16:
  "at s (be16 i @ bs) \<Longrightarrow> rd_word s = Inr (i mod 65536, skip 2 s) \<and> at (skip 2 s) bs"
  using rd_word_at [of s "of_int (i div 256)" "of_int i" bs] by (simp add: be16_def be16_value)

lemma rd_sword_be16:
  "at s (be16 i @ bs) \<Longrightarrow> -32768 \<le> i \<Longrightarrow> i < 32768 \<Longrightarrow>
   rd_sword s = Inr (i, skip 2 s) \<and> at (skip 2 s) bs"
  using rd_word_be16 [of s i bs] signed_field [of 32768 i 65536]
  by (simp add: rd_sword_def rbind_def ret_def)

lemma rd_long_be32:
  "at s (be32 i @ bs) \<Longrightarrow> rd_long s = Inr (i mod 4294967296, skip 4 s) \<and> at (skip 4 s) bs"
  using rd_word_be16 [of s "i div 65536" "be16 i @ bs"] rd_word_be16 [of "skip 2 s" i bs]
    mod_mult2_eq' [of i 65536 65536]
  by (auto simp: rd_long_def rbind_def ret_def be32_def long_of_words)

lemma rd_slong_be32:
  "at s (be32 i @ bs) \<Longrightarrow> -2147483648 \<le> i \<Longrightarrow> i < 2147483648 \<Longrightarrow>
   rd_slong s = Inr (i, skip 4 s) \<and> at (skip 4 s) bs"
  using rd_long_be32 [of s i bs] signed_field [of 2147483648 i 4294967296]
  by (simp add: rd_slong_def rbind_def ret_def)

section \<open>Branches and quick moves\<close>

text \<open>
  The encoding of a branch to \<open>target\<close> from an instruction at \<open>a\<close>: a byte displacement when
  it fits and is neither of the two escapes 0 and -1, else a word, else a long.
\<close>

definition encode_branch :: "int \<Rightarrow> int \<Rightarrow> int \<Rightarrow> byte list" where
  "encode_branch cond a target =
     (let d = target - (a + 2); op = 0x6000 + cond * 256
      in if -128 \<le> d \<and> d < 128 \<and> d \<noteq> 0 \<and> d \<noteq> -1 then be16 (op + d mod 256)
         else if -32768 \<le> d \<and> d < 32768 then be16 op @ be16 d
         else be16 (op + 255) @ be32 d)"

definition branch_size :: "int \<Rightarrow> int \<Rightarrow> string" where
  "branch_size a target =
     (let d = target - (a + 2)
      in if -128 \<le> d \<and> d < 128 \<and> d \<noteq> 0 \<and> d \<noteq> -1 then ''.S''
         else if -32768 \<le> d \<and> d < 32768 then ''.W'' else ''.L'')"

definition branch_text :: "int \<Rightarrow> string \<Rightarrow> int \<Rightarrow> string" where
  "branch_text cond sz target =
     (if cond = 0 then ''BRA'' @ fmt_left 5 sz @ '' ''
      else if cond = 1 then ''BSR'' @ fmt_left 5 sz @ '' ''
      else ''B'' @ the (map_of CC_NAMES cond) @ fmt_left 5 sz) @ ''$'' @ fmt_hex True 8 target"

lemma opcode_fields:
  assumes "0 \<le> hi" "hi < 16" "0 \<le> mid" "mid < 16" "0 \<le> lo" "lo < (256::int)"
  shows "drop_bit 12 (hi * 4096 + mid * 256 + lo) AND 15 = hi"
    and "drop_bit 8 (hi * 4096 + mid * 256 + lo) AND 15 = mid"
    and "(hi * 4096 + mid * 256 + lo) AND 255 = lo"
proof -
  let ?op = "hi * 4096 + mid * 256 + lo"
  have op: "?op = lo + (mid + hi * 16) * 256" by simp
  have low: "?op mod 256 = lo"
    unfolding op mod_mult_self1 using assms by (intro mod_pos_pos_trivial)
  have 8: "?op div 256 = mid + hi * 16"
    unfolding op using assms by (simp add: div_pos_pos_trivial)
  have "?op div 4096 = ?op div 256 div 16" by (simp add: zdiv_zmult2_eq [symmetric])
  then have 12: "?op div 4096 = hi"
    unfolding 8 using assms by (simp add: div_pos_pos_trivial)
  have mid: "(mid + hi * 16) mod 16 = mid"
    unfolding mod_mult_self1 using assms by (intro mod_pos_pos_trivial)
  have p: "(2::int) ^ 12 = 4096" "(2::int) ^ 8 = 256" by simp_all
  have hi: "hi mod 16 = hi" using assms by (intro mod_pos_pos_trivial)
  show "drop_bit 12 ?op AND 15 = hi" "drop_bit 8 ?op AND 15 = mid" "?op AND 255 = lo"
    by (simp_all only: drop_bit_eq_div p and_15 and_255 low 8 12 mid hi)
qed

lemma cc_lookup: "0 \<le> cond \<Longrightarrow> cond < 16 \<Longrightarrow> int_key CC_NAMES cond = Inr (the (map_of CC_NAMES cond))"
  using cc_key [of cond] by (auto simp: bit_field int_key_def)

lemma decode_one_at:
  assumes "at s (be16 op @ bs)" and "0 \<le> op" and "op < 65536"
  shows "decode_one s = decode_group op (skip 2 s)" and "at (skip 2 s) bs"
proof -
  from assms(2,3) have "op mod 65536 = op" by (intro mod_pos_pos_trivial)
  with rd_word_be16 [OF assms(1)]
  show "decode_one s = decode_group op (skip 2 s)" "at (skip 2 s) bs"
    by (simp_all add: decode_one_eq rbind_def)
qed

lemma decode_branch_group:
  assumes "0 \<le> cond" "cond < 16" "0 \<le> lo" "lo < 256"
  shows "decode_group (24576 + cond * 256 + lo) = decode_branch (24576 + cond * 256 + lo)"
    and "drop_bit 8 (24576 + cond * 256 + lo) AND 15 = cond"
    and "(24576 + cond * 256 + lo) AND 255 = lo"
  using opcode_fields [of 6 cond lo] assms by (simp_all add: decode_group_def)

lemma branch_finish:
  assumes "0 \<le> cond" "cond < 16" "0 \<le> lo" "lo < 256"
    and "(if lo = 0 then rbind rd_sword (\<lambda>disp. ret (saddr s + disp, ''.W''))
          else if lo = 255 then rbind rd_slong (\<lambda>disp. ret (saddr s + disp, ''.L''))
          else ret (saddr s + (if 128 \<le> lo then lo - 256 else lo), ''.S'')) s = Inr ((target, sz), t)"
  shows "decode_group (24576 + cond * 256 + lo) s = Inr (Some (branch_text cond sz target), t)"
proof -
  have "decode_branch (24576 + cond * 256 + lo) s =
      (if cond = 0 then say (''BRA'' @ fmt_left 5 sz @ '' $'' @ fmt_hex True 8 target)
       else if cond = 1 then say (''BSR'' @ fmt_left 5 sz @ '' $'' @ fmt_hex True 8 target)
       else rbind (rlift (int_key CC_NAMES cond)) (\<lambda>cc.
         say (''B'' @ cc @ fmt_left 5 sz @ ''$'' @ fmt_hex True 8 target))) t"
    unfolding decode_branch_def Let_def decode_branch_group [OF assms(1-4)]
    using assms(5) by (simp add: rbind_def [of here] here_def rbind_def [of "if _ then _ else _"])
  also have "\<dots> = Inr (Some (branch_text cond sz target), t)"
    using cc_lookup [OF assms(1,2)]
    by (simp add: rbind_rlift branch_text_def say_def ret_def)
  finally show ?thesis by (simp add: decode_branch_group [OF assms(1-4)])
qed

lemma short_field:
  assumes "-128 \<le> d" "d < 128" "d \<noteq> 0" "d \<noteq> -1"
  shows "d mod 256 \<noteq> 0" and "d mod 256 \<noteq> (255::int)"
    and "(if 128 \<le> d mod 256 then d mod 256 - 256 else d mod 256) = d"
proof -
  have "d mod 256 = (if d < 0 then d + 256 else d)"
    using signed_field [of 128 d 256] assms mod_pos_pos_trivial [of d 256]
    by (cases "d < 0") (auto split: if_splits)
  with assms show "d mod 256 \<noteq> 0" "d mod 256 \<noteq> 255"
    "(if 128 \<le> d mod 256 then d mod 256 - 256 else d mod 256) = d"
    by (simp_all split: if_splits)
qed

text \<open>
  C4. Branches show where they go: for every condition, every address and every target within
  reach, the instruction that encodes the branch disassembles to its mnemonic and the target
  address, and exactly its bytes are taken.
\<close>

theorem branch_target:
  assumes "0 \<le> cond" and "cond < 16"
    and "-2147483648 \<le> target - (saddr s + 2)" and "target - (saddr s + 2) < 2147483648"
    and "at s (encode_branch cond (saddr s) target @ bs)"
  shows "decode_one s =
    Inr (Some (branch_text cond (branch_size (saddr s) target) target),
         skip (length (encode_branch cond (saddr s) target)) s)"
proof -
  let ?d = "target - (saddr s + 2)"
  have op: "decode_one s = decode_group (24576 + cond * 256 + lo) (skip 2 s) \<and> at (skip 2 s) bs'"
    if "at s (be16 (24576 + cond * 256 + lo) @ bs')" "0 \<le> lo" "lo < 256" for lo bs'
    using decode_one_at [OF that(1)] that assms(1,2) by simp
  note finish = branch_finish [OF assms(1,2)]
  consider (short) "-128 \<le> ?d \<and> ?d < 128 \<and> ?d \<noteq> 0 \<and> ?d \<noteq> -1"
    | (word) "\<not> (-128 \<le> ?d \<and> ?d < 128 \<and> ?d \<noteq> 0 \<and> ?d \<noteq> -1)" "-32768 \<le> ?d \<and> ?d < 32768"
    | (long) "\<not> (-128 \<le> ?d \<and> ?d < 128 \<and> ?d \<noteq> 0 \<and> ?d \<noteq> -1)" "\<not> (-32768 \<le> ?d \<and> ?d < 32768)"
    by blast
  then show ?thesis
  proof cases
    case short
    then have d: "?d mod 256 \<noteq> 0" "?d mod 256 \<noteq> 255"
      "(if 128 \<le> ?d mod 256 then ?d mod 256 - 256 else ?d mod 256) = ?d"
      using short_field [of ?d] short by simp_all
    have "at s (be16 (24576 + cond * 256 + ?d mod 256) @ bs)"
      using assms(5) short by (simp add: encode_branch_def Let_def)
    with op have "decode_one s = decode_group (24576 + cond * 256 + ?d mod 256) (skip 2 s)" by simp
    with finish [of "?d mod 256" "skip 2 s" target "''.S''"] d short show ?thesis
      by (simp add: encode_branch_def branch_size_def Let_def ret_def)
  next
    case word
    then have "at s (be16 (24576 + cond * 256 + 0) @ be16 ?d @ bs)"
      using assms(5) by (simp only: encode_branch_def Let_def if_False if_True append_assoc) simp
    with op [of 0] have "decode_one s = decode_group (24576 + cond * 256 + 0) (skip 2 s)"
      "at (skip 2 s) (be16 ?d @ bs)" by simp_all
    with finish [of 0 "skip 2 s" target "''.W''" "skip 4 s"] word rd_sword_be16 [of "skip 2 s" ?d bs]
    show ?thesis
      by (simp only: encode_branch_def branch_size_def Let_def if_False if_True; simp add: rbind_def ret_def)
  next
    case long
    then have "at s (be16 (24576 + cond * 256 + 255) @ be32 ?d @ bs)"
      using assms(5) by (simp only: encode_branch_def Let_def if_False if_True append_assoc)
    with op [of 255] have "decode_one s = decode_group (24576 + cond * 256 + 255) (skip 2 s)"
      "at (skip 2 s) (be32 ?d @ bs)" by simp_all
    with finish [of 255 "skip 2 s" target "''.L''" "skip 6 s"] long rd_slong_be32 [of "skip 2 s" ?d bs] assms(3,4)
    show ?thesis
      by (simp only: encode_branch_def branch_size_def Let_def if_False if_True; simp add: rbind_def ret_def)
  qed
qed

theorem branch_target_witness:
  "decode_one (new_stream [0x67, 0x00, 0x01, 0x00] 4096) =
     Inr (Some ''BEQ.W   $00001102'', skip 4 (new_stream [0x67, 0x00, 0x01, 0x00] 4096))"
proof -
  let ?s = "new_stream [0x67, 0x00, 0x01, 0x00] 4096"
  have addr: "saddr ?s = 4096" by code_simp
  have enc: "encode_branch 7 4096 4354 = [0x67, 0x00, 0x01, 0x00]" by code_simp
  have text_eq: "branch_text 7 (branch_size 4096 4354) 4354 = ''BEQ.W   $00001102''" by code_simp
  have "at ?s (encode_branch 7 (saddr ?s) 4354 @ [])"
    unfolding addr enc by (simp add: at_def new_stream_def)
  from branch_target [OF _ _ _ _ this] show ?thesis
    by (simp add: addr enc text_eq eval_nat_numeral)
qed

section \<open>Operands with a displacement\<close>

text \<open>The brief extension word of an indexed operand.\<close>

definition brief_word :: "bool \<Rightarrow> int \<Rightarrow> bool \<Rightarrow> int \<Rightarrow> int" where
  "brief_word addr_reg x long_index d =
     (if addr_reg then 32768 else 0) + x * 4096 + (if long_index then 2048 else 0) + d mod 256"

definition index_text :: "string \<Rightarrow> bool \<Rightarrow> int \<Rightarrow> bool \<Rightarrow> string" where
  "index_text base addr_reg x long_index =
     ''('' @ base @ '','' @ (if addr_reg then ''A'' else ''D'') @ fmt_dec x @
     (if long_index then ''.L'' else ''.W'') @ '')''"

lemma single_bit: "(x::int) AND 2 ^ n \<noteq> 0 \<longleftrightarrow> odd (x div 2 ^ n)"
  using bit_iff_and_push_bit_not_eq_0 [of x n] by (simp add: push_bit_of_1 bit_iff_odd)

lemma brief_word_fields:
  fixes a l :: bool
  assumes "0 \<le> x" "x < 8" "-128 \<le> d" "d < 128"
  defines "w \<equiv> brief_word a x l d"
  shows "0 \<le> w \<and> w < 65536" and "w AND 32768 \<noteq> 0 \<longleftrightarrow> a" and "w AND 2048 \<noteq> 0 \<longleftrightarrow> l"
    and "drop_bit 12 w AND 7 = x" and "w AND 255 = d mod 256"
proof -
  let ?a = "if a then 1 else 0 :: int" and ?l = "if l then 1 else 0 :: int"
  have w: "w = d mod 256 + (?l * 8 + (x + ?a * 8) * 16) * 256"
    by (simp add: w_def brief_word_def)
  have d: "0 \<le> d mod 256" "d mod 256 < 256" by simp_all
  have 8: "w div 256 = ?l * 8 + (x + ?a * 8) * 16"
    unfolding w using d by (simp add: div_pos_pos_trivial)
  have low: "w mod 256 = d mod 256"
    unfolding w mod_mult_self1 by simp
  have 11: "w div 2048 = ?l + (x + ?a * 8) * 2"
  proof -
    have "w div 2048 = w div 256 div 8" by (simp add: zdiv_zmult2_eq [symmetric])
    then show ?thesis unfolding 8 by simp
  qed
  have 12: "w div 4096 = x + ?a * 8"
  proof -
    have "w div 4096 = w div 2048 div 2" by (simp add: zdiv_zmult2_eq [symmetric])
    then show ?thesis unfolding 11 by simp
  qed
  have 15: "w div 32768 = ?a"
  proof -
    have "w div 32768 = w div 4096 div 8" by (simp add: zdiv_zmult2_eq [symmetric])
    then show ?thesis unfolding 12 using assms by simp
  qed
  show "0 \<le> w \<and> w < 65536" using assms(1,2) d by (auto simp: w_def brief_word_def)
  show "w AND 32768 \<noteq> 0 \<longleftrightarrow> a" using single_bit [of w 15] by (simp add: 15)
  show "w AND 2048 \<noteq> 0 \<longleftrightarrow> l" using single_bit [of w 11] by (simp add: 11)
  show "drop_bit 12 w AND 7 = x" using assms(1,2) by (simp add: drop_bit_eq_div bit_field 12)
  show "w AND 255 = d mod 256" by (simp add: bit_field low)
qed

lemma decode_brief_at:
  assumes "0 \<le> x" "x < 8" "-128 \<le> d" "d < 128"
    and "at s (be16 (brief_word a x l d) @ bs)"
  shows "decode_brief_ext base r s =
    Inr ((case r of
            Some r \<Rightarrow> if base = ''PC'' then ''$'' @ fmt_hex True 8 (r + d) else fmt_dec d
          | None \<Rightarrow> fmt_dec d) @ index_text base a x l, skip 2 s)"
proof -
  define w where "w = brief_word a x l d"
  note fields = brief_word_fields [OF assms(1-4), of a l, folded w_def]
  have "rd_word s = Inr (w, skip 2 s)"
    using rd_word_be16 [OF assms(5)] fields(1) by (simp add: w_def)
  then have eq: "decode_brief_ext base r s =
    (let da = (if w AND 0x8000 \<noteq> 0 then ''A'' else ''D'');
         xreg = drop_bit 12 w AND 7;
         wl = (if w AND 0x0800 \<noteq> 0 then ''.L'' else ''.W'');
         disp0 = w AND 0xFF;
         disp = (if 0x80 \<le> disp0 then disp0 - 0x100 else disp0);
         index = ''('' @ base @ '','' @ da @ fmt_dec xreg @ wl @ '')''
     in case r of
          Some r \<Rightarrow>
            if base = ''PC'' then ret (''$'' @ fmt_hex True 8 (r + disp) @ index)
            else ret (fmt_dec disp @ index)
        | None \<Rightarrow> ret (fmt_dec disp @ index)) (skip 2 s)"
    by (simp add: decode_brief_ext_def rbind_def)
  have disp: "(if 0x80 \<le> w AND 0xFF then (w AND 0xFF) - 0x100 else w AND 0xFF) = d"
    unfolding fields(5) using assms(3,4) by (intro signed_field) simp_all
  show ?thesis
    unfolding eq Let_def disp fields(2-4)
    by (simp add: index_text_def ret_def split: option.split)
qed

text \<open>
  Operands show the displacement that was encoded. A word displacement reads back signed
  (with the library vector's name after it where an A6-relative call has one), a PC-relative
  operand shows the address it denotes, and an indexed operand its base, its index register
  with its size, and its signed byte displacement; each takes exactly its extension word.
\<close>

theorem displacement_operands:
  assumes "-32768 \<le> d" and "d < 32768" and "-128 \<le> b" and "b < 128" and "0 \<le> x" and "x < 8"
    and word: "at s (be16 d @ bs)" and brief: "at u (be16 (brief_word ar x l b) @ bs)"
  shows "decode_ea 5 reg sz pc s =
      Inr (fmt_dec d @ ''(A'' @ fmt_dec reg @ '')'' @
           (case (if reg = 6 \<and> d < 0 then lvo_name d else None) of
              None \<Rightarrow> '''' | Some n \<Rightarrow> ''  ; '' @ n), skip 2 s) \<and>
    decode_ea 7 2 sz (Some a) s = Inr (''$'' @ fmt_hex True 8 (a + d) @ ''(PC)'', skip 2 s) \<and>
    decode_ea 6 reg sz pc u =
      Inr (fmt_dec b @ index_text (''A'' @ fmt_dec reg) ar x l, skip 2 u) \<and>
    decode_ea 7 3 sz (Some a) u =
      Inr (''$'' @ fmt_hex True 8 (a + b) @ index_text ''PC'' ar x l, skip 2 u)"
proof (intro conjI)
  have rd: "rd_sword s = Inr (d, skip 2 s)" using rd_sword_be16 [OF word] assms(1,2) by blast
  then show "decode_ea 5 reg sz pc s =
      Inr (fmt_dec d @ ''(A'' @ fmt_dec reg @ '')'' @
           (case (if reg = 6 \<and> d < 0 then lvo_name d else None) of
              None \<Rightarrow> '''' | Some n \<Rightarrow> ''  ; '' @ n), skip 2 s)"
    by (simp add: decode_ea_def rbind_def Let_def ret_def split: option.split)
  from rd show "decode_ea 7 2 sz (Some a) s =
      Inr (''$'' @ fmt_hex True 8 (a + d) @ ''(PC)'', skip 2 s)"
    by (simp add: decode_ea_def rbind_def Let_def ret_def here_def)
  note index = decode_brief_at [OF assms(5,6,3,4) brief]
  show "decode_ea 6 reg sz pc u =
      Inr (fmt_dec b @ index_text (''A'' @ fmt_dec reg) ar x l, skip 2 u)"
    by (simp add: decode_ea_def index)
  show "decode_ea 7 3 sz (Some a) u =
      Inr (''$'' @ fmt_hex True 8 (a + b) @ index_text ''PC'' ar x l, skip 2 u)"
    by (simp add: decode_ea_def rbind_def here_def Let_def index)
qed

theorem displacement_operands_witness:
  "decode_ea 5 6 2 None (new_stream [0xFD, 0xD8] 0) =
     Inr (''-552(A6)  ; OpenLibrary'', skip 2 (new_stream [0xFD, 0xD8] 0))"
proof -
  have "be16 (-552) = [0xFD, 0xD8]" "be16 (brief_word False 0 False 4) = [0x00, 0x04]"
    by code_simp+
  then have at: "at (new_stream [0xFD, 0xD8] 0) (be16 (-552) @ [])"
    "at (new_stream [0x00, 0x04] 0) (be16 (brief_word False 0 False 4) @ [])"
    by (simp_all add: at_def new_stream_def)
  have "fmt_dec (-552) @ ''(A'' @ fmt_dec 6 @ '')'' @
      (case (if (6::int) = 6 \<and> (-552::int) < 0 then lvo_name (-552) else None) of
         None \<Rightarrow> '''' | Some n \<Rightarrow> ''  ; '' @ n) = ''-552(A6)  ; OpenLibrary''"
    by code_simp
  with displacement_operands [OF _ _ _ _ _ _ at, of 6 2 None 0] show ?thesis
    by simp
qed

section \<open>The lost instruction\<close>

text \<open>
  MOVE to CCR is never shown: its instruction words are claimed by the test for NEG, which
  refuses the size field 3, so the branch meant for it cannot be reached and the word is
  listed as data.
\<close>

theorem move_to_ccr_lost:
  assumes "0x44C0 \<le> op" and "op \<le> 0x44FF" and "rd_word s = Inr (op, t)"
  shows "decode_one s = Inr (None, t)"
proof -
  have all: "\<forall>op \<in> set [0x44C0..0x44FF :: int].
     drop_bit 12 op AND 15 = 4 \<and> drop_bit 6 op AND 3 = 3 \<and> op AND 0xFF00 = 0x4400 \<and>
     op AND 0xFF00 \<noteq> 0x4A00 \<and> op AND 0xFFF0 \<noteq> 0x4E40 \<and> op AND 0xFFF8 \<noteq> 0x4E50 \<and>
     op AND 0xFFF8 \<noteq> 0x4E58 \<and> op AND 0xFFF0 \<noteq> 0x4E60 \<and> op AND 0xFFF8 \<noteq> 0x4840 \<and>
     op AND 0xFFC0 \<noteq> 0x4840 \<and> op AND 0xFFF8 \<noteq> 0x4880 \<and> op AND 0xFFF8 \<noteq> 0x48C0 \<and>
     op AND 0xFFF8 \<noteq> 0x49C0 \<and> op AND 0xFB80 \<noteq> 0x4880 \<and> op AND 0xF1C0 \<noteq> 0x41C0 \<and>
     op AND 0xF1C0 \<noteq> 0x4180 \<and> op AND 0xFFC0 \<noteq> 0x4E80 \<and> op AND 0xFFC0 \<noteq> 0x4EC0"
    by code_simp
  have mem: "op \<in> set [0x44C0..0x44FF :: int]" unfolding set_upto using assms by simp
  have "decode_group op t = Inr (None, t)"
    using bspec [OF all mem] assms(1,2) by (simp add: decode_group_def decode_0100_def Let_def refuse_def ret_def)
  then show ?thesis by (simp add: decode_one_eq rbind_def assms(3))
qed

theorem move_to_ccr_lost_witness:
  "decode_one (new_stream [0x44, 0xFC, 0x00, 0x1F] 0) =
     Inr (None, skip 2 (new_stream [0x44, 0xFC, 0x00, 0x1F] 0))"
proof -
  have "rd_word (new_stream [0x44, 0xFC, 0x00, 0x1F] 0) =
      Inr (0x44FC, skip 2 (new_stream [0x44, 0xFC, 0x00, 0x1F] 0))"
    by code_simp
  from move_to_ccr_lost [OF _ _ this] show ?thesis by simp
qed

end
