(* ===== verification/Copper.thy ===== *)
theory Copper
  imports Pystr
begin

text \<open>
  The copper list decoder \<open>copper.py\<close>: the custom register names, \<open>decode_copper_instruction\<close>,
  \<open>decode_copper_list\<close> and \<open>format_copper_list\<close>. An instruction is the dictionary the source
  builds. The lemmas show that a list assembled from MOVE, WAIT, SKIP and END instructions
  decodes to those instructions, at their addresses, up to the first END.
\<close>

section \<open>Register names\<close>

definition CUSTOM_REGS_0 :: "(int \<times> string) list" where
  "CUSTOM_REGS_0 =
    [(0x0002, ''DMACONR''), (0x0004, ''VPOSR''), (0x0006, ''VHPOSR''), (0x000A, ''JOY0DAT''),
     (0x000C, ''JOY1DAT''), (0x0010, ''ADKCONR''), (0x0012, ''POT0DAT''), (0x001C, ''INTENA''),
     (0x001E, ''INTREQ''), (0x0020, ''DSKPTH''), (0x0022, ''DSKPTL''), (0x0024, ''DSKLEN''),
     (0x002A, ''VPOSW''), (0x002C, ''VHPOSW''), (0x002E, ''COPCON''), (0x0040, ''BLTCON0''),
     (0x0042, ''BLTCON1''), (0x0044, ''BLTAFWM''), (0x0046, ''BLTALWM''), (0x0048, ''BLTCPTH''),
     (0x004A, ''BLTCPTL''), (0x004C, ''BLTBPTH''), (0x004E, ''BLTBPTL''), (0x0050, ''BLTAPTH''),
     (0x0052, ''BLTAPTL''), (0x0054, ''BLTDPTH''), (0x0056, ''BLTDPTL''), (0x0058, ''BLTSIZE''),
     (0x0060, ''BLTCMOD''), (0x0062, ''BLTBMOD''), (0x0064, ''BLTAMOD''), (0x0066, ''BLTDMOD''),
     (0x0080, ''COP1LCH''), (0x0082, ''COP1LCL''), (0x0084, ''COP2LCH''), (0x0086, ''COP2LCL''),
     (0x0088, ''COPJMP1''), (0x008A, ''COPJMP2''), (0x008E, ''DIWSTRT''), (0x0090, ''DIWSTOP''),
     (0x0092, ''DDFSTRT''), (0x0094, ''DDFSTOP''), (0x0096, ''DMACON''), (0x009A, ''INTENA''),
     (0x009C, ''INTREQ''), (0x009E, ''ADKCON''), (0x00A0, ''AUD0LCH''), (0x00A2, ''AUD0LCL''),
     (0x00A4, ''AUD0LEN''), (0x00A6, ''AUD0PER''), (0x00A8, ''AUD0VOL''), (0x00AA, ''AUD0DAT''),
     (0x00B0, ''AUD1LCH''), (0x00B2, ''AUD1LCL''), (0x00C0, ''AUD2LCH''), (0x00C2, ''AUD2LCL''),
     (0x00D0, ''AUD3LCH''), (0x00D2, ''AUD3LCL''), (0x00E0, ''BPL1PTH''), (0x00E2, ''BPL1PTL''),
     (0x00E4, ''BPL2PTH''), (0x00E6, ''BPL2PTL''), (0x00E8, ''BPL3PTH''), (0x00EA, ''BPL3PTL''),
     (0x00EC, ''BPL4PTH''), (0x00EE, ''BPL4PTL''), (0x00F0, ''BPL5PTH''), (0x00F2, ''BPL5PTL''),
     (0x00F4, ''BPL6PTH''), (0x00F6, ''BPL6PTL''), (0x0100, ''BPLCON0''), (0x0102, ''BPLCON1''),
     (0x0104, ''BPLCON2''), (0x0106, ''BPLCON3''), (0x0108, ''BPL1MOD''), (0x010A, ''BPL2MOD''),
     (0x0110, ''BPL1DAT''), (0x0112, ''BPL2DAT''), (0x0114, ''BPL3DAT''), (0x0116, ''BPL4DAT''),
     (0x0118, ''BPL5DAT''), (0x011A, ''BPL6DAT''), (0x0120, ''SPR0PTH''), (0x0122, ''SPR0PTL''),
     (0x0124, ''SPR1PTH''), (0x0126, ''SPR1PTL''), (0x0128, ''SPR2PTH''), (0x012A, ''SPR2PTL''),
     (0x012C, ''SPR3PTH''), (0x012E, ''SPR3PTL''), (0x0130, ''SPR4PTH''), (0x0132, ''SPR4PTL''),
     (0x0134, ''SPR5PTH''), (0x0136, ''SPR5PTL''), (0x0138, ''SPR6PTH''), (0x013A, ''SPR6PTL''),
     (0x013C, ''SPR7PTH''), (0x013E, ''SPR7PTL''), (0x0140, ''SPR0POS''), (0x0142, ''SPR0CTL''),
     (0x0144, ''SPR0DATA''), (0x0146, ''SPR0DATB''), (0x0148, ''SPR1POS''),
     (0x014A, ''SPR1CTL''), (0x014C, ''SPR1DATA''), (0x014E, ''SPR1DATB''),
     (0x0150, ''SPR2POS''), (0x0152, ''SPR2CTL''), (0x0154, ''SPR2DATA''),
     (0x0156, ''SPR2DATB''), (0x0158, ''SPR3POS''), (0x015A, ''SPR3CTL''),
     (0x015C, ''SPR3DATA''), (0x015E, ''SPR3DATB''), (0x0160, ''SPR4POS''),
     (0x0162, ''SPR4CTL''), (0x0164, ''SPR4DATA''), (0x0166, ''SPR4DATB''),
     (0x0168, ''SPR5POS''), (0x016A, ''SPR5CTL''), (0x016C, ''SPR5DATA''),
     (0x016E, ''SPR5DATB''), (0x0170, ''SPR6POS''), (0x0172, ''SPR6CTL''),
     (0x0174, ''SPR6DATA''), (0x0176, ''SPR6DATB''), (0x0178, ''SPR7POS''),
     (0x017A, ''SPR7CTL''), (0x017C, ''SPR7DATA''), (0x017E, ''SPR7DATB'')]"

text \<open>\<open>for i in range(32): CUSTOM_REGS[0x0180 + i * 2] = f"COLOR{i:02d}"\<close>\<close>

definition CUSTOM_REGS :: "(int \<times> string) list" where
  "CUSTOM_REGS =
     CUSTOM_REGS_0 @ map (\<lambda>i. (0x0180 + i * 2, ''COLOR'' @ fmt_dec_pad 2 i)) [0..31]"

definition reg_name :: "int \<Rightarrow> string" where
  "reg_name off =
     (case map_of CUSTOM_REGS off of
        Some n \<Rightarrow> n
      | None \<Rightarrow> ''REG_'' @ fmt_hex True 4 off)"

section \<open>Decoding\<close>

definition wait_dict :: "string \<Rightarrow> int \<Rightarrow> int \<Rightarrow> pydict" where
  "wait_dict kind word1 word2 =
     (let vpos = drop_bit 8 word1 AND 0xFF; hpos = drop_bit 1 word1 AND 0x7F;
          ve_mask = drop_bit 8 word2 AND 0x7F; he_mask = drop_bit 1 word2 AND 0x7F;
          bfd = drop_bit 15 word2 AND 1
      in [(''type'', VStr kind), (''vpos'', VInt vpos), (''hpos'', VInt hpos),
          (''veMask'', VInt ve_mask), (''heMask'', VInt he_mask), (''bfd'', VInt bfd),
          (''text'', VStr (kind @ '' VP>='' @ fmt_dec vpos @ '' HP>='' @ fmt_dec hpos @
             '' (VE=$'' @ fmt_hex True 2 ve_mask @ '' HE=$'' @ fmt_hex True 2 he_mask @
             '' BFD='' @ fmt_dec bfd @ '')''))])"

definition decode_copper_instruction :: "int \<Rightarrow> int \<Rightarrow> pydict" where
  "decode_copper_instruction word1 word2 =
     (if word1 = 0xFFFF \<and> word2 = 0xFFFE then
        [(''type'', VStr ''END''), (''text'', VStr ''END (WAIT $FFFF,$FFFE)'')]
      else if word1 AND 1 = 0 then
        (let register = word1 AND 0x01FE; value = word2; rname = reg_name register;
             addr = 0xDFF000 + register
         in [(''type'', VStr ''MOVE''), (''register'', VInt register), (''regName'', VStr rname),
             (''value'', VInt value), (''address'', VInt addr),
             (''text'', VStr (''MOVE #'' @ fmt_hex True 4 value @ '', '' @ rname @ '' ($'' @
                fmt_hex True 6 addr @ '')''))])
      else
        (let is_skip = (word2 AND 1 = 1)
         in if is_skip then wait_dict ''SKIP'' word1 word2 else wait_dict ''WAIT'' word1 word2))"

text \<open>
  \<open>for i in range(0, len(data) - 3, 4)\<close>: the loop over the remaining bytes, at index \<open>i\<close>.
\<close>

fun copper_loop :: "int \<Rightarrow> int \<Rightarrow> byte list \<Rightarrow> pydict list" where
  "copper_loop base_addr i (a # b # c # d # more) =
     (let word1 = push_bit 8 (uint a) OR uint b;
          word2 = push_bit 8 (uint c) OR uint d;
          addr = base_addr + i;
          inst0 = decode_copper_instruction word1 word2;
          inst1 = dict_set inst0 ''offset'' (VInt i);
          inst2 = dict_set inst1 ''address'' (VInt addr);
          inst = dict_set inst2 ''raw'' (VStr (fmt_hex True 4 word1 @ '' '' @ fmt_hex True 4 word2))
      in if map_of inst ''type'' = Some (VStr ''END'') then [inst]
         else inst # copper_loop base_addr (i + 4) more)"
| "copper_loop base_addr i _ = []"

definition decode_copper_list :: "string \<Rightarrow> int \<Rightarrow> pydict list res" where
  "decode_copper_list hex_data base_addr =
     res_bind (bytes_fromhex hex_data) (\<lambda>data. Inr (copper_loop base_addr 0 data))"

text \<open>
  \<open>f"{addr:08X}"\<close> needs an integer and the other two fields are shown as strings; the
  dictionaries of \<open>decode_copper_list\<close> have them so.
\<close>

definition copper_line :: "pydict \<Rightarrow> string" where
  "copper_line inst =
     (let addr = (case dict_get inst ''address'' (VInt 0) of VInt a \<Rightarrow> a | _ \<Rightarrow> 0);
          raw = (case dict_get inst ''raw'' (VStr '''') of VStr s \<Rightarrow> s | _ \<Rightarrow> '''');
          txt = (case dict_get inst ''text'' (VStr ''?'') of VStr s \<Rightarrow> s | _ \<Rightarrow> '''')
      in fmt_hex True 8 addr @ ''  '' @ raw @ ''  '' @ txt)"

definition format_copper_list :: "pydict list \<Rightarrow> string" where
  "format_copper_list instructions =
     py_join [CHR 0x0A]
       ([''Copper List ('' @ fmt_dec (int (length instructions)) @ '' instructions):'',
         fmt_right 8 ''Addr'' @ ''  '' @ fmt_right 9 ''Raw'' @ ''  Instruction'',
         replicate 60 (CHR ''-'')] @ map copper_line instructions)"

section \<open>Instructions and their encoding\<close>

datatype copper_instruction =
    Cop_Move int int
  | Cop_Wait int int int int bool
  | Cop_Skip int int int int bool
  | Cop_End

text \<open>The fields have the widths of the hardware; a WAIT is not the end marker.\<close>

fun wf_copper :: "copper_instruction \<Rightarrow> bool" where
  "wf_copper (Cop_Move r v) = (0 \<le> r \<and> r < 512 \<and> even r \<and> 0 \<le> v \<and> v < 65536)"
| "wf_copper (Cop_Wait v h ve he b) =
     (0 \<le> v \<and> v < 256 \<and> 0 \<le> h \<and> h < 128 \<and> 0 \<le> ve \<and> ve < 128 \<and> 0 \<le> he \<and> he < 128 \<and>
      \<not> (v = 255 \<and> h = 127 \<and> ve = 127 \<and> he = 127 \<and> b))"
| "wf_copper (Cop_Skip v h ve he b) =
     (0 \<le> v \<and> v < 256 \<and> 0 \<le> h \<and> h < 128 \<and> 0 \<le> ve \<and> ve < 128 \<and> 0 \<le> he \<and> he < 128)"
| "wf_copper Cop_End = True"

fun copper_words :: "copper_instruction \<Rightarrow> int \<times> int" where
  "copper_words (Cop_Move r v) = (r, v)"
| "copper_words (Cop_Wait v h ve he b) =
     (v * 256 + h * 2 + 1, (if b then 32768 else 0) + ve * 256 + he * 2)"
| "copper_words (Cop_Skip v h ve he b) =
     (v * 256 + h * 2 + 1, (if b then 32768 else 0) + ve * 256 + he * 2 + 1)"
| "copper_words Cop_End = (0xFFFF, 0xFFFE)"

fun position_text :: "string \<Rightarrow> int \<Rightarrow> int \<Rightarrow> int \<Rightarrow> int \<Rightarrow> bool \<Rightarrow> string" where
  "position_text kind v h ve he b =
     kind @ '' VP>='' @ fmt_dec v @ '' HP>='' @ fmt_dec h @ '' (VE=$'' @ fmt_hex True 2 ve @
     '' HE=$'' @ fmt_hex True 2 he @ '' BFD='' @ (if b then ''1'' else ''0'') @ '')''"

text \<open>The dictionary a reader of the list expects of an instruction.\<close>

fun copper_fields :: "copper_instruction \<Rightarrow> pydict" where
  "copper_fields (Cop_Move r v) =
     [(''type'', VStr ''MOVE''), (''register'', VInt r), (''regName'', VStr (reg_name r)),
      (''value'', VInt v), (''address'', VInt (0xDFF000 + r)),
      (''text'', VStr (''MOVE #'' @ fmt_hex True 4 v @ '', '' @ reg_name r @ '' ($'' @
         fmt_hex True 6 (0xDFF000 + r) @ '')''))]"
| "copper_fields (Cop_Wait v h ve he b) =
     [(''type'', VStr ''WAIT''), (''vpos'', VInt v), (''hpos'', VInt h), (''veMask'', VInt ve),
      (''heMask'', VInt he), (''bfd'', VInt (if b then 1 else 0)),
      (''text'', VStr (position_text ''WAIT'' v h ve he b))]"
| "copper_fields (Cop_Skip v h ve he b) =
     [(''type'', VStr ''SKIP''), (''vpos'', VInt v), (''hpos'', VInt h), (''veMask'', VInt ve),
      (''heMask'', VInt he), (''bfd'', VInt (if b then 1 else 0)),
      (''text'', VStr (position_text ''SKIP'' v h ve he b))]"
| "copper_fields Cop_End = [(''type'', VStr ''END''), (''text'', VStr ''END (WAIT $FFFF,$FFFE)'')]"

section \<open>Decoding an assembled list\<close>

text \<open>\<open>CUSTOM_REGS\<close> is looked up by the even offset that \<open>word1 & 0x01FE\<close> leaves.\<close>

lemma and_1FE: "0 \<le> r \<Longrightarrow> r < 512 \<Longrightarrow> even r \<Longrightarrow> (r::int) AND 0x01FE = r"
proof -
  assume r: "0 \<le> r" "r < 512" "even r"
  have "\<forall>r \<in> set [0..511]. even r \<longrightarrow> (r::int) AND 0x01FE = r" by code_simp
  with r show ?thesis by simp
qed

lemma wait_fields:
  assumes "0 \<le> v" "v < 256" "0 \<le> h" "h < 128" "0 \<le> ve" "ve < 128" "0 \<le> he" "he < 128"
    and "k = 0 \<or> k = (1::int)"
  shows "wait_dict kind (v * 256 + h * 2 + 1) ((if b then 32768 else 0) + ve * 256 + he * 2 + k) =
    [(''type'', VStr kind), (''vpos'', VInt v), (''hpos'', VInt h), (''veMask'', VInt ve),
      (''heMask'', VInt he), (''bfd'', VInt (if b then 1 else 0)),
      (''text'', VStr (position_text kind v h ve he b))]"
proof -
  let ?b = "if b then 1 else 0 :: int"
  let ?w1 = "v * 256 + h * 2 + 1" and ?w2 = "(if b then 32768 else 0) + ve * 256 + he * 2 + k"
  have w1: "?w1 = v * 256 + (h * 2 + 1)" "?w1 = (v * 128 + h) * 2 + 1" by simp_all
  have w2: "?w2 = (?b * 128 + ve) * 256 + (he * 2 + k)" "?w2 = ((?b * 128 + ve) * 128 + he) * 2 + k"
    "?w2 = ?b * 32768 + (ve * 256 + he * 2 + k)" by simp_all
  have k: "0 \<le> k" "k < 2" using assms(9) by auto
  have "?w1 div 256 = v" unfolding w1(1) using assms by (intro field_split) simp_all
  then have vpos: "drop_bit 8 ?w1 AND 0xFF = v"
    using assms(1,2) by (simp add: drop_bit_eq_div bit_field)
  have "?w1 div 2 = v * 128 + h" unfolding w1(2) by (intro field_split) simp_all
  then have hpos: "drop_bit 1 ?w1 AND 0x7F = h"
    using field_split(2) [of h 128 v] assms(3,4) by (simp add: drop_bit_eq_div bit_field)
  have "?w2 div 256 = ?b * 128 + ve"
    unfolding w2(1) using assms k by (intro field_split) simp_all
  then have ve: "drop_bit 8 ?w2 AND 0x7F = ve"
    using field_split(2) [of ve 128 ?b] assms(5,6)
    by (simp only: drop_bit_eq_div bit_field power_numeral) simp
  have "?w2 div 2 = (?b * 128 + ve) * 128 + he"
    unfolding w2(2) using k by (intro field_split) simp_all
  then have he: "drop_bit 1 ?w2 AND 0x7F = he"
    using field_split(2) [of he 128 "?b * 128 + ve"] assms(7,8)
    by (simp only: drop_bit_eq_div bit_field power_one_right)
  have "?w2 div 32768 = ?b"
    unfolding w2(3) using assms k by (intro field_split) simp_all
  then have bfd: "drop_bit 15 ?w2 AND 1 = ?b"
    by (simp only: drop_bit_eq_div bit_field power_numeral) simp
  have "fmt_dec 1 = ''1''" "fmt_dec 0 = ''0''" by code_simp+
  then show ?thesis
    unfolding wait_dict_def Let_def vpos hpos ve he bfd position_text.simps by simp
qed

lemma odd_fields: "(v * 256 + h * 2 + 1) mod 2 = (1::int)" "(n * 32768 + ve * 256 + he * 2) mod 2 = (0::int)"
  by presburger+

lemma decode_copper_fields:
  assumes "wf_copper c" and "copper_words c = (w1, w2)"
  shows "decode_copper_instruction w1 w2 = copper_fields c"
    and "0 \<le> w1" "w1 < 65536" "0 \<le> w2" "w2 < 65536"
proof -
  show "decode_copper_instruction w1 w2 = copper_fields c"
  proof (cases c)
    case (Cop_Move r v)
    with assms have "r AND 1 = 0" "r AND 0x01FE = r" "r \<noteq> 65535"
      by (auto simp: and_1FE bit_field)
    with Cop_Move assms show ?thesis by (simp add: decode_copper_instruction_def Let_def)
  next
    case (Cop_Wait v h ve he b)
    with assms have w: "w1 = v * 256 + h * 2 + 1"
      "w2 = (if b then 32768 else 0) + ve * 256 + he * 2 + 0" by simp_all
    have "w1 AND 1 = 1" "w2 AND 1 = 0" unfolding w bit_field by (auto simp: odd_fields)
    moreover have "\<not> (w1 = 0xFFFF \<and> w2 = 0xFFFE)"
    proof
      assume full: "w1 = 0xFFFF \<and> w2 = 0xFFFE"
      have le: "v \<le> 255" "h \<le> 127" "ve \<le> 127" "he \<le> 127" using assms(1) Cop_Wait by simp_all
      have "v = 255" "h = 127" using full le unfolding w(1) by linarith+
      moreover have b using full le unfolding w(2) by (simp split: if_splits)
      moreover from this have "ve = 127" "he = 127" using full le unfolding w(2) by simp_all
      ultimately show False using assms(1) Cop_Wait by simp
    qed
    ultimately have "decode_copper_instruction w1 w2 = wait_dict ''WAIT'' w1 w2"
      by (auto simp: decode_copper_instruction_def)
    also have "\<dots> = copper_fields c"
      unfolding w using assms Cop_Wait by (subst wait_fields) simp_all
    finally show ?thesis .
  next
    case (Cop_Skip v h ve he b)
    with assms have w: "w1 = v * 256 + h * 2 + 1"
      "w2 = (if b then 32768 else 0) + ve * 256 + he * 2 + 1" by simp_all
    have "w1 AND 1 = 1" "w2 AND 1 = 1" unfolding w bit_field by (auto simp: odd_fields) presburger+
    then have "decode_copper_instruction w1 w2 = wait_dict ''SKIP'' w1 w2"
      by (auto simp: decode_copper_instruction_def)
    also have "\<dots> = copper_fields c"
      unfolding w using assms Cop_Skip by (subst wait_fields) simp_all
    finally show ?thesis .
  next
    case Cop_End
    with assms show ?thesis by (auto simp: decode_copper_instruction_def)
  qed
  show "0 \<le> w1" "w1 < 65536" "0 \<le> w2" "w2 < 65536"
    using assms by (cases c; auto)+
qed

text \<open>The bytes of a list, and what \<open>decode_copper_list\<close> should return for it.\<close>

definition word_bytes :: "int \<Rightarrow> byte list" where
  "word_bytes w = [of_int (w div 256), of_int w]"

definition copper_bytes :: "copper_instruction list \<Rightarrow> byte list" where
  "copper_bytes cs =
     concat (map (\<lambda>c. word_bytes (fst (copper_words c)) @ word_bytes (snd (copper_words c))) cs)"

definition copper_entry :: "int \<Rightarrow> nat \<Rightarrow> copper_instruction \<Rightarrow> pydict" where
  "copper_entry base_addr k c =
     dict_set (dict_set (dict_set (copper_fields c)
       ''offset'' (VInt (4 * int k)))
       ''address'' (VInt (base_addr + 4 * int k)))
       ''raw'' (VStr (fmt_hex True 4 (fst (copper_words c)) @ '' '' @
                      fmt_hex True 4 (snd (copper_words c))))"

text \<open>The instructions up to and including the first END.\<close>

fun until_end :: "copper_instruction list \<Rightarrow> copper_instruction list" where
  "until_end [] = []"
| "until_end (c # cs) = (if c = Cop_End then [c] else c # until_end cs)"

lemma word_bytes_value:
  assumes "0 \<le> w" "w < 65536"
  shows "push_bit 8 (uint (of_int (w div 256) :: byte)) OR uint (of_int w :: byte) = w"
proof -
  have "w div 256 < 256" using assms(2) by presburger
  then have "uint (of_int (w div 256) :: byte) = w div 256"
    using assms by (simp add: unsigned_of_int take_bit_eq_mod)
  moreover have "uint (of_int w :: byte) = w mod 256"
    by (simp add: unsigned_of_int take_bit_eq_mod)
  ultimately show ?thesis unfolding word_of_bytes by simp
qed

lemma copper_fields_type: "map_of (copper_fields c) ''type'' = Some (VStr ''END'') \<longleftrightarrow> c = Cop_End"
  by (cases c) simp_all

lemma copper_loop_bytes:
  "list_all wf_copper cs \<Longrightarrow>
   copper_loop base_addr (4 * int k) (copper_bytes cs) =
     map (\<lambda>(i, c). copper_entry base_addr i c) (enumerate k (until_end cs))"
proof (induction cs arbitrary: k)
  case Nil
  then show ?case by (simp add: copper_bytes_def)
next
  case (Cons c cs)
  obtain w1 w2 where w: "copper_words c = (w1, w2)" by (cases "copper_words c")
  from Cons.prems have wf: "wf_copper c" by simp
  note fields = decode_copper_fields [OF wf w]
  have step: "copper_loop base_addr (4 * int k) (copper_bytes (c # cs)) =
      (if c = Cop_End then [copper_entry base_addr k c]
       else copper_entry base_addr k c # copper_loop base_addr (4 * int k + 4) (copper_bytes cs))"
    using fields w by (cases "c = Cop_End")
      (auto simp: copper_bytes_def word_bytes_def word_bytes_value Let_def copper_entry_def
        copper_fields_type)
  have next_k: "4 * int k + 4 = 4 * int (Suc k)" by simp
  show ?case
    unfolding step next_k using Cons.IH [of "Suc k"] Cons.prems by simp
qed

text \<open>
  C6. A copper list decodes to the program that was assembled: for every list of well-formed MOVE,
  WAIT, SKIP and END instructions, decoding its hexadecimal dump returns one dictionary per
  instruction, with its fields, its offset, its address and its two words, and stops after
  the first END.
\<close>

theorem copper_list_decodes:
  assumes "list_all wf_copper cs"
  shows "decode_copper_list (bytes_hex upper (copper_bytes cs)) base_addr =
    Inr (map (\<lambda>(i, c). copper_entry base_addr i c) (enumerate 0 (until_end cs)))"
  using copper_loop_bytes [OF assms, of base_addr 0] by (simp add: decode_copper_list_def)

theorem copper_list_decodes_witness:
  "decode_copper_list (bytes_hex False (copper_bytes [Cop_Wait 44 7 127 127 True, Cop_Move 0x180 0xF00,
     Cop_End, Cop_Move 0x182 0])) 4096 =
   Inr (map (\<lambda>(i, c). copper_entry 4096 i c) (enumerate 0
     (until_end [Cop_Wait 44 7 127 127 True, Cop_Move 0x180 0xF00, Cop_End, Cop_Move 0x182 0])))"
  by (rule copper_list_decodes) simp

text \<open>
  The custom register a MOVE writes is not in its \<open>address\<close> entry: \<open>decode_copper_list\<close>
  overwrites it with the address of the instruction, whatever the register.
\<close>

theorem copper_move_address:
  assumes "wf_copper (Cop_Move r v)"
  shows "map_of (decode_copper_instruction r v) ''address'' = Some (VInt (0xDFF000 + r)) \<and>
    (\<exists>d. decode_copper_list (bytes_hex upper (copper_bytes [Cop_Move r v])) base_addr = Inr [d] \<and>
         map_of d ''address'' = Some (VInt base_addr))"
proof -
  have "decode_copper_list (bytes_hex upper (copper_bytes [Cop_Move r v])) base_addr =
      Inr [copper_entry base_addr 0 (Cop_Move r v)]"
    using copper_loop_bytes [of "[Cop_Move r v]" base_addr 0] assms
    by (simp add: decode_copper_list_def)
  moreover have "decode_copper_instruction r v = copper_fields (Cop_Move r v)"
    using assms by (intro decode_copper_fields) simp_all
  ultimately show ?thesis by (simp add: copper_entry_def)
qed

theorem copper_move_address_witness:
  "map_of (decode_copper_instruction 0x180 0xF00) ''address'' = Some (VInt (0xDFF000 + 0x180)) \<and>
   (\<exists>d. decode_copper_list (bytes_hex True (copper_bytes [Cop_Move 0x180 0xF00])) 0 = Inr [d] \<and>
        map_of d ''address'' = Some (VInt 0))"
  by (rule copper_move_address) simp

end
