(* ===== verification/Debugger.thy ===== *)
theory Debugger
  imports Pystr
begin

text \<open>
  The host's view of the debugged program (\<open>debugger.py\<close>): \<open>DebuggerState\<close> with its updates
  from bridge messages, its displays and \<open>annotate_with_symbols\<close>. The locale \<open>symbol_source\<close>
  is the interface of the symbol table it asks for names and lines.

  Messages are the dictionaries of the protocol parser; \<open>get_int\<close> and its like read an entry
  of the type the parser gives it.
\<close>

section \<open>Message entries\<close>

definition get_int :: "pydict \<Rightarrow> string \<Rightarrow> int \<Rightarrow> int" where
  "get_int m k i = (case map_of m k of Some (VInt j) \<Rightarrow> j | Some _ \<Rightarrow> 0 | None \<Rightarrow> i)"

definition get_str :: "pydict \<Rightarrow> string \<Rightarrow> string \<Rightarrow> string" where
  "get_str m k s = (case map_of m k of Some (VStr t) \<Rightarrow> t | Some _ \<Rightarrow> '''' | None \<Rightarrow> s)"

definition get_bool :: "pydict \<Rightarrow> string \<Rightarrow> bool" where
  "get_bool m k = (case map_of m k of Some v \<Rightarrow> truthy v | None \<Rightarrow> False)"

fun int_values :: "pyval list \<Rightarrow> int list" where
  "int_values [] = []"
| "int_values (VInt i # vs) = i # int_values vs"
| "int_values (_ # vs) = 0 # int_values vs"

definition get_ints :: "pydict \<Rightarrow> string \<Rightarrow> int list" where
  "get_ints m k = (case map_of m k of Some (VList vs) \<Rightarrow> int_values vs | _ \<Rightarrow> [])"

definition get_strs :: "pydict \<Rightarrow> string \<Rightarrow> string list" where
  "get_strs m k =
     (case map_of m k of
        Some (VList vs) \<Rightarrow> map (\<lambda>v. case v of VStr s \<Rightarrow> s | _ \<Rightarrow> '''') vs
      | _ \<Rightarrow> [])"

section \<open>Status register\<close>

definition SR_FLAGS :: "(nat \<times> string) list" where
  "SR_FLAGS =
     [(15, ''T''), (13, ''S''), (12, ''M''), (4, ''X''), (3, ''N''), (2, ''Z''), (1, ''V''), (0, ''C'')]"

text \<open>\<open>sorted(SR_FLAGS.items(), reverse=True)\<close>: by descending bit, the order of the table.\<close>

definition decode_sr_flags :: "int \<Rightarrow> string" where
  "decode_sr_flags w =
     py_join '' '' (map (\<lambda>(b, name). if w AND push_bit b 1 \<noteq> 0 then name else ''-'') SR_FLAGS)"

section \<open>The state\<close>

record breakpoint =
  bp_id :: int
  bp_address :: int
  bp_enabled :: bool
  bp_original_word :: int
  bp_symbol :: "string option"
  bp_source :: "(string \<times> int) option"

record frame =
  fr_depth :: nat
  fr_pc :: int
  fr_symbol :: "string option"
  fr_source :: "(string \<times> int) option"

text \<open>\<open>source_file\<close> and \<open>source_line\<close> are always set together, so they are one field here.\<close>

record debugger =
  attached :: bool
  stopped :: bool
  target_name :: string
  pc :: int
  sr :: int
  stop_reason :: string
  code_base :: int
  regs :: "int list"
  prev_regs :: "int list"
  breakpoints :: "breakpoint list"
  backtrace :: "frame list"
  warnings :: "string list"

definition new_debugger :: debugger where
  "new_debugger =
     \<lparr>attached = False, stopped = False, target_name = '''', pc = 0, sr = 0, stop_reason = '''',
      code_base = 0, regs = replicate 18 0, prev_regs = replicate 18 0, breakpoints = [],
      backtrace = [], warnings = []\<rparr>"

definition reset :: "debugger \<Rightarrow> debugger" where
  "reset d =
     d\<lparr>attached := False, stopped := False, target_name := '''', pc := 0, sr := 0,
       stop_reason := '''', regs := replicate 18 0, prev_regs := replicate 18 0,
       breakpoints := [], backtrace := [], warnings := [], code_base := 0\<rparr>"

text \<open>\<open>for i, v in enumerate(vs[:8]): self.regs[off + i] = v\<close>\<close>

fun set_regs :: "nat \<Rightarrow> int list \<Rightarrow> int list \<Rightarrow> int list" where
  "set_regs i [] rs = rs"
| "set_regs i (v # vs) rs = set_regs (i + 1) vs (rs[i := v])"

definition update_from_stop :: "pydict \<Rightarrow> debugger \<Rightarrow> debugger" where
  "update_from_stop m d =
     (let p = get_int m ''pc'' 0; s = get_int m ''sr'' 0;
          rs1 = set_regs 0 (take 8 (get_ints m ''dataRegs'')) (regs d);
          rs2 = set_regs 8 (take 8 (get_ints m ''addrRegs'')) rs1
      in d\<lparr>stopped := True, stop_reason := get_str m ''reason'' ''unknown'', pc := p, sr := s,
           prev_regs := regs d, regs := rs2[16 := p, 17 := s],
           warnings := get_strs m ''warnings''\<rparr>)"

definition update_from_regs :: "pydict \<Rightarrow> debugger \<Rightarrow> debugger" where
  "update_from_regs m d =
     (let rs1 = set_regs 0 (take 8 (get_ints m ''dataRegs'')) (regs d);
          rs2 = set_regs 8 (take 8 (get_ints m ''addrRegs'')) rs1;
          rs = rs2[16 := get_int m ''pc'' (pc d), 17 := get_int m ''sr'' (sr d)]
      in d\<lparr>prev_regs := regs d, regs := rs, pc := rs ! 16, sr := rs ! 17\<rparr>)"

definition update_from_state :: "pydict \<Rightarrow> debugger \<Rightarrow> debugger" where
  "update_from_state m d =
     (let d1 = d\<lparr>attached := get_bool m ''attached'', stopped := get_bool m ''stopped'',
                 target_name := get_str m ''targetName'' '''', pc := get_int m ''pc'' 0\<rparr>
      in if get_bool m ''codeBase'' then d1\<lparr>code_base := get_int m ''codeBase'' 0\<rparr> else d1)"

definition update_breakpoints :: "pydict list \<Rightarrow> debugger \<Rightarrow> debugger" where
  "update_breakpoints bps d =
     d\<lparr>breakpoints := map (\<lambda>bp.
         \<lparr>bp_id = get_int bp ''id'' 0, bp_address = get_int bp ''address'' 0,
          bp_enabled = get_bool bp ''enabled'', bp_original_word = get_int bp ''originalWord'' 0,
          bp_symbol = None, bp_source = None\<rparr>) bps\<rparr>"

definition opt_str :: "pydict \<Rightarrow> string \<Rightarrow> string option" where
  "opt_str m k = (case map_of m k of Some (VStr s) \<Rightarrow> Some s | _ \<Rightarrow> None)"

text \<open>
  The bridge's frames carry only \<open>pc\<close>, so \<open>f.get("symbol")\<close>, \<open>f.get("file")\<close> and
  \<open>f.get("line")\<close> give None unless a caller adds them.
\<close>

definition update_backtrace :: "pydict list \<Rightarrow> debugger \<Rightarrow> debugger" where
  "update_backtrace frames d =
     d\<lparr>backtrace := map (\<lambda>(i, f).
         \<lparr>fr_depth = i, fr_pc = get_int f ''pc'' 0, fr_symbol = opt_str f ''symbol'',
          fr_source = (case (opt_str f ''file'', map_of f ''line'') of
                         (Some file, Some (VInt n)) \<Rightarrow> Some (file, n)
                       | _ \<Rightarrow> None)\<rparr>) (enumerate 0 frames)\<rparr>"

definition changed_regs :: "debugger \<Rightarrow> nat list" where
  "changed_regs d = filter (\<lambda>i. regs d ! i \<noteq> prev_regs d ! i) [0..<18]"

section \<open>Displays\<close>

definition reg_mark :: "debugger \<Rightarrow> nat \<Rightarrow> string" where
  "reg_mark d i = (if i \<in> set (changed_regs d) then ''*'' else '' '')"

definition format_regs :: "debugger \<Rightarrow> string" where
  "format_regs d =
     (let d_parts = map (\<lambda>i. ''D'' @ fmt_dec (int i) @ ''='' @ fmt_hex True 8 (regs d ! i) @
                              reg_mark d i) [0..<8];
          a_parts = map (\<lambda>i. ''A'' @ fmt_dec (int i) @ ''='' @ fmt_hex True 8 (regs d ! (8 + i)) @
                              reg_mark d (8 + i)) [0..<8];
          sr_val = regs d ! 17
      in py_join [CHR 0x0A]
           [py_join ''  '' (take 4 d_parts), py_join ''  '' (drop 4 d_parts),
            py_join ''  '' (take 4 a_parts), py_join ''  '' (drop 4 a_parts),
            ''PC='' @ fmt_hex True 8 (regs d ! 16) @ reg_mark d 16 @ ''  SR='' @
            fmt_hex True 4 sr_val @ reg_mark d 17 @ ''  ['' @ decode_sr_flags sr_val @ '']''])"

definition format_frame :: "frame \<Rightarrow> string" where
  "format_frame f =
     (let sym = (case fr_symbol f of Some (c # s) \<Rightarrow> '' <'' @ (c # s) @ ''>'' | _ \<Rightarrow> '''');
          src = (case fr_source f of
                   Some (c # file, n) \<Rightarrow> '' at '' @ (c # file) @ '':'' @ fmt_dec n | _ \<Rightarrow> '''');
          marker = (if fr_depth f = 0 then '' <<'' else '''')
      in ''  #'' @ fmt_dec (int (fr_depth f)) @ ''  0x'' @ fmt_hex True 8 (fr_pc f) @ sym @ src @ marker)"

definition format_backtrace :: "debugger \<Rightarrow> string" where
  "format_backtrace d =
     (if backtrace d = [] then ''No backtrace available''
      else py_join [CHR 0x0A] (map format_frame (backtrace d)))"

definition opt_val :: "string option \<Rightarrow> pyval" where
  "opt_val s = (case s of Some t \<Rightarrow> VStr t | None \<Rightarrow> VNone)"

definition source_vals :: "(string \<times> int) option \<Rightarrow> pydict" where
  "source_vals s = (case s of
     Some (file, n) \<Rightarrow> [(''file'', VStr file), (''line'', VInt n)]
   | None \<Rightarrow> [(''file'', VNone), (''line'', VNone)])"

definition to_dict :: "debugger \<Rightarrow> pydict" where
  "to_dict d =
     [(''attached'', VBool (attached d)), (''stopped'', VBool (stopped d)),
      (''targetName'', VStr (target_name d)), (''pc'', VInt (pc d)), (''sr'', VInt (sr d)),
      (''srFlags'', VStr (decode_sr_flags (sr d))), (''stopReason'', VStr (stop_reason d)),
      (''regs'', VDict
         [(''data'', VList (map (\<lambda>i. VInt (regs d ! i)) [0..<8])),
          (''addr'', VList (map (\<lambda>i. VInt (regs d ! (8 + i))) [0..<8])),
          (''pc'', VInt (regs d ! 16)), (''sr'', VInt (regs d ! 17))]),
      (''changedRegs'', VList (map (\<lambda>i. VInt (int i)) (changed_regs d))),
      (''breakpoints'', VList (map (\<lambda>b. VDict
         ([(''id'', VInt (bp_id b)), (''address'', VInt (bp_address b)),
           (''addressHex'', VStr (fmt_hex True 8 (bp_address b))),
           (''enabled'', VBool (bp_enabled b)), (''symbol'', opt_val (bp_symbol b))] @
          source_vals (bp_source b))) (breakpoints d))),
      (''backtrace'', VList (map (\<lambda>f. VDict
         ([(''depth'', VInt (int (fr_depth f))), (''pc'', VInt (fr_pc f)),
           (''pcHex'', VStr (fmt_hex True 8 (fr_pc f))), (''symbol'', opt_val (fr_symbol f))] @
          source_vals (fr_source f))) (backtrace d))),
      (''warnings'', VList (map VStr (warnings d))),
      (''codeBase'', VInt (code_base d)),
      (''codeBaseHex'', VStr (if code_base d \<noteq> 0 then fmt_hex True 8 (code_base d) else ''''))]"

section \<open>Symbols\<close>

text \<open>\<open>addr - code_base if code_base > 0 and addr >= code_base else addr\<close>\<close>

definition relocated :: "int \<Rightarrow> int \<Rightarrow> int" where
  "relocated base a = (if 0 < base \<and> base \<le> a then a - base else a)"

definition annotate_with_symbols ::
    "((int \<Rightarrow> string option) \<times> (int \<Rightarrow> (string \<times> int) option)) option \<Rightarrow> debugger \<Rightarrow> debugger" where
  "annotate_with_symbols table d =
     (case table of
        None \<Rightarrow> d
      | Some (lookup_address, lookup_source_line) \<Rightarrow>
          let base = code_base d;
              bps = map (\<lambda>bp.
                let rel = relocated base (bp_address bp);
                    b1 = (case lookup_address rel of
                            Some (c # s) \<Rightarrow> bp\<lparr>bp_symbol := Some (c # s)\<rparr> | _ \<Rightarrow> bp)
                in case lookup_source_line rel of
                     Some src \<Rightarrow> b1\<lparr>bp_source := Some src\<rparr> | None \<Rightarrow> b1) (breakpoints d);
              frames = map (\<lambda>fr.
                let rel = relocated base (fr_pc fr);
                    f1 = (case lookup_address rel of
                            Some (c # s) \<Rightarrow> fr\<lparr>fr_symbol := Some (c # s)\<rparr> | _ \<Rightarrow> fr)
                in case lookup_source_line rel of
                     Some src \<Rightarrow> f1\<lparr>fr_source := Some src\<rparr> | None \<Rightarrow> f1) (backtrace d)
          in d\<lparr>breakpoints := bps, backtrace := frames\<rparr>)"

section \<open>The interface of a symbol table\<close>

text \<open>
  What the debugger relies on: names are not empty, an address with a symbol of its own is
  shown by that name, and any other by the nearest symbol below it and the distance, which
  is less than 64K; source lines come from an entry at most 4K below.
\<close>

definition symbol_text :: "(int \<Rightarrow> string option) \<Rightarrow> int \<Rightarrow> string \<Rightarrow> bool" where
  "symbol_text symbol_at a s \<longleftrightarrow>
     (\<exists>b n. symbol_at b = Some n \<and> b \<le> a \<and> a < b + 0x10000 \<and>
        (\<forall>c. b < c \<and> c \<le> a \<longrightarrow> symbol_at c = None) \<and>
        s = (if a = b then n else n @ ''+0x'' @ fmt_hex False 0 (a - b)))"

locale symbol_source =
  fixes lookup_address :: "int \<Rightarrow> string option"
    and lookup_source_line :: "int \<Rightarrow> (string \<times> int) option"
    and symbol_at :: "int \<Rightarrow> string option"
    and line_at :: "int \<Rightarrow> string \<Rightarrow> int \<Rightarrow> bool"
  assumes exact: "symbol_at a = Some n \<Longrightarrow> lookup_address a = Some n"
    and nearest: "lookup_address a = Some s \<Longrightarrow> symbol_text symbol_at a s"
    and line_near: "lookup_source_line a = Some (f, l) \<Longrightarrow>
      \<exists>b. line_at b f l \<and> b \<le> a \<and> a \<le> b + 0x1000"
begin

text \<open>A fresh list of breakpoints or frames is annotated with what the table says, and only that.\<close>

definition annotated :: "int \<Rightarrow> string option \<Rightarrow> (string \<times> int) option \<Rightarrow> bool" where
  "annotated a shown src \<longleftrightarrow>
     (\<forall>s. shown = Some s \<longrightarrow> symbol_text symbol_at a s) \<and>
     (\<forall>f l. src = Some (f, l) \<longrightarrow> (\<exists>b. line_at b f l \<and> b \<le> a \<and> a \<le> b + 0x1000)) \<and>
     (\<forall>n. symbol_at a = Some n \<and> n \<noteq> [] \<longrightarrow> shown = Some n)"

lemma shown_annotated:
  "annotated a (case lookup_address a of Some (c # s) \<Rightarrow> Some (c # s) | _ \<Rightarrow> None)
     (lookup_source_line a)"
  unfolding annotated_def
  by (auto split: option.splits list.splits dest: exact nearest line_near)

lemma annotated_cases:
  "lookup_address a = None \<Longrightarrow> lookup_source_line a = src \<Longrightarrow> annotated a None src"
  "lookup_address a = Some [] \<Longrightarrow> lookup_source_line a = src \<Longrightarrow> annotated a None src"
  "lookup_address a = Some (c # s) \<Longrightarrow> lookup_source_line a = src \<Longrightarrow> annotated a (Some (c # s)) src"
  using shown_annotated [of a] by auto

lemma annotate_breakpoints:
  "list_all (\<lambda>b. annotated (relocated (code_base d) (bp_address b)) (bp_symbol b) (bp_source b))
     (breakpoints (annotate_with_symbols (Some (lookup_address, lookup_source_line))
       (update_breakpoints ms d)))"
  by (auto simp: annotate_with_symbols_def update_breakpoints_def Let_def list_all_iff
      intro: annotated_cases split: option.splits list.splits)

end

section \<open>What the state keeps\<close>

text \<open>\<open>rs[i + k] = vs[k]\<close>\<close>

lemma length_set_regs [simp]: "length (set_regs i vs rs) = length rs"
  by (induction i vs rs rule: set_regs.induct) simp_all

lemma set_regs_nth:
  "i + length vs \<le> length rs \<Longrightarrow> k < length rs \<Longrightarrow>
   set_regs i vs rs ! k = (if i \<le> k \<and> k < i + length vs then vs ! (k - i) else rs ! k)"
proof (induction i vs rs rule: set_regs.induct)
  case (2 i v vs rs)
  then show ?case
    by (cases "k = i") (auto simp: nth_Cons' Suc_le_eq)
qed simp

definition debugger_shape :: "debugger \<Rightarrow> bool" where
  "debugger_shape d \<longleftrightarrow> length (regs d) = 18 \<and> length (prev_regs d) = 18"

text \<open>
  Everything that changes the state: the messages \<open>DBGSTOP\<close>, \<open>DBGREGS\<close>, \<open>DBGSTATE\<close>, \<open>BPLIST\<close>
  and \<open>DBGBT\<close>, the annotation with a symbol table, and \<open>reset\<close>.
\<close>

datatype dbg_event =
    Stop_Msg pydict
  | Regs_Msg pydict
  | State_Msg pydict
  | Breakpoints_Msg "pydict list"
  | Backtrace_Msg "pydict list"
  | Annotate "((int \<Rightarrow> string option) \<times> (int \<Rightarrow> (string \<times> int) option)) option"
  | Reset_All

primrec handle_event :: "dbg_event \<Rightarrow> debugger \<Rightarrow> debugger" where
  "handle_event (Stop_Msg m) = update_from_stop m"
| "handle_event (Regs_Msg m) = update_from_regs m"
| "handle_event (State_Msg m) = update_from_state m"
| "handle_event (Breakpoints_Msg bps) = update_breakpoints bps"
| "handle_event (Backtrace_Msg frames) = update_backtrace frames"
| "handle_event (Annotate t) = annotate_with_symbols t"
| "handle_event Reset_All = reset"

definition debugger_after :: "dbg_event list \<Rightarrow> debugger" where
  "debugger_after es = fold handle_event es new_debugger"

text \<open>
  What the registers should be, said of the messages alone: the reports are the register
  messages since the last reset, the current value of a register is the last one that a report
  gives for it, and 0 if none does.
\<close>

definition reg_reports :: "dbg_event list \<Rightarrow> pydict list" where
  "reg_reports es =
     fold (\<lambda>e ms. case e of Stop_Msg m \<Rightarrow> ms @ [m] | Regs_Msg m \<Rightarrow> ms @ [m]
                  | Reset_All \<Rightarrow> [] | _ \<Rightarrow> ms) es []"

definition entry_at :: "int list \<Rightarrow> nat \<Rightarrow> int option" where
  "entry_at vs i = (if i < length vs then Some (vs ! i) else None)"

definition reg_reported :: "nat \<Rightarrow> pydict \<Rightarrow> int option" where
  "reg_reported i m =
     (if i < 8 then entry_at (get_ints m ''dataRegs'') i
      else if i < 16 then entry_at (get_ints m ''addrRegs'') (i - 8)
      else if i = 16 then Some (get_int m ''pc'' 0)
      else Some (get_int m ''sr'' 0))"

definition reg_value :: "pydict list \<Rightarrow> nat \<Rightarrow> int" where
  "reg_value ms i = last (0 # List.map_filter (reg_reported i) ms)"

definition frames_shown :: "dbg_event list \<Rightarrow> pydict list" where
  "frames_shown es =
     fold (\<lambda>e fs. case e of Backtrace_Msg gs \<Rightarrow> gs | Reset_All \<Rightarrow> [] | _ \<Rightarrow> fs) es []"

lemma reg_value_Nil: "reg_value [] i = 0"
  by (simp add: reg_value_def List.map_filter_simps)

lemma reg_value_snoc:
  "reg_value (ms @ [m]) i = (case reg_reported i m of Some x \<Rightarrow> x | None \<Rightarrow> reg_value ms i)"
proof -
  have "List.map_filter f (ms @ [m]) =
      List.map_filter f ms @ (case f m of Some x \<Rightarrow> [x] | None \<Rightarrow> [])"
    for f :: "pydict \<Rightarrow> int option"
    by (simp add: List.map_filter_def split: option.split)
  then show ?thesis
    by (cases "reg_reported i m") (simp_all add: reg_value_def)
qed

text \<open>The register file after a report, from its two halves and the two single registers.\<close>

lemma report_file:
  assumes "rs = map f [0..<18]" and k: "k < (18::nat)"
    and "p = get_int m ''pc'' 0" and "w = get_int m ''sr'' 0"
  shows "(set_regs 8 (take 8 (get_ints m ''addrRegs''))
      (set_regs 0 (take 8 (get_ints m ''dataRegs'')) rs))[16 := p, 17 := w] ! k =
    (case reg_reported k m of Some x \<Rightarrow> x | None \<Rightarrow> f k)"
proof -
  have "k < 8 \<or> 8 \<le> k \<and> k < 16 \<or> k = 16 \<or> k = 17" using k by linarith
  then show ?thesis
    using assms by (elim disjE) (auto simp: set_regs_nth reg_reported_def entry_at_def)
qed

definition regs_track :: "dbg_event list \<Rightarrow> debugger \<Rightarrow> bool" where
  "regs_track es d \<longleftrightarrow>
     regs d = map (reg_value (reg_reports es)) [0..<18] \<and>
     prev_regs d = map (reg_value (butlast (reg_reports es))) [0..<18]"

lemma tracks_report:
  assumes "regs_track es d" and ms: "reg_reports (es @ [e]) = reg_reports es @ [m]"
    and "prev_regs d' = regs d"
    and "regs d' = (set_regs 8 (take 8 (get_ints m ''addrRegs''))
      (set_regs 0 (take 8 (get_ints m ''dataRegs'')) (regs d)))
        [16 := get_int m ''pc'' 0, 17 := get_int m ''sr'' 0]"
  shows "regs_track (es @ [e]) d'"
proof -
  have rs: "regs d = map (reg_value (reg_reports es)) [0..<18]" using assms(1) by (simp add: regs_track_def)
  have "regs d' = map (reg_value (reg_reports es @ [m])) [0..<18]"
  proof (rule nth_equalityI)
    show "length (regs d') = length (map (reg_value (reg_reports es @ [m])) [0..<18])"
      by (simp add: assms(4) rs)
    fix k assume "k < length (regs d')"
    then have k: "k < 18" by (simp add: assms(4) rs)
    then have "map (reg_value (reg_reports es @ [m])) [0..<18] ! k = reg_value (reg_reports es @ [m]) k"
      by (simp del: upt_Suc)
    with report_file [OF rs k refl refl, of m]
    show "regs d' ! k = map (reg_value (reg_reports es @ [m])) [0..<18] ! k"
      by (simp add: assms(4) reg_value_snoc del: upt_Suc)
  qed
  then show ?thesis by (simp add: regs_track_def ms rs assms(3))
qed

text \<open>A message \<open>parse_DBGREGS\<close> makes carries both single registers.\<close>

definition with_pc_sr :: "dbg_event \<Rightarrow> bool" where
  "with_pc_sr e =
     (case e of Regs_Msg m \<Rightarrow> map_of m ''pc'' \<noteq> None \<and> map_of m ''sr'' \<noteq> None | _ \<Rightarrow> True)"

lemma get_int_present: "map_of m k \<noteq> None \<Longrightarrow> get_int m k i = get_int m k 0"
  by (auto simp: get_int_def)

lemma debugger_after_tracks:
  "list_all with_pc_sr es \<Longrightarrow> regs_track es (debugger_after es)"
proof (induction es rule: rev_induct)
  case Nil
  have "replicate 18 (0::int) = map (\<lambda>_. 0) [0..<18]" by (simp add: map_replicate_const)
  then show ?case
    by (simp add: regs_track_def reg_reports_def debugger_after_def new_debugger_def reg_value_Nil del: upt_Suc)
next
  case (snoc e es)
  then have t: "regs_track es (debugger_after es)" and e: "with_pc_sr e" by simp_all
  have after: "debugger_after (es @ [x]) = handle_event x (debugger_after es)" for x
    by (simp add: debugger_after_def)
  show ?case
  proof (cases e)
    case (Stop_Msg m)
    show ?thesis
      unfolding after
      by (rule tracks_report [OF t]) (simp_all add: Stop_Msg reg_reports_def update_from_stop_def Let_def)
  next
    case (Regs_Msg m)
    then have "get_int m ''pc'' i = get_int m ''pc'' 0" "get_int m ''sr'' i = get_int m ''sr'' 0" for i
      using e by (auto simp: with_pc_sr_def intro!: get_int_present)
    note simp = this
    show ?thesis
      unfolding after
      by (rule tracks_report [OF t])
         (simp_all add: Regs_Msg reg_reports_def update_from_regs_def Let_def simp [of "pc _"] simp [of "sr _"])
  next
    case Reset_All
    have "replicate 18 (0::int) = map (\<lambda>_. 0) [0..<18]" by (simp add: map_replicate_const)
    then show ?thesis
      by (simp add: after Reset_All regs_track_def reg_reports_def reset_def reg_value_Nil del: upt_Suc)
  qed (use t in \<open>simp_all add: after regs_track_def reg_reports_def update_from_state_def update_breakpoints_def
          update_backtrace_def annotate_with_symbols_def Let_def split: option.splits\<close>)
qed

lemma frame_lists:
  "map (\<lambda>f. (fr_depth f, fr_pc f)) (backtrace (debugger_after es)) =
     enumerate 0 (map (\<lambda>f. get_int f ''pc'' 0) (frames_shown es))"
proof (induction es rule: rev_induct)
  case (snoc e es)
  have after: "debugger_after (es @ [x]) = handle_event x (debugger_after es)" for x
    by (simp add: debugger_after_def)
  have num: "map (\<lambda>(i, f). (i, g f)) (enumerate n fs) = enumerate n (map g fs)"
    for n and g :: "pydict \<Rightarrow> int" and fs
    by (induction fs arbitrary: n) auto
  have shown: "map (\<lambda>f. (fr_depth f, fr_pc f)) (backtrace (annotate_with_symbols t d)) =
      map (\<lambda>f. (fr_depth f, fr_pc f)) (backtrace d)" for t d
    by (auto simp: annotate_with_symbols_def Let_def split: option.splits list.splits)
  show ?case
    by (cases e)
       (use snoc.IH num [of "\<lambda>f. get_int f ''pc'' 0"] in \<open>simp_all add: after frames_shown_def shown
          update_from_stop_def update_from_regs_def update_from_state_def update_breakpoints_def
          update_backtrace_def reset_def Let_def case_prod_unfold comp_def\<close>)
qed (simp add: debugger_after_def new_debugger_def frames_shown_def)

text \<open>
  C7. The debugger shows what the bridge reported: after any sequence of messages, annotations
  and resets, each of the eighteen registers has the last value that a stop or register report
  since the last reset gave for it (0 if none did), D0-D7 and A0-A7 from their places in the
  message's lists, then PC and SR; the previous register file is the one before the last
  report; a register is marked as changed exactly when the two differ; and the backtrace holds
  the frames of the last backtrace message, numbered from 0. Register reports are assumed to
  carry PC and SR, as the protocol parser writes them.
\<close>

theorem registers_tracked:
  assumes "list_all with_pc_sr es" and "d = debugger_after es" and "ms = reg_reports es"
  shows "regs d = map (reg_value ms) [0..<18] \<and> prev_regs d = map (reg_value (butlast ms)) [0..<18] \<and>
    changed_regs d = filter (\<lambda>i. reg_value ms i \<noteq> reg_value (butlast ms) i) [0..<18] \<and>
    map (\<lambda>f. (fr_depth f, fr_pc f)) (backtrace d) =
      enumerate 0 (map (\<lambda>f. get_int f ''pc'' 0) (frames_shown es))"
proof -
  have t: "regs d = map (reg_value ms) [0..<18]" "prev_regs d = map (reg_value (butlast ms)) [0..<18]"
    using debugger_after_tracks [OF assms(1)] by (simp_all add: regs_track_def assms(2,3))
  have "changed_regs d = filter (\<lambda>i. reg_value ms i \<noteq> reg_value (butlast ms) i) [0..<18]"
    unfolding changed_regs_def by (rule filter_cong [OF refl]) (simp add: t del: upt_Suc)
  with t show ?thesis by (simp add: frame_lists assms(2))
qed

theorem registers_tracked_witness:
  "changed_regs (debugger_after
     [Stop_Msg [(''dataRegs'', VList [VInt 1, VInt 2]), (''pc'', VInt 4096)],
      Regs_Msg [(''dataRegs'', VList [VInt 1, VInt 7]), (''pc'', VInt 4098), (''sr'', VInt 4)]])
   = [1, 16, 17]"
proof -
  let ?a = "[(''dataRegs'', VList [VInt 1, VInt 2]), (''pc'', VInt 4096)]"
  let ?b = "[(''dataRegs'', VList [VInt 1, VInt 7]), (''pc'', VInt 4098), (''sr'', VInt 4)]"
  have r: "reg_reports [Stop_Msg ?a, Regs_Msg ?b] = [?a, ?b]" by (simp add: reg_reports_def)
  have "list_all with_pc_sr [Stop_Msg ?a, Regs_Msg ?b]" by (simp add: with_pc_sr_def)
  from registers_tracked [OF this refl r [symmetric]]
  have "changed_regs (debugger_after [Stop_Msg ?a, Regs_Msg ?b]) =
      filter (\<lambda>i. reg_value [?a, ?b] i \<noteq> reg_value [?a] i) [0..<18]"
    by (simp del: upt_Suc)
  also have "\<dots> = [1, 16, 17]" by code_simp
  finally show ?thesis .
qed

text \<open>
  A stop report that is applied twice, as the connection and then the server's listener do with
  the same message on the shared state, hides what the stop changed: no register is marked.
\<close>

lemma repeated_stop_hides_changes:
  assumes "list_all with_pc_sr es" and "list_all (\<lambda>i. reg_reported i m \<noteq> None) [0..<18]"
  shows "changed_regs (debugger_after (es @ [Stop_Msg m, Stop_Msg m])) = []"
proof -
  have "list_all with_pc_sr (es @ [Stop_Msg m, Stop_Msg m])" using assms(1) by (simp add: with_pc_sr_def)
  then have t: "regs_track (es @ [Stop_Msg m, Stop_Msg m]) (debugger_after (es @ [Stop_Msg m, Stop_Msg m]))"
    by (rule debugger_after_tracks)
  have r: "reg_reports (es @ [Stop_Msg m, Stop_Msg m]) = (reg_reports es @ [m]) @ [m]"
    by (simp add: reg_reports_def)
  have "reg_value ((reg_reports es @ [m]) @ [m]) i = reg_value (reg_reports es @ [m]) i" if i: "i < 18" for i
  proof -
    have "\<forall>x \<in> set [0..<18]. reg_reported x m \<noteq> None" using assms(2) unfolding list_all_iff .
    then obtain y where "reg_reported i m = Some y" using i by fastforce
    then show ?thesis unfolding reg_value_snoc [of "reg_reports es @ [m]"] reg_value_snoc [of "reg_reports es"] by simp
  qed
  moreover have "butlast ((reg_reports es @ [m]) @ [m]) = reg_reports es @ [m]" by (rule butlast_snoc)
  ultimately show ?thesis
    using t unfolding changed_regs_def regs_track_def r
    by (auto simp: filter_empty_conv simp del: upt_Suc append_assoc)
qed

section \<open>What the displays mean\<close>

lemma flag_text: "(if p then [c] else [e]) = [if p then c else e]"
  by simp

lemma flag_eq: "c \<noteq> e \<Longrightarrow> ((if p then c else e) = (if q then c else e)) = (p = q)"
  by auto

lemma has_flag: "w AND push_bit b 1 \<noteq> 0 \<longleftrightarrow> bit (w::int) b"
  by (simp only: bit_iff_and_push_bit_not_eq_0)

lemma decode_sr_flags_text:
  "decode_sr_flags w =
     [if bit w 15 then CHR ''T'' else CHR ''-'', CHR '' '', if bit w 13 then CHR ''S'' else CHR ''-'', CHR '' '',
      if bit w 12 then CHR ''M'' else CHR ''-'', CHR '' '', if bit w 4 then CHR ''X'' else CHR ''-'', CHR '' '',
      if bit w 3 then CHR ''N'' else CHR ''-'', CHR '' '', if bit w 2 then CHR ''Z'' else CHR ''-'', CHR '' '',
      if bit w 1 then CHR ''V'' else CHR ''-'', CHR '' '', if bit w 0 then CHR ''C'' else CHR ''-'']"
  by (simp add: decode_sr_flags_def SR_FLAGS_def has_flag flag_text del: push_bit_of_1 split del: if_split)

text \<open>
  The flags display shows exactly the eight status bits: two status registers have the same
  display if and only if they agree on T, S, M, X, N, Z, V and C.
\<close>

theorem sr_flags_exact:
  "decode_sr_flags s = decode_sr_flags s' \<longleftrightarrow>
     map (bit s) [15, 13, 12, 4, 3, 2, 1, 0] = map (bit s') [15, 13, 12, 4, 3, 2, 1, 0]"
  by (simp add: decode_sr_flags_text flag_eq split del: if_split)

text \<open>
  A stop shows the registers it reports: with eight data and eight address registers the
  register file becomes D0-D7, A0-A7, PC, SR of the message, the previous one is kept, and
  the registers marked as changed are exactly those whose value differs from that one.
\<close>

theorem stop_registers:
  assumes "debugger_shape d" and "length (get_ints m ''dataRegs'') = 8"
    and "length (get_ints m ''addrRegs'') = 8"
    and new: "new = get_ints m ''dataRegs'' @ get_ints m ''addrRegs'' @ [get_int m ''pc'' 0, get_int m ''sr'' 0]"
  shows "regs (update_from_stop m d) = new \<and> prev_regs (update_from_stop m d) = regs d \<and>
    changed_regs (update_from_stop m d) = filter (\<lambda>i. new ! i \<noteq> regs d ! i) [0..<18] \<and>
    stopped (update_from_stop m d) \<and> pc (update_from_stop m d) = get_int m ''pc'' 0"
proof -
  have "regs (update_from_stop m d) = new"
  proof (rule nth_equalityI)
    show "length (regs (update_from_stop m d)) = length new"
      using assms by (simp add: update_from_stop_def Let_def debugger_shape_def)
    fix i assume "i < length (regs (update_from_stop m d))"
    then have "i < 18" using assms by (simp add: update_from_stop_def Let_def debugger_shape_def)
    then have "i < 8 \<or> 8 \<le> i \<and> i < 16 \<or> i = 16 \<or> i = 17" by linarith
    then show "regs (update_from_stop m d) ! i = new ! i"
      using assms by (auto simp: update_from_stop_def Let_def debugger_shape_def set_regs_nth nth_append)
  qed
  then show ?thesis
    by (simp add: changed_regs_def update_from_stop_def Let_def)
qed

theorem stop_registers_witness:
  "changed_regs (update_from_stop
     [(''dataRegs'', VList (map VInt [1, 0, 0, 0, 0, 0, 0, 0])),
      (''addrRegs'', VList (map VInt [0, 0, 0, 0, 0, 0, 0, 9])), (''pc'', VInt 4096)] new_debugger)
   = [0, 15, 16]"
proof -
  let ?m = "[(''dataRegs'', VList (map VInt [1, 0, 0, 0, 0, 0, 0, 0])),
      (''addrRegs'', VList (map VInt [0, 0, 0, 0, 0, 0, 0, 9])), (''pc'', VInt 4096)]"
  have g: "get_ints ?m ''dataRegs'' = [1, 0, 0, 0, 0, 0, 0, 0]" "get_ints ?m ''addrRegs'' = [0, 0, 0, 0, 0, 0, 0, 9]"
    "get_int ?m ''pc'' 0 = 4096" "get_int ?m ''sr'' 0 = 0"
    by (simp_all add: get_ints_def get_int_def)
  have "debugger_shape new_debugger" by (simp add: debugger_shape_def new_debugger_def)
  from stop_registers [OF this, of ?m] g
  have "changed_regs (update_from_stop ?m new_debugger) =
      filter (\<lambda>i. ([1, 0, 0, 0, 0, 0, 0, 0] @ [0, 0, 0, 0, 0, 0, 0, 9] @ [4096, 0]) ! i \<noteq> regs new_debugger ! i) [0..<18]"
    by simp
  also have "\<dots> = [0, 15, 16]" by code_simp
  finally show ?thesis .
qed

text \<open>
  Symbols do not depend on where the program was loaded: loading it at another base and
  moving every address with it leaves the symbols and source lines of the breakpoints as they
  were.
\<close>

theorem annotation_relocates:
  assumes "0 < code_base d" and "0 < code_base d + k"
    and "list_all (\<lambda>b. code_base d \<le> bp_address b) (breakpoints d)"
  shows "map (\<lambda>b. (bp_symbol b, bp_source b)) (breakpoints (annotate_with_symbols (Some t)
      (d\<lparr>code_base := code_base d + k,
         breakpoints := map (\<lambda>b. b\<lparr>bp_address := bp_address b + k\<rparr>) (breakpoints d)\<rparr>))) =
    map (\<lambda>b. (bp_symbol b, bp_source b)) (breakpoints (annotate_with_symbols (Some t) d))"
proof -
  obtain la ls where t: "t = (la, ls)" by (cases t)
  have rel: "relocated (code_base d + k) (bp_address b + k) = relocated (code_base d) (bp_address b)"
    if "b \<in> set (breakpoints d)" for b
    using assms that by (simp add: relocated_def list_all_iff)
  show ?thesis
    unfolding t annotate_with_symbols_def
    by (auto simp: Let_def rel split: option.splits list.splits)
qed

theorem annotation_relocates_witness:
  "bp_symbol (hd (breakpoints (annotate_with_symbols
     (Some (\<lambda>a. if a = 4 then Some ''main'' else None, \<lambda>a. None))
     (new_debugger\<lparr>code_base := 12288, breakpoints := [\<lparr>bp_id = 1, bp_address = 12292, bp_enabled = True,
        bp_original_word = 0, bp_symbol = None, bp_source = None\<rparr>]\<rparr>)))) = Some ''main''"
proof -
  let ?t = "(\<lambda>a. if a = 4 then Some ''main'' else None, \<lambda>a. None)
    :: (int \<Rightarrow> string option) \<times> (int \<Rightarrow> (string \<times> int) option)"
  let ?d = "new_debugger\<lparr>code_base := 4096, breakpoints := [\<lparr>bp_id = 1, bp_address = 4100,
    bp_enabled = True, bp_original_word = 0, bp_symbol = None, bp_source = None\<rparr>]\<rparr>"
  from annotation_relocates [of ?d 8192 ?t] show ?thesis
    by (simp add: annotate_with_symbols_def relocated_def Let_def)
qed

end
