(* ===== verification/Symbols.thy ===== *)
theory Symbols
  imports Debugger
begin

text \<open>
  Symbol tables (\<open>symbols.py\<close>): the output of \<open>nm\<close> parsed into a \<open>symbol_table\<close>, its
  lookups by binary search, and the module functions that search all loaded tables. \<open>Stabs\<close>
  adds what the debug information of a binary gives.
\<close>

section \<open>Tables\<close>

record symbol =
  sym_name :: string
  sym_address :: int
  sym_type :: string
  sym_file :: string
  sym_line :: int

record source_line =
  sl_address :: int
  sl_file :: string
  sl_line :: int

record struct_field =
  sf_name :: string
  sf_type_name :: string
  sf_offset_bits :: int
  sf_size_bits :: int

record struct_type =
  st_name :: string
  st_size_bytes :: int
  st_fields :: "struct_field list"

record symbol_table =
  symbols :: "symbol list"
  by_address :: "(int \<times> symbol) list"
  by_name :: "(string \<times> symbol) list"
  sorted_addrs :: "int list"
  source_lines :: "source_line list"
  line_addrs :: "int list"
  struct_types :: "(string \<times> struct_type) list"
  func_source :: "(string \<times> string \<times> int) list"
  func_locals :: "(string \<times> pydict list) list"

definition empty_table :: symbol_table where
  "empty_table = \<lparr>symbols = [], by_address = [], by_name = [], sorted_addrs = [],
     source_lines = [], line_addrs = [], struct_types = [], func_source = [], func_locals = []\<rparr>"

section \<open>Binary search\<close>

text \<open>\<open>bisect.bisect_right\<close>.\<close>

function bisect_loop :: "int list \<Rightarrow> int \<Rightarrow> nat \<Rightarrow> nat \<Rightarrow> nat" where
  "bisect_loop xs a lo hi =
     (if lo < hi then
        let mid = (lo + hi) div 2
        in if a < xs ! mid then bisect_loop xs a lo mid else bisect_loop xs a (mid + 1) hi
      else lo)"
  by pat_completeness auto
termination by (relation "measure (\<lambda>(xs, a, lo, hi). hi - lo)") auto

declare bisect_loop.simps [simp del]

definition bisect_right :: "int list \<Rightarrow> int \<Rightarrow> nat" where
  "bisect_right xs a = bisect_loop xs a 0 (length xs)"

lemma bisect_loop_split:
  "sorted xs \<Longrightarrow> hi \<le> length xs \<Longrightarrow> lo \<le> hi \<Longrightarrow> (\<forall>i < lo. xs ! i \<le> a) \<Longrightarrow>
   (\<forall>i. hi \<le> i \<and> i < length xs \<longrightarrow> a < xs ! i) \<Longrightarrow>
   (let k = bisect_loop xs a lo hi in
      k \<le> length xs \<and> (\<forall>i < k. xs ! i \<le> a) \<and> (\<forall>i. k \<le> i \<and> i < length xs \<longrightarrow> a < xs ! i))"
proof (induction xs a lo hi rule: bisect_loop.induct)
  case (1 xs a lo hi)
  show ?case
  proof (cases "lo < hi")
    case False
    with 1 show ?thesis by (subst bisect_loop.simps) (simp add: Let_def)
  next
    case True
    let ?mid = "(lo + hi) div 2"
    have mid: "lo \<le> ?mid" "?mid < hi" using True by simp_all
    show ?thesis
    proof (cases "a < xs ! ?mid")
      case above: True
      have "a < xs ! i" if "?mid \<le> i" "i < length xs" for i
        using sorted_nth_mono [OF 1(3) that] above by linarith
      with 1 True above mid show ?thesis by (subst bisect_loop.simps) (simp add: Let_def)
    next
      case below: False
      have "xs ! i \<le> a" if "i < ?mid + 1" for i
        using sorted_nth_mono [OF 1(3), of i ?mid] that below mid 1(4) by linarith
      with 1 True below mid show ?thesis by (subst bisect_loop.simps) (simp add: Let_def)
    qed
  qed
qed

lemma bisect_right_split:
  assumes "sorted xs"
  shows "bisect_right xs a \<le> length xs" "i < bisect_right xs a \<Longrightarrow> xs ! i \<le> a"
    "bisect_right xs a \<le> i \<Longrightarrow> i < length xs \<Longrightarrow> a < xs ! i"
  using bisect_loop_split [OF assms, of "length xs" 0 a] by (simp_all add: bisect_right_def Let_def)

section \<open>Lookups\<close>

definition lookup_address :: "symbol_table \<Rightarrow> int \<Rightarrow> string option" where
  "lookup_address t addr =
     (if sorted_addrs t = [] then None
      else let k = bisect_right (sorted_addrs t) addr
        in if k = 0 then None
           else let sym_addr = sorted_addrs t ! (k - 1)
             in case map_of (by_address t) sym_addr of
                  None \<Rightarrow> None
                | Some s \<Rightarrow>
                    let off = addr - sym_addr
                    in if off = 0 then Some (sym_name s)
                       else if off < 0x10000 then Some (sym_name s @ ''+0x'' @ fmt_hex False 0 off)
                       else None)"

definition lookup_name :: "symbol_table \<Rightarrow> string \<Rightarrow> int option" where
  "lookup_name t name = map_option sym_address (map_of (by_name t) name)"

definition lookup_source_line :: "symbol_table \<Rightarrow> int \<Rightarrow> (string \<times> int) option" where
  "lookup_source_line t addr =
     (if line_addrs t = [] then None
      else let k = bisect_right (line_addrs t) addr
        in if k = 0 then None
           else let sl = source_lines t ! (k - 1)
             in if 0x1000 < addr - sl_address sl then None else Some (sl_file sl, sl_line sl))"

definition get_locals_at :: "symbol_table \<Rightarrow> int \<Rightarrow> string \<times> pydict list" where
  "get_locals_at t addr =
     (case lookup_address t addr of
        Some (c # s) \<Rightarrow>
          let func_name = hd (split_char (CHR ''+'') (c # s))
          in (func_name, case map_of (func_locals t) func_name of Some ls \<Rightarrow> ls | None \<Rightarrow> [])
      | _ \<Rightarrow> ('''', []))"

definition table_annotate_full :: "symbol_table \<Rightarrow> int \<Rightarrow> pydict" where
  "table_annotate_full t addr =
     (let r0 = [(''address'', VStr (fmt_hex False 8 addr))];
          r1 = (case lookup_address t addr of
                  Some (c # s) \<Rightarrow> dict_set r0 ''symbol'' (VStr (c # s)) | _ \<Rightarrow> r0)
      in case lookup_source_line t addr of
           Some (file, n) \<Rightarrow> dict_set (dict_set r1 ''file'' (VStr file)) ''line'' (VInt n)
         | None \<Rightarrow> r1)"

section \<open>The output of nm\<close>

definition nm_line :: "string \<Rightarrow> symbol_table \<Rightarrow> symbol_table" where
  "nm_line line0 t =
     (let line = py_strip line0 in
      if line = [] then t
      else let parts = py_words line in
        if 3 \<le> length parts then
          (case py_int 16 (parts ! 0) of
             Inl _ \<Rightarrow> t
           | Inr addr \<Rightarrow>
               let name = parts ! 2;
                   display_name = (if py_startswith name ''_'' then tl name else name);
                   s = \<lparr>sym_name = display_name, sym_address = addr, sym_type = parts ! 1,
                        sym_file = '''', sym_line = 0\<rparr>
               in t\<lparr>symbols := symbols t @ [s], by_address := AList.update addr s (by_address t),
                    by_name := AList.update display_name s (by_name t)\<rparr>)
        else t)"

definition parse_nm_output :: "string \<Rightarrow> symbol_table \<Rightarrow> symbol_table" where
  "parse_nm_output out t0 =
     (let t = fold nm_line (py_splitlines out) t0
      in t\<lparr>sorted_addrs := sort (map fst (by_address t))\<rparr>)"

section \<open>All loaded tables\<close>

type_synonym tables = "(string \<times> symbol_table) list"

fun first_text :: "(symbol_table \<Rightarrow> string option) \<Rightarrow> symbol_table list \<Rightarrow> string option" where
  "first_text f [] = None"
| "first_text f (t # ts) =
     (case f t of Some (c # s) \<Rightarrow> Some (c # s) | _ \<Rightarrow> first_text f ts)"

text \<open>The project's own table first, when a project is given and loaded, then all tables.\<close>

definition search_order :: "tables \<Rightarrow> string option \<Rightarrow> symbol_table list" where
  "search_order ts project =
     (case project of
        Some (c # p) \<Rightarrow> (case map_of ts (c # p) of Some t \<Rightarrow> [t] | None \<Rightarrow> [])
      | _ \<Rightarrow> []) @ map snd ts"

definition annotate_address :: "tables \<Rightarrow> int \<Rightarrow> string option \<Rightarrow> string" where
  "annotate_address ts addr project =
     (case first_text (\<lambda>t. lookup_address t addr) (search_order ts project) of
        Some s \<Rightarrow> s | None \<Rightarrow> '''')"

definition source_line_for_address :: "tables \<Rightarrow> int \<Rightarrow> string option \<Rightarrow> string" where
  "source_line_for_address ts addr project =
     (case first_text (\<lambda>t. map_option (\<lambda>(f, n). f @ '':'' @ fmt_dec n) (lookup_source_line t addr))
        (search_order ts project) of
        Some s \<Rightarrow> s | None \<Rightarrow> '''')"

fun first_annotation :: "int \<Rightarrow> symbol_table list \<Rightarrow> pydict" where
  "first_annotation addr [] = [(''address'', VStr (fmt_hex False 8 addr))]"
| "first_annotation addr (t # ts) =
     (let ann = table_annotate_full t addr
      in if map_of ann ''symbol'' \<noteq> None then ann else first_annotation addr ts)"

definition annotate_address_full :: "tables \<Rightarrow> int \<Rightarrow> string option \<Rightarrow> pydict" where
  "annotate_address_full ts addr project = first_annotation addr (search_order ts project)"

fun first_named :: "string \<Rightarrow> tables \<Rightarrow> (string \<times> int) option" where
  "first_named name [] = None"
| "first_named name ((p, t) # ts) =
     (case lookup_name t name of Some a \<Rightarrow> Some (p, a) | None \<Rightarrow> first_named name ts)"

definition lookup_function_address :: "tables \<Rightarrow> string \<Rightarrow> string option \<Rightarrow> (string \<times> int) option" where
  "lookup_function_address ts name project =
     (case project of
        Some (c # p) \<Rightarrow>
          (case map_of ts (c # p) of
             Some t \<Rightarrow>
               (case lookup_name t name of
                  Some a \<Rightarrow> Some (c # p, a) | None \<Rightarrow> first_named name ts)
           | None \<Rightarrow> first_named name ts)
      | _ \<Rightarrow> first_named name ts)"

definition list_functions :: "tables \<Rightarrow> string \<Rightarrow> pydict list" where
  "list_functions ts project =
     (case map_of ts project of
        None \<Rightarrow> []
      | Some t \<Rightarrow>
          map (\<lambda>s.
            let e0 = [(''name'', VStr (sym_name s)), (''address'', VStr (fmt_hex False 8 (sym_address s))),
                      (''type'', VStr (sym_type s))];
                e1 = (if sym_file s \<noteq> [] then dict_set e0 ''file'' (VStr (sym_file s)) else e0)
            in if sym_line s \<noteq> 0 then dict_set e1 ''line'' (VInt (sym_line s)) else e1)
          (filter (\<lambda>s. sym_type s = ''T'' \<or> sym_type s = ''t'') (symbols t)))"

section \<open>A loaded table is a symbol source\<close>

definition symbol_at :: "symbol_table \<Rightarrow> int \<Rightarrow> string option" where
  "symbol_at t a = map_option sym_name (map_of (by_address t) a)"

definition line_at :: "symbol_table \<Rightarrow> int \<Rightarrow> string \<Rightarrow> int \<Rightarrow> bool" where
  "line_at t b f l \<longleftrightarrow>
     (\<exists>sl \<in> set (source_lines t). sl_address sl = b \<and> sl_file sl = f \<and> sl_line sl = l)"

text \<open>What loading establishes: the search keys are the sorted addresses.\<close>

definition indexed :: "symbol_table \<Rightarrow> bool" where
  "indexed t \<longleftrightarrow>
     sorted_addrs t = sort (map fst (by_address t)) \<and>
     line_addrs t = map sl_address (source_lines t) \<and> sorted (line_addrs t)"

lemma indexed_empty: "indexed empty_table"
  by (simp add: indexed_def empty_table_def)

lemma symbol_at_key: "symbol_at t a \<noteq> None \<longleftrightarrow> a \<in> set (map fst (by_address t))"
  by (simp add: symbol_at_def map_of_eq_None_iff)

lemma nearest_key:
  assumes xs: "sorted xs" and k: "0 < bisect_right xs a"
  shows "xs ! (bisect_right xs a - 1) \<in> set xs" and "xs ! (bisect_right xs a - 1) \<le> a"
    and "c \<in> set xs \<Longrightarrow> c \<le> a \<Longrightarrow> c \<le> xs ! (bisect_right xs a - 1)"
proof -
  let ?k = "bisect_right xs a"
  have len: "?k - 1 < length xs" using bisect_right_split(1) [OF xs, of a] k by simp
  then show "xs ! (?k - 1) \<in> set xs" by simp
  show "xs ! (?k - 1) \<le> a" using k by (intro bisect_right_split(2) [OF xs]) simp
  assume "c \<in> set xs" "c \<le> a"
  then obtain i where i: "i < length xs" "xs ! i = c" by (auto simp: in_set_conv_nth)
  have "i < ?k"
  proof (rule ccontr)
    assume "\<not> i < ?k"
    then have "a < xs ! i" using i by (intro bisect_right_split(3) [OF xs]) simp_all
    with i \<open>c \<le> a\<close> show False by simp
  qed
  then show "c \<le> xs ! (?k - 1)" using i sorted_nth_mono [OF xs, of i "?k - 1"] len by simp
qed

lemma bisect_positive:
  assumes "sorted xs" and "c \<in> set xs" and "c \<le> a"
  shows "0 < bisect_right xs a"
proof (rule ccontr)
  assume "\<not> 0 < bisect_right xs a"
  moreover obtain i where "i < length xs" "xs ! i = c"
    using assms(2) by (auto simp: in_set_conv_nth)
  ultimately have "a < c" using bisect_right_split(3) [OF assms(1), of a i] by simp
  with assms(3) show False by simp
qed

lemma lookup_exact:
  assumes "indexed t" and "symbol_at t a = Some n"
  shows "lookup_address t a = Some n"
proof -
  let ?xs = "sorted_addrs t"
  have xs: "sorted ?xs" "set ?xs = set (map fst (by_address t))"
    using assms(1) by (simp_all add: indexed_def)
  have mem: "a \<in> set ?xs" using assms(2) symbol_at_key [of t a] xs by simp
  note k = bisect_positive [OF xs(1) mem order_refl]
  have "?xs ! (bisect_right ?xs a - 1) = a"
    using nearest_key(2,3) [OF xs(1) k] mem by (meson order_antisym order_refl)
  moreover have "?xs \<noteq> []" using mem by auto
  ultimately show ?thesis
    using assms(2) k by (auto simp: lookup_address_def Let_def symbol_at_def)
qed

lemma lookup_nearest:
  assumes "indexed t" and "lookup_address t a = Some s"
  shows "symbol_text (symbol_at t) a s"
proof -
  let ?xs = "sorted_addrs t"
  let ?b = "?xs ! (bisect_right ?xs a - 1)"
  have xs: "sorted ?xs" "set ?xs = set (map fst (by_address t))"
    using assms(1) by (simp_all add: indexed_def)
  have k: "0 < bisect_right ?xs a"
    using assms(2) by (auto simp: lookup_address_def Let_def split: if_splits)
  obtain sy where sy: "map_of (by_address t) ?b = Some sy"
    "s = (if a = ?b then sym_name sy else sym_name sy @ ''+0x'' @ fmt_hex False 0 (a - ?b))"
    "a < ?b + 0x10000"
    using assms(2) k by (auto simp: lookup_address_def Let_def split: if_splits option.splits)
  have "symbol_at t c = None" if "?b < c" "c \<le> a" for c
    using nearest_key(3) [OF xs(1) k, of c] that symbol_at_key [of t c] xs(2) by force
  with sy nearest_key(2) [OF xs(1) k] show ?thesis
    unfolding symbol_text_def
    by (intro exI [of _ ?b] exI [of _ "sym_name sy"]) (simp add: symbol_at_def)
qed

lemma lookup_line_near:
  assumes "indexed t" and "lookup_source_line t a = Some (f, l)"
  shows "\<exists>b. line_at t b f l \<and> b \<le> a \<and> a \<le> b + 0x1000"
proof -
  let ?xs = "line_addrs t"
  have xs: "sorted ?xs" "?xs = map sl_address (source_lines t)"
    using assms(1) unfolding indexed_def by blast+
  have k: "0 < bisect_right ?xs a"
    using assms(2) by (auto simp: lookup_source_line_def Let_def split: if_splits)
  let ?i = "bisect_right ?xs a - 1"
  have i: "?i < length (source_lines t)"
    using bisect_right_split(1) [OF xs(1), of a] k xs(2) by (metis length_map less_le_trans diff_less zero_less_one)
  let ?sl = "source_lines t ! ?i"
  have "sl_address ?sl \<le> a"
    using nearest_key(2) [OF xs(1) k] i xs(2) by simp
  moreover have "sl_file ?sl = f \<and> sl_line ?sl = l \<and> a \<le> sl_address ?sl + 0x1000"
    using assms(2) k by (auto simp: lookup_source_line_def Let_def split: if_splits)
  moreover have "?sl \<in> set (source_lines t)" using i by simp
  ultimately show ?thesis
    unfolding line_at_def by (intro exI [of _ "sl_address ?sl"]) blast
qed

section \<open>Reading back what nm writes\<close>

definition nm_text :: "(int \<times> string \<times> string) list \<Rightarrow> string" where
  "nm_text rows = concat (map (\<lambda>(a, ty, name).
     fmt_hex False 8 a @ '' '' @ ty @ '' '' @ name @ [CHR 0x0A]) rows)"

text \<open>A word contains no white space and is not empty.\<close>

definition plain_word :: "string \<Rightarrow> bool" where
  "plain_word w \<longleftrightarrow> w \<noteq> [] \<and> (\<forall>c \<in> set w. \<not> is_space c)"

definition nm_symbol :: "int \<times> string \<times> string \<Rightarrow> symbol" where
  "nm_symbol r = (case r of (a, ty, name) \<Rightarrow>
     \<lparr>sym_name = (if py_startswith name ''_'' then tl name else name), sym_address = a,
      sym_type = ty, sym_file = '''', sym_line = 0\<rparr>)"

lemma py_words_three:
  assumes "plain_word x" "plain_word y" "plain_word z"
  shows "py_words (x @ CHR '' '' # y @ CHR '' '' # z) = [x, y, z]"
  using assms by (simp add: py_words_def plain_word_def words_acc_word words_acc_last)

lemma strip_words:
  assumes "plain_word x" "plain_word z"
  shows "py_strip (x @ m @ z) = x @ m @ z"
  using assms by (intro py_strip_ends) (auto simp: plain_word_def last_append)

definition wf_nm :: "int \<times> string \<times> string \<Rightarrow> bool" where
  "wf_nm r = (case r of (a, ty, name) \<Rightarrow> plain_word ty \<and> plain_word name)"

lemma nm_line_row:
  assumes "wf_nm r" and "r = (a, ty, name)"
  shows "nm_line (fmt_hex False 8 a @ '' '' @ ty @ '' '' @ name) t =
    t\<lparr>symbols := symbols t @ [nm_symbol r], by_address := AList.update a (nm_symbol r) (by_address t),
      by_name := AList.update (sym_name (nm_symbol r)) (nm_symbol r) (by_name t)\<rparr>"
proof -
  have hex: "plain_word (fmt_hex False 8 a)"
    using fmt_hex_alnum alnum_char_not_space by (auto simp: plain_word_def)
  have words: "plain_word ty" "plain_word name" using assms by (simp_all add: wf_nm_def)
  have "py_strip (fmt_hex False 8 a @ '' '' @ ty @ '' '' @ name) = fmt_hex False 8 a @ '' '' @ ty @ '' '' @ name"
    using strip_words [OF hex words(2), of "'' '' @ ty @ '' ''"] by simp
  then show ?thesis
    using py_words_three [OF hex words] assms(2)
    by (simp add: nm_line_def nm_symbol_def Let_def)
qed

lemma nm_lines:
  assumes "list_all wf_nm rows"
  shows "py_splitlines (nm_text rows) =
    map (\<lambda>(a, ty, name). fmt_hex False 8 a @ '' '' @ ty @ '' '' @ name) rows"
  using assms unfolding py_splitlines_def
proof (induction rows)
  case Nil
  then show ?case by (simp add: nm_text_def)
next
  case (Cons r rows)
  obtain a ty name where r: "r = (a, ty, name)" by (cases r)
  let ?l = "fmt_hex False 8 a @ '' '' @ ty @ '' '' @ name"
  have "\<forall>c \<in> set ?l. \<not> is_line_break c"
    using Cons.prems r fmt_hex_alnum alnum_char_not_space
    by (auto simp: wf_nm_def plain_word_def dest!: line_break_space)
  moreover have "nm_text (r # rows) = ?l @ CHR 0x0A # nm_text rows"
    by (simp add: nm_text_def r)
  ultimately show ?case
    using Cons lines_acc_line [of ?l "[]" "nm_text rows"] by (simp add: r)
qed

text \<open>Reading the rows one after the other: later symbols replace earlier ones of the same key.\<close>

lemma map_of_update: "map_of (AList.update k v d) = map_of d ++ [k \<mapsto> v]"
  by (simp add: fun_eq_iff update_conv')

lemma fold_nm_lines:
  "list_all wf_nm rows \<Longrightarrow>
   (let t' = fold nm_line (map (\<lambda>(a, ty, name). fmt_hex False 8 a @ '' '' @ ty @ '' '' @ name) rows) t
    in symbols t' = symbols t @ map nm_symbol rows \<and>
       map_of (by_address t') = map_of (by_address t) ++ map_of (rev (map (\<lambda>r. (fst r, nm_symbol r)) rows)) \<and>
       map_of (by_name t') = map_of (by_name t) ++
         map_of (rev (map (\<lambda>r. (sym_name (nm_symbol r), nm_symbol r)) rows)))"
proof (induction rows arbitrary: t)
  case Nil
  then show ?case by simp
next
  case (Cons r rows)
  obtain a ty name where r: "r = (a, ty, name)" by (cases r)
  have wf: "wf_nm r" using Cons.prems by simp
  let ?t = "t\<lparr>symbols := symbols t @ [nm_symbol r], by_address := AList.update a (nm_symbol r) (by_address t),
    by_name := AList.update (sym_name (nm_symbol r)) (nm_symbol r) (by_name t)\<rparr>"
  have step: "fold nm_line (map (\<lambda>(a, ty, name). fmt_hex False 8 a @ '' '' @ ty @ '' '' @ name) (r # rows)) t =
      fold nm_line (map (\<lambda>(a, ty, name). fmt_hex False 8 a @ '' '' @ ty @ '' '' @ name) rows) ?t"
    by (simp only: list.map r prod.case fold_Cons comp_def nm_line_row [OF wf r, unfolded r])
  show ?case
    unfolding step using Cons.IH [of ?t] Cons.prems
    by (simp add: Let_def map_of_update map_add_assoc r del: map_add_upd)
qed

text \<open>
  C10. The symbol table is the program's: the text nm writes for a list of symbols is read back as
  those symbols in order, without the leading underscore of C names, and each address and
  each name finds the last symbol that has it.
\<close>

theorem nm_roundtrip:
  assumes "list_all wf_nm rows" and "t = parse_nm_output (nm_text rows) empty_table"
  shows "symbols t = map nm_symbol rows \<and>
    map_of (by_address t) = map_of (rev (map (\<lambda>r. (fst r, nm_symbol r)) rows)) \<and>
    lookup_name t name = map_option sym_address
      (map_of (rev (map (\<lambda>r. (sym_name (nm_symbol r), nm_symbol r)) rows)) name)"
  using fold_nm_lines [OF assms(1), of empty_table] assms
  by (simp add: parse_nm_output_def Let_def nm_lines empty_table_def lookup_name_def)

theorem nm_roundtrip_witness:
  "symbols (parse_nm_output (nm_text [(0, ''T'', ''_main''), (64, ''D'', ''table'')]) empty_table) =
     [nm_symbol (0, ''T'', ''_main''), nm_symbol (64, ''D'', ''table'')]"
  using nm_roundtrip [of "[(0, ''T'', ''_main''), (64, ''D'', ''table'')]"]
  by (simp add: wf_nm_def plain_word_def is_space_def)

end
