(* ===== verification/Listing.thy ===== *)
theory Listing
  imports Disassemble Symbols "HOL-Library.Sublist"
begin

text \<open>
  \<open>format_listing\<close> of \<open>disasm.py\<close>: a disassembly as text, annotated from the loaded symbol
  tables. The lemmas show that annotation adds lines and comments but keeps every row, in
  order, with its address, bytes and mnemonic.
\<close>

text \<open>One turn of the loop: the lines it appends and the new \<open>last_source\<close>.\<close>

definition listing_step :: "tables \<Rightarrow> string option \<Rightarrow> string \<Rightarrow> row \<Rightarrow> string list \<times> string" where
  "listing_step ts project last_source r =
     (case r of (addr, hexbytes, mnemonic) \<Rightarrow>
       let given = (case project of Some (c # p) \<Rightarrow> True | _ \<Rightarrow> False);
           shown = (if given then annotate_address ts addr project else '''');
           label = (if shown \<noteq> '''' \<and> CHR ''+'' \<notin> set shown then
                      '''' #
                      (let src_info = source_line_for_address ts addr project
                       in if src_info \<noteq> '''' then [''; '' @ src_info] else []) @
                      [shown @ '':'']
                    else []);
           src = (if given then source_line_for_address ts addr project else '''');
           fresh = (src \<noteq> '''' \<and> src \<noteq> last_source);
           source = (if fresh then [replicate 42 (CHR '' '') @ ''; '' @ src] else []);
           annotation = (if given \<and> shown \<noteq> '''' \<and> CHR ''+'' \<in> set shown
                         then ''  ; <'' @ shown @ ''>'' else '''')
       in (label @ source @
           [''  '' @ fmt_hex True 8 addr @ ''  '' @ fmt_left 20 hexbytes @ ''  '' @ mnemonic @ annotation],
           if fresh then src else last_source))"

fun listing_lines :: "tables \<Rightarrow> string option \<Rightarrow> string \<Rightarrow> row list \<Rightarrow> string list" where
  "listing_lines ts project last_source [] = []"
| "listing_lines ts project last_source (r # rs) =
     (let (ls, src) = listing_step ts project last_source r
      in ls @ listing_lines ts project src rs)"

definition format_listing :: "tables \<Rightarrow> row list \<Rightarrow> string option \<Rightarrow> string" where
  "format_listing ts instructions project =
     py_join [CHR 0x0A] (listing_lines ts project '''' instructions)"

section \<open>Every row is shown\<close>

definition row_text :: "row \<Rightarrow> string" where
  "row_text r = (case r of (addr, hexbytes, mnemonic) \<Rightarrow>
     ''  '' @ fmt_hex True 8 addr @ ''  '' @ fmt_left 20 hexbytes @ ''  '' @ mnemonic)"

lemma listing_step_row:
  "\<exists>pre cm. fst (listing_step ts project last_source r) = pre @ [row_text r @ cm]"
  by (cases r) (auto simp: listing_step_def Let_def row_text_def)

lemma listing_lines_rows:
  "\<exists>ns. length ns = length rs \<and>
     subseq (map (\<lambda>(r, n). row_text r @ n) (zip rs ns)) (listing_lines ts project src rs)"
proof (induction rs arbitrary: src)
  case Nil
  then show ?case by simp
next
  case (Cons r rs)
  obtain ls src' where step: "listing_step ts project src r = (ls, src')"
    by (cases "listing_step ts project src r")
  obtain pre cm where ls: "ls = pre @ [row_text r @ cm]"
    using listing_step_row [of ts project src r] step by auto
  from Cons [of src'] obtain ns where "length ns = length rs"
    "subseq (map (\<lambda>(r, n). row_text r @ n) (zip rs ns)) (listing_lines ts project src' rs)"
    by blast
  then show ?case
    using step ls by (intro exI [of _ "cm # ns"]) (auto intro: list_emb_append2)
qed

text \<open>
  An annotated listing still shows the whole disassembly: its lines contain, in order, one
  line per row that starts with the row's address, bytes and mnemonic (only a comment may
  follow); without a project the lines are exactly the rows.
\<close>

theorem listing_shows_rows:
  "(\<exists>lines ns. format_listing ts rows project = py_join [CHR 0x0A] lines \<and>
      length ns = length rows \<and>
      subseq (map (\<lambda>(r, n). row_text r @ n) (zip rows ns)) lines) \<and>
   format_listing ts rows None = py_join [CHR 0x0A] (map row_text rows)"
proof -
  have "listing_lines ts None s rows = map row_text rows" for s
    by (induction rows arbitrary: s)
       (auto simp: listing_step_def Let_def row_text_def split: prod.split)
  with listing_lines_rows [of rows ts project "''''"] show ?thesis
    unfolding format_listing_def by auto
qed

end
