(* ===== verification/Stabs.thy ===== *)
theory Stabs
  imports Symbols "HOL-Library.Monad_Syntax"
begin

text \<open>
  The debug information of a binary (\<open>_parse_stabs_output\<close> of \<open>symbols.py\<close>): the rows of
  \<open>objdump --stabs\<close> give source lines, functions, local variables and structures. Loading a
  binary's symbols, and displaying memory as a structure. A loaded table is an instance of the
  debugger's \<open>symbol_source\<close>: the interpretation \<open>loaded\<close>.

  The regular expressions of the source are written out as scanners; their character classes
  exclude each other wherever one run follows another, so the longest run is the only match.
\<close>

section \<open>Scanning\<close>

definition digit :: "char \<Rightarrow> bool" where
  "digit c \<longleftrightarrow> 48 \<le> chr_code c \<and> chr_code c \<le> 57"

definition hex_char :: "char \<Rightarrow> bool" where
  "hex_char c \<longleftrightarrow> digit c \<or> (65 \<le> chr_code c \<and> chr_code c \<le> 70) \<or> (97 \<le> chr_code c \<and> chr_code c \<le> 102)"

text \<open>\<open>\w\<close> on latin-1.\<close>

definition word_char :: "char \<Rightarrow> bool" where
  "word_char c \<longleftrightarrow>
     (let n = chr_code c
      in digit c \<or> (65 \<le> n \<and> n \<le> 90) \<or> n = 95 \<or> (97 \<le> n \<and> n \<le> 122) \<or>
         n \<in> {170, 178, 179, 181, 185, 186, 188, 189, 190} \<or> (192 \<le> n \<and> n \<noteq> 215 \<and> n \<noteq> 247))"

text \<open>A non-empty run of characters, and what follows it.\<close>

definition run_of :: "(char \<Rightarrow> bool) \<Rightarrow> string \<Rightarrow> (string \<times> string) option" where
  "run_of P s = (case takeWhile P s of [] \<Rightarrow> None | c # cs \<Rightarrow> Some (c # cs, dropWhile P s))"

definition expect :: "char \<Rightarrow> string \<Rightarrow> string option" where
  "expect c s = (case s of [] \<Rightarrow> None | d # r \<Rightarrow> if d = c then Some r else None)"

text \<open>\<open>int\<close> of a run of digits, which always succeeds.\<close>

definition number :: "nat \<Rightarrow> string \<Rightarrow> int" where
  "number b s = (case py_int b s of Inr i \<Rightarrow> i | Inl _ \<Rightarrow> 0)"

text \<open>What follows the first occurrence of \<open>w\<close>: \<open>s.split(w, 1)[1]\<close>.\<close>

fun after_text :: "string \<Rightarrow> string \<Rightarrow> string" where
  "after_text w [] = []"
| "after_text w (c # s) = (if py_startswith (c # s) w then drop (length w) (c # s) else after_text w s)"

definition before_colon :: "string \<Rightarrow> string" where
  "before_colon s = before_char (CHR '':'') s"

definition strip_underscore :: "string \<Rightarrow> string" where
  "strip_underscore s = (if py_startswith s ''_'' then tl s else s)"

section \<open>Rows\<close>

text \<open>A line that ends with a backslash goes on in the next.\<close>

fun join_from :: "string \<Rightarrow> string list \<Rightarrow> string list" where
  "join_from line [] = [line]"
| "join_from line (l # ls) =
     (if line \<noteq> [] \<and> last line = CHR 0x5C then join_from (butlast line @ py_strip l) ls
      else line # join_from (py_strip l) ls)"

definition join_lines :: "string list \<Rightarrow> string list" where
  "join_lines raw = (case raw of [] \<Rightarrow> [] | l # ls \<Rightarrow> join_from (py_strip l) ls)"

text \<open>The columns of a row: type, description, value and string.\<close>

definition stab_row :: "string \<Rightarrow> (string \<times> int \<times> int \<times> string) option" where
  "stab_row line = do {
     (_, r) \<leftarrow> run_of digit line; (_, r) \<leftarrow> run_of is_space r;
     (ty, r) \<leftarrow> run_of word_char r; (_, r) \<leftarrow> run_of is_space r;
     (_, r) \<leftarrow> run_of digit r; (_, r) \<leftarrow> run_of is_space r;
     (desc, r) \<leftarrow> run_of digit r; (_, r) \<leftarrow> run_of is_space r;
     (val, r) \<leftarrow> run_of hex_char r; (_, r) \<leftarrow> run_of is_space r;
     (_, r) \<leftarrow> run_of digit r;
     Some (ty, number 10 desc, number 16 val, py_strip (dropWhile is_space r)) }"

section \<open>Types\<close>

definition paren_map :: "(string \<times> string) list" where
  "paren_map =
    [(''(0,1)'', ''int''), (''(0,2)'', ''char''), (''(0,3)'', ''long''), (''(0,4)'', ''unsigned int''),
     (''(0,5)'', ''unsigned long''), (''(0,6)'', ''long long''), (''(0,7)'', ''unsigned long long''),
     (''(0,8)'', ''short''), (''(0,9)'', ''unsigned short''), (''(0,10)'', ''unsigned char''),
     (''(0,11)'', ''float''), (''(0,12)'', ''double''), (''(0,13)'', ''void'')]"

definition num_map :: "(string \<times> string) list" where
  "num_map =
    [(''1'', ''int''), (''2'', ''char''), (''3'', ''long int''), (''4'', ''unsigned int''), (''5'', ''unsigned long''),
     (''10'', ''short''), (''11'', ''unsigned short''), (''12'', ''signed char''), (''13'', ''unsigned char''),
     (''14'', ''float''), (''15'', ''double''), (''17'', ''void''), (''20'', ''LONG''), (''21'', ''ULONG''),
     (''23'', ''WORD''), (''24'', ''UWORD''), (''26'', ''BYTE''), (''27'', ''UBYTE'')]"

definition simplify_type :: "string \<Rightarrow> (string \<times> string) list \<Rightarrow> string" where
  "simplify_type ty type_map =
     (case map_of paren_map ty of Some n \<Rightarrow> n
      | None \<Rightarrow> (case map_of num_map ty of Some n \<Rightarrow> n
      | None \<Rightarrow> (case map_of type_map ty of Some n \<Rightarrow> n | None \<Rightarrow> ''type('' @ ty @ '')'')))"

text \<open>The number of a type after its \<open>T\<close> or \<open>t\<close>, in parentheses or plain, and what follows.\<close>

definition type_number :: "string \<Rightarrow> (string \<times> string) option" where
  "type_number s =
     (case s of [] \<Rightarrow> None
      | c # r \<Rightarrow>
          if c \<noteq> CHR ''T'' \<and> c \<noteq> CHR ''t'' then None
          else case expect (CHR ''('') r of
            Some r1 \<Rightarrow> do { (n, r2) \<leftarrow> run_of (\<lambda>c. c \<noteq> CHR '')'') r1; r3 \<leftarrow> expect (CHR '')'') r2; Some (n, r3) }
          | None \<Rightarrow> run_of digit r)"

section \<open>Structures\<close>

text \<open>\<open>re.search(r'=s\d+', s)\<close>\<close>

fun has_struct :: "string \<Rightarrow> bool" where
  "has_struct (a # b # c # s) = ((a = CHR ''='' \<and> b = CHR ''s'' \<and> digit c) \<or> has_struct (b # c # s))"
| "has_struct _ = False"

definition struct_head :: "string \<Rightarrow> (int \<times> string) option" where
  "struct_head s = do {
     (_, r) \<leftarrow> type_number s; r \<leftarrow> expect (CHR ''='') r;
     let r = (case do { (_, r1) \<leftarrow> run_of digit r; expect (CHR ''='') r1 } of Some r2 \<Rightarrow> r2 | None \<Rightarrow> r);
     r \<leftarrow> expect (CHR ''s'') r; (n, r) \<leftarrow> run_of digit r;
     Some (number 10 n, r) }"

text \<open>\<open>(\w+):([^,;]+),(\d+),(\d+);\<close>: name, type, offset and size of a field.\<close>

definition field_at :: "string \<Rightarrow> ((string \<times> string \<times> int \<times> int) \<times> string) option" where
  "field_at s = do {
     (name, r) \<leftarrow> run_of word_char s; r \<leftarrow> expect (CHR '':'') r;
     (ty, r) \<leftarrow> run_of (\<lambda>c. c \<noteq> CHR '','' \<and> c \<noteq> CHR '';'') r; r \<leftarrow> expect (CHR '','') r;
     (off, r) \<leftarrow> run_of digit r; r \<leftarrow> expect (CHR '','') r;
     (sz, r) \<leftarrow> run_of digit r; r \<leftarrow> expect (CHR '';'') r;
     Some ((name, ty, number 10 off, number 10 sz), r) }"

lemma run_of_shorter: "run_of P s = Some (a, r) \<Longrightarrow> length r < length s"
  using length_dropWhile_le [of P] by (auto simp: run_of_def split: list.splits if_splits) (metis dropWhile.simps(2) le_imp_less_Suc length_Cons takeWhile_eq_Nil_iff list.collapse list.distinct(1) list.sel(1))

lemma expect_shorter: "expect c s = Some r \<Longrightarrow> length r < length s"
  by (auto simp: expect_def split: list.splits if_splits)

lemma field_at_shorter: "field_at s = Some (f, r) \<Longrightarrow> length r < length s"
  unfolding field_at_def
  by (auto split: Option.bind_splits dest!: run_of_shorter expect_shorter)

text \<open>\<open>field_pattern.finditer(s)\<close>\<close>

function find_fields :: "string \<Rightarrow> (string \<times> string \<times> int \<times> int) list" where
  "find_fields s =
     (case field_at s of
        Some (f, r) \<Rightarrow> f # find_fields r
      | None \<Rightarrow> (case s of [] \<Rightarrow> [] | _ # r \<Rightarrow> find_fields r))"
  by pat_completeness auto
termination by (relation "measure length") (auto dest: field_at_shorter)

declare find_fields.simps [simp del]

definition struct_of :: "string \<Rightarrow> (string \<times> string) list \<Rightarrow> struct_type option" where
  "struct_of s type_map =
     (if \<not> py_in '':T'' s \<and> \<not> py_in '':t'' s then None
      else do {
        (n, fields_str) \<leftarrow> struct_head (after_text '':'' s);
        Some \<lparr>st_name = strip_underscore (before_colon s), st_size_bytes = n,
          st_fields = map (\<lambda>(name, ty, off, sz).
            \<lparr>sf_name = name, sf_type_name = simplify_type ty type_map, sf_offset_bits = off, sf_size_bits = sz\<rparr>)
            (find_fields fields_str)\<rparr> })"

definition parse_struct_stab :: "string \<Rightarrow> (string \<times> string) list \<Rightarrow> symbol_table \<Rightarrow> symbol_table" where
  "parse_struct_stab s type_map t =
     (case struct_of s type_map of
        None \<Rightarrow> t
      | Some st \<Rightarrow> if st_fields st \<noteq> [] then t\<lparr>struct_types := AList.update (st_name st) st (struct_types t)\<rparr> else t)"

section \<open>The rows of a dump\<close>

record stabs_state =
  cur_file :: string
  type_defs :: "(string \<times> string) list"
  cur_func :: string
  tab :: symbol_table

definition upd_tab :: "(symbol_table \<Rightarrow> symbol_table) \<Rightarrow> stabs_state \<Rightarrow> stabs_state" where
  "upd_tab f s = s\<lparr>tab := f (tab s)\<rparr>"

definition sline_row :: "int \<Rightarrow> int \<Rightarrow> stabs_state \<Rightarrow> stabs_state" where
  "sline_row desc val s =
     (if cur_file s \<noteq> [] \<and> 0 < val then
        upd_tab (\<lambda>t. t\<lparr>source_lines := source_lines t @ [\<lparr>sl_address = val, sl_file = cur_file s, sl_line = desc\<rparr>]\<rparr>) s
      else s)"

definition add_function :: "string \<Rightarrow> symbol \<Rightarrow> symbol_table \<Rightarrow> symbol_table" where
  "add_function name sy t =
     (if map_of (by_name t) name = None \<and> 0 < sym_address sy then
        t\<lparr>symbols := symbols t @ [sy], by_address := AList.update (sym_address sy) sy (by_address t),
          by_name := AList.update name sy (by_name t)\<rparr>
      else t)"

definition fun_row :: "int \<Rightarrow> int \<Rightarrow> string \<Rightarrow> stabs_state \<Rightarrow> stabs_state" where
  "fun_row desc val str s =
     (if CHR '':'' \<notin> set str then s
      else let name = strip_underscore (before_colon str);
               sy = \<lparr>sym_name = name, sym_address = val, sym_type = (if py_in '':f'' str then ''t'' else ''T''),
                     sym_file = cur_file s, sym_line = desc\<rparr>
        in upd_tab (\<lambda>t. add_function name sy
             (if cur_file s \<noteq> [] then t\<lparr>func_source := AList.update name (cur_file s, desc) (func_source t)\<rparr> else t))
           (s\<lparr>cur_func := name\<rparr>))"

text \<open>An offset from the frame pointer, as a signed 32-bit value.\<close>

definition frame_offset :: "int \<Rightarrow> int" where
  "frame_offset val = (if val < 0x80000000 then val else val - 0x100000000)"

definition type_text :: "string \<Rightarrow> (string \<times> string) list \<Rightarrow> string" where
  "type_text str type_map = (if str = [] then ''?'' else simplify_type (before_char (CHR ''='') str) type_map)"

definition add_local :: "string \<Rightarrow> string \<Rightarrow> string \<Rightarrow> int \<Rightarrow> stabs_state \<Rightarrow> stabs_state" where
  "add_local kind name ty val s =
     upd_tab (\<lambda>t. t\<lparr>func_locals := AList.update (cur_func s)
       ((case map_of (func_locals t) (cur_func s) of Some ls \<Rightarrow> ls | None \<Rightarrow> []) @
        [[(''name'', VStr name), (''type'', VStr ty), (''offset'', VInt (frame_offset val)),
          (''kind'', VStr kind), (''size'', VInt 4)]])
       (func_locals t)\<rparr>) s"

definition psym_row :: "int \<Rightarrow> string \<Rightarrow> stabs_state \<Rightarrow> stabs_state" where
  "psym_row val str s =
     (if str \<noteq> [] \<and> cur_func s \<noteq> [] \<and> py_in '':p'' str then
        add_local ''param'' (strip_underscore (before_colon str)) (type_text (after_text '':p'' str) (type_defs s)) val s
      else s)"

definition local_row :: "int \<Rightarrow> string \<Rightarrow> stabs_state \<Rightarrow> stabs_state" where
  "local_row val str s =
     (if str \<noteq> [] \<and> cur_func s \<noteq> [] \<and> CHR '':'' \<in> set str \<and> \<not> py_in '':T'' str \<and> \<not> py_in '':t'' str \<and>
         val \<noteq> 0 \<and> \<not> py_startswith str ''_''
      then add_local ''local'' (before_colon str) (type_text (after_text '':'' str) (type_defs s)) val s
      else s)"

definition type_row :: "string \<Rightarrow> stabs_state \<Rightarrow> stabs_state" where
  "type_row str s =
     (if str \<noteq> [] \<and> (py_in '':T'' str \<or> py_in '':t'' str) then
        (let s1 = (case type_number (after_text '':'' str) of
               Some (n, _) \<Rightarrow> s\<lparr>type_defs := AList.update n (strip_underscore (before_colon str)) (type_defs s)\<rparr>
             | None \<Rightarrow> s)
         in if has_struct str then upd_tab (parse_struct_stab str (type_defs s1)) s1 else s1)
      else s)"

definition stab_entry :: "string \<times> int \<times> int \<times> string \<Rightarrow> stabs_state \<Rightarrow> stabs_state" where
  "stab_entry e s =
     (case e of (ty, desc, val, str) \<Rightarrow>
       if ty = ''SO'' then (if str \<noteq> [] \<and> last str \<noteq> CHR ''/'' then s\<lparr>cur_file := str\<rparr> else s)
       else if ty = ''SOL'' then (if str \<noteq> [] then s\<lparr>cur_file := str\<rparr> else s)
       else if ty = ''SLINE'' then sline_row desc val s
       else if ty = ''FUN'' then fun_row desc val str s
       else if ty = ''PSYM'' then psym_row val str s
       else if ty = ''LSYM'' \<or> ty = ''GSYM'' then type_row str (local_row val str s)
       else s)"

definition stab_line :: "string \<Rightarrow> stabs_state \<Rightarrow> stabs_state" where
  "stab_line line s = (case stab_row line of Some e \<Rightarrow> stab_entry e s | None \<Rightarrow> s)"

text \<open>
  The end: lines sorted by address, and the functions' sources copied into the symbols, which the
  tables by address and by name share.
\<close>

definition with_source :: "(string \<times> string \<times> int) list \<Rightarrow> symbol \<Rightarrow> symbol" where
  "with_source fs s = (case map_of fs (sym_name s) of Some (f, n) \<Rightarrow> s\<lparr>sym_file := f, sym_line := n\<rparr> | None \<Rightarrow> s)"

definition finish_stabs :: "symbol_table \<Rightarrow> symbol_table" where
  "finish_stabs t =
     (let ls = sort_key sl_address (source_lines t); f = with_source (func_source t)
      in t\<lparr>source_lines := ls, line_addrs := map sl_address ls, symbols := map f (symbols t),
           by_address := map (apsnd f) (by_address t), by_name := map (apsnd f) (by_name t)\<rparr>)"

definition parse_stabs_output :: "string \<Rightarrow> symbol_table \<Rightarrow> symbol_table" where
  "parse_stabs_output out t =
     finish_stabs (tab (fold stab_line (join_lines (py_splitlines out))
       \<lparr>cur_file = '''', type_defs = [], cur_func = '''', tab = t\<rparr>))"

text \<open>\<open>load_symbols\<close> on the output of nm and of objdump; None for a tool that failed.\<close>

definition load_symbols :: "string option \<Rightarrow> string option \<Rightarrow> symbol_table" where
  "load_symbols nm stabs =
     (let t1 = (case nm of Some out \<Rightarrow> parse_nm_output out empty_table | None \<Rightarrow> empty_table)
      in case stabs of
           None \<Rightarrow> t1
         | Some out \<Rightarrow>
             if py_strip out = [] then t1
             else let t2 = parse_stabs_output out t1
               in t2\<lparr>sorted_addrs := sort (map fst (by_address t2))\<rparr>)"

definition load_project :: "string \<Rightarrow> string option \<Rightarrow> string option \<Rightarrow> tables \<Rightarrow> tables" where
  "load_project project nm stabs ts = AList.update project (load_symbols nm stabs) ts"

section \<open>Structures in memory\<close>

definition list_structs :: "tables \<Rightarrow> string \<Rightarrow> pydict list" where
  "list_structs ts project =
     (case map_of ts project of
        None \<Rightarrow> []
      | Some t \<Rightarrow>
          map (\<lambda>(_, st). [(''name'', VStr (st_name st)), (''size'', VInt (st_size_bytes st)),
            (''fields'', VList (map (\<lambda>f. VDict [(''name'', VStr (sf_name f)), (''type'', VStr (sf_type_name f)),
               (''offset'', VInt (sf_offset_bits f div 8)), (''size'', VInt (sf_size_bits f div 8))]) (st_fields st)))])
          (struct_types t))"

text \<open>\<open>int.from_bytes(b, "big", signed=True)\<close>\<close>

definition be_uint :: "byte list \<Rightarrow> int" where
  "be_uint bs = foldl (\<lambda>a b. a * 256 + uint b) 0 bs"

definition be_sint :: "byte list \<Rightarrow> int" where
  "be_sint bs = (if bs \<noteq> [] \<and> 128 \<le> uint (hd bs) then be_uint bs - 256 ^ length bs else be_uint bs)"

definition find_struct :: "tables \<Rightarrow> string \<Rightarrow> string option \<Rightarrow> struct_type option" where
  "find_struct ts name project =
     (case List.map_filter (\<lambda>t. map_of (struct_types t) name) (search_order ts project) of
        [] \<Rightarrow> None | st # _ \<Rightarrow> Some st)"

definition field_line :: "byte list \<Rightarrow> struct_field \<Rightarrow> string" where
  "field_line data f =
     (let off = sf_offset_bits f div 8; sz = sf_size_bits f div 8;
          start = ''  +'' @ fmt_right 3 (fmt_dec off) @ ''  '' @ sf_name f @ '': ''
      in if int (length data) < off + sz then start @ ''(beyond data)''
         else let bs = take (nat sz) (drop (nat off) data); hex_str = bytes_hex False bs
           in if sz \<le> 4 then start @ fmt_dec (be_sint bs) @ '' (0x'' @ hex_str @ '')'' else start @ ''0x'' @ hex_str)"

definition format_memory_with_struct :: "tables \<Rightarrow> string \<Rightarrow> string \<Rightarrow> string option \<Rightarrow> string res" where
  "format_memory_with_struct ts hex_data name project =
     (case find_struct ts name project of
        None \<Rightarrow> Inr (''Struct '' @ [CHR 0x27] @ name @ [CHR 0x27] @ '' not found in loaded symbols'')
      | Some st \<Rightarrow>
          res_bind (bytes_fromhex hex_data) (\<lambda>data.
            Inr (py_join [CHR 0x0A] ((''struct '' @ st_name st @ '' ('' @ fmt_dec (st_size_bytes st) @ '' bytes):'')
              # map (field_line data) (st_fields st)))))"

section \<open>A loaded table is indexed\<close>

lemma nm_line_lines [simp]: "source_lines (nm_line l t) = source_lines t" "line_addrs (nm_line l t) = line_addrs t"
  by (simp_all add: nm_line_def Let_def split: sum.split)

lemma parse_nm_lines: "source_lines (parse_nm_output out empty_table) = []" "line_addrs (parse_nm_output out empty_table) = []"
proof -
  have "source_lines (fold nm_line ls t) = source_lines t \<and> line_addrs (fold nm_line ls t) = line_addrs t" for ls t
    by (induction ls arbitrary: t) simp_all
  then show "source_lines (parse_nm_output out empty_table) = []" "line_addrs (parse_nm_output out empty_table) = []"
    by (simp_all add: parse_nm_output_def Let_def empty_table_def)
qed

lemma indexed_nm: "indexed (parse_nm_output out empty_table)"
  using parse_nm_lines [of out] by (simp add: indexed_def) (simp add: parse_nm_output_def Let_def)

lemma indexed_load: "indexed (load_symbols nm stabs)"
proof -
  have stabs: "line_addrs (parse_stabs_output out t) = map sl_address (source_lines (parse_stabs_output out t))"
    "sorted (line_addrs (parse_stabs_output out t))" for out t
    by (simp_all add: parse_stabs_output_def finish_stabs_def Let_def)
  have "indexed (case nm of Some out \<Rightarrow> parse_nm_output out empty_table | None \<Rightarrow> empty_table)"
    using indexed_nm indexed_empty by (simp split: option.split)
  with stabs show ?thesis
    by (cases stabs) (simp_all add: load_symbols_def Let_def indexed_def [of "_\<lparr>sorted_addrs := _\<rparr>"])
qed

interpretation loaded: symbol_source
    "lookup_address (load_symbols nm stabs)" "lookup_source_line (load_symbols nm stabs)"
    "symbol_at (load_symbols nm stabs)" "line_at (load_symbols nm stabs)" for nm stabs
  by unfold_locales (auto intro: lookup_exact lookup_nearest lookup_line_near indexed_load)

section \<open>Reading back what objdump writes\<close>

lemma run_of_append: "a \<noteq> [] \<Longrightarrow> list_all P a \<Longrightarrow> r = [] \<or> \<not> P (hd r) \<Longrightarrow> run_of P (a @ r) = Some (a, r)"
proof -
  assume a: "a \<noteq> []" "list_all P a" "r = [] \<or> \<not> P (hd r)"
  then have "takeWhile P (a @ r) = a" "dropWhile P (a @ r) = r"
    by (cases r; simp add: takeWhile_append2 dropWhile_append2 list_all_iff)+
  with a(1) show ?thesis by (cases a) (simp_all add: run_of_def)
qed

text \<open>A row of the table: number, type, other, description, value, index of the string, string.\<close>

type_synonym stab = "int \<times> string \<times> int \<times> int \<times> int \<times> int \<times> string"

fun stab_text :: "stab \<Rightarrow> string" where
  "stab_text (n, ty, other, desc, val, strx, str) =
     fmt_left 6 (fmt_dec n) @ '' '' @ fmt_left 6 ty @ '' '' @ fmt_left 6 (fmt_dec other) @ '' '' @
     fmt_left 6 (fmt_dec desc) @ '' '' @ fmt_hex False 8 val @ '' '' @ fmt_left 6 (fmt_dec strx) @ '' '' @ str"

fun stab_content :: "stab \<Rightarrow> string \<times> int \<times> int \<times> string" where
  "stab_content (n, ty, other, desc, val, strx, str) = (ty, desc, val, str)"

text \<open>The strings have no line breaks, no space at their ends and no backslash at the end.\<close>

fun wf_stab :: "stab \<Rightarrow> bool" where
  "wf_stab (n, ty, other, desc, val, strx, str) \<longleftrightarrow>
     list_all (\<lambda>i. 0 \<le> i) [n, other, desc, val, strx] \<and> ty \<noteq> [] \<and> list_all word_char ty \<and>
     list_all (\<lambda>c. \<not> is_line_break c) str \<and>
     (str = [] \<or> \<not> is_space (hd str) \<and> \<not> is_space (last str) \<and> last str \<noteq> CHR 0x5C)"

lemma digit_digit_char: "d < 10 \<Longrightarrow> digit (digit_char u d)" "d < 16 \<Longrightarrow> hex_char (digit_char u d)"
  by (auto simp: digit_def hex_char_def of_char_digit_char)

lemma digits_of_dec: "0 \<le> i \<Longrightarrow> list_all digit (fmt_dec i)"
  by (auto simp: fmt_dec_def list_all_iff digit_digit_char dest!: nat_digits_chars [rotated])

lemma digits_of_hex: "0 \<le> i \<Longrightarrow> list_all hex_char (fmt_hex u w i)"
  by (auto simp: fmt_hex_def list_all_iff Let_def digit_digit_char hex_char_def [of "CHR ''0''"] digit_def [of "CHR ''0''"]
      dest!: nat_digits_chars [rotated])

lemma not_space: "\<not> digit (CHR '' '')" "\<not> hex_char (CHR '' '')" "\<not> word_char (CHR '' '')" "digit c \<Longrightarrow> \<not> is_space c"
  "hex_char c \<Longrightarrow> \<not> is_space c" "word_char c \<Longrightarrow> \<not> is_space c"
  by (auto simp: digit_def hex_char_def word_char_def is_space_def Let_def)

text \<open>A padded column: its text, then the spaces up to the next column.\<close>

lemma column:
  assumes "a \<noteq> []" and "list_all P a" and "\<not> P (CHR '' '')" and "r \<noteq> []" and "\<not> is_space (hd r)"
  shows "\<exists>gap g. run_of P (fmt_left w a @ CHR '' '' # r) = Some (a, gap) \<and> run_of is_space gap = Some (g, r)"
proof -
  let ?gap = "replicate (w - length a) (CHR '' '') @ '' ''"
  have "run_of P (a @ ?gap @ r) = Some (a, ?gap @ r)"
    using assms by (intro run_of_append) (cases "w - length a"; simp)+
  moreover have "run_of is_space (?gap @ r) = Some (?gap, r)"
    using assms by (intro run_of_append) (simp_all add: list_all_iff is_space_def)
  ultimately show ?thesis by (auto simp: fmt_left_def)
qed

lemma number_fmt [simp]: "number 10 (fmt_dec i) = i" "number 16 (fmt_hex u w i) = i"
  by (simp_all add: number_def)

lemma starts: "0 \<le> i \<Longrightarrow> \<not> is_space (hd (fmt_left w (fmt_dec i)))" "0 \<le> i \<Longrightarrow> \<not> is_space (hd (fmt_left w (fmt_hex u v i)))"
  "ty \<noteq> [] \<Longrightarrow> list_all word_char ty \<Longrightarrow> \<not> is_space (hd (fmt_left w ty))"
  using digits_of_dec [of i] digits_of_hex [of i u v] not_space
  by (auto simp: fmt_left_def hd_append list_all_iff)

lemma left_not_Nil [simp]: "fmt_left w (fmt_dec i) \<noteq> []" "fmt_left w (fmt_hex u v i) \<noteq> []"
  by (simp_all add: fmt_left_def)

lemma stab_row_columns:
  assumes "0 \<le> n" "0 \<le> other" "0 \<le> desc" "0 \<le> val" "ty \<noteq> []" "list_all word_char ty"
    and last: "run_of digit r = Some (d, rest)" "\<not> is_space (hd r)" "r \<noteq> []"
  shows "stab_row (fmt_left 6 (fmt_dec n) @ CHR '' '' # fmt_left 6 ty @ CHR '' '' # fmt_left 6 (fmt_dec other) @ CHR '' '' #
      fmt_left 6 (fmt_dec desc) @ CHR '' '' # fmt_left 0 (fmt_hex False 8 val) @ CHR '' '' # r) =
    Some (ty, desc, val, py_strip (dropWhile is_space rest))"
proof -
  let ?r5 = "fmt_left 0 (fmt_hex False 8 val) @ CHR '' '' # r"
  let ?r4 = "fmt_left 6 (fmt_dec desc) @ CHR '' '' # ?r5"
  let ?r3 = "fmt_left 6 (fmt_dec other) @ CHR '' '' # ?r4"
  let ?r2 = "fmt_left 6 ty @ CHR '' '' # ?r3"
  have ty: "fmt_left 6 ty \<noteq> []" using assms(5) by (simp add: fmt_left_def)
  note dec = digits_of_dec not_space(1)
  obtain p1 g1 where c1: "run_of digit (fmt_left 6 (fmt_dec n) @ CHR '' '' # ?r2) = Some (fmt_dec n, p1)" "run_of is_space p1 = Some (g1, ?r2)"
    using column [OF _ dec(1) [OF assms(1)] dec(2), of ?r2 6] starts(3) [OF assms(5,6)] ty by auto
  obtain p2 g2 where c2: "run_of word_char ?r2 = Some (ty, p2)" "run_of is_space p2 = Some (g2, ?r3)"
    using column [OF assms(5,6) not_space(3), of ?r3 6] starts(1) [OF assms(2)] by auto
  obtain p3 g3 where c3: "run_of digit ?r3 = Some (fmt_dec other, p3)" "run_of is_space p3 = Some (g3, ?r4)"
    using column [OF _ dec(1) [OF assms(2)] dec(2), of ?r4 6] starts(1) [OF assms(3)] by auto
  obtain p4 g4 where c4: "run_of digit ?r4 = Some (fmt_dec desc, p4)" "run_of is_space p4 = Some (g4, ?r5)"
    using column [OF _ dec(1) [OF assms(3)] dec(2), of ?r5 6] starts(2) [OF assms(4)] by auto
  obtain p5 g5 where c5: "run_of hex_char ?r5 = Some (fmt_hex False 8 val, p5)" "run_of is_space p5 = Some (g5, r)"
    using column [where P = hex_char and a = "fmt_hex False 8 val" and r = r and w = 0] digits_of_hex [OF assms(4)] not_space(2) last(2,3) by auto
  show ?thesis by (simp add: stab_row_def c1 c2 c3 c4 c5 last(1))
qed

lemma strip_trailing:
  "s \<noteq> [] \<Longrightarrow> \<not> is_space (hd s) \<Longrightarrow> \<not> is_space (last s) \<Longrightarrow> list_all is_space g \<Longrightarrow> py_strip (s @ g) = s"
proof -
  assume s: "s \<noteq> []" "\<not> is_space (hd s)" "\<not> is_space (last s)" "list_all is_space g"
  then have "dropWhile is_space (s @ g) = s @ g" by (cases s) simp_all
  moreover have "dropWhile is_space (rev g @ rev s) = dropWhile is_space (rev s)"
    using s(4) by (intro dropWhile_append2) (simp add: list_all_iff)
  moreover have "dropWhile is_space (rev s) = rev s"
    using s(1,3) by (cases "rev s") (auto simp: hd_rev [symmetric])
  ultimately show ?thesis by (simp add: py_strip_def py_lstrip_def)
qed

lemma stab_row_text:
  assumes "wf_stab e"
  shows "stab_row (py_strip (stab_text e)) = Some (stab_content e)"
proof -
  obtain n ty other desc val strx str where e: "e = (n, ty, other, desc, val, strx, str)" by (cases e)
  have ok: "0 \<le> n" "0 \<le> other" "0 \<le> desc" "0 \<le> val" "0 \<le> strx" "ty \<noteq> []" "list_all word_char ty"
    "str = [] \<or> \<not> is_space (hd str) \<and> \<not> is_space (last str)"
    using assms by (auto simp: e)
  let ?cols = "\<lambda>r. fmt_left 6 (fmt_dec n) @ CHR '' '' # fmt_left 6 ty @ CHR '' '' # fmt_left 6 (fmt_dec other) @ CHR '' '' #
      fmt_left 6 (fmt_dec desc) @ CHR '' '' # fmt_left 0 (fmt_hex False 8 val) @ CHR '' '' # r"
  have whole: "stab_text e = ?cols (fmt_left 6 (fmt_dec strx) @ CHR '' '' # str)" by (simp add: e fmt_left_def)
  have hd: "\<not> is_space (hd (?cols r))" for r using starts(1) [OF ok(1)] by simp
  show ?thesis
  proof (cases "str = []")
    case True
    let ?d = "fmt_dec strx" and ?g = "replicate (6 - length (fmt_dec strx)) (CHR '' '') @ '' ''"
    have "\<not> is_space (last ?d)" "\<not> is_space (hd ?d)"
      using digits_of_dec [OF ok(5)] not_space(4) by (simp_all add: list_all_iff)
    moreover from this have "py_strip (?cols ?d @ ?g) = ?cols ?d"
      using hd [of ?d] by (intro strip_trailing) (simp_all add: list_all_iff is_space_def)
    moreover have "run_of digit ?d = Some (?d, [])" using run_of_append [of ?d digit "[]"] digits_of_dec [OF ok(5)] by simp
    ultimately show ?thesis
      using stab_row_columns [OF ok(1-4,6,7), of ?d ?d "[]"] True by (simp add: e fmt_left_def py_strip_def py_lstrip_def)
  next
    case False
    let ?r = "fmt_left 6 (fmt_dec strx) @ CHR '' '' # str"
    have "py_strip (?cols ?r) = ?cols ?r"
      using hd [of ?r] False ok(8) by (intro py_strip_ends) simp_all
    moreover obtain rest g where "run_of digit ?r = Some (fmt_dec strx, rest)" "run_of is_space rest = Some (g, str)"
      using column [OF _ digits_of_dec [OF ok(5)] not_space(1), of str 6] False ok(8) by auto
    moreover from this(2) have "dropWhile is_space rest = str" by (auto simp: run_of_def split: list.splits)
    moreover have "py_strip str = str" using False ok(8) by (intro py_strip_ends) simp_all
    ultimately show ?thesis
      using stab_row_columns [OF ok(1-4,6,7), of ?r "fmt_dec strx" rest] starts(1) [OF ok(5)] whole by (simp add: e)
  qed
qed

lemma line_break_word: "word_char c \<Longrightarrow> \<not> is_line_break c" "digit c \<Longrightarrow> \<not> is_line_break c" "hex_char c \<Longrightarrow> \<not> is_line_break c"
  using not_space line_break_space by blast+

text \<open>The characters of the columns before the string.\<close>

definition column_char :: "char \<Rightarrow> bool" where
  "column_char c \<longleftrightarrow> c = CHR '' '' \<or> word_char c"

lemma column_chars:
  "0 \<le> i \<Longrightarrow> list_all column_char (fmt_left w (fmt_dec i))" "0 \<le> i \<Longrightarrow> list_all column_char (fmt_hex u w i)"
  "list_all word_char ty \<Longrightarrow> list_all column_char (fmt_left w ty)"
  using digits_of_dec [of i] digits_of_hex [of i u w]
  by (auto simp: fmt_left_def column_char_def list_all_iff word_char_def hex_char_def Let_def)

lemma stab_text_split:
  assumes "wf_stab e"
  obtains cols where "stab_text e = cols @ CHR '' '' # snd (snd (snd (stab_content e)))" "list_all column_char cols" "cols \<noteq> []"
    "\<not> is_space (hd cols)"
proof -
  obtain n ty other desc val strx str where e: "e = (n, ty, other, desc, val, strx, str)" by (cases e)
  let ?c = "fmt_left 6 (fmt_dec n) @ '' '' @ fmt_left 6 ty @ '' '' @ fmt_left 6 (fmt_dec other) @ '' '' @
     fmt_left 6 (fmt_dec desc) @ '' '' @ fmt_hex False 8 val @ '' '' @ fmt_left 6 (fmt_dec strx)"
  have "stab_text e = ?c @ CHR '' '' # snd (snd (snd (stab_content e)))" by (simp add: e)
  moreover have "list_all column_char ?c"
    using assms column_chars by (simp add: e column_char_def [of "CHR '' ''"])
  moreover have "\<not> is_space (hd ?c)" using assms starts(1) [of n 6] by (simp add: e)
  ultimately show ?thesis using that [of ?c] by simp
qed

declare stab_text.simps [simp del] wf_stab.simps [simp del] stab_content.simps [simp del]

definition dump_text :: "stab list \<Rightarrow> string" where
  "dump_text es = concat (map (\<lambda>e. stab_text e @ [CHR 0x0A]) es)"

lemma dump_lines:
  assumes "list_all wf_stab es"
  shows "py_splitlines (dump_text es) = map stab_text es"
  using assms unfolding py_splitlines_def
proof (induction es)
  case Nil
  then show ?case by (simp add: dump_text_def)
next
  case (Cons e es)
  have wf: "wf_stab e" using Cons.prems by simp
  from stab_text_split [OF wf] obtain cols str where
    c: "stab_text e = cols @ CHR '' '' # str" "list_all column_char cols"
    and str: "str = snd (snd (snd (stab_content e)))" by blast
  have "list_all (\<lambda>c. \<not> is_line_break c) str"
    using wf unfolding str by (cases e) (simp add: wf_stab.simps stab_content.simps)
  moreover have "\<not> is_line_break c" if "column_char c" for c
    using that line_break_word(1) [of c] by (auto simp: column_char_def)
  ultimately have "\<forall>c \<in> set (stab_text e). \<not> is_line_break c"
    using c by (auto simp: list_all_iff)
  from lines_acc_line [OF this, of "[]" "dump_text es"] Cons show ?case
    by (simp add: dump_text_def)
qed

lemma stab_text_last:
  assumes "wf_stab e"
  shows "py_strip (stab_text e) = [] \<or> last (py_strip (stab_text e)) \<noteq> CHR 0x5C"
proof -
  from stab_text_split [OF assms] obtain cols str where
    c: "stab_text e = cols @ CHR '' '' # str" "list_all column_char cols" "cols \<noteq> []" "\<not> is_space (hd cols)"
    and s: "str = snd (snd (snd (stab_content e)))" by blast
  have str: "str = [] \<or> \<not> is_space (last str) \<and> last str \<noteq> CHR 0x5C"
    using assms unfolding s by (cases e) (auto simp: wf_stab.simps stab_content.simps)
  show ?thesis
  proof (cases "str = []")
    case True
    have "\<not> column_char (CHR 0x5C)" by code_simp
    then have "CHR 0x5C \<notin> set cols" using c(2) unfolding list_all_iff by blast
    then have "CHR 0x5C \<notin> set (stab_text e)" by (simp add: c(1) True)
    then have "CHR 0x5C \<notin> set (py_strip (stab_text e))" using set_py_strip by blast
    then show ?thesis using last_in_set by fastforce
  next
    case False
    have "py_strip (cols @ CHR '' '' # str) = cols @ CHR '' '' # str"
      using c(3,4) str False by (intro py_strip_ends) simp_all
    then show ?thesis using str False by (simp add: c(1))
  qed
qed

lemma join_from_whole:
  "list_all (\<lambda>l. py_strip l = [] \<or> last (py_strip l) \<noteq> CHR 0x5C) ls \<Longrightarrow> line = [] \<or> last line \<noteq> CHR 0x5C \<Longrightarrow>
   join_from line ls = line # map py_strip ls"
  by (induction ls arbitrary: line) auto

lemma dump_rows:
  assumes "list_all wf_stab es"
  shows "join_lines (py_splitlines (dump_text es)) = map (py_strip \<circ> stab_text) es"
proof -
  have "list_all (\<lambda>l. py_strip l = [] \<or> last (py_strip l) \<noteq> CHR 0x5C) (map stab_text es)"
    using assms stab_text_last by (simp add: list_all_iff)
  then show ?thesis
    using assms by (cases es) (simp_all add: dump_lines join_lines_def join_from_whole comp_def)
qed

lemma fold_stab_lines:
  "list_all wf_stab es \<Longrightarrow> fold stab_line (map (py_strip \<circ> stab_text) es) s = fold stab_entry (map stab_content es) s"
  by (induction es arbitrary: s) (simp_all add: stab_line_def stab_row_text)

section \<open>Source lines\<close>

lemma strip_prefix_some: "\<not> is_space c \<Longrightarrow> py_strip (c # s) \<noteq> []"
proof
  assume "\<not> is_space c" "py_strip (c # s) = []"
  then have "dropWhile is_space (rev (c # s)) = []" by (simp add: py_strip_def py_lstrip_def)
  then have "\<forall>x \<in> set (rev (c # s)). is_space x" by (simp only: dropWhile_eq_Nil_conv)
  with \<open>\<not> is_space c\<close> show False by simp
qed

text \<open>The source lines of a program: each with the file in force.\<close>

fun lines_from :: "string \<Rightarrow> (string \<times> int \<times> int \<times> string) list \<Rightarrow> source_line list" where
  "lines_from file [] = []"
| "lines_from file ((ty, desc, val, str) # es) =
     (if ty = ''SLINE'' \<and> file \<noteq> [] \<and> 0 < val then
        \<lparr>sl_address = val, sl_file = file, sl_line = desc\<rparr> # lines_from file es
      else if (ty = ''SO'' \<and> str \<noteq> [] \<and> last str \<noteq> CHR ''/'') \<or> (ty = ''SOL'' \<and> str \<noteq> []) then lines_from str es
      else lines_from file es)"

lemma source_lines_kept [simp]:
  "source_lines (add_function n sy t) = source_lines t" "source_lines (parse_struct_stab str tm t) = source_lines t"
  by (simp_all add: add_function_def parse_struct_stab_def split: option.split)

lemma rows_keep_lines:
  "cur_file (fun_row desc val str s) = cur_file s" "source_lines (tab (fun_row desc val str s)) = source_lines (tab s)"
  "cur_file (psym_row val str s) = cur_file s" "source_lines (tab (psym_row val str s)) = source_lines (tab s)"
  "cur_file (type_row str s) = cur_file s" "source_lines (tab (type_row str s)) = source_lines (tab s)"
  "cur_file (local_row val str s) = cur_file s" "source_lines (tab (local_row val str s)) = source_lines (tab s)"
  by (simp_all add: fun_row_def psym_row_def type_row_def local_row_def add_local_def upd_tab_def Let_def split: option.split)

lemma fold_lines:
  "source_lines (tab (fold stab_entry es s)) = source_lines (tab s) @ lines_from (cur_file s) es"
proof (induction es arbitrary: s)
  case (Cons e es)
  obtain ty desc val str where e: "e = (ty, desc, val, str)" by (cases e)
  show ?case
    using Cons.IH by (auto simp: e stab_entry_def rows_keep_lines sline_row_def upd_tab_def)
qed simp

text \<open>
  The source lines a debugger sees are those of the program: a dump that objdump writes for any
  rows of debug information is read as these rows, and the loaded table holds, sorted by
  address, exactly the source lines of the rows with the file in force at each.
\<close>

theorem source_lines_loaded:
  assumes "list_all wf_stab es" and "es \<noteq> []"
  shows "source_lines (load_symbols nm (Some (dump_text es))) = sort_key sl_address (lines_from '''' (map stab_content es))"
proof -
  let ?t = "case nm of Some out \<Rightarrow> parse_nm_output out empty_table | None \<Rightarrow> empty_table"
  obtain e es' where es: "es = e # es'" using assms(2) by (cases es) auto
  have "wf_stab e" using assms(1) es by simp
  from stab_text_split [OF this] obtain c cs r where "stab_text e = (c # cs) @ r" and c: "\<not> is_space c"
    by (metis list.collapse)
  then have "dump_text es = c # cs @ r @ CHR 0x0A # dump_text es'" by (simp add: es dump_text_def)
  then have "py_strip (dump_text es) \<noteq> []"
    using strip_prefix_some [OF c, of "cs @ r @ CHR 0x0A # dump_text es'"] by simp
  moreover have "source_lines ?t = []" using parse_nm_lines by (cases nm) (simp_all, simp add: empty_table_def)
  ultimately show ?thesis
    using assms(1)
    by (simp add: load_symbols_def Let_def parse_stabs_output_def dump_rows fold_stab_lines finish_stabs_def fold_lines)
qed

text \<open>A dump of one file and one line.\<close>

theorem source_lines_loaded_witness:
  "source_lines (load_symbols None (Some (dump_text
     [(0, ''SO'', 0, 0, 0, 1, ''main.c''), (1, ''SLINE'', 0, 7, 0x1234, 0, '''')]))) =
   [\<lparr>sl_address = 0x1234, sl_file = ''main.c'', sl_line = 7\<rparr>]"
proof -
  let ?es = "[(0, ''SO'', 0, 0, 0, 1, ''main.c''), (1, ''SLINE'', 0, 7, 0x1234, 0, '''')]"
  have "list_all wf_stab ?es" by code_simp
  moreover have "lines_from '''' (map stab_content ?es) = [\<lparr>sl_address = 0x1234, sl_file = ''main.c'', sl_line = 7\<rparr>]"
    by code_simp
  ultimately show ?thesis
    using source_lines_loaded [of ?es None] by simp
qed

section \<open>Reading back a structure\<close>

text \<open>What the compiler writes for a structure: its name, type number, size in bytes, and its
fields with their type, bit offset and bit size.\<close>

fun field_text :: "string \<times> string \<times> int \<times> int \<Rightarrow> string" where
  "field_text (name, ty, off, sz) =
     name @ '':'' @ ty @ '','' @ fmt_dec off @ '','' @ fmt_dec sz @ '';''"

definition struct_text :: "string \<Rightarrow> string \<Rightarrow> int \<Rightarrow> (string \<times> string \<times> int \<times> int) list \<Rightarrow> string" where
  "struct_text name num n fs = name @ '':T'' @ num @ ''=s'' @ fmt_dec n @ concat (map field_text fs) @ '';''"

definition type_char :: "char \<Rightarrow> bool" where
  "type_char c \<longleftrightarrow> c \<noteq> CHR '','' \<and> c \<noteq> CHR '';''"

fun wf_field :: "string \<times> string \<times> int \<times> int \<Rightarrow> bool" where
  "wf_field (name, ty, off, sz) \<longleftrightarrow>
     name \<noteq> [] \<and> list_all word_char name \<and> \<not> digit (hd name) \<and> ty \<noteq> [] \<and> list_all type_char ty \<and> 0 \<le> off \<and> 0 \<le> sz"

lemma separators: "\<not> word_char (CHR '':'')" "\<not> type_char (CHR '','')" "\<not> digit (CHR '','')" "\<not> digit (CHR '';'')"
  "\<not> digit (CHR ''='')" "\<not> digit (CHR ''s'')" "\<not> word_char (CHR '';'')"
  by code_simp+

lemma expect_same [simp]: "expect c (c # r) = Some r"
  by (simp add: expect_def)

lemma field_at_text: "wf_field f \<Longrightarrow> field_at (field_text f @ r) = Some (f, r)"
proof -
  assume wf: "wf_field f"
  obtain name ty off sz where f: "f = (name, ty, off, sz)" by (cases f)
  let ?r4 = "fmt_dec sz @ CHR '';'' # r" let ?r3 = "fmt_dec off @ CHR '','' # ?r4" let ?r2 = "ty @ CHR '','' # ?r3"
  have "run_of word_char (name @ CHR '':'' # ?r2) = Some (name, CHR '':'' # ?r2)"
    using wf separators by (intro run_of_append) (simp_all add: f)
  moreover have "run_of type_char ?r2 = Some (ty, CHR '','' # ?r3)"
    using wf separators by (intro run_of_append) (simp_all add: f)
  moreover have "run_of digit ?r3 = Some (fmt_dec off, CHR '','' # ?r4)" "run_of digit ?r4 = Some (fmt_dec sz, CHR '';'' # r)"
    using wf separators digits_of_dec by (intro run_of_append; simp add: f)+
  ultimately show ?thesis
    unfolding field_at_def type_char_def by (simp add: f)
qed

lemma find_fields_text: "list_all wf_field fs \<Longrightarrow> find_fields (concat (map field_text fs) @ '';'') = fs"
proof (induction fs)
  case Nil
  have "field_at '';'' = None" "field_at [] = None" by code_simp+
  then show ?case by (simp add: find_fields.simps)
next
  case (Cons f fs)
  then show ?case by (simp add: find_fields.simps [of "field_text f @ _"] field_at_text)
qed

text \<open>
  A field whose type is a pair in parentheses, such as \<open>(0,1)\<close>, the other notation the parser's
  documentation names: no match of the field pattern starts in it, so it is passed over.
\<close>

fun pair_field :: "string \<times> string \<times> int \<times> int \<Rightarrow> bool" where
  "pair_field (name, ty, off, sz) \<longleftrightarrow>
     name \<noteq> [] \<and> list_all word_char name \<and> \<not> digit (hd name) \<and> 0 \<le> off \<and> 0 \<le> sz \<and>
     (\<exists>a b. ty = CHR ''('' # a @ CHR '','' # b @ '')'' \<and> a \<noteq> [] \<and> list_all digit a \<and> b \<noteq> [] \<and> list_all digit b)"

lemma digits_word: "list_all digit a \<Longrightarrow> list_all word_char a"
  by (auto simp: list_all_iff digit_def word_char_def)

lemma skip_char: "\<not> word_char c \<Longrightarrow> find_fields (c # r) = find_fields r"
  by (simp add: find_fields.simps [of "c # r"] field_at_def run_of_def)

lemma skip_word:
  "list_all word_char q \<Longrightarrow> \<not> word_char c \<Longrightarrow> c \<noteq> CHR '':'' \<Longrightarrow> find_fields (q @ c # r) = find_fields r"
proof (induction q)
  case (Cons a q)
  have "run_of word_char ((a # q) @ c # r) = Some (a # q, c # r)"
    using Cons.prems by (intro run_of_append) simp_all
  then have "field_at (a # q @ c # r) = None"
    using Cons.prems(3) by (simp add: field_at_def expect_def)
  then show ?case using Cons by (simp add: find_fields.simps [of "a # q @ c # r"])
qed (simp add: skip_char)

lemma field_at_pair:
  assumes "q \<noteq> []" and "list_all word_char q" and "list_all digit a" and "b \<noteq> []" and "list_all digit b"
  shows "field_at (q @ '':('' @ a @ CHR '','' # b @ CHR '')'' # r) = None"
proof -
  let ?r2 = "b @ CHR '')'' # r"
  have "run_of word_char (q @ CHR '':'' # CHR ''('' # a @ CHR '','' # ?r2) =
      Some (q, CHR '':'' # CHR ''('' # a @ CHR '','' # ?r2)"
    using assms(1,2) separators by (intro run_of_append) simp_all
  moreover have "list_all type_char (CHR ''('' # a)"
    using assms(3) by (auto simp: list_all_iff digit_def type_char_def)
  then have "run_of type_char ((CHR ''('' # a) @ CHR '','' # ?r2) = Some (CHR ''('' # a, CHR '','' # ?r2)"
    using separators by (intro run_of_append) simp_all
  moreover have "run_of digit ?r2 = Some (b, CHR '')'' # r)"
    using assms(4,5) by (intro run_of_append) (simp_all add: digit_def)
  ultimately show ?thesis
    unfolding field_at_def type_char_def by (simp add: expect_def)
qed

lemma skip_name:
  assumes "list_all word_char q" and "list_all digit a" and "b \<noteq> []" and "list_all digit b"
  shows "find_fields (q @ '':('' @ a @ CHR '','' # b @ CHR '')'' # r) =
    find_fields ('':('' @ a @ CHR '','' # b @ CHR '')'' # r)"
  using assms(1)
proof (induction q)
  case (Cons c q)
  have "field_at ((c # q) @ '':('' @ a @ CHR '','' # b @ CHR '')'' # r) = None"
    by (rule field_at_pair [OF _ Cons.prems assms(2-4)]) simp
  then show ?case
    using Cons by (simp add: find_fields.simps [of "c # q @ _"])
qed simp

lemma skip_pair_field:
  assumes "pair_field f"
  shows "find_fields (field_text f @ r) = find_fields r"
proof -
  obtain name ty off sz where f: "f = (name, ty, off, sz)" by (cases f)
  with assms obtain a b where ty: "ty = CHR ''('' # a @ CHR '','' # b @ '')''"
    and ab: "list_all digit a" "b \<noteq> []" "list_all digit b" and wf: "list_all word_char name" "0 \<le> off" "0 \<le> sz"
    by auto
  have sep: "\<not> word_char (CHR ''('')" "\<not> word_char (CHR '')'')" "\<not> word_char (CHR '','')" by code_simp+
  have dec: "list_all word_char (fmt_dec off)" "list_all word_char (fmt_dec sz)"
    using wf(2,3) by (simp_all add: digits_word digits_of_dec)
  let ?r2 = "CHR '','' # fmt_dec off @ CHR '','' # fmt_dec sz @ CHR '';'' # r"
  have "field_text f @ r = name @ '':('' @ a @ CHR '','' # b @ CHR '')'' # ?r2"
    by (simp add: f ty)
  then have "find_fields (field_text f @ r) = find_fields ('':('' @ a @ CHR '','' # b @ CHR '')'' # ?r2)"
    using skip_name [OF wf(1) ab] by (simp only:)
  moreover have "find_fields ('':('' @ a @ CHR '','' # b @ CHR '')'' # ?r2) = find_fields ?r2"
    using digits_word [OF ab(1)] digits_word [OF ab(3)] by (simp add: skip_char skip_word separators sep)
  moreover have "find_fields ?r2 = find_fields r"
    using dec by (simp add: skip_char skip_word separators sep)
  ultimately show ?thesis by (simp only:)
qed

lemma pair_not_plain: "pair_field f \<Longrightarrow> \<not> wf_field f"
  by (cases f) (auto simp: type_char_def)

lemma find_fields_mixed:
  "list_all (\<lambda>f. wf_field f \<or> pair_field f) fs \<Longrightarrow>
   find_fields (concat (map field_text fs) @ '';'') = filter wf_field fs"
proof (induction fs)
  case Nil
  then show ?case using find_fields_text [of "[]"] by simp
next
  case (Cons f fs)
  show ?case
  proof (cases "wf_field f")
    case True
    then show ?thesis
      using Cons by (simp add: find_fields.simps [of "field_text f @ _"] field_at_text)
  next
    case False
    then have "pair_field f" using Cons.prems by simp
    from skip_pair_field [OF this] show ?thesis using Cons False by simp
  qed
qed

lemma py_in_prefix: "py_in p s \<Longrightarrow> py_in p (q @ s)"
  by (induction q) simp_all

lemma has_struct_prefix: "has_struct s \<Longrightarrow> has_struct (q @ s)"
proof (induction q)
  case (Cons a q)
  then have "has_struct (q @ s)" by simp
  then show ?case by (cases "q @ s" rule: has_struct.cases) simp_all
qed simp

lemma after_colon_text: "CHR '':'' \<notin> set p \<Longrightarrow> after_text '':'' (p @ CHR '':'' # s) = s"
  by (induction p) (auto simp: py_startswith_def)

lemma struct_head_text:
  assumes "num \<noteq> []" and "list_all digit num" and "0 \<le> n" and "r = [] \<or> \<not> digit (hd r)"
  shows "struct_head (''T'' @ num @ ''=s'' @ fmt_dec n @ r) = Some (n, r)"
proof -
  have "expect (CHR ''('') (num @ q) = None" for q
    using assms(1,2) by (cases num) (auto simp: expect_def digit_def)
  moreover have "run_of digit (num @ CHR ''='' # q) = Some (num, CHR ''='' # q)" for q
    using assms(1,2) separators by (intro run_of_append) simp_all
  moreover have "run_of digit (CHR ''s'' # q) = None" for q by (simp add: run_of_def separators)
  moreover have "run_of digit (fmt_dec n @ r) = Some (fmt_dec n, r)"
    using assms(3,4) digits_of_dec by (intro run_of_append) simp_all
  ultimately show ?thesis by (simp add: struct_head_def type_number_def)
qed

text \<open>How a field is kept: its type is the name a number stands for.\<close>

definition field_of :: "(string \<times> string) list \<Rightarrow> string \<times> string \<times> int \<times> int \<Rightarrow> struct_field" where
  "field_of tm f = (case f of (name, ty, off, sz) \<Rightarrow>
     \<lparr>sf_name = name, sf_type_name = simplify_type ty tm, sf_offset_bits = off, sf_size_bits = sz\<rparr>)"

lemma struct_of_text:
  assumes "CHR '':'' \<notin> set name" and "num \<noteq> []" and "list_all digit num" and "0 \<le> n"
    and "list_all (\<lambda>f. wf_field f \<or> pair_field f) fs"
  shows "struct_of (struct_text name num n fs) tm =
    Some \<lparr>st_name = strip_underscore name, st_size_bytes = n, st_fields = map (field_of tm) (filter wf_field fs)\<rparr>"
proof -
  let ?fs = "concat (map field_text fs) @ '';''"
  let ?r = "''T'' @ num @ ''=s'' @ fmt_dec n @ ?fs"
  have t: "struct_text name num n fs = name @ CHR '':'' # ?r" by (simp add: struct_text_def)
  have "?fs = [] \<or> \<not> digit (hd ?fs)"
    using assms(5) separators by (cases fs) (auto simp: hd_append)
  then have "struct_head ?r = Some (n, ?fs)" by (rule struct_head_text [OF assms(2-4)])
  moreover have "py_in '':T'' (name @ CHR '':'' # ?r)"
    by (rule py_in_prefix) (simp add: py_startswith_def)
  moreover have "after_text '':'' (name @ CHR '':'' # ?r) = ?r" by (rule after_colon_text [OF assms(1)])
  moreover have "before_colon (name @ CHR '':'' # ?r) = name" by (simp add: before_colon_def before_char_append [OF assms(1)])
  ultimately show ?thesis
    using find_fields_mixed [OF assms(5)] unfolding struct_of_def t
    by (simp del: append_Cons append_assoc append_Nil add: field_of_def cong: map_cong)
qed

lemma struct_text_has: "0 \<le> n \<Longrightarrow> has_struct (struct_text name num n fs)"
proof -
  assume n: "0 \<le> n"
  obtain d ds where d: "fmt_dec n = d # ds" by (cases "fmt_dec n") simp_all
  then have "digit d" using digits_of_dec [OF n] by simp
  then have "has_struct (''=s'' @ fmt_dec n @ concat (map field_text fs) @ '';'')" by (simp add: d)
  then have "has_struct ((name @ '':T'' @ num) @ ''=s'' @ fmt_dec n @ concat (map field_text fs) @ '';'')"
    by (rule has_struct_prefix)
  then show ?thesis by (simp add: struct_text_def)
qed

text \<open>
  C11. A structure of the debug information is stored with its fields, as far as they are read:
  its row, a plain type number and fields whose types are plain or a pair such as \<open>(0,1)\<close>, adds
  the structure under its name without the leading underscore, with its size and, in order, the
  fields with a plain type (no comma or semicolon in it), their offsets and sizes, each field's
  type shown by the name known for its number; the structure's own number now stands for its
  name, and no other structure changes. The fields with a pair for a type, which the
  documentation of \<open>_parse_struct_stab\<close> gives as its third example, are all lost: the field
  pattern does not match them.
\<close>

theorem structure_stored:
  assumes "CHR '':'' \<notin> set name" and "num \<noteq> []" and "list_all digit num" and "0 \<le> n"
    and "list_all (\<lambda>f. wf_field f \<or> pair_field f) fs" and "filter wf_field fs \<noteq> []"
    and "nm = strip_underscore name"
    and "s' = stab_entry (''LSYM'', desc, val, struct_text name num n fs) s"
  shows "map_of (struct_types (tab s')) nm =
      Some \<lparr>st_name = nm, st_size_bytes = n,
        st_fields = map (field_of (type_defs s')) (filter wf_field fs)\<rparr> \<and>
    map_of (type_defs s') num = Some nm \<and>
    (\<forall>k. k \<noteq> nm \<longrightarrow> map_of (struct_types (tab s')) k = map_of (struct_types (tab s)) k)"
proof -
  let ?x = "struct_text name num n fs" and ?r = "num @ ''=s'' @ fmt_dec n @ concat (map field_text fs) @ '';''"
  have x: "?x = name @ CHR '':'' # CHR ''T'' # ?r" by (simp add: struct_text_def)
  then have T: "py_in '':T'' ?x" and ne: "?x \<noteq> []"
    by (simp_all add: py_in_prefix py_startswith_def)
  have "after_text '':'' ?x = CHR ''T'' # ?r" unfolding x by (rule after_colon_text [OF assms(1)])
  moreover have "run_of digit ?r = Some (num, ''=s'' @ fmt_dec n @ concat (map field_text fs) @ '';'')"
    using assms(2,3) separators by (intro run_of_append) simp_all
  moreover have "expect (CHR ''('') ?r = None"
    using assms(2,3) by (cases num) (auto simp: expect_def digit_def)
  ultimately obtain q where q: "type_number (after_text '':'' ?x) = Some (num, q)" by (simp add: type_number_def)
  have "before_colon ?x = name" unfolding x by (simp add: before_colon_def before_char_append [OF assms(1)])
  then have "type_row ?x s = upd_tab (parse_struct_stab ?x (AList.update num nm (type_defs s)))
      (s\<lparr>type_defs := AList.update num nm (type_defs s)\<rparr>)"
    using T ne q struct_text_has [OF assms(4)] by (simp add: type_row_def assms(7))
  moreover have "s' = type_row ?x s" using T by (simp add: assms(8) stab_entry_def local_row_def)
  ultimately show ?thesis
    using struct_of_text [OF assms(1-5)] assms(6)
    by (simp add: upd_tab_def parse_struct_stab_def assms(7) update_conv')
qed

text \<open>Three fields, the second with the type \<open>(0,1)\<close>: it is missing from what is stored.\<close>

theorem structure_stored_witness:
  "map_of (struct_types (tab (stab_entry
      (''LSYM'', 0, 0, ''_Entity:T581=s16pos:579,0,64;id:(0,1),64,32;hp:1,96,32;;'')
      \<lparr>cur_file = '''', type_defs = [(''579'', ''Vec2'')], cur_func = '''', tab = empty_table\<rparr>))) ''Entity'' =
    Some \<lparr>st_name = ''Entity'', st_size_bytes = 16, st_fields =
      [\<lparr>sf_name = ''pos'', sf_type_name = ''Vec2'', sf_offset_bits = 0, sf_size_bits = 64\<rparr>,
       \<lparr>sf_name = ''hp'', sf_type_name = ''int'', sf_offset_bits = 96, sf_size_bits = 32\<rparr>]\<rparr>"
proof -
  let ?s = "\<lparr>cur_file = '''', type_defs = [(''579'', ''Vec2'')], cur_func = '''', tab = empty_table\<rparr>"
  let ?fs = "[(''pos'', ''579'', 0, 64), (''id'', ''(0,1)'', 64, 32), (''hp'', ''1'', 96, 32)]
    :: (string \<times> string \<times> int \<times> int) list"
  let ?s' = "stab_entry (''LSYM'', 0, 0, struct_text ''_Entity'' ''581'' 16 ?fs) ?s"
  have wf: "map wf_field ?fs = [True, False, True]" by code_simp
  have "list_all word_char ''id''" "\<not> digit (hd ''id'')" "list_all digit ''0''" "list_all digit ''1''"
    by code_simp+
  moreover have "''(0,1)'' = CHR ''('' # ''0'' @ CHR '','' # ''1'' @ '')''" by simp
  ultimately have "pair_field (''id'', ''(0,1)'', 64, 32)"
    unfolding pair_field.simps by (intro conjI exI [of _ "''0''"] exI [of _ "''1''"]) simp_all
  then have ok: "list_all (\<lambda>f. wf_field f \<or> pair_field f) ?fs" using wf by simp
  have fs: "filter wf_field ?fs = [(''pos'', ''579'', 0, 64), (''hp'', ''1'', 96, 32)]" using wf by simp
  have ok': "list_all digit ''581''" "CHR '':'' \<notin> set ''_Entity''" by code_simp+
  have row: "struct_text ''_Entity'' ''581'' 16 ?fs = ''_Entity:T581=s16pos:579,0,64;id:(0,1),64,32;hp:1,96,32;;''"
    by code_simp
  have "map_of (struct_types (tab ?s')) ''Entity'' =
      Some \<lparr>st_name = ''Entity'', st_size_bytes = 16,
        st_fields = map (field_of (type_defs ?s')) (filter wf_field ?fs)\<rparr>"
    using structure_stored [OF ok'(2) _ ok'(1) _ ok, of 16 "''Entity''" "?s'" 0 0 ?s] fs
    by (simp add: strip_underscore_def py_startswith_def)
  moreover have "map (field_of (type_defs ?s')) (filter wf_field ?fs) =
      [\<lparr>sf_name = ''pos'', sf_type_name = ''Vec2'', sf_offset_bits = 0, sf_size_bits = 64\<rparr>,
       \<lparr>sf_name = ''hp'', sf_type_name = ''int'', sf_offset_bits = 96, sf_size_bits = 32\<rparr>]"
    unfolding fs by code_simp
  ultimately show ?thesis by (simp add: row)
qed

section \<open>Breakpoints\<close>



end
