(* ===== verification/Protocol_Parse.thy ===== *)
theory Protocol_Parse
  imports Pystr
begin

text \<open>
  The message parser of the bridge protocol (\<open>amiga_devbench/protocol.py\<close>,
  \<open>parse_message\<close> and its helpers): one definition per branch of its chain of
  \<open>if msg_type == ...\<close>, in the order of the source. A branch takes the parts of the line
  (cut at \<open>|\<close>) and returns what the Python returns: \<open>Inr None\<close> for \<open>return None\<close>,
  \<open>Inr (Some d)\<close> for a dictionary, \<open>Inl e\<close> when an expression raises. \<open>now\<close> is the
  clock reading the messages are stamped with. Logging is not modelled.
\<close>

section \<open>Field access\<close>

text \<open>\<open>_int\<close>: decimal, 0 where Python's \<open>int\<close> raises.\<close>

definition int_or_zero :: "string \<Rightarrow> int" where
  "int_or_zero s = (case py_int_opt 10 s of None \<Rightarrow> 0 | Some i \<Rightarrow> i)"

text \<open>\<open>parts[i] if len(parts) > i else d\<close>, and the same under \<open>_int\<close>.\<close>

definition fld :: "string list \<Rightarrow> nat \<Rightarrow> string \<Rightarrow> string" where
  "fld ps i d = (if i < length ps then ps ! i else d)"

definition ifld :: "string list \<Rightarrow> nat \<Rightarrow> int \<Rightarrow> int" where
  "ifld ps i d = (if i < length ps then int_or_zero (ps ! i) else d)"

text \<open>\<open>len(parts) > i and parts[i]\<close>, and \<open>"|".join(parts[i:])\<close>.\<close>

definition present :: "string list \<Rightarrow> nat \<Rightarrow> bool" where
  "present ps i = (i < length ps \<and> ps ! i \<noteq> [])"

definition rest :: "string list \<Rightarrow> nat \<Rightarrow> string" where
  "rest ps i = py_join ''|'' (drop i ps)"

definition vstrs :: "string list \<Rightarrow> pyval" where
  "vstrs ss = VList (map VStr ss)"

definition vints :: "int list \<Rightarrow> pyval" where
  "vints is = VList (map VInt is)"

text \<open>\<open>[s.strip() for s in x.split(",") if s.strip()]\<close>.\<close>

definition comma_list :: "string \<Rightarrow> string list" where
  "comma_list x = filter (\<lambda>s. s \<noteq> []) (map py_strip (split_char (CHR '','') x))"

text \<open>\<open>[int(x, 16) for x in s.split(":")]\<close>.\<close>

definition hex_list :: "string \<Rightarrow> int list res" where
  "hex_list s = res_map (py_int 16) (split_char (CHR '':'') s)"

text \<open>\<open>int(parts[i], 16) if len(parts) > i else 0\<close>.\<close>

definition hexfld :: "string list \<Rightarrow> nat \<Rightarrow> int res" where
  "hexfld ps i = (if i < length ps then py_int 16 (ps ! i) else Inr 0)"

type_synonym parsed = "pydict option res"

abbreviation msg :: "pydict \<Rightarrow> parsed" where
  "msg d \<equiv> Inr (Some d)"

section \<open>Log, memory, variables, commands\<close>

definition parse_LOG :: "string \<Rightarrow> string list \<Rightarrow> parsed" where
  "parse_LOG now ps =
     (if length ps < 4 then Inr None
      else msg [(''type'', VStr ''LOG''),
                (''level'', VStr (ps ! 1)),
                (''tick'', VInt (int_or_zero (ps ! 2))),
                (''message'', VStr (rest ps 3)),
                (''timestamp'', VStr now)])"

definition parse_MEM :: "string list \<Rightarrow> parsed" where
  "parse_MEM ps =
     (if length ps < 4 then Inr None
      else msg [(''type'', VStr ''MEM''),
                (''address'', VStr (ps ! 1)),
                (''size'', VInt (int_or_zero (ps ! 2))),
                (''hexData'', VStr (ps ! 3))])"

definition parse_VAR :: "string list \<Rightarrow> parsed" where
  "parse_VAR ps =
     (if length ps < 4 then Inr None
      else msg [(''type'', VStr ''VAR''),
                (''name'', VStr (ps ! 1)),
                (''varType'', VStr (ps ! 2)),
                (''value'', VStr (rest ps 3))])"

definition parse_HB :: "string \<Rightarrow> string list \<Rightarrow> parsed" where
  "parse_HB now ps =
     (if length ps < 4 then Inr None
      else msg [(''type'', VStr ''HB''),
                (''tick'', VInt (int_or_zero (ps ! 1))),
                (''freeChip'', VInt (int_or_zero (ps ! 2))),
                (''freeFast'', VInt (int_or_zero (ps ! 3))),
                (''timestamp'', VStr now)])"

definition parse_CMD :: "string list \<Rightarrow> parsed" where
  "parse_CMD ps =
     (if length ps < 4 then Inr None
      else msg [(''type'', VStr ''CMD''),
                (''id'', VInt (int_or_zero (ps ! 1))),
                (''status'', VStr (ps ! 2)),
                (''data'', VStr (rest ps 3))])"

definition parse_READY :: "string list \<Rightarrow> parsed" where
  "parse_READY ps =
     msg [(''type'', VStr ''READY''), (''version'', VStr (fld ps 1 ''unknown''))]"

section \<open>Lists of clients, tasks, libraries, directories, files\<close>

definition parse_CLIENTS :: "string list \<Rightarrow> parsed" where
  "parse_CLIENTS ps =
     msg [(''type'', VStr ''CLIENTS''),
          (''count'', VInt (ifld ps 1 0)),
          (''names'', vstrs (if present ps 2 then comma_list (ps ! 2) else []))]"

text \<open>One entry of \<open>_parse_task_entries\<close>, already cut at \<open>),\<close>.\<close>

definition task_entry :: "string \<Rightarrow> pyval option" where
  "task_entry e0 =
     (let entry = rstrip_char (CHR '')'') (py_strip e0) in
      if CHR ''('' \<in> set entry then
        (let name = before_char (CHR ''('') entry;
             info_parts = split_char (CHR '','') (after_char (CHR ''('') entry)
         in Some (VDict
              [(''name'', VStr name),
               (''priority'', VInt (int_or_zero (hd info_parts))),
               (''state'', VStr (if length info_parts > 1 then py_strip (info_parts ! 1) else ''?'')),
               (''type'', VStr (if length info_parts > 2 then py_strip (info_parts ! 2) else ''task''))]))
      else if entry \<noteq> [] then
        Some (VDict [(''name'', VStr entry), (''priority'', VInt 0), (''state'', VStr ''?''),
                     (''type'', VStr ''task'')])
      else None)"

definition parse_task_entries :: "string \<Rightarrow> pyval list" where
  "parse_task_entries raw =
     List.map_filter task_entry (split_pair (CHR '')'') (CHR '','') raw)"

definition parse_TASKS :: "string list \<Rightarrow> parsed" where
  "parse_TASKS ps =
     msg [(''type'', VStr ''TASKS''),
          (''count'', VInt (ifld ps 1 0)),
          (''tasks'', VList (if present ps 2 then parse_task_entries (rest ps 2) else []))]"

text \<open>An entry \<open>name(version)\<close> of the library and device lists.\<close>

definition versioned_entry :: "string \<Rightarrow> pyval option" where
  "versioned_entry e0 =
     (let entry = py_strip e0 in
      if CHR ''('' \<in> set entry then
        Some (VDict [(''name'', VStr (before_char (CHR ''('') entry)),
                     (''version'', VStr (rstrip_char (CHR '')'') (after_char (CHR ''('') entry)))])
      else if entry \<noteq> [] then Some (VDict [(''name'', VStr entry), (''version'', VStr [])])
      else None)"

definition parse_LIBS :: "string list \<Rightarrow> parsed" where
  "parse_LIBS ps =
     msg [(''type'', VStr ''LIBS''),
          (''count'', VInt (ifld ps 1 0)),
          (''libs'', VList (if present ps 2
             then List.map_filter versioned_entry (split_char (CHR '','') (rest ps 2)) else []))]"

definition dir_entry :: "string \<Rightarrow> pyval option" where
  "dir_entry e0 =
     (let entry = rstrip_char (CHR '')'') (py_strip e0) in
      if CHR ''('' \<in> set entry then
        (let name = before_char (CHR ''('') entry;
             info_parts = split_char (CHR '','') (after_char (CHR ''('') entry);
             etype = (if length info_parts > 1 then py_strip (info_parts ! 1) else ''F'')
         in Some (VDict
              [(''name'', VStr name),
               (''size'', VInt (int_or_zero (hd info_parts))),
               (''type'', VStr (if etype = ''D'' then ''dir'' else ''file''))]))
      else if entry \<noteq> [] then
        Some (VDict [(''name'', VStr entry), (''size'', VInt 0), (''type'', VStr ''file'')])
      else None)"

definition parse_DIR :: "string list \<Rightarrow> parsed" where
  "parse_DIR ps =
     msg [(''type'', VStr ''DIR''),
          (''path'', VStr (fld ps 1 [])),
          (''count'', VInt (ifld ps 2 0)),
          (''entries'', VList (if present ps 3
             then List.map_filter dir_entry (split_pair (CHR '')'') (CHR '','') (rest ps 3))
             else []))]"

definition parse_FILE :: "string list \<Rightarrow> parsed" where
  "parse_FILE ps =
     msg [(''type'', VStr ''FILE''),
          (''path'', VStr (fld ps 1 [])),
          (''size'', VInt (ifld ps 2 0)),
          (''offset'', VInt (ifld ps 3 0)),
          (''hexData'', VStr (fld ps 4 []))]"

definition parse_FILEINFO :: "string list \<Rightarrow> parsed" where
  "parse_FILEINFO ps =
     msg [(''type'', VStr ''FILEINFO''),
          (''path'', VStr (fld ps 1 [])),
          (''size'', VInt (ifld ps 2 0)),
          (''fileType'', VStr (fld ps 3 [])),
          (''protection'', VStr (fld ps 4 [])),
          (''comment'', VStr (fld ps 5 []))]"

definition parse_PROC :: "string list \<Rightarrow> parsed" where
  "parse_PROC ps =
     msg [(''type'', VStr ''PROC''),
          (''id'', VInt (ifld ps 1 0)),
          (''status'', VStr (fld ps 2 [])),
          (''output'', VStr (if length ps > 3 then rest ps 3 else []))]"

definition parse_CLOG :: "string \<Rightarrow> string list \<Rightarrow> parsed" where
  "parse_CLOG now ps =
     (if length ps < 5 then Inr None
      else msg [(''type'', VStr ''CLOG''),
                (''client'', VStr (ps ! 1)),
                (''level'', VStr (ps ! 2)),
                (''tick'', VInt (int_or_zero (ps ! 3))),
                (''message'', VStr (rest ps 4)),
                (''timestamp'', VStr now)])"

definition parse_CVAR :: "string list \<Rightarrow> parsed" where
  "parse_CVAR ps =
     (if length ps < 5 then Inr None
      else msg [(''type'', VStr ''CVAR''),
                (''client'', VStr (ps ! 1)),
                (''name'', VStr (ps ! 2)),
                (''varType'', VStr (ps ! 3)),
                (''value'', VStr (rest ps 4))])"

definition volume_entry :: "string \<Rightarrow> pyval option" where
  "volume_entry e0 =
     (let entry = py_strip e0 in
      if entry = [] then None
      else (let vp = split_char (CHR ''~'') entry in
        Some (VDict [(''name'', VStr (fld vp 0 [])),
                     (''handler'', VStr (fld vp 1 [])),
                     (''state'', VStr (fld vp 2 [])),
                     (''usedKB'', VInt (ifld vp 3 0)),
                     (''freeKB'', VInt (ifld vp 4 0))])))"

definition parse_VOLUMES :: "string list \<Rightarrow> parsed" where
  "parse_VOLUMES ps =
     msg [(''type'', VStr ''VOLUMES''),
          (''count'', VInt (ifld ps 1 0)),
          (''volumes'', VList (if present ps 2
             then List.map_filter volume_entry (split_char (CHR '','') (rest ps 2)) else []))]"

definition parse_PONG :: "string \<Rightarrow> string list \<Rightarrow> parsed" where
  "parse_PONG now ps =
     msg [(''type'', VStr ''PONG''),
          (''clientCount'', VInt (ifld ps 1 0)),
          (''freeChip'', VInt (ifld ps 2 0)),
          (''freeFast'', VInt (ifld ps 3 0)),
          (''timestamp'', VStr now)]"

definition parse_OK :: "string list \<Rightarrow> parsed" where
  "parse_OK ps =
     msg [(''type'', VStr ''OK''),
          (''context'', VStr (fld ps 1 [])),
          (''message'', VStr (if length ps > 2 then rest ps 2 else []))]"

definition parse_ERR :: "string list \<Rightarrow> parsed" where
  "parse_ERR ps =
     msg [(''type'', VStr ''ERR''),
          (''context'', VStr (fld ps 1 [])),
          (''message'', VStr (if length ps > 2 then rest ps 2 else []))]"

section \<open>Client registrations\<close>

definition hook_entry :: "string \<Rightarrow> pyval option" where
  "hook_entry e0 =
     (let entry = py_strip e0 in
      if CHR '':'' \<in> set entry then
        Some (VDict [(''name'', VStr (before_char (CHR '':'') entry)),
                     (''description'', VStr (after_char (CHR '':'') entry))])
      else if entry \<noteq> [] then Some (VDict [(''name'', VStr entry), (''description'', VStr [])])
      else None)"

definition parse_HOOKS :: "string list \<Rightarrow> parsed" where
  "parse_HOOKS ps =
     msg [(''type'', VStr ''HOOKS''),
          (''client'', VStr (fld ps 1 [])),
          (''count'', VInt (ifld ps 2 0)),
          (''hooks'', VList (if present ps 3
             then List.map_filter hook_entry (split_char (CHR '','') (ps ! 3)) else []))]"

definition memreg_entry :: "string \<Rightarrow> pyval option" where
  "memreg_entry e0 =
     (let entry = py_strip e0; mparts = split_max (CHR '':'') 3 entry in
      if length mparts \<ge> 3 then
        Some (VDict [(''name'', VStr (mparts ! 0)),
                     (''address'', VStr (mparts ! 1)),
                     (''size'', VInt (int_or_zero (mparts ! 2))),
                     (''description'', VStr (fld mparts 3 []))])
      else if entry \<noteq> [] then
        Some (VDict [(''name'', VStr entry), (''address'', VStr ''0''), (''size'', VInt 0),
                     (''description'', VStr [])])
      else None)"

definition parse_MEMREGS :: "string list \<Rightarrow> parsed" where
  "parse_MEMREGS ps =
     msg [(''type'', VStr ''MEMREGS''),
          (''client'', VStr (fld ps 1 [])),
          (''count'', VInt (ifld ps 2 0)),
          (''memregs'', VList (if present ps 3
             then List.map_filter memreg_entry (split_char (CHR '','') (ps ! 3)) else []))]"

text \<open>
  The inner loop of CINFO: commas outside parentheses cut. The second argument is the text
  since the last cut (\<open>raw[start:ci]\<close>), reversed.
\<close>

fun paren_split :: "int \<Rightarrow> string \<Rightarrow> string \<Rightarrow> string list" where
  "paren_split depth cur [] = (if cur = [] then [] else [py_strip (rev cur)])"
| "paren_split depth cur (ch # cs) =
     (if ch = CHR ''('' then paren_split (depth + 1) (ch # cur) cs
      else if ch = CHR '')'' then paren_split (depth - 1) (ch # cur) cs
      else if ch = CHR '','' \<and> depth = 0 then py_strip (rev cur) # paren_split depth [] cs
      else paren_split depth (ch # cur) cs)"

definition cinfo_section :: "pydict \<Rightarrow> string \<Rightarrow> pydict" where
  "cinfo_section info section =
     (if py_startswith section ''vars:'' then
        dict_set info ''vars'' (vstrs (comma_list (drop 5 section)))
      else if py_startswith section ''hooks:'' then
        dict_set info ''hooks'' (vstrs (comma_list (drop 6 section)))
      else if py_startswith section ''memregs:'' then
        dict_set info ''memregs''
          (vstrs (filter (\<lambda>e. e \<noteq> []) (paren_split 0 [] (drop 8 section))))
      else info)"

definition parse_CINFO :: "string list \<Rightarrow> parsed" where
  "parse_CINFO ps =
     msg (foldl cinfo_section
       [(''type'', VStr ''CINFO''),
        (''client'', VStr (fld ps 1 [])),
        (''id'', VInt (ifld ps 2 0)),
        (''msgCount'', VInt (ifld ps 3 0))] (drop 4 ps))"

definition parse_DEVICES :: "string list \<Rightarrow> parsed" where
  "parse_DEVICES ps =
     msg [(''type'', VStr ''DEVICES''),
          (''count'', VInt (ifld ps 1 0)),
          (''devices'', VList (if present ps 2
             then List.map_filter versioned_entry (split_char (CHR '','') (rest ps 2)) else []))]"

section \<open>Screen, palette, copper, sprites\<close>

definition parse_SCRINFO :: "string list \<Rightarrow> parsed" where
  "parse_SCRINFO ps =
     (if length ps < 5 then Inr None
      else msg [(''type'', VStr ''SCRINFO''),
                (''width'', VInt (int_or_zero (ps ! 1))),
                (''height'', VInt (int_or_zero (ps ! 2))),
                (''depth'', VInt (int_or_zero (ps ! 3))),
                (''palette'', VStr (ps ! 4))])"

definition parse_SCRDATA :: "string list \<Rightarrow> parsed" where
  "parse_SCRDATA ps =
     (if length ps < 4 then Inr None
      else msg [(''type'', VStr ''SCRDATA''),
                (''row'', VInt (int_or_zero (ps ! 1))),
                (''plane'', VInt (int_or_zero (ps ! 2))),
                (''hexData'', VStr (ps ! 3))])"

definition parse_SCRRGB :: "string list \<Rightarrow> parsed" where
  "parse_SCRRGB ps =
     (if length ps < 3 then Inr None
      else msg [(''type'', VStr ''SCRRGB''),
                (''row'', VInt (int_or_zero (ps ! 1))),
                (''hexData'', VStr (ps ! 2))])"

definition parse_SCRRLE :: "string list \<Rightarrow> parsed" where
  "parse_SCRRLE ps =
     (if length ps < 3 then Inr None
      else msg [(''type'', VStr ''SCRRLE''),
                (''row'', VInt (int_or_zero (ps ! 1))),
                (''hexData'', VStr (ps ! 2))])"

definition parse_PALETTE :: "string list \<Rightarrow> parsed" where
  "parse_PALETTE ps =
     (if length ps < 3 then Inr None
      else msg [(''type'', VStr ''PALETTE''),
                (''depth'', VInt (int_or_zero (ps ! 1))),
                (''palette'', VStr (ps ! 2))])"

definition parse_COPPER :: "string list \<Rightarrow> parsed" where
  "parse_COPPER ps =
     (if length ps < 4 then Inr None
      else msg [(''type'', VStr ''COPPER''),
                (''address'', VStr (ps ! 1)),
                (''count'', VInt (int_or_zero (ps ! 2))),
                (''hexData'', VStr (ps ! 3))])"

definition parse_SPRITE :: "string list \<Rightarrow> parsed" where
  "parse_SPRITE ps =
     (if length ps < 7 then Inr None
      else msg [(''type'', VStr ''SPRITE''),
                (''id'', VInt (int_or_zero (ps ! 1))),
                (''vstart'', VInt (int_or_zero (ps ! 2))),
                (''vstop'', VInt (int_or_zero (ps ! 3))),
                (''hstart'', VInt (int_or_zero (ps ! 4))),
                (''attached'', VBool (int_or_zero (ps ! 5) \<noteq> 0)),
                (''hexData'', VStr (ps ! 6))])"

section \<open>Debugger\<close>

definition parse_DBGSTOP :: "string \<Rightarrow> string list \<Rightarrow> parsed" where
  "parse_DBGSTOP now ps =
     (let warnings = filter (\<lambda>p. py_startswith p ''WARN:'') (drop 5 ps) in
      res_bind (hexfld ps 2) (\<lambda>pc.
      res_bind (hexfld ps 3) (\<lambda>sr.
      res_bind (if length ps > 4 then hex_list (ps ! 4) else Inr []) (\<lambda>dregs.
      res_bind (if length ps > 5 \<and> \<not> py_startswith (ps ! 5) ''WARN:''
                then hex_list (ps ! 5) else Inr []) (\<lambda>aregs.
        msg [(''type'', VStr ''DBGSTOP''),
             (''reason'', VStr (fld ps 1 ''unknown'')),
             (''pc'', VInt pc),
             (''sr'', VInt sr),
             (''dataRegs'', vints dregs),
             (''addrRegs'', vints aregs),
             (''warnings'', vstrs (map (drop 5) warnings)),
             (''timestamp'', VStr now)])))))"

definition parse_DBGRUNNING :: "string \<Rightarrow> string list \<Rightarrow> parsed" where
  "parse_DBGRUNNING now ps = msg [(''type'', VStr ''DBGRUNNING''), (''timestamp'', VStr now)]"

definition parse_DBGDETACHED :: "string \<Rightarrow> string list \<Rightarrow> parsed" where
  "parse_DBGDETACHED now ps = msg [(''type'', VStr ''DBGDETACHED''), (''timestamp'', VStr now)]"

definition parse_BPINFO :: "string list \<Rightarrow> parsed" where
  "parse_BPINFO ps =
     res_bind (hexfld ps 2) (\<lambda>address.
     res_bind (hexfld ps 4) (\<lambda>orig.
       msg [(''type'', VStr ''BPINFO''),
            (''id'', VInt (ifld ps 1 0)),
            (''address'', VInt address),
            (''enabled'', VBool (if length ps > 3 then int_or_zero (ps ! 3) \<noteq> 0 else False)),
            (''originalWord'', VInt orig)]))"

definition bp_entry :: "string \<Rightarrow> pyval list res" where
  "bp_entry entry =
     (let fields = split_char (CHR '':'') entry in
      if length fields \<ge> 4 then
        res_bind (py_int 16 (fields ! 1)) (\<lambda>address.
        res_bind (py_int 16 (fields ! 3)) (\<lambda>orig.
          Inr [VDict [(''id'', VInt (int_or_zero (fields ! 0))),
                      (''address'', VInt address),
                      (''enabled'', VBool (int_or_zero (fields ! 2) \<noteq> 0)),
                      (''originalWord'', VInt orig)]]))
      else Inr [])"

definition parse_BPLIST :: "string list \<Rightarrow> parsed" where
  "parse_BPLIST ps =
     res_bind (if present ps 2 then res_map bp_entry (split_char (CHR '','') (ps ! 2)) else Inr [])
       (\<lambda>bps.
       msg [(''type'', VStr ''BPLIST''),
            (''count'', VInt (ifld ps 1 0)),
            (''breakpoints'', VList (concat bps))])"

definition parse_DBGREGS :: "string list \<Rightarrow> parsed" where
  "parse_DBGREGS ps =
     res_bind (if length ps > 1 then hex_list (ps ! 1) else Inr []) (\<lambda>dregs.
     res_bind (if length ps > 2 then hex_list (ps ! 2) else Inr []) (\<lambda>aregs.
     res_bind (hexfld ps 3) (\<lambda>pc.
     res_bind (hexfld ps 4) (\<lambda>sr.
       msg [(''type'', VStr ''DBGREGS''),
            (''dataRegs'', vints dregs),
            (''addrRegs'', vints aregs),
            (''pc'', VInt pc),
            (''sr'', VInt sr)]))))"

text \<open>A frame that is not hexadecimal is skipped (\<open>except ValueError: pass\<close>).\<close>

definition bt_frame :: "string \<Rightarrow> pyval option" where
  "bt_frame p = map_option (\<lambda>pc. VDict [(''pc'', VInt pc)]) (py_int_opt 16 p)"

definition parse_DBGBT :: "string list \<Rightarrow> parsed" where
  "parse_DBGBT ps =
     (let depth = ifld ps 1 0 in
      msg [(''type'', VStr ''DBGBT''),
           (''depth'', VInt depth),
           (''frames'', VList (List.map_filter bt_frame (drop 2 (take (nat (depth + 2)) ps))))])"

definition code_base_of :: "int \<Rightarrow> string \<Rightarrow> int" where
  "code_base_of base p =
     (if py_startswith p ''BASE:'' then
        (case py_int_opt 16 (drop 5 p) of None \<Rightarrow> base | Some b \<Rightarrow> b)
      else base)"

definition parse_DBGSTATE :: "string list \<Rightarrow> parsed" where
  "parse_DBGSTATE ps =
     (let code_base = foldl code_base_of 0 (drop 5 ps) in
      res_bind (hexfld ps 4) (\<lambda>pc.
        msg [(''type'', VStr ''DBGSTATE''),
             (''attached'', VBool (if length ps > 1 then int_or_zero (ps ! 1) \<noteq> 0 else False)),
             (''stopped'', VBool (if length ps > 2 then int_or_zero (ps ! 2) \<noteq> 0 else False)),
             (''targetName'', VStr (fld ps 3 [])),
             (''pc'', VInt pc),
             (''bpCount'', VInt (ifld ps 5 0)),
             (''codeBase'', VInt code_base)]))"

definition parse_CRASH :: "string \<Rightarrow> string list \<Rightarrow> parsed" where
  "parse_CRASH now ps =
     msg [(''type'', VStr ''CRASH''),
          (''alertNum'', VStr (fld ps 1 ''00000000'')),
          (''alertName'', VStr (fld ps 2 ''Unknown'')),
          (''dataRegs'', vstrs (if length ps > 3 then split_char (CHR '':'') (ps ! 3) else [])),
          (''addrRegs'', vstrs (if length ps > 4 then split_char (CHR '':'') (ps ! 4) else [])),
          (''sp'', VStr (fld ps 5 ''00000000'')),
          (''stackHex'', VStr (fld ps 6 [])),
          (''timestamp'', VStr now)]"

end
