(* ===== verification/Protocol_Query.thy ===== *)
theory Protocol_Query
  imports Protocol_Parse
begin

text \<open>
  The second half of \<open>parse_message\<close> (\<open>amiga_devbench/protocol.py\<close>), from RESOURCES on: the
  answers to the inspection, audio, intuition, font, pool, ARexx, process, file-system and
  system queries, and the test-harness messages; one definition per branch, as in
  Protocol_Parse.
\<close>

section \<open>Resources, performance, windows, memory\<close>

definition resource_entry :: "string \<Rightarrow> pyval option" where
  "resource_entry e0 =
     (let entry = py_strip e0 in
      if entry = [] then None
      else (let rp = split_max (CHR '':'') 4 entry in
        if length rp \<ge> 5 then
          Some (VDict [(''type'', VStr (rp ! 0)), (''tag'', VStr (rp ! 1)),
                       (''ptr'', VStr (rp ! 2)), (''size'', VInt (int_or_zero (rp ! 3))),
                       (''state'', VStr (rp ! 4))])
        else
          Some (VDict [(''type'', VStr ''?''), (''tag'', VStr entry), (''ptr'', VStr ''0''),
                       (''size'', VInt 0), (''state'', VStr ''?'')])))"

definition parse_RESOURCES :: "string list \<Rightarrow> parsed" where
  "parse_RESOURCES ps =
     (let raw_data = fld ps 2 [];
          res_parts = split_max (CHR ''|'') 1 raw_data;
          entries_raw = fld res_parts 1 []
      in msg [(''type'', VStr ''RESOURCES''),
              (''client'', VStr (fld ps 1 [])),
              (''count'', VInt (int_or_zero (hd res_parts))),
              (''resources'', VList (if entries_raw \<noteq> []
                 then List.map_filter resource_entry (split_char (CHR '','') entries_raw)
                 else []))])"

definition perf_entry :: "string \<Rightarrow> pyval option" where
  "perf_entry e0 =
     (let entry = py_strip e0 in
      if entry = [] then None
      else (let sp = split_max (CHR '':'') 4 entry in
        if length sp \<ge> 5 then
          Some (VDict [(''label'', VStr (sp ! 0)),
                       (''avg'', VInt (int_or_zero (sp ! 1))),
                       (''min'', VInt (int_or_zero (sp ! 2))),
                       (''max'', VInt (int_or_zero (sp ! 3))),
                       (''count'', VInt (int_or_zero (sp ! 4)))])
        else None))"

definition parse_PERF :: "string list \<Rightarrow> parsed" where
  "parse_PERF ps =
     (let raw_data = fld ps 2 [];
          perf_parts = split_char (CHR ''|'') raw_data
      in msg [(''type'', VStr ''PERF''),
              (''client'', VStr (fld ps 1 [])),
              (''frameAvg'', VInt (ifld perf_parts 0 0)),
              (''frameMin'', VInt (ifld perf_parts 1 0)),
              (''frameMax'', VInt (ifld perf_parts 2 0)),
              (''frameCount'', VInt (ifld perf_parts 3 0)),
              (''sections'', VList (if present perf_parts 4
                 then List.map_filter perf_entry (split_char (CHR '','') (perf_parts ! 4))
                 else []))])"

definition parse_WINLIST :: "string list \<Rightarrow> parsed" where
  "parse_WINLIST ps =
     msg [(''type'', VStr ''WINLIST''),
          (''windows'', vstrs (if length ps > 1 then drop 1 ps else []))]"

text \<open>A client debug dump is passed through as a log line.\<close>

definition parse_CDBG :: "string \<Rightarrow> string \<Rightarrow> string list \<Rightarrow> parsed" where
  "parse_CDBG now line ps =
     msg [(''type'', VStr ''LOG''),
          (''level'', VStr ''D''),
          (''tick'', VInt 0),
          (''message'', VStr line),
          (''timestamp'', VStr now)]"

definition memmap_entry :: "string \<Rightarrow> pyval option" where
  "memmap_entry e0 =
     (let entry = py_strip e0 in
      if entry = [] then None
      else (let rp = split_max (CHR '':'') 5 entry in
        if length rp \<ge> 6 then
          Some (VDict [(''name'', VStr (rp ! 0)), (''attr'', VStr (rp ! 1)),
                       (''lower'', VStr (rp ! 2)), (''upper'', VStr (rp ! 3)),
                       (''free'', VInt (int_or_zero (rp ! 4))),
                       (''largest'', VInt (int_or_zero (rp ! 5)))])
        else
          Some (VDict [(''name'', VStr entry), (''attr'', VStr []), (''lower'', VStr ''0''),
                       (''upper'', VStr ''0''), (''free'', VInt 0), (''largest'', VInt 0)])))"

definition parse_MEMMAP :: "string list \<Rightarrow> parsed" where
  "parse_MEMMAP ps =
     msg [(''type'', VStr ''MEMMAP''),
          (''count'', VInt (ifld ps 1 0)),
          (''regions'', VList (List.map_filter memmap_entry (drop 2 ps)))]"

definition parse_STACKINFO :: "string list \<Rightarrow> parsed" where
  "parse_STACKINFO ps =
     (if length ps < 8 then Inr None
      else msg [(''type'', VStr ''STACKINFO''),
                (''task'', VStr (ps ! 1)),
                (''spLower'', VStr (ps ! 2)),
                (''spUpper'', VStr (ps ! 3)),
                (''spReg'', VStr (ps ! 4)),
                (''size'', VInt (int_or_zero (ps ! 5))),
                (''used'', VInt (int_or_zero (ps ! 6))),
                (''free'', VInt (int_or_zero (ps ! 7)))])"

definition chipreg_entry :: "string \<Rightarrow> pyval option" where
  "chipreg_entry e0 =
     (let entry = py_strip e0 in
      if CHR '':'' \<in> set entry then
        (let fields = split_max (CHR '':'') 2 entry in
         if length fields = 3 then
           Some (VDict [(''name'', VStr (fields ! 0)), (''addr'', VStr (fields ! 1)),
                        (''value'', VStr (fields ! 2))])
         else None)
      else None)"

definition parse_CHIPREGS :: "string list \<Rightarrow> parsed" where
  "parse_CHIPREGS ps =
     msg [(''type'', VStr ''CHIPREGS''),
          (''count'', VInt (ifld ps 1 0)),
          (''registers'', VList (List.map_filter chipreg_entry (drop 2 ps)))]"

definition reg_assign :: "pydict \<Rightarrow> string \<Rightarrow> pydict" where
  "reg_assign registers e0 =
     (let entry = py_strip e0 in
      if CHR ''='' \<in> set entry
      then dict_set registers (before_char (CHR ''='') entry) (VStr (after_char (CHR ''='') entry))
      else registers)"

definition parse_REGS :: "string list \<Rightarrow> parsed" where
  "parse_REGS ps =
     msg [(''type'', VStr ''REGS''), (''registers'', VDict (foldl reg_assign [] (drop 1 ps)))]"

definition parse_SEARCH :: "string list \<Rightarrow> parsed" where
  "parse_SEARCH ps =
     msg [(''type'', VStr ''SEARCH''),
          (''count'', VInt (ifld ps 1 0)),
          (''addresses'', vstrs (if present ps 2 then comma_list (ps ! 2) else []))]"

definition parse_LIBINFO :: "string list \<Rightarrow> parsed" where
  "parse_LIBINFO ps =
     (if length ps < 10 then Inr None
      else msg [(''type'', VStr ''LIBINFO''),
                (''name'', VStr (ps ! 1)),
                (''version'', VInt (int_or_zero (ps ! 2))),
                (''revision'', VInt (int_or_zero (ps ! 3))),
                (''openCnt'', VInt (int_or_zero (ps ! 4))),
                (''flags'', VInt (int_or_zero (ps ! 5))),
                (''negSize'', VInt (int_or_zero (ps ! 6))),
                (''posSize'', VInt (int_or_zero (ps ! 7))),
                (''baseAddr'', VStr (ps ! 8)),
                (''idString'', VStr (rest ps 9))])"

definition parse_DEVINFO :: "string list \<Rightarrow> parsed" where
  "parse_DEVINFO ps =
     (if length ps < 10 then Inr None
      else msg [(''type'', VStr ''DEVINFO''),
                (''name'', VStr (ps ! 1)),
                (''version'', VInt (int_or_zero (ps ! 2))),
                (''revision'', VInt (int_or_zero (ps ! 3))),
                (''openCnt'', VInt (int_or_zero (ps ! 4))),
                (''flags'', VInt (int_or_zero (ps ! 5))),
                (''negSize'', VInt (int_or_zero (ps ! 6))),
                (''posSize'', VInt (int_or_zero (ps ! 7))),
                (''baseAddr'', VStr (ps ! 8)),
                (''idString'', VStr (rest ps 9))])"

section \<open>Function snooping, library vectors, audio\<close>

definition parse_SNOOP :: "string \<Rightarrow> string list \<Rightarrow> parsed" where
  "parse_SNOOP now ps =
     msg [(''type'', VStr ''SNOOP''),
          (''func'', VStr (fld ps 1 [])),
          (''caller'', VStr (fld ps 2 [])),
          (''arg1'', VStr (fld ps 3 [])),
          (''arg2'', VStr (fld ps 4 [])),
          (''result'', VStr (fld ps 5 [])),
          (''tick'', VInt (ifld ps 6 0)),
          (''timestamp'', VStr now)]"

definition parse_SNOOPSTATE :: "string list \<Rightarrow> parsed" where
  "parse_SNOOPSTATE ps =
     msg [(''type'', VStr ''SNOOPSTATE''),
          (''active'', VBool (if length ps > 1 then ps ! 1 = ''ON'' else False)),
          (''eventCount'', VInt (ifld ps 2 0)),
          (''dropCount'', VInt (ifld ps 3 0)),
          (''buffered'', VInt (ifld ps 4 0))]"

definition libfunc_entry :: "string \<Rightarrow> pyval option" where
  "libfunc_entry e0 =
     (let entry = py_strip e0 in
      if CHR '':'' \<in> set entry then
        Some (VDict [(''lvo'', VInt (int_or_zero (before_char (CHR '':'') entry))),
                     (''addr'', VStr (after_char (CHR '':'') entry))])
      else None)"

definition parse_LIBFUNCS :: "string list \<Rightarrow> parsed" where
  "parse_LIBFUNCS ps =
     msg [(''type'', VStr ''LIBFUNCS''),
          (''name'', VStr (fld ps 1 [])),
          (''totalFuncs'', VInt (ifld ps 2 0)),
          (''startIdx'', VInt (ifld ps 3 0)),
          (''count'', VInt (ifld ps 4 0)),
          (''funcs'', VList (if present ps 5
             then List.map_filter libfunc_entry (split_char (CHR '','') (ps ! 5)) else []))]"

definition parse_AUDIOCHANNELS :: "string list \<Rightarrow> parsed" where
  "parse_AUDIOCHANNELS ps =
     msg [(''type'', VStr ''AUDIOCHANNELS''),
          (''dmaEnabled'', VStr (fld ps 1 ''0'')),
          (''intReq'', VStr (fld ps 2 ''0'')),
          (''intEna'', VStr (fld ps 3 ''0''))]"

definition parse_AUDIOSAMPLE :: "string list \<Rightarrow> parsed" where
  "parse_AUDIOSAMPLE ps =
     msg [(''type'', VStr ''AUDIOSAMPLE''),
          (''address'', VStr (fld ps 1 ''0'')),
          (''size'', VInt (ifld ps 2 0)),
          (''hexData'', VStr (fld ps 3 []))]"

section \<open>Screens, windows, gadgets\<close>

definition screen_entry :: "string \<Rightarrow> pyval option" where
  "screen_entry entry =
     (let fields = split_char (CHR '':'') entry in
      if length fields \<ge> 7 then
        Some (VDict [(''title'', VStr (fields ! 0)),
                     (''width'', VInt (int_or_zero (fields ! 1))),
                     (''height'', VInt (int_or_zero (fields ! 2))),
                     (''depth'', VInt (int_or_zero (fields ! 3))),
                     (''viewModes'', VStr (fields ! 4)),
                     (''flags'', VStr (fields ! 5)),
                     (''addr'', VStr (fields ! 6))])
      else None)"

definition parse_SCREENS :: "string list \<Rightarrow> parsed" where
  "parse_SCREENS ps =
     msg [(''type'', VStr ''SCREENS''),
          (''count'', VInt (ifld ps 1 0)),
          (''screens'', VList (if present ps 2
             then List.map_filter screen_entry (split_char (CHR '','') (ps ! 2)) else []))]"

definition window_entry :: "string \<Rightarrow> pyval option" where
  "window_entry entry =
     (let fields = split_char (CHR '':'') entry in
      if length fields \<ge> 8 then
        Some (VDict [(''title'', VStr (fields ! 0)),
                     (''left'', VInt (int_or_zero (fields ! 1))),
                     (''top'', VInt (int_or_zero (fields ! 2))),
                     (''width'', VInt (int_or_zero (fields ! 3))),
                     (''height'', VInt (int_or_zero (fields ! 4))),
                     (''flags'', VStr (fields ! 5)),
                     (''idcmp'', VStr (fields ! 6)),
                     (''addr'', VStr (fields ! 7))])
      else None)"

definition parse_WINDOWS :: "string list \<Rightarrow> parsed" where
  "parse_WINDOWS ps =
     msg [(''type'', VStr ''WINDOWS''),
          (''screenAddr'', VStr (fld ps 1 ''0'')),
          (''count'', VInt (ifld ps 2 0)),
          (''windows'', VList (if present ps 3
             then List.map_filter window_entry (split_char (CHR '','') (ps ! 3)) else []))]"

definition gadget_entry :: "string \<Rightarrow> pyval option" where
  "gadget_entry entry =
     (let fields = split_char (CHR '':'') entry in
      if length fields \<ge> 9 then
        Some (VDict [(''id'', VInt (int_or_zero (fields ! 0))),
                     (''left'', VInt (int_or_zero (fields ! 1))),
                     (''top'', VInt (int_or_zero (fields ! 2))),
                     (''width'', VInt (int_or_zero (fields ! 3))),
                     (''height'', VInt (int_or_zero (fields ! 4))),
                     (''gadgetType'', VInt (int_or_zero (fields ! 5))),
                     (''flags'', VInt (int_or_zero (fields ! 6))),
                     (''text'', VStr (fields ! 7)),
                     (''addr'', VStr (fields ! 8))])
      else None)"

definition parse_GADGETS :: "string list \<Rightarrow> parsed" where
  "parse_GADGETS ps =
     msg [(''type'', VStr ''GADGETS''),
          (''windowAddr'', VStr (fld ps 1 ''0'')),
          (''count'', VInt (ifld ps 2 0)),
          (''gadgets'', VList (if present ps 3
             then List.map_filter gadget_entry (split_char (CHR '','') (ps ! 3)) else []))]"

section \<open>Test harness\<close>

definition parse_TEST_BEGIN :: "string list \<Rightarrow> parsed" where
  "parse_TEST_BEGIN ps =
     msg [(''type'', VStr ''TEST_BEGIN''), (''suite'', VStr (fld ps 1 ''unknown''))]"

definition parse_TEST_PASS :: "string list \<Rightarrow> parsed" where
  "parse_TEST_PASS ps =
     msg [(''type'', VStr ''TEST_PASS''),
          (''testName'', VStr (fld ps 1 ''?'')),
          (''file'', VStr (fld ps 2 ''?'')),
          (''line'', VInt (ifld ps 3 0))]"

definition parse_TEST_FAIL :: "string list \<Rightarrow> parsed" where
  "parse_TEST_FAIL ps =
     msg [(''type'', VStr ''TEST_FAIL''),
          (''testName'', VStr (fld ps 1 ''?'')),
          (''file'', VStr (fld ps 2 ''?'')),
          (''line'', VInt (ifld ps 3 0))]"

definition parse_TEST_END :: "string list \<Rightarrow> parsed" where
  "parse_TEST_END ps =
     msg [(''type'', VStr ''TEST_END''),
          (''suite'', VStr (fld ps 1 ''unknown'')),
          (''passed'', VInt (ifld ps 2 0)),
          (''failed'', VInt (ifld ps 3 0)),
          (''total'', VInt (ifld ps 4 0))]"

section \<open>Fonts, chip log, pools, ARexx, clipboard\<close>

text \<open>\<open>[int(s) for s in sizes_str.split(",") if s.isdigit()]\<close>: \<open>int\<close> may raise.\<close>

definition font_entry :: "string \<Rightarrow> pyval res" where
  "font_entry entry =
     (if CHR '':'' \<in> set entry then
        res_bind (res_map (py_int 10)
            (filter py_isdigit (split_char (CHR '','') (after_char (CHR '':'') entry)))) (\<lambda>sizes.
          Inr (VDict [(''name'', VStr (before_char (CHR '':'') entry)), (''sizes'', vints sizes)]))
      else Inr (VDict [(''name'', VStr entry), (''sizes'', VList [])]))"

definition parse_FONTS :: "string list \<Rightarrow> parsed" where
  "parse_FONTS ps =
     res_bind (res_map font_entry (drop 2 ps)) (\<lambda>fonts.
       msg [(''type'', VStr ''FONTS''), (''count'', VInt (ifld ps 1 0)), (''fonts'', VList fonts)])"

definition parse_FONTINFO :: "string list \<Rightarrow> parsed" where
  "parse_FONTINFO ps =
     msg [(''type'', VStr ''FONTINFO''),
          (''name'', VStr (fld ps 1 [])),
          (''size'', VInt (ifld ps 2 0)),
          (''ysize'', VInt (ifld ps 3 0)),
          (''xsize'', VInt (ifld ps 4 0)),
          (''style'', VInt (ifld ps 5 0)),
          (''flags'', VInt (ifld ps 6 0)),
          (''baseline'', VInt (ifld ps 7 0))]"

definition chiplog_assign :: "pydict \<Rightarrow> string \<Rightarrow> pydict" where
  "chiplog_assign regs p =
     (if CHR '':'' \<in> set p then
        (let kv = split_char (CHR '':'') p in
         if length kv \<ge> 2 then dict_set regs (kv ! 0) (VStr (kv ! 1)) else regs)
      else regs)"

definition parse_CHIPLOG :: "string list \<Rightarrow> parsed" where
  "parse_CHIPLOG ps =
     msg [(''type'', VStr ''CHIPLOG''),
          (''registers'', VDict (foldl chiplog_assign [] (drop 1 ps)))]"

definition change_entry :: "string \<Rightarrow> pyval option" where
  "change_entry p =
     (let ch = split_char (CHR '':'') p in
      if length ch \<ge> 3 then
        Some (VDict [(''reg'', VStr (ch ! 0)), (''old'', VStr (ch ! 1)), (''new'', VStr (ch ! 2))])
      else None)"

definition parse_CHIPLOGCHANGE :: "string list \<Rightarrow> parsed" where
  "parse_CHIPLOGCHANGE ps =
     msg [(''type'', VStr ''CHIPLOGCHANGE''),
          (''tick'', VInt (ifld ps 1 0)),
          (''changes'', VList (List.map_filter change_entry (drop 2 ps)))]"

definition pool_entry :: "string \<Rightarrow> pyval option" where
  "pool_entry p =
     (let fields = split_char (CHR '':'') p in
      if length fields \<ge> 5 then
        Some (VDict [(''address'', VStr (fields ! 0)),
                     (''puddleSize'', VInt (int_or_zero (fields ! 1))),
                     (''threshSize'', VInt (int_or_zero (fields ! 2))),
                     (''allocCount'', VInt (int_or_zero (fields ! 3))),
                     (''totalAlloc'', VInt (int_or_zero (fields ! 4)))])
      else None)"

definition parse_POOLS :: "string list \<Rightarrow> parsed" where
  "parse_POOLS ps =
     msg [(''type'', VStr ''POOLS''),
          (''count'', VInt (ifld ps 1 0)),
          (''pools'', VList (List.map_filter pool_entry (drop 2 ps)))]"

definition parse_AREXXPORTS :: "string list \<Rightarrow> parsed" where
  "parse_AREXXPORTS ps =
     msg [(''type'', VStr ''AREXXPORTS''),
          (''count'', VInt (ifld ps 1 0)),
          (''ports'', vstrs (if present ps 2 then comma_list (ps ! 2) else []))]"

definition parse_AREXXRESULT :: "string list \<Rightarrow> parsed" where
  "parse_AREXXRESULT ps =
     msg [(''type'', VStr ''AREXXRESULT''),
          (''rc'', VInt (ifld ps 1 (- 1))),
          (''result'', VStr (if length ps > 2 then rest ps 2 else []))]"

definition parse_CLIPBOARD :: "string list \<Rightarrow> parsed" where
  "parse_CLIPBOARD ps =
     msg [(''type'', VStr ''CLIPBOARD''),
          (''length'', VInt (ifld ps 1 0)),
          (''text'', VStr (fld ps 2 []))]"

section \<open>Capabilities, processes, files, system\<close>

definition parse_CAPABILITIES :: "string list \<Rightarrow> parsed" where
  "parse_CAPABILITIES ps =
     (let protocol_level = ifld ps 2 0;
          m = [(''type'', VStr ''CAPABILITIES''),
               (''version'', VStr (fld ps 1 [])),
               (''protocolLevel'', VInt protocol_level),
               (''maxLine'', VInt (ifld ps 3 0)),
               (''commands'', vstrs (if length ps > 4 then split_char (CHR '','') (ps ! 4) else []))]
      in if length ps > 7 then
           msg (dict_set (dict_set (dict_set m
             ''platform'' (VStr (ps ! 5)))
             ''features'' (vstrs (filter (\<lambda>f. f \<noteq> []) (split_char (CHR '','') (ps ! 6)))))
             ''profiles'' (vstrs (filter (\<lambda>p. p \<noteq> []) (split_char (CHR '','') (ps ! 7)))))
         else if protocol_level \<ge> 2 then msg (dict_set m ''malformed'' (VBool True))
         else msg m)"

definition proc_entry :: "string \<Rightarrow> pyval option" where
  "proc_entry e0 =
     (let entry = py_strip e0 in
      if entry = [] then None
      else (let pp = split_max (CHR '':'') 2 entry in
        if length pp \<ge> 3 then
          Some (VDict [(''id'', VInt (int_or_zero (pp ! 0))), (''command'', VStr (pp ! 1)),
                       (''status'', VStr (pp ! 2))])
        else None))"

definition parse_PROCLIST :: "string list \<Rightarrow> parsed" where
  "parse_PROCLIST ps =
     msg [(''type'', VStr ''PROCLIST''),
          (''count'', VInt (ifld ps 1 0)),
          (''processes'', VList (if present ps 2
             then List.map_filter proc_entry (split_char (CHR '','') (ps ! 2)) else []))]"

definition parse_PROCSTAT :: "string list \<Rightarrow> parsed" where
  "parse_PROCSTAT ps =
     msg [(''type'', VStr ''PROCSTAT''),
          (''id'', VInt (ifld ps 1 0)),
          (''command'', VStr (fld ps 2 [])),
          (''status'', VStr (fld ps 3 []))]"

definition parse_TAILDATA :: "string list \<Rightarrow> parsed" where
  "parse_TAILDATA ps =
     msg [(''type'', VStr ''TAILDATA''),
          (''path'', VStr (fld ps 1 [])),
          (''data'', VStr (fld ps 2 []))]"

definition parse_CHECKSUM :: "string list \<Rightarrow> parsed" where
  "parse_CHECKSUM ps =
     msg [(''type'', VStr ''CHECKSUM''),
          (''path'', VStr (fld ps 1 [])),
          (''crc32'', VStr (fld ps 2 ''00000000'')),
          (''size'', VInt (ifld ps 3 0))]"

definition assign_entry :: "string \<Rightarrow> pyval option" where
  "assign_entry e0 =
     (let entry = py_strip e0 in
      if entry = [] then None
      else (let ap = split_max (CHR '':'') 2 entry in
        if length ap \<ge> 3 then
          Some (VDict [(''name'', VStr (ap ! 0)), (''path'', VStr (ap ! 1)),
                       (''assignType'', VStr (ap ! 2))])
        else
          Some (VDict [(''name'', VStr (ap ! 0)), (''path'', VStr []),
                       (''assignType'', VStr ''?'')])))"

definition parse_ASSIGNS :: "string list \<Rightarrow> parsed" where
  "parse_ASSIGNS ps =
     msg [(''type'', VStr ''ASSIGNS''),
          (''count'', VInt (ifld ps 1 0)),
          (''assigns'', VList (if present ps 2
             then List.map_filter assign_entry (split_char (CHR '','') (ps ! 2)) else []))]"

definition parse_PROTECT :: "string list \<Rightarrow> parsed" where
  "parse_PROTECT ps =
     msg [(''type'', VStr ''PROTECT''),
          (''path'', VStr (fld ps 1 [])),
          (''bits'', VStr (fld ps 2 ''00000000''))]"

definition parse_VERSION :: "string list \<Rightarrow> parsed" where
  "parse_VERSION ps =
     msg [(''type'', VStr ''VERSION''),
          (''name'', VStr (fld ps 1 [])),
          (''major'', VInt (ifld ps 2 0)),
          (''minor'', VInt (ifld ps 3 0)),
          (''date'', VStr (fld ps 4 []))]"

definition parse_ENV :: "string list \<Rightarrow> parsed" where
  "parse_ENV ps =
     msg [(''type'', VStr ''ENV''),
          (''name'', VStr (fld ps 1 [])),
          (''value'', VStr (if length ps > 2 then rest ps 2 else []))]"

definition parse_PORTS :: "string list \<Rightarrow> parsed" where
  "parse_PORTS ps =
     msg [(''type'', VStr ''PORTS''),
          (''count'', VInt (ifld ps 1 0)),
          (''ports'', vstrs (if present ps 2 then comma_list (ps ! 2) else []))]"

definition parse_SYSINFO :: "string list \<Rightarrow> parsed" where
  "parse_SYSINFO ps =
     (let m = [(''type'', VStr ''SYSINFO''),
               (''chipFree'', VInt (ifld ps 1 0)),
               (''fastFree'', VInt (ifld ps 2 0)),
               (''chipTotal'', VInt (ifld ps 3 0)),
               (''fastTotal'', VInt (ifld ps 4 0)),
               (''execVer'', VInt (ifld ps 5 0)),
               (''execRev'', VInt (ifld ps 6 0)),
               (''cpuType'', VStr (fld ps 7 [])),
               (''vblankHz'', VInt (ifld ps 8 0))]
      in if length ps > 9 then msg (dict_set m ''transport'' (VStr (ps ! 9))) else msg m)"

definition parse_UPTIME :: "string list \<Rightarrow> parsed" where
  "parse_UPTIME ps =
     msg [(''type'', VStr ''UPTIME''), (''seconds'', VInt (ifld ps 1 0))]"

end
