(* ===== verification/Protocol.thy ===== *)
theory Protocol
  imports Protocol_Query
begin

text \<open>
  The dispatch of \<open>parse_message\<close> over the message type and the properties of the parser as
  a whole: what type a parsed message has, which lines can raise, which are refused, and
  which messages come back as the bridge meant them.
\<close>

section \<open>Dispatch\<close>

text \<open>
  The chain of \<open>if msg_type == ...: ... return\<close> as the list of its tests and branches, in the
  order of the source; the first test that holds decides, as \<open>map_of\<close> does. \<open>now\<close> is the
  clock reading of the call.
\<close>

definition parse_table :: "string \<Rightarrow> string \<Rightarrow> (string \<times> (string list \<Rightarrow> parsed)) list" where
  "parse_table now line =
     [(''LOG'', parse_LOG now), (''MEM'', parse_MEM), (''VAR'', parse_VAR),
      (''HB'', parse_HB now), (''CMD'', parse_CMD), (''READY'', parse_READY),
      (''CLIENTS'', parse_CLIENTS), (''TASKS'', parse_TASKS), (''LIBS'', parse_LIBS),
      (''DIR'', parse_DIR), (''FILE'', parse_FILE), (''FILEINFO'', parse_FILEINFO),
      (''PROC'', parse_PROC), (''CLOG'', parse_CLOG now), (''CVAR'', parse_CVAR),
      (''VOLUMES'', parse_VOLUMES), (''PONG'', parse_PONG now), (''OK'', parse_OK),
      (''ERR'', parse_ERR), (''HOOKS'', parse_HOOKS), (''MEMREGS'', parse_MEMREGS),
      (''CINFO'', parse_CINFO), (''DEVICES'', parse_DEVICES), (''SCRINFO'', parse_SCRINFO),
      (''SCRDATA'', parse_SCRDATA), (''SCRRGB'', parse_SCRRGB), (''SCRRLE'', parse_SCRRLE),
      (''PALETTE'', parse_PALETTE), (''COPPER'', parse_COPPER), (''SPRITE'', parse_SPRITE),
      (''DBGSTOP'', parse_DBGSTOP now), (''DBGRUNNING'', parse_DBGRUNNING now),
      (''DBGDETACHED'', parse_DBGDETACHED now), (''BPINFO'', parse_BPINFO),
      (''BPLIST'', parse_BPLIST), (''DBGREGS'', parse_DBGREGS), (''DBGBT'', parse_DBGBT),
      (''DBGSTATE'', parse_DBGSTATE), (''CRASH'', parse_CRASH now),
      (''RESOURCES'', parse_RESOURCES), (''PERF'', parse_PERF), (''WINLIST'', parse_WINLIST),
      (''CDBG'', parse_CDBG now line), (''MEMMAP'', parse_MEMMAP),
      (''STACKINFO'', parse_STACKINFO), (''CHIPREGS'', parse_CHIPREGS),
      (''REGS'', parse_REGS), (''SEARCH'', parse_SEARCH), (''LIBINFO'', parse_LIBINFO),
      (''DEVINFO'', parse_DEVINFO), (''SNOOP'', parse_SNOOP now),
      (''SNOOPSTATE'', parse_SNOOPSTATE), (''LIBFUNCS'', parse_LIBFUNCS),
      (''AUDIOCHANNELS'', parse_AUDIOCHANNELS), (''AUDIOSAMPLE'', parse_AUDIOSAMPLE),
      (''SCREENS'', parse_SCREENS), (''WINDOWS'', parse_WINDOWS),
      (''GADGETS'', parse_GADGETS), (''TEST_BEGIN'', parse_TEST_BEGIN),
      (''TEST_PASS'', parse_TEST_PASS), (''TEST_FAIL'', parse_TEST_FAIL),
      (''TEST_END'', parse_TEST_END), (''FONTS'', parse_FONTS),
      (''FONTINFO'', parse_FONTINFO), (''CHIPLOG'', parse_CHIPLOG),
      (''CHIPLOGCHANGE'', parse_CHIPLOGCHANGE), (''POOLS'', parse_POOLS),
      (''AREXXPORTS'', parse_AREXXPORTS), (''AREXXRESULT'', parse_AREXXRESULT),
      (''CLIPBOARD'', parse_CLIPBOARD), (''CAPABILITIES'', parse_CAPABILITIES),
      (''PROCLIST'', parse_PROCLIST), (''PROCSTAT'', parse_PROCSTAT),
      (''TAILDATA'', parse_TAILDATA), (''CHECKSUM'', parse_CHECKSUM),
      (''ASSIGNS'', parse_ASSIGNS), (''PROTECT'', parse_PROTECT),
      (''VERSION'', parse_VERSION), (''ENV'', parse_ENV), (''PORTS'', parse_PORTS),
      (''SYSINFO'', parse_SYSINFO), (''UPTIME'', parse_UPTIME)]"

definition parse_message :: "string \<Rightarrow> string \<Rightarrow> parsed" where
  "parse_message now line =
     (let parts = split_char (CHR ''|'') line in
      case map_of (parse_table now line) (hd parts) of
        None \<Rightarrow> Inr None
      | Some branch \<Rightarrow> branch parts)"

definition level_name :: "string \<Rightarrow> string" where
  "level_name code =
     (case map_of [(''D'', ''DEBUG''), (''I'', ''INFO''), (''W'', ''WARN''), (''E'', ''ERROR'')] code of
        None \<Rightarrow> code | Some n \<Rightarrow> n)"

lemma parse_message_cases:
  assumes "parse_message now line = r"
  obtains (unknown) "map_of (parse_table now line) (hd (split_char (CHR ''|'') line)) = None"
      "r = Inr None"
  | (branch) t h where "(t, h) \<in> set (parse_table now line)"
      "t = hd (split_char (CHR ''|'') line)" "r = h (split_char (CHR ''|'') line)"
  using assms map_of_SomeD
  by (fastforce simp: parse_message_def Let_def split: option.splits)

section \<open>Types of parsed messages\<close>

definition has_type :: "string \<Rightarrow> parsed \<Rightarrow> bool" where
  "has_type t r \<longleftrightarrow>
     (\<forall>d. r = Inr (Some d) \<longrightarrow> map_of d ''type'' = Some (VStr t))"

text \<open>The type a branch stores: its own, but a debug dump is passed through as a log line.\<close>

definition branch_type :: "string \<Rightarrow> string" where
  "branch_type t = (if t = ''CDBG'' then ''LOG'' else t)"

lemma cinfo_section_type:
  "map_of (cinfo_section d s) ''type'' = map_of d ''type''"
  by (simp add: cinfo_section_def)

lemma foldl_cinfo_type:
  "map_of (foldl cinfo_section d ss) ''type'' = map_of d ''type''"
  by (induction ss arbitrary: d) (auto simp: cinfo_section_type)

lemmas parse_defs_a =
  parse_LOG_def parse_MEM_def parse_VAR_def parse_HB_def parse_CMD_def parse_READY_def
  parse_CLIENTS_def parse_TASKS_def parse_LIBS_def parse_DIR_def parse_FILE_def
  parse_FILEINFO_def parse_PROC_def parse_CLOG_def parse_CVAR_def parse_VOLUMES_def
  parse_PONG_def parse_OK_def parse_ERR_def parse_HOOKS_def parse_MEMREGS_def parse_CINFO_def
  parse_DEVICES_def parse_SCRINFO_def parse_SCRDATA_def parse_SCRRGB_def parse_SCRRLE_def
  parse_PALETTE_def parse_COPPER_def parse_SPRITE_def parse_DBGSTOP_def parse_DBGRUNNING_def
  parse_DBGDETACHED_def parse_BPINFO_def parse_BPLIST_def parse_DBGREGS_def parse_DBGBT_def
  parse_DBGSTATE_def parse_CRASH_def

lemmas parse_defs_b =
  parse_RESOURCES_def parse_PERF_def parse_WINLIST_def parse_CDBG_def parse_MEMMAP_def
  parse_STACKINFO_def parse_CHIPREGS_def parse_REGS_def parse_SEARCH_def parse_LIBINFO_def
  parse_DEVINFO_def parse_SNOOP_def parse_SNOOPSTATE_def parse_LIBFUNCS_def
  parse_AUDIOCHANNELS_def parse_AUDIOSAMPLE_def parse_SCREENS_def parse_WINDOWS_def
  parse_GADGETS_def parse_TEST_BEGIN_def parse_TEST_PASS_def parse_TEST_FAIL_def
  parse_TEST_END_def parse_FONTS_def parse_FONTINFO_def parse_CHIPLOG_def
  parse_CHIPLOGCHANGE_def parse_POOLS_def parse_AREXXPORTS_def parse_AREXXRESULT_def
  parse_CLIPBOARD_def parse_CAPABILITIES_def parse_PROCLIST_def parse_PROCSTAT_def
  parse_TAILDATA_def parse_CHECKSUM_def parse_ASSIGNS_def parse_PROTECT_def parse_VERSION_def
  parse_ENV_def parse_PORTS_def parse_SYSINFO_def parse_UPTIME_def

lemmas parse_defs = parse_defs_a parse_defs_b

lemma table_has_type:
  "list_all (\<lambda>(t, h). has_type (branch_type t) (h ps)) (parse_table now line)"
  unfolding parse_table_def list.pred_inject prod.case
  by (intro conjI TrueI)
     (auto simp: has_type_def branch_type_def parse_defs Let_def res_inv foldl_cinfo_type)

text \<open>
  C2. Type soundness of the parser: a parsed message always carries a \<open>type\<close> entry, and it
  is the first field of the line (LOG for a client's debug dump), so the dispatch of the
  connection on \<open>msg["type"]\<close> never misses its key nor takes the branch of another message.
\<close>

theorem parse_message_type:
  assumes "parse_message now line = Inr (Some d)"
  shows "map_of d ''type'' = Some (VStr (branch_type (hd (split_char (CHR ''|'') line))))"
  using assms
proof (cases rule: parse_message_cases)
  case (branch t h)
  with table_has_type [of "split_char (CHR ''|'') line" now line] show ?thesis
    by (fastforce simp: list_all_iff has_type_def)
qed simp

theorem parse_message_type_witness:
  "map_of [(''type'', VStr ''READY''), (''version'', VStr ''1.22'')] ''type'' =
     Some (VStr (branch_type (hd (split_char (CHR ''|'') ''READY|1.22''))))"
  by (rule parse_message_type [where now = "''t''"]) code_simp

section \<open>Lines that raise, lines that are refused\<close>

text \<open>The message types whose branch converts hexadecimal or font sizes without a guard.\<close>

definition raising_types :: "string list" where
  "raising_types = [''DBGSTOP'', ''BPINFO'', ''BPLIST'', ''DBGREGS'', ''DBGSTATE'', ''FONTS'']"

text \<open>A computation that raises nothing but ValueError, and how that composes.\<close>

definition value_errors :: "'a res \<Rightarrow> bool" where
  "value_errors r \<longleftrightarrow> (\<forall>e. r = Inl e \<longrightarrow> e = ValueError)"

lemma value_errors_Inr: "value_errors (Inr x)"
  by (simp add: value_errors_def)

lemma value_errors_bind:
  "value_errors m \<Longrightarrow> (\<And>x. value_errors (f x)) \<Longrightarrow> value_errors (res_bind m f)"
  by (cases m) (auto simp: value_errors_def)

lemma value_errors_map: "(\<And>x. value_errors (f x)) \<Longrightarrow> value_errors (res_map f xs)"
  by (induction xs) (auto intro: value_errors_Inr value_errors_bind)

lemma value_errors_if: "value_errors a \<Longrightarrow> value_errors b \<Longrightarrow> value_errors (if c then a else b)"
  by simp

lemma value_errors_py_int: "value_errors (py_int b s)"
  by (simp add: value_errors_def py_int_def split: option.splits)

lemmas value_errors_intros =
  value_errors_Inr value_errors_bind value_errors_map value_errors_if value_errors_py_int

lemma value_errors_hexfld: "value_errors (hexfld ps i)"
  unfolding hexfld_def by (intro value_errors_intros)

lemma value_errors_hex_list: "value_errors (hex_list s)"
  unfolding hex_list_def by (intro value_errors_intros)

lemma value_errors_bp_entry: "value_errors (bp_entry s)"
  unfolding bp_entry_def Let_def by (intro value_errors_intros)

lemma value_errors_font_entry: "value_errors (font_entry s)"
  unfolding font_entry_def by (intro value_errors_intros)

definition raises_only :: "bool \<Rightarrow> parsed \<Rightarrow> bool" where
  "raises_only b r \<longleftrightarrow> (\<forall>e. r = Inl e \<longrightarrow> b \<and> e = ValueError)"

lemma raises_only_Inr: "raises_only b (Inr x)"
  by (simp add: raises_only_def)

lemma raises_only_if: "raises_only b x \<Longrightarrow> raises_only b y \<Longrightarrow> raises_only b (if c then x else y)"
  by simp

lemma raises_only_bind:
  "b \<Longrightarrow> value_errors m \<Longrightarrow> (\<And>x. raises_only b (f x)) \<Longrightarrow> raises_only b (res_bind m f)"
  by (cases m) (auto simp: value_errors_def raises_only_def)

lemmas raises_only_intros =
  raises_only_Inr raises_only_if raises_only_bind value_errors_hexfld value_errors_hex_list
  value_errors_bp_entry value_errors_font_entry value_errors_intros

lemma table_raises_only:
  "list_all (\<lambda>(t, h). raises_only (t \<in> set raising_types) (h ps)) (parse_table now line)"
  unfolding parse_table_def list.pred_inject prod.case parse_defs Let_def
  by (intro conjI TrueI raises_only_intros) (simp_all add: raising_types_def)

text \<open>
  Which lines can raise: if parsing a line raises at all, the exception is a ValueError
  and the message is one of the five debugger messages with unguarded hexadecimal fields or
  a font list. Every other line, however corrupted, is parsed or refused.
\<close>

theorem parse_message_raises:
  assumes "parse_message now line = Inl e"
  shows "e = ValueError \<and> hd (split_char (CHR ''|'') line) \<in> set raising_types"
  using assms
proof (cases rule: parse_message_cases)
  case (branch t h)
  then have "raises_only (t \<in> set raising_types) (h (split_char (CHR ''|'') line))"
    using table_raises_only [of "split_char (CHR ''|'') line" now line]
    by (auto simp only: list_all_iff prod.case dest: bspec)
  with branch show ?thesis
    unfolding raises_only_def by metis
qed simp

theorem parse_message_raises_witness:
  "ValueError = ValueError \<and> hd (split_char (CHR ''|'') ''DBGSTOP|step|zz'') \<in> set raising_types"
  by (rule parse_message_raises [where now = "''t''"]) code_simp

text \<open>The least number of fields of the messages that refuse short lines.\<close>

definition min_fields :: "string \<Rightarrow> nat" where
  "min_fields t =
     (case map_of [(''LOG'', 4), (''MEM'', 4), (''VAR'', 4), (''HB'', 4), (''CMD'', 4),
                   (''CLOG'', 5), (''CVAR'', 5), (''SCRINFO'', 5), (''SCRDATA'', 4),
                   (''SCRRGB'', 3), (''SCRRLE'', 3), (''PALETTE'', 3), (''COPPER'', 4),
                   (''SPRITE'', 7), (''STACKINFO'', 8), (''LIBINFO'', 10), (''DEVINFO'', 10)] t of
        None \<Rightarrow> 1 | Some n \<Rightarrow> n)"

lemma table_refuses:
  "ps \<noteq> [] \<Longrightarrow>
   list_all (\<lambda>(t, h). (h ps = Inr None) = (length ps < min_fields t)) (parse_table now line)"
  unfolding parse_table_def list.pred_inject prod.case
  by (intro conjI TrueI)
     (auto simp: min_fields_def parse_defs Let_def res_inv Suc_le_eq)

text \<open>
  C3. Exactly which lines are refused: \<open>parse_message\<close> does not return None if and only if
  the type is one of the 82 known ones and the line has the fields its message needs.
\<close>

theorem parse_message_refuses:
  "parse_message now line \<noteq> Inr None \<longleftrightarrow>
     (let parts = split_char (CHR ''|'') line in
      hd parts \<in> fst ` set (parse_table now line) \<and> min_fields (hd parts) \<le> length parts)"
proof -
  let ?ps = "split_char (CHR ''|'') line"
  show ?thesis
  proof (cases "map_of (parse_table now line) (hd ?ps)")
    case None
    then have "hd ?ps \<notin> fst ` set (parse_table now line)"
      by (simp add: map_of_eq_None_iff)
    with None show ?thesis by (simp add: parse_message_def Let_def)
  next
    case (Some h)
    then have mem: "(hd ?ps, h) \<in> set (parse_table now line)" by (rule map_of_SomeD)
    then have "(h ?ps = Inr None) = (length ?ps < min_fields (hd ?ps))"
      using table_refuses [of ?ps now line] by (fastforce simp: list_all_iff)
    moreover have "hd ?ps \<in> fst ` set (parse_table now line)"
      using mem by force
    ultimately show ?thesis using Some by (simp add: parse_message_def Let_def not_less)
  qed
qed

section \<open>Messages that come back as they were meant\<close>

lemma split_char_tail:
  assumes "\<forall>f \<in> set fs. c \<notin> set f"
  shows "split_char c (py_join [c] (fs @ [m])) = fs @ split_char c m"
  using assms
proof (induction fs)
  case Nil
  then show ?case by simp
next
  case (Cons f fs)
  then show ?case by (cases fs) (auto simp: split_char_append py_join_Cons)
qed

lemma rest_tail [simp]: "n = length fs \<Longrightarrow> rest (fs @ split_char (CHR ''|'') m) n = m"
  by (simp add: rest_def)

lemma int_or_zero_fmt_dec [simp]: "int_or_zero (fmt_dec i) = i"
  using py_int_fmt_dec [of i] by (simp add: int_or_zero_def py_int_def split: option.splits)

lemma fmt_dec_no_pipe [simp]: "CHR ''|'' \<notin> set (fmt_dec i)"
  using fmt_dec_alnum alnum_char_neq by blast

text \<open>The line of a message whose last field is free text.\<close>

definition text_line :: "string list \<Rightarrow> string \<Rightarrow> string" where
  "text_line fs m = py_join ''|'' (fs @ [m])"

lemma split_text_line:
  "\<forall>f \<in> set fs. CHR ''|'' \<notin> set f \<Longrightarrow>
   split_char (CHR ''|'') (text_line fs m) = fs @ split_char (CHR ''|'') m"
  unfolding text_line_def by (rule split_char_tail)

text \<open>
  Free text survives the wire: the message of a LOG or CLOG line, the value of a VAR and
  the data of a CMD answer come back unchanged, whatever they contain (vertical bars
  included), and with them the numbers and the other fields.
\<close>

theorem free_text_roundtrip:
  assumes "CHR ''|'' \<notin> set a" and "CHR ''|'' \<notin> set b"
  shows
    "parse_message now (text_line [''LOG'', a, fmt_dec tick] m) =
       msg [(''type'', VStr ''LOG''), (''level'', VStr a), (''tick'', VInt tick),
            (''message'', VStr m), (''timestamp'', VStr now)] \<and>
     parse_message now (text_line [''CLOG'', a, b, fmt_dec tick] m) =
       msg [(''type'', VStr ''CLOG''), (''client'', VStr a), (''level'', VStr b),
            (''tick'', VInt tick), (''message'', VStr m), (''timestamp'', VStr now)] \<and>
     parse_message now (text_line [''VAR'', a, b] m) =
       msg [(''type'', VStr ''VAR''), (''name'', VStr a), (''varType'', VStr b),
            (''value'', VStr m)] \<and>
     parse_message now (text_line [''CMD'', fmt_dec tick, a] m) =
       msg [(''type'', VStr ''CMD''), (''id'', VInt tick), (''status'', VStr a),
            (''data'', VStr m)]"
proof -
  have len: "length (split_char (CHR ''|'') m) \<noteq> 0" by simp
  show ?thesis
    using assms len
    by (intro conjI)
       (simp_all add: parse_message_def Let_def split_text_line parse_table_def parse_LOG_def
         parse_CLOG_def parse_VAR_def parse_CMD_def rest_def)
qed

theorem free_text_roundtrip_witness:
  "parse_message ''now'' (text_line [''LOG'', ''I'', fmt_dec 7] ''a|b'') =
     msg [(''type'', VStr ''LOG''), (''level'', VStr ''I''), (''tick'', VInt 7),
          (''message'', VStr ''a|b''), (''timestamp'', VStr ''now'')]"
  using free_text_roundtrip [of "''I''" "''x''" "''now''" 7 "''a|b''"] by simp

section \<open>The task list\<close>

text \<open>How the bridge writes one task: \<open>name(priority,state,type)\<close>.\<close>

definition render_task :: "string \<times> int \<times> string \<times> string \<Rightarrow> string" where
  "render_task t = (case t of (name, pri, state, ty) \<Rightarrow>
     name @ ''('' @ fmt_dec pri @ '','' @ state @ '','' @ ty @ '')'')"

definition task_value :: "string \<times> int \<times> string \<times> string \<Rightarrow> pyval" where
  "task_value t = (case t of (name, pri, state, ty) \<Rightarrow>
     VDict [(''name'', VStr name), (''priority'', VInt pri), (''state'', VStr state),
            (''type'', VStr ty)])"

text \<open>
  Names may contain commas, spaces and vertical bars but no parentheses, and do not start
  with white space or a vertical bar; the other two fields are words.
\<close>

definition word_text :: "string \<Rightarrow> bool" where
  "word_text s \<longleftrightarrow>
     (\<forall>c \<in> set s. c \<noteq> CHR ''('' \<and> c \<noteq> CHR '')'' \<and> c \<noteq> CHR '','' \<and> \<not> is_space c)"

definition wf_task :: "string \<times> int \<times> string \<times> string \<Rightarrow> bool" where
  "wf_task t = (case t of (name, pri, state, ty) \<Rightarrow>
     name \<noteq> [] \<and> \<not> is_space (hd name) \<and> hd name \<noteq> CHR ''|'' \<and> CHR ''('' \<notin> set name \<and> CHR '')'' \<notin> set name \<and>
     word_text state \<and> word_text ty)"

lemma split_pair_no: "a \<notin> set s \<Longrightarrow> split_pair a b (s @ a # b # t) = s # split_pair a b t"
proof (induction s)
  case Nil
  then show ?case by simp
next
  case (Cons x s)
  then show ?case by (cases s) auto
qed

lemma split_pair_last: "a \<notin> set s \<Longrightarrow> split_pair a b (s @ [a]) = [s @ [a]]"
proof (induction s)
  case Nil
  then show ?case by simp
next
  case (Cons x s)
  then show ?case by (cases s) auto
qed

text \<open>A list of entries that end in a closing parenthesis, joined with commas.\<close>

lemma split_pair_entries:
  assumes "es \<noteq> []" and "\<forall>e \<in> set es. CHR '')'' \<notin> set e"
  shows "split_pair (CHR '')'') (CHR '','') (py_join '','' (map (\<lambda>e. e @ '')'') es)) =
    butlast es @ [last es @ '')'']"
  using assms
proof (induction es)
  case Nil
  then show ?case by simp
next
  case (Cons e es)
  show ?case
  proof (cases "es = []")
    case True
    with Cons.prems show ?thesis by (simp add: split_pair_last)
  next
    case False
    with Cons show ?thesis by (simp add: py_join_Cons split_pair_no)
  qed
qed

lemma rstrip_char_none: "s \<noteq> [] \<Longrightarrow> last s \<noteq> c \<Longrightarrow> rstrip_char c s = s"
  by (cases "rev s") (auto simp: rstrip_char_def hd_rev [symmetric])

lemma rstrip_char_one: "rstrip_char c (s @ [c]) = rstrip_char c s"
  by (simp add: rstrip_char_def)

lemma word_text_strip: "word_text s \<Longrightarrow> py_strip s = s"
  by (rule py_strip_no_space) (simp add: word_text_def)

lemma fmt_dec_word [simp]: "word_text (fmt_dec i)"
  unfolding word_text_def
proof
  fix c assume "c \<in> set (fmt_dec i)"
  then have "alnum_char c" by (rule fmt_dec_alnum)
  then show "c \<noteq> CHR ''('' \<and> c \<noteq> CHR '')'' \<and> c \<noteq> CHR '','' \<and> \<not> is_space c"
    by (simp add: alnum_char_neq alnum_char_not_space)
qed

lemma word_text_mem:
  "word_text s \<Longrightarrow> CHR ''('' \<notin> set s" "word_text s \<Longrightarrow> CHR '')'' \<notin> set s"
  "word_text s \<Longrightarrow> CHR '','' \<notin> set s"
  by (auto simp: word_text_def)

lemma task_body:
  assumes "wf_task (name, pri, state, ty)"
  defines "e \<equiv> name @ ''('' @ fmt_dec pri @ '','' @ state @ '','' @ ty"
  shows "task_entry e = Some (task_value (name, pri, state, ty))"
    and "task_entry (e @ '')'') = Some (task_value (name, pri, state, ty))"
    and "CHR '')'' \<notin> set e"
proof -
  have name: "name \<noteq> []" "\<not> is_space (hd name)" "CHR ''('' \<notin> set name" "CHR '')'' \<notin> set name"
    and w: "word_text state" "word_text ty"
    using assms(1) by (simp_all add: wf_task_def)
  note mem = word_text_mem [OF fmt_dec_word [of pri]] word_text_mem [OF w(1)]
    word_text_mem [OF w(2)]
  have cl: "CHR '')'' \<notin> set e"
    using name(4) mem by (simp add: e_def)
  have ne: "e \<noteq> []" "hd e = hd name" "hd (e @ '')'') = hd name"
    using name(1) by (simp_all add: e_def)
  have lst: "\<not> is_space (last e)"
  proof (cases "ty = []")
    case True
    then show ?thesis by (simp add: e_def is_space_def)
  next
    case False
    then have "last e = last ty" by (simp add: e_def)
    with False w(2) show ?thesis by (metis last_in_set word_text_def)
  qed
  have "last e \<noteq> CHR '')''"
    using cl last_in_set [OF ne(1)] by metis
  then have re: "rstrip_char (CHR '')'') e = e"
    using ne(1) by (intro rstrip_char_none)
  have rs: "rstrip_char (CHR '')'') (py_strip e) = e"
    using ne name(2) lst re by (simp add: py_strip_ends)
  have "py_strip (e @ '')'') = e @ '')''"
    by (rule py_strip_ends) (use ne name(2) in \<open>simp_all add: is_space_def\<close>)
  then have rs': "rstrip_char (CHR '')'') (py_strip (e @ '')'')) = e"
    using re by (simp add: rstrip_char_one)
  have b: "before_char (CHR ''('') e = name"
    and a: "after_char (CHR ''('') e = fmt_dec pri @ '','' @ state @ '','' @ ty"
    using name(3) by (simp_all add: e_def before_char_append after_char_append)
  have s: "split_char (CHR '','') (after_char (CHR ''('') e) = [fmt_dec pri, state, ty]"
    unfolding a using mem by (simp add: split_char_append split_char_no_sep)
  have m: "CHR ''('' \<in> set e" by (simp add: e_def)
  show "task_entry e = Some (task_value (name, pri, state, ty))"
    using w by (simp add: task_entry_def rs b s m task_value_def word_text_strip)
  show "task_entry (e @ '')'') = Some (task_value (name, pri, state, ty))"
    using w by (simp add: task_entry_def rs' b s m task_value_def word_text_strip)
  show "CHR '')'' \<notin> set e" by (rule cl)
qed

text \<open>The entry without its closing parenthesis, for the list of all entries.\<close>

definition task_stem :: "string \<times> int \<times> string \<times> string \<Rightarrow> string" where
  "task_stem t = (case t of (name, pri, state, ty) \<Rightarrow>
     name @ ''('' @ fmt_dec pri @ '','' @ state @ '','' @ ty)"

lemma render_task_stem: "render_task t = task_stem t @ '')''"
  by (cases t) (simp add: render_task_def task_stem_def)

lemma task_stem_entry:
  assumes "wf_task t"
  shows "task_entry (task_stem t) = Some (task_value t)"
    and "task_entry (task_stem t @ '')'') = Some (task_value t)"
    and "CHR '')'' \<notin> set (task_stem t)"
  using assms task_body by (cases t; simp add: task_stem_def)+

lemma map_filter_Some: "(\<And>x. x \<in> set xs \<Longrightarrow> f (g x) = Some (h x)) \<Longrightarrow>
    List.map_filter f (map g xs) = map h xs"
  by (induction xs) (simp_all add: List.map_filter_simps)

lemma parse_task_entries_render:
  assumes "ts \<noteq> []" and "\<forall>t \<in> set ts. wf_task t"
  shows "parse_task_entries (py_join '','' (map render_task ts)) = map task_value ts"
proof -
  have b: "\<And>t. t \<in> set (butlast ts) \<Longrightarrow> task_entry (task_stem t) = Some (task_value t)"
    using assms(2) by (meson in_set_butlastD task_stem_entry(1))
  have l: "task_entry (task_stem (last ts) @ '')'') = Some (task_value (last ts))"
    using assms by (simp add: task_stem_entry(2))
  have stems: "map task_stem ts \<noteq> []" "\<forall>e \<in> set (map task_stem ts). CHR '')'' \<notin> set e"
    using assms task_stem_entry(3) by auto
  have "map render_task ts = map (\<lambda>e. e @ '')'') (map task_stem ts)"
    by (simp add: render_task_stem)
  then have "split_pair (CHR '')'') (CHR '','') (py_join '','' (map render_task ts)) =
      map task_stem (butlast ts) @ [task_stem (last ts) @ '')'']"
    using split_pair_entries [OF stems] assms(1) by (simp only: map_butlast last_map [OF assms(1)])
  moreover have "List.map_filter task_entry (map task_stem (butlast ts)) =
      map task_value (butlast ts)"
    using b by (rule map_filter_Some)
  ultimately have "parse_task_entries (py_join '','' (map render_task ts)) =
      map task_value (butlast ts) @ [task_value (last ts)]"
    using l by (simp add: parse_task_entries_def List.map_filter_def)
  also have "\<dots> = map task_value ts"
    using assms(1) by (metis append_butlast_last_id list.simps(8,9) map_append)
  finally show ?thesis .
qed

lemma split_char_first: "s \<noteq> [] \<Longrightarrow> hd s \<noteq> c \<Longrightarrow> split_char c s ! 0 \<noteq> []"
proof (cases s)
  case (Cons x xs)
  moreover assume "hd s \<noteq> c"
  ultimately show ?thesis by (cases "split_char c xs") auto
qed simp

text \<open>
  The task list round trip: for every non-empty list of tasks (names with commas, spaces
  or vertical bars included) the line the bridge writes for it parses to exactly those
  tasks, each with its priority, state and type, in order.
\<close>

theorem tasks_roundtrip:
  assumes "ts \<noteq> []" and "\<forall>t \<in> set ts. wf_task t"
  shows "parse_message now (text_line [''TASKS'', fmt_dec n] (py_join '','' (map render_task ts))) =
    msg [(''type'', VStr ''TASKS''), (''count'', VInt n), (''tasks'', VList (map task_value ts))]"
proof -
  let ?raw = "py_join '','' (map render_task ts)"
  obtain t us where ts: "ts = t # us" using assms(1) by (cases ts) auto
  have hd: "?raw \<noteq> [] \<and> hd ?raw = hd (render_task t)"
    unfolding ts by (cases us) (auto simp: render_task_stem hd_append)
  moreover have "hd (render_task t) \<noteq> CHR ''|''"
    using assms(2) unfolding ts by (cases t) (auto simp: render_task_def wf_task_def)
  ultimately have ne: "split_char (CHR ''|'') ?raw ! 0 \<noteq> []"
    by (intro split_char_first) auto
  have len: "length (split_char (CHR ''|'') ?raw) \<noteq> 0" by simp
  have "parse_message now (text_line [''TASKS'', fmt_dec n] ?raw) =
      parse_TASKS ([''TASKS'', fmt_dec n] @ split_char (CHR ''|'') ?raw)"
    by (simp add: parse_message_def Let_def split_text_line parse_table_def)
  also have "\<dots> = msg [(''type'', VStr ''TASKS''), (''count'', VInt n),
      (''tasks'', VList (map task_value ts))]"
    using len ne parse_task_entries_render [OF assms]
    by (simp add: parse_TASKS_def ifld_def present_def rest_def)
  finally show ?thesis .
qed

theorem tasks_roundtrip_witness:
  "parse_message ''now'' (text_line [''TASKS'', fmt_dec 2]
      (py_join '','' (map render_task [(''input.device'', 20, ''wait'', ''task''),
                                       (''My Shell, 1'', - 5, ''run'', ''proc'')]))) =
    msg [(''type'', VStr ''TASKS''), (''count'', VInt 2),
         (''tasks'', VList (map task_value [(''input.device'', 20, ''wait'', ''task''),
                                            (''My Shell, 1'', - 5, ''run'', ''proc'')]))]"
  by (rule tasks_roundtrip) (simp_all add: wf_task_def word_text_def is_space_def)

section \<open>Messages the parser loses\<close>

text \<open>
  The resource and performance reports are lost: the bridge sends
  \<open>RESOURCES|client|count|entries\<close> and \<open>PERF|client|avg|min|max|count|sections\<close>, the line
  is cut at every bar, and the branches look for further bars inside the third part, where
  there can be none. So every RESOURCES message comes out with an empty resource list and
  every PERF message with minimum, maximum and frame count 0 and no sections, whatever the
  line says.
\<close>

theorem reports_lost:
  assumes "parse_message now line = Inr (Some d)"
  shows "(map_of d ''type'' = Some (VStr ''RESOURCES'') \<longrightarrow> map_of d ''resources'' = Some (VList [])) \<and>
         (map_of d ''type'' = Some (VStr ''PERF'') \<longrightarrow>
            map_of d ''frameMin'' = Some (VInt 0) \<and> map_of d ''frameMax'' = Some (VInt 0) \<and>
            map_of d ''frameCount'' = Some (VInt 0) \<and> map_of d ''sections'' = Some (VList []))"
proof -
  let ?ps = "split_char (CHR ''|'') line"
  have nobar: "CHR ''|'' \<notin> set (fld ?ps 2 [])"
    by (auto simp: fld_def dest: split_char_parts [OF nth_mem])
  have res: "map_of d' ''resources'' = Some (VList [])"
    if "parse_RESOURCES ?ps = Inr (Some d')" for d'
    using that nobar by (auto simp: parse_RESOURCES_def fld_def [of "[_]"] Let_def numeral_eq_Suc)
  have perf: "map_of d' ''frameMin'' = Some (VInt 0) \<and> map_of d' ''frameMax'' = Some (VInt 0) \<and>
      map_of d' ''frameCount'' = Some (VInt 0) \<and> map_of d' ''sections'' = Some (VList [])"
    if "parse_PERF ?ps = Inr (Some d')" for d'
    using that nobar
    by (auto simp: parse_PERF_def split_char_no_sep ifld_def present_def Let_def)
  have ty: "branch_type (hd ?ps) = t \<Longrightarrow> t \<noteq> ''LOG'' \<Longrightarrow> hd ?ps = t" for t
    by (simp add: branch_type_def split: if_splits)
  have R: "hd ?ps = ''RESOURCES'' \<Longrightarrow> parse_RESOURCES ?ps = Inr (Some d)"
    and P: "hd ?ps = ''PERF'' \<Longrightarrow> parse_PERF ?ps = Inr (Some d)"
    using assms by (simp_all add: parse_message_def Let_def parse_table_def)
  have "map_of d ''type'' = Some (VStr (branch_type (hd ?ps)))"
    using assms table_has_type [of ?ps now line]
    by (fastforce elim!: parse_message_cases simp: list_all_iff has_type_def)
  then show ?thesis
    using res [OF R] perf [OF P] ty [of "''RESOURCES''"] ty [of "''PERF''"] by auto
qed

theorem reports_lost_witness:
  "map_of [(''type'', VStr ''RESOURCES''), (''client'', VStr ''app''), (''count'', VInt 1),
           (''resources'', VList [])] ''resources'' = Some (VList [])"
proof -
  have "parse_message ''now'' ''RESOURCES|app|1|mem:buf:00200000:64:OPEN'' =
      Inr (Some [(''type'', VStr ''RESOURCES''), (''client'', VStr ''app''), (''count'', VInt 1),
                 (''resources'', VList [])])"
    by code_simp
  from reports_lost [OF this] show ?thesis by simp
qed

text \<open>The entry the bridge writes for a tracked process.\<close>

definition render_proc :: "int \<Rightarrow> string \<Rightarrow> string \<Rightarrow> string" where
  "render_proc i cmd st = fmt_dec i @ '':'' @ cmd @ '':'' @ st"

definition proc_value :: "int \<Rightarrow> string \<Rightarrow> string \<Rightarrow> pyval" where
  "proc_value i cmd st = VDict [(''id'', VInt i), (''command'', VStr cmd), (''status'', VStr st)]"

lemma split_max_append:
  "c \<notin> set p \<Longrightarrow> split_max c (Suc n) (p @ c # s) = p # split_max c n s"
  by (simp add: takeWhile_append2 dropWhile_append2 flip: before_char_def after_char_def)
     (simp add: before_char_append after_char_append)

lemma split_max_none: "c \<notin> set s \<Longrightarrow> split_max c n s = [s]"
  by (cases n) auto

lemma proc_entry_render:
  assumes "st \<noteq> []" and "\<not> is_space (last st)"
  shows "proc_entry (render_proc i cmd st) =
    Some (if CHR '':'' \<in> set cmd
          then proc_value i (before_char (CHR '':'') cmd) (after_char (CHR '':'') cmd @ '':'' @ st)
          else proc_value i cmd st)"
proof -
  have hd: "\<not> is_space (hd (fmt_dec i))"
    using fmt_dec_alnum alnum_char_not_space by (metis fmt_dec_not_Nil hd_in_set)
  have strip: "py_strip (render_proc i cmd st) = render_proc i cmd st"
    by (rule py_strip_ends) (use assms hd in \<open>simp_all add: render_proc_def\<close>)
  have nc: "CHR '':'' \<notin> set (fmt_dec i)"
    using fmt_dec_alnum alnum_char_neq(3) by blast
  have "split_max (CHR '':'') 1 (cmd @ '':'' @ st) =
      (if CHR '':'' \<in> set cmd
       then [before_char (CHR '':'') cmd, after_char (CHR '':'') cmd @ '':'' @ st] else [cmd, st])"
  proof (cases "CHR '':'' \<in> set cmd")
    case True
    let ?a = "before_char (CHR '':'') cmd" and ?b = "after_char (CHR '':'') cmd"
    have "CHR '':'' \<notin> set ?a"
      by (auto simp: before_char_def dest: set_takeWhileD)
    then have "split_max (CHR '':'') (Suc 0) (?a @ CHR '':'' # ?b @ '':'' @ st) = [?a, ?b @ '':'' @ st]"
      by (subst split_max_append) simp_all
    moreover have "cmd @ '':'' @ st = ?a @ CHR '':'' # ?b @ '':'' @ st"
      using before_after_char [OF True] by (metis append_Cons append_assoc)
    ultimately show ?thesis using True by (simp only: One_nat_def if_True)
  next
    case False
    then show ?thesis using split_max_append [of "CHR '':''" cmd 0 st] by simp
  qed
  then have "split_max (CHR '':'') 2 (render_proc i cmd st) =
      fmt_dec i # (if CHR '':'' \<in> set cmd
       then [before_char (CHR '':'') cmd, after_char (CHR '':'') cmd @ '':'' @ st] else [cmd, st])"
    using split_max_append [OF nc, of 1 "cmd @ '':'' @ st"] by (simp add: render_proc_def numeral_2_eq_2)
  then show ?thesis
    by (simp add: proc_entry_def strip Let_def proc_value_def) (simp add: render_proc_def)
qed

text \<open>
  The process list garbles AmigaDOS paths: an entry of PROCLIST comes back with its
  command and status exactly when the command contains no colon. A command such as
  \<open>SYS:Prefs/Time\<close> is cut at its own colon and the rest is taken for the status.
\<close>

theorem proclist_colon:
  assumes "st \<noteq> []" and "\<not> is_space (last st)" and "CHR '':'' \<notin> set st"
  shows "proc_entry (render_proc i cmd st) = Some (proc_value i cmd st) \<longleftrightarrow> CHR '':'' \<notin> set cmd"
  using assms by (auto simp: proc_entry_render proc_value_def)

theorem proclist_colon_witness:
  "proc_entry (render_proc 3 ''SYS:Prefs/Time'' ''running'') \<noteq>
     Some (proc_value 3 ''SYS:Prefs/Time'' ''running'')"
  using proclist_colon [of "''running''" 3 "''SYS:Prefs/Time''"] by (simp add: is_space_def)

end
