(* ===== verification/Protocol_Format.thy ===== *)
theory Protocol_Format
  imports Protocol
begin

text \<open>
  The other direction of the bridge protocol (\<open>amiga_devbench/protocol.py\<close>):
  \<open>format_command\<close>, which turns a command dictionary into a protocol line, and the hex-dump
  formatter. A command is a dictionary of scalars, which is what its callers build; a missing
  key raises KeyError and an unknown type ValueError, as in the source.
\<close>

section \<open>Command dictionaries\<close>

datatype arg = AStr string | AInt int | ABool bool

type_synonym command = "(string \<times> arg) list"

text \<open>\<open>str(v)\<close> as an f-string writes it, and Python truth.\<close>

fun arg_str :: "arg \<Rightarrow> string" where
  "arg_str (AStr s) = s"
| "arg_str (AInt i) = fmt_dec i"
| "arg_str (ABool b) = (if b then ''True'' else ''False'')"

fun arg_true :: "arg \<Rightarrow> bool" where
  "arg_true (AStr s) = (s \<noteq> [])"
| "arg_true (AInt i) = (i \<noteq> 0)"
| "arg_true (ABool b) = b"

type_synonym piece = "command \<Rightarrow> string res"

text \<open>\<open>cmd['k']\<close> and \<open>cmd.get('k', d)\<close> inside an f-string.\<close>

definition req :: "string \<Rightarrow> piece" where
  "req k cmd = (case map_of cmd k of None \<Rightarrow> Inl (KeyError k) | Some v \<Rightarrow> Inr (arg_str v))"

definition opt :: "string \<Rightarrow> arg \<Rightarrow> piece" where
  "opt k d cmd = Inr (arg_str (case map_of cmd k of None \<Rightarrow> d | Some v \<Rightarrow> v))"

definition flag_set :: "string \<Rightarrow> command \<Rightarrow> bool" where
  "flag_set k cmd = (case map_of cmd k of None \<Rightarrow> False | Some v \<Rightarrow> arg_true v)"

text \<open>\<open>f"T|{...}|{...}"\<close>: the pieces are evaluated from left to right.\<close>

definition fields :: "string \<Rightarrow> piece list \<Rightarrow> piece" where
  "fields t pieces cmd =
     res_bind (res_map (\<lambda>p. p cmd) pieces) (\<lambda>vs. Inr (py_join ''|'' (t # vs)))"

section \<open>\<open>format_command\<close>\<close>

text \<open>The chain of tests and branches, in the order of the source, in four stretches.\<close>

definition format_table1 :: "(string \<times> piece) list" where
  "format_table1 =
     [(''PING'', fields ''PING'' []),
      (''GETVAR'', fields ''GETVAR'' [req ''name'']),
      (''SETVAR'', fields ''SETVAR'' [req ''name'', req ''value'']),
      (''INSPECT'', fields ''INSPECT'' [req ''address'', req ''size'']),
      (''EXEC'', fields ''EXEC'' [req ''id'', req ''expression'']),
      (''LISTCLIENTS'', fields ''LISTCLIENTS'' []),
      (''LISTTASKS'', fields ''LISTTASKS'' []),
      (''LISTLIBS'', fields ''LISTLIBS'' []),
      (''LISTDEVS'', fields ''LISTDEVS'' []),
      (''LISTVOLUMES'', fields ''LISTVOLUMES'' []),
      (''LISTDIR'', fields ''LISTDIR'' [req ''path'', opt ''offset'' (AInt 0)]),
      (''READFILE'', fields ''READFILE'' [req ''path'', req ''offset'', req ''size'']),
      (''WRITEFILE'', fields ''WRITEFILE'' [req ''path'', req ''offset'', req ''hexData'']),
      (''FILEINFO'', fields ''FILEINFO'' [req ''path'']),
      (''DELETEFILE'', fields ''DELETEFILE'' [req ''path'']),
      (''MAKEDIR'', fields ''MAKEDIR'' [req ''path'']),
      (''LAUNCH'', fields ''LAUNCH'' [req ''id'', req ''command'']),
      (''DOSCOMMAND'', fields ''DOSCOMMAND'' [req ''id'', req ''command'']),
      (''RUN'', fields ''RUN'' [req ''id'', req ''command'']),
      (''BREAK'', fields ''BREAK'' [req ''name'']),
      (''LISTHOOKS'', fields ''LISTHOOKS'' [opt ''client'' (AStr [])]),
      (''CALLHOOK'', fields ''CALLHOOK''
         [req ''id'', req ''client'', req ''hook'', opt ''args'' (AStr [])]),
      (''LISTMEMREGS'', fields ''LISTMEMREGS'' [opt ''client'' (AStr [])]),
      (''READMEMREG'', fields ''READMEMREG'' [req ''client'', req ''region'']),
      (''CLIENTINFO'', fields ''CLIENTINFO'' [req ''client'']),
      (''STOP'', \<lambda>cmd. if flag_set ''signal'' cmd
         then fields ''STOP'' [req ''name'', req ''signal''] cmd
         else fields ''STOP'' [req ''name''] cmd),
      (''SCRIPT'', fields ''SCRIPT'' [req ''id'', req ''script'']),
      (''WRITEMEM'', fields ''WRITEMEM'' [req ''address'', req ''hexData'']),
      (''SHUTDOWN'', fields ''SHUTDOWN'' []),
      (''SCREENSHOT'', \<lambda>cmd. if flag_set ''window'' cmd
         then fields ''SCREENSHOT'' [req ''window''] cmd else fields ''SCREENSHOT'' [] cmd)]"

definition format_table2 :: "(string \<times> piece) list" where
  "format_table2 =
     [(''PALETTE'', fields ''PALETTE'' []),
      (''SETPALETTE'', fields ''SETPALETTE'' [req ''index'', req ''rgb'']),
      (''COPPERLIST'', fields ''COPPERLIST'' []),
      (''SPRITES'', fields ''SPRITES'' []),
      (''LISTRESOURCES'', fields ''LISTRESOURCES'' [req ''client'']),
      (''GETPERF'', fields ''GETPERF'' [req ''client'']),
      (''LASTCRASH'', fields ''LASTCRASH'' []),
      (''LISTWINDOWS'', fields ''LISTWINDOWS'' []),
      (''CRASHINIT'', fields ''CRASHINIT'' []),
      (''CRASHREMOVE'', fields ''CRASHREMOVE'' []),
      (''CRASHTEST'', fields ''CRASHTEST'' []),
      (''MEMMAP'', fields ''MEMMAP'' []),
      (''STACKINFO'', fields ''STACKINFO'' [req ''task'']),
      (''CHIPREGS'', fields ''CHIPREGS'' []),
      (''READREGS'', fields ''READREGS'' []),
      (''SEARCH'', fields ''SEARCH'' [req ''address'', req ''size'', req ''pattern'']),
      (''LIBINFO'', fields ''LIBINFO'' [req ''name'']),
      (''DEVINFO'', fields ''DEVINFO'' [req ''name'']),
      (''LIBFUNCS'', fields ''LIBFUNCS'' [req ''name'', req ''libtype'', opt ''start'' (AInt 0)]),
      (''SNOOPSTART'', fields ''SNOOPSTART'' []),
      (''SNOOPSTOP'', fields ''SNOOPSTOP'' []),
      (''SNOOPSTATUS'', fields ''SNOOPSTATUS'' []),
      (''AUDIOCHANNELS'', fields ''AUDIOCHANNELS'' []),
      (''AUDIOSAMPLE'', fields ''AUDIOSAMPLE'' [req ''address'', req ''size'']),
      (''LISTSCREENS'', fields ''LISTSCREENS'' []),
      (''LISTWINDOWS2'', fields ''LISTWINDOWS2'' [opt ''screen'' (AStr [])]),
      (''LISTGADGETS'', fields ''LISTGADGETS'' [req ''window'']),
      (''INPUTKEY'', fields ''INPUTKEY'' [req ''rawkey'', req ''direction'']),
      (''INPUTMOVE'', fields ''INPUTMOVE'' [req ''dx'', req ''dy'']),
      (''INPUTPOS'', fields ''INPUTPOS'' [req ''x'', req ''y'']),
      (''INPUTCLICK'', fields ''INPUTCLICK'' [req ''button'', req ''direction'']),
      (''WINACTIVATE'', fields ''WINACTIVATE'' [req ''window'']),
      (''WINTOFRONT'', fields ''WINTOFRONT'' [req ''window'']),
      (''WINTOBACK'', fields ''WINTOBACK'' [req ''window'']),
      (''WINZIP'', fields ''WINZIP'' [req ''window'']),
      (''WINMOVE'', fields ''WINMOVE'' [req ''window'', req ''x'', req ''y'']),
      (''WINSIZE'', fields ''WINSIZE'' [req ''window'', req ''width'', req ''height'']),
      (''SCRTOFRONT'', fields ''SCRTOFRONT'' [req ''screen'']),
      (''SCRTOBACK'', fields ''SCRTOBACK'' [req ''screen''])]"

definition format_table3 :: "(string \<times> piece) list" where
  "format_table3 =
     [(''LISTFONTS'', fields ''LISTFONTS'' []),
      (''FONTINFO'', fields ''FONTINFO'' [req ''name'', req ''size'']),
      (''CHIPLOGSTART'', fields ''CHIPLOGSTART'' []),
      (''CHIPLOGSTOP'', fields ''CHIPLOGSTOP'' []),
      (''CHIPLOGSNAPSHOT'', fields ''CHIPLOGSNAPSHOT'' []),
      (''POOLSTART'', fields ''POOLSTART'' []),
      (''POOLSTOP'', fields ''POOLSTOP'' []),
      (''POOLS'', fields ''POOLS'' []),
      (''CLIPGET'', fields ''CLIPGET'' []),
      (''CLIPSET'', fields ''CLIPSET'' [req ''text'']),
      (''AREXXPORTS'', fields ''AREXXPORTS'' []),
      (''AREXXSEND'', fields ''AREXXSEND'' [req ''port'', req ''command'']),
      (''CAPABILITIES'', fields ''CAPABILITIES'' []),
      (''PROCLIST'', fields ''PROCLIST'' []),
      (''PROCSTAT'', fields ''PROCSTAT'' [req ''id'']),
      (''SIGNAL'', fields ''SIGNAL'' [req ''id'', req ''sigType'']),
      (''TAIL'', fields ''TAIL'' [req ''path'']),
      (''STOPTAIL'', fields ''STOPTAIL'' []),
      (''CHECKSUM'', fields ''CHECKSUM'' [req ''path'']),
      (''ASSIGNS'', fields ''ASSIGNS'' []),
      (''ASSIGN'', \<lambda>cmd. if flag_set ''mode'' cmd
         then fields ''ASSIGN'' [req ''name'', req ''path'', req ''mode''] cmd
         else fields ''ASSIGN'' [req ''name'', req ''path''] cmd),
      (''PROTECT'', \<lambda>cmd. if flag_set ''bits'' cmd
         then fields ''PROTECT'' [req ''path'', req ''bits''] cmd
         else fields ''PROTECT'' [req ''path''] cmd),
      (''RENAME'', fields ''RENAME'' [req ''oldPath'', req ''newPath'']),
      (''SETCOMMENT'', fields ''SETCOMMENT'' [req ''path'', req ''comment'']),
      (''COPY'', fields ''COPY'' [req ''src'', req ''dst'']),
      (''APPEND'', fields ''APPEND'' [req ''path'', req ''hexData'']),
      (''GETENV'', \<lambda>cmd. if flag_set ''archive'' cmd
         then fields ''GETENV'' [req ''name'', \<lambda>_. Inr ''1''] cmd
         else fields ''GETENV'' [req ''name''] cmd),
      (''SETENV'', \<lambda>cmd. if flag_set ''archive'' cmd
         then fields ''SETENV'' [req ''name'', req ''value'', \<lambda>_. Inr ''1''] cmd
         else fields ''SETENV'' [req ''name'', req ''value''] cmd),
      (''SETDATE'', fields ''SETDATE'' [req ''path'', req ''days'', req ''mins'', req ''ticks''])]"

definition format_table4 :: "(string \<times> piece) list" where
  "format_table4 =
     [(''VOLUMES'', fields ''VOLUMES'' []),
      (''PORTS'', fields ''PORTS'' []),
      (''SYSINFO'', fields ''SYSINFO'' []),
      (''UPTIME'', fields ''UPTIME'' []),
      (''VERSION'', fields ''VERSION'' []),
      (''REBOOT'', fields ''REBOOT'' []),
      (''DBGATTACH'', fields ''DBGATTACH'' [req ''target'']),
      (''DBGDETACH'', fields ''DBGDETACH'' []),
      (''BPSET'', fields ''BPSET'' [req ''address'']),
      (''BPCLEAR'', fields ''BPCLEAR'' [req ''id'']),
      (''BPLIST'', fields ''BPLIST'' []),
      (''DBGSTEP'', fields ''DBGSTEP'' []),
      (''DBGNEXT'', fields ''DBGNEXT'' []),
      (''DBGCONT'', fields ''DBGCONT'' []),
      (''DBGREGS'', fields ''DBGREGS'' []),
      (''DBGSETREG'', fields ''DBGSETREG'' [req ''reg'', req ''value'']),
      (''DBGBT'', fields ''DBGBT'' []),
      (''DBGSTATUS'', fields ''DBGSTATUS'' []),
      (''DBGBREAK'', fields ''DBGBREAK'' [])]"

definition format_table :: "(string \<times> piece) list" where
  "format_table = format_table1 @ format_table2 @ format_table3 @ format_table4"

definition format_command :: "command \<Rightarrow> string res" where
  "format_command cmd =
     (case map_of cmd ''type'' of
        None \<Rightarrow> Inl (KeyError ''type'')
      | Some (AStr t) \<Rightarrow>
          (case map_of format_table t of None \<Rightarrow> Inl ValueError | Some p \<Rightarrow> p cmd)
      | Some _ \<Rightarrow> Inl ValueError)"

lemmas format_table_defs =
  format_table_def format_table1_def format_table2_def format_table3_def format_table4_def

section \<open>Shape of the lines\<close>

text \<open>A piece whose line is \<open>t\<close> followed by values, each of them the text of an argument.\<close>

definition arg_value :: "command \<Rightarrow> string \<Rightarrow> bool" where
  "arg_value cmd v \<longleftrightarrow>
     (\<exists>k a. map_of cmd k = Some a \<and> v = arg_str a) \<or> v \<in> {[], ''0'', ''1''}"

definition shaped :: "string \<Rightarrow> piece \<Rightarrow> bool" where
  "shaped t p \<longleftrightarrow>
     (\<forall>cmd. (\<forall>line. p cmd = Inr line \<longrightarrow>
               (\<exists>vs. line = py_join ''|'' (t # vs) \<and> (\<forall>v \<in> set vs. arg_value cmd v))) \<and>
            (\<forall>e. p cmd = Inl e \<longrightarrow> (\<exists>k. e = KeyError k \<and> map_of cmd k = None)))"

definition good_piece :: "piece \<Rightarrow> bool" where
  "good_piece p \<longleftrightarrow>
     (\<forall>cmd. (\<forall>v. p cmd = Inr v \<longrightarrow> arg_value cmd v) \<and>
            (\<forall>e. p cmd = Inl e \<longrightarrow> (\<exists>k. e = KeyError k \<and> map_of cmd k = None)))"

lemma good_req: "good_piece (req k)"
  by (auto simp: good_piece_def req_def arg_value_def split: option.splits)

lemma fmt_dec_small: "fmt_dec 0 = ''0''" "fmt_dec 1 = ''1''"
  by code_simp+

lemma good_opt: "arg_str d \<in> {[], ''0''} \<Longrightarrow> good_piece (opt k d)"
  by (auto simp: good_piece_def opt_def arg_value_def split: option.splits)

lemma good_one: "good_piece (\<lambda>_. Inr ''1'')"
  by (simp add: good_piece_def arg_value_def)

lemma shaped_fields:
  assumes "list_all good_piece pieces"
  shows "shaped t (fields t pieces)"
proof -
  have ok: "\<forall>v \<in> set vs. arg_value cmd v"
    if "res_map (\<lambda>p. p cmd) ps = Inr vs" "list_all good_piece ps" for cmd ps vs
    using that by (induction ps arbitrary: vs) (auto simp: res_inv good_piece_def)
  have bad: "\<exists>k. e = KeyError k \<and> map_of cmd k = None"
    if "res_map (\<lambda>p. p cmd) ps = Inl e" "list_all good_piece ps" for cmd ps e
    using that by (auto dest!: res_map_Inl simp: list_all_iff good_piece_def)
  show ?thesis
    using ok bad assms unfolding shaped_def fields_def by (fastforce simp: res_inv)
qed

lemma shaped_if:
  "shaped t p \<Longrightarrow> shaped t q \<Longrightarrow> shaped t (\<lambda>cmd. if b cmd then p cmd else q cmd)"
  by (auto simp: shaped_def)

lemma format_table_shaped: "list_all (\<lambda>(t, p). shaped t p) format_table"
  unfolding format_table_defs list_all_append list.pred_inject prod.case
  by (intro conjI TrueI shaped_if shaped_fields)
     (simp_all add: good_req good_opt good_one fmt_dec_small)

lemma map_of_shaped:
  assumes "map_of format_table t = Some p"
  shows "shaped t p"
  using format_table_shaped map_of_SomeD [OF assms] by (fastforce simp: list_all_iff)

lemma format_command_piece:
  "format_command cmd = Inr line \<Longrightarrow>
   \<exists>t p. map_of cmd ''type'' = Some (AStr t) \<and> map_of format_table t = Some p \<and> p cmd = Inr line"
  by (auto simp: format_command_def split: option.splits arg.splits)

lemma format_table_plain:
  "list_all (\<lambda>(t, p). list_all (\<lambda>c. alnum_char c \<and> c \<noteq> CHR 0x0A \<and> c \<noteq> CHR ''|'') t) format_table"
  unfolding format_table_defs list_all_append list.pred_inject prod.case
  by (simp add: alnum_char_def)

lemma command_type_plain:
  assumes "map_of format_table t = Some p"
  shows "CHR ''|'' \<notin> set t" and "CHR 0x0A \<notin> set t"
  using format_table_plain map_of_SomeD [OF assms] by (fastforce simp: list_all_iff)+

section \<open>The command grammar\<close>

text \<open>
  The commands of the protocol, said apart from the formatter: for each type the slots its line
  has after the type, in order. \<open>Arg k\<close> is the text of the argument \<open>k\<close>, which must be there;
  \<open>Default k d\<close> is its text, or \<open>d\<close> without it; \<open>Optional k\<close> is a field that is there only
  when the argument is there and true; \<open>Mark k m\<close> is the fixed text \<open>m\<close> under the same
  condition.
\<close>

datatype command_slot = Arg string | Default string string | Optional string | Mark string string

definition grammar :: "(string \<times> command_slot list) list" where
  "grammar =
     [(''PING'', []), (''GETVAR'', [Arg ''name'']), (''SETVAR'', [Arg ''name'', Arg ''value'']),
      (''INSPECT'', [Arg ''address'', Arg ''size'']),
      (''EXEC'', [Arg ''id'', Arg ''expression'']), (''LISTCLIENTS'', []), (''LISTTASKS'', []),
      (''LISTLIBS'', []), (''LISTDEVS'', []), (''LISTVOLUMES'', []),
      (''LISTDIR'', [Arg ''path'', Default ''offset'' ''0'']),
      (''READFILE'', [Arg ''path'', Arg ''offset'', Arg ''size'']),
      (''WRITEFILE'', [Arg ''path'', Arg ''offset'', Arg ''hexData'']),
      (''FILEINFO'', [Arg ''path'']), (''DELETEFILE'', [Arg ''path'']),
      (''MAKEDIR'', [Arg ''path'']), (''LAUNCH'', [Arg ''id'', Arg ''command'']),
      (''DOSCOMMAND'', [Arg ''id'', Arg ''command'']), (''RUN'', [Arg ''id'', Arg ''command'']),
      (''BREAK'', [Arg ''name'']), (''LISTHOOKS'', [Default ''client'' []]),
      (''CALLHOOK'', [Arg ''id'', Arg ''client'', Arg ''hook'', Default ''args'' []]),
      (''LISTMEMREGS'', [Default ''client'' []]),
      (''READMEMREG'', [Arg ''client'', Arg ''region'']), (''CLIENTINFO'', [Arg ''client'']),
      (''STOP'', [Arg ''name'', Optional ''signal'']),
      (''SCRIPT'', [Arg ''id'', Arg ''script'']),
      (''WRITEMEM'', [Arg ''address'', Arg ''hexData'']), (''SHUTDOWN'', []),
      (''SCREENSHOT'', [Optional ''window'']), (''PALETTE'', []),
      (''SETPALETTE'', [Arg ''index'', Arg ''rgb'']), (''COPPERLIST'', []), (''SPRITES'', []),
      (''LISTRESOURCES'', [Arg ''client'']), (''GETPERF'', [Arg ''client'']),
      (''LASTCRASH'', []), (''LISTWINDOWS'', []), (''CRASHINIT'', []), (''CRASHREMOVE'', []),
      (''CRASHTEST'', []), (''MEMMAP'', []), (''STACKINFO'', [Arg ''task'']), (''CHIPREGS'', []),
      (''READREGS'', []), (''SEARCH'', [Arg ''address'', Arg ''size'', Arg ''pattern'']),
      (''LIBINFO'', [Arg ''name'']), (''DEVINFO'', [Arg ''name'']),
      (''LIBFUNCS'', [Arg ''name'', Arg ''libtype'', Default ''start'' ''0'']),
      (''SNOOPSTART'', []), (''SNOOPSTOP'', []), (''SNOOPSTATUS'', []), (''AUDIOCHANNELS'', []),
      (''AUDIOSAMPLE'', [Arg ''address'', Arg ''size'']), (''LISTSCREENS'', []),
      (''LISTWINDOWS2'', [Default ''screen'' []]), (''LISTGADGETS'', [Arg ''window'']),
      (''INPUTKEY'', [Arg ''rawkey'', Arg ''direction'']),
      (''INPUTMOVE'', [Arg ''dx'', Arg ''dy'']), (''INPUTPOS'', [Arg ''x'', Arg ''y'']),
      (''INPUTCLICK'', [Arg ''button'', Arg ''direction'']), (''WINACTIVATE'', [Arg ''window'']),
      (''WINTOFRONT'', [Arg ''window'']), (''WINTOBACK'', [Arg ''window'']),
      (''WINZIP'', [Arg ''window'']), (''WINMOVE'', [Arg ''window'', Arg ''x'', Arg ''y'']),
      (''WINSIZE'', [Arg ''window'', Arg ''width'', Arg ''height'']),
      (''SCRTOFRONT'', [Arg ''screen'']), (''SCRTOBACK'', [Arg ''screen'']), (''LISTFONTS'', []),
      (''FONTINFO'', [Arg ''name'', Arg ''size'']), (''CHIPLOGSTART'', []),
      (''CHIPLOGSTOP'', []), (''CHIPLOGSNAPSHOT'', []), (''POOLSTART'', []), (''POOLSTOP'', []),
      (''POOLS'', []), (''CLIPGET'', []), (''CLIPSET'', [Arg ''text'']), (''AREXXPORTS'', []),
      (''AREXXSEND'', [Arg ''port'', Arg ''command'']), (''CAPABILITIES'', []),
      (''PROCLIST'', []), (''PROCSTAT'', [Arg ''id'']),
      (''SIGNAL'', [Arg ''id'', Arg ''sigType'']), (''TAIL'', [Arg ''path'']),
      (''STOPTAIL'', []), (''CHECKSUM'', [Arg ''path'']), (''ASSIGNS'', []),
      (''ASSIGN'', [Arg ''name'', Arg ''path'', Optional ''mode'']),
      (''PROTECT'', [Arg ''path'', Optional ''bits'']),
      (''RENAME'', [Arg ''oldPath'', Arg ''newPath'']),
      (''SETCOMMENT'', [Arg ''path'', Arg ''comment'']), (''COPY'', [Arg ''src'', Arg ''dst'']),
      (''APPEND'', [Arg ''path'', Arg ''hexData'']),
      (''GETENV'', [Arg ''name'', Mark ''archive'' ''1'']),
      (''SETENV'', [Arg ''name'', Arg ''value'', Mark ''archive'' ''1'']),
      (''SETDATE'', [Arg ''path'', Arg ''days'', Arg ''mins'', Arg ''ticks'']),
      (''VOLUMES'', []), (''PORTS'', []), (''SYSINFO'', []), (''UPTIME'', []), (''VERSION'', []),
      (''REBOOT'', []), (''DBGATTACH'', [Arg ''target'']), (''DBGDETACH'', []),
      (''BPSET'', [Arg ''address'']), (''BPCLEAR'', [Arg ''id'']), (''BPLIST'', []),
      (''DBGSTEP'', []), (''DBGNEXT'', []), (''DBGCONT'', []), (''DBGREGS'', []),
      (''DBGSETREG'', [Arg ''reg'', Arg ''value'']), (''DBGBT'', []), (''DBGSTATUS'', []),
      (''DBGBREAK'', [])]"

primrec slot_read :: "command \<Rightarrow> command_slot \<Rightarrow> string list res" where
  "slot_read cmd (Arg k) =
     (case map_of cmd k of None \<Rightarrow> Inl (KeyError k) | Some v \<Rightarrow> Inr [arg_str v])"
| "slot_read cmd (Default k d) =
     Inr [case map_of cmd k of None \<Rightarrow> d | Some v \<Rightarrow> arg_str v]"
| "slot_read cmd (Optional k) =
     Inr (case map_of cmd k of None \<Rightarrow> [] | Some v \<Rightarrow> if arg_true v then [arg_str v] else [])"
| "slot_read cmd (Mark k m) =
     Inr (case map_of cmd k of None \<Rightarrow> [] | Some v \<Rightarrow> if arg_true v then [m] else [])"

text \<open>The fields of a command, or the first key it lacks.\<close>

primrec slots_read :: "command \<Rightarrow> command_slot list \<Rightarrow> string list res" where
  "slots_read cmd [] = Inr []"
| "slots_read cmd (s # ss) =
     res_bind (slot_read cmd s) (\<lambda>v. res_bind (slots_read cmd ss) (\<lambda>vs. Inr (v @ vs)))"

definition command_fields :: "command \<Rightarrow> string list res" where
  "command_fields cmd =
     (case map_of cmd ''type'' of
        None \<Rightarrow> Inl (KeyError ''type'')
      | Some (AStr t) \<Rightarrow>
          (case map_of grammar t of
             None \<Rightarrow> Inl ValueError
           | Some ss \<Rightarrow> res_bind (slots_read cmd ss) (\<lambda>vs. Inr (t # vs)))
      | Some _ \<Rightarrow> Inl ValueError)"

text \<open>A branch of the formatter that writes the line of its grammar entry.\<close>

definition writes_line :: "string \<Rightarrow> piece \<Rightarrow> command_slot list \<Rightarrow> bool" where
  "writes_line t p ss \<longleftrightarrow>
     (\<forall>cmd. p cmd = res_bind (slots_read cmd ss) (\<lambda>vs. Inr (py_join ''|'' (t # vs))))"

definition writes_slot :: "piece \<Rightarrow> command_slot \<Rightarrow> bool" where
  "writes_slot p s \<longleftrightarrow> (\<forall>cmd. slot_read cmd s = res_bind (p cmd) (\<lambda>v. Inr [v]))"

lemma writes_req: "writes_slot (req k) (Arg k)"
  by (simp add: writes_slot_def req_def split: option.split)

lemma writes_opt: "arg_str d = e \<Longrightarrow> writes_slot (opt k d) (Default k e)"
  by (auto simp: writes_slot_def opt_def split: option.split)

lemma writes_fields:
  assumes "list_all2 writes_slot ps ss"
  shows "writes_line t (fields t ps) ss"
proof -
  have "res_map (\<lambda>p. p cmd) ps = slots_read cmd ss" for cmd
    using assms
    by (induction rule: list_all2_induct) (simp_all add: writes_slot_def res_bind_assoc)
  then show ?thesis by (simp add: writes_line_def fields_def)
qed

text \<open>The branches with a field that may be missing.\<close>

lemmas writes_flag_defs = writes_line_def fields_def req_def flag_set_def

lemma writes_optional:
  "writes_line t (\<lambda>cmd. if flag_set k cmd then fields t [req k] cmd else fields t [] cmd) [Optional k]"
  "writes_line t (\<lambda>cmd. if flag_set k cmd then fields t [req a, req k] cmd else fields t [req a] cmd)
     [Arg a, Optional k]"
  "writes_line t (\<lambda>cmd. if flag_set k cmd then fields t [req a, req b, req k] cmd
     else fields t [req a, req b] cmd) [Arg a, Arg b, Optional k]"
  by (auto simp: writes_flag_defs split: option.split)

lemma writes_mark:
  "writes_line t (\<lambda>cmd. if flag_set k cmd then fields t [req a, \<lambda>_. Inr m] cmd
     else fields t [req a] cmd) [Arg a, Mark k m]"
  "writes_line t (\<lambda>cmd. if flag_set k cmd then fields t [req a, req b, \<lambda>_. Inr m] cmd
     else fields t [req a, req b] cmd) [Arg a, Arg b, Mark k m]"
  by (auto simp: writes_flag_defs split: option.split)

lemma table_follows_grammar:
  "list_all2 (\<lambda>(t, p) (u, ss). t = u \<and> writes_line t p ss) format_table grammar"
  unfolding format_table_defs grammar_def append_Cons append_Nil list_all2_Cons list.rel_inject
    prod.case
  by (intro conjI refl list.rel_intros writes_optional writes_mark writes_fields list_all2_Cons [THEN iffD2]
        list_all2_Nil [THEN iffD2] TrueI)
     (simp_all add: writes_req writes_opt fmt_dec_small)

lemma map_of_follows:
  assumes "list_all2 (\<lambda>(t, p) (u, ss). t = u \<and> R t p ss) ps gs"
  shows "rel_option (R t) (map_of ps t) (map_of gs t)"
  using assms by (induction rule: list_all2_induct) auto

lemma format_command_grammar:
  "format_command cmd =
     res_bind (command_fields cmd) (\<lambda>vs. Inr (py_join ''|'' vs))"
proof (cases "map_of cmd ''type''")
  case (Some v)
  show ?thesis
  proof (cases v)
    case (AStr t)
    have "rel_option (writes_line t) (map_of format_table t) (map_of grammar t)"
      by (rule map_of_follows [OF table_follows_grammar])
    then show ?thesis
      using Some AStr
      by (cases rule: option.rel_cases)
         (simp_all add: format_command_def command_fields_def writes_line_def res_bind_assoc)
  qed (simp_all add: Some format_command_def command_fields_def)
qed (simp add: format_command_def command_fields_def)

text \<open>The texts the grammar itself puts into a line.\<close>

primrec slot_text :: "command_slot \<Rightarrow> string" where
  "slot_text (Arg k) = []"
| "slot_text (Default k d) = d"
| "slot_text (Optional k) = []"
| "slot_text (Mark k m) = m"

lemma grammar_plain:
  "list_all (\<lambda>(t, ss). CHR ''|'' \<notin> set t \<and> list_all (\<lambda>f. CHR ''|'' \<notin> set (slot_text f)) ss) grammar"
  by (simp add: grammar_def)

lemma slots_read_plain:
  assumes "\<forall>k s. map_of cmd k = Some (AStr s) \<longrightarrow> CHR ''|'' \<notin> set s"
    and "list_all (\<lambda>f. CHR ''|'' \<notin> set (slot_text f)) ss" and "slots_read cmd ss = Inr vs"
  shows "\<forall>v \<in> set vs. CHR ''|'' \<notin> set v"
proof -
  have a: "CHR ''|'' \<notin> set (arg_str a)" if "map_of cmd k = Some a" for k a
    using assms(1) that fmt_dec_alnum [of "CHR ''|''"] by (cases a) (auto simp: alnum_char_def)
  have f: "\<forall>v \<in> set ws. CHR ''|'' \<notin> set v"
    if "CHR ''|'' \<notin> set (slot_text f)" "slot_read cmd f = Inr ws" for f ws
    using that a by (cases f) (auto split: option.splits if_splits)
  show ?thesis
    using assms(2,3)
  proof (induction ss arbitrary: vs)
    case (Cons f ss)
    then obtain ws us where w: "slot_read cmd f = Inr ws" "slots_read cmd ss = Inr us" "vs = ws @ us"
      by (auto simp: res_inv)
    have "\<forall>v \<in> set ws. CHR ''|'' \<notin> set v" "\<forall>v \<in> set us. CHR ''|'' \<notin> set v"
      using Cons.prems(1) by (intro f [OF _ w(1)] Cons.IH [OF _ w(2)]; simp)+
    then show ?case unfolding w(3) set_append by blast
  qed simp
qed

lemma command_fields_plain:
  assumes "\<forall>k s. map_of cmd k = Some (AStr s) \<longrightarrow> CHR ''|'' \<notin> set s"
    and "command_fields cmd = Inr vs"
  shows "vs \<noteq> []" and "\<forall>v \<in> set vs. CHR ''|'' \<notin> set v"
proof -
  from assms(2) obtain t ss us where t: "map_of grammar t = Some ss"
    and us: "slots_read cmd ss = Inr us" and vs: "vs = t # us"
    by (auto simp: command_fields_def res_inv split: option.splits arg.splits)
  have "CHR ''|'' \<notin> set t" "list_all (\<lambda>f. CHR ''|'' \<notin> set (slot_text f)) ss"
    using grammar_plain map_of_SomeD [OF t] by (fastforce simp: list_all_iff)+
  then show "vs \<noteq> []" "\<forall>v \<in> set vs. CHR ''|'' \<notin> set v"
    using slots_read_plain [OF assms(1) _ us] by (simp_all add: vs)
qed

text \<open>
  C5. What the bridge reads of a command: if no string argument contains a vertical bar, the
  line \<open>format_command\<close> writes is cut by the receiver into exactly the fields the grammar names
  for the command's type: the type, then the texts of its arguments, in the grammar's order, a
  default where an argument with one is missing, an optional field only where its argument is
  set. \<open>format_command\<close> raises KeyError with the first key the grammar requires and the command
  lacks, and ValueError exactly for a type that is not in the grammar.
\<close>

theorem format_command_fields:
  assumes "\<forall>k s. map_of cmd k = Some (AStr s) \<longrightarrow> CHR ''|'' \<notin> set s"
  shows "res_bind (format_command cmd) (\<lambda>line. Inr (split_char (CHR ''|'') line)) =
    command_fields cmd"
proof (cases "command_fields cmd")
  case (Inr vs)
  then have "split_char (CHR ''|'') (py_join ''|'' vs) = vs"
    using command_fields_plain [OF assms Inr] by (intro split_join) simp_all
  then show ?thesis by (simp add: format_command_grammar Inr)
qed (simp add: format_command_grammar)

theorem format_command_fields_witness:
  "res_bind (format_command [(''type'', AStr ''SETVAR''), (''value'', AInt 7), (''name'', AStr ''lives'')])
     (\<lambda>line. Inr (split_char (CHR ''|'') line)) = Inr [''SETVAR'', ''lives'', ''7'']"
proof -
  have "command_fields [(''type'', AStr ''SETVAR''), (''value'', AInt 7), (''name'', AStr ''lives'')] =
      Inr [''SETVAR'', ''lives'', ''7'']"
    by code_simp
  then show ?thesis
    by (subst format_command_fields) (auto split: if_splits)
qed

lemma set_py_join: "set (py_join sep ps) \<subseteq> set sep \<union> (\<Union>p \<in> set ps. set p)"
  by (induction sep ps rule: py_join.induct) auto

text \<open>
  Framing: if no string argument contains a newline, a command is one line, so the
  newline \<open>send_raw\<close> appends is the only one the bridge sees.
\<close>

theorem format_command_one_line:
  assumes "format_command cmd = Inr line"
    and "\<forall>k s. map_of cmd k = Some (AStr s) \<longrightarrow> CHR 0x0A \<notin> set s"
  shows "CHR 0x0A \<notin> set line"
proof -
  from format_command_piece [OF assms(1)] obtain t p where
    p: "map_of format_table t = Some p" "p cmd = Inr line"
    by blast
  from map_of_shaped [OF p(1)] p(2) obtain vs where
    vs: "line = py_join ''|'' (t # vs)" "\<forall>v \<in> set vs. arg_value cmd v"
    unfolding shaped_def by blast
  have "CHR 0x0A \<notin> set (arg_str a)" if "map_of cmd k = Some a" for k a
    using assms(2) that fmt_dec_alnum [of "CHR 0x0A"] alnum_char_neq(6) by (cases a) auto
  then have "\<forall>v \<in> set (t # vs). CHR 0x0A \<notin> set v"
    using vs(2) command_type_plain(2) [OF p(1)] by (auto simp: arg_value_def)
  then show ?thesis
    unfolding vs(1) using set_py_join [of "''|''" "t # vs"] by auto
qed

theorem format_command_one_line_witness:
  "CHR 0x0A \<notin> set ''GETVAR|ball_x''"
  by (rule format_command_one_line [where cmd = "[(''type'', AStr ''GETVAR''), (''name'', AStr ''ball_x'')]"])
     (code_simp, auto split: if_splits)

text \<open>
  Which commands are refused: an exception is a ValueError exactly when the type is not
  one of the known command names, and otherwise a KeyError for a key the dictionary lacks;
  so a command with a known type and all its keys is always written.
\<close>

theorem format_command_raises:
  assumes "format_command cmd = Inl e"
  shows "(e = ValueError \<longleftrightarrow>
            (\<exists>v. map_of cmd ''type'' = Some v \<and>
               (\<forall>t. v = AStr t \<longrightarrow> t \<notin> fst ` set format_table))) \<and>
         (e \<noteq> ValueError \<longrightarrow> (\<exists>k. e = KeyError k \<and> map_of cmd k = None))"
proof (cases "map_of cmd ''type''")
  case None
  with assms show ?thesis by (auto simp: format_command_def)
next
  case (Some v)
  show ?thesis
  proof (cases v)
    case (AStr t)
    show ?thesis
    proof (cases "map_of format_table t")
      case None
      then have "t \<notin> fst ` set format_table" by (simp add: map_of_eq_None_iff)
      with None AStr Some assms show ?thesis by (simp add: format_command_def)
    next
      case (Some p)
      then have "t \<in> fst ` set format_table"
        by (metis map_of_SomeD fst_conv image_eqI)
      moreover have "\<exists>k. e = KeyError k \<and> map_of cmd k = None"
        using map_of_shaped [OF Some] Some AStr \<open>map_of cmd ''type'' = Some v\<close> assms
        by (simp add: format_command_def shaped_def)
      ultimately show ?thesis
        using AStr \<open>map_of cmd ''type'' = Some v\<close> by auto
    qed
  qed (use Some assms in \<open>simp_all add: format_command_def\<close>)
qed

theorem format_command_raises_witness:
  "\<exists>k. KeyError ''name'' = KeyError k \<and> map_of [(''type'', AStr ''GETVAR'')] k = None"
proof -
  have "format_command [(''type'', AStr ''GETVAR'')] = Inl (KeyError ''name'')" by code_simp
  from format_command_raises [OF this] show ?thesis by simp
qed

text \<open>
  Clipboard text with a newline breaks the framing: the line written for it is read by the
  bridge as two lines, the clipboard is set to the part before the newline, and the rest is
  executed as a command of its own.
\<close>

theorem clipset_newline:
  assumes "CHR 0x0A \<notin> set a" and "CHR 0x0A \<notin> set b"
  shows "\<exists>line. format_command [(''type'', AStr ''CLIPSET''), (''text'', AStr (a @ CHR 0x0A # b))] =
      Inr line \<and> split_char (CHR 0x0A) line = [''CLIPSET|'' @ a, b]"
proof -
  have "split_char (CHR 0x0A) ((''CLIPSET|'' @ a) @ CHR 0x0A # b) = [''CLIPSET|'' @ a, b]"
    using assms by (subst split_char_append) (simp_all add: split_char_no_sep)
  then show ?thesis
    by (simp add: format_command_def format_table_defs fields_def req_def)
qed

theorem clipset_newline_witness:
  "\<exists>line. format_command [(''type'', AStr ''CLIPSET''), (''text'', AStr (''hello'' @ CHR 0x0A # ''REBOOT''))] =
      Inr line \<and> split_char (CHR 0x0A) line = [''CLIPSET|'' @ ''hello'', ''REBOOT'']"
  by (rule clipset_newline) simp_all

section \<open>Hex dumps\<close>

text \<open>\<open>s[i:i + n]\<close> for \<open>i\<close> in \<open>range(0, len(s), n)\<close>.\<close>

function chunks :: "nat \<Rightarrow> 'a list \<Rightarrow> 'a list list" where
  "chunks n s = (if n = 0 \<or> s = [] then [] else take n s # chunks n (drop n s))"
  by pat_completeness auto
termination by (relation "measure (\<lambda>(n, s). length s)") auto

declare chunks.simps [simp del]

definition ascii_char :: "string \<Rightarrow> char res" where
  "ascii_char h = res_bind (py_int 16 h) (\<lambda>byte.
     Inr (if 32 \<le> byte \<and> byte < 127 then char_of (nat byte) else CHR ''.''))"

definition hex_to_ascii :: "string \<Rightarrow> string res" where
  "hex_to_ascii hex_str = res_map ascii_char (chunks 2 hex_str)"

definition dump_line :: "int \<Rightarrow> string \<Rightarrow> string res" where
  "dump_line offset chunk =
     res_bind (hex_to_ascii chunk) (\<lambda>ascii_part.
       Inr (fmt_hex False 8 offset @ ''  '' @ fmt_left 48 (py_join '' '' (chunks 2 chunk)) @
            ''  '' @ ascii_part))"

definition format_hex_dump :: "string \<Rightarrow> string \<Rightarrow> string res" where
  "format_hex_dump address hex_data =
     res_bind (py_int 16 address) (\<lambda>addr.
     res_bind (res_map (\<lambda>(k, chunk). dump_line (addr + 16 * int k) chunk)
                       (enumerate 0 (chunks 32 hex_data))) (\<lambda>lines.
       Inr (py_join [CHR 0x0A] lines)))"

text \<open>One row of a dump, said on the bytes.\<close>

definition dump_row :: "bool \<Rightarrow> int \<Rightarrow> byte list \<Rightarrow> string" where
  "dump_row u offset row =
     fmt_hex False 8 offset @ ''  '' @ fmt_left 48 (py_join '' '' (map (byte_hex u) row)) @ ''  '' @
     map (\<lambda>b. if 32 \<le> uint b \<and> uint b < 127 then char_of (nat (uint b)) else CHR ''.'') row"

lemma take_bytes_hex: "take (2 * n) (bytes_hex u bs) = bytes_hex u (take n bs)"
proof (induction bs arbitrary: n)
  case (Cons b bs)
  then show ?case by (cases n) (simp_all add: bytes_hex_def byte_hex_def)
qed (simp add: bytes_hex_def)

lemma drop_bytes_hex: "drop (2 * n) (bytes_hex u bs) = bytes_hex u (drop n bs)"
proof (induction bs arbitrary: n)
  case (Cons b bs)
  then show ?case by (cases n) (simp_all add: bytes_hex_def byte_hex_def)
qed (simp add: bytes_hex_def)

lemma chunks_bytes_hex:
  "0 < n \<Longrightarrow> chunks (2 * n) (bytes_hex u bs) = map (bytes_hex u) (chunks n bs)"
proof (induction n bs rule: chunks.induct)
  case (1 n bs)
  show ?case
  proof (cases "bs = []")
    case True
    then show ?thesis by (simp add: chunks.simps bytes_hex_def)
  next
    case False
    have "bytes_hex u bs \<noteq> []"
      using False by (metis length_0_conv length_bytes_hex mult_is_0 zero_neq_numeral)
    then show ?thesis
      using 1 False
      by (simp add: chunks.simps [of "2 * n"] chunks.simps [of n bs] take_bytes_hex drop_bytes_hex)
  qed
qed

lemma chunks_1: "chunks 1 bs = map (\<lambda>b. [b]) bs"
  by (induction bs) (simp_all add: chunks.simps)

lemma pairs_bytes_hex: "chunks 2 (bytes_hex u bs) = map (byte_hex u) bs"
  using chunks_bytes_hex [of 1 u bs] by (simp add: chunks_1 [simplified] comp_def bytes_hex_def)

lemma py_int_byte_hex: "py_int 16 (byte_hex u b) = Inr (uint b)"
proof -
  let ?n = "unat b"
  have lt: "?n < 256" using unsigned_less [of b] by simp
  have "int_body 16 True 0 (byte_hex u b) = Some (?n div 16 * 16 + ?n mod 16)"
    using lt by (simp add: byte_hex_def digit_char_plain digit_val_digit_char)
  moreover have "?n div 16 < 16" "?n mod 16 < 16" using lt by simp_all
  then have "\<forall>c \<in> set (byte_hex u b). \<exists>d < 16. c = digit_char u d"
    by (simp add: byte_hex_def) (metis mod_less_divisor zero_less_numeral)
  ultimately show ?thesis
    using py_int_signed_digits [of 16 "byte_hex u b" u "?n" False]
    by (simp add: byte_hex_def)
qed

lemma dump_line_bytes: "dump_line offset (bytes_hex u row) = Inr (dump_row u offset row)"
proof -
  have "hex_to_ascii (bytes_hex u row) =
      Inr (map (\<lambda>b. if 32 \<le> uint b \<and> uint b < 127 then char_of (nat (uint b)) else CHR ''.'') row)"
    unfolding hex_to_ascii_def pairs_bytes_hex
    by (induction row) (auto simp: ascii_char_def py_int_byte_hex)
  then show ?thesis by (simp add: dump_line_def dump_row_def pairs_bytes_hex)
qed

text \<open>
  The hex dump shows the memory it was given: for every block of bytes the dump never
  fails and has one row per 16 bytes, each with its own address, the bytes of that row in
  hexadecimal, and beside them the printable characters (a dot for the others).
\<close>

theorem hex_dump_rows:
  "format_hex_dump (fmt_hex v w addr) (bytes_hex u bs) =
     Inr (py_join [CHR 0x0A]
       (map (\<lambda>(k, row). dump_row u (addr + 16 * int k) row) (enumerate 0 (chunks 16 bs))))"
proof -
  have e: "enumerate k (map f xs) = map (\<lambda>(i, x). (i, f x)) (enumerate k xs)"
    for k and f :: "byte list \<Rightarrow> string" and xs
    by (induction xs arbitrary: k) auto
  have m: "res_map f (map g xs) = res_map (\<lambda>x. f (g x)) xs"
    for f :: "nat \<times> string \<Rightarrow> string res" and g :: "nat \<times> byte list \<Rightarrow> nat \<times> string" and xs
    by (induction xs) auto
  have "res_map (\<lambda>(k, chunk). dump_line (addr + 16 * int k) chunk)
      (enumerate 0 (chunks 32 (bytes_hex u bs))) =
    Inr (map (\<lambda>(k, row). dump_row u (addr + 16 * int k) row) (enumerate 0 (chunks 16 bs)))"
    using chunks_bytes_hex [of 16 u bs]
    by (simp add: e m) (rule res_map_total, auto simp: dump_line_bytes)
  then show ?thesis by (simp add: format_hex_dump_def)
qed

end
