(* ===== verification/Bus.thy ===== *)
theory Bus
  imports Prelude "HOL-Library.Sublist"
begin

text \<open>
  Shared state and event bus (\<open>state.py\<close>): the bounded log of \<open>AmigaState\<close> and the
  publish/subscribe queues of \<open>EventBus\<close>. The locale \<open>bounded_queue\<close> is the contract of
  \<open>asyncio.Queue(maxsize)\<close> with the drop-oldest policy of \<open>publish\<close>; the delivery lemmas are
  proved from it and hold of the bus through the interpretation \<open>sub_queue\<close>.
\<close>

section \<open>The log\<close>

text \<open>\<open>deque(maxlen=n).append\<close> drops from the left.\<close>

definition last_n :: "nat \<Rightarrow> 'a list \<Rightarrow> 'a list" where
  "last_n n xs = drop (length xs - n) xs"

lemma length_last_n [simp]: "length (last_n n xs) = min n (length xs)"
  by (simp add: last_n_def min_def)

lemma last_n_all [simp]: "length xs \<le> n \<Longrightarrow> last_n n xs = xs"
  by (simp add: last_n_def)

lemma last_n_append: "last_n n (last_n n xs @ ys) = last_n n (xs @ ys)"
proof (cases "length xs \<le> n")
  case False
  then have "length xs + length ys - n = (length xs - n) + length ys" by simp
  with False show ?thesis by (simp add: last_n_def min_def add.commute)
qed simp

lemma last_n_subseq: "subseq (last_n n xs) xs"
  unfolding last_n_def by (intro suffix_imp_subseq suffix_drop)

definition max_logs :: nat where
  "max_logs = 1000"

record amiga_state =
  logs :: "pydict list"
  vars :: "(string \<times> pydict) list"
  last_heartbeat :: "pydict option"
  clients :: "string list"
  connected :: bool
  connection_mode :: string
  last_crash :: "pydict option"
  serial_connected_at :: "int option"
  last_bridge_message_at :: "int option"
  last_heartbeat_at :: "int option"

definition initial_state :: amiga_state where
  "initial_state = \<lparr>logs = [], vars = [], last_heartbeat = None, clients = [], connected = False,
     connection_mode = ''tcp'', last_crash = None, serial_connected_at = None,
     last_bridge_message_at = None, last_heartbeat_at = None\<rparr>"

definition add_log :: "pydict \<Rightarrow> amiga_state \<Rightarrow> amiga_state" where
  "add_log m st = st\<lparr>logs := last_n max_logs (logs st @ [m])\<rparr>"

text \<open>\<open>xs[-count:]\<close> with Python's slice bounds: for a count of 0 it is the whole list.\<close>

definition slice_last :: "int \<Rightarrow> 'a list \<Rightarrow> 'a list" where
  "slice_last count xs =
     (let start = - count
      in if start < 0 then drop (nat (int (length xs) + start)) xs else drop (nat start) xs)"

text \<open>\<open>level.upper()[0]\<close> for ASCII letters; other characters are unchanged.\<close>

definition upper_char :: "char \<Rightarrow> char" where
  "upper_char c =
     (let n = (of_char c :: nat) in if 97 \<le> n \<and> n \<le> 122 then char_of (n - 32) else c)"

definition get_recent_logs :: "int \<Rightarrow> string option \<Rightarrow> amiga_state \<Rightarrow> pydict list" where
  "get_recent_logs count level st =
     (let ls = (case level of
                  Some (c # _) \<Rightarrow>
                    filter (\<lambda>l. dict_get l ''level'' VNone = VStr [upper_char c]) (logs st)
                | _ \<Rightarrow> logs st)
      in slice_last count ls)"

section \<open>Bounded queues\<close>

text \<open>
  The contract of a subscriber's queue: \<open>put\<close> is \<open>put_nowait\<close> with the oldest entry dropped
  when the queue is full.
\<close>

locale bounded_queue =
  fixes contents :: "'q \<Rightarrow> 'e list"
    and put :: "'e \<Rightarrow> 'q \<Rightarrow> 'q"
    and cap :: nat
  assumes cap_pos: "0 < cap"
    and put_contents: "length (contents q) \<le> cap \<Longrightarrow> contents (put e q) = last_n cap (contents q @ [e])"
begin

lemma put_bounded: "length (contents q) \<le> cap \<Longrightarrow> length (contents (put e q)) \<le> cap"
  by (simp add: put_contents)

lemma put_all:
  "length (contents q) \<le> cap \<Longrightarrow> contents (fold put es q) = last_n cap (contents q @ es)"
proof (induction es arbitrary: q)
  case Nil
  then show ?case by simp
next
  case (Cons e es)
  have "contents (fold put es (put e q)) = last_n cap (contents (put e q) @ es)"
    using Cons put_bounded by blast
  also have "\<dots> = last_n cap (contents q @ e # es)"
    using Cons.prems by (simp add: put_contents last_n_append)
  finally show ?case by simp
qed

lemma put_keeps: "length (contents q) < cap \<Longrightarrow> contents (put e q) = contents q @ [e]"
  by (simp add: put_contents)

lemma put_newest: "length (contents q) \<le> cap \<Longrightarrow> last (contents (put e q)) = e"
  using cap_pos by (simp add: put_contents last_n_def)

lemma put_subseq:
  "length (contents q) \<le> cap \<Longrightarrow> subseq (contents (put e q)) (contents q @ [e])"
  by (simp add: put_contents last_n_subseq)

end

section \<open>The bus\<close>

type_synonym event = "string \<times> pyval"

record subscriber =
  events :: "string list"
  queue :: "event list"

record bus =
  subscribers :: "(nat \<times> subscriber) list"
  next_id :: nat

definition queue_max :: nat where
  "queue_max = 1000"

text \<open>
  \<open>put_nowait\<close>, and on \<open>QueueFull\<close> \<open>get_nowait\<close> and \<open>put_nowait\<close> again.
\<close>

definition put_nowait :: "event \<Rightarrow> event list \<Rightarrow> event list option" where
  "put_nowait e q = (if queue_max \<le> length q then None else Some (q @ [e]))"

definition queue_put :: "event \<Rightarrow> event list \<Rightarrow> event list" where
  "queue_put e q =
     (case put_nowait e q of
        Some q' \<Rightarrow> q'
      | None \<Rightarrow>
          (let q1 = (case q of [] \<Rightarrow> [] | _ # rest \<Rightarrow> rest)
           in case put_nowait e q1 of Some q' \<Rightarrow> q' | None \<Rightarrow> q1))"

definition interested :: "subscriber \<Rightarrow> string \<Rightarrow> bool" where
  "interested s ev \<longleftrightarrow> ev \<in> set (events s) \<or> ''*'' \<in> set (events s)"

definition publish :: "string \<Rightarrow> pyval \<Rightarrow> bus \<Rightarrow> bus" where
  "publish ev data b =
     b\<lparr>subscribers := map (\<lambda>(sid, s).
         (sid, if interested s ev then s\<lparr>queue := queue_put (ev, data) (queue s)\<rparr> else s))
       (subscribers b)\<rparr>"

text \<open>Entering and leaving the context manager \<open>subscribe\<close>.\<close>

definition subscribe :: "string list \<Rightarrow> bus \<Rightarrow> nat \<times> bus" where
  "subscribe evs b =
     (next_id b,
      b\<lparr>next_id := next_id b + 1,
        subscribers := subscribers b @ [(next_id b, \<lparr>events = evs, queue = []\<rparr>)]\<rparr>)"

definition unsubscribe :: "nat \<Rightarrow> bus \<Rightarrow> bus" where
  "unsubscribe sid b = b\<lparr>subscribers := filter (\<lambda>(i, _). i \<noteq> sid) (subscribers b)\<rparr>"

definition new_bus :: bus where
  "new_bus = \<lparr>subscribers = [], next_id = 0\<rparr>"

text \<open>
  \<open>wait_for\<close> on a fresh subscription: \<open>arrivals\<close> are the events its queue will receive with
  the times at which they can be taken. An event taken after the deadline is a timeout.
\<close>

fun wait_loop :: "int \<Rightarrow> (pyval \<Rightarrow> bool) option \<Rightarrow> int \<Rightarrow> (int \<times> pyval) list \<Rightarrow> pyval option" where
  "wait_loop deadline predicate now arrivals =
     (if deadline - now \<le> 0 then None
      else case arrivals of
        [] \<Rightarrow> None
      | (t, data) # rest \<Rightarrow>
          if deadline \<le> t then None
          else if (case predicate of None \<Rightarrow> True | Some p \<Rightarrow> p data) then Some data
          else wait_loop deadline predicate (max now t) rest)"

declare wait_loop.simps [simp del]

definition wait_for :: "int \<Rightarrow> int \<Rightarrow> (pyval \<Rightarrow> bool) option \<Rightarrow> (int \<times> pyval) list \<Rightarrow> pyval option" where
  "wait_for now timeout predicate arrivals = wait_loop (now + timeout) predicate now arrivals"

interpretation sub_queue: bounded_queue "\<lambda>q. q" queue_put queue_max
proof unfold_locales
  show "0 < queue_max" by (simp add: queue_max_def)
next
  fix q :: "event list" and e
  assume "length q \<le> queue_max"
  then show "queue_put e q = last_n queue_max (q @ [e])"
    by (cases q) (auto simp: queue_put_def put_nowait_def last_n_def queue_max_def)
qed

section \<open>Runs of the bus\<close>

text \<open>
  What tasks do to the bus: they subscribe and leave, publish, and take the oldest event from
  their queue, which blocks while it is empty.
\<close>

datatype bus_op =
    Op_Publish string pyval
  | Op_Subscribe "string list"
  | Op_Unsubscribe nat
  | Op_Get nat

inductive bus_step :: "bus \<Rightarrow> bus_op \<Rightarrow> event option \<Rightarrow> bus \<Rightarrow> bool" where
  pub: "bus_step b (Op_Publish ev data) None (publish ev data b)"
| sub: "bus_step b (Op_Subscribe evs) None (snd (subscribe evs b))"
| unsub: "bus_step b (Op_Unsubscribe sid) None (unsubscribe sid b)"
| got: "map_of (subscribers b) sid = Some s \<Longrightarrow> queue s = e # q \<Longrightarrow>
    bus_step b (Op_Get sid) (Some e)
      (b\<lparr>subscribers := map (\<lambda>(i, u). (i, if i = sid then u\<lparr>queue := q\<rparr> else u)) (subscribers b)\<rparr>)"

inductive bus_run :: "bus \<Rightarrow> (bus_op \<times> event option) list \<Rightarrow> bus \<Rightarrow> bool" where
  stop: "bus_run b [] b"
| go: "bus_step b op out b' \<Longrightarrow> bus_run b' tr b'' \<Longrightarrow> bus_run b ((op, out) # tr) b''"

inductive_cases bus_stepE: "bus_step b op out b'"
inductive_cases bus_run_ConsE: "bus_run b (x # tr) b''"

text \<open>Subscriber numbers are distinct and below the next one; no queue is over-full.\<close>

definition bus_inv :: "bus \<Rightarrow> bool" where
  "bus_inv b \<longleftrightarrow>
     distinct (map fst (subscribers b)) \<and> (\<forall>(i, s) \<in> set (subscribers b).
       i < next_id b \<and> length (queue s) \<le> queue_max)"

lemma bus_inv_new: "bus_inv new_bus"
  by (simp add: bus_inv_def new_bus_def)

lemma map_subs:
  "map fst (map (\<lambda>(i, s). (i, f i s)) xs) = map fst xs"
  "map_of (map (\<lambda>(i, s). (i, f i s)) xs) k = map_option (f k) (map_of xs k)"
  by (induction xs) auto

lemma fst_comp_subs [simp]: "fst \<circ> (\<lambda>(i, s). (i, f i s)) = fst"
  by (simp add: fun_eq_iff)

lemma bus_inv_publish: "bus_inv b \<Longrightarrow> bus_inv (publish ev data b)"
  unfolding bus_inv_def publish_def
  by (auto simp: map_subs dest: sub_queue.put_bounded split: prod.splits)

lemma bus_inv_subscribe: "bus_inv b \<Longrightarrow> bus_inv (snd (subscribe evs b))"
  unfolding bus_inv_def subscribe_def by (force simp: less_Suc_eq)

lemma bus_inv_unsubscribe: "bus_inv b \<Longrightarrow> bus_inv (unsubscribe sid b)"
  unfolding bus_inv_def unsubscribe_def by (auto simp: distinct_map_filter)

lemma bus_inv_step: "bus_step b op out b' \<Longrightarrow> bus_inv b \<Longrightarrow> bus_inv b'"
proof (induction rule: bus_step.induct)
  case (got b sid s e q)
  then have "length q \<le> queue_max" by (auto simp: bus_inv_def dest!: map_of_SomeD)
  with got show ?case by (auto simp: bus_inv_def map_subs)
qed (simp_all add: bus_inv_publish bus_inv_subscribe bus_inv_unsubscribe)

text \<open>
  What subscriber \<open>sid\<close> with the interests \<open>s\<close> should receive of a run, and what it took.
\<close>

fun due :: "subscriber \<Rightarrow> (bus_op \<times> event option) list \<Rightarrow> event list" where
  "due s [] = []"
| "due s ((Op_Publish ev data, out) # tr) = (if interested s ev then (ev, data) # due s tr else due s tr)"
| "due s (_ # tr) = due s tr"

fun taken :: "nat \<Rightarrow> (bus_op \<times> event option) list \<Rightarrow> event list" where
  "taken sid [] = []"
| "taken sid ((Op_Get i, Some e) # tr) = (if i = sid then e # taken sid tr else taken sid tr)"
| "taken sid (_ # tr) = taken sid tr"

definition stays :: "nat \<Rightarrow> (bus_op \<times> event option) list \<Rightarrow> bool" where
  "stays sid tr \<longleftrightarrow> Op_Unsubscribe sid \<notin> fst ` set tr"

lemma due_queue [simp]: "due (s\<lparr>queue := q\<rparr>) tr = due s tr"
  by (induction s tr rule: due.induct) (simp_all add: interested_def)

lemma map_of_publish:
  "map_of (subscribers (publish ev data b)) sid =
     map_option (\<lambda>s. if interested s ev then s\<lparr>queue := queue_put (ev, data) (queue s)\<rparr> else s)
       (map_of (subscribers b) sid)"
  by (simp add: publish_def map_subs)

lemma map_of_filter_key:
  "map_of (filter (\<lambda>(i, _). i \<noteq> k) xs) sid = (if sid = k then None else map_of xs sid)"
  by (induction xs) auto

text \<open>\<open>served sid s tr q\<close>: the run gave the subscriber its events in order, the rest being \<open>q\<close>.\<close>

definition served :: "nat \<Rightarrow> subscriber \<Rightarrow> (bus_op \<times> event option) list \<Rightarrow> event list \<Rightarrow> bool" where
  "served sid s tr q \<longleftrightarrow>
     subseq (taken sid tr @ q) (queue s @ due s tr) \<and>
     (length (queue s @ due s tr) \<le> queue_max \<longrightarrow> taken sid tr @ q = queue s @ due s tr)"

lemma served_publish:
  assumes "served sid (s\<lparr>queue := queue_put (ev, data) (queue s)\<rparr>) tr q"
    and "length (queue s) \<le> queue_max" and "interested s ev"
  shows "served sid s ((Op_Publish ev data, out) # tr) q"
proof -
  have "subseq (queue_put (ev, data) (queue s) @ due s tr) ((queue s @ [(ev, data)]) @ due s tr)"
    using sub_queue.put_subseq [OF assms(2)] by (intro list_emb_append_mono) simp_all
  with assms show ?thesis
    using sub_queue.put_keeps [of "queue s" "(ev, data)"]
    by (auto simp: served_def intro: subseq_order.trans)
qed

lemma bus_run_served:
  "bus_run b tr b' \<Longrightarrow> bus_inv b \<Longrightarrow> stays sid tr \<Longrightarrow> map_of (subscribers b) sid = Some s \<Longrightarrow>
   \<exists>q. map_of (subscribers b') sid = Some (s\<lparr>queue := q\<rparr>) \<and> length q \<le> queue_max \<and>
     served sid s tr q"
proof (induction arbitrary: s rule: bus_run.induct)
  case (stop b)
  then have "length (queue s) \<le> queue_max" by (auto simp: bus_inv_def dest: map_of_SomeD)
  with stop show ?case by (intro exI [of _ "queue s"]) (simp add: served_def)
next
  case (go b op out b' tr b'')
  have inv: "bus_inv b'" by (rule bus_inv_step [OF go(1,4)])
  have stays: "stays sid tr" "op \<noteq> Op_Unsubscribe sid" using go(5) by (auto simp: stays_def)
  have len: "length (queue s) \<le> queue_max"
    using go(4,6) by (auto simp: bus_inv_def dest!: map_of_SomeD)
  note IH = go.IH [OF inv stays(1)]
  from go(1) show ?case
  proof (cases rule: bus_step.cases)
    case (pub ev data)
    show ?thesis
    proof (cases "interested s ev")
      case True
      with pub go(6) have "map_of (subscribers b') sid =
          Some (s\<lparr>queue := queue_put (ev, data) (queue s)\<rparr>)"
        by (simp add: map_of_publish)
      from IH [OF this] pub True len show ?thesis by (auto intro: served_publish)
    next
      case False
      with pub go(6) have "map_of (subscribers b') sid = Some s" by (simp add: map_of_publish)
      from IH [OF this] pub False show ?thesis by (auto simp: served_def)
    qed
  next
    case (sub evs)
    with go(6) have "map_of (subscribers b') sid = Some s"
      by (simp add: subscribe_def map_of_append map_add_Some_iff)
    from IH [OF this] sub show ?thesis by (auto simp: served_def)
  next
    case (unsub i)
    with go(6) stays have "map_of (subscribers b') sid = Some s"
      by (auto simp: unsubscribe_def map_of_filter_key)
    from IH [OF this] unsub show ?thesis by (auto simp: served_def)
  next
    case (got i u e q)
    show ?thesis
    proof (cases "i = sid")
      case True
      with got go(6) have "map_of (subscribers b') sid = Some (s\<lparr>queue := q\<rparr>)" "queue s = e # q"
        by (auto simp: map_subs)
      with IH [OF this(1)] got True show ?thesis by (auto simp: served_def)
    next
      case False
      with got go(6) have "map_of (subscribers b') sid = Some s" by (auto simp: map_subs)
      from IH [OF this] got False show ?thesis by (auto simp: served_def)
    qed
  qed
qed

text \<open>
  C8. A subscriber receives what was published, in order, and loses only when it falls behind:
  over any run of the bus in which it does not leave, the events it took followed by those in
  its queue are a subsequence of what was in its queue followed by the published events it
  asked for; they are all of them whenever no more than 1000 were outstanding; and its queue
  never exceeds 1000.
\<close>

theorem bus_delivery:
  assumes "bus_run b tr b'" and "bus_inv b" and "stays sid tr"
    and "map_of (subscribers b) sid = Some s"
  shows "\<exists>q. map_of (subscribers b') sid = Some (s\<lparr>queue := q\<rparr>) \<and> length q \<le> 1000 \<and>
    subseq (taken sid tr @ q) (queue s @ due s tr) \<and>
    (length (queue s) + length (due s tr) \<le> 1000 \<longrightarrow> taken sid tr @ q = queue s @ due s tr)"
  using bus_run_served [OF assms] by (auto simp: served_def queue_max_def)

theorem bus_delivery_witness:
  "\<exists>q. map_of (subscribers (publish ''log'' (VInt 2) (publish ''log'' (VInt 1)
         (snd (subscribe [''log''] new_bus))))) 0 = Some (\<lparr>events = [''log''], queue = q\<rparr>) \<and>
     q = [(''log'', VInt 1), (''log'', VInt 2)]"
proof -
  let ?b = "snd (subscribe [''log''] new_bus)"
  let ?tr = "[(Op_Publish ''log'' (VInt 1), None), (Op_Publish ''log'' (VInt 2), None)]"
  have run: "bus_run ?b ?tr (publish ''log'' (VInt 2) (publish ''log'' (VInt 1) ?b))"
    by (rule bus_run.go [OF bus_step.pub] bus_run.go [OF bus_step.sub] bus_run.stop)+
  have "bus_inv ?b" by (intro bus_inv_subscribe bus_inv_new)
  from bus_delivery [OF run this, of 0 "\<lparr>events = [''log''], queue = []\<rparr>"] show ?thesis
    by (auto simp: stays_def subscribe_def new_bus_def interested_def)
qed

text \<open>
  Subscriber numbers are never reused: every bus reached from the empty one keeps distinct
  numbers below the next one, so a new subscription never replaces an existing queue.
\<close>

theorem bus_fresh_ids:
  assumes "bus_run new_bus tr b"
  shows "map_of (subscribers b) (fst (subscribe evs b)) = None \<and>
    (\<forall>sid. sid \<noteq> fst (subscribe evs b) \<longrightarrow>
       map_of (subscribers (snd (subscribe evs b))) sid = map_of (subscribers b) sid)"
proof -
  have inv: "bus_run b tr b' \<Longrightarrow> bus_inv b \<Longrightarrow> bus_inv b'" for b tr b'
    by (induction rule: bus_run.induct) (auto dest: bus_inv_step)
  from inv [OF assms bus_inv_new] have "next_id b \<notin> fst ` set (subscribers b)"
    by (force simp: bus_inv_def)
  then have "map_of (subscribers b) (next_id b) = None" by (simp add: map_of_eq_None_iff)
  then show ?thesis
    by (auto simp: subscribe_def map_of_append map_add_def split: option.split)
qed

theorem bus_fresh_ids_witness:
  "map_of (subscribers (snd (subscribe [''*''] new_bus))) 1 = None"
proof -
  have "bus_run new_bus [(Op_Subscribe [''*''], None)] (snd (subscribe [''*''] new_bus))"
    by (rule bus_run.go [OF bus_step.pub] bus_run.go [OF bus_step.sub] bus_run.stop)+
  from bus_fresh_ids [OF this, of "[]"] show ?thesis
    by (simp add: subscribe_def new_bus_def)
qed

section \<open>Waiting and the log\<close>

text \<open>
  Waiting returns the first match in time: with a positive timeout, \<open>wait_for\<close> returns the
  data of the first event taken before the deadline that satisfies the predicate (any event
  when there is none), skipping the others, and None if there is no such event.
\<close>

theorem wait_for_first:
  assumes "0 < timeout"
  shows "wait_for now timeout predicate arrivals =
    map_option snd (find (\<lambda>(t, d). case predicate of None \<Rightarrow> True | Some p \<Rightarrow> p d)
      (takeWhile (\<lambda>(t, d). t < now + timeout) arrivals))"
proof -
  have "wait_loop dl predicate now arrivals =
    map_option snd (find (\<lambda>(t, d). case predicate of None \<Rightarrow> True | Some p \<Rightarrow> p d)
      (takeWhile (\<lambda>(t, d). t < dl) arrivals))" if "now < dl" for dl now
    using that
  proof (induction arrivals arbitrary: now)
    case Nil
    then show ?case by (simp add: wait_loop.simps)
  next
    case (Cons a arrivals)
    then show ?case by (cases a) (subst wait_loop.simps, simp)
  qed
  with assms show ?thesis by (simp add: wait_for_def)
qed

theorem wait_for_first_witness:
  "wait_for 10 5 (Some truthy) [(11, VInt 0), (12, VInt 7), (13, VInt 8)] = Some (VInt 7)"
  by (subst wait_for_first) simp_all

text \<open>
  The log keeps the newest thousand: after any number of messages it holds the last 1000
  of them in order; a request for n > 0 recent entries of a level returns the last n of that
  level's, and a request for 0 returns everything.
\<close>

theorem recent_logs:
  "logs (fold add_log ms initial_state) = last_n 1000 ms \<and>
   get_recent_logs (int (Suc n)) (Some [c]) (fold add_log ms initial_state) =
     last_n (Suc n) (filter (\<lambda>l. dict_get l ''level'' VNone = VStr [upper_char c]) (last_n 1000 ms)) \<and>
   get_recent_logs 0 None (fold add_log ms initial_state) = last_n 1000 ms"
proof -
  have "logs (fold add_log ms st) = last_n max_logs (logs st @ ms)" if "length (logs st) \<le> max_logs" for st
    using that
  proof (induction ms arbitrary: st)
    case (Cons m ms)
    then show ?case by (simp add: add_log_def last_n_append)
  qed simp
  from this [of initial_state] have ls: "logs (fold add_log ms initial_state) = last_n 1000 ms"
    by (simp add: initial_state_def max_logs_def)
  moreover have "slice_last (int (Suc n)) xs = last_n (Suc n) xs" for xs :: "pydict list"
  proof -
    have "nat (int (length xs) + (- 1 - int n)) = length xs - Suc n" by linarith
    then show ?thesis by (simp add: slice_last_def last_n_def Let_def)
  qed
  ultimately show ?thesis
    by (simp add: get_recent_logs_def ls slice_last_def)
qed

end
