(* ===== verification/Serial.thy ===== *)
theory Serial
  imports Protocol_Format Bus Debugger
begin

text \<open>
  The serial connection (\<open>serial_conn.py\<close>), its data path: bytes from the bridge are gathered
  into lines (\<open>_handle_data\<close>), parsed and dispatched (\<open>_process_message\<close>) to the shared state,
  the debugger and the event bus; commands go out through \<open>send\<close> and \<open>send_raw\<close>.
  \<open>Connection\<close> models how the connection comes and goes.

  What the connection shares with the rest of the program is the record \<open>hub\<close>; the
  operations on it are actions that may raise and keep the changes made before.
  Times are integers in milliseconds; the clock readings of a call are arguments.
\<close>

section \<open>State\<close>

text \<open>\<open>rx\<close> and \<open>tx\<close> record the calls of the optional callbacks \<open>on_rx\<close> and \<open>on_tx\<close>.\<close>

record hub =
  app :: amiga_state
  ebus :: bus
  dbg :: "debugger option"
  rx :: "string list"
  tx :: "string list"

text \<open>
  The streams, file descriptors and tasks are known by whether they are there. \<open>wire\<close> is what
  has been written to the bridge.
\<close>

record serial =
  hub :: hub
  host :: string
  port :: int
  pty_path :: string
  conn_mode :: string
  reader_open :: bool
  writer_open :: bool
  tcp_task :: bool
  master_fd :: bool
  line_buf :: string
  line_buf_time :: "int option"
  conn_up :: bool
  auto_reconnect :: bool
  reconnect_task :: bool
  port_conflict :: "string option"
  http_detected :: bool
  first_data :: bool
  watchdog_task :: bool
  wire :: string

record clock =
  wall :: int
  mono :: int
  stamp :: string

text \<open>The constructor, with its default arguments.\<close>

definition new_serial :: "amiga_state \<Rightarrow> bus \<Rightarrow> serial" where
  "new_serial st b =
     \<lparr>hub = \<lparr>app = st, ebus = b, dbg = None, rx = [], tx = []\<rparr>, host = ''127.0.0.1'', port = 1234,
      pty_path = ''/tmp/amiga-serial'', conn_mode = ''tcp'', reader_open = False, writer_open = False,
      tcp_task = False, master_fd = False, line_buf = '''', line_buf_time = None, conn_up = False,
      auto_reconnect = True, reconnect_task = False, port_conflict = None, http_detected = False,
      first_data = True, watchdog_task = False, wire = ''''\<rparr>"

section \<open>Actions\<close>

text \<open>An action changes the hub and may raise; what it changed before raising stays.\<close>

type_synonym action = "hub \<Rightarrow> hub \<times> exn option"

definition skip :: action where
  "skip h = (h, None)"

definition raise :: "exn \<Rightarrow> action" where
  "raise e h = (h, Some e)"

definition seq :: "action \<Rightarrow> action \<Rightarrow> action" where
  "seq a b h = (case a h of (h', Some e) \<Rightarrow> (h', Some e) | (h', None) \<Rightarrow> b h')"

definition change :: "(hub \<Rightarrow> hub) \<Rightarrow> action" where
  "change f h = (f h, None)"

definition emit :: "string \<Rightarrow> pyval \<Rightarrow> action" where
  "emit ev data = change (\<lambda>h. h\<lparr>ebus := publish ev data (ebus h)\<rparr>)"

definition on_app :: "(amiga_state \<Rightarrow> amiga_state) \<Rightarrow> action" where
  "on_app f = change (\<lambda>h. h\<lparr>app := f (app h)\<rparr>)"

text \<open>\<open>if self._dbg_state: self._dbg_state.f(msg)\<close>\<close>

definition on_dbg :: "(debugger \<Rightarrow> debugger) \<Rightarrow> action" where
  "on_dbg f = change (\<lambda>h. h\<lparr>dbg := map_option f (dbg h)\<rparr>)"

text \<open>\<open>m[k]\<close>, which raises for a missing key.\<close>

definition with_key :: "pydict \<Rightarrow> string \<Rightarrow> (pyval \<Rightarrow> action) \<Rightarrow> action" where
  "with_key m k f = (case map_of m k of None \<Rightarrow> raise (KeyError k) | Some v \<Rightarrow> f v)"

primrec seqs :: "action list \<Rightarrow> action" where
  "seqs [] = skip"
| "seqs (a # as) = seq a (seqs as)"

lemma seq_skip [simp]: "seq skip a = a" "seq a skip = a"
  by (auto simp: seq_def skip_def fun_eq_iff split: prod.split option.split)

lemma seq_assoc: "seq (seq a b) c = seq a (seq b c)"
  by (auto simp: seq_def fun_eq_iff split: prod.split option.split)

text \<open>A sequence ends with its first action, which raised, or with its second.\<close>

lemma seq_cases:
  obtains e where "seq a b h = (fst (a h), Some e)" "snd (a h) = Some e"
  | "seq a b h = b (fst (a h))"
  by (cases "a h"; cases "snd (a h)") (auto simp: seq_def)

lemma seqs_append: "seqs (as @ bs) = seq (seqs as) (seqs bs)"
  by (induction as) (simp_all add: seq_assoc)

section \<open>Dispatch\<close>

text \<open>The messages whose branch only publishes an event.\<close>

definition plain_events :: "(string \<times> string) list" where
  "plain_events =
    [(''MEM'', ''mem''), (''CMD'', ''cmd''), (''READY'', ''ready''), (''TASKS'', ''tasks''),
     (''LIBS'', ''libs''), (''DIR'', ''dir''), (''FILE'', ''file''), (''FILEINFO'', ''fileinfo''),
     (''PROC'', ''proc''), (''VOLUMES'', ''volumes''), (''PONG'', ''pong''), (''HOOKS'', ''hooks''),
     (''MEMREGS'', ''memregs''), (''CINFO'', ''cinfo''), (''DEVICES'', ''devices''), (''OK'', ''ok''),
     (''ERR'', ''err''), (''SCRINFO'', ''scrinfo''), (''SCRDATA'', ''scrdata''),
     (''SCRRGB'', ''scrrgb''), (''SCRRLE'', ''scrrle''), (''PALETTE'', ''palette''),
     (''COPPER'', ''copper''), (''SPRITE'', ''sprite''), (''DBGRUNNING'', ''dbg_running''),
     (''DBGDETACHED'', ''dbg_detached''), (''BPINFO'', ''dbg_bpinfo''), (''BPLIST'', ''dbg_bplist''),
     (''DBGREGS'', ''dbg_regs''), (''DBGBT'', ''dbg_bt''), (''RESOURCES'', ''resources''),
     (''PERF'', ''perf''), (''WINLIST'', ''winlist''), (''MEMMAP'', ''memmap''),
     (''STACKINFO'', ''stackinfo''), (''CHIPREGS'', ''chipregs''), (''REGS'', ''regs''),
     (''SEARCH'', ''search''), (''LIBINFO'', ''libinfo''), (''DEVINFO'', ''devinfo''),
     (''LIBFUNCS'', ''libfuncs''), (''SNOOP'', ''snoop''), (''SNOOPSTATE'', ''snoopstate''),
     (''AUDIOCHANNELS'', ''audiochannels''), (''AUDIOSAMPLE'', ''audiosample''),
     (''SCREENS'', ''screens''), (''WINDOWS'', ''windows''), (''GADGETS'', ''gadgets''),
     (''FONTS'', ''fonts''), (''FONTINFO'', ''fontinfo''), (''CHIPLOG'', ''chiplog''),
     (''CHIPLOGCHANGE'', ''chiplogchange''), (''POOLS'', ''pools''), (''CLIPBOARD'', ''clipboard''),
     (''AREXXPORTS'', ''arexxports''), (''AREXXRESULT'', ''arexxresult''),
     (''CAPABILITIES'', ''capabilities''), (''PROCLIST'', ''proclist''), (''PROCSTAT'', ''procstat''),
     (''TAILDATA'', ''taildata''), (''CHECKSUM'', ''checksum''), (''ASSIGNS'', ''assigns''),
     (''PROTECT'', ''protect''), (''VERSION'', ''version''), (''ENV'', ''env''), (''PORTS'', ''ports''),
     (''SYSINFO'', ''sysinfo''), (''UPTIME'', ''uptime'')]"

text \<open>A log message of the host's own; \<open>extra\<close> are the entries after the time stamp.\<close>

definition host_log :: "string \<Rightarrow> string \<Rightarrow> pyval \<Rightarrow> pydict \<Rightarrow> pydict" where
  "host_log level txt ts extra =
     [(''type'', VStr ''LOG''), (''level'', VStr level), (''tick'', VInt 0), (''message'', VStr txt),
      (''timestamp'', ts)] @ extra"

text \<open>
  The log lines for the messages of the test harness that arrive inside a client's log; \<open>m\<close> is
  the log message, \<open>tp\<close> the parsed test message.
\<close>

definition test_log :: "pydict \<Rightarrow> pydict \<Rightarrow> action" where
  "test_log m tp =
     with_key tp ''type'' (\<lambda>ttype.
       let client = dict_get m ''client'' (VStr '''');
           log = (\<lambda>level txt. with_key m ''timestamp'' (\<lambda>ts.
             emit ''log'' (VDict (host_log level txt ts [(''client'', client)]))))
       in if ttype = VStr ''TEST_PASS'' then
            log ''I'' (''[TEST] PASS: '' @ get_str tp ''testName'' ''?'')
          else if ttype = VStr ''TEST_FAIL'' then
            log ''E'' (''[TEST] FAIL: '' @ get_str tp ''testName'' ''?'' @ '' at '' @ get_str tp ''file'' ''?'' @
              '':'' @ fmt_dec (get_int tp ''line'' 0))
          else if ttype = VStr ''TEST_END'' then
            (let p = get_int tp ''passed'' 0; f = get_int tp ''failed'' 0; t = get_int tp ''total'' 0
             in log (if 0 < f then ''E'' else ''I'')
                  (''[TEST] Suite '' @ [CHR 0x27] @ get_str tp ''suite'' ''?'' @ [CHR 0x27] @ '': '' @ fmt_dec p @ ''/'' @ fmt_dec t @
                   '' passed, '' @ fmt_dec f @ '' failed''))
          else if ttype = VStr ''TEST_BEGIN'' then
            log ''I'' (''[TEST] Suite '' @ [CHR 0x27] @ get_str tp ''suite'' ''?'' @ [CHR 0x27] @ '' started'')
          else skip)"

text \<open>A client's log line, or a test message inside one; the latter is not logged as a line.\<close>

definition client_log :: "pydict \<Rightarrow> action" where
  "client_log m =
     with_key m ''level'' (\<lambda>level. with_key m ''tick'' (\<lambda>tick. with_key m ''client'' (\<lambda>client.
     with_key m ''timestamp'' (\<lambda>ts.
       let log_entry = [(''type'', VStr ''LOG''), (''level'', level), (''tick'', tick),
             (''message'', VStr (''['' @ get_str m ''client'' '''' @ ''] '' @ get_str m ''message'' '''')),
             (''timestamp'', ts), (''client'', client)]
       in seqs [on_app (add_log log_entry), emit ''log'' (VDict log_entry), emit ''clog'' (VDict m)]))))"

definition process_clog :: "clock \<Rightarrow> pydict \<Rightarrow> action" where
  "process_clog clk m =
     with_key m ''message'' (\<lambda>_.
       let raw_msg = get_str m ''message'' ''''
       in if py_startswith raw_msg ''TEST_'' then
            (case parse_message (stamp clk) raw_msg of
               Inl e \<Rightarrow> raise e
             | Inr (Some (kv # kvs)) \<Rightarrow>
                 with_key m ''timestamp'' (\<lambda>ts.
                   let client = dict_get m ''client'' (VStr '''');
                       tp = dict_set (dict_set (kv # kvs) ''client'' client) ''timestamp'' ts
                   in seq (emit ''test'' (VDict tp)) (test_log m tp))
             | _ \<Rightarrow> client_log m)
          else client_log m)"

definition set_var :: "pydict \<Rightarrow> pydict \<Rightarrow> action" where
  "set_var m entry = on_app (\<lambda>st. st\<lparr>vars := AList.update (get_str m ''name'' '''') entry (vars st)\<rparr>)"

definition process_cvar :: "pydict \<Rightarrow> action" where
  "process_cvar m =
     with_key m ''name'' (\<lambda>n. with_key m ''varType'' (\<lambda>ty. with_key m ''value'' (\<lambda>v. with_key m ''client'' (\<lambda>c.
       let var_entry = [(''type'', VStr ''VAR''), (''name'', n), (''varType'', ty), (''value'', v), (''client'', c)]
       in seqs [set_var m var_entry, emit ''var'' (VDict var_entry), emit ''cvar'' (VDict m)]))))"

definition stop_text :: "pydict \<Rightarrow> string" where
  "stop_text m = ''[DBG] Stopped: '' @ get_str m ''reason'' ''?'' @ '' at PC=0x'' @ fmt_hex True 8 (get_int m ''pc'' 0)"

definition process_stop :: "pydict \<Rightarrow> action" where
  "process_stop m =
     seqs [on_dbg (update_from_stop m), emit ''dbg_stop'' (VDict m),
       emit ''log'' (VDict (host_log ''W'' (stop_text m) (dict_get m ''timestamp'' (VStr '''')) []))]"

definition crash_text :: "pydict \<Rightarrow> string" where
  "crash_text m = ''CRASH: '' @ get_str m ''alertName'' ''?'' @ '' (0x'' @ get_str m ''alertNum'' ''?'' @ '')''"

definition process_crash :: "pydict \<Rightarrow> action" where
  "process_crash m =
     (let entry = host_log ''E'' (crash_text m) (dict_get m ''timestamp'' (VStr '''')) []
      in seqs [on_app (\<lambda>st. st\<lparr>last_crash := Some m\<rparr>), on_app (add_log entry), emit ''crash'' (VDict m),
           emit ''log'' (VDict entry)])"

definition message_branch :: "clock \<Rightarrow> pydict \<Rightarrow> string \<Rightarrow> action" where
  "message_branch clk m ty =
     (if ty = ''LOG'' then seqs [on_app (add_log m), emit ''log'' (VDict m)]
      else if ty = ''VAR'' then with_key m ''name'' (\<lambda>_. seqs [set_var m m, emit ''var'' (VDict m)])
      else if ty = ''HB'' then
        seqs [on_app (\<lambda>st. st\<lparr>last_heartbeat := Some m, last_heartbeat_at := Some (wall clk)\<rparr>),
          emit ''heartbeat'' (VDict m)]
      else if ty = ''CLOG'' then process_clog clk m
      else if ty = ''CVAR'' then process_cvar m
      else if ty = ''CLIENTS'' then
        seqs [on_app (\<lambda>st. st\<lparr>clients := get_strs m ''names''\<rparr>), emit ''clients'' (VDict m)]
      else if ty = ''DBGSTOP'' then process_stop m
      else if ty = ''DBGSTATE'' then seqs [on_dbg (update_from_state m), emit ''dbg_state'' (VDict m)]
      else if ty = ''CRASH'' then process_crash m
      else (case map_of plain_events ty of Some ev \<Rightarrow> emit ev (VDict m) | None \<Rightarrow> skip))"

text \<open>\<open>_process_message\<close>\<close>

definition process_message :: "clock \<Rightarrow> pydict \<Rightarrow> action" where
  "process_message clk m =
     with_key m ''type'' (\<lambda>_.
       seq (on_app (\<lambda>st. st\<lparr>last_bridge_message_at := Some (wall clk)\<rparr>))
         (message_branch clk m (get_str m ''type'' '''')))"

section \<open>Lines\<close>

text \<open>
  Noise is removed from a line; a line of printable ASCII is known to have none and is not
  scanned again.
\<close>

definition printable_ascii :: "string \<Rightarrow> bool" where
  "printable_ascii s = list_all (\<lambda>c. 32 \<le> chr_code c \<and> chr_code c < 127) s"

definition clean_line :: "string \<Rightarrow> string" where
  "clean_line trimmed =
     (if printable_ascii trimmed then trimmed
      else filter (\<lambda>c. 32 \<le> chr_code c \<or> c = CHR 0x09) trimmed)"

definition process_line :: "clock \<Rightarrow> string \<Rightarrow> action" where
  "process_line clk line =
     (let trimmed = py_strip line
      in if trimmed = [] then skip
         else let cleaned = clean_line trimmed
           in if cleaned = [] then skip
              else seq (change (\<lambda>h. h\<lparr>rx := rx h @ [cleaned]\<rparr>))
                (case parse_message (stamp clk) cleaned of
                   Inl e \<Rightarrow> raise e
                 | Inr None \<Rightarrow> skip
                 | Inr (Some m) \<Rightarrow> process_message clk m))"

definition process_lines :: "clock \<Rightarrow> string list \<Rightarrow> action" where
  "process_lines clk ls = seqs (map (process_line clk) ls)"

section \<open>Data\<close>

definition looks_http :: "string \<Rightarrow> bool" where
  "looks_http data \<longleftrightarrow>
     py_startswith data ''HTTP/'' \<or> py_startswith data ''<!DOCTYPE'' \<or> py_startswith data ''<html''"

text \<open>The dash of the message is a Unicode dash in the source.\<close>

definition http_message :: "serial \<Rightarrow> string" where
  "http_message sc =
     ''PORT CONFLICT: Received HTTP response on serial port '' @ host sc @ '':'' @ fmt_dec (port sc) @
     '' - another application (not FS-UAE) is listening on this port. Check for conflicting '' @
     ''services (e.g. LM Studio, web servers) and kill them, or change the serial port in devbench.toml.''"

definition act :: "action \<Rightarrow> serial \<Rightarrow> serial \<times> exn option" where
  "act a sc = (case a (hub sc) of (h, e) \<Rightarrow> (sc\<lparr>hub := h\<rparr>, e))"

definition conflict_notice :: "clock \<Rightarrow> string \<Rightarrow> action" where
  "conflict_notice clk txt =
     seqs [emit ''port_conflict'' (VDict [(''message'', VStr txt)]),
       on_app (add_log (host_log ''E'' txt (VStr (stamp clk)) []))]"

definition gather_lines :: "clock \<Rightarrow> string \<Rightarrow> serial \<Rightarrow> serial \<times> exn option" where
  "gather_lines clk data sc =
     (let stale = (line_buf sc \<noteq> [] \<and>
            (case line_buf_time sc of None \<Rightarrow> False | Some t \<Rightarrow> 2000 < mono clk - t));
          buf = (if stale then '''' else line_buf sc);
          lines = split_char (CHR 0x0A) (buf @ data)
      in act (process_lines clk (butlast lines))
           (sc\<lparr>line_buf := last lines, line_buf_time := Some (mono clk)\<rparr>))"

definition handle_data :: "clock \<Rightarrow> string \<Rightarrow> serial \<Rightarrow> serial \<times> exn option" where
  "handle_data clk data sc =
     (if first_data sc \<and> conn_mode sc = ''tcp'' then
        (let sc1 = sc\<lparr>first_data := False\<rparr>
         in if looks_http data then
              act (conflict_notice clk (http_message sc1)) (sc1\<lparr>http_detected := True\<rparr>)
            else gather_lines clk data sc1)
      else gather_lines clk data sc)"

section \<open>Sending\<close>

definition send_raw :: "string \<Rightarrow> serial \<Rightarrow> serial \<times> exn option" where
  "send_raw line sc =
     (if \<not> conn_up sc then (sc, Some (RuntimeError ''Not connected to Amiga serial port''))
      else let sc1 = sc\<lparr>hub := (hub sc)\<lparr>tx := tx (hub sc) @ [line]\<rparr>\<rparr>
        in if conn_mode sc = ''tcp'' \<and> \<not> writer_open sc then (sc1, Some (RuntimeError ''Not connected (TCP)''))
           else if conn_mode sc \<noteq> ''tcp'' \<and> \<not> master_fd sc then (sc1, Some (RuntimeError ''Not connected (PTY)''))
           else (sc1\<lparr>wire := wire sc1 @ line @ [CHR 0x0A]\<rparr>, None))"

definition send :: "command \<Rightarrow> serial \<Rightarrow> serial \<times> exn option" where
  "send cmd sc =
     (if \<not> conn_up sc then (sc, Some (RuntimeError ''Not connected to Amiga serial port''))
      else case format_command cmd of Inl e \<Rightarrow> (sc, Some e) | Inr line \<Rightarrow> send_raw line sc)"

section \<open>Chunks do not matter\<close>

text \<open>The read loop on the pieces that arrive at times \<open>t\<close>; an exception ends it.\<close>

fun feed :: "clock \<Rightarrow> (int \<times> string) list \<Rightarrow> serial \<Rightarrow> serial \<times> exn option" where
  "feed clk [] sc = (sc, None)"
| "feed clk ((t, data) # pieces) sc =
     (case handle_data (clk\<lparr>mono := t\<rparr>) data sc of
        (sc', None) \<Rightarrow> feed clk pieces sc'
      | (sc', Some e) \<Rightarrow> (sc', Some e))"

text \<open>No chunk comes more than two seconds after the one before.\<close>

fun steady :: "int \<Rightarrow> (int \<times> string) list \<Rightarrow> bool" where
  "steady t0 [] = True"
| "steady t0 ((t, data) # pieces) = (t - t0 \<le> 2000 \<and> steady t pieces)"

lemma clock_only:
  "process_message (clk\<lparr>mono := t\<rparr>) m = process_message clk m"
  "process_lines (clk\<lparr>mono := t\<rparr>) ls = process_lines clk ls"
proof -
  show m: "process_message (clk\<lparr>mono := t\<rparr>) m = process_message clk m" for m
    by (simp add: process_message_def message_branch_def process_clog_def Let_def)
  have "process_line (clk\<lparr>mono := t\<rparr>) = process_line clk"
    by (rule ext) (simp add: process_line_def Let_def m cong: sum.case_cong option.case_cong)
  then show "process_lines (clk\<lparr>mono := t\<rparr>) ls = process_lines clk ls"
    by (simp add: process_lines_def)
qed

lemma process_lines_append:
  "process_lines clk (xs @ ys) = seq (process_lines clk xs) (process_lines clk ys)"
  by (simp add: process_lines_def seqs_append)

text \<open>What the hub sees of some data, and what is kept of it for later.\<close>

lemma gather_fresh:
  assumes "line_buf sc = [] \<or> (\<exists>t0. line_buf_time sc = Some t0 \<and> t - t0 \<le> 2000)"
  shows "gather_lines (clk\<lparr>mono := t\<rparr>) data sc =
    (let ls = split_char (CHR 0x0A) (line_buf sc @ data); (h, e) = process_lines clk (butlast ls) (hub sc)
     in (sc\<lparr>line_buf := last ls, line_buf_time := Some t, hub := h\<rparr>, e))"
  using assms by (auto simp: gather_lines_def Let_def act_def clock_only split: prod.splits)

lemma handle_data_gather:
  "\<not> (first_data sc \<and> conn_mode sc = ''tcp'') \<Longrightarrow> handle_data clk data sc = gather_lines clk data sc"
  unfolding handle_data_def by (rule if_not_P)

definition fresh_buf :: "int \<Rightarrow> serial \<Rightarrow> bool" where
  "fresh_buf t sc \<longleftrightarrow> \<not> (first_data sc \<and> conn_mode sc = ''tcp'') \<and> line_buf_time sc = Some t"

lemma feed_gather:
  assumes "fresh_buf t0 sc" and "steady t0 ((t, data) # pieces)"
  shows "(let ls = split_char (CHR 0x0A) (line_buf sc @ concat (map snd ((t, data) # pieces)));
              (h, e) = process_lines clk (butlast ls) (hub sc); r = feed clk ((t, data) # pieces) sc
          in snd r = e \<and> hub (fst r) = h \<and>
             (e = None \<longrightarrow> fst r = sc\<lparr>line_buf := last ls,
                line_buf_time := Some (fst (last ((t, data) # pieces))), hub := h\<rparr>))"
  using assms
proof (induction pieces arbitrary: sc t0 t data)
  case Nil
  then show ?case
    by (simp add: fresh_buf_def handle_data_gather gather_fresh Let_def split: prod.split option.split)
next
  case (Cons c pieces)
  obtain t' data' where c: "c = (t', data')" by (cases c)
  let ?ls = "split_char (CHR 0x0A) (line_buf sc @ data)"
  let ?rest = "data' @ concat (map snd pieces)"
  obtain h e where he: "process_lines clk (butlast ?ls) (hub sc) = (h, e)" by fastforce
  let ?sc = "sc\<lparr>line_buf := last ?ls, line_buf_time := Some t, hub := h\<rparr>"
  have step: "handle_data (clk\<lparr>mono := t\<rparr>) data sc = (?sc, e)"
    using Cons.prems he by (simp add: fresh_buf_def handle_data_gather gather_fresh Let_def)
  have cut: "split_char (CHR 0x0A) (line_buf sc @ data @ ?rest) =
      butlast ?ls @ split_char (CHR 0x0A) (last ?ls @ ?rest)"
    using split_char_concat [of "CHR 0x0A" "line_buf sc @ data" ?rest] by simp
  show ?case
  proof (cases e)
    case None
    have "fresh_buf t ?sc" "steady t ((t', data') # pieces)"
      using Cons.prems c by (auto simp: fresh_buf_def)
    from Cons.IH [OF this] None step he show ?thesis
      by (simp add: c cut Let_def butlast_append process_lines_append seq_def split: prod.splits)
  next
    case (Some x)
    then show ?thesis using step he
      by (simp add: c cut Let_def butlast_append process_lines_append seq_def split: prod.splits)
  qed
qed

text \<open>
  C12. How the transport cuts the stream does not matter: data that arrives in pieces, none of
  them more than two seconds after the one before, has the same effect on the shared state,
  the debugger, the bus and the callbacks as the same data in one piece, raises the same
  exception if any, and if none leaves the same connection, with the same partial line kept.
\<close>

theorem pieces_equivalent:
  assumes "\<not> first_data sc" and "line_buf_time sc = Some t0" and "steady t0 pieces" and "pieces \<noteq> []"
    and whole: "whole = handle_data (clk\<lparr>mono := fst (hd pieces)\<rparr>) (concat (map snd pieces)) sc"
  shows "snd (feed clk pieces sc) = snd whole \<and> hub (fst (feed clk pieces sc)) = hub (fst whole) \<and>
    (snd whole = None \<longrightarrow>
       fst (feed clk pieces sc) = (fst whole)\<lparr>line_buf_time := Some (fst (last pieces))\<rparr>)"
proof -
  obtain t data cs where c: "pieces = (t, data) # cs" using assms(4) by (cases pieces) auto
  have fb: "fresh_buf t0 sc" using assms by (simp add: fresh_buf_def)
  obtain h e where he: "process_lines clk (butlast (split_char (CHR 0x0A)
      (line_buf sc @ concat (map snd pieces)))) (hub sc) = (h, e)" by fastforce
  note run = feed_gather [OF fb assms(3) [unfolded c], of clk, folded c]
  have "whole = gather_lines (clk\<lparr>mono := t\<rparr>) (concat (map snd pieces)) sc"
    using assms(1) by (simp add: whole c handle_data_gather)
  moreover have "\<dots> = (let ls = split_char (CHR 0x0A) (line_buf sc @ concat (map snd pieces));
      (h, e) = process_lines clk (butlast ls) (hub sc)
      in (sc\<lparr>line_buf := last ls, line_buf_time := Some t, hub := h\<rparr>, e))"
    using assms(2,3) c by (intro gather_fresh) simp
  ultimately show ?thesis
    using run he by (auto simp: Let_def c simp del: feed.simps)
qed

theorem pieces_equivalent_witness:
  "let sc = (new_serial initial_state new_bus)\<lparr>first_data := False, line_buf_time := Some 0\<rparr>;
       clk = \<lparr>wall = 5, mono = 0, stamp = ''''\<rparr>
   in rx (hub (fst (feed clk [(10, ''PO''), (20, ''NG''), (30, [CHR 0x0A])] sc))) = [''PONG'']"
proof -
  let ?sc = "(new_serial initial_state new_bus)\<lparr>first_data := False, line_buf_time := Some 0\<rparr>"
  let ?clk = "\<lparr>wall = 5, mono = 0, stamp = ''''\<rparr>"
  let ?p = "[(10, ''PO''), (20, ''NG''), (30, [CHR 0x0A])]"
  have "rx (hub (fst (handle_data (?clk\<lparr>mono := fst (hd ?p)\<rparr>) (concat (map snd ?p)) ?sc))) = [''PONG'']"
    by code_simp
  with pieces_equivalent [of ?sc 0 ?p _ ?clk, OF _ _ _ _ refl] show ?thesis
    by (simp add: new_serial_def Let_def del: feed.simps)
qed

section \<open>What every message keeps\<close>

text \<open>The keys that the dispatch indexes are there in every message the parser gives it.\<close>

definition required_keys :: "string \<Rightarrow> string list" where
  "required_keys t =
     (if t = ''VAR'' then [''name'']
      else if t = ''CVAR'' then [''name'', ''varType'', ''value'', ''client'']
      else if t = ''CLOG'' then [''message'', ''level'', ''tick'', ''client'', ''timestamp''] else [])"

definition keys_in :: "pydict \<Rightarrow> string list \<Rightarrow> bool" where
  "keys_in m ks \<longleftrightarrow> list_all (\<lambda>k. map_of m k \<noteq> None) ks"

lemma parsed_type:
  assumes "parse_message now line = Inr (Some m)"
  obtains t h where "map_of (parse_table now line) t = Some h" "h (split_char (CHR ''|'') line) = Inr (Some m)"
    "map_of m ''type'' = Some (VStr (branch_type t))"
proof -
  obtain h where h: "map_of (parse_table now line) (hd (split_char (CHR ''|'') line)) = Some h"
    "h (split_char (CHR ''|'') line) = Inr (Some m)"
    using assms by (auto simp: parse_message_def Let_def split: option.splits)
  with table_has_type [of "split_char (CHR ''|'') line" now line]
  have "map_of m ''type'' = Some (VStr (branch_type (hd (split_char (CHR ''|'') line))))"
    by (auto simp: list_all_iff has_type_def dest!: map_of_SomeD)
  with h that show ?thesis by blast
qed

lemma table_branches:
  "map_of (parse_table now line) ''VAR'' = Some parse_VAR"
  "map_of (parse_table now line) ''CVAR'' = Some parse_CVAR"
  "map_of (parse_table now line) ''CLOG'' = Some (parse_CLOG now)"
  by (simp_all add: parse_table_def)

lemma parsed_keys:
  assumes "parse_message now line = Inr (Some m)"
  shows "map_of m ''type'' = Some (VStr (get_str m ''type'' '''')) \<and>
    keys_in m (required_keys (get_str m ''type'' ''''))"
proof -
  from parsed_type [OF assms] obtain t h where
    h: "map_of (parse_table now line) t = Some h" "h (split_char (CHR ''|'') line) = Inr (Some m)"
    and ty: "map_of m ''type'' = Some (VStr (branch_type t))" .
  then have g: "get_str m ''type'' '''' = branch_type t" by (simp add: get_str_def)
  have "keys_in m (required_keys (branch_type t))"
  proof (cases "t = ''VAR'' \<or> t = ''CVAR'' \<or> t = ''CLOG''")
    case True
    with h show ?thesis
      by (elim disjE) (auto simp: table_branches keys_in_def required_keys_def branch_type_def parse_VAR_def
          parse_CVAR_def parse_CLOG_def split: if_splits)
  next
    case False
    then show ?thesis by (auto simp: keys_in_def required_keys_def branch_type_def)
  qed
  with ty g show ?thesis by simp
qed

lemma parse_value_errors: "parse_message now line = Inl e \<Longrightarrow> e = ValueError"
  using table_raises_only [of "split_char (CHR ''|'') line" now line]
  by (auto simp: parse_message_def Let_def list_all_iff raises_only_def value_errors_def
      split: option.splits dest!: map_of_SomeD)

text \<open>What the data path leaves alone of the connection.\<close>

definition same_link :: "serial \<Rightarrow> serial \<Rightarrow> bool" where
  "same_link sc sc' \<longleftrightarrow>
     hub sc' = hub sc \<and> conn_up sc' = conn_up sc \<and> conn_mode sc' = conn_mode sc \<and>
     reader_open sc' = reader_open sc \<and> writer_open sc' = writer_open sc \<and> tcp_task sc' = tcp_task sc \<and>
     master_fd sc' = master_fd sc \<and> auto_reconnect sc' = auto_reconnect sc \<and>
     reconnect_task sc' = reconnect_task sc \<and> watchdog_task sc' = watchdog_task sc \<and> wire sc' = wire sc"

lemma same_link_first: "same_link (sc\<lparr>first_data := b\<rparr>) sc' = same_link sc sc'"
  by (simp add: same_link_def)

lemma gather_link:
  "\<exists>ls sc'. gather_lines clk data sc = act (process_lines clk ls) sc' \<and> same_link sc sc'"
  unfolding gather_lines_def Let_def by (intro exI conjI, rule refl) (simp add: same_link_def)

text \<open>
  What holds of the elementary actions of the dispatch and is kept by sequencing holds of the
  processing of any lines. An update of the shared state leaves its connection flag alone.
\<close>

locale reader_property =
  fixes P :: "action \<Rightarrow> bool"
  assumes P_skip: "P skip"
    and P_raise: "P (raise ValueError)"
    and P_seq: "P a \<Longrightarrow> P b \<Longrightarrow> P (seq a b)"
    and P_emit: "P (emit ev v)"
    and P_app: "(\<And>st. connected (f st) = connected st) \<Longrightarrow> P (on_app f)"
    and P_stop: "P (on_dbg (update_from_stop m))"
    and P_state: "P (on_dbg (update_from_state m))"
    and P_rx: "P (change (\<lambda>h. h\<lparr>rx := rx h @ [l]\<rparr>))"
begin

lemma P_seqs: "list_all P as \<Longrightarrow> P (seqs as)"
  by (induction as) (simp_all add: P_skip P_seq)

lemma P_key: "map_of m k \<noteq> None \<Longrightarrow> (\<And>v. P (f v)) \<Longrightarrow> P (with_key m k f)"
  by (auto simp: with_key_def)

lemma P_if: "(c \<Longrightarrow> P a) \<Longrightarrow> (\<not> c \<Longrightarrow> P b) \<Longrightarrow> P (if c then a else b)"
  by simp

lemma P_case: "P a \<Longrightarrow> (\<And>x. P (f x)) \<Longrightarrow> P (case o' of None \<Rightarrow> a | Some x \<Rightarrow> f x)"
  by (cases o') simp_all

lemma P_log: "P (on_app (add_log l))"
  by (rule P_app) (simp add: add_log_def)

lemma P_var: "P (set_var m e)"
  unfolding set_var_def by (rule P_app) simp

lemmas P_intros = P_if P_seq P_seqs P_key
lemmas P_basic = P_skip P_raise P_emit P_stop P_state P_rx P_log P_var

lemma P_client_log: "keys_in m [''level'', ''tick'', ''client'', ''timestamp''] \<Longrightarrow> P (client_log m)"
  unfolding client_log_def Let_def keys_in_def by (intro P_intros) (simp_all add: P_basic)

lemma P_test_log: "keys_in tp [''type''] \<Longrightarrow> keys_in m [''timestamp''] \<Longrightarrow> P (test_log m tp)"
  unfolding test_log_def Let_def keys_in_def by (intro P_intros) (simp_all add: P_basic)

lemma P_clog:
  assumes "keys_in m (required_keys ''CLOG'')"
  shows "P (process_clog clk m)"
proof -
  have sub: "keys_in m [''level'', ''tick'', ''client'', ''timestamp'']" "map_of m ''message'' \<noteq> None"
    "keys_in m [''timestamp'']" "map_of m ''timestamp'' \<noteq> None"
    using assms by (simp_all add: keys_in_def required_keys_def)
  have test: "P (seq (emit ''test'' (VDict tp)) (test_log m tp))"
    if "parse_message now l = Inr (Some (kv # kvs))"
      and "tp = dict_set (dict_set (kv # kvs) ''client'' c) ''timestamp'' ts" for now l kv kvs tp c ts
    using parsed_keys [OF that(1)] that(2) sub(3)
    by (intro P_seq P_emit P_test_log) (simp_all add: keys_in_def)
  show ?thesis
    unfolding process_clog_def Let_def using test sub
    by (intro P_key)
       (auto intro!: P_client_log P_key P_raise dest!: parse_value_errors split: sum.splits option.splits list.splits)
qed

lemma P_cvar: "keys_in m (required_keys ''CVAR'') \<Longrightarrow> P (process_cvar m)"
  unfolding process_cvar_def Let_def keys_in_def required_keys_def
  by (intro P_intros) (simp_all add: P_basic)

lemma P_branch:
  assumes "keys_in m (required_keys t)"
  shows "P (message_branch clk m t)"
  unfolding message_branch_def process_stop_def process_crash_def Let_def
  by (intro P_if P_seqs P_app P_key P_clog P_cvar P_case)
     (use assms in \<open>auto simp: P_basic P_app keys_in_def required_keys_def intro: P_emit\<close>)

lemma P_message: "parse_message now line = Inr (Some m) \<Longrightarrow> P (process_message clk m)"
  unfolding process_message_def using parsed_keys [of now line m]
  by (intro P_key P_seq P_app P_branch) (simp_all add: keys_in_def)

lemma P_line: "P (process_line clk l)"
  unfolding process_line_def Let_def
  by (auto intro!: P_seq P_message P_raise dest!: parse_value_errors simp: P_basic split: sum.split option.split)

lemma P_lines: "P (process_lines clk ls)"
  unfolding process_lines_def by (intro P_seqs) (simp add: P_line list_all_iff)

lemma P_conflict: "P (conflict_notice clk w)"
  unfolding conflict_notice_def by (intro P_seqs) (simp add: P_basic)

text \<open>Every piece of data has the property's effect on the hub.\<close>

lemma handle_data_action:
  obtains a sc' where "P a" "handle_data clk data sc = act a sc'" "same_link sc sc'"
proof (cases "first_data sc \<and> conn_mode sc = ''tcp''")
  case False
  then have "handle_data clk data sc = gather_lines clk data sc" by (rule handle_data_gather)
  with that gather_link [of clk data sc] P_lines show thesis by metis
next
  case True
  show thesis
  proof (cases "looks_http data")
    case True
    with \<open>first_data sc \<and> _\<close> P_conflict show thesis
      by (intro that [of "conflict_notice clk (http_message (sc\<lparr>first_data := False\<rparr>))"
            "sc\<lparr>first_data := False, http_detected := True\<rparr>"])
         (simp_all add: handle_data_def Let_def same_link_def)
  next
    case False
    then have "handle_data clk data sc = gather_lines clk data (sc\<lparr>first_data := False\<rparr>)"
      using True by (simp add: handle_data_def Let_def)
    with that gather_link [of clk data "sc\<lparr>first_data := False\<rparr>"] P_lines show thesis
      by (metis same_link_first)
  qed
qed

end

definition value_errors_only :: "action \<Rightarrow> bool" where
  "value_errors_only a \<longleftrightarrow> (\<forall>h. snd (a h) \<in> {None, Some ValueError})"

lemma value_errors_seq:
  assumes "value_errors_only a" and "value_errors_only b"
  shows "value_errors_only (seq a b)"
  unfolding value_errors_only_def
proof
  fix h
  show "snd (seq a b h) \<in> {None, Some ValueError}"
    by (rule seq_cases [of a b h])
       (use assms in \<open>auto simp: value_errors_only_def\<close>, metis option.distinct(1) option.inject)
qed

lemmas action_defs = skip_def raise_def change_def emit_def on_app_def on_dbg_def

interpretation errors: reader_property value_errors_only
  by unfold_locales (rule value_errors_seq, assumption+ | simp add: value_errors_only_def action_defs)+

text \<open>
  Nothing the bridge sends can make the reader fail in more than one way: whatever the data
  and the state, \<open>_handle_data\<close> returns or raises ValueError (from a malformed number); the
  dispatch never misses a key of a message.
\<close>

theorem reader_raises:
  "snd (handle_data clk data sc) \<in> {None, Some ValueError}"
proof -
  obtain a sc' where "value_errors_only a" "handle_data clk data sc = act a sc'"
    by (rule errors.handle_data_action)
  then show ?thesis
    by (simp add: act_def value_errors_only_def split: prod.split) (metis prod.sel(2))
qed

end
