(* ===== verification/Connection.thy ===== *)
theory Connection
  imports Serial
begin

text \<open>
  How the serial connection comes and goes (\<open>serial_conn.py\<close>): connecting over TCP or a
  pseudo-terminal, the read loop's end, disconnecting, the silence watchdog and the reconnect
  loop. Tasks run interleaved at their awaits, so \<open>connect_tcp\<close> is two steps, before and after
  the socket is opened; the relation \<open>conn_step\<close> lets all of them happen in any order.
  Whether the operating system opens a socket, and what \<open>lsof\<close> prints, are arguments.
\<close>

section \<open>Configuration\<close>

definition set_target :: "string \<Rightarrow> int \<Rightarrow> serial \<Rightarrow> serial" where
  "set_target h p sc = sc\<lparr>host := h, port := p, conn_mode := ''tcp''\<rparr>"

definition set_mode :: "string \<Rightarrow> string option \<Rightarrow> string option \<Rightarrow> int option \<Rightarrow> serial \<Rightarrow> serial" where
  "set_mode md path h p sc =
     sc\<lparr>conn_mode := md,
        pty_path := (case path of None \<Rightarrow> pty_path sc | Some x \<Rightarrow> x),
        host := (case h of None \<Rightarrow> host sc | Some x \<Rightarrow> x),
        port := (case p of None \<Rightarrow> port sc | Some x \<Rightarrow> x)\<rparr>"

section \<open>Port conflicts\<close>

text \<open>
  \<open>_check_port_conflict\<close> on the return code and output of \<open>lsof\<close> (None when running it raised);
  a listener is its command, process and name.
\<close>

definition lsof_listeners :: "string \<Rightarrow> (string \<times> string \<times> string) list" where
  "lsof_listeners out =
     map (\<lambda>parts. (parts ! 0, parts ! 1, parts ! 8))
       (filter (\<lambda>parts. 9 \<le> length parts) (map py_words (tl (split_char (CHR 0x0A) (py_strip out)))))"

definition conflict_text :: "int \<Rightarrow> (string \<times> string \<times> string) list \<Rightarrow> string" where
  "conflict_text p conflicts =
     ''PORT CONFLICT on port '' @ fmt_dec p @ '': '' @
     py_join '', '' (map (\<lambda>(c, pid, n). c @ '' (pid '' @ pid @ '', '' @ n @ '')'') conflicts) @
     '' is also listening. DevBench may connect to the wrong service. Kill the conflicting process '' @
     ''or change the serial port in devbench.toml and FS-UAE config.''"

definition check_port_conflict :: "int \<Rightarrow> (int \<times> string) option \<Rightarrow> string option" where
  "check_port_conflict p lsof =
     (case lsof of
        None \<Rightarrow> None
      | Some (rc, out) \<Rightarrow>
          if rc \<noteq> 0 then None
          else let listeners = lsof_listeners out
            in if length listeners \<le> 1 then None
               else let conflicts = filter (\<lambda>(c, _).
                        \<not> py_in ''fs-uae'' (py_lower c) \<and> \<not> py_in ''fs_uae'' (py_lower c)) listeners
                 in if conflicts = [] then None else Some (conflict_text p conflicts))"

section \<open>Tasks\<close>

definition start_watchdog :: "serial \<Rightarrow> serial" where
  "start_watchdog sc = sc\<lparr>watchdog_task := True\<rparr>"

definition stop_watchdog :: "serial \<Rightarrow> serial" where
  "stop_watchdog sc = sc\<lparr>watchdog_task := False\<rparr>"

text \<open>A task is started unless one is pending.\<close>

definition schedule_reconnect :: "serial \<Rightarrow> serial" where
  "schedule_reconnect sc = sc\<lparr>reconnect_task := True\<rparr>"

definition note_event :: "string \<Rightarrow> pyval \<Rightarrow> serial \<Rightarrow> serial" where
  "note_event ev data sc = sc\<lparr>hub := fst (emit ev data (hub sc))\<rparr>"

definition set_app :: "(amiga_state \<Rightarrow> amiga_state) \<Rightarrow> serial \<Rightarrow> serial" where
  "set_app f sc = sc\<lparr>hub := fst (on_app f (hub sc))\<rparr>"

text \<open>\<open>_connected\<close> and the flag of the shared state are set together.\<close>

definition set_connected :: "bool \<Rightarrow> serial \<Rightarrow> serial" where
  "set_connected b sc = set_app (\<lambda>st. st\<lparr>connected := b\<rparr>) (sc\<lparr>conn_up := b\<rparr>)"

section \<open>TCP\<close>

text \<open>The \<open>finally\<close> block of \<open>_tcp_read_loop\<close>: at the end of the stream, on errors and when cancelled.\<close>

definition read_loop_end :: "serial \<Rightarrow> serial" where
  "read_loop_end sc =
     (let was_connected = conn_up sc;
          sc1 = stop_watchdog (set_connected False sc);
          sc2 = (if writer_open sc1 then sc1\<lparr>writer_open := False, reader_open := False\<rparr> else sc1);
          sc3 = (if was_connected then note_event ''disconnected'' (VDict []) sc2 else sc2);
          sc4 = (if auto_reconnect sc3 then schedule_reconnect sc3 else sc3)
      in sc4\<lparr>tcp_task := False\<rparr>)"

text \<open>
  \<open>connect_tcp\<close> up to the opening of the socket: an old read loop is cancelled and runs its end.
  None: already connected.
\<close>

definition connect_begin :: "clock \<Rightarrow> (int \<times> string) option \<Rightarrow> serial \<Rightarrow> serial option" where
  "connect_begin clk lsof sc =
     (if conn_up sc then None
      else let sc1 = sc\<lparr>auto_reconnect := True, http_detected := False, first_data := True, line_buf := ''''\<rparr>;
               sc2 = (if tcp_task sc1 then read_loop_end sc1 else sc1);
               sc3 = (if writer_open sc2 then sc2\<lparr>writer_open := False, reader_open := False\<rparr> else sc2)
        in Some (case check_port_conflict (port sc3) lsof of
             Some conflict \<Rightarrow>
               (if Some conflict \<noteq> port_conflict sc3
                then fst (act (conflict_notice clk conflict) (sc3\<lparr>port_conflict := Some conflict\<rparr>))
                else sc3)
           | None \<Rightarrow> sc3\<lparr>port_conflict := None\<rparr>))"

text \<open>The rest of \<open>connect_tcp\<close>, when the socket has been opened.\<close>

definition connect_opened :: "clock \<Rightarrow> serial \<Rightarrow> serial" where
  "connect_opened clk sc =
     (let sc1 = set_connected True (sc\<lparr>reader_open := True, writer_open := True\<rparr>);
          sc2 = set_app (\<lambda>st. st\<lparr>connection_mode := ''tcp'', serial_connected_at := Some (wall clk),
                  last_bridge_message_at := None, last_heartbeat_at := None\<rparr>) sc1
      in start_watchdog ((note_event ''connected'' (VDict []) sc2)\<lparr>tcp_task := True\<rparr>))"

section \<open>Pseudo-terminal\<close>

text \<open>On a platform without them, \<open>connect_pty\<close> raises.\<close>

definition connect_pty :: "bool \<Rightarrow> clock \<Rightarrow> serial \<Rightarrow> serial \<times> exn option" where
  "connect_pty supported clk sc =
     (if conn_up sc then (sc, None)
      else let sc1 = sc\<lparr>auto_reconnect := True\<rparr>
        in if \<not> supported then (sc1, Some (RuntimeError ''PTY mode is only supported on macOS and Linux''))
           else let sc2 = set_connected True (sc1\<lparr>master_fd := True, line_buf := ''''\<rparr>);
                    sc3 = set_app (\<lambda>st. st\<lparr>connection_mode := ''pty'', serial_connected_at := Some (wall clk)\<rparr>) sc2
             in (note_event ''connected'' (VDict []) sc3, None))"

definition pty_read_error :: "serial \<Rightarrow> serial" where
  "pty_read_error sc =
     (let was_connected = conn_up sc;
          sc1 = set_connected False sc;
          sc2 = (if was_connected then note_event ''disconnected'' (VDict []) sc1 else sc1)
      in if auto_reconnect sc2 then schedule_reconnect sc2 else sc2)"

text \<open>\<open>_pty_read_callback\<close> with what \<open>os.read\<close> gave; None when it raised \<open>OSError\<close>.\<close>

definition pty_read :: "clock \<Rightarrow> string option \<Rightarrow> serial \<Rightarrow> serial \<times> exn option" where
  "pty_read clk got sc =
     (if \<not> master_fd sc then (sc, None)
      else case got of
        None \<Rightarrow> (pty_read_error sc, None)
      | Some data \<Rightarrow> if data \<noteq> [] then handle_data clk data sc else (sc, None))"

section \<open>Disconnecting\<close>

definition disconnect :: "serial \<Rightarrow> serial" where
  "disconnect sc =
     (let sc1 = stop_watchdog (sc\<lparr>auto_reconnect := False\<rparr>);
          sc2 = sc1\<lparr>reconnect_task := False\<rparr>;
          sc3 = (if conn_mode sc2 = ''tcp'' then sc2\<lparr>reader_open := False, writer_open := False\<rparr> else sc2);
          sc4 = set_app (\<lambda>st. st\<lparr>serial_connected_at := None, last_bridge_message_at := None,
                  last_heartbeat_at := None\<rparr>) (set_connected False sc3)
      in note_event ''disconnected'' (VDict []) sc4)"

definition bridge_silence_timeout :: int where
  "bridge_silence_timeout = 15000"

text \<open>One turn of \<open>_watchdog_loop\<close>, after its sleep; the loop ends when the connection is down.\<close>

definition watchdog_turn :: "clock \<Rightarrow> serial \<Rightarrow> serial" where
  "watchdog_turn clk sc =
     (case last_bridge_message_at (app (hub sc)) of
        None \<Rightarrow> sc\<lparr>watchdog_task := conn_up sc\<rparr>
      | Some last_msg \<Rightarrow>
          if bridge_silence_timeout < wall clk - last_msg then
            (let sc1 = set_connected False (set_app (\<lambda>st. st\<lparr>last_bridge_message_at := None\<rparr>) sc);
                 sc2 = note_event ''disconnected'' (VDict [(''reason'', VStr ''bridge_silent'')]) sc1;
                 sc3 = (if auto_reconnect sc2 then schedule_reconnect sc2 else sc2)
             in sc3\<lparr>watchdog_task := False\<rparr>)
          else sc\<lparr>watchdog_task := conn_up sc\<rparr>)"

section \<open>Reconnecting\<close>

text \<open>
  An attempt to connect: the clock, the output of \<open>lsof\<close> and whether the system opens the
  socket or terminal. A failure raises, which leaves the connection as \<open>connect_begin\<close> did.
\<close>

type_synonym attempt = "clock \<times> (int \<times> string) option \<times> bool"

definition connect :: "attempt \<Rightarrow> serial \<Rightarrow> serial" where
  "connect a sc =
     (case a of (clk, lsof, opened) \<Rightarrow>
       if conn_mode sc = ''pty'' then fst (connect_pty opened clk sc)
       else case connect_begin clk lsof sc of
         None \<Rightarrow> sc
       | Some sc' \<Rightarrow> if opened then connect_opened clk sc' else sc')"

text \<open>
  \<open>_reconnect_loop\<close> after its first sleep, with the attempts the environment grants; the number
  is of the attempts made. The task is over when the loop is.
\<close>

fun reconnect_loop :: "attempt list \<Rightarrow> serial \<Rightarrow> serial \<times> nat" where
  "reconnect_loop [] sc = (sc, 0)"
| "reconnect_loop (a # as) sc =
     (if conn_up sc \<or> \<not> auto_reconnect sc then (sc\<lparr>reconnect_task := False\<rparr>, 0)
      else let sc' = connect a sc
        in if conn_up sc' then (sc'\<lparr>reconnect_task := False\<rparr>, 1)
           else apsnd Suc (reconnect_loop as sc'))"

section \<open>Steps\<close>

datatype conn_op =
    Target string int
  | Mode string
  | Begin clock "(int \<times> string) option"
  | Opened clock
  | Refused
  | Loop_End
  | Got clock string
  | Pty bool clock
  | Pty_Read clock "string option"
  | Watchdog clock
  | Disconnect
  | Send string

text \<open>
  The second component counts the calls of \<open>connect_tcp\<close> that wait for their socket. Data that
  raises in the read loop ends it.
\<close>

inductive conn_step :: "serial \<times> nat \<Rightarrow> conn_op \<Rightarrow> serial \<times> nat \<Rightarrow> bool" where
  target: "conn_step (sc, n) (Target h p) (set_target h p sc, n)"
| mode: "conn_step (sc, n) (Mode md) (set_mode md path h p sc, n)"
| start: "connect_begin clk lsof sc = Some sc' \<Longrightarrow> conn_step (sc, n) (Begin clk lsof) (sc', Suc n)"
| opened: "conn_step (sc, Suc n) (Opened clk) (connect_opened clk sc, n)"
| refused: "conn_step (sc, Suc n) Refused (sc, n)"
| loop_end: "tcp_task sc \<Longrightarrow> conn_step (sc, n) Loop_End (read_loop_end sc, n)"
| got: "tcp_task sc \<Longrightarrow> handle_data clk data sc = (sc', None) \<Longrightarrow> conn_step (sc, n) (Got clk data) (sc', n)"
| got_bad: "tcp_task sc \<Longrightarrow> handle_data clk data sc = (sc', Some e) \<Longrightarrow>
    conn_step (sc, n) (Got clk data) (read_loop_end sc', n)"
| pty: "conn_step (sc, n) (Pty ok clk) (fst (connect_pty ok clk sc), n)"
| pty_read: "conn_step (sc, n) (Pty_Read clk got) (fst (pty_read clk got sc), n)"
| watchdog: "watchdog_task sc \<Longrightarrow> conn_step (sc, n) (Watchdog clk) (watchdog_turn clk sc, n)"
| disconnect: "conn_step (sc, n) Disconnect (disconnect sc, n)"
| send: "conn_step (sc, n) (Send line) (fst (send_raw line sc), n)"

inductive_cases conn_stepE: "conn_step s op s'"

inductive conn_run :: "serial \<times> nat \<Rightarrow> conn_op list \<Rightarrow> serial \<times> nat \<Rightarrow> bool" where
  stop: "conn_run s [] s"
| go: "conn_step s op s' \<Longrightarrow> conn_run s' ops s'' \<Longrightarrow> conn_run s (op # ops) s''"

section \<open>Invariants\<close>

text \<open>
  The shared state knows whether the connection is up; streams come and go together; the
  watchdog of a TCP connection runs only while some task still may end it.
\<close>

definition conn_inv :: "serial \<Rightarrow> bool" where
  "conn_inv sc \<longleftrightarrow> connected (app (hub sc)) = conn_up sc \<and> reader_open sc = writer_open sc"

lemmas conn_simps = Let_def set_connected_def set_app_def note_event_def emit_def on_app_def change_def
  stop_watchdog_def start_watchdog_def schedule_reconnect_def

text \<open>What the bridge sends does not touch the flag of the shared state.\<close>

definition keeps_link :: "action \<Rightarrow> bool" where
  "keeps_link a \<longleftrightarrow> (\<forall>h. connected (app (fst (a h))) = connected (app h))"

lemma keeps_link_seq:
  assumes "keeps_link a" and "keeps_link b"
  shows "keeps_link (seq a b)"
  unfolding keeps_link_def
proof
  fix h
  show "connected (app (fst (seq a b h))) = connected (app h)"
    by (rule seq_cases [of a b h]) (use assms in \<open>simp_all add: keeps_link_def\<close>)
qed

interpretation link: reader_property keeps_link
  by unfold_locales (rule keeps_link_seq, assumption+ | simp add: keeps_link_def action_defs)+

text \<open>The end of the read loop, field by field.\<close>

lemma read_loop_end_fields [simp]:
  "conn_up (read_loop_end sc) = False" "connected (app (hub (read_loop_end sc))) = False"
  "writer_open (read_loop_end sc) = False" "tcp_task (read_loop_end sc) = False"
  "reader_open (read_loop_end sc) = (reader_open sc \<and> \<not> writer_open sc)"
  "auto_reconnect (read_loop_end sc) = auto_reconnect sc" "conn_mode (read_loop_end sc) = conn_mode sc"
  "reconnect_task (read_loop_end sc) = (reconnect_task sc \<or> auto_reconnect sc)"
  "line_buf (read_loop_end sc) = line_buf sc" "first_data (read_loop_end sc) = first_data sc"
  by (simp_all add: read_loop_end_def conn_simps)

text \<open>The check of the port changes nothing of the connection.\<close>

lemma act_link:
  assumes "keeps_link a"
  shows "connected (app (hub (fst (act a sc)))) = connected (app (hub sc))"
  using assms by (simp add: act_def keeps_link_def split: prod.split) (metis fst_conv)

lemma act_fields [simp]:
  "conn_up (fst (act a sc)) = conn_up sc" "writer_open (fst (act a sc)) = writer_open sc"
  "reader_open (fst (act a sc)) = reader_open sc" "tcp_task (fst (act a sc)) = tcp_task sc"
  "auto_reconnect (fst (act a sc)) = auto_reconnect sc" "conn_mode (fst (act a sc)) = conn_mode sc"
  "reconnect_task (fst (act a sc)) = reconnect_task sc" "line_buf (fst (act a sc)) = line_buf sc"
  "first_data (fst (act a sc)) = first_data sc"
  by (simp_all add: act_def split: prod.split)

lemma handle_data_link:
  assumes "handle_data clk data sc = (sc', e)"
  shows "connected (app (hub sc')) = connected (app (hub sc)) \<and>
    (\<exists>h. same_link sc (sc'\<lparr>hub := h\<rparr>))"
proof -
  obtain a sc1 where a: "keeps_link a" "handle_data clk data sc = act a sc1" "same_link sc sc1"
    by (rule link.handle_data_action)
  then have "sc' = sc1\<lparr>hub := fst (a (hub sc1))\<rparr>"
    using assms by (simp add: act_def split: prod.splits)
  with a show ?thesis
    by (auto simp: keeps_link_def same_link_def intro!: exI [of _ "hub sc"])
qed

lemma send_raw_link: "same_link (sc\<lparr>hub := h, wire := w\<rparr>) ((fst (send_raw line sc))\<lparr>hub := h, wire := w\<rparr>) \<and>
    app (hub (fst (send_raw line sc))) = app (hub sc)"
  by (simp add: send_raw_def Let_def same_link_def)

lemma connect_begin_cases:
  assumes "connect_begin clk lsof sc = Some sc'"
  shows "\<not> conn_up sc \<and> \<not> conn_up sc' \<and> auto_reconnect sc' \<and> \<not> writer_open sc' \<and> \<not> tcp_task sc' \<and>
    conn_mode sc' = conn_mode sc \<and> line_buf sc' = [] \<and> first_data sc' \<and>
    (conn_inv sc \<longrightarrow> conn_inv sc') \<and> (reconnect_task sc \<longrightarrow> reconnect_task sc')"
proof -
  let ?sc1 = "sc\<lparr>auto_reconnect := True, http_detected := False, first_data := True, line_buf := []\<rparr>"
  let ?sc2 = "if tcp_task ?sc1 then read_loop_end ?sc1 else ?sc1"
  let ?sc3 = "if writer_open ?sc2 then ?sc2\<lparr>writer_open := False, reader_open := False\<rparr> else ?sc2"
  define sc3 where "sc3 = ?sc3"
  have up: "\<not> conn_up sc" using assms by (simp add: connect_begin_def split: if_splits)
  have fields: "\<not> conn_up sc3 \<and> auto_reconnect sc3 \<and> \<not> writer_open sc3 \<and> \<not> tcp_task sc3 \<and>
      conn_mode sc3 = conn_mode sc \<and> line_buf sc3 = [] \<and> first_data sc3 \<and>
      (conn_inv sc \<longrightarrow> conn_inv sc3) \<and> (reconnect_task sc \<longrightarrow> reconnect_task sc3)"
    using up by (simp add: sc3_def conn_inv_def)
  have n: "keeps_link (conflict_notice clk w)" for w by (rule link.P_conflict)
  have "sc' = (case check_port_conflict (port sc3) lsof of
             Some conflict \<Rightarrow>
               (if Some conflict \<noteq> port_conflict sc3
                then fst (act (conflict_notice clk conflict) (sc3\<lparr>port_conflict := Some conflict\<rparr>))
                else sc3)
           | None \<Rightarrow> sc3\<lparr>port_conflict := None\<rparr>)"
    using assms up unfolding connect_begin_def sc3_def Let_def by simp
  then show ?thesis
    using fields up n by (simp add: conn_inv_def act_link split: option.split)
qed

lemma conn_step_inv: "conn_step s op s' \<Longrightarrow> conn_inv (fst s) \<Longrightarrow> conn_inv (fst s')"
proof (induction rule: conn_step.induct)
  case (start clk lsof sc sc' n)
  then show ?case using connect_begin_cases [of clk lsof sc sc'] by simp
next
  case (got sc clk data sc' n)
  then show ?case using handle_data_link [of clk data sc sc' None] by (auto simp: conn_inv_def same_link_def)
next
  case (got_bad sc clk data sc' e n)
  then show ?case using handle_data_link [of clk data sc sc' "Some e"]
    by (auto simp: conn_inv_def same_link_def)
next
  case (pty_read sc n clk got)
  then show ?case
    using handle_data_link [of clk "the got" sc "fst (handle_data clk (the got) sc)" "snd (handle_data clk (the got) sc)"]
    by (auto simp: pty_read_def pty_read_error_def conn_inv_def same_link_def conn_simps split: option.split)
next
  case (send sc n line)
  then show ?case using send_raw_link [where sc = sc and h = "hub sc" and w = "wire sc" and line = line]
    by (simp add: conn_inv_def same_link_def)
qed (auto simp: conn_inv_def set_target_def set_mode_def connect_opened_def connect_pty_def
      disconnect_def watchdog_turn_def conn_simps split: option.split)

lemma conn_run_inv: "conn_run s ops s' \<Longrightarrow> conn_inv (fst s) \<Longrightarrow> conn_inv (fst s')"
  by (induction rule: conn_run.induct) (auto dest: conn_step_inv)

text \<open>
  C13. The rest of the program can trust \<open>state.connected\<close>: in every interleaving of connection
  attempts, read-loop ends, data, watchdog turns, disconnects and commands, the flag of the
  shared state equals the connection's own, and the two stream ends are open together.
\<close>

theorem connected_flag:
  assumes "conn_run (new_serial initial_state b, 0) ops (sc, n)"
  shows "connected (app (hub sc)) = conn_up sc \<and> reader_open sc = writer_open sc"
  using conn_run_inv [OF assms] by (simp add: conn_inv_def new_serial_def initial_state_def)

theorem connected_flag_witness:
  "connected (app (hub (connect_opened \<lparr>wall = 0, mono = 0, stamp = ''''\<rparr>
     (the (connect_begin \<lparr>wall = 0, mono = 0, stamp = ''''\<rparr> None (new_serial initial_state new_bus))))))"
proof -
  let ?clk = "\<lparr>wall = 0, mono = 0, stamp = ''''\<rparr>" and ?sc = "new_serial initial_state new_bus"
  obtain sc1 where sc1: "connect_begin ?clk None ?sc = Some sc1"
    by (simp add: connect_begin_def new_serial_def Let_def)
  have "conn_run (?sc, 0) [Begin ?clk None, Opened ?clk] (connect_opened ?clk sc1, 0)"
    by (rule conn_run.go [OF conn_step.start [OF sc1]] conn_run.go [OF conn_step.opened] conn_run.stop)+
  from connected_flag [OF this] sc1 show ?thesis by (simp add: connect_opened_def conn_simps)
qed

section \<open>Lost connections come back\<close>

lemma connect_result:
  assumes "\<not> conn_up sc"
  shows "conn_up (connect (clk, lsof, ok) sc) = ok \<and> auto_reconnect (connect (clk, lsof, ok) sc)"
proof (cases "conn_mode sc = ''pty''")
  case True
  with assms show ?thesis by (simp add: connect_def connect_pty_def conn_simps)
next
  case False
  obtain sc' where "connect_begin clk lsof sc = Some sc'"
    using assms by (simp add: connect_begin_def Let_def)
  with connect_begin_cases [OF this] False show ?thesis
    by (simp add: connect_def connect_opened_def conn_simps)
qed

lemma reconnect_loop_returns:
  assumes "list_all (\<lambda>(clk, lsof, ok). \<not> ok) fails" and "\<not> conn_up sc" and "auto_reconnect sc"
  shows "conn_up (fst (reconnect_loop (fails @ (clk, lsof, True) # later) sc)) \<and>
    snd (reconnect_loop (fails @ (clk, lsof, True) # later) sc) = Suc (length fails)"
  using assms
proof (induction fails arbitrary: sc)
  case Nil
  then show ?case using connect_result [of sc clk lsof True] by (simp add: Let_def)
next
  case (Cons a fails)
  obtain c l where a: "a = (c, l, False)" using Cons.prems by (cases a) auto
  from connect_result [OF Cons.prems(2), of c l False] Cons.IH [of "connect a sc"] Cons.prems
  show ?case by (simp add: a Let_def)
qed

text \<open>The steps that lose the connection, other than a call of \<open>disconnect\<close>.\<close>

lemma loss_schedules:
  "conn_step s op s' \<Longrightarrow> conn_up (fst s) \<Longrightarrow> \<not> conn_up (fst s') \<Longrightarrow> auto_reconnect (fst s) \<Longrightarrow>
   op \<noteq> Disconnect \<Longrightarrow> reconnect_task (fst s') \<and> auto_reconnect (fst s')"
proof (induction rule: conn_step.induct)
  case (start clk lsof sc sc' n)
  then show ?case using connect_begin_cases [of clk lsof sc sc'] by simp
next
  case (got sc clk data sc' n)
  then show ?case using handle_data_link [of clk data sc sc' None] by (auto simp: same_link_def)
next
  case (got_bad sc clk data sc' e n)
  then show ?case using handle_data_link [of clk data sc sc' "Some e"] by (auto simp: same_link_def)
next
  case (pty_read sc n clk got)
  then show ?case
    using handle_data_link [of clk "the got" sc "fst (handle_data clk (the got) sc)" "snd (handle_data clk (the got) sc)"]
    by (auto simp: pty_read_def pty_read_error_def same_link_def conn_simps split: option.splits if_splits)
next
  case (send sc n line)
  then show ?case using send_raw_link [where sc = sc and h = "hub sc" and w = "wire sc" and line = line]
    by (simp add: same_link_def)
next
  case (watchdog sc n clk)
  then show ?case by (auto simp: watchdog_turn_def conn_simps split: option.splits if_splits)
qed (simp_all add: set_target_def set_mode_def connect_opened_def connect_pty_def conn_simps)

text \<open>
  C14. A lost connection comes back: whenever a step other than a disconnect call takes the
  connection down while reconnecting is on (the stream ends, the terminal fails, malformed data
  raises, the watchdog finds the bridge silent), a reconnect task is pending, and its loop,
  however many attempts fail, ends with the connection up at the first attempt that the system
  grants.
\<close>

theorem loss_reconnects:
  assumes "conn_step (sc, n) op (sc', n')" and "conn_up sc" and "\<not> conn_up sc'" and "auto_reconnect sc"
    and "op \<noteq> Disconnect" and "list_all (\<lambda>(clk, lsof, ok). \<not> ok) fails"
  shows "reconnect_task sc' \<and>
    conn_up (fst (reconnect_loop (fails @ (clk, lsof, True) # later) sc')) \<and>
    snd (reconnect_loop (fails @ (clk, lsof, True) # later) sc') = Suc (length fails)"
  using loss_schedules [OF assms(1)] assms(2-5) reconnect_loop_returns [OF assms(6) assms(3)] by simp

theorem loss_reconnects_witness:
  "conn_up (fst (reconnect_loop [(\<lparr>wall = 9, mono = 9, stamp = ''''\<rparr>, None, False),
       (\<lparr>wall = 14, mono = 14, stamp = ''''\<rparr>, None, True)]
     (read_loop_end ((new_serial initial_state new_bus)\<lparr>conn_up := True, tcp_task := True\<rparr>))))"
proof -
  let ?sc = "(new_serial initial_state new_bus)\<lparr>conn_up := True, tcp_task := True\<rparr>"
  have "conn_step (?sc, 0) Loop_End (read_loop_end ?sc, 0)" by (rule conn_step.loop_end) simp
  from loss_reconnects [OF this, of "[(\<lparr>wall = 9, mono = 9, stamp = ''''\<rparr>, None, False)]"]
  show ?thesis by (simp add: new_serial_def del: reconnect_loop.simps)
qed

section \<open>Switching to a pseudo-terminal\<close>

text \<open>
  Switching from TCP to a pseudo-terminal loses the new connection: \<open>disconnect\<close> only
  cancels the read loop, \<open>connect_pty\<close> does not wait for it as \<open>connect_tcp\<close> does, and its end
  then takes the fresh connection down, tells everyone it is gone, and leaves the new
  connection to the reconnect task.
\<close>

theorem switch_to_pty_lost:
  assumes "tcp_task sc" and up: "switched = fst (connect_pty True clk (set_mode ''pty'' (Some path) None None (disconnect sc)))"
  shows "conn_up switched \<and> tcp_task switched \<and> \<not> conn_up (read_loop_end switched) \<and>
    \<not> connected (app (hub (read_loop_end switched))) \<and> reconnect_task (read_loop_end switched)"
  using assms by (simp add: disconnect_def set_mode_def connect_pty_def conn_simps)

theorem switch_to_pty_lost_witness:
  "\<not> conn_up (read_loop_end (fst (connect_pty True \<lparr>wall = 0, mono = 0, stamp = ''''\<rparr>
     (set_mode ''pty'' (Some ''/tmp/p'') None None (disconnect
       ((new_serial initial_state new_bus)\<lparr>conn_up := True, tcp_task := True\<rparr>))))))"
  using switch_to_pty_lost [of "(new_serial initial_state new_bus)\<lparr>conn_up := True, tcp_task := True\<rparr>", OF _ refl]
  by simp

end
