(* ===== verification/Gdb.thy ===== *)
theory Gdb
  imports Connection
begin

text \<open>
  The GDB remote serial protocol server (\<open>gdb_server.py\<close>): packet framing, the loop over the
  client's byte stream and every packet handler. Handlers send lines over the serial connection
  and wait for events of the bus; what the bridge sends during each wait is an argument of the
  run (\<open>script\<close>), and goes through the connection's own data path.
\<close>

section \<open>Packets\<close>

definition checksum :: "string \<Rightarrow> int" where
  "checksum data = int (sum_list (map chr_code data)) AND 0xFF"

definition make_packet :: "string \<Rightarrow> string" where
  "make_packet data = ''$'' @ data @ ''#'' @ fmt_hex False 2 (checksum data)"

definition hex32 :: "int \<Rightarrow> string" where
  "hex32 val = fmt_hex False 8 val"

definition parse_hex :: "string \<Rightarrow> int res" where
  "parse_hex s = py_int 16 s"

text \<open>
  \<open>decode("ascii", errors="replace")\<close>: the replacement character U+FFFD, which no ASCII text
  contains, is the character 255 here.
\<close>

definition replacement :: char where
  "replacement = CHR 0xFF"

definition decode_ascii :: "string \<Rightarrow> string" where
  "decode_ascii = map (\<lambda>c. if chr_code c < 128 then c else replacement)"

section \<open>State and sequencing\<close>

text \<open>
  \<open>link\<close> is the serial connection with the shared objects, \<open>gout\<close> what the client has been
  sent. Each wait takes the next entry of \<open>script\<close>: the time at which it starts and the chunks
  that arrive until it is over. The debugger state of the server is the one of the connection.
\<close>

type_synonym wait_script = "int \<times> (clock \<times> string) list"

record gdb =
  link :: serial
  gout :: string
  script :: "wait_script list"

type_synonym 'a gm = "gdb \<Rightarrow> 'a res \<times> gdb"

definition ret :: "'a \<Rightarrow> 'a gm" where
  "ret x g = (Inr x, g)"

definition throw :: "exn \<Rightarrow> 'a gm" where
  "throw e g = (Inl e, g)"

definition bind :: "'a gm \<Rightarrow> ('a \<Rightarrow> 'b gm) \<Rightarrow> 'b gm" where
  "bind m f g = (case m g of (Inl e, g') \<Rightarrow> (Inl e, g') | (Inr x, g') \<Rightarrow> f x g')"

lemma bind_simps [simp]:
  "bind (ret x) f = f x" "bind (throw e) f = throw e"
  by (simp_all add: bind_def ret_def throw_def fun_eq_iff)

definition the_dbg :: "gdb \<Rightarrow> debugger" where
  "the_dbg g = (case dbg (hub (link g)) of Some d \<Rightarrow> d | None \<Rightarrow> new_debugger)"

definition set_dbg :: "(debugger \<Rightarrow> debugger) \<Rightarrow> unit gm" where
  "set_dbg f g = (Inr (), g\<lparr>link := (link g)\<lparr>hub := (hub (link g))\<lparr>dbg := Some (f (the_dbg g))\<rparr>\<rparr>\<rparr>)"

definition ask :: "(debugger \<Rightarrow> 'a) \<Rightarrow> 'a gm" where
  "ask f g = (Inr (f (the_dbg g)), g)"

definition write_client :: "string \<Rightarrow> unit gm" where
  "write_client s g = (Inr (), g\<lparr>gout := gout g @ s\<rparr>)"

text \<open>
  \<open>self._conn.send_raw\<close>. A replacement character cannot be encoded in latin-1, which raises a
  ValueError after the transmission has been noted.
\<close>

definition lift_link :: "serial \<times> exn option \<Rightarrow> gdb \<Rightarrow> unit res \<times> gdb" where
  "lift_link r g = (case r of
      (sc, None) \<Rightarrow> (Inr (), g\<lparr>link := sc\<rparr>)
    | (sc, Some e) \<Rightarrow> (Inl e, g\<lparr>link := sc\<rparr>))"

definition send_line :: "string \<Rightarrow> unit gm" where
  "send_line line g =
     (if conn_up (link g) \<and> replacement \<in> set line
      then (Inl ValueError, g\<lparr>link := (link g)\<lparr>hub := (hub (link g))\<lparr>tx := tx (hub (link g)) @ [line]\<rparr>\<rparr>\<rparr>)
      else lift_link (send_raw line (link g)) g)"

definition send_command :: "command \<Rightarrow> unit gm" where
  "send_command cmd g =
     (if \<not> conn_up (link g) then lift_link (send cmd (link g)) g
      else case format_command cmd of Inl e \<Rightarrow> (Inl e, g) | Inr line \<Rightarrow> send_line line g)"

section \<open>Waiting for the bridge\<close>

text \<open>A chunk reaches the connection while it reads: over TCP its read loop, else the terminal.\<close>

definition receive :: "clock \<times> string \<Rightarrow> serial \<Rightarrow> serial" where
  "receive c sc =
     (case c of (clk, data) \<Rightarrow>
       if conn_mode sc = ''tcp'' then
         (if tcp_task sc then
            (case handle_data clk data sc of (sc', None) \<Rightarrow> sc' | (sc', Some _) \<Rightarrow> read_loop_end sc')
          else sc)
       else fst (pty_read clk (Some data) sc))"

definition pending :: "nat \<Rightarrow> serial \<Rightarrow> event list" where
  "pending sid sc = (case map_of (subscribers (ebus (hub sc))) sid of None \<Rightarrow> [] | Some s \<Rightarrow> queue s)"

definition drop_queue :: "nat \<Rightarrow> serial \<Rightarrow> serial" where
  "drop_queue sid sc =
     sc\<lparr>hub := (hub sc)\<lparr>ebus := (ebus (hub sc))\<lparr>subscribers :=
       map (\<lambda>(i, s). (i, if i = sid then s\<lparr>queue := []\<rparr> else s)) (subscribers (ebus (hub sc)))\<rparr>\<rparr>\<rparr>"

text \<open>The events a waiting task takes from its queue, with the times of their chunks.\<close>

fun arrivals :: "nat \<Rightarrow> (clock \<times> string) list \<Rightarrow> serial \<Rightarrow> (int \<times> event) list \<times> serial" where
  "arrivals sid [] sc = ([], sc)"
| "arrivals sid (c # cs) sc =
     (let sc' = receive c sc; evs = map (Pair (mono (fst c))) (pending sid sc');
          (later, sc'') = arrivals sid cs (drop_queue sid sc')
      in (evs @ later, sc''))"

text \<open>\<open>async with self._bus.subscribe(...)\<close> around a wait: its start and what arrives.\<close>

definition listen :: "string list \<Rightarrow> (int \<times> (int \<times> event) list) gm" where
  "listen evs g =
     (let (sid, b) = subscribe evs (ebus (hub (link g)));
          sc = (link g)\<lparr>hub := (hub (link g))\<lparr>ebus := b\<rparr>\<rparr>;
          (now, pieces) = (case script g of [] \<Rightarrow> (0, []) | w # _ \<Rightarrow> w);
          (got, sc') = arrivals sid pieces sc;
          sc'' = sc'\<lparr>hub := (hub sc')\<lparr>ebus := unsubscribe sid (ebus (hub sc'))\<rparr>\<rparr>
      in (Inr (now, got), g\<lparr>link := sc'', script := tl (script g)\<rparr>))"

definition await :: "string \<Rightarrow> int \<Rightarrow> (pyval \<Rightarrow> bool) option \<Rightarrow> pyval option gm" where
  "await ev timeout pred =
     bind (listen [ev]) (\<lambda>(now, got). ret (wait_for now timeout pred (map (\<lambda>(t, e, d). (t, d)) got)))"

definition as_dict :: "pyval \<Rightarrow> pydict" where
  "as_dict v = (case v of VDict d \<Rightarrow> d | _ \<Rightarrow> [])"

definition replied :: "pyval option \<Rightarrow> bool" where
  "replied m = (case m of None \<Rightarrow> False | Some v \<Rightarrow> truthy v)"

definition context_has :: "string \<Rightarrow> pyval \<Rightarrow> bool" where
  "context_has w v = py_in w (get_str (as_dict v) ''context'' '''')"

section \<open>Registers\<close>

definition read_all_regs :: "string gm" where
  "read_all_regs =
     bind (ask stopped) (\<lambda>st.
       bind (if st then ret None else bind (send_line ''DBGREGS'') (\<lambda>_. await ''dbg_regs'' 5000 None)) (\<lambda>_.
         ask (\<lambda>d. concat (map (\<lambda>i. hex32 (regs d ! i)) [0..<8]) @
                  concat (map (\<lambda>i. hex32 (regs d ! (8 + i))) [0..<8]) @
                  hex32 (regs d ! 17) @ hex32 (regs d ! 16))))"

text \<open>GDB's number of a register, our index of it and its name.\<close>

definition reg_index :: "nat \<Rightarrow> nat" where
  "reg_index i = (if i < 16 then i else if i = 16 then 17 else 16)"

definition bridge_reg_name :: "nat \<Rightarrow> string" where
  "bridge_reg_name r =
     (if r < 8 then ''D'' @ fmt_dec (int r)
      else if r < 16 then ''A'' @ fmt_dec (int (r - 8))
      else if r = 16 then ''PC'' else ''SR'')"

definition set_reg_line :: "string \<Rightarrow> int \<Rightarrow> string" where
  "set_reg_line name val = ''DBGSETREG|'' @ name @ ''|'' @ hex32 val"

fun write_regs :: "string \<Rightarrow> nat list \<Rightarrow> string gm" where
  "write_regs hex_data [] = ret ''OK''"
| "write_regs hex_data (i # is) =
     (case parse_hex (take 8 (drop (i * 8) hex_data)) of
        Inl e \<Rightarrow> throw e
      | Inr val \<Rightarrow>
          bind (send_line (set_reg_line (bridge_reg_name (reg_index i)) val)) (\<lambda>_.
            bind (set_dbg (\<lambda>d. d\<lparr>regs := (regs d)[reg_index i := val]\<rparr>)) (\<lambda>_. write_regs hex_data is)))"

definition write_all_regs :: "string \<Rightarrow> string gm" where
  "write_all_regs hex_data =
     (if length hex_data < 18 * 4 * 2 then ret ''E01'' else write_regs hex_data [0..<18])"

text \<open>\<open>xs[i]\<close> for any integer: negative indices count from the end.\<close>

definition py_index :: "'a list \<Rightarrow> int \<Rightarrow> nat res" where
  "py_index xs i =
     (let k = (if i < 0 then int (length xs) + i else i)
      in if 0 \<le> k \<and> k < int (length xs) then Inr (nat k) else Inl IndexError)"

definition read_reg :: "string \<Rightarrow> string gm" where
  "read_reg data =
     (case parse_hex data of
        Inl _ \<Rightarrow> ret ''E01''
      | Inr regnum \<Rightarrow>
          if regnum < 16 then
            bind (ask regs) (\<lambda>rs. case py_index rs regnum of Inl e \<Rightarrow> throw e | Inr k \<Rightarrow> ret (hex32 (rs ! k)))
          else if regnum = 16 then ask (\<lambda>d. hex32 (regs d ! 17))
          else if regnum = 17 then ask (\<lambda>d. hex32 (regs d ! 16))
          else ret ''E01'')"

definition write_reg_value :: "string \<Rightarrow> int \<Rightarrow> int \<Rightarrow> string gm" where
  "write_reg_value name idx value =
     bind (send_line (set_reg_line name value)) (\<lambda>_.
       bind (ask regs) (\<lambda>rs.
         case py_index rs idx of
           Inl e \<Rightarrow> throw e
         | Inr k \<Rightarrow> bind (set_dbg (\<lambda>d. d\<lparr>regs := (regs d)[k := value]\<rparr>)) (\<lambda>_. ret ''OK'')))"

definition write_reg :: "string \<Rightarrow> string gm" where
  "write_reg data =
     (let parts = split_char (CHR ''='') data
      in if length parts \<noteq> 2 then ret ''E01''
         else case parse_hex (parts ! 0) of
           Inl _ \<Rightarrow> ret ''E01''
         | Inr regnum \<Rightarrow>
             case parse_hex (parts ! 1) of
               Inl _ \<Rightarrow> ret ''E01''
             | Inr value \<Rightarrow>
                 if regnum < 8 then write_reg_value (''D'' @ fmt_dec regnum) regnum value
                 else if regnum < 16 then write_reg_value (''A'' @ fmt_dec (regnum - 8)) regnum value
                 else if regnum = 16 then write_reg_value ''SR'' 17 value
                 else if regnum = 17 then write_reg_value ''PC'' 16 value
                 else ret ''E01'')"

section \<open>Memory\<close>

text \<open>
  The loop over the events of the subscription: None when an error event came, otherwise the
  chunks in order and how much they claim to hold.
\<close>

fun collect_mem :: "int \<Rightarrow> int \<Rightarrow> int \<Rightarrow> (int \<times> event) list \<Rightarrow> string list \<Rightarrow> int \<Rightarrow> (string list \<times> int) option" where
  "collect_mem deadline wanted now [] parts received = Some (parts, received)"
| "collect_mem deadline wanted now ((t, evt, m) # later) parts received =
     (if wanted \<le> received \<or> deadline - now \<le> 0 \<or> deadline \<le> t then Some (parts, received)
      else if evt = ''err'' then None
      else if evt = ''mem'' then
        collect_mem deadline wanted (max now t) later (parts @ [get_str (as_dict m) ''hexData'' ''''])
          (received + get_int (as_dict m) ''size'' 0)
      else collect_mem deadline wanted (max now t) later parts received)"

definition read_memory :: "string \<Rightarrow> string gm" where
  "read_memory data =
     (let parts = split_char (CHR '','') data
      in if length parts \<noteq> 2 then ret ''E01''
         else case parse_hex (parts ! 0) of
           Inl _ \<Rightarrow> ret ''E01''
         | Inr addr \<Rightarrow>
             case parse_hex (parts ! 1) of
               Inl _ \<Rightarrow> ret ''E01''
             | Inr len0 \<Rightarrow>
                 let len = min len0 4096
                 in bind (send_command [(''type'', AStr ''INSPECT''), (''address'', AStr (hex32 addr)), (''size'', AInt len)])
                   (\<lambda>_. bind (listen [''mem'', ''err'']) (\<lambda>(now, got).
                     case collect_mem (now + 5000) len now got [] 0 of
                       None \<Rightarrow> ret ''E01''
                     | Some (pieces, received) \<Rightarrow>
                         if pieces = [] then ret ''E01''
                         else ret (take (nat (len * 2)) (py_lower (concat pieces))))))"

definition write_memory :: "string \<Rightarrow> string gm" where
  "write_memory data =
     (if CHR '':'' \<notin> set data then ret ''E01''
      else let header = before_char (CHR '':'') data; hex_data = after_char (CHR '':'') data;
               parts = split_char (CHR '','') header
        in if length parts \<noteq> 2 then ret ''E01''
           else case parse_hex (parts ! 0) of
             Inl _ \<Rightarrow> ret ''E01''
           | Inr addr \<Rightarrow>
               bind (send_command [(''type'', AStr ''WRITEMEM''), (''address'', AStr (hex32 addr)), (''hexData'', AStr hex_data)])
                 (\<lambda>_. bind (await ''ok'' 5000 (Some (context_has ''WRITEMEM'')))
                   (\<lambda>m. ret (if replied m then ''OK'' else ''E01''))))"

section \<open>Running\<close>

text \<open>An optional start address.\<close>

definition set_pc :: "string \<Rightarrow> unit gm" where
  "set_pc data =
     (if data = [] then ret ()
      else case parse_hex data of
        Inl _ \<Rightarrow> ret ()
      | Inr addr \<Rightarrow> send_line (set_reg_line ''PC'' addr))"

definition step_packet :: "string \<Rightarrow> string gm" where
  "step_packet data =
     bind (set_pc data) (\<lambda>_. bind (send_line ''DBGSTEP'') (\<lambda>_.
       bind (await ''dbg_stop'' 30000 None) (\<lambda>_. ret ''S05'')))"

definition continue_packet :: "string \<Rightarrow> string option gm" where
  "continue_packet data = bind (set_pc data) (\<lambda>_. bind (send_line ''DBGCONT'') (\<lambda>_. ret None))"

definition breakpoint_packet :: "string \<Rightarrow> string \<Rightarrow> (pyval \<Rightarrow> bool) option \<Rightarrow> string \<Rightarrow> string gm" where
  "breakpoint_packet cmd ev pred data =
     (let parts = split_char (CHR '','') data
      in if length parts < 2 then ret ''E01''
         else if parts ! 0 \<noteq> ''0'' then ret ''''
         else case parse_hex (parts ! 1) of
           Inl _ \<Rightarrow> ret ''E01''
         | Inr addr \<Rightarrow>
             bind (send_line (cmd @ ''|'' @ hex32 addr)) (\<lambda>_.
               bind (await ev 5000 pred) (\<lambda>m. ret (if replied m then ''OK'' else ''E01''))))"

definition set_breakpoint :: "string \<Rightarrow> string gm" where
  "set_breakpoint = breakpoint_packet ''BPSET'' ''dbg_bpinfo'' None"

definition clear_breakpoint :: "string \<Rightarrow> string gm" where
  "clear_breakpoint = breakpoint_packet ''BPCLEAR'' ''ok'' (Some (context_has ''BPCLEAR''))"

section \<open>Monitor commands\<close>

definition bool_text :: "pydict \<Rightarrow> string \<Rightarrow> string" where
  "bool_text m k = (case map_of m k of Some (VBool b) \<Rightarrow> (if b then ''True'' else ''False'') | _ \<Rightarrow> ''None'')"

text \<open>\<open>text.encode("ascii").hex()\<close>\<close>

definition encode_hex :: "string \<Rightarrow> string gm" where
  "encode_hex s =
     (if list_all (\<lambda>c. chr_code c < 128) s
      then ret (bytes_hex False (map of_char s)) else throw ValueError)"

definition monitor_command :: "string \<Rightarrow> string gm" where
  "monitor_command cmd0 =
     (let cmd = py_strip cmd0
      in if cmd = ''status'' then
           bind (send_line ''DBGSTATUS'') (\<lambda>_. bind (await ''dbg_state'' 5000 None) (\<lambda>m.
             if replied m then
               (let d = as_dict (the m)
                in encode_hex (''attached='' @ bool_text d ''attached'' @ '', stopped='' @ bool_text d ''stopped'' @
                     '', target='' @ get_str d ''targetName'' ''?''))
             else ret ''4e6f20726573706f6e7365''))
         else if cmd = ''bt'' then
           bind (send_line ''DBGBT'') (\<lambda>_. bind (await ''dbg_bt'' 5000 None) (\<lambda>m.
             if replied m then
               (let frames = (case map_of (as_dict (the m)) ''frames'' of Some (VList fs) \<Rightarrow> fs | _ \<Rightarrow> [])
                in encode_hex (py_join [CHR 0x0A] (map (\<lambda>(i, f). ''#'' @ fmt_dec (int i) @ '' 0x'' @
                     hex32 (get_int (as_dict f) ''pc'' 0)) (enumerate 0 frames))))
             else ret ''''))
         else ret '''')"

text \<open>The handler of \<open>qRcmd\<close> answers E01 for any ValueError of what it calls.\<close>

definition catch_value_error :: "string gm \<Rightarrow> string gm" where
  "catch_value_error m g = (case m g of (Inl ValueError, g') \<Rightarrow> (Inr ''E01'', g') | r \<Rightarrow> r)"

definition monitor_packet :: "string \<Rightarrow> string gm" where
  "monitor_packet hex_cmd =
     catch_value_error
       (case bytes_fromhex hex_cmd of
          Inl e \<Rightarrow> throw e
        | Inr bs \<Rightarrow> if list_all (\<lambda>b. b < 128) bs then monitor_command (map (\<lambda>b. char_of (unat b)) bs)
           else throw ValueError)"

section \<open>Dispatch\<close>

definition answer :: "string gm \<Rightarrow> string option gm" where
  "answer m = bind m (\<lambda>s. ret (Some s))"

definition query_packet :: "string \<Rightarrow> string option gm" where
  "query_packet data =
     (if py_startswith data ''qSupported'' then ret (Some ''PacketSize=1024'')
      else if data = ''qAttached'' then ask (\<lambda>d. Some (if attached d then ''1'' else ''0''))
      else if data = ''qC'' then ret (Some ''QC1'')
      else if py_startswith data ''qfThreadInfo'' then ret (Some ''m1'')
      else if py_startswith data ''qsThreadInfo'' then ret (Some ''l'')
      else if data = ''qTStatus'' then ret (Some '''')
      else if py_startswith data ''qRcmd,'' then answer (monitor_packet (drop 6 data))
      else ret (Some ''''))"

definition process_packet :: "string \<Rightarrow> string option gm" where
  "process_packet data =
     (case data of
        [] \<Rightarrow> ret (Some '''')
      | cmd # args \<Rightarrow>
          if cmd = CHR ''?'' then ask (\<lambda>d. Some (if stopped d then ''S05'' else ''S00''))
          else if cmd = CHR ''g'' then answer read_all_regs
          else if cmd = CHR ''G'' then answer (write_all_regs args)
          else if cmd = CHR ''m'' then answer (read_memory args)
          else if cmd = CHR ''M'' then answer (write_memory args)
          else if cmd = CHR ''s'' then answer (step_packet args)
          else if cmd = CHR ''c'' then continue_packet args
          else if cmd = CHR ''Z'' then answer (set_breakpoint args)
          else if cmd = CHR ''z'' then answer (clear_breakpoint args)
          else if cmd = CHR ''k'' \<or> cmd = CHR ''D'' then
            bind (send_line ''DBGDETACH'') (\<lambda>_. ret (if cmd = CHR ''D'' then Some ''OK'' else None))
          else if cmd = CHR ''p'' then answer (read_reg args)
          else if cmd = CHR ''P'' then answer (write_reg args)
          else query_packet data)"

section \<open>The client loop\<close>

text \<open>\<open>make_packet(...)\<close> encodes its text in ASCII, which raises a ValueError for other texts.\<close>

definition write_packet :: "string \<Rightarrow> unit gm" where
  "write_packet s =
     (if list_all (\<lambda>c. chr_code c < 128) s then write_client (make_packet s) else throw ValueError)"

definition handle_interrupt :: "unit gm" where
  "handle_interrupt = bind (ask stopped) (\<lambda>st. if st then write_packet ''S05'' else ret ())"

definition serve_packet :: "string \<Rightarrow> unit gm" where
  "serve_packet data =
     bind (write_client ''+'') (\<lambda>_. bind (process_packet data) (\<lambda>response.
       case response of None \<Rightarrow> ret () | Some r \<Rightarrow> write_packet r))"

text \<open>
  The inner loop of \<open>_handle_client\<close> over the buffer; the result is what stays in it. An
  exception of a handler ends the session.
\<close>

datatype input_step = Ack string | Interrupt string | Packet string string | Discard | Incomplete

definition next_input :: "string \<Rightarrow> input_step" where
  "next_input buf =
     (if hd buf = CHR ''+'' \<or> hd buf = CHR ''-'' then Ack (tl buf)
      else if hd buf = CHR 0x03 then Interrupt (tl buf)
      else if CHR ''$'' \<notin> set buf then Discard
      else let rest = after_char (CHR ''$'') buf
        in if CHR ''#'' \<notin> set rest \<or> length (after_char (CHR ''#'') rest) < 2 then Incomplete
           else Packet (before_char (CHR ''#'') rest) (drop 2 (after_char (CHR ''#'') rest)))"

lemma length_after_char: "length (after_char c s) \<le> length s"
  unfolding after_char_def using length_dropWhile_le [of "\<lambda>x. x \<noteq> c" s] by simp

lemma next_input_shorter:
  "buf \<noteq> [] \<Longrightarrow> next_input buf = Ack b \<Longrightarrow> length b < length buf"
  "buf \<noteq> [] \<Longrightarrow> next_input buf = Interrupt b \<Longrightarrow> length b < length buf"
  "buf \<noteq> [] \<Longrightarrow> next_input buf = Packet p b \<Longrightarrow> length b < length buf"
  using length_after_char [of "CHR ''$''" buf] length_after_char [of "CHR ''#''" "after_char (CHR ''$'') buf"]
  by (auto simp: next_input_def Let_def split: if_splits)

function client_loop :: "string \<Rightarrow> string gm" where
  "client_loop buf =
     (if buf = [] then ret ''''
      else case next_input buf of
        Ack b \<Rightarrow> client_loop b
      | Interrupt b \<Rightarrow> bind handle_interrupt (\<lambda>_. client_loop b)
      | Discard \<Rightarrow> ret ''''
      | Incomplete \<Rightarrow> ret buf
      | Packet p b \<Rightarrow> bind (serve_packet p) (\<lambda>_. client_loop b))"
  by pat_completeness auto
termination
  by (relation "measure length") (auto dest: next_input_shorter)

declare client_loop.simps [simp del]

text \<open>
  \<open>_event_forwarder\<close>, the task of subscriber \<open>sid\<close>: it writes a stop reply for every stop event
  in its queue when it runs.
\<close>

definition forward_events :: "nat \<Rightarrow> unit gm" where
  "forward_events sid g =
     (let evs = filter (\<lambda>(ev, d). ev = ''dbg_stop'') (pending sid (link g))
      in (Inr (), g\<lparr>link := drop_queue sid (link g),
            gout := gout g @ concat (map (\<lambda>_. make_packet ''S05'') evs)\<rparr>))"

text \<open>The outer loop on the chunks the client sends.\<close>

fun client_chunks :: "string list \<Rightarrow> string \<Rightarrow> string gm" where
  "client_chunks [] buf = ret buf"
| "client_chunks (c # cs) buf = bind (client_loop (buf @ decode_ascii c)) (client_chunks cs)"

section \<open>The client's stream\<close>

lemma bind_assoc: "bind (bind m f) k = bind m (\<lambda>x. bind (f x) k)"
  by (auto simp: bind_def fun_eq_iff split: sum.splits prod.splits)

lemma bind_ret [simp]: "bind m ret = m"
  by (auto simp: bind_def ret_def fun_eq_iff split: sum.splits prod.splits)

text \<open>What a client sends; the two digits after a packet are not looked at.\<close>

datatype client_item = C_Ack | C_Nak | C_Break | C_Packet string char char

fun item_text :: "client_item \<Rightarrow> string" where
  "item_text C_Ack = ''+''"
| "item_text C_Nak = ''-''"
| "item_text C_Break = [CHR 0x03]"
| "item_text (C_Packet data a b) = ''$'' @ data @ ''#'' @ [a, b]"

fun wf_item :: "client_item \<Rightarrow> bool" where
  "wf_item (C_Packet data a b) = (CHR ''#'' \<notin> set data \<and> list_all (\<lambda>c. chr_code c < 128) (a # b # data))"
| "wf_item _ = True"

definition stream_text :: "client_item list \<Rightarrow> string" where
  "stream_text items = concat (map item_text items)"

fun serve_item :: "client_item \<Rightarrow> unit gm" where
  "serve_item C_Break = handle_interrupt"
| "serve_item (C_Packet data a b) = serve_packet data"
| "serve_item _ = ret ()"

primrec serve_items :: "client_item list \<Rightarrow> unit gm" where
  "serve_items [] = ret ()"
| "serve_items (i # is) = bind (serve_item i) (\<lambda>_. serve_items is)"

lemma serve_items_append: "serve_items (is @ js) = bind (serve_items is) (\<lambda>_. serve_items js)"
  by (induction "is") (simp_all add: bind_assoc)

lemma stream_text_simps [simp]:
  "stream_text [] = []" "stream_text (i # is) = item_text i @ stream_text is"
  "stream_text (is @ js) = stream_text is @ stream_text js"
  by (simp_all add: stream_text_def)

lemma item_text_not_Nil [simp]: "item_text i \<noteq> []"
  by (cases i) simp_all

lemma client_loop_Nil [simp]: "client_loop [] = ret []"
  by (simp add: client_loop.simps)

lemma client_loop_item:
  assumes "wf_item i"
  shows "client_loop (item_text i @ s) = bind (serve_item i) (\<lambda>_. client_loop s)"
proof (cases i)
  case (C_Packet data a b)
  let ?buf = "CHR ''$'' # data @ CHR ''#'' # a # b # s"
  have "after_char (CHR ''$'') ?buf = data @ CHR ''#'' # a # b # s"
    by (simp add: after_char_def)
  then have "next_input ?buf = Packet data s"
    using assms C_Packet by (simp add: next_input_def Let_def before_char_append after_char_append)
  then show ?thesis using C_Packet by (subst client_loop.simps) simp
qed (subst client_loop.simps, simp add: next_input_def)+

lemma client_loop_items:
  "list_all wf_item is \<Longrightarrow> client_loop (stream_text is @ s) = bind (serve_items is) (\<lambda>_. client_loop s)"
  by (induction "is") (simp_all add: client_loop_item bind_assoc)

text \<open>The beginning of an item waits in the buffer.\<close>

definition item_begun :: "string \<Rightarrow> client_item list \<Rightarrow> bool" where
  "item_begun buf is \<longleftrightarrow> buf = [] \<or> (\<exists>i js z. is = i # js \<and> z \<noteq> [] \<and> item_text i = buf @ z)"

lemma client_loop_begun:
  assumes "item_begun buf is" and "list_all wf_item is"
  shows "client_loop buf = ret buf"
proof (cases "buf = []")
  case False
  with assms(1) obtain i js z where i: "is = i # js" "z \<noteq> []" "item_text i = buf @ z"
    by (auto simp: item_begun_def)
  with False obtain data a b where p: "i = C_Packet data a b"
    by (cases i) (auto simp: Cons_eq_append_conv)
  obtain rest where buf: "buf = CHR ''$'' # rest" and rest: "data @ [CHR ''#'', a, b] = rest @ z"
    using i p False by (auto simp: Cons_eq_append_conv)
  have h: "CHR ''#'' \<notin> set data" using assms(2) i p by simp
  have "CHR ''#'' \<notin> set rest \<or> length (after_char (CHR ''#'') rest) < 2"
  proof (cases "CHR ''#'' \<in> set rest")
    case True
    then obtain w v where wv: "rest = w @ CHR ''#'' # v" "CHR ''#'' \<notin> set w" by (meson split_list_first)
    have "after_char (CHR ''#'') (rest @ z) = v @ z" using wv after_char_append [OF wv(2), of "v @ z"] by simp
    moreover have "after_char (CHR ''#'') (rest @ z) = [a, b]"
      unfolding rest [symmetric] using after_char_append [OF h, of "[a, b]"] by simp
    ultimately have "length v < 2"
      using i(2) by (metis length_append length_Cons list.size(3) length_greater_0_conv less_add_same_cancel1 numeral_2_eq_2)
    then show ?thesis using wv after_char_append [OF wv(2), of v] by simp
  qed simp
  then have "next_input buf = Incomplete"
    by (simp add: buf next_input_def Let_def after_char_def)
  then show ?thesis using False by (subst client_loop.simps) simp
qed simp

lemma stream_prefix:
  assumes "p @ y = stream_text is"
  shows "\<exists>js ks buf. is = js @ ks \<and> p = stream_text js @ buf \<and> buf @ y = stream_text ks \<and> item_begun buf ks"
  using assms
proof (induction "is" arbitrary: p)
  case Nil
  then show ?case by (auto simp: item_begun_def)
next
  case (Cons i "is")
  then have "p @ y = item_text i @ stream_text is" by simp
  then consider (inside) z where "item_text i = p @ z" "y = z @ stream_text is" "z \<noteq> []"
    | (beyond) q where "p = item_text i @ q" "q @ y = stream_text is"
    by (auto simp: append_eq_append_conv2) (metis append.right_neutral self_append_conv)
  then show ?case
  proof cases
    case inside
    then show ?thesis
      by (intro exI [of _ "[]"] exI [of _ "i # is"] exI [of _ p]) (auto simp: item_begun_def)
  next
    case beyond
    from Cons.IH [OF beyond(2)] obtain js ks buf where
      "is = js @ ks" "q = stream_text js @ buf" "buf @ y = stream_text ks" "item_begun buf ks" by blast
    with beyond show ?thesis by (intro exI [of _ "i # js"] exI [of _ ks] exI [of _ buf]) simp
  qed
qed

lemma decode_ascii_id: "list_all (\<lambda>c. chr_code c < 128) s \<Longrightarrow> decode_ascii s = s"
  by (induction s) (simp_all add: decode_ascii_def)

lemma client_chunks_items:
  assumes "buf @ concat cs = stream_text is" and "list_all wf_item is" and "item_begun buf is"
    and "list_all (\<lambda>c. chr_code c < 128) (concat cs)"
  shows "client_chunks cs buf = bind (serve_items is) (\<lambda>_. ret [])"
  using assms
proof (induction cs arbitrary: buf "is")
  case Nil
  then have "is = []" by (cases "is") (auto simp: item_begun_def)
  with Nil show ?case by (simp add: bind_def ret_def)
next
  case (Cons c cs)
  from stream_prefix [of "buf @ c" "concat cs" "is"] Cons.prems(1) obtain js ks b where
    s: "is = js @ ks" "buf @ c = stream_text js @ b" "b @ concat cs = stream_text ks" "item_begun b ks" by auto
  have wf: "list_all wf_item js" "list_all wf_item ks" using Cons.prems(2) s by simp_all
  have "client_loop (buf @ decode_ascii c) = bind (serve_items js) (\<lambda>_. ret b)"
    using Cons.prems(4) s wf by (simp add: decode_ascii_id client_loop_items client_loop_begun)
  moreover have "client_chunks cs b = bind (serve_items ks) (\<lambda>_. ret [])"
    using Cons.IH [OF s(3) wf(2) s(4)] Cons.prems(4) by simp
  ultimately show ?case by (simp add: s(1) bind_assoc serve_items_append)
qed

text \<open>
  C15. The server reads what the client wrote: a stream of acknowledgements, interrupts and packets
  (with any two digits for a checksum), cut into chunks in any way, is served item by item in
  order, each packet with exactly its data, and nothing is left in the buffer; the outcome does
  not depend on the cut.
\<close>

theorem client_stream:
  assumes "list_all wf_item items" and "concat cs = stream_text items"
  shows "client_chunks cs [] = bind (serve_items items) (\<lambda>_. ret [])"
proof (rule client_chunks_items)
  show "list_all (\<lambda>c. chr_code c < 128) (concat cs)"
    unfolding assms(2) using assms(1)
  proof (induction items)
    case (Cons i items)
    then show ?case by (cases i) auto
  qed simp
qed (use assms in \<open>simp_all add: item_begun_def\<close>)

theorem client_stream_witness:
  "client_chunks [''+$'', ''qC#b'', ''4-''] [] = bind (serve_items [C_Ack, C_Packet ''qC'' (CHR ''b'') (CHR ''4''), C_Nak]) (\<lambda>_. ret [])"
  by (rule client_stream) (simp_all add: stream_text_def)

end
