(* ===== verification/Gdb_Regs.thy ===== *)
theory Gdb_Regs
  imports Gdb
begin

section \<open>Registers survive a round trip\<close>

text \<open>A connection that can send.\<close>

definition can_send :: "serial \<Rightarrow> bool" where
  "can_send sc \<longleftrightarrow> conn_up sc \<and> (if conn_mode sc = ''tcp'' then writer_open sc else master_fd sc)"

definition sent :: "string \<Rightarrow> gdb \<Rightarrow> gdb" where
  "sent line g = g\<lparr>link := (link g)\<lparr>hub := (hub (link g))\<lparr>tx := tx (hub (link g)) @ [line]\<rparr>,
     wire := wire (link g) @ line @ [CHR 0x0A]\<rparr>\<rparr>"

lemma send_line_sent:
  "can_send (link g) \<Longrightarrow> replacement \<notin> set line \<Longrightarrow> send_line line g = (Inr (), sent line g)"
  by (auto simp: send_line_def send_raw_def can_send_def lift_link_def sent_def Let_def split: if_splits)

lemma sent_simps [simp]:
  "can_send (link (sent line g)) = can_send (link g)" "the_dbg (sent line g) = the_dbg g"
  "wire (link (sent line g)) = wire (link g) @ line @ [CHR 0x0A]" "script (sent line g) = script g"
  "gout (sent line g) = gout g"
  by (simp_all add: sent_def can_send_def the_dbg_def)

definition with_dbg :: "(debugger \<Rightarrow> debugger) \<Rightarrow> gdb \<Rightarrow> gdb" where
  "with_dbg f g = g\<lparr>link := (link g)\<lparr>hub := (hub (link g))\<lparr>dbg := Some (f (the_dbg g))\<rparr>\<rparr>\<rparr>"

lemma set_dbg_with: "set_dbg f g = (Inr (), with_dbg f g)"
  by (simp add: set_dbg_def with_dbg_def)

lemma with_dbg_simps [simp]:
  "can_send (link (with_dbg f g)) = can_send (link g)" "the_dbg (with_dbg f g) = f (the_dbg g)"
  "wire (link (with_dbg f g)) = wire (link g)"
  by (simp_all add: with_dbg_def can_send_def the_dbg_def)

definition reg_value :: "int \<Rightarrow> bool" where
  "reg_value v \<longleftrightarrow> 0 \<le> v \<and> v < 2 ^ 32"

lemma length_hex32: "reg_value v \<Longrightarrow> length (hex32 v) = 8"
  by (simp add: hex32_def reg_value_def fmt_hex_fixed nat_less_iff)

lemma plain_hex: "replacement \<notin> set (fmt_hex u w i)" "replacement \<notin> set (fmt_dec i)"
proof -
  have "\<not> alnum_char replacement" by (simp add: alnum_char_def replacement_def)
  then show "replacement \<notin> set (fmt_hex u w i)" "replacement \<notin> set (fmt_dec i)"
    using fmt_hex_alnum fmt_dec_alnum by blast+
qed

lemma plain_reg_line: "replacement \<notin> set (set_reg_line (bridge_reg_name r) v)"
  using plain_hex by (auto simp: set_reg_line_def bridge_reg_name_def hex32_def replacement_def)

lemma hex_field:
  assumes "list_all reg_value vals" and "i < length vals"
  shows "take 8 (drop (i * 8) (concat (map hex32 vals))) = hex32 (vals ! i)"
  using assms
proof (induction vals arbitrary: i)
  case (Cons v vals)
  then show ?case by (cases i) (simp_all add: length_hex32)
qed simp

lemma length_hex_regs: "list_all reg_value vals \<Longrightarrow> length (concat (map hex32 vals)) = 8 * length vals"
  by (induction vals) (simp_all add: length_hex32)

definition reg_lines :: "int list \<Rightarrow> nat list \<Rightarrow> string" where
  "reg_lines vals is =
     concat (map (\<lambda>i. set_reg_line (bridge_reg_name (reg_index i)) (vals ! i) @ [CHR 0x0A]) is)"

lemma write_regs_run:
  assumes "list_all reg_value vals" and "\<forall>i \<in> set is. i < length vals" and "can_send (link g)"
  shows "\<exists>g'. write_regs (concat (map hex32 vals)) is g = (Inr ''OK'', g') \<and> can_send (link g') \<and>
    the_dbg g' = (the_dbg g)\<lparr>regs := fold (\<lambda>i rs. rs[reg_index i := vals ! i]) is (regs (the_dbg g))\<rparr> \<and>
    wire (link g') = wire (link g) @ reg_lines vals is"
  using assms
proof (induction "is" arbitrary: g)
  case Nil
  then show ?case by (simp add: ret_def reg_lines_def)
next
  case (Cons i "is")
  let ?line = "set_reg_line (bridge_reg_name (reg_index i)) (vals ! i)"
  let ?g = "with_dbg (\<lambda>d. d\<lparr>regs := (regs d)[reg_index i := vals ! i]\<rparr>) (sent ?line g)"
  have "parse_hex (take 8 (drop (i * 8) (concat (map hex32 vals)))) = Inr (vals ! i)"
    using Cons.prems by (simp add: hex_field parse_hex_def hex32_def)
  then have step: "write_regs (concat (map hex32 vals)) (i # is) g = write_regs (concat (map hex32 vals)) is ?g"
    using Cons.prems(3) plain_reg_line
    by (simp add: bind_def send_line_sent set_dbg_with)
  have "can_send (link ?g)" using Cons.prems(3) by simp
  from Cons.IH [OF Cons.prems(1) _ this] Cons.prems(2) show ?case
    unfolding step by (simp add: reg_lines_def)
qed

lemma fold_update_other:
  "k \<notin> f ` set is \<Longrightarrow> fold (\<lambda>i rs. rs[f i := v i]) is rs ! k = rs ! k"
  by (induction "is" arbitrary: rs) auto

lemma length_fold_update [simp]: "length (fold (\<lambda>i rs. rs[f i := v i]) is rs) = length rs"
  by (induction "is" arbitrary: rs) auto

lemma fold_update_nth:
  "inj_on f (set is) \<Longrightarrow> distinct is \<Longrightarrow> i \<in> set is \<Longrightarrow> f i < length rs \<Longrightarrow>
   fold (\<lambda>i rs. rs[f i := v i]) is rs ! f i = v i"
proof (induction "is" arbitrary: rs)
  case (Cons j "is")
  show ?case
  proof (cases "i = j")
    case True
    then have "f i \<notin> f ` set is" using Cons.prems by (auto simp: inj_on_def)
    with True Cons.prems show ?thesis by (simp add: fold_update_other)
  next
    case False
    with Cons show ?thesis by simp
  qed
qed simp

lemma reg_index_twice: "k < 18 \<Longrightarrow> reg_index (reg_index k) = k"
  by (auto simp: reg_index_def)

lemma reg_index_less: "k < 18 \<Longrightarrow> reg_index k < 18"
  by (simp add: reg_index_def)

text \<open>The register file after all eighteen updates, by GDB's number.\<close>

lemma fold_regs:
  assumes "length rs = 18" and "k < 18"
  shows "fold (\<lambda>i rs. rs[reg_index i := vals ! i]) [0..<18] rs ! k = vals ! reg_index k"
proof -
  have "inj_on reg_index (set [0..<18])"
    by (rule inj_on_inverseI [of _ reg_index]) (simp add: reg_index_twice)
  then show ?thesis
    using fold_update_nth [of reg_index "[0..<18]" "reg_index k" rs "(!) vals"] assms
    by (simp add: reg_index_twice reg_index_less del: upt_Suc)
qed

lemma read_regs_text:
  assumes "length (regs d) = 18" and "length vals = 18"
    and "\<And>k. k < 18 \<Longrightarrow> regs d ! k = vals ! reg_index k"
  shows "concat (map (\<lambda>i. hex32 (regs d ! i)) [0..<8]) @ concat (map (\<lambda>i. hex32 (regs d ! (8 + i))) [0..<8]) @
    hex32 (regs d ! 17) @ hex32 (regs d ! 16) = concat (map hex32 vals)"
proof -
  have "vals = map ((!) vals) [0..<18]" using assms(2) by (metis map_nth)
  then have "concat (map hex32 vals) = concat (map (\<lambda>i. hex32 (vals ! i)) [0..<18])"
    by (metis (no_types, lifting) list.map_comp comp_apply map_eq_conv)
  also have "\<dots> = concat (map (\<lambda>i. hex32 (regs d ! reg_index i)) [0..<18])"
    by (intro arg_cong [of _ _ concat] map_cong) (simp_all add: assms(3) reg_index_twice reg_index_less)
  also have "[0..<18] = [0..<8] @ map (\<lambda>i. 8 + i) [0..<8] @ [16, 17::nat]"
    by (simp add: upt_rec)
  finally have eq: "concat (map hex32 vals) =
      concat (map (\<lambda>i. hex32 (regs d ! reg_index i)) [0..<8]) @
      concat (map (\<lambda>i. hex32 (regs d ! reg_index (8 + i))) [0..<8]) @
      hex32 (regs d ! reg_index 16) @ hex32 (regs d ! reg_index 17)"
    by (simp add: comp_def del: upt_Suc)
  have low: "map (\<lambda>i. hex32 (regs d ! reg_index i)) [0..<8] = map (\<lambda>i. hex32 (regs d ! i)) [0..<8]"
    "map (\<lambda>i. hex32 (regs d ! reg_index (8 + i))) [0..<8] = map (\<lambda>i. hex32 (regs d ! (8 + i))) [0..<8]"
    by (simp_all add: reg_index_def)
  have "reg_index 16 = 17" "reg_index 17 = 16" by (simp_all add: reg_index_def)
  then show ?thesis by (simp only: eq low)
qed

text \<open>
  C16. What the debugger writes it reads back: a \<open>G\<close> packet with eighteen 32-bit values in GDB's
  order is answered OK and sends the bridge one command per register, in order and by the right
  name, and a following \<open>g\<close> packet returns exactly the text that was written.
\<close>

theorem registers_roundtrip:
  assumes "length vals = 18" and "list_all reg_value vals" and "can_send (link g)"
    and "stopped (the_dbg g)" and "length (regs (the_dbg g)) = 18"
    and out: "process_packet (CHR ''G'' # concat (map hex32 vals)) g = (r, g')"
  shows "r = Inr (Some ''OK'') \<and> wire (link g') = wire (link g) @ reg_lines vals [0..<18] \<and>
    process_packet ''g'' g' = (Inr (Some (concat (map hex32 vals))), g')"
proof -
  have "\<forall>i \<in> set [0..<18]. i < length vals" using assms(1) by simp
  from write_regs_run [OF assms(2) this assms(3)] obtain h where
    h: "write_regs (concat (map hex32 vals)) [0..<18] g = (Inr ''OK'', h)"
      "the_dbg h = (the_dbg g)\<lparr>regs := fold (\<lambda>i rs. rs[reg_index i := vals ! i]) [0..<18] (regs (the_dbg g))\<rparr>"
      "wire (link h) = wire (link g) @ reg_lines vals [0..<18]" by blast
  have "write_all_regs (concat (map hex32 vals)) g = (Inr ''OK'', h)"
    using h(1) assms(1,2) by (simp add: write_all_regs_def length_hex_regs del: write_regs.simps upt_Suc)
  then have r: "r = Inr (Some ''OK'')" "g' = h"
    using out by (simp_all add: process_packet_def answer_def bind_def ret_def)
  have rs: "length (regs (the_dbg h)) = 18" "stopped (the_dbg h)"
    using h(2) assms(4,5) by (simp_all del: upt_Suc)
  have "regs (the_dbg h) ! k = vals ! reg_index k" if "k < 18" for k
    using h(2) fold_regs [OF assms(5) that, of vals] by (simp del: upt_Suc)
  note shown = read_regs_text [OF rs(1) assms(1) this]
  have "process_packet ''g'' h = (Inr (Some (concat (map hex32 vals))), h)"
    using rs(2) shown by (simp add: process_packet_def answer_def read_all_regs_def bind_def ask_def ret_def del: upt_Suc)
  with r h(3) show ?thesis by simp
qed

definition stopped_gdb :: gdb where
  "stopped_gdb =
     \<lparr>link = (new_serial initial_state new_bus)\<lparr>hub := \<lparr>app = initial_state, ebus = new_bus,
        dbg = Some (new_debugger\<lparr>stopped := True\<rparr>), rx = [], tx = []\<rparr>,
        conn_up := True, reader_open := True, writer_open := True, tcp_task := True\<rparr>,
      gout = [], script = []\<rparr>"

lemma stopped_gdb_simps:
  "can_send (link stopped_gdb)" "stopped (the_dbg stopped_gdb)" "length (regs (the_dbg stopped_gdb)) = 18"
  by (simp_all add: stopped_gdb_def can_send_def the_dbg_def new_serial_def new_debugger_def)

theorem registers_roundtrip_witness:
  "fst (process_packet ''g'' (snd (process_packet (CHR ''G'' # concat (map hex32 [0..17])) stopped_gdb))) =
     Inr (Some (concat (map hex32 [0..17])))"
proof -
  let ?v = "[0..17] :: int list"
  have "length ?v = 18" "list_all reg_value ?v" by (simp_all add: list_all_iff reg_value_def)
  from registers_roundtrip [OF this stopped_gdb_simps prod.collapse [symmetric]] show ?thesis by simp
qed

section \<open>Register numbers\<close>

text \<open>
  A negative register number is not refused: a \<open>P\<close> packet for register -1 is answered OK, sends
  the bridge a command for a register D-1 that does not exist, and overwrites the status
  register in the host's view.
\<close>

theorem negative_register:
  assumes "can_send (link g)" and "length (regs (the_dbg g)) = 18" and "reg_value v"
    and out: "process_packet (''P-1='' @ hex32 v) g = (r, g')"
  shows "r = Inr (Some ''OK'') \<and> wire (link g') = wire (link g) @ ''DBGSETREG|D-1|'' @ hex32 v @ [CHR 0x0A] \<and>
    regs (the_dbg g') = (regs (the_dbg g))[17 := v]"
proof -
  have "CHR ''='' \<notin> set (hex32 v)"
    using fmt_hex_alnum [of "CHR ''=''" False 8 v] by (auto simp: hex32_def alnum_char_def)
  then have parts: "split_char (CHR ''='') (''-1='' @ hex32 v) = [''-1'', hex32 v]"
    by (simp add: split_char_no_sep)
  have nums: "parse_hex ''-1'' = Inr (- 1)" "fmt_dec (- 1) = ''-1''" by code_simp+
  have k: "py_index (regs (the_dbg g)) (- 1) = Inr 17"
    using assms(2) by (simp add: py_index_def Let_def)
  have "parse_hex (hex32 v) = Inr v" by (simp add: parse_hex_def hex32_def)
  moreover have "replacement \<notin> set (set_reg_line ''D-1'' v)"
    using plain_hex by (simp add: set_reg_line_def hex32_def replacement_def)
  ultimately have "write_reg (''-1='' @ hex32 v) g =
      (Inr ''OK'', with_dbg (\<lambda>d. d\<lparr>regs := (regs d)[17 := v]\<rparr>) (sent (set_reg_line ''D-1'' v) g))"
    using assms(1,2) unfolding write_reg_def Let_def parts
    by (simp add: nums write_reg_value_def bind_def send_line_sent ask_def k set_dbg_with ret_def)
  then show ?thesis
    using out by (auto simp: process_packet_def answer_def bind_def ret_def set_reg_line_def)
qed

theorem negative_register_witness:
  "wire (link (snd (process_packet (''P-1='' @ hex32 8192) stopped_gdb))) = ''DBGSETREG|D-1|'' @ hex32 8192 @ [CHR 0x0A]"
  using negative_register [OF stopped_gdb_simps(1,3) _ prod.collapse [symmetric], of 8192]
  by (simp add: reg_value_def stopped_gdb_def new_serial_def)

end
