(* ===== verification/Delivery.thy ===== *)
theory Delivery
  imports Gdb_Regs
begin

text \<open>
  From the bytes of the bridge to a task that waits: lines that each publish one event reach a
  subscriber as exactly those events, in order, however the transport cuts the bytes.
\<close>

section \<open>Lines in a stream\<close>

definition unlines :: "string list \<Rightarrow> string" where
  "unlines ls = concat (map (\<lambda>l. l @ [CHR 0x0A]) ls)"

definition one_line :: "string \<Rightarrow> bool" where
  "one_line l \<longleftrightarrow> CHR 0x0A \<notin> set l"

lemma unlines_simps [simp]:
  "unlines [] = []" "unlines (l # ls) = l @ CHR 0x0A # unlines ls"
  "unlines (ls @ ls') = unlines ls @ unlines ls'"
  by (simp_all add: unlines_def)

lemma split_unlines:
  "list_all one_line ls \<Longrightarrow> one_line b \<Longrightarrow> split_char (CHR 0x0A) (unlines ls @ b) = ls @ [b]"
  by (induction ls) (simp_all add: split_char_append split_char_no_sep one_line_def)

text \<open>A cut goes through at most one line.\<close>

lemma unlines_cut:
  assumes "u @ v = unlines ls" and "list_all one_line ls"
  shows "\<exists>ls1 ls2 b. ls = ls1 @ ls2 \<and> u = unlines ls1 @ b \<and> b @ v = unlines ls2 \<and> one_line b"
  using assms
proof (induction ls arbitrary: u)
  case Nil
  then show ?case by (intro exI [of _ "[]"]) (simp add: one_line_def)
next
  case (Cons l ls)
  let ?l = "l @ [CHR 0x0A]"
  show ?case
  proof (cases "length u \<le> length l")
    case True
    with Cons.prems(1) have "u = take (length u) l"
      by (metis (no_types, lifting) append_assoc append_eq_append_conv_if take_all_iff unlines_simps(2))
    then have "set u \<subseteq> set l" by (metis set_take_subset)
    then have "one_line u" using Cons.prems(2) by (auto simp: one_line_def)
    with Cons.prems show ?thesis by (intro exI [of _ "[]"] exI [of _ "l # ls"] exI [of _ u]) simp
  next
    case False
    then obtain u' where u: "u = ?l @ u'" "u' @ v = unlines ls"
      using Cons.prems(1) by (fastforce simp: append_eq_append_conv2 append_eq_Cons_conv)
    from Cons.IH [OF u(2)] Cons.prems(2) obtain ls1 ls2 b where
      "ls = ls1 @ ls2" "u' = unlines ls1 @ b" "b @ v = unlines ls2" "one_line b" by auto
    with u(1) show ?thesis by (intro exI [of _ "l # ls1"] exI [of _ ls2] exI [of _ b]) simp
  qed
qed

section \<open>Lines and their events\<close>

text \<open>What an event says, without the time at which its line was read.\<close>

definition untimed :: "event \<Rightarrow> event" where
  "untimed e = (fst e, VDict (filter (\<lambda>(k, v). k \<noteq> ''timestamp'') (as_dict (snd e))))"

lemma fst_untimed [simp]: "fst (untimed e) = fst e"
  by (simp add: untimed_def)

lemma untimed_get: "untimed e = (ev, VDict d) \<Longrightarrow> k \<noteq> ''timestamp'' \<Longrightarrow> map_of (as_dict (snd e)) k = map_of d k"
  by (auto simp: untimed_def map_of_filter_key)

text \<open>
  \<open>gives evs l (es, f)\<close>: of the events \<open>evs\<close>, line \<open>l\<close> publishes \<open>es\<close>, and it changes the
  debugger's state by \<open>f\<close>, at any time and whatever has happened before.
\<close>

type_synonym effect = "event list \<times> (debugger \<Rightarrow> debugger)"

abbreviation publish_all :: "event list \<Rightarrow> bus \<Rightarrow> bus" where
  "publish_all es \<equiv> fold (\<lambda>e. publish (fst e) (snd e)) es"

definition gives :: "string list \<Rightarrow> string \<Rightarrow> effect \<Rightarrow> bool" where
  "gives evs l eff \<longleftrightarrow>
     one_line l \<and>
     (\<forall>clk h. \<exists>h' pub. process_line clk l h = (h', None) \<and> ebus h' = publish_all pub (ebus h) \<and>
        map untimed (filter (\<lambda>e. fst e \<in> set evs) pub) = fst eff \<and> dbg h' = map_option (snd eff) (dbg h))"

lemma gives_intro:
  assumes "one_line l"
    and "\<And>clk h. \<exists>h'. process_line clk l h = (h', None) \<and> ebus h' = publish_all (pub clk) (ebus h) \<and>
      dbg h' = map_option f (dbg h)"
    and "\<And>clk. map untimed (filter (\<lambda>e. fst e \<in> set evs) (pub clk)) = es"
  shows "gives evs l (es, f)"
  unfolding gives_def using assms by fastforce

text \<open>The effects of lines one after the other.\<close>

definition effects :: "effect list \<Rightarrow> effect" where
  "effects fs = (concat (map fst fs), fold snd fs)"

lemma effects_simps [simp]:
  "effects [] = ([], \<lambda>d. d)" "fst (effects (f # fs)) = fst f @ fst (effects fs)"
  "snd (effects (f # fs)) = snd (effects fs) \<circ> snd f"
  "fst (effects (fs @ fs')) = fst (effects fs) @ fst (effects fs')"
  "snd (effects (fs @ fs')) = snd (effects fs') \<circ> snd (effects fs)"
  by (simp_all add: effects_def id_def)

lemma process_lines_give:
  "list_all2 (gives evs) ls fs \<Longrightarrow>
   \<exists>h' pub. process_lines clk ls h = (h', None) \<and> ebus h' = publish_all pub (ebus h) \<and>
     map untimed (filter (\<lambda>e. fst e \<in> set evs) pub) = fst (effects fs) \<and> dbg h' = map_option (snd (effects fs)) (dbg h)"
proof (induction arbitrary: h rule: list_all2_induct)
  case Nil
  then show ?case
    by (intro exI [of _ h] exI [of _ "[]"]) (simp add: process_lines_def skip_def id_def option.map_ident)
next
  case (Cons l ls f fs)
  from Cons.hyps(1) obtain h1 p1 where
    h1: "process_line clk l h = (h1, None)" "ebus h1 = publish_all p1 (ebus h)"
      "map untimed (filter (\<lambda>e. fst e \<in> set evs) p1) = fst f" "dbg h1 = map_option (snd f) (dbg h)"
    unfolding gives_def by blast
  from Cons.IH [of h1] obtain h2 p2 where
    h2: "process_lines clk ls h1 = (h2, None)" "ebus h2 = publish_all p2 (ebus h1)"
      "map untimed (filter (\<lambda>e. fst e \<in> set evs) p2) = fst (effects fs)" "dbg h2 = map_option (snd (effects fs)) (dbg h1)" by blast
  then show ?case using h1
    by (intro exI [of _ h2] exI [of _ "p1 @ p2"]) (simp add: process_lines_def seq_def option.map_comp comp_def)
qed

text \<open>Subscriber \<open>sid\<close> listens to \<open>evs\<close> and has taken everything.\<close>

definition has_queue :: "nat \<Rightarrow> string list \<Rightarrow> event list \<Rightarrow> bus \<Rightarrow> bool" where
  "has_queue sid evs q b \<longleftrightarrow>
     bus_inv b \<and> map_of (subscribers b) sid = Some \<lparr>events = evs, queue = q\<rparr>"

lemma has_queue_publish:
  assumes "has_queue sid evs q b" and "''*'' \<notin> set evs" and "length q < queue_max"
  shows "has_queue sid evs (q @ (if fst e \<in> set evs then [e] else [])) (publish (fst e) (snd e) b)"
  using assms sub_queue.put_keeps [of q e]
  by (simp add: has_queue_def bus_inv_publish map_of_publish interested_def)

lemma has_queue_skip:
  "has_queue sid evs q b \<Longrightarrow> ''*'' \<notin> set evs \<Longrightarrow> fst e \<notin> set evs \<Longrightarrow> has_queue sid evs q (publish (fst e) (snd e) b)"
  by (simp add: has_queue_def bus_inv_publish map_of_publish interested_def)

lemma has_queue_publish_all:
  "has_queue sid evs q b \<Longrightarrow> ''*'' \<notin> set evs \<Longrightarrow> length (q @ filter (\<lambda>e. fst e \<in> set evs) pub) \<le> queue_max \<Longrightarrow>
   has_queue sid evs (q @ filter (\<lambda>e. fst e \<in> set evs) pub) (publish_all pub b)"
proof (induction pub arbitrary: q b)
  case (Cons e pub)
  let ?b = "publish (fst e) (snd e) b"
  show ?case
  proof (cases "fst e \<in> set evs")
    case True
    with Cons.IH [of "q @ [e]" ?b] Cons.prems has_queue_publish [of sid evs q b e] show ?thesis by simp
  next
    case False
    with Cons.IH [of q ?b] Cons.prems has_queue_skip [of sid evs q b e] show ?thesis by simp
  qed
qed simp

lemma has_queue_subscribe:
  "bus_inv b \<Longrightarrow> subscribe evs b = (sid, b') \<Longrightarrow> has_queue sid evs [] b'"
  using bus_inv_subscribe [of b evs]
  by (auto simp: has_queue_def subscribe_def map_add_def bus_inv_def map_of_eq_None_iff map_of_append
      simp del: fst_comp_subs split: option.splits dest: map_of_SomeD)

definition listening :: "nat \<Rightarrow> string list \<Rightarrow> serial \<Rightarrow> bool" where
  "listening sid evs sc \<longleftrightarrow> has_queue sid evs [] (ebus (hub sc))"

lemma pending_queue: "has_queue sid evs q (ebus (hub sc)) \<Longrightarrow> pending sid sc = q"
  by (simp add: has_queue_def pending_def)

lemma listening_drop: "has_queue sid evs q (ebus (hub sc)) \<Longrightarrow> listening sid evs (drop_queue sid sc)"
  by (auto simp: listening_def has_queue_def drop_queue_def bus_inv_def map_subs)

section \<open>Chunks that arrive\<close>

text \<open>The connection takes data from the bridge.\<close>

definition hears :: "serial \<Rightarrow> bool" where
  "hears sc \<longleftrightarrow> (if conn_mode sc = ''tcp'' then tcp_task sc \<and> \<not> first_data sc else master_fd sc)"

text \<open>\<open>timely\<close>: no chunk is late enough for the partial line before it to be thrown away.\<close>

definition timely :: "serial \<Rightarrow> (clock \<times> string) list \<Rightarrow> bool" where
  "timely sc cs \<longleftrightarrow>
     list_all (\<lambda>c. snd c \<noteq> []) cs \<and>
     (\<exists>t0. (line_buf sc = [] \<or> line_buf_time sc = Some t0) \<and> steady t0 (map (\<lambda>c. (mono (fst c), snd c)) cs))"

lemma receive_lines:
  assumes "hears sc" and "timely sc (c # cs)"
    and "line_buf sc @ snd c = unlines ls @ b" and "one_line b" and "list_all2 (gives evs) ls fs"
  shows "\<exists>h pub. receive c sc = sc\<lparr>line_buf := b, line_buf_time := Some (mono (fst c)), hub := h\<rparr> \<and>
    ebus h = publish_all pub (ebus (hub sc)) \<and> map untimed (filter (\<lambda>e. fst e \<in> set evs) pub) = fst (effects fs) \<and>
    dbg h = map_option (snd (effects fs)) (dbg (hub sc))"
proof -
  obtain clk data where c: "c = (clk, data)" by (cases c)
  have ls: "list_all one_line ls"
    using assms(5) by (induction rule: list_all2_induct) (simp_all add: gives_def)
  from process_lines_give [OF assms(5)] obtain h pub where
    h: "process_lines clk ls (hub sc) = (h, None)" "ebus h = publish_all pub (ebus (hub sc))"
      "map untimed (filter (\<lambda>e. fst e \<in> set evs) pub) = fst (effects fs)" "dbg h = map_option (snd (effects fs)) (dbg (hub sc))"
    by blast
  let ?sc = "sc\<lparr>line_buf := b, line_buf_time := Some (mono clk), hub := h\<rparr>"
  have "line_buf sc = [] \<or> (\<exists>t0. line_buf_time sc = Some t0 \<and> mono clk - t0 \<le> 2000)"
    using assms(2) by (auto simp: timely_def c)
  from gather_fresh [OF this, of clk data] have "gather_lines clk data sc = (?sc, None)"
    using assms(3) split_unlines [OF ls assms(4)] h(1) by (simp add: c Let_def)
  moreover have "\<not> (first_data sc \<and> conn_mode sc = ''tcp'')" using assms(1) by (auto simp: hears_def)
  ultimately have d: "handle_data clk data sc = (?sc, None)" by (simp add: handle_data_gather)
  have "data \<noteq> []" using assms(2) by (simp add: timely_def c)
  then have "receive c sc = ?sc"
    using assms(1) d by (auto simp: receive_def c hears_def pty_read_def split: if_splits)
  with h(2-4) show ?thesis by (auto simp: c)
qed

lemma drop_queue_simps [simp]:
  "line_buf (drop_queue sid sc) = line_buf sc" "line_buf_time (drop_queue sid sc) = line_buf_time sc"
  "hears (drop_queue sid sc) = hears sc" "wire (drop_queue sid sc) = wire sc"
  "can_send (drop_queue sid sc) = can_send sc" "dbg (hub (drop_queue sid sc)) = dbg (hub sc)"
  by (simp_all add: drop_queue_def hears_def can_send_def)

text \<open>What a wait leaves as it was, and what it does to the debugger's state.\<close>

definition waited :: "(debugger \<Rightarrow> debugger) \<Rightarrow> serial \<Rightarrow> serial \<Rightarrow> bool" where
  "waited f sc sc' \<longleftrightarrow>
     wire sc' = wire sc \<and> can_send sc' = can_send sc \<and> dbg (hub sc') = map_option f (dbg (hub sc))"

text \<open>Another subscriber to the same events has them in its queue.\<close>

definition others_hear :: "nat \<Rightarrow> string list \<Rightarrow> event list \<Rightarrow> serial \<Rightarrow> serial \<Rightarrow> bool" where
  "others_hear sid evs es sc sc' \<longleftrightarrow>
     (\<forall>i q. i \<noteq> sid \<longrightarrow> has_queue i evs q (ebus (hub sc)) \<longrightarrow> length q + length es \<le> queue_max \<longrightarrow>
        (\<exists>q'. has_queue i evs (q @ q') (ebus (hub sc')) \<and> map untimed q' = es))"

lemma has_queue_drop_other: "i \<noteq> sid \<Longrightarrow> has_queue i evs q (ebus (hub sc)) \<Longrightarrow> has_queue i evs q (ebus (hub (drop_queue sid sc)))"
  by (auto simp: has_queue_def drop_queue_def bus_inv_def map_subs)

lemma others_hear_more:
  assumes "''*'' \<notin> set evs" and "ebus (hub r) = publish_all pub (ebus (hub sc))"
    and "map untimed (filter (\<lambda>e. fst e \<in> set evs) pub) = es1" and "others_hear sid evs es2 (drop_queue sid r) sc'"
  shows "others_hear sid evs (es1 @ es2) sc sc'"
  unfolding others_hear_def
proof (intro allI impI)
  fix i q assume i: "i \<noteq> sid" "has_queue i evs q (ebus (hub sc))" "length q + length (es1 @ es2) \<le> queue_max"
  let ?q = "filter (\<lambda>e. fst e \<in> set evs) pub"
  have len: "length ?q = length es1" using assms(3) by (metis length_map)
  then have "has_queue i evs (q @ ?q) (ebus (hub (drop_queue sid r)))"
    using i has_queue_publish_all [OF i(2) assms(1), of pub] assms(2) by (intro has_queue_drop_other) simp_all
  with assms(4) i(1,3) len obtain q' where
    "has_queue i evs ((q @ ?q) @ q') (ebus (hub sc'))" "map untimed q' = es2" unfolding others_hear_def by fastforce
  then show "\<exists>q'. has_queue i evs (q @ q') (ebus (hub sc')) \<and> map untimed q' = es1 @ es2"
    using assms(3) by (intro exI [of _ "?q @ q'"]) simp
qed

text \<open>After complete lines the connection has no partial line left.\<close>

definition settled :: "nat \<Rightarrow> string list \<Rightarrow> serial \<Rightarrow> bool" where
  "settled sid evs sc \<longleftrightarrow> listening sid evs sc \<and> hears sc \<and> line_buf sc = []"

text \<open>The events come out in order, each at the time of a chunk.\<close>

lemma arrivals_lines:
  assumes "list_all2 (gives evs) ls fs" and "''*'' \<notin> set evs" and "length (fst (effects fs)) \<le> queue_max"
    and "hears sc" and "listening sid evs sc" and "timely sc cs"
    and "one_line (line_buf sc)" and "line_buf sc @ concat (map snd cs) = unlines ls"
  shows "\<exists>got sc'. arrivals sid cs sc = (got, sc') \<and> map (untimed \<circ> snd) got = fst (effects fs) \<and>
    fst ` set got \<subseteq> (mono \<circ> fst) ` set cs \<and> waited (snd (effects fs)) sc sc' \<and>
    others_hear sid evs (fst (effects fs)) sc sc' \<and> settled sid evs sc'"
  using assms
proof (induction cs arbitrary: sc ls fs)
  case Nil
  then have "ls = []" by (cases ls) (auto simp: one_line_def)
  with Nil.prems show ?case
    by (simp add: waited_def others_hear_def settled_def option.map_ident)
next
  case (Cons c cs)
  have one: "list_all one_line ls"
    using Cons.prems(1) by (induction rule: list_all2_induct) (simp_all add: gives_def)
  have "(line_buf sc @ snd c) @ concat (map snd cs) = unlines ls" using Cons.prems(8) by simp
  from unlines_cut [OF this one] obtain ls1 ls2 b where
    cut: "ls = ls1 @ ls2" "line_buf sc @ snd c = unlines ls1 @ b" "b @ concat (map snd cs) = unlines ls2" "one_line b"
    by blast
  from Cons.prems(1) cut(1) obtain fs1 fs2 where
    fs: "fs = fs1 @ fs2" "list_all2 (gives evs) ls1 fs1" "list_all2 (gives evs) ls2 fs2"
    by (auto simp: list_all2_append1)
  from receive_lines [OF Cons.prems(4,6) cut(2,4) fs(2)] obtain h pub where
    r: "receive c sc = sc\<lparr>line_buf := b, line_buf_time := Some (mono (fst c)), hub := h\<rparr>" (is "_ = ?r")
      "ebus h = publish_all pub (ebus (hub sc))" "map untimed (filter (\<lambda>e. fst e \<in> set evs) pub) = fst (effects fs1)"
      "dbg h = map_option (snd (effects fs1)) (dbg (hub sc))" by blast
  let ?q = "filter (\<lambda>e. fst e \<in> set evs) pub"
  have "length ?q = length (fst (effects fs1))" using r(3) by (metis length_map)
  then have q: "has_queue sid evs ?q (ebus (hub ?r))"
    using Cons.prems(2,3,5) has_queue_publish_all [of sid evs "[]" "ebus (hub sc)" pub] r(2)
    by (simp add: listening_def fs(1))
  let ?d = "drop_queue sid ?r"
  have "\<exists>got sc'. arrivals sid cs ?d = (got, sc') \<and> map (untimed \<circ> snd) got = fst (effects fs2) \<and>
      fst ` set got \<subseteq> (mono \<circ> fst) ` set cs \<and> waited (snd (effects fs2)) ?d sc' \<and> others_hear sid evs (fst (effects fs2)) ?d sc' \<and>
      settled sid evs sc'"
  proof (rule Cons.IH [OF fs(3)])
    show "listening sid evs ?d" using q by (rule listening_drop)
    show "timely ?d cs" using Cons.prems(6) by (auto simp: timely_def)
    show "hears ?d" using Cons.prems(4) by (simp add: hears_def drop_queue_def)
  qed (use Cons.prems cut fs in simp_all)
  then obtain got sc' where
    got: "arrivals sid cs ?d = (got, sc')" "map (untimed \<circ> snd) got = fst (effects fs2)"
      "fst ` set got \<subseteq> (mono \<circ> fst) ` set cs" "waited (snd (effects fs2)) ?d sc'" "others_hear sid evs (fst (effects fs2)) ?d sc'" "settled sid evs sc'" by auto
  have "arrivals sid (c # cs) sc = (map (Pair (mono (fst c))) ?q @ got, sc')"
    using got(1) by (simp add: r(1) pending_queue [OF q] Let_def)
  moreover have "waited (snd (effects fs)) sc sc'"
    using got(4) r(4) by (simp add: waited_def fs(1) can_send_def drop_queue_def option.map_comp)
  moreover have "others_hear sid evs (fst (effects fs)) sc sc'"
    using others_hear_more [OF Cons.prems(2) _ r(3) got(5)] r(2) by (simp add: fs(1))
  ultimately show ?case using got(2,3,6) r(3) by (auto simp: fs(1) comp_def)
qed

text \<open>What a fresh subscription of a waiting task collects.\<close>

definition ready :: "gdb \<Rightarrow> bool" where
  "ready g \<longleftrightarrow> can_send (link g) \<and> hears (link g) \<and> line_buf (link g) = [] \<and> bus_inv (ebus (hub (link g)))"

text \<open>The next wait starts at \<open>now\<close>, and until \<open>deadline\<close> the lines \<open>ls\<close> arrive in some chunks.\<close>

definition arriving :: "gdb \<Rightarrow> int \<Rightarrow> int \<Rightarrow> string list \<Rightarrow> bool" where
  "arriving g now deadline ls \<longleftrightarrow>
     (\<exists>cs later. script g = (now, cs) # later \<and> concat (map snd cs) = unlines ls \<and> timely (link g) cs \<and>
        list_all (\<lambda>c. mono (fst c) < deadline) cs)"

lemma ready_sent [simp]: "ready (sent line g) = ready g"
  by (simp add: ready_def sent_def can_send_def hears_def)

lemma arriving_sent [simp]: "arriving (sent line g) = arriving g"
  by (simp add: arriving_def sent_def timely_def fun_eq_iff)

definition all_hear :: "string list \<Rightarrow> event list \<Rightarrow> serial \<Rightarrow> serial \<Rightarrow> bool" where
  "all_hear evs es sc sc' \<longleftrightarrow>
     (\<forall>i q. has_queue i evs q (ebus (hub sc)) \<longrightarrow> length q + length es \<le> queue_max \<longrightarrow>
        (\<exists>q'. has_queue i evs (q @ q') (ebus (hub sc')) \<and> map untimed q' = es))"

lemma has_queue_other:
  assumes "has_queue i evs q b"
  shows "subscribe evs' b = (sid, b') \<Longrightarrow> i \<noteq> sid \<and> has_queue i evs q b'" and "i \<noteq> sid \<Longrightarrow> has_queue i evs q (unsubscribe sid b)"
proof -
  have "i < next_id b" using assms by (auto simp: has_queue_def bus_inv_def dest: map_of_SomeD)
  then show "subscribe evs' b = (sid, b') \<Longrightarrow> i \<noteq> sid \<and> has_queue i evs q b'"
    using assms bus_inv_subscribe [of b evs'] by (auto simp: has_queue_def subscribe_def map_add_def)
  show "i \<noteq> sid \<Longrightarrow> has_queue i evs q (unsubscribe sid b)"
    using assms bus_inv_unsubscribe [of b sid] by (simp add: has_queue_def unsubscribe_def map_of_filter_key)
qed

lemma all_hear_listen:
  assumes "subscribe evs (ebus (hub sc)) = (sid, b)"
    and "others_hear sid evs es (sc\<lparr>hub := (hub sc)\<lparr>ebus := b\<rparr>\<rparr>) sc'"
  shows "all_hear evs es sc (sc'\<lparr>hub := (hub sc')\<lparr>ebus := unsubscribe sid (ebus (hub sc'))\<rparr>\<rparr>)"
  unfolding all_hear_def
proof (intro allI impI)
  fix i q assume i: "has_queue i evs q (ebus (hub sc))" "length q + length es \<le> queue_max"
  from has_queue_other(1) [OF i(1) assms(1)] have "i \<noteq> sid" "has_queue i evs q b" by simp_all
  with assms(2) i(2) obtain q' where "has_queue i evs (q @ q') (ebus (hub sc'))" "map untimed q' = es"
    by (auto simp: others_hear_def)
  then show "\<exists>q'. has_queue i evs (q @ q') (ebus (hub (sc'\<lparr>hub := (hub sc')\<lparr>ebus := unsubscribe sid (ebus (hub sc'))\<rparr>\<rparr>))) \<and> map untimed q' = es"
    using has_queue_other(2) [OF _ \<open>i \<noteq> sid\<close>] by auto
qed

lemma listen_lines:
  assumes "list_all2 (gives evs) ls fs" and "''*'' \<notin> set evs" and "length (fst (effects fs)) \<le> queue_max"
    and "ready g" and "arriving g now deadline ls"
  shows "\<exists>got g'. listen evs g = (Inr (now, got), g') \<and> map (untimed \<circ> snd) got = fst (effects fs) \<and>
    list_all (\<lambda>x. fst x < deadline) got \<and> waited (snd (effects fs)) (link g) (link g') \<and> gout g' = gout g \<and>
    all_hear evs (fst (effects fs)) (link g) (link g') \<and> ready g' \<and> script g' = tl (script g)"
proof -
  obtain sid b where sub: "subscribe evs (ebus (hub (link g))) = (sid, b)" by fastforce
  from assms(5) obtain cs later where
    cs: "script g = (now, cs) # later" "concat (map snd cs) = unlines ls" "timely (link g) cs"
      "\<forall>c \<in> set cs. mono (fst c) < deadline" by (auto simp: arriving_def list_all_iff)
  let ?sc = "(link g)\<lparr>hub := (hub (link g))\<lparr>ebus := b\<rparr>\<rparr>"
  have "\<exists>got sc'. arrivals sid cs ?sc = (got, sc') \<and> map (untimed \<circ> snd) got = fst (effects fs) \<and>
      fst ` set got \<subseteq> (mono \<circ> fst) ` set cs \<and> waited (snd (effects fs)) ?sc sc' \<and>
      others_hear sid evs (fst (effects fs)) ?sc sc' \<and> settled sid evs sc'"
  proof (rule arrivals_lines [OF assms(1-3)])
    show "listening sid evs ?sc"
      using has_queue_subscribe [OF _ sub] assms(4) by (simp add: listening_def ready_def)
  qed (use assms(4) cs in \<open>simp_all add: ready_def hears_def timely_def one_line_def\<close>)
  then obtain got sc' where
    got: "arrivals sid cs ?sc = (got, sc')" "map (untimed \<circ> snd) got = fst (effects fs)"
      "fst ` set got \<subseteq> (mono \<circ> fst) ` set cs" "waited (snd (effects fs)) ?sc sc'" "others_hear sid evs (fst (effects fs)) ?sc sc'" "settled sid evs sc'" by blast
  have "list_all (\<lambda>x. fst x < deadline) got" using got(3) cs(4) by (fastforce simp: list_all_iff)
  moreover have "all_hear evs (fst (effects fs)) (link g) (sc'\<lparr>hub := (hub sc')\<lparr>ebus := unsubscribe sid (ebus (hub sc'))\<rparr>\<rparr>)"
    using all_hear_listen [OF sub got(5)] .
  moreover have "ready (g\<lparr>link := sc'\<lparr>hub := (hub sc')\<lparr>ebus := unsubscribe sid (ebus (hub sc'))\<rparr>\<rparr>, script := tl (script g)\<rparr>)"
    using got(4,6) assms(4) bus_inv_unsubscribe
    by (auto simp: ready_def settled_def waited_def can_send_def hears_def listening_def has_queue_def split: if_splits)
  ultimately show ?thesis using got(1,2,4) by (auto simp: listen_def sub Let_def cs(1) waited_def can_send_def)
qed

section \<open>Lines that do not matter\<close>

text \<open>\<open>quiet\<close>: nothing for the subscriber and nothing for the debugger.\<close>

definition quiet :: "string list \<Rightarrow> string \<Rightarrow> bool" where
  "quiet evs l \<longleftrightarrow> gives evs l ([], \<lambda>d. d)"

lemma effects_quiet:
  "list_all2 (gives evs) ls fs \<Longrightarrow> list_all (quiet evs) qs \<Longrightarrow> xs \<in> shuffles ls qs \<Longrightarrow>
   \<exists>fs'. list_all2 (gives evs) xs fs' \<and> effects fs' = effects fs"
proof (induction ls qs arbitrary: xs fs rule: shuffles.induct)
  case (1 qs)
  then have "list_all2 (gives evs) xs (map (\<lambda>_. ([], \<lambda>d. d)) xs)"
    by (simp add: list_all2_map2 list_all_iff list_all2_same quiet_def)
  moreover have "effects (map (\<lambda>_. ([], \<lambda>d. d)) xs) = effects []"
    by (induction xs) (auto simp: prod_eq_iff)
  ultimately show ?case using 1(1) by auto
next
  case (2 ls)
  then show ?case by auto
next
  case (3 l ls q qs)
  from 3(5) consider x where "xs = l # x" "x \<in> shuffles ls (q # qs)" | x where "xs = q # x" "x \<in> shuffles (l # ls) qs"
    by auto
  then show ?case
  proof cases
    case 1
    from 3(3) obtain f fs1 where fs: "fs = f # fs1" "gives evs l f" "list_all2 (gives evs) ls fs1"
      by (auto simp: list_all2_Cons1)
    from 3(1) [OF fs(3) 3(4) 1(2)] obtain fs' where "list_all2 (gives evs) x fs'" "effects fs' = effects fs1" by blast
    then show ?thesis using fs 1(1) by (intro exI [of _ "f # fs'"]) (simp add: prod_eq_iff)
  next
    case 2
    from 3(4) have q: "quiet evs q" "list_all (quiet evs) qs" by simp_all
    from 3(2) [OF 3(3) q(2) 2(2)] obtain fs' where "list_all2 (gives evs) x fs'" "effects fs' = effects fs" by blast
    then show ?thesis using q(1) 2(1) by (intro exI [of _ "([], \<lambda>d. d) # fs'"]) (simp add: prod_eq_iff quiet_def comp_def)
  qed
qed

end
