(* ===== verification/Simulator.thy ===== *)
theory Simulator
  imports Protocol
begin

text \<open>
  The bridge simulator (\<open>simulator.py\<close>): a server that answers like an Amiga running a demo, with
  a debugger. A handler maps the state to the lines it sends, the new state and the exception
  it raised, if any. The output of \<open>objdump\<close> and the random numbers are arguments.
\<close>

section \<open>State\<close>

record sim =
  tick :: int
  ball_x :: int
  ball_y :: int
  ball_dx :: int
  ball_dy :: int
  frame_count :: int
  free_chip :: int
  free_fast :: int
  running :: bool
  sim_attached :: bool
  sim_stopped :: bool
  sim_paused :: bool
  sim_target :: string
  sim_breakpoints :: "(int \<times> int \<times> int) list"
  next_bp_id :: int
  sim_pc :: int
  sim_base :: int
  sim_addrs :: "int list"
  sim_idx :: nat

text \<open>\<open>_load_code_addrs\<close>: the SLINE addresses of the program, or a made-up range.\<close>

definition sline_addr :: "string \<Rightarrow> int option" where
  "sline_addr line =
     (let parts = py_words line
      in if 5 \<le> length parts \<and> py_in ''SLINE'' line then
           (case py_int 16 (parts ! 4) of Inr a \<Rightarrow> (if 0 < a then Some a else None) | Inl _ \<Rightarrow> None)
         else None)"

definition load_code_addrs :: "string option \<Rightarrow> int list" where
  "load_code_addrs objdump =
     (let addrs = (case objdump of None \<Rightarrow> [] | Some out \<Rightarrow> List.map_filter sline_addr (py_splitlines out))
      in if addrs \<noteq> [] then sorted_list_of_set (set addrs) else map (\<lambda>i. 0xd8 + int i * 0x10) [0..<64])"

definition new_sim :: "string option \<Rightarrow> sim" where
  "new_sim objdump =
     (let addrs = load_code_addrs objdump; base = 0x002F2074
      in \<lparr>tick = 0, ball_x = 160, ball_y = 100, ball_dx = 3, ball_dy = 2, frame_count = 0,
          free_chip = 512000, free_fast = 1048576, running = True, sim_attached = False, sim_stopped = False,
          sim_paused = False, sim_target = '''', sim_breakpoints = [], next_bp_id = 0,
          sim_pc = base + addrs ! 0, sim_base = base, sim_addrs = addrs, sim_idx = 0\<rparr>)"

section \<open>Helpers\<close>

definition get_memory :: "int \<Rightarrow> int \<Rightarrow> string" where
  "get_memory addr n = concat (map (\<lambda>i. fmt_hex True 2 ((addr + int i) AND 0xFF)) [0..<nat n])"

definition d_regs :: "sim \<Rightarrow> string" where
  "d_regs s = py_join '':'' (map (\<lambda>i. fmt_hex False 8 ((ball_x s + int i * 0x100) AND 0xFFFFFFFF)) [0..<8])"

definition a_regs :: string where
  "a_regs = py_join '':'' (map (\<lambda>i. fmt_hex False 8 (0x00200000 + int i * 0x1000)) [0..<8])"

definition stop_line :: "string \<Rightarrow> sim \<Rightarrow> string" where
  "stop_line reason s =
     ''DBGSTOP|'' @ reason @ ''|'' @ fmt_hex False 8 (sim_pc s) @ ''|0000|'' @ d_regs s @ ''|'' @ a_regs"

definition stop_now :: "sim \<Rightarrow> sim" where
  "stop_now s = s\<lparr>sim_stopped := True, sim_paused := True\<rparr>"

text \<open>\<open>_check_breakpoints\<close>: None when it returns False.\<close>

definition check_breakpoints :: "sim \<Rightarrow> (string list \<times> sim) option" where
  "check_breakpoints s =
     (if \<not> sim_attached s \<or> sim_paused s then None
      else if list_ex (\<lambda>(i, a, w). a = sim_pc s) (sim_breakpoints s)
        then Some ([stop_line ''breakpoint'' (stop_now s)], stop_now s)
        else None)"

definition advance_pc :: "sim \<Rightarrow> sim" where
  "advance_pc s =
     (let k = (sim_idx s + 1) mod length (sim_addrs s)
      in s\<lparr>sim_idx := k, sim_pc := sim_base s + sim_addrs s ! k\<rparr>)"

section \<open>The demo\<close>

text \<open>The debugged program runs until it meets a breakpoint or has made one round.\<close>

fun run_code :: "nat \<Rightarrow> sim \<Rightarrow> string list \<times> sim \<times> bool" where
  "run_code 0 s = ([], s, False)"
| "run_code (Suc n) s =
     (let s1 = advance_pc s
      in case check_breakpoints s1 of
           Some (out, s2) \<Rightarrow> (out, s2, True)
         | None \<Rightarrow> run_code n s1)"

definition bounce_x :: "sim \<Rightarrow> string list \<times> sim" where
  "bounce_x s =
     (if ball_x s \<le> 5 \<or> 307 \<le> ball_x s then
        (let s1 = s\<lparr>ball_dx := - ball_dx s, ball_x := ball_x s + - ball_dx s\<rparr>
         in ([''LOG|D|'' @ fmt_dec (tick s) @ ''|Bounce X at '' @ fmt_dec (ball_x s1)], s1))
      else ([], s))"

definition bounce_y :: "sim \<Rightarrow> string list \<times> sim" where
  "bounce_y s =
     (if ball_y s \<le> 5 \<or> 173 \<le> ball_y s then
        (let s1 = s\<lparr>ball_dy := - ball_dy s, ball_y := ball_y s + - ball_dy s\<rparr>
         in ([''LOG|D|'' @ fmt_dec (tick s) @ ''|Bounce Y at '' @ fmt_dec (ball_y s1)], s1))
      else ([], s))"

definition hb_line :: "sim \<Rightarrow> string" where
  "hb_line s = ''HB|'' @ fmt_dec (tick s) @ ''|'' @ fmt_dec (free_chip s) @ ''|'' @ fmt_dec (free_fast s)"

definition reports :: "sim \<Rightarrow> string list" where
  "reports s =
     (if frame_count s mod 60 = 0 then [hb_line s] else []) @
     (if frame_count s mod 120 = 0 then
        [''LOG|I|'' @ fmt_dec (tick s) @ ''|frame='' @ fmt_dec (frame_count s) @ '' ball('' @ fmt_dec (ball_x s) @
         '','' @ fmt_dec (ball_y s) @ '') vel('' @ fmt_dec (ball_dx s) @ '','' @ fmt_dec (ball_dy s) @ '')'']
      else []) @
     (if frame_count s mod 500 = 0 \<and> free_chip s < 480000 then
        [''LOG|W|'' @ fmt_dec (tick s) @ ''|Chip memory getting low: '' @ fmt_dec (free_chip s) @ '' bytes'']
      else [])"

text \<open>One turn of \<open>_simulation_loop\<close> with its two random numbers.\<close>

definition sim_turn :: "int \<Rightarrow> int \<Rightarrow> sim \<Rightarrow> string list \<times> sim" where
  "sim_turn r1 r2 s =
     (if sim_paused s then ([], s)
      else let (out, s1, hit) = (if sim_attached s then run_code (length (sim_addrs s)) s else ([], s, False))
        in if hit then (out, s1)
           else let s2 = s1\<lparr>ball_x := ball_x s1 + ball_dx s1, ball_y := ball_y s1 + ball_dy s1\<rparr>;
                    (outx, s3) = bounce_x s2; (outy, s4) = bounce_y s3;
                    s5 = s4\<lparr>frame_count := frame_count s4 + 1, tick := tick s4 + 1,
                            free_chip := free_chip s4 + r1, free_fast := free_fast s4 + r2\<rparr>
             in (out @ outx @ outy @ reports s5, s5))"

text \<open>The loop itself, on the random numbers of its turns, and what stops it.\<close>

fun sim_loop :: "(int \<times> int) list \<Rightarrow> sim \<Rightarrow> string list \<times> sim" where
  "sim_loop [] s = ([], s)"
| "sim_loop ((r1, r2) # rs) s =
     (if running s then
        (case sim_turn r1 r2 s of (out, s1) \<Rightarrow> (case sim_loop rs s1 of (out', s2) \<Rightarrow> (out @ out', s2)))
      else ([], s))"

definition sim_stop :: "sim \<Rightarrow> sim" where
  "sim_stop s = s\<lparr>running := False\<rparr>"

section \<open>Commands\<close>

type_synonym sim_result = "string list \<times> sim \<times> exn option"

definition say :: "string list \<Rightarrow> sim \<Rightarrow> sim_result" where
  "say ls s = (ls, s, None)"

definition fail :: "exn \<Rightarrow> sim \<Rightarrow> sim_result" where
  "fail e s = ([], s, Some e)"

text \<open>The variables: type, value, and the setter of those that have one.\<close>

definition sim_vars :: "(string \<times> string \<times> (sim \<Rightarrow> int) \<times> (int \<Rightarrow> sim \<Rightarrow> sim) option) list" where
  "sim_vars =
    [(''ball_x'', ''i32'', ball_x, Some (\<lambda>v s. s\<lparr>ball_x := v\<rparr>)),
     (''ball_y'', ''i32'', ball_y, Some (\<lambda>v s. s\<lparr>ball_y := v\<rparr>)),
     (''ball_dx'', ''i32'', ball_dx, Some (\<lambda>v s. s\<lparr>ball_dx := v\<rparr>)),
     (''ball_dy'', ''i32'', ball_dy, Some (\<lambda>v s. s\<lparr>ball_dy := v\<rparr>)),
     (''frame_count'', ''u32'', frame_count, None),
     (''free_chip'', ''u32'', free_chip, None),
     (''free_fast'', ''u32'', free_fast, None)]"

definition var_line :: "string \<Rightarrow> string \<Rightarrow> int \<Rightarrow> string" where
  "var_line name ty v = ''VAR|'' @ name @ ''|'' @ ty @ ''|'' @ fmt_dec v"

definition sim_getvar :: "string \<Rightarrow> sim \<Rightarrow> sim_result" where
  "sim_getvar name s =
     (case map_of sim_vars name of
        Some (ty, get, _) \<Rightarrow> say [var_line name ty (get s)] s
      | None \<Rightarrow> say [''VAR|'' @ name @ ''|err|not_found''] s)"

definition sim_setvar :: "string \<Rightarrow> string \<Rightarrow> sim \<Rightarrow> sim_result" where
  "sim_setvar name val s =
     (case map_of sim_vars name of
        Some (ty, get, Some set') \<Rightarrow>
          (case py_int 10 val of
             Inl e \<Rightarrow> fail e s
           | Inr v \<Rightarrow> say [var_line name ty (get (set' v s)),
               ''LOG|I|'' @ fmt_dec (tick s) @ ''|Host set '' @ name @ '' = '' @ val] (set' v s))
      | _ \<Rightarrow> say [] s)"

text \<open>\<open>while offset < size\<close>: at most sixteen chunks.\<close>

function mem_lines :: "int \<Rightarrow> int \<Rightarrow> int \<Rightarrow> string list" where
  "mem_lines addr n off =
     (if off < n then
        (let chunk = min 256 (n - off)
         in (''MEM|'' @ fmt_hex False 8 (addr + off) @ ''|'' @ fmt_dec chunk @ ''|'' @ get_memory (addr + off) chunk)
            # mem_lines addr n (off + chunk))
      else [])"
  by pat_completeness auto
termination by (relation "measure (\<lambda>(addr, n, off). nat (n - off))") auto

declare mem_lines.simps [simp del]

definition sim_inspect :: "string list \<Rightarrow> sim \<Rightarrow> sim_result" where
  "sim_inspect parts s =
     (case py_int 16 (parts ! 1) of
        Inl e \<Rightarrow> fail e s
      | Inr addr \<Rightarrow>
          (case py_int 10 (parts ! 2) of
             Inl e \<Rightarrow> fail e s
           | Inr n \<Rightarrow> say (mem_lines addr (min n 4096) 0) s))"

definition joined :: "string list \<Rightarrow> nat \<Rightarrow> string" where
  "joined parts n = py_join ''|'' (drop n parts)"

definition ball_text :: "sim \<Rightarrow> string" where
  "ball_text s = ''ball('' @ fmt_dec (ball_x s) @ '','' @ fmt_dec (ball_y s) @ '') vel('' @ fmt_dec (ball_dx s) @
     '','' @ fmt_dec (ball_dy s) @ '')''"

definition sim_exec :: "string list \<Rightarrow> sim \<Rightarrow> sim_result" where
  "sim_exec parts s =
     (let cmd_id = parts ! 1; expression = joined parts 2
      in if expression = ''reset'' then
           say [''CMD|'' @ cmd_id @ ''|ok|Ball position reset'',
                ''LOG|I|'' @ fmt_dec (tick s) @ ''|Ball position reset by host'']
             (s\<lparr>ball_x := 160, ball_y := 100, ball_dx := 3, ball_dy := 2\<rparr>)
         else if expression = ''status'' then
           say [''CMD|'' @ cmd_id @ ''|ok|'' @ ball_text s @ '' frame='' @ fmt_dec (frame_count s)] s
         else say [''CMD|'' @ cmd_id @ ''|ok|Executed: '' @ expression] s)"

text \<open>\<open>json.dumps\<close> of the dictionaries the simulator lists.\<close>

definition json_char :: "char \<Rightarrow> string" where
  "json_char c =
     (let n = chr_code c
      in if c = CHR 0x22 \<or> c = CHR 0x5C then [CHR 0x5C, c]
         else if n = 10 then [CHR 0x5C, CHR ''n''] else if n = 13 then [CHR 0x5C, CHR ''r'']
         else if n = 9 then [CHR 0x5C, CHR ''t''] else if n = 8 then [CHR 0x5C, CHR ''b'']
         else if n = 12 then [CHR 0x5C, CHR ''f'']
         else if n < 32 \<or> 127 \<le> n then [CHR 0x5C, CHR ''u''] @ fmt_hex False 4 (int n)
         else [c])"

definition json_str :: "string \<Rightarrow> string" where
  "json_str s = [CHR 0x22] @ concat (map json_char s) @ [CHR 0x22]"

fun json_val :: "string + int \<Rightarrow> string" where
  "json_val (Inl s) = json_str s"
| "json_val (Inr i) = fmt_dec i"

definition json_object :: "(string \<times> (string + int)) list \<Rightarrow> string" where
  "json_object kvs = ''{'' @ py_join '', '' (map (\<lambda>(k, v). json_str k @ '': '' @ json_val v) kvs) @ ''}''"

definition json_list :: "(string \<times> (string + int)) list list \<Rightarrow> string" where
  "json_list xs = ''['' @ py_join '', '' (map json_object xs) @ '']''"

definition sim_tasks :: "(string \<times> (string + int)) list list" where
  "sim_tasks =
     map (\<lambda>(n, p, st). [(''name'', Inl n), (''priority'', Inr p), (''state'', Inl st), (''stackSize'', Inr 4096)])
       [(''bouncing_ball'', 0, ''running''), (''input.device'', 20, ''waiting''), (''trackdisk.device'', 5, ''waiting'')]"

definition sim_libs :: "(string \<times> (string + int)) list list" where
  "sim_libs =
     map (\<lambda>(n, r). [(''name'', Inl n), (''version'', Inr 40), (''revision'', Inr r)])
       [(''exec.library'', 10), (''dos.library'', 3), (''intuition.library'', 5), (''graphics.library'', 2)]"

definition dir_entry_json :: "string \<Rightarrow> string \<Rightarrow> int \<Rightarrow> (string \<times> (string + int)) list" where
  "dir_entry_json n ty sz =
     [(''name'', Inl n), (''type'', Inl ty), (''size'', Inr sz), (''date'', Inl ''2024-01-15''), (''prot'', Inl ''----rwed'')]"

definition sim_dir :: "string \<Rightarrow> (string \<times> (string + int)) list list" where
  "sim_dir path =
     [dir_entry_json ''c'' ''dir'' 0 @ [(''path'', Inl (path @ ''c/''))],
      dir_entry_json ''libs'' ''dir'' 0 @ [(''path'', Inl (path @ ''libs/''))],
      dir_entry_json ''startup-sequence'' ''file'' 512]"

definition counted :: "'a list \<Rightarrow> string" where
  "counted xs = fmt_dec (int (length xs))"

definition sim_readfile :: "string list \<Rightarrow> sim \<Rightarrow> sim_result" where
  "sim_readfile parts s =
     (case py_int 10 (parts ! 2) of
        Inl e \<Rightarrow> fail e s
      | Inr off \<Rightarrow>
          (case py_int 10 (parts ! 3) of
             Inl e \<Rightarrow> fail e s
           | Inr n \<Rightarrow>
               let sz = min n 4096
               in say [''FILE|'' @ parts ! 1 @ ''|'' @ fmt_dec sz @ ''|'' @ fmt_dec off @ ''|'' @ get_memory off sz] s))"

definition sim_callhook :: "string list \<Rightarrow> sim \<Rightarrow> sim_result" where
  "sim_callhook parts s =
     (let cmd_id = parts ! 1; hook_name = parts ! 3
      in if hook_name = ''reset'' then
           say [''CMD|'' @ cmd_id @ ''|ok|Ball reset to center''] (s\<lparr>ball_x := 160, ball_y := 100\<rparr>)
         else if hook_name = ''status'' then say [''CMD|'' @ cmd_id @ ''|ok|'' @ ball_text s] s
         else say [''CMD|'' @ cmd_id @ ''|err|Unknown hook: '' @ hook_name] s)"

section \<open>Debugger commands\<close>

definition not_attached :: "string \<Rightarrow> sim \<Rightarrow> sim_result" where
  "not_attached cmd s = say [''ERR|'' @ cmd @ ''|not attached''] s"

definition sim_attach :: "string \<Rightarrow> sim \<Rightarrow> sim_result" where
  "sim_attach target s =
     (if target \<noteq> ''bouncing_ball'' then say [''ERR|DBGATTACH|task not found: '' @ target] s
      else let s1 = s\<lparr>sim_attached := True, sim_stopped := False, sim_paused := False, sim_target := target,
                      sim_pc := sim_base s + sim_addrs s ! sim_idx s\<rparr>
        in say [''DBGSTATE|1|0|'' @ target @ ''|'' @ fmt_hex False 8 (sim_pc s1) @ ''|0|BASE:'' @
             fmt_hex False 8 (sim_base s1)] s1)"

definition sim_bpset :: "string \<Rightarrow> sim \<Rightarrow> sim_result" where
  "sim_bpset addr_str s =
     (case py_int 16 addr_str of
        Inl _ \<Rightarrow> say [''ERR|BPSET|invalid address: '' @ addr_str] s
      | Inr addr \<Rightarrow>
          let bp_id = next_bp_id s
          in say [''BPINFO|'' @ fmt_dec bp_id @ ''|'' @ fmt_hex False 8 addr @ ''|1|4E71'']
               (s\<lparr>next_bp_id := bp_id + 1,
                  sim_breakpoints := AList.update bp_id (addr, 0x4E71) (sim_breakpoints s)\<rparr>))"

definition sim_bpclear :: "string \<Rightarrow> sim \<Rightarrow> sim_result" where
  "sim_bpclear arg s =
     (let clear = (\<lambda>i. say [''OK|BPCLEAR|'' @ fmt_dec i] (s\<lparr>sim_breakpoints := AList.delete i (sim_breakpoints s)\<rparr>));
          not_found = say [''ERR|BPCLEAR|not found: '' @ arg] s;
          by_addr = (case py_int 16 arg of
              Inl _ \<Rightarrow> not_found
            | Inr addr \<Rightarrow>
                (case find (\<lambda>(i, a, w). a = addr) (sim_breakpoints s) of
                   Some (i, _) \<Rightarrow> clear i
                 | None \<Rightarrow> not_found))
      in case py_int 10 arg of
           Inr i \<Rightarrow> if map_of (sim_breakpoints s) i \<noteq> None then clear i else by_addr
         | Inl _ \<Rightarrow> by_addr)"

definition sim_bplist :: "sim \<Rightarrow> sim_result" where
  "sim_bplist s =
     say [''BPLIST|'' @ counted (sim_breakpoints s) @ ''|'' @
       py_join '','' (map (\<lambda>(i, a, w). fmt_dec i @ '':'' @ fmt_hex False 8 a @ '':1:'' @ fmt_hex False 4 w)
         (sim_breakpoints s))] s"

definition sim_step :: "sim \<Rightarrow> sim_result" where
  "sim_step s =
     (if \<not> sim_attached s then not_attached ''DBGSTEP'' s
      else let s1 = advance_pc s;
               s2 = s1\<lparr>ball_x := ball_x s1 + ball_dx s1, ball_y := ball_y s1 + ball_dy s1\<rparr>;
               s3 = (if ball_x s2 \<le> 5 \<or> 307 \<le> ball_x s2 then s2\<lparr>ball_dx := - ball_dx s2\<rparr> else s2);
               s4 = (if ball_y s3 \<le> 5 \<or> 173 \<le> ball_y s3 then s3\<lparr>ball_dy := - ball_dy s3\<rparr> else s3);
               s5 = stop_now (s4\<lparr>frame_count := frame_count s4 + 1\<rparr>)
        in say [stop_line ''step'' s5] s5)"

definition sim_next :: "sim \<Rightarrow> sim_result" where
  "sim_next s =
     (if \<not> sim_attached s then not_attached ''DBGNEXT'' s
      else let s1 = stop_now (advance_pc (advance_pc (advance_pc s)))
        in say [stop_line ''step'' s1] s1)"

definition sim_cont :: "sim \<Rightarrow> sim_result" where
  "sim_cont s =
     (if \<not> sim_attached s then not_attached ''DBGCONT'' s
      else say [''DBGRUNNING''] (s\<lparr>sim_stopped := False, sim_paused := False\<rparr>))"

definition sim_break :: "sim \<Rightarrow> sim_result" where
  "sim_break s =
     (if \<not> sim_attached s then not_attached ''DBGBREAK'' s
      else say [stop_line ''break'' (stop_now s)] (stop_now s))"

definition sim_dbgregs :: "sim \<Rightarrow> sim_result" where
  "sim_dbgregs s =
     (if \<not> sim_attached s then not_attached ''DBGREGS'' s
      else say [''DBGREGS|'' @ d_regs s @ ''|'' @ a_regs @ ''|'' @ fmt_hex False 8 (sim_pc s) @ ''|0000''] s)"

definition sim_bt :: "sim \<Rightarrow> sim_result" where
  "sim_bt s =
     say [''DBGBT| 3|'' @ fmt_hex False 8 (sim_pc s) @ ''|'' @
       fmt_hex False 8 ((sim_pc s - 0x20) AND 0xFFFFFFFF) @ ''|'' @ fmt_hex False 8 0xd8] s"

definition sim_status :: "sim \<Rightarrow> sim_result" where
  "sim_status s =
     say [''DBGSTATE|'' @ (if sim_attached s then ''1'' else ''0'') @ ''|'' @ (if sim_stopped s then ''1'' else ''0'') @
       ''|'' @ sim_target s @ ''|'' @ fmt_hex False 8 (sim_pc s) @ ''|'' @ counted (sim_breakpoints s) @ ''|BASE:'' @
       fmt_hex False 8 (sim_base s)] s"

definition sim_detach :: "sim \<Rightarrow> sim_result" where
  "sim_detach s =
     say [''DBGDETACHED''] (s\<lparr>sim_attached := False, sim_stopped := False, sim_paused := False, sim_target := ''''\<rparr>)"

section \<open>Dispatch\<close>

text \<open>The branches of \<open>_handle_command\<close>: command, number of parts it needs, handler.\<close>

definition sim_table :: "(string \<times> nat \<times> (string list \<Rightarrow> sim \<Rightarrow> sim_result)) list" where
  "sim_table =
    [(''PING'', 1, \<lambda>p s. say [hb_line s] s),
     (''GETVAR'', 2, \<lambda>p. sim_getvar (p ! 1)),
     (''SETVAR'', 3, \<lambda>p. sim_setvar (p ! 1) (p ! 2)),
     (''INSPECT'', 3, sim_inspect),
     (''EXEC'', 3, sim_exec),
     (''LISTCLIENTS'', 1, \<lambda>p. say [''CLIENTS|1|bouncing_ball'']),
     (''LISTTASKS'', 1, \<lambda>p. say [''TASKS|'' @ counted sim_tasks @ ''|'' @ json_list sim_tasks]),
     (''LISTLIBS'', 1, \<lambda>p. say [''LIBS|'' @ counted sim_libs @ ''|'' @ json_list sim_libs]),
     (''LISTDIR'', 2, \<lambda>p. say [''DIR|'' @ p ! 1 @ ''|'' @ counted (sim_dir (p ! 1)) @ ''|'' @ json_list (sim_dir (p ! 1))]),
     (''READFILE'', 4, sim_readfile),
     (''LAUNCH'', 3, \<lambda>p s. say [''PROC|'' @ p ! 1 @ ''|started|Launched: '' @ joined p 2,
        ''LOG|I|'' @ fmt_dec (tick s) @ ''|Launched process: '' @ joined p 2] s),
     (''DOSCOMMAND'', 3, \<lambda>p. say [''CMD|'' @ p ! 1 @ ''|ok|DOS: '' @ joined p 2]),
     (''RUN'', 3, \<lambda>p. say [''CMD|'' @ p ! 1 @ ''|OK|Started: '' @ joined p 2]),
     (''BREAK'', 2, \<lambda>p. say [''OK|BREAK|'' @ p ! 1]),
     (''LISTHOOKS'', 1, \<lambda>p. say [''HOOKS|bouncing_ball|2|reset:Reset ball position,status:Get ball status'']),
     (''CALLHOOK'', 4, sim_callhook),
     (''LISTMEMREGS'', 1, \<lambda>p. say [''MEMREGS|bouncing_ball|1|ball_state:00040000:24:Ball position and velocity'']),
     (''READMEMREG'', 3, \<lambda>p. say [''MEM|00040000|24|'' @ get_memory 0x40000 24]),
     (''CLIENTINFO'', 2, \<lambda>p. say [''CINFO|'' @ p ! 1 @ ''|1|100|vars:ball_x(i32),ball_y(i32),ball_dx(i32),ball_dy(i32)'' @
        ''|hooks:reset,status|memregs:ball_state(00040000,24)'']),
     (''STOP'', 2, \<lambda>p. say [''OK|STOP|'' @ p ! 1]),
     (''SCRIPT'', 3, \<lambda>p. say [''CMD|'' @ p ! 1 @ ''|OK|Script output: executed '' @ counted (joined p 2) @ '' chars'']),
     (''WRITEMEM'', 3, \<lambda>p. say [''OK|WRITEMEM|'' @ p ! 1 @ ''|'' @ fmt_dec (int (length (p ! 2) div 2))]),
     (''LISTDEVS'', 1, \<lambda>p. say [''DEVICES|3|serial.device(v40.1),trackdisk.device(v40.2),timer.device(v40.1)'']),
     (''LISTDEVICES'', 1, \<lambda>p. say [''DEVICES|3|serial.device(v40.1),trackdisk.device(v40.2),timer.device(v40.1)'']),
     (''LISTVOLUMES'', 1, \<lambda>p. say [''VOLUMES|3|System:,Work:,Ram Disk:'']),
     (''DBGATTACH'', 2, \<lambda>p. sim_attach (p ! 1)),
     (''DBGDETACH'', 1, \<lambda>p. sim_detach),
     (''BPSET'', 2, \<lambda>p. sim_bpset (p ! 1)),
     (''BPCLEAR'', 2, \<lambda>p. sim_bpclear (p ! 1)),
     (''BPLIST'', 1, \<lambda>p. sim_bplist),
     (''DBGSTEP'', 1, \<lambda>p. sim_step),
     (''DBGNEXT'', 1, \<lambda>p. sim_next),
     (''DBGCONT'', 1, \<lambda>p. sim_cont),
     (''DBGREGS'', 1, \<lambda>p. sim_dbgregs),
     (''DBGSETREG'', 3, \<lambda>p. say [''OK|DBGSETREG|'' @ p ! 1 @ ''='' @ p ! 2]),
     (''DBGBT'', 1, \<lambda>p. sim_bt),
     (''DBGBREAK'', 1, \<lambda>p. sim_break),
     (''DBGSTATUS'', 1, \<lambda>p. sim_status),
     (''SHUTDOWN'', 1, \<lambda>p. say [''OK|SHUTDOWN|bye''])]"

definition sim_command :: "string \<Rightarrow> sim \<Rightarrow> sim_result" where
  "sim_command line s =
     (let parts = split_char (CHR ''|'') line
      in case map_of sim_table (hd parts) of
           None \<Rightarrow> say [] s
         | Some (n, h) \<Rightarrow> if n \<le> length parts then h parts s else say [] s)"

section \<open>The client loop\<close>

text \<open>The lines sent when a host connects.\<close>

definition sim_greeting :: "sim \<Rightarrow> string list \<times> sim" where
  "sim_greeting s =
     (let s1 = s\<lparr>tick := tick s + 1\<rparr>; s2 = s\<lparr>tick := tick s + 2\<rparr>; s3 = s\<lparr>tick := tick s + 3\<rparr>
      in ([''LOG|I|'' @ fmt_dec (tick s) @ ''|Debug session started'', hb_line s1,
           ''LOG|I|'' @ fmt_dec (tick s1) @ ''|Bouncing Ball demo starting'',
           ''LOG|I|'' @ fmt_dec (tick s2) @ ''|Window opened: inner 312x178''], s3))"

fun sim_lines :: "string list \<Rightarrow> sim \<Rightarrow> sim_result" where
  "sim_lines [] s = say [] s"
| "sim_lines (l # ls) s =
     (let trimmed = py_strip l
      in if trimmed = [] then sim_lines ls s
         else case sim_command trimmed s of
           (out, s1, Some e) \<Rightarrow> (out, s1, Some e)
         | (out, s1, None) \<Rightarrow> (case sim_lines ls s1 of (out', s2, e) \<Rightarrow> (out @ out', s2, e)))"

text \<open>Data from the host: complete lines are handled, the rest is kept.\<close>

definition sim_data :: "string \<Rightarrow> string \<Rightarrow> sim \<Rightarrow> sim_result \<times> string" where
  "sim_data line_buf data s =
     (let lines = split_char (CHR 0x0A) (line_buf @ data)
      in (sim_lines (butlast lines) s, last lines))"

section \<open>Memory\<close>

lemma get_memory_split:
  assumes "0 \<le> c" and "0 \<le> d"
  shows "get_memory a (c + d) = get_memory a c @ get_memory (a + c) d"
proof -
  have "[0..<nat (c + d)] = [0..<nat c] @ map (\<lambda>i. i + nat c) [0..<nat d]"
    using assms by (simp add: nat_add_distrib map_add_upt upt_add_eq_append [of 0] add.commute)
  then show ?thesis
    using assms(1) by (simp add: get_memory_def comp_def ac_simps)
qed

definition mem_line :: "int \<Rightarrow> int \<Rightarrow> string" where
  "mem_line a c = ''MEM|'' @ fmt_hex False 8 a @ ''|'' @ fmt_dec c @ ''|'' @ get_memory a c"

text \<open>The chunks of an answer tile the memory that was asked for.\<close>

definition tiles :: "int \<Rightarrow> int \<Rightarrow> (int \<times> int) list \<Rightarrow> bool" where
  "tiles a n parts \<longleftrightarrow>
     concat (map (\<lambda>(o', c). get_memory o' c) parts) = get_memory a n \<and> sum_list (map snd parts) = n \<and>
     list_all (\<lambda>(o', c). 0 < c \<and> c \<le> 256) parts \<and> 256 * int (length parts) < n + 256"

lemma mem_lines_tiles:
  "off \<le> n \<Longrightarrow> \<exists>parts. mem_lines addr n off = map (\<lambda>(o', c). mem_line o' c) parts \<and> tiles (addr + off) (n - off) parts"
proof (induction addr n off rule: mem_lines.induct)
  case (1 addr n off)
  show ?case
  proof (cases "off < n")
    case False
    with 1 have "mem_lines addr n off = []" "n - off = 0" by (simp_all add: mem_lines.simps)
    then show ?thesis by (simp add: tiles_def get_memory_def)
  next
    case True
    let ?c = "min 256 (n - off)"
    have "off + ?c \<le> n" by simp
    from 1(1) [OF True refl this] obtain parts where
      p: "mem_lines addr n (off + ?c) = map (\<lambda>(o', c). mem_line o' c) parts"
        "tiles (addr + (off + ?c)) (n - (off + ?c)) parts" by blast
    have "get_memory (addr + off) (n - off) = get_memory (addr + off) ?c @ get_memory (addr + (off + ?c)) (n - (off + ?c))"
      using get_memory_split [of ?c "n - (off + ?c)" "addr + off"] True by (simp add: ac_simps)
    with p(2) True have "tiles (addr + off) (n - off) ((addr + off, ?c) # parts)"
      unfolding tiles_def by (auto split: if_splits simp: min_def)
    moreover have "mem_lines addr n off = map (\<lambda>(o', c). mem_line o' c) ((addr + off, ?c) # parts)"
    proof -
      have "mem_lines addr n off = mem_line (addr + off) ?c # mem_lines addr n (off + ?c)"
        using True by (subst mem_lines.simps) (simp add: Let_def mem_line_def)
      with p(1) show ?thesis by simp
    qed
    ultimately show ?thesis by blast
  qed
qed

section \<open>Breakpoints are met\<close>

definition at_breakpoint :: "sim \<Rightarrow> int \<Rightarrow> bool" where
  "at_breakpoint s a \<longleftrightarrow> (\<exists>i w. (i, a, w) \<in> set (sim_breakpoints s))"

text \<open>The address the program has reached after \<open>j\<close> more instructions.\<close>

definition ahead :: "sim \<Rightarrow> nat \<Rightarrow> int" where
  "ahead s j = sim_base s + sim_addrs s ! ((sim_idx s + j) mod length (sim_addrs s))"

lemma advance_simps [simp]:
  "sim_pc (advance_pc s) = ahead s 1" "sim_breakpoints (advance_pc s) = sim_breakpoints s"
  "sim_attached (advance_pc s) = sim_attached s" "sim_paused (advance_pc s) = sim_paused s"
  "sim_addrs (advance_pc s) = sim_addrs s"
  by (simp_all add: advance_pc_def ahead_def Let_def)

lemma ahead_advance [simp]: "ahead (advance_pc s) j = ahead s (Suc j)"
  by (simp add: advance_pc_def ahead_def Let_def mod_add_left_eq)

lemma at_breakpoint_advance [simp]: "at_breakpoint (advance_pc s) a = at_breakpoint s a"
  by (simp add: at_breakpoint_def)

lemma check_breakpoints_at:
  "sim_attached s \<Longrightarrow> \<not> sim_paused s \<Longrightarrow> check_breakpoints s =
     (if at_breakpoint s (sim_pc s) then Some ([stop_line ''breakpoint'' (stop_now s)], stop_now s) else None)"
  by (auto simp: check_breakpoints_def at_breakpoint_def list_ex_iff)

lemma run_code_hits:
  assumes "sim_attached s" and "\<not> sim_paused s" and "j < n" and "at_breakpoint s (ahead s (Suc j))"
    and "\<forall>i < j. \<not> at_breakpoint s (ahead s (Suc i))"
  shows "\<exists>s'. run_code n s = ([stop_line ''breakpoint'' s'], s', True) \<and> sim_pc s' = ahead s (Suc j) \<and>
    sim_stopped s' \<and> sim_paused s'"
  using assms
proof (induction n arbitrary: s j)
  case (Suc n)
  let ?s = "advance_pc s"
  show ?case
  proof (cases j)
    case 0
    with Suc.prems show ?thesis by (simp add: check_breakpoints_at Let_def stop_now_def)
  next
    case (Suc i)
    then have "\<not> at_breakpoint s (ahead s 1)" using Suc.prems(5) by auto
    then have "run_code (Suc n) s = run_code n ?s"
      using Suc.prems(1,2) by (simp add: check_breakpoints_at Let_def)
    with Suc.IH [of ?s i] Suc.prems Suc show ?thesis by auto
  qed
qed simp

text \<open>
  C17. A running program always meets a breakpoint: in one turn of the simulation, a program with a
  breakpoint on one of its addresses stops, and at the first breakpoint ahead of it in program
  order; it sends one stop message with that address and does nothing else.
\<close>

theorem breakpoint_met:
  assumes "sim_attached s" and "\<not> sim_paused s" and "k < length (sim_addrs s)"
    and "at_breakpoint s (sim_base s + sim_addrs s ! k)"
  shows "\<exists>j s'. sim_turn r1 r2 s = ([stop_line ''breakpoint'' s'], s') \<and> sim_paused s' \<and>
    sim_pc s' = ahead s (Suc j) \<and> at_breakpoint s (ahead s (Suc j)) \<and>
    (\<forall>i < j. \<not> at_breakpoint s (ahead s (Suc i)))"
proof -
  let ?n = "length (sim_addrs s)"
  define d where "d = (k + ?n * Suc (sim_idx s) - Suc (sim_idx s)) mod ?n"
  have n: "0 < ?n" using assms(3) by linarith
  have "sim_idx s + Suc d = Suc (sim_idx s) + d" by simp
  moreover have "(Suc (sim_idx s) + d) mod ?n = k mod ?n"
  proof -
    have "Suc (sim_idx s) \<le> ?n * Suc (sim_idx s)" using n by (metis One_nat_def Suc_leI mult_1 mult_le_mono1)
    then have "Suc (sim_idx s) + (k + ?n * Suc (sim_idx s) - Suc (sim_idx s)) = k + ?n * Suc (sim_idx s)" by linarith
    then show ?thesis unfolding d_def by (metis mod_add_right_eq mod_mult_self2)
  qed
  ultimately have d: "d < ?n" "at_breakpoint s (ahead s (Suc d))"
    using assms(3,4) n by (simp_all add: ahead_def d_def flip: length_greater_0_conv)
  define j where "j = (LEAST j. at_breakpoint s (ahead s (Suc j)))"
  have j: "at_breakpoint s (ahead s (Suc j))" "j \<le> d" "\<forall>i < j. \<not> at_breakpoint s (ahead s (Suc i))"
    unfolding j_def using d(2) by (auto intro: LeastI Least_le dest: not_less_Least)
  from run_code_hits [OF assms(1,2) _ j(1,3), of ?n] j(2) d(1) obtain s' where
    "run_code ?n s = ([stop_line ''breakpoint'' s'], s', True)" "sim_pc s' = ahead s (Suc j)" "sim_paused s'" by auto
  with assms(1,2) j show ?thesis by (auto simp: sim_turn_def)
qed

theorem breakpoint_met_witness:
  "sim_paused (snd (sim_turn 0 0 ((new_sim None)\<lparr>sim_attached := True, sim_breakpoints := [(0, 0x002F2074 + 0xd8 + 32, 0)]\<rparr>)))"
proof -
  let ?s = "(new_sim None)\<lparr>sim_attached := True, sim_breakpoints := [(0, 0x002F2074 + 0xd8 + 32, 0)]\<rparr>"
  have "sim_base ?s + sim_addrs ?s ! 2 = 0x002F2074 + 0xd8 + 32" "2 < length (sim_addrs ?s)" by code_simp+
  then have "at_breakpoint ?s (sim_base ?s + sim_addrs ?s ! 2)" unfolding at_breakpoint_def by simp
  from breakpoint_met [OF _ _ \<open>2 < length (sim_addrs ?s)\<close> this, of 0 0] show ?thesis
    by (auto simp: new_sim_def Let_def)
qed

end
