(* ===== verification/Session.thy ===== *)
theory Session
  imports Delivery Simulator
begin

text \<open>
  The GDB server, the serial connection and the simulator at work together: what the server
  sends is what the simulator is given, and what the simulator answers is what arrives while
  the server waits, cut into chunks in any way.
\<close>

section \<open>Memory lines\<close>

text \<open>The characters of a field: no separator, no space, nothing that cleaning removes.\<close>

definition field_char :: "char \<Rightarrow> bool" where
  "field_char c \<longleftrightarrow> 32 < chr_code c \<and> chr_code c < 127 \<and> c \<noteq> CHR ''|''"

lemma alnum_field_char: "alnum_char c \<Longrightarrow> field_char c"
  by (auto simp: alnum_char_def field_char_def Let_def)

definition plain :: "string \<Rightarrow> bool" where
  "plain s \<longleftrightarrow> list_all field_char s"

lemma plain_simps [simp]:
  "plain (fmt_hex u w i)" "plain (fmt_dec i)" "plain []" "plain (c # s) = (field_char c \<and> plain s)"
  "plain (s @ t) = (plain s \<and> plain t)"
  by (auto simp: plain_def list_all_iff fmt_hex_alnum fmt_dec_alnum alnum_field_char)

lemma plain_get_memory [simp]: "plain (get_memory a n)"
  using fmt_hex_alnum alnum_field_char by (fastforce simp: plain_def get_memory_def list_all_iff)

lemma alnum_char_printable: "alnum_char c \<Longrightarrow> 32 \<le> chr_code c \<and> chr_code c < 127"
  by (auto simp: alnum_char_def Let_def)

lemma field_char_not: "\<not> field_char (CHR ''|'')" "\<not> field_char (CHR 0x0A)" "field_char c \<Longrightarrow> \<not> is_space c"
  "field_char c \<Longrightarrow> 32 \<le> chr_code c \<and> chr_code c < 127"
  by (auto simp: field_char_def is_space_def)

text \<open>A line of plain fields is itself after cleaning, and splits into its fields.\<close>

lemma field_line:
  assumes "fs \<noteq> []" and "list_all plain fs"
  shows "split_char (CHR ''|'') (py_join ''|'' fs) = fs" and "one_line (py_join ''|'' fs)"
    and "py_strip (py_join ''|'' fs) = py_join ''|'' fs" and "printable_ascii (py_join ''|'' fs)"
proof -
  have "\<forall>f \<in> set fs. CHR ''|'' \<notin> set f"
    using assms(2) field_char_not(1) by (auto simp: list_all_iff plain_def)
  with split_join [OF assms(1)] show "split_char (CHR ''|'') (py_join ''|'' fs) = fs" by blast
  have chars: "field_char c \<or> c = CHR ''|''" if "c \<in> set (py_join ''|'' fs)" for c
    using assms that
  proof (induction fs)
    case (Cons f fs)
    then show ?case
      by (cases "fs = []") (auto simp: py_join_Cons plain_def list_all_iff)
  qed simp
  with field_char_not(2) show "one_line (py_join ''|'' fs)" by (auto simp: one_line_def)
  have "\<not> is_space c" if "c \<in> set (py_join ''|'' fs)" for c
    using chars [OF that] field_char_not(3) by (auto simp: is_space_def)
  then show "py_strip (py_join ''|'' fs) = py_join ''|'' fs" by (intro py_strip_no_space) blast
  have "32 \<le> chr_code c \<and> chr_code c < 127" if "c \<in> set (py_join ''|'' fs)" for c
    using chars [OF that] field_char_not(4) by auto
  then show "printable_ascii (py_join ''|'' fs)" by (auto simp: printable_ascii_def list_all_iff)
qed

definition mem_event :: "int \<Rightarrow> int \<Rightarrow> event" where
  "mem_event a c = (''mem'', VDict [(''type'', VStr ''MEM''), (''address'', VStr (fmt_hex False 8 a)),
     (''size'', VInt c), (''hexData'', VStr (get_memory a c))])"

lemma mem_line_fields: "mem_line a c = py_join ''|'' [''MEM'', fmt_hex False 8 a, fmt_dec c, get_memory a c]"
  by (simp add: mem_line_def)

lemma mem_line_plain: "list_all plain [''MEM'', fmt_hex False 8 a, fmt_dec c, get_memory a c]"
  by (simp add: field_char_def alnum_char_def)

text \<open>What the connection does with a clean line.\<close>

lemma process_fields:
  assumes "fs \<noteq> []" and "list_all plain fs" and "hd fs \<noteq> []"
    and "map_of (parse_table (stamp clk) (py_join ''|'' fs)) (hd fs) = Some branch"
    and "branch fs = Inr (Some m)"
  shows "process_line clk (py_join ''|'' fs) h =
    process_message clk m (h\<lparr>rx := rx h @ [py_join ''|'' fs]\<rparr>)"
proof -
  note l = field_line [OF assms(1,2)]
  have "py_join ''|'' fs \<noteq> []" using assms(1,3) by (cases fs; cases "tl fs") (auto simp: py_join_Cons)
  moreover have "parse_message (stamp clk) (py_join ''|'' fs) = Inr (Some m)"
    using assms(4,5) by (simp add: parse_message_def Let_def l(1))
  ultimately show ?thesis
    by (simp add: process_line_def l(3,4) clean_line_def seq_def change_def)
qed

lemma mem_line_gives: "gives [''mem'', ''err''] (mem_line a c) ([mem_event a c], \<lambda>d. d)"
proof -
  let ?fs = "[''MEM'', fmt_hex False 8 a, fmt_dec c, get_memory a c]"
  let ?m = "[(''type'', VStr ''MEM''), (''address'', VStr (fmt_hex False 8 a)), (''size'', VInt c), (''hexData'', VStr (get_memory a c))]"
  have run: "process_line clk (mem_line a c) h = process_message clk ?m (h\<lparr>rx := rx h @ [mem_line a c]\<rparr>)" for clk h
    unfolding mem_line_fields
    by (rule process_fields [OF _ mem_line_plain, where branch = parse_MEM]) (simp_all add: parse_table_def parse_MEM_def)
  show ?thesis
  proof (rule gives_intro [where pub = "\<lambda>_. [mem_event a c]"])
    show "one_line (mem_line a c)" using field_line(2) [OF _ mem_line_plain [of a c], folded mem_line_fields] by simp
    show "\<exists>h'. process_line clk (mem_line a c) h = (h', None) \<and> ebus h' = publish_all [mem_event a c] (ebus h) \<and>
        dbg h' = map_option (\<lambda>d. d) (dbg h)" for clk h
      by (simp add: run process_message_def with_key_def seq_def get_str_def message_branch_def plain_events_def emit_def
          on_app_def change_def mem_event_def option.map_ident)
  qed (simp add: untimed_def mem_event_def as_dict_def)
qed

section \<open>Reports are quiet\<close>

lemma strip_prefix:
  assumes "p \<noteq> []" and "\<not> is_space (hd p)" and "\<not> is_space (last p)"
  shows "\<exists>r'. py_strip (p @ r) = p @ r'"
proof -
  have "dropWhile is_space (p @ r) = p @ r" using assms by (cases p) simp_all
  moreover have "dropWhile is_space (rev p) = rev p"
    using assms by (cases "rev p") (auto simp: hd_rev [symmetric])
  ultimately have "py_strip (p @ r) = p @ rev (dropWhile is_space (rev r))"
    by (simp add: py_strip_def py_lstrip_def dropWhile_append split: if_splits)
  then show ?thesis by blast
qed

lemma clean_prefix: "printable_ascii p \<Longrightarrow> \<exists>r'. clean_line (p @ r) = p @ r'"
  by (auto simp: clean_line_def printable_ascii_def list_all_iff)

text \<open>A line of type \<open>t\<close>, whatever follows the type, when its branch only publishes \<open>ev\<close>.\<close>

lemma quiet_prefixed:
  assumes t: "list_all alnum_char t" "t \<noteq> []" and "one_line r"
    and branch: "\<And>now line. map_of (parse_table now line) t = Some (b now)"
      "\<And>now ps. b now ps = Inr None \<or> (\<exists>m. b now ps = Inr (Some m) \<and> map_of m ''type'' = Some (VStr t))"
    and msg: "\<And>clk m h. \<exists>h'. message_branch clk m t h = (h', None) \<and> ebus h' = publish ev (VDict m) (ebus h) \<and> dbg h' = dbg h"
    and "ev \<notin> set evs"
  shows "quiet evs (t @ ''|'' @ r)"
proof -
  let ?p = "t @ ''|''"
  have "\<not> alnum_char (CHR 0x0A)" "\<not> alnum_char (CHR ''|'')" by (simp_all add: alnum_char_def)
  with t have no: "one_line (?p @ r)" "CHR ''|'' \<notin> set t"
    using assms(3) by (auto simp: one_line_def list_all_iff)
  have "\<not> is_space (hd ?p)" "\<not> is_space (last ?p)"
    using t alnum_char_not_space by (auto simp: hd_append list_all_iff is_space_def)
  from strip_prefix [OF _ this] obtain r1 where r1: "py_strip (?p @ r) = ?p @ r1" by auto
  have "printable_ascii ?p" using t(1) alnum_char_printable by (auto simp: printable_ascii_def list_all_iff)
  from clean_prefix [OF this] obtain r2 where r2: "clean_line (?p @ r1) = ?p @ r2" by blast
  let ?ps = "split_char (CHR ''|'') (?p @ r2)"
  have parsed: "parse_message now (?p @ r2) = b now ?ps" for now
    using split_char_append [OF no(2)] by (simp add: parse_message_def Let_def branch(1))
  have run: "process_line clk (?p @ r) h = (case b (stamp clk) ?ps of
      Inl e \<Rightarrow> raise e | Inr None \<Rightarrow> skip | Inr (Some m) \<Rightarrow> process_message clk m) (h\<lparr>rx := rx h @ [?p @ r2]\<rparr>)" for clk h
    by (simp only: process_line_def r1 r2 parsed Let_def) (simp add: seq_def change_def)
  have "\<exists>h' pub. process_line clk (?p @ r) h = (h', None) \<and> ebus h' = publish_all pub (ebus h) \<and>
      filter (\<lambda>e. fst e \<in> set evs) pub = [] \<and> dbg h' = dbg h" for clk h
    using branch(2) [of "stamp clk" ?ps]
  proof (elim disjE exE conjE)
    assume "b (stamp clk) ?ps = Inr None"
    then show ?thesis unfolding run
      by (intro exI [of _ "h\<lparr>rx := rx h @ [?p @ r2]\<rparr>"] exI [of _ "[]"]) (simp add: skip_def)
  next
    fix m assume m: "b (stamp clk) ?ps = Inr (Some m)" "map_of m ''type'' = Some (VStr t)"
    let ?h = "h\<lparr>rx := rx h @ [?p @ r2], app := (app h)\<lparr>last_bridge_message_at := Some (wall clk)\<rparr>\<rparr>"
    from msg [of clk m ?h] obtain h' where h':
      "message_branch clk m t ?h = (h', None)" "ebus h' = publish ev (VDict m) (ebus h)" "dbg h' = dbg h" by auto
    with m show ?thesis unfolding run
      by (intro exI [of _ h'] exI [of _ "[(ev, VDict m)]"])
         (simp add: process_message_def with_key_def seq_def on_app_def change_def get_str_def assms(7))
  qed
  then show ?thesis using no(1) by (fastforce simp: quiet_def gives_def option.map_ident)
qed

lemma quiet_log:
  assumes "one_line r" and "''log'' \<notin> set evs"
  shows "quiet evs (''LOG|'' @ r)"
proof -
  have "quiet evs (''LOG'' @ ''|'' @ r)"
  proof (rule quiet_prefixed [where b = parse_LOG and ev = "''log''"])
    show "map_of (parse_table now line) ''LOG'' = Some (parse_LOG now)" for now line by (simp add: parse_table_def)
    show "parse_LOG now ps = Inr None \<or> (\<exists>m. parse_LOG now ps = Inr (Some m) \<and> map_of m ''type'' = Some (VStr ''LOG''))" for now ps
      by (simp add: parse_LOG_def)
  qed (use assms in \<open>simp_all add: alnum_char_def message_branch_def seq_def emit_def on_app_def change_def\<close>)
  then show ?thesis by simp
qed

lemma quiet_hb:
  assumes "one_line r" and "''heartbeat'' \<notin> set evs"
  shows "quiet evs (''HB|'' @ r)"
proof -
  have "quiet evs (''HB'' @ ''|'' @ r)"
  proof (rule quiet_prefixed [where b = parse_HB and ev = "''heartbeat''"])
    show "map_of (parse_table now line) ''HB'' = Some (parse_HB now)" for now line by (simp add: parse_table_def)
    show "parse_HB now ps = Inr None \<or> (\<exists>m. parse_HB now ps = Inr (Some m) \<and> map_of m ''type'' = Some (VStr ''HB''))" for now ps
      by (simp add: parse_HB_def)
  qed (use assms in \<open>simp_all add: alnum_char_def message_branch_def seq_def emit_def on_app_def change_def\<close>)
  then show ?thesis by simp
qed

lemma one_line_simps [simp]:
  "one_line []" "one_line (c # s) = (c \<noteq> CHR 0x0A \<and> one_line s)" "one_line (s @ t) = (one_line s \<and> one_line t)"
  "one_line (fmt_dec i)"
  using fmt_dec_alnum alnum_char_neq(6) by (auto simp: one_line_def)

text \<open>Everything the demo reports while its program runs on.\<close>

lemma run_code_free: "sim_breakpoints s = [] \<Longrightarrow> \<exists>s'. run_code n s = ([], s', False)"
  by (induction n arbitrary: s) (simp_all add: Let_def check_breakpoints_def)

lemma sim_turn_quiet:
  assumes "''log'' \<notin> set evs" and "''heartbeat'' \<notin> set evs" and "sim_breakpoints s = []"
  shows "list_all (quiet evs) (fst (sim_turn r1 r2 s))"
proof -
  have hb: "quiet evs (hb_line s1)" for s1
    using quiet_hb [OF _ assms(2), of "fmt_dec (tick s1) @ ''|'' @ fmt_dec (free_chip s1) @ ''|'' @ fmt_dec (free_fast s1)"]
    by (simp add: hb_line_def)
  have lg: "one_line r \<Longrightarrow> quiet evs (CHR ''L'' # CHR ''O'' # CHR ''G'' # CHR ''|'' # r)" for r
    using quiet_log [OF _ assms(1), of r] by simp
  have "list_all (quiet evs) (reports s1)" for s1
    by (simp add: reports_def hb lg)
  moreover have "bounce_x s1 = (out, s2) \<Longrightarrow> list_all (quiet evs) out" "bounce_y s1 = (out, s2) \<Longrightarrow> list_all (quiet evs) out" for s1 out s2
    by (auto simp: bounce_x_def bounce_y_def Let_def lg split: if_splits)
  moreover obtain s' where "run_code (length (sim_addrs s)) s = ([], s', False)"
    using run_code_free [OF assms(3)] by blast
  ultimately show ?thesis by (auto simp: sim_turn_def Let_def split: prod.splits)
qed

section \<open>Reading memory\<close>

lemma py_lower_append: "py_lower (s @ t) = py_lower s @ py_lower t"
  by (simp add: py_lower_def)

lemma lower_digit: "n < 16 \<Longrightarrow> lower_char (digit_char True n) = digit_char False n"
  by (simp add: lower_char_def digit_char_def Let_def)

lemma lower_byte: "py_lower (byte_hex True b) = byte_hex False b"
proof -
  have "unat b < 256" using unsigned_less [of b, where ?'a = nat] by simp
  then have "unat b div 16 < 16" by (simp add: less_mult_imp_div_less)
  then show ?thesis by (simp add: py_lower_def byte_hex_def lower_digit)
qed

text \<open>The bytes the simulator pretends to have.\<close>

definition sim_bytes :: "int \<Rightarrow> int \<Rightarrow> byte list" where
  "sim_bytes a n = map (\<lambda>i. word_of_int (a + int i)) [0..<nat n]"

lemma lower_memory: "py_lower (get_memory a n) = bytes_hex False (sim_bytes a n)"
proof -
  have "fmt_hex True 2 (x AND 0xFF) = byte_hex True (word_of_int x)" for x :: int
    using fmt_hex_byte [of True "word_of_int x"] by (simp add: and_255 uint_word_of_int)
  then have "get_memory a n = bytes_hex True (sim_bytes a n)"
    by (simp add: get_memory_def bytes_hex_def sim_bytes_def comp_def)
  moreover have "py_lower (bytes_hex True bs) = bytes_hex False bs" for bs
    by (induction bs) (simp_all add: bytes_hex_def py_lower_append lower_byte, simp add: py_lower_def)
  ultimately show ?thesis by simp
qed

lemma collect_mem_all:
  assumes "map (untimed \<circ> snd) got = map (\<lambda>(a, c). mem_event a c) parts" and "list_all (\<lambda>x. fst x < deadline) got"
    and "now < deadline" and "list_all (\<lambda>(a, c). 0 < c) parts" and "received + sum_list (map snd parts) = wanted"
  shows "collect_mem deadline wanted now got ps received = Some (ps @ map (\<lambda>(a, c). get_memory a c) parts, wanted)"
  using assms
proof (induction parts arbitrary: got now ps received)
  case (Cons p parts)
  obtain a c where p: "p = (a, c)" by (cases p)
  from Cons.prems(1) p obtain t e got' where
    got: "got = (t, e) # got'" "untimed e = mem_event a c" "map (untimed \<circ> snd) got' = map (\<lambda>(a, c). mem_event a c) parts"
    by (cases got) (auto simp: comp_def)
  have "fst e = ''mem''" using got(2) by (metis fst_conv fst_untimed mem_event_def)
  moreover have "get_str (as_dict (snd e)) ''hexData'' '''' = get_memory a c" "get_int (as_dict (snd e)) ''size'' 0 = c"
    using untimed_get [OF got(2) [unfolded mem_event_def]] by (simp_all add: get_str_def get_int_def)
  moreover have "0 \<le> sum_list (map snd parts)"
    using Cons.prems(4) by (intro sum_list_nonneg) (auto simp: list_all_iff p)
  then have "received < wanted" using Cons.prems(4,5) p by simp
  moreover have "t < deadline" using Cons.prems(2) got(1) by simp
  ultimately show ?case
    using Cons.IH [of got' "max now t" "received + c" "ps @ [get_memory a c]"] Cons.prems got p
    by (cases e) simp
qed simp

definition inspect_line :: "int \<Rightarrow> int \<Rightarrow> string" where
  "inspect_line addr n = ''INSPECT|'' @ hex32 addr @ ''|'' @ fmt_dec n"

lemma inspect_fields:
  "inspect_line addr n = py_join ''|'' [''INSPECT'', hex32 addr, fmt_dec n]"
  "list_all plain [''INSPECT'', hex32 addr, fmt_dec n]"
  by (simp_all add: inspect_line_def hex32_def field_char_def alnum_char_def)

lemma format_inspect:
  "format_command [(''type'', AStr ''INSPECT''), (''address'', AStr (hex32 addr)), (''size'', AInt n)] =
     Inr (inspect_line addr n)"
  by (simp add: format_command_def format_table_def format_table1_def Protocol_Format.fields_def req_def inspect_line_def)

text \<open>What the simulator answers.\<close>

lemma sim_inspect_line:
  "sim_data [] (inspect_line addr n @ [CHR 0x0A]) s = ((mem_lines addr (min n 4096) 0, s, None), [])"
proof -
  note l = field_line [OF _ inspect_fields(2), folded inspect_fields(1), simplified]
  have "split_char (CHR 0x0A) (inspect_line addr n @ [CHR 0x0A]) = [inspect_line addr n, []]"
    using l(2) by (simp add: split_char_append one_line_def)
  moreover have "inspect_line addr n \<noteq> []" by (simp add: inspect_line_def)
  moreover have "sim_command (inspect_line addr n) s = (mem_lines addr (min n 4096) 0, s, None)"
    by (simp add: sim_command_def l sim_table_def Let_def sim_inspect_def hex32_def say_def)
  ultimately show ?thesis by (simp add: sim_data_def l say_def)
qed

lemma send_command_sent:
  assumes "can_send (link g)" and "format_command cmd = Inr line" and "replacement \<notin> set line"
  shows "send_command cmd g = (Inr (), sent line g)"
proof -
  have "conn_up (link g)" using assms(1) by (simp add: can_send_def)
  with assms show ?thesis by (simp add: send_command_def send_line_sent)
qed

lemma read_memory_collected:
  assumes "can_send (link g)" and "0 < n" and "n \<le> 4096"
    and "listen [''mem'', ''err''] (sent (inspect_line addr n) g) = (Inr (now, got), h)"
    and "collect_mem (now + 5000) n now got [] 0 = Some (pieces, received)" and "pieces \<noteq> []"
  shows "read_memory (hex32 addr @ '','' @ fmt_hex False 0 n) g = (Inr (take (nat (n * 2)) (py_lower (concat pieces))), h)"
proof -
  have "replacement \<notin> set (inspect_line addr n)"
    using plain_hex by (simp add: inspect_line_def hex32_def replacement_def)
  note sends = send_command_sent [OF assms(1) format_inspect this]
  have "CHR '','' \<notin> set (fmt_hex u w i)" for u w i
    using fmt_hex_alnum [of "CHR '',''" u w i] by (auto simp: alnum_char_def)
  then have arg: "split_char (CHR '','') (hex32 addr @ '','' @ fmt_hex False 0 n) = [hex32 addr, fmt_hex False 0 n]"
    by (simp add: hex32_def split_char_append split_char_no_sep)
  have "parse_hex (hex32 addr) = Inr addr" "parse_hex (fmt_hex False 0 n) = Inr n"
    by (simp_all add: parse_hex_def hex32_def)
  then show ?thesis
    unfolding read_memory_def Let_def arg
    using assms by (simp add: bind_def sends ret_def min_def)
qed

text \<open>What the simulator's answer is for the connection.\<close>

lemma answer_effects:
  assumes "0 < n" and "n \<le> 4096"
  shows "\<exists>parts fs. tiles addr n parts \<and> parts \<noteq> [] \<and> list_all2 (gives [''mem'', ''err'']) (mem_lines addr n 0) fs \<and>
    fst (effects fs) = map (\<lambda>(a, c). mem_event a c) parts \<and> length parts \<le> queue_max"
proof -
  from mem_lines_tiles [of 0 n addr] assms obtain parts where
    parts: "mem_lines addr n 0 = map (\<lambda>(a, c). mem_line a c) parts" "tiles addr n parts" by auto
  let ?fs = "map (\<lambda>(a, c). ([mem_event a c], \<lambda>d. d)) parts"
  have "list_all2 (gives [''mem'', ''err'']) (mem_lines addr n 0) ?fs"
    unfolding parts(1) by (induction parts) (auto simp: mem_line_gives)
  moreover have "fst (effects ?fs) = map (\<lambda>(a, c). mem_event a c) parts"
    by (induction parts) auto
  moreover have "parts \<noteq> []" "length parts \<le> queue_max"
    using parts(2) assms by (auto simp: tiles_def queue_max_def)
  ultimately show ?thesis using parts(2) by blast
qed

text \<open>
  C18. Reading the simulator's memory through the whole system: the server turns a client's \<open>m\<close>
  packet into one INSPECT command; when the simulator's answer to it arrives within five
  seconds, in any chunks and with any other lines that report no memory and no error in
  between, the client gets exactly the bytes it asked for, in lower-case hexadecimal.
\<close>

theorem gdb_reads_simulator:
  assumes "ready g" and "0 < n" and "n \<le> 4096"
    and sim: "sim_data [] (inspect_line addr n @ [CHR 0x0A]) s = ((answers, s', None), [])"
    and "ls \<in> shuffles answers others" and "list_all (quiet [''mem'', ''err'']) others"
    and "arriving g now (now + 5000) ls"
    and out: "process_packet (''m'' @ hex32 addr @ '','' @ fmt_hex False 0 n) g = (r, g')"
  shows "r = Inr (Some (bytes_hex False (sim_bytes addr n))) \<and>
    wire (link g') = wire (link g) @ inspect_line addr n @ [CHR 0x0A]"
proof -
  have answers: "answers = mem_lines addr n 0"
    using sim assms(2,3) by (simp add: sim_inspect_line min_def split: if_splits)
  from answer_effects [OF assms(2,3), of addr] obtain parts fs where
    fs: "tiles addr n parts" "parts \<noteq> []" "list_all2 (gives [''mem'', ''err'']) answers fs"
      "fst (effects fs) = map (\<lambda>(a, c). mem_event a c) parts" "length parts \<le> queue_max"
    unfolding answers by blast
  from effects_quiet [OF fs(3) assms(6,5)] obtain fs' where
    fs': "list_all2 (gives [''mem'', ''err'']) ls fs'" "effects fs' = effects fs" by blast
  let ?g = "sent (inspect_line addr n) g"
  from listen_lines [OF fs'(1), of ?g now "now + 5000"] assms(1,7) fs(4,5) fs'(2) obtain got h where
    got: "listen [''mem'', ''err''] ?g = (Inr (now, got), h)" "map (untimed \<circ> snd) got = map (\<lambda>(a, c). mem_event a c) parts"
      "list_all (\<lambda>x. fst x < now + 5000) got" "wire (link h) = wire (link ?g)"
    by (auto simp: waited_def)
  have "collect_mem (now + 5000) n now got [] 0 = Some (map (\<lambda>(a, c). get_memory a c) parts, n)"
    using collect_mem_all [OF got(2,3), of now 0 n "[]"] fs(1) by (auto simp: tiles_def list_all_iff)
  moreover have "concat (map (\<lambda>(a, c). get_memory a c) parts) = get_memory addr n" using fs(1) by (simp add: tiles_def)
  moreover have "length (bytes_hex False (sim_bytes addr n)) = nat (n * 2)"
    using assms(2) by (simp add: sim_bytes_def nat_mult_distrib)
  ultimately have "read_memory (hex32 addr @ '','' @ fmt_hex False 0 n) g = (Inr (bytes_hex False (sim_bytes addr n)), h)"
    using read_memory_collected [OF _ assms(2,3) got(1)] assms(1) fs(2) by (simp add: ready_def lower_memory)
  then show ?thesis
    using out got(4) by (auto simp: process_packet_def answer_def bind_def ret_def)
qed

definition reading_gdb :: gdb where
  "reading_gdb =
     \<lparr>link = (link stopped_gdb)\<lparr>first_data := False\<rparr>, gout = [],
      script = [(0, [(\<lparr>wall = 100, mono = 100, stamp = ''''\<rparr>, ''HB|7|1|1'' @ [CHR 0x0A] @ ''MEM|00001''),
        (\<lparr>wall = 200, mono = 200, stamp = ''''\<rparr>, ''000|4|00010203'' @ [CHR 0x0A])])]\<rparr>"

lemma ready_reading: "ready (reading_gdb\<lparr>script := w\<rparr>)"
  using stopped_gdb_simps(1)
  by (simp add: ready_def reading_gdb_def hears_def stopped_gdb_def new_serial_def can_send_def bus_inv_new)

theorem gdb_reads_simulator_witness:
  "fst (process_packet ''m00001000,4'' reading_gdb) = Inr (Some ''00010203'')"
proof -
  let ?line = "''MEM|00001000|4|00010203''" and ?hb = "''HB|7|1|1''"
  have sim: "sim_data [] (inspect_line 4096 4 @ [CHR 0x0A]) (new_sim None) = (([?line], new_sim None, None), [])"
  proof -
    have "mem_lines 4096 (min 4 4096) 0 = [?line]" by code_simp
    then show ?thesis by (simp only: sim_inspect_line)
  qed
  have mix: "[?hb, ?line] \<in> shuffles [?line] [?hb]" by simp
  have quiet: "list_all (quiet [''mem'', ''err'']) [?hb]"
    using quiet_hb [of "''7|1|1''" "[''mem'', ''err'']"] by simp
  have arr: "arriving reading_gdb 0 (0 + 5000) [?hb, ?line]"
    by (simp add: arriving_def reading_gdb_def timely_def stopped_gdb_def new_serial_def) presburger
  have packet: "''m'' @ hex32 4096 @ '','' @ fmt_hex False 0 4 = ''m00001000,4''" by code_simp
  have bytes: "bytes_hex False (sim_bytes 4096 4) = ''00010203''" by code_simp
  have "ready reading_gdb" using ready_reading [of "script reading_gdb"] by simp
  from gdb_reads_simulator [OF this _ _ sim mix quiet arr prod.collapse [symmetric]] show ?thesis
    by (simp only: packet bytes)
qed

end
