(* ===== verification/Stepping.thy ===== *)
theory Stepping
  imports Session
begin

text \<open>
  Stepping the simulated program through the GDB server and the connection, the two stop replies
  of a step, and what the listeners of \<open>server.py\<close> make of a stop message.
\<close>

section \<open>Stepping\<close>

definition d_values :: "sim \<Rightarrow> int list" where
  "d_values s = map (\<lambda>i. (ball_x s + int i * 0x100) AND 0xFFFFFFFF) [0..<8]"

definition a_values :: "int list" where
  "a_values = map (\<lambda>i. 0x00200000 + int i * 0x1000) [0..<8]"

text \<open>The registers of the simulated program in GDB's order.\<close>

definition sim_regs :: "sim \<Rightarrow> int list" where
  "sim_regs s = d_values s @ a_values @ [0, sim_pc s]"

lemma hex_list_text: "vs \<noteq> [] \<Longrightarrow> hex_list (py_join '':'' (map (fmt_hex False 8) vs)) = Inr vs"
proof -
  assume "vs \<noteq> []"
  moreover have "\<forall>p \<in> set (map (fmt_hex False 8) vs). CHR '':'' \<notin> set p"
    using fmt_hex_alnum [of "CHR '':''"] by (auto simp: alnum_char_def)
  moreover have "res_map (py_int 16) (map (fmt_hex False 8) vs) = Inr vs" by (induction vs) simp_all
  ultimately show ?thesis by (simp add: hex_list_def split_join)
qed

lemma reg_texts:
  "d_regs s = py_join '':'' (map (fmt_hex False 8) (d_values s))" "a_regs = py_join '':'' (map (fmt_hex False 8) a_values)"
  by (simp_all add: d_regs_def a_regs_def d_values_def a_values_def comp_def)

definition stop_dict :: "string \<Rightarrow> sim \<Rightarrow> string \<Rightarrow> pydict" where
  "stop_dict reason s now =
     [(''type'', VStr ''DBGSTOP''), (''reason'', VStr reason), (''pc'', VInt (sim_pc s)), (''sr'', VInt 0),
      (''dataRegs'', vints (d_values s)), (''addrRegs'', vints a_values), (''warnings'', vstrs []), (''timestamp'', VStr now)]"

lemma stop_fields:
  "stop_line reason s = py_join ''|'' [''DBGSTOP'', reason, fmt_hex False 8 (sim_pc s), ''0000'', d_regs s, a_regs]"
  by (simp add: stop_line_def)

lemma plain_hex_list: "plain (py_join '':'' (map (fmt_hex False 8) vs))"
  by (induction vs rule: induct_list012) (simp_all add: field_char_def)

lemma stop_plain:
  "plain reason \<Longrightarrow> list_all plain [''DBGSTOP'', reason, fmt_hex False 8 (sim_pc s), ''0000'', d_regs s, a_regs]"
  by (simp add: field_char_def alnum_char_def reg_texts plain_hex_list)

lemma fmt_hex_no_W: "CHR ''W'' \<notin> set (fmt_hex u w i)"
proof -
  have "CHR ''W'' \<noteq> digit_char u d" if "d < 16" for d
  proof
    assume "CHR ''W'' = digit_char u d"
    then have "chr_code (CHR ''W'') = chr_code (digit_char u d)" by simp
    with of_char_digit_char [of d u] that show False by (simp split: if_splits)
  qed
  then show ?thesis using nat_digits_chars [of 16 "CHR ''W''" u "nat \<bar>i\<bar>"] by (auto simp: fmt_hex_def Let_def)
qed

lemma parse_stop:
  "parse_DBGSTOP now [''DBGSTOP'', reason, fmt_hex False 8 (sim_pc s), ''0000'', d_regs s, a_regs] = Inr (Some (stop_dict reason s now))"
proof -
  have "py_int 16 ''0000'' = Inr 0" by code_simp
  moreover have "d_values s \<noteq> []" "a_values \<noteq> []" by (simp_all add: d_values_def a_values_def)
  moreover have "\<not> py_startswith (py_join '':'' (map (fmt_hex False 8) vs)) ''WARN:''" if "vs \<noteq> []" for vs
  proof -
    from that obtain v vs' where vs: "vs = v # vs'" by (cases vs) auto
    obtain c r where c: "fmt_hex False 8 v = c # r" by (cases "fmt_hex False 8 v") auto
    then have "c \<noteq> CHR ''W''" using fmt_hex_no_W [of False 8 v] by auto
    then show ?thesis by (cases vs') (simp_all add: py_startswith_def vs c)
  qed
  ultimately show ?thesis
    by (simp add: parse_DBGSTOP_def hexfld_def fld_def stop_dict_def reg_texts hex_list_text)
qed

lemma stop_line_gives:
  assumes "plain reason"
  shows "gives [''dbg_stop''] (stop_line reason s)
    ([untimed (''dbg_stop'', VDict (stop_dict reason s []))], update_from_stop (stop_dict reason s []))"
proof (rule gives_intro [where pub = "\<lambda>clk. [(''dbg_stop'', VDict (stop_dict reason s (stamp clk))),
    (''log'', VDict (host_log ''W'' (stop_text (stop_dict reason s (stamp clk))) (VStr (stamp clk)) []))]"])
  show "one_line (stop_line reason s)" using field_line(2) [OF _ stop_plain [OF assms]] by (simp add: stop_fields)
  show "map untimed (filter (\<lambda>e. fst e \<in> set [''dbg_stop'']) [(''dbg_stop'', VDict (stop_dict reason s (stamp clk))),
      (''log'', VDict (host_log ''W'' (stop_text (stop_dict reason s (stamp clk))) (VStr (stamp clk)) []))]) =
    [untimed (''dbg_stop'', VDict (stop_dict reason s []))]" for clk
    by (simp add: untimed_def as_dict_def stop_dict_def)
  have upd: "update_from_stop (stop_dict reason s now) = update_from_stop (stop_dict reason s [])" for now
    by (rule ext) (simp add: update_from_stop_def get_int_def get_ints_def get_str_def get_strs_def stop_dict_def)
  have run: "process_line clk (stop_line reason s) h =
      process_message clk (stop_dict reason s (stamp clk)) (h\<lparr>rx := rx h @ [stop_line reason s]\<rparr>)" for clk h
    unfolding stop_fields
    by (rule process_fields [OF _ stop_plain [OF assms], where branch = "parse_DBGSTOP (stamp clk)"])
       (simp_all add: parse_table_def parse_stop)
  have entries: "map_of (stop_dict reason s now) ''type'' = Some (VStr ''DBGSTOP'')"
    "dict_get (stop_dict reason s now) ''timestamp'' (VStr []) = VStr now" for now
    by (simp_all add: stop_dict_def dict_get_def)
  have branch: "message_branch clk m ''DBGSTOP'' = process_stop m" for clk m
    by (simp add: message_branch_def)
  show "\<exists>h'. process_line clk (stop_line reason s) h = (h', None) \<and>
      ebus h' = publish_all [(''dbg_stop'', VDict (stop_dict reason s (stamp clk))),
        (''log'', VDict (host_log ''W'' (stop_text (stop_dict reason s (stamp clk))) (VStr (stamp clk)) []))] (ebus h) \<and>
      dbg h' = map_option (update_from_stop (stop_dict reason s [])) (dbg h)" for clk h
    unfolding run process_message_def with_key_def entries
    by (simp add: seq_def get_str_def entries branch process_stop_def emit_def on_app_def on_dbg_def change_def
        upd [of "stamp clk"] skip_def)
qed

text \<open>The registers the debugger's state has after a stop message.\<close>

definition stop_regs :: "sim \<Rightarrow> int list \<Rightarrow> int list" where
  "stop_regs s rs = (set_regs 8 a_values (set_regs 0 (d_values s) rs))[16 := sim_pc s, 17 := 0]"

lemma update_from_stop_regs:
  "regs (update_from_stop (stop_dict reason s now) d) = stop_regs s (regs d)"
  "stopped (update_from_stop (stop_dict reason s now) d)"
proof -
  have "int_values (map VInt vs) = vs" for vs by (induction vs) simp_all
  then have "get_ints (stop_dict reason s now) ''dataRegs'' = d_values s" "get_ints (stop_dict reason s now) ''addrRegs'' = a_values"
    by (simp_all add: get_ints_def stop_dict_def vints_def)
  moreover have "get_int (stop_dict reason s now) ''pc'' 0 = sim_pc s" "get_int (stop_dict reason s now) ''sr'' 0 = 0"
    by (simp_all add: get_int_def stop_dict_def)
  moreover have "take 8 (d_values s) = d_values s" "take 8 a_values = a_values"
    by (simp_all add: d_values_def a_values_def)
  ultimately show "regs (update_from_stop (stop_dict reason s now) d) = stop_regs s (regs d)"
    "stopped (update_from_stop (stop_dict reason s now) d)"
    by (simp_all add: update_from_stop_def Let_def stop_regs_def)
qed

lemma stop_regs_nth:
  assumes "length rs = 18" and "k < 18"
  shows "stop_regs s rs ! k = sim_regs s ! reg_index k"
proof -
  have len: "length (d_values s) = 8" "length a_values = 8" by (simp_all add: d_values_def a_values_def)
  then have set: "set_regs 8 a_values (set_regs 0 (d_values s) rs) ! k =
      (if 8 \<le> k \<and> k < 16 then a_values ! (k - 8) else if k < 8 then d_values s ! k else rs ! k)"
    using assms by (simp add: set_regs_nth)
  consider "k < 8" | "8 \<le> k" "k < 16" | "k = 16" | "k = 17" using assms(2) by linarith
  then show ?thesis
    by cases (use set len assms in \<open>auto simp: stop_regs_def sim_regs_def reg_index_def nth_append\<close>)
qed

lemma read_stopped:
  assumes "stopped (the_dbg g)" and "regs (the_dbg g) = stop_regs s rs" and "length rs = 18"
  shows "process_packet ''g'' g = (Inr (Some (concat (map hex32 (sim_regs s)))), g)"
proof -
  have "length (regs (the_dbg g)) = 18" using assms(2,3) by (simp add: stop_regs_def)
  moreover have "length (sim_regs s) = 18" by (simp add: sim_regs_def d_values_def a_values_def)
  moreover have "regs (the_dbg g) ! k = sim_regs s ! reg_index k" if "k < 18" for k
    using assms(2,3) that by (simp add: stop_regs_nth)
  ultimately have "concat (map (\<lambda>i. hex32 (regs (the_dbg g) ! i)) [0..<8]) @ concat (map (\<lambda>i. hex32 (regs (the_dbg g) ! (8 + i))) [0..<8]) @
      hex32 (regs (the_dbg g) ! 17) @ hex32 (regs (the_dbg g) ! 16) = concat (map hex32 (sim_regs s))"
    by (rule read_regs_text)
  with assms(1) show ?thesis
    by (simp add: process_packet_def answer_def read_all_regs_def bind_def ask_def ret_def del: upt_Suc)
qed

lemma sim_step_line:
  assumes "sim_attached s"
  shows "\<exists>s'. sim_data [] (''DBGSTEP'' @ [CHR 0x0A]) s = (([stop_line ''step'' s'], s', None), []) \<and>
    sim_pc s' = ahead s 1 \<and> sim_stopped s'"
proof -
  have "\<exists>s'. sim_step s = ([stop_line ''step'' s'], s', None) \<and> sim_pc s' = ahead s 1 \<and> sim_stopped s'"
    using assms by (auto simp: sim_step_def Let_def say_def stop_now_def ahead_def)
  moreover have "split_char (CHR 0x0A) (''DBGSTEP'' @ [CHR 0x0A]) = [''DBGSTEP'', []]" "py_strip ''DBGSTEP'' = ''DBGSTEP''"
    "split_char (CHR ''|'') ''DBGSTEP'' = [''DBGSTEP'']" by code_simp+
  moreover have "map_of sim_table ''DBGSTEP'' = Some (1, \<lambda>p. sim_step)" by (simp add: sim_table_def)
  ultimately show ?thesis by (auto simp: sim_data_def sim_command_def say_def)
qed

lemma step_packet_run:
  assumes "ready g" and "sim_attached s" and sim: "sim_data [] (''DBGSTEP'' @ [CHR 0x0A]) s = ((answers, s', None), [])"
    and "ls \<in> shuffles answers others" and "list_all (quiet [''dbg_stop'']) others" and "arriving g now (now + 30000) ls"
  shows "\<exists>h. step_packet [] g = (Inr ''S05'', h) \<and> gout h = gout g \<and>
    all_hear [''dbg_stop''] [untimed (''dbg_stop'', VDict (stop_dict ''step'' s' []))] (link g) (link h) \<and>
    wire (link h) = wire (link g) @ ''DBGSTEP'' @ [CHR 0x0A] \<and>
    dbg (hub (link h)) = map_option (update_from_stop (stop_dict ''step'' s' [])) (dbg (hub (link g)))"
proof -
  from sim_step_line [OF assms(2)] sim have answers: "answers = [stop_line ''step'' s']" by auto
  let ?m = "stop_dict ''step'' s' []"
  let ?f = "([untimed (''dbg_stop'', VDict ?m)], update_from_stop ?m)"
  have "list_all2 (gives [''dbg_stop'']) answers [?f]"
    using stop_line_gives [of "''step''" s'] by (simp add: answers field_char_def alnum_char_def)
  from effects_quiet [OF this assms(5,4)] obtain fs where
    fs: "list_all2 (gives [''dbg_stop'']) ls fs" "effects fs = effects [?f]" by blast
  let ?g = "sent ''DBGSTEP'' g"
  from listen_lines [OF fs(1), of ?g now "now + 30000"] assms(1,6) obtain got h where
    h: "listen [''dbg_stop''] ?g = (Inr (now, got), h)" "waited (snd (effects fs)) (link ?g) (link h)" "gout h = gout ?g"
      "all_hear [''dbg_stop''] (fst (effects fs)) (link ?g) (link h)"
    by (auto simp: fs(2) queue_max_def)
  have "send_line ''DBGSTEP'' g = (Inr (), ?g)"
    using assms(1) by (intro send_line_sent) (simp_all add: ready_def replacement_def)
  then have "step_packet [] g = (Inr ''S05'', h)"
    using h(1) by (simp add: step_packet_def set_pc_def bind_def ret_def await_def)
  moreover have "all_hear [''dbg_stop''] [untimed (''dbg_stop'', VDict ?m)] (link g) (link h)"
    using h(4) by (simp add: fs(2) all_hear_def sent_def)
  moreover have "dbg (hub (link h)) = map_option (update_from_stop ?m) (dbg (hub (link g)))"
    using h(2) by (simp add: waited_def fs(2) sent_def comp_def)
  ultimately show ?thesis using h(2,3) by (simp add: waited_def)
qed

text \<open>
  C19. Stepping the simulated program: the server turns an \<open>s\<close> packet into one DBGSTEP command; when
  the simulator's stop message arrives within thirty seconds, in any chunks and with any
  reports in between, the client is told of the stop, and what it then reads are the registers
  of the simulated program, which has moved to its next instruction.
\<close>

theorem gdb_steps_simulator:
  assumes "ready g" and "dbg (hub (link g)) = Some d" and "length (regs d) = 18" and "sim_attached s"
    and sim: "sim_data [] (''DBGSTEP'' @ [CHR 0x0A]) s = ((answers, s', None), [])"
    and "ls \<in> shuffles answers others" and "list_all (quiet [''dbg_stop'']) others"
    and "arriving g now (now + 30000) ls"
    and out: "process_packet ''s'' g = (r, g')"
  shows "r = Inr (Some ''S05'') \<and> wire (link g') = wire (link g) @ ''DBGSTEP'' @ [CHR 0x0A] \<and> sim_pc s' = ahead s 1 \<and>
    process_packet ''g'' g' = (Inr (Some (concat (map hex32 (sim_regs s')))), g')"
proof -
  from sim_step_line [OF assms(4)] sim have moved: "sim_pc s' = ahead s 1" by auto
  from step_packet_run [OF assms(1,4-8)] obtain h where
    h: "step_packet [] g = (Inr ''S05'', h)" "wire (link h) = wire (link g) @ ''DBGSTEP'' @ [CHR 0x0A]"
      "dbg (hub (link h)) = Some (update_from_stop (stop_dict ''step'' s' []) d)"
    using assms(2) by auto
  have r: "r = Inr (Some ''S05'')" "g' = h"
    using out h(1) by (simp_all add: process_packet_def answer_def bind_def ret_def)
  have "process_packet ''g'' h = (Inr (Some (concat (map hex32 (sim_regs s')))), h)"
    using assms(3) h(3) by (intro read_stopped) (simp_all add: the_dbg_def update_from_stop_regs)
  with r h(2) moved show ?thesis by simp
qed

definition stepping_gdb :: "string \<Rightarrow> gdb" where
  "stepping_gdb reply =
     \<lparr>link = (link stopped_gdb)\<lparr>first_data := False\<rparr>, gout = [],
      script = [(0, [(\<lparr>wall = 100, mono = 100, stamp = ''''\<rparr>, ''HB|7|1|1'' @ [CHR 0x0A] @ reply @ [CHR 0x0A])])]\<rparr>"

theorem gdb_steps_simulator_witness:
  "let s = (new_sim None)\<lparr>sim_attached := True\<rparr>; s' = fst (snd (fst (sim_data [] (''DBGSTEP'' @ [CHR 0x0A]) s)))
   in sim_pc s' = 0x002F2074 + 0xd8 + 16 \<and>
     fst (process_packet ''g'' (snd (process_packet ''s'' (stepping_gdb (stop_line ''step'' s'))))) =
       Inr (Some (concat (map hex32 (sim_regs s'))))"
proof -
  let ?s = "(new_sim None)\<lparr>sim_attached := True\<rparr>" and ?hb = "''HB|7|1|1''"
  have at: "sim_attached ?s" by simp
  from sim_step_line [OF at] obtain s' where
    s': "sim_data [] (''DBGSTEP'' @ [CHR 0x0A]) ?s = (([stop_line ''step'' s'], s', None), [])" by blast
  let ?g = "stepping_gdb (stop_line ''step'' s')"
  have mix: "[?hb, stop_line ''step'' s'] \<in> shuffles [stop_line ''step'' s'] [?hb]" by simp
  have quiet: "list_all (quiet [''dbg_stop'']) [?hb]" using quiet_hb [of "''7|1|1''" "[''dbg_stop'']"] by simp
  have arr: "arriving ?g 0 (0 + 30000) [?hb, stop_line ''step'' s']"
    by (simp add: arriving_def stepping_gdb_def timely_def stopped_gdb_def new_serial_def) presburger
  have "ready ?g" using ready_reading [of "script ?g"] by (simp add: reading_gdb_def stepping_gdb_def)
  moreover have "dbg (hub (link ?g)) = Some (new_debugger\<lparr>stopped := True\<rparr>)" by (simp add: stepping_gdb_def stopped_gdb_def)
  moreover have "length (regs (new_debugger\<lparr>stopped := True\<rparr>)) = 18" by (simp add: new_debugger_def)
  ultimately have "sim_pc s' = ahead ?s 1 \<and>
      fst (process_packet ''g'' (snd (process_packet ''s'' ?g))) = Inr (Some (concat (map hex32 (sim_regs s'))))"
    using gdb_steps_simulator [OF _ _ _ at s' mix quiet arr prod.collapse [symmetric]] by simp
  moreover have "ahead ?s 1 = 0x002F2074 + 0xd8 + 16" by code_simp
  ultimately show ?thesis using s' by (simp add: Let_def)
qed

section \<open>Two stop replies for a step\<close>

text \<open>
  A step is answered twice: when the event forwarder of the session has its turn after a step,
  the client has been sent the acknowledgement and two stop replies, the one of the step and the
  one of the forwarder, which heard the same stop event.
\<close>

theorem step_two_replies:
  assumes "ready g" and "sim_attached s" and "sim_data [] (''DBGSTEP'' @ [CHR 0x0A]) s = ((answers, s', None), [])"
    and "ls \<in> shuffles answers others" and "list_all (quiet [''dbg_stop'']) others"
    and "arriving g now (now + 30000) ls" and "has_queue fid [''dbg_stop''] [] (ebus (hub (link g)))"
    and "serve_packet ''s'' g = (r, g1)" and "forward_events fid g1 = (r', g2)"
  shows "gout g2 = gout g @ ''+'' @ make_packet ''S05'' @ make_packet ''S05''"
proof -
  let ?w = "g\<lparr>gout := gout g @ ''+''\<rparr>"
  have w: "ready ?w" "arriving ?w now (now + 30000) ls" using assms(1,6) by (simp_all add: ready_def arriving_def)
  from step_packet_run [OF w(1) assms(2-5) w(2)] obtain h where
    h: "step_packet [] ?w = (Inr ''S05'', h)" "gout h = gout ?w"
      "all_hear [''dbg_stop''] [untimed (''dbg_stop'', VDict (stop_dict ''step'' s' []))] (link ?w) (link h)" by blast
  have "make_packet ''S05'' \<noteq> []" by (simp add: make_packet_def)
  have g1: "g1 = h\<lparr>gout := gout h @ make_packet ''S05''\<rparr>"
    using assms(8) h(1) by (simp add: serve_packet_def process_packet_def answer_def write_client_def write_packet_def bind_def ret_def)
  from h(3) [unfolded all_hear_def, rule_format, of fid "[]"] assms(7) obtain q where
    q: "has_queue fid [''dbg_stop''] q (ebus (hub (link h)))" "map untimed q = [untimed (''dbg_stop'', VDict (stop_dict ''step'' s' []))]"
    by (auto simp: queue_max_def)
  then obtain e where e: "q = [e]" "fst e = ''dbg_stop''" by (auto simp: untimed_def)
  have "pending fid (link g1) = q" using pending_queue q(1) by (simp add: g1)
  then have "gout g2 = gout g1 @ make_packet ''S05''"
    using assms(9) e by (auto simp: forward_events_def Let_def)
  then show ?thesis using h(2) by (simp add: g1)
qed

definition forwarding_gdb :: "string \<Rightarrow> gdb" where
  "forwarding_gdb reply =
     (let g = stepping_gdb reply; sc = link g
      in g\<lparr>link := sc\<lparr>hub := (hub sc)\<lparr>ebus := snd (subscribe [''dbg_stop''] new_bus)\<rparr>\<rparr>\<rparr>)"

theorem step_two_replies_witness:
  "let s' = fst (snd (fst (sim_data [] (''DBGSTEP'' @ [CHR 0x0A]) ((new_sim None)\<lparr>sim_attached := True\<rparr>))))
   in gout (snd (forward_events 0 (snd (serve_packet ''s'' (forwarding_gdb (stop_line ''step'' s')))))) = ''+$S05#b8$S05#b8''"
proof -
  let ?s = "(new_sim None)\<lparr>sim_attached := True\<rparr>" and ?hb = "''HB|7|1|1''"
  have at: "sim_attached ?s" by simp
  from sim_step_line [OF at] obtain s' where
    s': "sim_data [] (''DBGSTEP'' @ [CHR 0x0A]) ?s = (([stop_line ''step'' s'], s', None), [])" by blast
  let ?g = "forwarding_gdb (stop_line ''step'' s')"
  have mix: "[?hb, stop_line ''step'' s'] \<in> shuffles [stop_line ''step'' s'] [?hb]" by simp
  have quiet: "list_all (quiet [''dbg_stop'']) [?hb]" using quiet_hb [of "''7|1|1''" "[''dbg_stop'']"] by simp
  have arr: "arriving ?g 0 (0 + 30000) [?hb, stop_line ''step'' s']"
    by (simp add: arriving_def forwarding_gdb_def stepping_gdb_def timely_def stopped_gdb_def new_serial_def Let_def) presburger
  have queue: "has_queue 0 [''dbg_stop''] [] (ebus (hub (link ?g)))"
    using has_queue_subscribe [OF bus_inv_new, of "[''dbg_stop'']" 0] by (simp add: forwarding_gdb_def Let_def subscribe_def new_bus_def)
  have "can_send (link ?g)" using stopped_gdb_simps(1) by (simp add: forwarding_gdb_def stepping_gdb_def Let_def can_send_def)
  then have "ready ?g" using queue
    by (simp add: ready_def has_queue_def hears_def forwarding_gdb_def stepping_gdb_def Let_def stopped_gdb_def new_serial_def)
  from step_two_replies [OF this at s' mix quiet arr queue prod.collapse [symmetric] prod.collapse [symmetric]]
  have "gout (snd (forward_events 0 (snd (serve_packet ''s'' ?g)))) = gout ?g @ ''+'' @ make_packet ''S05'' @ make_packet ''S05''" .
  moreover have "make_packet ''S05'' = ''$S05#b8''" by code_simp
  moreover have "gout ?g = []" by (simp add: forwarding_gdb_def stepping_gdb_def Let_def)
  ultimately show ?thesis using s' by (simp add: Let_def)
qed

section \<open>Stop messages and the server's listener\<close>

text \<open>
  The server keeps a task that listens to the debugger's events and updates the same state
  (\<open>_dbg_state_listener\<close> in \<open>server.py\<close>); every stream of events to a browser does so once more.
\<close>

definition dbg_state_listener :: "event \<Rightarrow> debugger \<Rightarrow> debugger" where
  "dbg_state_listener e d =
     (if fst e = ''dbg_stop'' then update_from_stop (as_dict (snd e)) d
      else if fst e = ''dbg_running'' then d\<lparr>stopped := False\<rparr>
      else if fst e = ''dbg_detached'' then Debugger.reset d
      else if fst e = ''dbg_state'' then update_from_state (as_dict (snd e)) d
      else d)"

definition event_stream_update :: "event \<Rightarrow> debugger \<Rightarrow> debugger" where
  "event_stream_update e d =
     (if fst e = ''dbg_stop'' then update_from_stop (as_dict (snd e)) d
      else if fst e = ''dbg_running'' then d\<lparr>stopped := False\<rparr>
      else if fst e = ''dbg_detached'' then Debugger.reset d
      else d)"

lemma set_regs_again:
  assumes "i + length vs \<le> length rs" and "\<And>k. i \<le> k \<Longrightarrow> k < i + length vs \<Longrightarrow> rs ! k = vs ! (k - i)"
  shows "set_regs i vs rs = rs"
  by (rule nth_equalityI) (use assms in \<open>auto simp: set_regs_nth\<close>)

lemma update_from_stop_again:
  assumes "length (regs d) = 18"
  shows "regs (update_from_stop m (update_from_stop m d)) = regs (update_from_stop m d)"
proof -
  let ?D = "take 8 (get_ints m ''dataRegs'')" and ?A = "take 8 (get_ints m ''addrRegs'')"
  let ?rs = "regs (update_from_stop m d)"
  have rs: "?rs = (set_regs 8 ?A (set_regs 0 ?D (regs d)))[16 := get_int m ''pc'' 0, 17 := get_int m ''sr'' 0]"
    by (simp add: update_from_stop_def Let_def)
  have "set_regs 0 ?D ?rs = ?rs" "set_regs 8 ?A ?rs = ?rs"
    using assms by (auto intro!: set_regs_again simp: rs set_regs_nth nth_list_update)
  moreover have "?rs[16 := get_int m ''pc'' 0, 17 := get_int m ''sr'' 0] = ?rs"
    using assms by (simp add: rs list_update_swap)
  ultimately show ?thesis by (simp add: update_from_stop_def [of m "update_from_stop m d"] Let_def)
qed

text \<open>
  The changed registers of a stop are lost: the connection applies a stop message to the
  debugger's state and publishes it, the server's listener applies the same message to the same
  state again, and from then on no register counts as changed, whatever the message was.
\<close>

theorem stop_applied_twice:
  assumes "dbg h = Some d" and "length (regs d) = 18" and "map_of m ''type'' = Some (VStr ''DBGSTOP'')"
    and "process_message clk m h = (h', e)"
  shows "\<exists>d'. dbg h' = Some d' \<and> regs d' = regs (update_from_stop m d) \<and> changed_regs d' = changed_regs (update_from_stop m d) \<and>
    changed_regs (dbg_state_listener (''dbg_stop'', VDict m) d') = []"
proof -
  have "process_message clk m h = process_stop m (h\<lparr>app := (app h)\<lparr>last_bridge_message_at := Some (wall clk)\<rparr>\<rparr>)"
    using assms(3) by (simp add: process_message_def with_key_def seq_def on_app_def change_def get_str_def message_branch_def)
  then have "dbg h' = Some (update_from_stop m d)"
    using assms(1,4) by (auto simp: process_stop_def seq_def on_dbg_def emit_def change_def skip_def)
  moreover have "changed_regs (dbg_state_listener (''dbg_stop'', VDict m) (update_from_stop m d)) = []"
    using update_from_stop_again [OF assms(2), of m]
    by (simp add: dbg_state_listener_def as_dict_def changed_regs_def) (simp add: update_from_stop_def Let_def)
  ultimately show ?thesis by blast
qed

theorem stop_applied_twice_witness:
  "let h = \<lparr>app = initial_state, ebus = new_bus, dbg = Some new_debugger, rx = [], tx = []\<rparr>;
       m = [(''type'', VStr ''DBGSTOP''), (''pc'', VInt 4096)];
       h' = fst (process_message \<lparr>wall = 0, mono = 0, stamp = ''''\<rparr> m h)
   in map_option changed_regs (dbg h') = Some [16] \<and>
      map_option (changed_regs \<circ> dbg_state_listener (''dbg_stop'', VDict m)) (dbg h') = Some []"
proof -
  let ?h = "\<lparr>app = initial_state, ebus = new_bus, dbg = Some new_debugger, rx = [], tx = []\<rparr>"
  let ?m = "[(''type'', VStr ''DBGSTOP''), (''pc'', VInt 4096)]"
  have "length (regs new_debugger) = 18" "map_of ?m ''type'' = Some (VStr ''DBGSTOP'')" "dbg ?h = Some new_debugger"
    by (simp_all add: new_debugger_def)
  from stop_applied_twice [OF this(3,1,2) prod.collapse [symmetric], of "\<lparr>wall = 0, mono = 0, stamp = ''''\<rparr>"] obtain d' where
    d': "dbg (fst (process_message \<lparr>wall = 0, mono = 0, stamp = ''''\<rparr> ?m ?h)) = Some d'"
      "changed_regs d' = changed_regs (update_from_stop ?m new_debugger)"
      "changed_regs (dbg_state_listener (''dbg_stop'', VDict ?m) d') = []" by blast
  moreover have "changed_regs (update_from_stop ?m new_debugger) = [16]" by code_simp
  ultimately show ?thesis by (simp add: Let_def)
qed

end
