(* ===== verification/File_Transfer.thy ===== *)
theory File_Transfer
  imports Session
begin

text \<open>
  Files over the bridge (\<open>file_transfer.py\<close>): pushing a file in chunks of WRITEFILE commands with
  retries and resumed connections, pulling one with READFILE, both checked by the CRC-32 of the
  whole file. A transfer is a task like those of the GDB server: it sends over the serial
  connection and waits for events, and what the bridge sends meanwhile is the \<open>script\<close> of the run.

  The contents of local files are arguments and results. The elapsed time, which only goes into
  the texts of the results, is the argument \<open>took\<close> (the text for an amount of bytes).
\<close>

section \<open>CRC-32\<close>

text \<open>\<open>binascii.crc32\<close>: one bit, one byte, all bytes.\<close>

definition crc_bit :: "32 word \<Rightarrow> 32 word" where
  "crc_bit c = (if bit c 0 then drop_bit 1 c XOR 0xEDB88320 else drop_bit 1 c)"

definition crc_byte :: "byte \<Rightarrow> 32 word \<Rightarrow> 32 word" where
  "crc_byte b c = (crc_bit ^^ 8) (c XOR ucast b)"

definition crc32 :: "byte list \<Rightarrow> int" where
  "crc32 bs = uint (NOT (fold crc_byte bs (NOT 0)))"

section \<open>Sending and waiting\<close>

definition CHUNK_SIZE :: nat where "CHUNK_SIZE = 1024"
definition MAX_RETRIES :: nat where "MAX_RETRIES = 6"
definition CHUNK_TIMEOUT :: int where "CHUNK_TIMEOUT = 5000"
definition MAX_RESUMES :: nat where "MAX_RESUMES = 5"

text \<open>\<open>conn.send\<close>\<close>

definition post :: "command \<Rightarrow> unit gm" where
  "post cmd g = lift_link (send cmd (link g)) g"

text \<open>\<open>asyncio.sleep\<close>: what the bridge sends meanwhile goes through the connection.\<close>

definition pause :: "unit gm" where
  "pause g =
     (let pieces = (case script g of [] \<Rightarrow> [] | w # _ \<Rightarrow> snd w)
      in (Inr (), g\<lparr>link := fold receive pieces (link g), script := tl (script g)\<rparr>))"

definition field_is :: "string \<Rightarrow> string \<Rightarrow> pyval \<Rightarrow> bool" where
  "field_is k w v = (dict_get (as_dict v) k VNone = VStr w)"

section \<open>Pushing\<close>

text \<open>What the bridge says it wrote: the first field of the message, -1 when it is no number.\<close>

definition wrote :: "pyval \<Rightarrow> int" where
  "wrote ok =
     (case py_int 10 (hd (split_char (CHR ''|'') (get_str (as_dict ok) ''message'' ''''))) of
        Inr n \<Rightarrow> n | Inl _ \<Rightarrow> -1)"

fun push_tries :: "nat \<Rightarrow> string \<Rightarrow> nat \<Rightarrow> byte list \<Rightarrow> bool gm" where
  "push_tries 0 path offset chunk = ret False"
| "push_tries (Suc n) path offset chunk =
     bind (post [(''type'', AStr ''WRITEFILE''), (''path'', AStr path), (''offset'', AInt (int offset)),
        (''hexData'', AStr (bytes_hex False chunk))]) (\<lambda>_.
     bind (await ''ok'' CHUNK_TIMEOUT (Some (field_is ''context'' ''WRITEFILE''))) (\<lambda>ok.
       if replied ok \<and> wrote (the ok) = int (length chunk) then ret True
       else bind (if replied ok then ret None else await ''err'' 300 (Some (field_is ''context'' ''WRITEFILE''))) (\<lambda>_.
         bind pause (\<lambda>_. push_tries n path offset chunk))))"

definition push_chunk :: "string \<Rightarrow> nat \<Rightarrow> byte list \<Rightarrow> bool gm" where
  "push_chunk = push_tries MAX_RETRIES"

text \<open>
  The wait for the connection to come back; \<open>outs\<close> are what the tasks of the connection make of
  it during each such wait. The result says whether it is up then.
\<close>

definition outage :: "(serial \<Rightarrow> serial) list \<Rightarrow> bool gm" where
  "outage outs g =
     (let sc = (case outs of [] \<Rightarrow> link g | f # _ \<Rightarrow> f (link g))
      in (Inr (conn_up sc), g\<lparr>link := sc\<rparr>))"

datatype push_end = Written nat | Gave_Up nat nat | Not_Reconnected nat nat

text \<open>The loop over the chunks: it ends with the number of chunks written, and the offset reached.\<close>

function push_loop :: "string \<Rightarrow> byte list \<Rightarrow> (serial \<Rightarrow> serial) list \<Rightarrow> nat \<Rightarrow> nat \<Rightarrow> nat \<Rightarrow> push_end gm" where
  "push_loop path data outs offset chunk_num resumes =
     (if length data \<le> offset then ret (Written chunk_num)
      else let chunk = take CHUNK_SIZE (drop offset data)
        in bind (push_chunk path offset chunk) (\<lambda>ok.
             if ok then push_loop path data outs (offset + length chunk) (chunk_num + 1) resumes
             else if MAX_RESUMES \<le> resumes then ret (Gave_Up chunk_num offset)
             else bind (outage outs) (\<lambda>up.
               if up then push_loop path data (tl outs) offset chunk_num (resumes + 1)
               else ret (Not_Reconnected chunk_num offset))))"
  by pat_completeness auto
termination
  by (relation "measures [\<lambda>(path, data, outs, offset, chunk_num, resumes). length data - offset,
        \<lambda>(path, data, outs, offset, chunk_num, resumes). MAX_RESUMES - resumes]")
     (auto simp: CHUNK_SIZE_def)

declare push_loop.simps [simp del]

record transfer_result =
  success :: bool
  msg_text :: string
  bytes_transferred :: int
  crc_match :: "bool option"
  files :: "string list"

definition outcome :: "bool \<Rightarrow> string \<Rightarrow> int \<Rightarrow> bool option \<Rightarrow> transfer_result" where
  "outcome ok text n crc = \<lparr>success = ok, msg_text = text, bytes_transferred = n, crc_match = crc, files = []\<rparr>"

text \<open>Whether the checksum the bridge reports is the one of the data, if it is a number.\<close>

definition crc_verdict :: "string \<Rightarrow> int \<Rightarrow> bool option" where
  "crc_verdict remote local = (case py_int 16 remote of Inr c \<Rightarrow> Some (c = local) | Inl _ \<Rightarrow> None)"

definition ask_checksum :: "string \<Rightarrow> pyval option gm" where
  "ask_checksum path =
     bind (post [(''type'', AStr ''CHECKSUM''), (''path'', AStr path)]) (\<lambda>_.
       await ''checksum'' 10000 (Some (field_is ''path'' path)))"

definition verified_text :: "bool option \<Rightarrow> string" where
  "verified_text crc = (if crc = Some True then '', CRC32 verified'' else '''')"

definition stuck_text :: "nat \<Rightarrow> nat \<Rightarrow> nat \<Rightarrow> string" where
  "stuck_text chunk_num offset all =
     ''chunk '' @ fmt_dec (int chunk_num) @ '' (offset '' @ fmt_dec (int offset) @ ''/'' @ fmt_dec (int all) @ '')''"

definition push_file :: "(int \<Rightarrow> string) \<Rightarrow> (serial \<Rightarrow> serial) list \<Rightarrow> string \<Rightarrow> byte list option \<Rightarrow> string \<Rightarrow> transfer_result gm" where
  "push_file took outs local_path content amiga_path =
     (case content of
        None \<Rightarrow> ret (outcome False (''Local file not found: '' @ local_path) 0 None)
      | Some data \<Rightarrow>
          if data = [] then ret (outcome False (''File is empty: '' @ local_path) 0 None)
          else bind (push_loop amiga_path data outs 0 0 0) (\<lambda>fin. case fin of
              Gave_Up chunk_num offset \<Rightarrow>
                ret (outcome False (''Gave up after '' @ fmt_dec (int MAX_RESUMES) @ '' resume attempts, last failure at '' @
                  stuck_text chunk_num offset (length data)) (int offset) None)
            | Not_Reconnected chunk_num offset \<Rightarrow>
                ret (outcome False (''Bridge did not reconnect within 120s; stuck at '' @
                  stuck_text chunk_num offset (length data)) (int offset) None)
            | Written chunk_num \<Rightarrow>
                bind (ask_checksum amiga_path) (\<lambda>m.
                  let remote = get_str (as_dict (the m)) ''crc32'' '''';
                      crc = (if replied m then crc_verdict remote (crc32 data) else None);
                      n = int (length data)
                  in ret (if crc = Some False
                    then outcome False (''CRC mismatch: local='' @ fmt_hex False 8 (crc32 data) @ '' remote='' @ remote) n crc
                    else outcome True (''Transferred '' @ fmt_dec n @ '' bytes in '' @ took n @ '', '' @
                      fmt_dec (int chunk_num) @ '' chunks'' @ verified_text crc) n crc))))"

section \<open>Pulling\<close>

text \<open>What a FILE message holds: None for a line that lost a character.\<close>

definition file_bytes :: "pyval \<Rightarrow> byte list option" where
  "file_bytes m =
     (let hex_data = get_str (as_dict m) ''hexData'' ''''
      in if hex_data = [] then Some [] else case bytes_fromhex hex_data of Inr bs \<Rightarrow> Some bs | Inl _ \<Rightarrow> None)"

fun read_tries :: "nat \<Rightarrow> string \<Rightarrow> int \<Rightarrow> int \<Rightarrow> byte list option gm" where
  "read_tries 0 path offset req_size = ret None"
| "read_tries (Suc n) path offset req_size =
     bind (post [(''type'', AStr ''READFILE''), (''path'', AStr path), (''offset'', AInt offset), (''size'', AInt req_size)]) (\<lambda>_.
     bind (await ''file'' CHUNK_TIMEOUT (Some (field_is ''path'' path))) (\<lambda>m.
       case (if replied m then file_bytes (the m) else None) of
         Some cb \<Rightarrow> if int (length cb) = req_size then ret (Some cb) else bind pause (\<lambda>_. read_tries n path offset req_size)
       | None \<Rightarrow> bind pause (\<lambda>_. read_tries n path offset req_size)))"

lemma bind_cong [fundef_cong]:
  "m = m' \<Longrightarrow> (\<And>x g g'. m' g = (Inr x, g') \<Longrightarrow> f x = f' x) \<Longrightarrow> bind m f = bind m' f'"
  by (fastforce simp: bind_def fun_eq_iff split: prod.split sum.split)

lemma bind_Inr: "bind m f g = (Inr y, g') \<longleftrightarrow> (\<exists>x g1. m g = (Inr x, g1) \<and> f x g1 = (Inr y, g'))"
  by (auto simp: bind_def split: prod.splits sum.splits)

lemma ret_Inr: "ret x g = (Inr y, g') \<longleftrightarrow> y = x \<and> g' = g"
  by (auto simp: ret_def)

lemma read_tries_length: "read_tries n path offset req_size g = (Inr (Some cb), g') \<Longrightarrow> int (length cb) = req_size"
  by (induction n arbitrary: g) (auto simp: bind_Inr ret_Inr split: option.split_asm if_split_asm)

text \<open>The loop over the spans: what was collected with the number of chunks, or the chunk that failed.\<close>

datatype read_end = Collected "byte list" nat | Failed nat int

function read_loop :: "string \<Rightarrow> int \<Rightarrow> int \<Rightarrow> nat \<Rightarrow> byte list \<Rightarrow> read_end gm" where
  "read_loop path remote_size offset chunk_num collected =
     (if remote_size \<le> offset then ret (Collected collected chunk_num)
      else bind (read_tries MAX_RETRIES path offset (min (int CHUNK_SIZE) (remote_size - offset))) (\<lambda>r.
        case r of
          None \<Rightarrow> ret (Failed chunk_num offset)
        | Some cb \<Rightarrow> read_loop path remote_size (offset + int (length cb)) (chunk_num + 1) (collected @ cb)))"
  by pat_completeness auto
termination
  by (relation "measure (\<lambda>(path, remote_size, offset, chunk_num, collected). nat (remote_size - offset))")
     (auto simp: CHUNK_SIZE_def dest!: read_tries_length)

declare read_loop.simps [simp del]

text \<open>Up to three downloads, until the checksum is the reported one or there is none to compare.\<close>

fun read_file :: "nat \<Rightarrow> string \<Rightarrow> int \<Rightarrow> string \<Rightarrow> (read_end \<times> bool option) gm" where
  "read_file n path remote_size remote =
     bind (read_loop path remote_size 0 0 []) (\<lambda>fin. case fin of
         Failed chunk_num offset \<Rightarrow> ret (fin, None)
       | Collected bs chunk_num \<Rightarrow>
           let crc = (if remote = [] then None else crc_verdict remote (crc32 bs))
           in if crc = Some False \<and> 1 < n then read_file (n - 1) path remote_size remote else ret (fin, crc))"

declare read_file.simps [simp del]

definition pull_file :: "(int \<Rightarrow> string) \<Rightarrow> string \<Rightarrow> string \<Rightarrow> (transfer_result \<times> byte list option) gm" where
  "pull_file took amiga_path local_path =
     bind (ask_checksum amiga_path) (\<lambda>m.
       if \<not> replied m then
         bind (await ''err'' 500 (Some (field_is ''context'' ''CHECKSUM''))) (\<lambda>e.
           let text = (if replied e then get_str (as_dict (the e)) ''message'' ''timeout'' else ''No response'')
           in ret (outcome False (''Cannot read remote file: '' @ text) 0 None, None))
       else let remote_size = get_int (as_dict (the m)) ''size'' 0; remote = get_str (as_dict (the m)) ''crc32'' ''''
         in if remote_size = 0 then
              ret (outcome False (''Remote file is empty or not found: '' @ amiga_path) 0 None, None)
            else bind (read_file 3 amiga_path remote_size remote) (\<lambda>(fin, crc).
              case fin of
                Failed chunk_num offset \<Rightarrow>
                  ret (outcome False (''Failed reading chunk '' @ fmt_dec (int chunk_num) @ '' (offset '' @ fmt_dec offset @ ''/'' @
                    fmt_dec remote_size @ '') after '' @ fmt_dec (int MAX_RETRIES) @ '' retries'') offset None, None)
              | Collected bs chunk_num \<Rightarrow>
                  let n = int (length bs)
                  in if crc = Some False then
                       ret (outcome False (''CRC mismatch after retries: local='' @ fmt_hex False 8 (crc32 bs) @ '' remote='' @ remote)
                         n crc, None)
                     else ret ((outcome True (''Downloaded '' @ fmt_dec n @ '' bytes in '' @ took n @ '', '' @
                         fmt_dec (int chunk_num) @ '' chunks'' @ verified_text crc) n crc)\<lparr>files := [local_path]\<rparr>, Some bs)))"

section \<open>Several files\<close>

text \<open>\<open>Path(p).name\<close>: the last component of a path.\<close>

definition path_name :: "string \<Rightarrow> string" where
  "path_name p =
     (case rev (filter (\<lambda>c. c \<noteq> [] \<and> c \<noteq> ''.'') (split_char (CHR ''/'') p)) of [] \<Rightarrow> [] | c # _ \<Rightarrow> c)"

text \<open>
  The single transfers one after the other: the bytes transferred, what was transferred, what
  failed, and the further result of each (what a pull writes to its local file). The number of
  a transfer selects its timing.
\<close>

fun transfer_all :: "(nat \<Rightarrow> 'a \<Rightarrow> (transfer_result \<times> 'b) gm) \<Rightarrow> ('a \<Rightarrow> string) \<Rightarrow> ('a \<Rightarrow> string) \<Rightarrow>
    nat \<Rightarrow> 'a list \<Rightarrow> (int \<times> string list \<times> string list \<times> 'b list) gm" where
  "transfer_all one shown label i [] = ret (0, [], [], [])"
| "transfer_all one shown label i (x # xs) =
     bind (one i x) (\<lambda>(r, w). bind (transfer_all one shown label (i + 1) xs) (\<lambda>(n, ok, bad, ws).
       ret (if success r then (bytes_transferred r + n, shown x # ok, bad, w # ws)
            else (n, ok, (label x @ '': '' @ msg_text r) # bad, w # ws))))"

text \<open>The report on all of them: the paths a failed one lists are those of the first pairs.\<close>

definition report_all :: "string \<Rightarrow> string \<Rightarrow> string list \<Rightarrow> string list \<Rightarrow> int \<Rightarrow> string list \<Rightarrow> string list \<Rightarrow> transfer_result" where
  "report_all verb secs firsts seconds n transferred errors =
     (if errors \<noteq> [] then
        (outcome False (verb @ '' '' @ fmt_dec (int (length transferred)) @ ''/'' @ fmt_dec (int (length firsts)) @
           '' files, errors: '' @ py_join ''; '' errors) n None)\<lparr>files := take (length transferred) firsts\<rparr>
      else (outcome True (verb @ '' '' @ fmt_dec (int (length transferred)) @ '' file(s), '' @ fmt_dec n @
           '' bytes in '' @ secs) n None)\<lparr>files := seconds\<rparr>)"

text \<open>A pair to push is a local path with its content, and the path on the Amiga.\<close>

definition push_files :: "string \<Rightarrow> (nat \<Rightarrow> int \<Rightarrow> string) \<Rightarrow> (nat \<Rightarrow> (serial \<Rightarrow> serial) list) \<Rightarrow>
    ((string \<times> byte list option) \<times> string) list \<Rightarrow> transfer_result gm" where
  "push_files secs took outs file_pairs =
     bind (transfer_all
        (\<lambda>i ((local_path, content), amiga_path). bind (push_file (took i) (outs i) local_path content amiga_path) (\<lambda>r. ret (r, ())))
        (\<lambda>((local_path, _), amiga_path). path_name local_path @ '' -> '' @ amiga_path)
        (\<lambda>((local_path, _), _). path_name local_path) 0 file_pairs) (\<lambda>(n, transferred, errors, _).
       ret (report_all ''Transferred'' secs (map (fst \<circ> fst) file_pairs) (map snd file_pairs) n transferred errors))"

definition pull_files :: "string \<Rightarrow> (nat \<Rightarrow> int \<Rightarrow> string) \<Rightarrow> (string \<times> string) list \<Rightarrow>
    (transfer_result \<times> byte list option list) gm" where
  "pull_files secs took file_pairs =
     bind (transfer_all (\<lambda>i (amiga_path, local_path). pull_file (took i) amiga_path local_path)
        (\<lambda>(amiga_path, local_path). amiga_path @ '' -> '' @ path_name local_path) (\<lambda>(amiga_path, _). amiga_path)
        0 file_pairs) (\<lambda>(n, transferred, errors, ws).
       ret (report_all ''Downloaded'' secs (map fst file_pairs) (map snd file_pairs) n transferred errors, ws))"

end
