(* ===== verification/Transfers.thy ===== *)
theory Transfers
  imports File_Transfer
begin

text \<open>
  What file transfers do: the commands a push sends write exactly the local file, however often a
  chunk is repeated; a checksum tells any single wrong byte; with a bridge that answers, a push
  and a pull succeed; a lost connection ends a push.
\<close>

section \<open>The checksum\<close>

lemma xor_cancel: "(x :: 'a::len word) XOR y = z XOR y \<longleftrightarrow> x = z"
proof
  assume "x XOR y = z XOR y"
  then have "(x XOR y) XOR y = (z XOR y) XOR y" by simp
  then show "x = z" by (simp add: xor.assoc)
qed simp

lemma crc_bit_inj: "crc_bit c = crc_bit d \<Longrightarrow> c = d"
proof -
  assume eq: "crc_bit c = crc_bit d"
  have top: "bit (crc_bit x) 31 = bit x 0" for x :: "32 word"
    using bit_imp_le_length [of x 32] by (auto simp: crc_bit_def bit_simps)
  from eq top have low: "bit c 0 = bit d 0" by metis
  then have "drop_bit 1 c = drop_bit 1 d"
    using eq by (simp add: crc_bit_def xor_cancel split: if_splits)
  then have "bit c (Suc n) = bit d (Suc n)" for n
    by (metis bit_drop_bit_eq comp_apply plus_1_eq_Suc)
  with low have "bit c n = bit d n" for n by (cases n) auto
  then show "c = d" by (simp add: bit_eq_iff)
qed

lemma crc_byte_inj:
  "crc_byte b c = crc_byte b d \<longleftrightarrow> c = d" "crc_byte a c = crc_byte b c \<longleftrightarrow> a = b"
proof -
  have "inj (crc_bit ^^ 8)" using crc_bit_inj by (intro inj_fn injI)
  then have steps: "(crc_bit ^^ 8) x = (crc_bit ^^ 8) y \<longleftrightarrow> x = y" for x y by (rule inj_eq)
  show "crc_byte b c = crc_byte b d \<longleftrightarrow> c = d"
    unfolding crc_byte_def steps by (rule xor_cancel)
  have "uint (ucast x :: 32 word) = uint x" for x :: byte by (simp add: uint_up_ucast is_up)
  then have "ucast a = (ucast b :: 32 word) \<longleftrightarrow> a = b" by (simp add: word_uint_eq_iff)
  then show "crc_byte a c = crc_byte b c \<longleftrightarrow> a = b"
    unfolding crc_byte_def steps by (simp only: xor.commute [of c] xor_cancel)
qed

lemma fold_crc_inj: "fold crc_byte bs c = fold crc_byte bs d \<longleftrightarrow> c = d"
  by (induction bs arbitrary: c d) (simp_all add: crc_byte_inj)

lemma crc32_one_byte:
  assumes "i < length bs"
  shows "crc32 (bs[i := b]) = crc32 bs \<longleftrightarrow> bs ! i = b"
proof -
  have "bs = take i bs @ bs ! i # drop (Suc i) bs" using assms by (simp add: id_take_nth_drop)
  moreover have "bs[i := b] = take i bs @ b # drop (Suc i) bs" using assms by (simp add: upd_conv_take_nth_drop)
  moreover have "crc32 (l @ x # r) = crc32 (l @ y # r) \<longleftrightarrow> x = y" for l r x y
    by (simp add: crc32_def fold_crc_inj crc_byte_inj(2) flip: word_uint_eq_iff)
  ultimately show ?thesis by metis
qed

lemma crc32_range: "0 \<le> crc32 bs" "crc32 bs < 2 ^ 32"
  by (simp_all add: crc32_def uint_lt2p [where 'a = 32, simplified])

section \<open>What reaches the wire\<close>

lemma receive_wire [simp]: "wire (receive c sc) = wire sc"
proof -
  have h: "handle_data clk data sc = (sc', e) \<Longrightarrow> wire sc' = wire sc" for clk data sc' e
    using handle_data_link [of clk data sc sc' e] by (auto simp: same_link_def)
  have "wire (read_loop_end x) = wire x" for x by (simp add: read_loop_end_def conn_simps)
  then show ?thesis
    using h by (auto simp: receive_def pty_read_def pty_read_error_def split: prod.splits option.splits)
qed

lemma drop_queue_wire: "wire (drop_queue sid sc) = wire sc"
  by (simp add: drop_queue_def)

lemma arrivals_wire: "arrivals sid cs sc = (got, sc') \<Longrightarrow> wire sc' = wire sc"
  by (induction cs arbitrary: sc got) (auto simp: Let_def split: prod.splits)

lemma await_wire: "await ev timeout p g = (r, g') \<Longrightarrow> wire (link g') = wire (link g)"
  by (auto simp: await_def listen_def bind_def ret_def Let_def subscribe_def dest!: arrivals_wire split: prod.splits list.splits)

lemma pause_wire: "pause g = (r, g') \<Longrightarrow> wire (link g') = wire (link g)"
proof -
  have "wire (fold receive cs sc) = wire sc" for cs sc by (induction cs arbitrary: sc) simp_all
  then show "pause g = (r, g') \<Longrightarrow> wire (link g') = wire (link g)" by (auto simp: pause_def)
qed

lemma post_wire:
  assumes "post cmd g = (Inr u, g')" and "format_command cmd = Inr line"
  shows "wire (link g') = wire (link g) @ unlines [line]"
  using assms by (auto simp: post_def lift_link_def send_def send_raw_def Let_def split: if_splits)

section \<open>Pushing writes the file\<close>

definition write_line :: "string \<Rightarrow> nat \<times> byte list \<Rightarrow> string" where
  "write_line path w = ''WRITEFILE|'' @ path @ ''|'' @ fmt_dec (int (fst w)) @ ''|'' @ bytes_hex False (snd w)"

lemma format_write:
  "format_command [(''type'', AStr ''WRITEFILE''), (''path'', AStr path), (''offset'', AInt (int off)),
     (''hexData'', AStr (bytes_hex False d))] = Inr (write_line path (off, d))"
  by (simp add: format_command_def format_table_def format_table1_def Protocol_Format.fields_def req_def write_line_def)

text \<open>
  What the bridge does for such a line (\<open>fs_write_file\<close>): at offset 0 the file is created or
  truncated, else the bytes are put at the offset.
\<close>

definition write_at :: "nat \<times> byte list \<Rightarrow> byte list \<Rightarrow> byte list" where
  "write_at w f = (case w of (off, d) \<Rightarrow> if off = 0 then d else take off f @ d @ drop (off + length d) f)"

definition apply_writes :: "(nat \<times> byte list) list \<Rightarrow> byte list \<Rightarrow> byte list" where
  "apply_writes ws f = fold write_at ws f"

lemma push_tries_wire:
  assumes "push_tries n path off d g = (Inr ok, g')"
  shows "\<exists>k \<le> n. wire (link g') = wire (link g) @ unlines (replicate k (write_line path (off, d))) \<and> (ok \<longrightarrow> 0 < k)"
  using assms
proof (induction n arbitrary: g)
  case 0
  then show ?case by (simp add: ret_Inr)
next
  case (Suc n)
  from Suc.prems obtain u g1 m g2 where
    s: "post [(''type'', AStr ''WRITEFILE''), (''path'', AStr path), (''offset'', AInt (int off)), (''hexData'', AStr (bytes_hex False d))] g = (Inr u, g1)"
      "await ''ok'' CHUNK_TIMEOUT (Some (field_is ''context'' ''WRITEFILE'')) g1 = (Inr m, g2)"
    and rest: "(if replied m \<and> wrote (the m) = int (length d) then ret True
       else bind (if replied m then ret None else await ''err'' 300 (Some (field_is ''context'' ''WRITEFILE''))) (\<lambda>_.
         bind pause (\<lambda>_. push_tries n path off d))) g2 = (Inr ok, g')"
    by (auto simp: bind_Inr)
  note w = post_wire [OF s(1) format_write] await_wire [OF s(2)]
  show ?case
  proof (cases "replied m \<and> wrote (the m) = int (length d)")
    case True
    with rest have "g' = g2" by (simp add: ret_Inr)
    then show ?thesis using w by (intro exI [of _ 1]) simp
  next
    case False
    with rest obtain e g3 p g4 where
      "(if replied m then ret None else await ''err'' 300 (Some (field_is ''context'' ''WRITEFILE''))) g2 = (Inr e, g3)"
      "pause g3 = (Inr p, g4)" and go: "push_tries n path off d g4 = (Inr ok, g')"
      by (auto simp: bind_Inr)
    then have "wire (link g4) = wire (link g2)"
      using await_wire pause_wire by (auto simp: ret_Inr split: if_splits)
    moreover from Suc.IH [OF go] obtain k where
      "k \<le> n" "wire (link g') = wire (link g4) @ unlines (replicate k (write_line path (off, d)))" by blast
    ultimately show ?thesis using w by (intro exI [of _ "Suc k"]) simp
  qed
qed

lemma apply_writes_simps [simp]:
  "apply_writes [] f = f" "apply_writes (w # ws) f = apply_writes ws (write_at w f)"
  "apply_writes (ws @ ws') f = apply_writes ws' (apply_writes ws f)"
  by (simp_all add: apply_writes_def)

text \<open>The file on the Amiga holds at least the first \<open>off\<close> bytes, and nothing but data.\<close>

definition reached :: "byte list \<Rightarrow> nat \<Rightarrow> byte list \<Rightarrow> bool" where
  "reached data off f \<longleftrightarrow> off = 0 \<or> (\<exists>j. off \<le> j \<and> j \<le> off + CHUNK_SIZE \<and> f = take j data)"

lemma write_chunk:
  assumes "reached data off f" and "off < length data" and "d = take CHUNK_SIZE (drop off data)"
  shows "write_at (off, d) f = take (off + length d) data" and "reached data off (write_at (off, d) f)"
    and "reached data (off + length d) (write_at (off, d) f)"
proof -
  show w: "write_at (off, d) f = take (off + length d) data"
  proof (cases "off = 0")
    case False
    then obtain j where j: "off \<le> j" "j \<le> off + CHUNK_SIZE" "f = take j data"
      using assms(1) by (auto simp: reached_def)
    then have "take off f = take off data" "drop (off + length d) f = []"
      using assms(3) by (auto simp: min_def)
    then show ?thesis using False assms(3) by (simp add: write_at_def take_add min_def)
  qed (simp add: write_at_def assms(3) min_def)
  have "length d \<le> CHUNK_SIZE" using assms(3) by simp
  then show "reached data off (write_at (off, d) f)" "reached data (off + length d) (write_at (off, d) f)"
    unfolding w reached_def by (blast intro: le_add1 add_left_mono order_refl)+
qed

lemma write_chunk_often:
  assumes "reached data off f" and "off < length data" and "d = take CHUNK_SIZE (drop off data)"
  shows "reached data off (apply_writes (replicate k (off, d)) f)"
    and "0 < k \<Longrightarrow> reached data (off + length d) (apply_writes (replicate k (off, d)) f)"
proof -
  have "reached data off (apply_writes (replicate k (off, d)) f) \<and>
    (0 < k \<longrightarrow> reached data (off + length d) (apply_writes (replicate k (off, d)) f))"
    using assms(1)
  proof (induction k arbitrary: f)
    case (Suc k)
    from write_chunk [OF Suc.prems assms(2,3)] Suc.IH [of "write_at (off, d) f"] show ?case
      by (cases k) auto
  qed simp
  then show "reached data off (apply_writes (replicate k (off, d)) f)"
    "0 < k \<Longrightarrow> reached data (off + length d) (apply_writes (replicate k (off, d)) f)" by blast+
qed

lemma outage_wire:
  "outage outs g = (r, g') \<Longrightarrow> \<forall>f \<in> set outs. \<forall>sc. wire (f sc) = wire sc \<Longrightarrow> wire (link g') = wire (link g)"
  by (auto simp: outage_def Let_def split: list.splits)

definition chunks_left :: "byte list \<Rightarrow> nat \<Rightarrow> nat" where
  "chunks_left data off = (length data - off + CHUNK_SIZE - 1) div CHUNK_SIZE"

lemma chunks_left_next:
  assumes "off < length data"
  shows "chunks_left data off = Suc (chunks_left data (off + length (take CHUNK_SIZE (drop off data))))"
proof (cases "length data - off \<le> CHUNK_SIZE")
  case True
  then show ?thesis using assms by (simp add: chunks_left_def CHUNK_SIZE_def min_def)
next
  case False
  then have "length data - off + CHUNK_SIZE - 1 = (length data - (off + CHUNK_SIZE) + CHUNK_SIZE - 1) + CHUNK_SIZE"
    by simp
  with False show ?thesis by (simp add: chunks_left_def CHUNK_SIZE_def min_def)
qed

text \<open>What the loop sends: writes that complete the file, and not too many.\<close>

definition completes :: "byte list \<Rightarrow> nat \<Rightarrow> nat \<Rightarrow> (nat \<times> byte list) list \<Rightarrow> bool" where
  "completes data off resumes ws \<longleftrightarrow>
     (\<forall>f. reached data off f \<longrightarrow> apply_writes ws f = data) \<and>
     length ws \<le> MAX_RETRIES * (chunks_left data off + (MAX_RESUMES - resumes))"

lemma completes_next:
  assumes "completes data off' resumes' ws" and "off < length data" and "d = take CHUNK_SIZE (drop off data)" and "k \<le> MAX_RETRIES"
    and "(off' = off + length d \<and> 0 < k \<and> resumes' = resumes) \<or> (off' = off \<and> resumes' = resumes + 1 \<and> resumes < MAX_RESUMES)"
  shows "completes data off resumes (replicate k (off, d) @ ws)"
proof -
  have "reached data off' (apply_writes (replicate k (off, d)) f)" if "reached data off f" for f
    using write_chunk_often [OF that assms(2,3), of k] assms(5) by auto
  moreover have "chunks_left data off' + (MAX_RESUMES - resumes') + 1 = chunks_left data off + (MAX_RESUMES - resumes)"
    using assms(5) chunks_left_next [OF assms(2)] assms(3) by auto
  then have "MAX_RETRIES * (chunks_left data off + (MAX_RESUMES - resumes)) =
      MAX_RETRIES * (chunks_left data off' + (MAX_RESUMES - resumes')) + MAX_RETRIES" by (metis add_mult_distrib2 mult.right_neutral)
  ultimately show ?thesis using assms(1,4) by (simp add: completes_def)
qed

lemma push_loop_wire:
  assumes "push_loop path data outs off chunk_num resumes g = (Inr (Written m), g')"
    and "\<forall>f \<in> set outs. \<forall>sc. wire (f sc) = wire sc" and "data \<noteq> []"
  shows "\<exists>ws. wire (link g') = wire (link g) @ unlines (map (write_line path) ws) \<and> completes data off resumes ws"
  using assms
proof (induction path data outs off chunk_num resumes arbitrary: g rule: push_loop.induct)
  case (1 path data outs off chunk_num resumes)
  let ?d = "take CHUNK_SIZE (drop off data)"
  show ?case
  proof (cases "length data \<le> off")
    case True
    then have "g' = g" using 1(3) by (subst (asm) push_loop.simps) (simp add: ret_Inr)
    with True 1(5) show ?thesis by (intro exI [of _ "[]"]) (auto simp: completes_def reached_def)
  next
    case False
    with 1(3) obtain ok g1 where
      t: "push_chunk path off ?d g = (Inr ok, g1)" and
      rest: "(if ok then push_loop path data outs (off + length ?d) (chunk_num + 1) resumes
        else if MAX_RESUMES \<le> resumes then ret (Gave_Up chunk_num off)
        else bind (outage outs) (\<lambda>up. if up then push_loop path data (tl outs) off chunk_num (resumes + 1)
               else ret (Not_Reconnected chunk_num off))) g1 = (Inr (Written m), g')"
      by (subst (asm) push_loop.simps) (auto simp: bind_Inr Let_def)
    from push_tries_wire [OF t [unfolded push_chunk_def]] obtain k where
      k: "k \<le> MAX_RETRIES" "wire (link g1) = wire (link g) @ unlines (map (write_line path) (replicate k (off, ?d)))" "ok \<longrightarrow> 0 < k"
      by auto
    show ?thesis
    proof (cases ok)
      case True
      with 1(1) [OF False refl True _ 1(4,5), of g1] rest obtain ws where
        "wire (link g') = wire (link g1) @ unlines (map (write_line path) ws)" "completes data (off + length ?d) resumes ws" by auto
      with k False True completes_next [of data "off + length ?d" resumes ws off ?d k resumes] show ?thesis
        by (intro exI [of _ "replicate k (off, ?d) @ ws"]) simp
    next
      case no: False
      with rest obtain up g2 where
        o: "outage outs g1 = (Inr up, g2)" "\<not> MAX_RESUMES \<le> resumes"
        and go: "push_loop path data (tl outs) off chunk_num (resumes + 1) g2 = (Inr (Written m), g')" and up
        by (auto simp: bind_Inr ret_Inr split: if_splits)
      have "\<forall>f \<in> set (tl outs). \<forall>sc. wire (f sc) = wire sc" using 1(4) by (cases outs) auto
      from 1(2) [OF False refl no o(2) \<open>up\<close> go this 1(5)] obtain ws where
        "wire (link g') = wire (link g2) @ unlines (map (write_line path) ws)" "completes data off (resumes + 1) ws" by blast
      with k False o outage_wire [OF o(1) 1(4)] completes_next [of data off "resumes + 1" ws off ?d k resumes] show ?thesis
        by (intro exI [of _ "replicate k (off, ?d) @ ws"]) simp
    qed
  qed
qed

lemma format_checksum: "format_command [(''type'', AStr ''CHECKSUM''), (''path'', AStr path)] = Inr (''CHECKSUM|'' @ path)"
  by (simp add: format_command_def format_table_def format_table1_def format_table2_def format_table3_def format_table4_def Protocol_Format.fields_def req_def)

lemma ask_checksum_wire:
  "ask_checksum path g = (Inr m, g') \<Longrightarrow> wire (link g') = wire (link g) @ unlines [''CHECKSUM|'' @ path]"
  using post_wire [OF _ format_checksum] await_wire by (fastforce simp: ask_checksum_def bind_Inr)

text \<open>
  C20. A push that reports success has written the file: whatever was lost, repeated or resumed on
  the way, the WRITEFILE commands it has sent, carried out in order on any old file, leave
  exactly the local file; a CHECKSUM command follows them; there are at most six commands per
  kilobyte begun and six per resumed connection. Every chunk, the later ones too, is a WRITEFILE with
  its offset, as \<open>_push_chunk\<close> says; the documentation of \<open>push_file\<close>, of the deployer and of the
  targets still speaks of APPEND for the later chunks, which is never sent.
\<close>

theorem push_writes_file:
  assumes "\<forall>f \<in> set outs. \<forall>sc. wire (f sc) = wire sc"
    and "push_file took outs local_path content path g = (Inr r, g')" and "success r"
  shows "\<exists>data ws. content = Some data \<and>
    wire (link g') = wire (link g) @ unlines (map (write_line path) ws @ [''CHECKSUM|'' @ path]) \<and>
    (\<forall>f. apply_writes ws f = data) \<and> length ws \<le> 6 * ((length data + 1023) div 1024 + 5) \<and>
    bytes_transferred r = int (length data) \<and> crc_match r \<noteq> Some False"
proof -
  from assms(2,3) obtain data where data: "content = Some data" "data \<noteq> []"
    by (auto simp: push_file_def ret_Inr outcome_def split: option.splits if_splits)
  then obtain fin g1 where loop: "push_loop path data outs 0 0 0 g = (Inr fin, g1)"
    using assms(2) by (auto simp: push_file_def bind_Inr)
  with data assms(2,3) obtain m where fin: "fin = Written m"
    by (cases fin) (auto simp: push_file_def bind_Inr ret_Inr outcome_def)
  with data assms(2) loop obtain c g2 crc where
    c: "ask_checksum path g1 = (Inr c, g2)" "g' = g2"
    and r: "bytes_transferred r = int (length data)" "success r \<longrightarrow> crc_match r \<noteq> Some False"
    by (auto simp: push_file_def bind_Inr ret_Inr Let_def outcome_def)
  from push_loop_wire [OF loop [unfolded fin] assms(1) data(2)] obtain ws where
    ws: "wire (link g1) = wire (link g) @ unlines (map (write_line path) ws)" "completes data 0 0 ws" by blast
  then have "\<forall>f. apply_writes ws f = data" "length ws \<le> 6 * ((length data + 1023) div 1024 + 5)"
    by (simp_all add: completes_def reached_def chunks_left_def MAX_RETRIES_def MAX_RESUMES_def CHUNK_SIZE_def add.commute)
  with ws(1) ask_checksum_wire [OF c(1)] c(2) r assms(3) data(1) show ?thesis by auto
qed

section \<open>Pulling\<close>

lemma read_loop_collects:
  assumes "read_loop path total_size off chunk_num got g = (Inr (Collected bs m), g')" and "off = int (length got)"
    and "off \<le> total_size"
  shows "int (length bs) = total_size"
  using assms
proof (induction path total_size off chunk_num got arbitrary: g rule: read_loop.induct)
  case (1 path total_size off chunk_num got)
  show ?case
  proof (cases "total_size \<le> off")
    case True
    then show ?thesis using 1(2-4) by (subst (asm) read_loop.simps) (simp add: ret_Inr)
  next
    case False
    with 1(2) obtain cb g1 where
      t: "read_tries MAX_RETRIES path off (min (int CHUNK_SIZE) (total_size - off)) g = (Inr (Some cb), g1)"
      and go: "read_loop path total_size (off + int (length cb)) (chunk_num + 1) (got @ cb) g1 = (Inr (Collected bs m), g')"
      by (subst (asm) read_loop.simps) (auto simp: bind_Inr ret_Inr split: option.split_asm)
    from 1(1) [OF False t refl go] 1(3) read_tries_length [OF t] show ?thesis by simp
  qed
qed

lemma read_file_crc:
  assumes "read_file n path total_size remote g = (Inr (Collected bs m, crc), g')"
  shows "\<exists>g1. read_loop path total_size 0 0 [] g1 = (Inr (Collected bs m), g')"
    and "crc = (if remote = [] then None else crc_verdict remote (crc32 bs))"
proof -
  have "(\<exists>g1. read_loop path total_size 0 0 [] g1 = (Inr (Collected bs m), g')) \<and>
    crc = (if remote = [] then None else crc_verdict remote (crc32 bs))"
    using assms
  proof (induction n arbitrary: g rule: less_induct)
    case (less n)
    from less.prems obtain fin g1 where l: "read_loop path total_size 0 0 [] g = (Inr fin, g1)"
      by (subst (asm) read_file.simps) (auto simp: bind_Inr)
    show ?case
    proof (cases fin)
      case (Collected bs' m')
      let ?crc = "if remote = [] then None else crc_verdict remote (crc32 bs')"
      from less.prems l have rest: "(if ?crc = Some False \<and> 1 < n then read_file (n - 1) path total_size remote
          else ret (fin, ?crc)) g1 = (Inr (Collected bs m, crc), g')"
        by (subst (asm) read_file.simps) (auto simp: bind_def Collected Let_def split: if_splits)
      show ?thesis
      proof (cases "?crc = Some False \<and> 1 < n")
        case True
        then have "n - 1 < n" by simp
        from less.IH [OF this] rest True show ?thesis by simp
      next
        case False
        with rest l show ?thesis by (auto simp: ret_Inr Collected)
      qed
    next
      case (Failed k off)
      with less.prems l show ?thesis by (subst (asm) read_file.simps) (simp add: bind_def ret_def)
    qed
  qed
  then show "\<exists>g1. read_loop path total_size 0 0 [] g1 = (Inr (Collected bs m), g')"
    "crc = (if remote = [] then None else crc_verdict remote (crc32 bs))" by blast+
qed

lemma pull_file_ends:
  assumes "ask_checksum path g = (Inr (Some m), g1)" and "truthy m"
    and "pull_file took path local_path g = (Inr (r, written), g')"
  shows "success r \<longleftrightarrow> written \<noteq> None" and "written = Some bs \<Longrightarrow> \<exists>k crc. crc \<noteq> Some False \<and>
    read_file 3 path (get_int (as_dict m) ''size'' 0) (get_str (as_dict m) ''crc32'' '''') g1 = (Inr (Collected bs k, crc), g')"
proof -
  let ?n = "get_int (as_dict m) ''size'' 0" and ?remote = "get_str (as_dict m) ''crc32'' ''''"
  have "success r = (written \<noteq> None) \<and> (\<forall>bs. written = Some bs \<longrightarrow> (\<exists>k crc. crc \<noteq> Some False \<and>
    read_file 3 path ?n ?remote g1 = (Inr (Collected bs k, crc), g')))"
  proof (cases "?n = 0")
    case True
    with assms show ?thesis by (simp add: pull_file_def bind_def replied_def Let_def ret_def outcome_def) auto
  next
    case False
    with assms obtain fin crc g2 where f: "read_file 3 path ?n ?remote g1 = (Inr (fin, crc), g2)"
      by (auto simp: pull_file_def bind_Inr replied_def Let_def)
    with False assms show ?thesis
      by (cases fin) (auto simp: pull_file_def bind_def replied_def Let_def ret_def outcome_def split: if_splits)
  qed
  then show "success r \<longleftrightarrow> written \<noteq> None" and "written = Some bs \<Longrightarrow> \<exists>k crc. crc \<noteq> Some False \<and>
    read_file 3 path ?n ?remote g1 = (Inr (Collected bs k, crc), g')" by blast+
qed

text \<open>
  C21. A pull never accepts a damaged byte: when the bridge reports the size and checksum of its file
  and the pull succeeds, what is written locally has that size and checksum, so it is not the
  file with any one byte changed; a pull that fails writes nothing.
\<close>

theorem pull_detects_corruption:
  assumes "ask_checksum path g = (Inr (Some m), g1)" and "truthy m"
    and "get_str (as_dict m) ''crc32'' '''' = fmt_hex False 8 (crc32 d)" and "get_int (as_dict m) ''size'' 0 = int (length d)"
    and "pull_file took path local_path g = (Inr (r, written), g')"
  shows "(\<not> success r \<longrightarrow> written = None) \<and>
    (success r \<longrightarrow> (\<exists>bs. written = Some bs \<and> length bs = length d \<and> crc32 bs = crc32 d \<and>
       (\<forall>i b. i < length d \<longrightarrow> bs = d[i := b] \<longrightarrow> bs = d)))"
proof (cases "success r")
  case True
  with pull_file_ends(1) [OF assms(1,2,5)] obtain bs where bs: "written = Some bs" by blast
  from pull_file_ends(2) [OF assms(1,2,5) this] obtain k crc where
    crc: "crc \<noteq> Some False" and f: "read_file 3 path (int (length d)) (fmt_hex False 8 (crc32 d)) g1 = (Inr (Collected bs k, crc), g')"
    unfolding assms(3,4) by blast
  have "crc = Some (crc32 d = crc32 bs)" using read_file_crc(2) [OF f] by (simp add: crc_verdict_def)
  with crc have eq: "crc32 bs = crc32 d" by simp
  moreover have "length bs = length d" using read_file_crc(1) [OF f] read_loop_collects by fastforce
  moreover have "bs = d" if "i < length d" "bs = d[i := b]" for i b
    using eq that crc32_one_byte [OF that(1), of b] by (metis list_update_id)
  ultimately show ?thesis using True bs by auto
qed (use pull_file_ends(1) [OF assms(1,2,5)] in simp)

section \<open>A bridge that answers\<close>

text \<open>A line of plain fields whose message only publishes itself.\<close>

lemma fields_give:
  assumes fs: "fs \<noteq> []" "list_all plain fs" "hd fs \<noteq> []"
    and branch: "\<And>now line. map_of (parse_table now line) (hd fs) = Some branch" "branch fs = Inr (Some m)"
    and m: "map_of m ''type'' = Some (VStr t)" "list_all (\<lambda>(k, v). k \<noteq> ''timestamp'') m"
    and msg: "\<And>clk. message_branch clk m t = emit ev (VDict m)" and "ev \<in> set evs"
  shows "gives evs (py_join ''|'' fs) ([(ev, VDict m)], \<lambda>d. d)"
proof (rule gives_intro [where pub = "\<lambda>_. [(ev, VDict m)]"])
  show "one_line (py_join ''|'' fs)" by (rule field_line(2) [OF fs(1,2)])
  show "\<exists>h'. process_line clk (py_join ''|'' fs) h = (h', None) \<and> ebus h' = publish_all [(ev, VDict m)] (ebus h) \<and>
      dbg h' = map_option (\<lambda>d. d) (dbg h)" for clk h
    unfolding process_fields [OF fs branch]
    by (simp add: process_message_def with_key_def seq_def get_str_def m(1) msg emit_def on_app_def change_def option.map_ident)
  have "filter (\<lambda>(k, v). k \<noteq> ''timestamp'') m = m" using m(2) by (induction m) auto
  then show "map untimed (filter (\<lambda>e. fst e \<in> set evs) [(ev, VDict m)]) = [(ev, VDict m)]" for clk :: clock
    using assms(9) by (simp add: untimed_def as_dict_def)
qed

definition ok_line :: "int \<Rightarrow> string" where
  "ok_line n = ''OK|WRITEFILE|'' @ fmt_dec n"

definition checksum_line :: "string \<Rightarrow> byte list \<Rightarrow> string" where
  "checksum_line path d = ''CHECKSUM|'' @ path @ ''|'' @ fmt_hex False 8 (crc32 d) @ ''|'' @ fmt_dec (int (length d))"

definition file_line :: "string \<Rightarrow> nat \<times> byte list \<Rightarrow> string" where
  "file_line path w = ''FILE|'' @ path @ ''|'' @ fmt_dec (int (fst w)) @ ''|'' @ fmt_dec (int (length (snd w))) @ ''|'' @
     bytes_hex False (snd w)"

lemma plain_bytes [simp]: "plain (bytes_hex u bs)"
proof -
  have "plain (byte_hex u b)" for b
    using fmt_hex_byte [of u b] plain_simps(1) by metis
  then show ?thesis by (induction bs) (simp_all add: bytes_hex_def)
qed

lemma ok_line_gives:
  "gives [''ok''] (ok_line n)
     ([(''ok'', VDict [(''type'', VStr ''OK''), (''context'', VStr ''WRITEFILE''), (''message'', VStr (fmt_dec n))])], \<lambda>d. d)"
proof -
  have "ok_line n = py_join ''|'' [''OK'', ''WRITEFILE'', fmt_dec n]" by (simp add: ok_line_def)
  then show ?thesis
    by (simp only:) (rule fields_give [where branch = parse_OK and t = "''OK''"],
      simp_all add: parse_table_def parse_OK_def fld_def rest_def field_char_def message_branch_def plain_events_def)
qed

lemma checksum_line_gives:
  assumes "plain path"
  shows "gives [''checksum''] (checksum_line path d)
     ([(''checksum'', VDict [(''type'', VStr ''CHECKSUM''), (''path'', VStr path), (''crc32'', VStr (fmt_hex False 8 (crc32 d))),
        (''size'', VInt (int (length d)))])], \<lambda>d. d)"
proof -
  have "checksum_line path d = py_join ''|'' [''CHECKSUM'', path, fmt_hex False 8 (crc32 d), fmt_dec (int (length d))]"
    by (simp add: checksum_line_def)
  then show ?thesis
    by (simp only:) (rule fields_give [where branch = parse_CHECKSUM and t = "''CHECKSUM''"],
      use assms in \<open>simp_all add: parse_table_def parse_CHECKSUM_def fld_def ifld_def field_char_def message_branch_def plain_events_def\<close>)
qed

lemma file_line_gives:
  assumes "plain path" and "''file'' \<in> set evs"
  shows "gives evs (file_line path (off, d))
     ([(''file'', VDict [(''type'', VStr ''FILE''), (''path'', VStr path), (''size'', VInt (int off)),
        (''offset'', VInt (int (length d))), (''hexData'', VStr (bytes_hex False d))])], \<lambda>d. d)"
proof -
  have "file_line path (off, d) = py_join ''|'' [''FILE'', path, fmt_dec (int off), fmt_dec (int (length d)), bytes_hex False d]"
    by (simp add: file_line_def)
  then show ?thesis
    by (simp only:) (rule fields_give [where branch = parse_FILE and t = "''FILE''"],
      use assms in \<open>simp_all add: parse_table_def parse_FILE_def fld_def ifld_def field_char_def message_branch_def plain_events_def\<close>)
qed

text \<open>
  \<open>replies\<close>: during a wait of \<open>timeout\<close> for event \<open>ev\<close>, line \<open>l\<close> arrives in time, in any chunks and
  among other lines that do not publish the event.
\<close>

definition replies :: "int \<Rightarrow> string \<Rightarrow> string \<Rightarrow> wait_script \<Rightarrow> bool" where
  "replies timeout ev l w \<longleftrightarrow>
     (\<exists>ls others t0. concat (map snd (snd w)) = unlines ls \<and> ls \<in> shuffles [l] others \<and> list_all (quiet [ev]) others \<and>
        list_all (\<lambda>c. snd c \<noteq> [] \<and> mono (fst c) < fst w + timeout) (snd w) \<and>
        steady t0 (map (\<lambda>c. (mono (fst c), snd c)) (snd w)))"

lemma await_reply:
  assumes "ready g" and "script g = w # later" and "replies timeout ev l w" and "gives [ev] l ([(ev, VDict m)], \<lambda>d. d)"
    and "0 < timeout" and "ev \<noteq> ''*''" and p: "\<And>v. untimed (ev, v) = (ev, VDict m) \<Longrightarrow> p v"
  shows "\<exists>v g'. await ev timeout (Some p) g = (Inr (Some v), g') \<and> untimed (ev, v) = (ev, VDict m) \<and>
    ready g' \<and> script g' = later \<and> wire (link g') = wire (link g)"
proof -
  obtain now cs where w: "w = (now, cs)" by (cases w)
  with assms(3) obtain ls others t0 where
    r: "concat (map snd cs) = unlines ls" "ls \<in> shuffles [l] others" "list_all (quiet [ev]) others"
      "list_all (\<lambda>c. snd c \<noteq> [] \<and> mono (fst c) < now + timeout) cs" "steady t0 (map (\<lambda>c. (mono (fst c), snd c)) cs)"
    by (auto simp: replies_def)
  have "list_all2 (gives [ev]) [l] [([(ev, VDict m)], \<lambda>d. d)]" using assms(4) by simp
  from effects_quiet [OF this r(3,2)] obtain fs where
    fs: "list_all2 (gives [ev]) ls fs" "fst (effects fs) = [(ev, VDict m)]" by auto
  have "arriving g now (now + timeout) ls"
    using assms(1,2) r by (auto simp: arriving_def w timely_def ready_def list_all_iff)
  from listen_lines [OF fs(1) _ _ assms(1) this] assms(6) fs(2) obtain got g' where
    got: "listen [ev] g = (Inr (now, got), g')" "map (untimed \<circ> snd) got = [(ev, VDict m)]"
      "list_all (\<lambda>x. fst x < now + timeout) got" "waited (snd (effects fs)) (link g) (link g')" "ready g'" "script g' = later"
    using assms(2) by (auto simp: queue_max_def)
  from got(2) obtain t e where e: "got = [(t, e)]" "untimed e = (ev, VDict m)" by (cases got) auto
  then have "fst e = ev" by (metis fst_conv fst_untimed)
  then obtain v where v: "e = (ev, v)" by (cases e) auto
  have "await ev timeout (Some p) g = (Inr (Some v), g')"
    using got(1,3) e v p assms(5)
    by (simp add: await_def bind_def ret_def wait_for_first)
  then show ?thesis using got(4-6) e v by (auto simp: waited_def)
qed

lemma untimed_replied:
  assumes "untimed (ev, v) = (ev, VDict m)" and "m \<noteq> []" and "list_all (\<lambda>(k, v). k \<noteq> ''timestamp'') m"
  shows "replied (Some v)" and "truthy v" and "k \<noteq> ''timestamp'' \<Longrightarrow> map_of (as_dict v) k = map_of m k"
proof -
  have "as_dict v \<noteq> []" using assms(1,2) by (auto simp: untimed_def)
  then show "truthy v" by (cases v) (auto simp: as_dict_def)
  then show "replied (Some v)" by (simp add: replied_def)
  show "map_of (as_dict v) k = map_of m k" if "k \<noteq> ''timestamp''"
    using untimed_get [OF assms(1) that] by simp
qed

lemma post_sent: "can_send (link g) \<Longrightarrow> format_command cmd = Inr line \<Longrightarrow> post cmd g = (Inr (), sent line g)"
  by (auto simp: post_def lift_link_def send_def send_raw_def can_send_def sent_def Let_def split: if_splits)

text \<open>The chunks of a file with their offsets.\<close>

function spans :: "byte list \<Rightarrow> nat \<Rightarrow> (nat \<times> byte list) list" where
  "spans data off =
     (if length data \<le> off then []
      else let d = take CHUNK_SIZE (drop off data) in (off, d) # spans data (off + length d))"
  by pat_completeness auto
termination by (relation "measure (\<lambda>(data, off). length data - off)") (auto simp: CHUNK_SIZE_def)

declare spans.simps [simp del]

lemma spans_end [simp]: "length data \<le> off \<Longrightarrow> spans data off = []"
  by (simp add: spans.simps)

lemma spans_next:
  "off < length data \<Longrightarrow> spans data off = (off, take CHUNK_SIZE (drop off data)) # spans data (off + length (take CHUNK_SIZE (drop off data)))"
  by (subst spans.simps) (simp add: Let_def)

lemma push_tries_ok:
  assumes "ready g" and "script g = w # later" and "replies CHUNK_TIMEOUT ''ok'' (ok_line (int (length d))) w"
  shows "\<exists>g'. push_tries (Suc n) path off d g = (Inr True, g') \<and> ready g' \<and> script g' = later \<and>
    wire (link g') = wire (link g) @ unlines [write_line path (off, d)]"
proof -
  let ?g = "sent (write_line path (off, d)) g"
  from await_reply [OF _ _ assms(3) ok_line_gives, of ?g later "field_is ''context'' ''WRITEFILE''"] assms(1,2) obtain v g' where
    a: "await ''ok'' CHUNK_TIMEOUT (Some (field_is ''context'' ''WRITEFILE'')) ?g = (Inr (Some v), g')"
      "ready g'" "script g' = later" "wire (link g') = wire (link ?g)"
    and v: "untimed (''ok'', v) = (''ok'', VDict [(''type'', VStr ''OK''), (''context'', VStr ''WRITEFILE''),
      (''message'', VStr (fmt_dec (int (length d))))])"
    using untimed_get by (fastforce simp: field_is_def dict_get_def CHUNK_TIMEOUT_def)
  from untimed_replied [OF v] have m: "replied (Some v)" "get_str (as_dict v) ''message'' '''' = fmt_dec (int (length d))"
    by (simp_all add: get_str_def)
  have "CHR ''|'' \<notin> set (fmt_dec (int (length d)))"
    using fmt_dec_alnum [of "CHR ''|''" "int (length d)"] by (auto simp: alnum_char_def)
  then have "wrote v = int (length d)" by (simp add: wrote_def m(2) split_char_no_sep)
  then show ?thesis
    using a m(1) post_sent [OF _ format_write, of g path off d] assms(1)
    by (auto simp: bind_def ret_def ready_def)
qed

lemma push_loop_ok:
  assumes "ready g" and "script g = ws @ later"
    and "list_all2 (\<lambda>(off, d) w. replies CHUNK_TIMEOUT ''ok'' (ok_line (int (length d))) w) (spans data off) ws"
  shows "\<exists>g'. push_loop path data outs off k res g = (Inr (Written (k + length (spans data off))), g') \<and> ready g' \<and>
    script g' = later \<and> wire (link g') = wire (link g) @ unlines (map (write_line path) (spans data off))"
  using assms
proof (induction data off arbitrary: g ws k rule: spans.induct)
  case (1 data off)
  show ?case
  proof (cases "length data \<le> off")
    case True
    with 1(3,4) show ?thesis using 1(2) by (subst push_loop.simps) (simp add: ret_def)
  next
    case False
    let ?d = "take CHUNK_SIZE (drop off data)"
    from False have sp: "spans data off = (off, ?d) # spans data (off + length ?d)" by (intro spans_next) simp
    with 1(4) obtain w ws' where ws: "ws = w # ws'" "replies CHUNK_TIMEOUT ''ok'' (ok_line (int (length ?d))) w"
      "list_all2 (\<lambda>(off, d) w. replies CHUNK_TIMEOUT ''ok'' (ok_line (int (length d))) w) (spans data (off + length ?d)) ws'"
      by (auto simp: list_all2_Cons1)
    have "script g = w # ws' @ later" using 1(3) ws(1) by simp
    from push_tries_ok [OF 1(2) this ws(2), of "MAX_RETRIES - 1" path off] obtain g1 where
      g1: "push_chunk path off ?d g = (Inr True, g1)" "ready g1" "script g1 = ws' @ later"
        "wire (link g1) = wire (link g) @ unlines [write_line path (off, ?d)]"
      by (auto simp: push_chunk_def MAX_RETRIES_def)
    from 1(1) [OF False refl g1(2,3) ws(3), of "k + 1"] obtain g' where
      "push_loop path data outs (off + length ?d) (k + 1) res g1 = (Inr (Written (k + 1 + length (spans data (off + length ?d)))), g')"
      "ready g'" "script g' = later"
      "wire (link g') = wire (link g1) @ unlines (map (write_line path) (spans data (off + length ?d)))" by blast
    with False g1(1,4) sp show ?thesis
      by (subst push_loop.simps) (simp add: bind_def Let_def)
  qed
qed

lemma ask_checksum_ok:
  assumes "ready g" and "script g = w # later" and "replies 10000 ''checksum'' (checksum_line path d) w" and "plain path"
  shows "\<exists>v g'. ask_checksum path g = (Inr (Some v), g') \<and> ready g' \<and> script g' = later \<and>
    wire (link g') = wire (link g) @ unlines [''CHECKSUM|'' @ path] \<and> replied (Some v) \<and> truthy v \<and>
    get_str (as_dict v) ''crc32'' '''' = fmt_hex False 8 (crc32 d) \<and> get_int (as_dict v) ''size'' 0 = int (length d)"
proof -
  let ?g = "sent (''CHECKSUM|'' @ path) g"
  from await_reply [OF _ _ assms(3) checksum_line_gives [OF assms(4)], of ?g later "field_is ''path'' path"] assms(1,2)
  obtain v g' where
    a: "await ''checksum'' 10000 (Some (field_is ''path'' path)) ?g = (Inr (Some v), g')"
      "ready g'" "script g' = later" "wire (link g') = wire (link ?g)"
    and v: "untimed (''checksum'', v) = (''checksum'', VDict [(''type'', VStr ''CHECKSUM''), (''path'', VStr path),
      (''crc32'', VStr (fmt_hex False 8 (crc32 d))), (''size'', VInt (int (length d)))])"
    using untimed_get by (fastforce simp: field_is_def dict_get_def)
  from untimed_replied [OF v] show ?thesis
    using a post_sent [OF _ format_checksum, of g path] assms(1)
    by (auto simp: ask_checksum_def bind_def ready_def get_str_def get_int_def)
qed

text \<open>
  C22. A push succeeds when the bridge answers: if each chunk is acknowledged with its length within
  five seconds and the checksum is reported within ten, in any chunks of bytes and with any
  other lines in between, every chunk is sent once, in order, as a WRITEFILE with its offset (not,
  as the documentation of \<open>push_file\<close> has it, an APPEND after the first), and the result is a
  success with a verified checksum.
\<close>

theorem push_succeeds:
  assumes "ready g" and "data \<noteq> []" and "plain path" and "script g = ws @ w # later"
    and "list_all2 (\<lambda>(off, d) w. replies CHUNK_TIMEOUT ''ok'' (ok_line (int (length d))) w) (spans data 0) ws"
    and "replies 10000 ''checksum'' (checksum_line path data) w"
  shows "\<exists>r g'. push_file took outs local_path (Some data) path g = (Inr r, g') \<and> success r \<and> crc_match r = Some True \<and>
    wire (link g') = wire (link g) @ unlines (map (write_line path) (spans data 0) @ [''CHECKSUM|'' @ path])"
proof -
  from push_loop_ok [OF assms(1,4,5), where path = path and outs = outs and k = 0 and res = 0] obtain g1 where
    l: "push_loop path data outs 0 0 0 g = (Inr (Written (length (spans data 0))), g1)" "ready g1" "script g1 = w # later"
      "wire (link g1) = wire (link g) @ unlines (map (write_line path) (spans data 0))" by auto
  from ask_checksum_ok [OF l(2,3) assms(6,3)] obtain v g' where
    v: "ask_checksum path g1 = (Inr (Some v), g')" "wire (link g') = wire (link g1) @ unlines [''CHECKSUM|'' @ path]"
      "replied (Some v)" "get_str (as_dict v) ''crc32'' '''' = fmt_hex False 8 (crc32 data)" by blast
  then show ?thesis
    using l(1,4) assms(2)
    by (simp add: push_file_def bind_def ret_def Let_def crc_verdict_def outcome_def)
qed

definition read_line :: "string \<Rightarrow> int \<Rightarrow> int \<Rightarrow> string" where
  "read_line path off n = ''READFILE|'' @ path @ ''|'' @ fmt_dec off @ ''|'' @ fmt_dec n"

lemma format_read:
  "format_command [(''type'', AStr ''READFILE''), (''path'', AStr path), (''offset'', AInt off), (''size'', AInt n)] =
     Inr (read_line path off n)"
  by (simp add: format_command_def format_table_def format_table1_def Protocol_Format.fields_def req_def read_line_def)

lemma read_tries_ok:
  assumes "ready g" and "script g = w # later" and "replies CHUNK_TIMEOUT ''file'' (file_line path (off, d)) w"
    and "plain path" and "d \<noteq> []"
  shows "\<exists>g'. read_tries (Suc n) path (int off) (int (length d)) g = (Inr (Some d), g') \<and> ready g' \<and> script g' = later \<and>
    wire (link g') = wire (link g) @ unlines [read_line path (int off) (int (length d))]"
proof -
  let ?g = "sent (read_line path (int off) (int (length d))) g"
  from await_reply [OF _ _ assms(3) file_line_gives [OF assms(4) list.set_intros(1)], of ?g later "field_is ''path'' path"] assms(1,2) obtain v g' where
    a: "await ''file'' CHUNK_TIMEOUT (Some (field_is ''path'' path)) ?g = (Inr (Some v), g')"
      "ready g'" "script g' = later" "wire (link g') = wire (link ?g)"
    and v: "untimed (''file'', v) = (''file'', VDict [(''type'', VStr ''FILE''), (''path'', VStr path), (''size'', VInt (int off)),
      (''offset'', VInt (int (length d))), (''hexData'', VStr (bytes_hex False d))])"
    using untimed_get by (fastforce simp: field_is_def dict_get_def CHUNK_TIMEOUT_def)
  from untimed_replied [OF v] have m: "replied (Some v)" "get_str (as_dict v) ''hexData'' '''' = bytes_hex False d"
    by (simp_all add: get_str_def)
  moreover have "bytes_hex False d \<noteq> []" using assms(5) by (cases d) (auto simp: bytes_hex_def byte_hex_def)
  ultimately have "file_bytes v = Some d" by (simp add: file_bytes_def)
  then show ?thesis
    using a m(1) post_sent [OF _ format_read, of g path "int off" "int (length d)"] assms(1)
    by (auto simp: bind_def ret_def ready_def)
qed

lemma read_loop_ok:
  assumes "ready g" and "script g = ws @ later" and "plain path"
    and "list_all2 (\<lambda>s w. replies CHUNK_TIMEOUT ''file'' (file_line path s) w) (spans data off) ws"
    and "off \<le> length data"
  shows "\<exists>m g'. read_loop path (int (length data)) (int off) k (take off data) g = (Inr (Collected data m), g') \<and> ready g' \<and>
    script g' = later \<and> wire (link g') = wire (link g) @ unlines (map (\<lambda>(o1, d). read_line path (int o1) (int (length d))) (spans data off))"
  using assms
proof (induction data off arbitrary: g ws k rule: spans.induct)
  case (1 data off)
  show ?case
  proof (cases "length data \<le> off")
    case True
    with 1(3-6) show ?thesis using 1(2) by (subst read_loop.simps) (simp add: ret_def)
  next
    case False
    let ?d = "take CHUNK_SIZE (drop off data)"
    from False have sp: "spans data off = (off, ?d) # spans data (off + length ?d)" by (intro spans_next) simp
    with 1(5) obtain w ws' where ws: "ws = w # ws'" "replies CHUNK_TIMEOUT ''file'' (file_line path (off, ?d)) w"
      "list_all2 (\<lambda>s w. replies CHUNK_TIMEOUT ''file'' (file_line path s) w) (spans data (off + length ?d)) ws'"
      by (auto simp: list_all2_Cons1)
    have "script g = w # ws' @ later" using 1(3) ws(1) by simp
    moreover have "?d \<noteq> []" using False by (simp add: CHUNK_SIZE_def)
    ultimately obtain g1 where g1: "read_tries MAX_RETRIES path (int off) (int (length ?d)) g = (Inr (Some ?d), g1)" "ready g1"
      "script g1 = ws' @ later" "wire (link g1) = wire (link g) @ unlines [read_line path (int off) (int (length ?d))]"
      using read_tries_ok [OF 1(2) _ ws(2) 1(4), of "ws' @ later" "MAX_RETRIES - 1"] by (auto simp: MAX_RETRIES_def)
    have le: "off + length ?d \<le> length data" using False by simp
    have len: "min (int CHUNK_SIZE) (int (length data) - int off) = int (length ?d)" using False by simp
    have acc: "take off data @ ?d = take (off + length ?d) data" by (simp add: take_add min_def)
    from 1(1) [OF False refl g1(2,3) 1(4) ws(3) le, of "k + 1"] obtain m g' where
      "read_loop path (int (length data)) (int (off + length ?d)) (k + 1) (take (off + length ?d) data) g1 = (Inr (Collected data m), g')"
      "ready g'" "script g' = later"
      "wire (link g') = wire (link g1) @ unlines (map (\<lambda>(o1, d). read_line path (int o1) (int (length d))) (spans data (off + length ?d)))" by blast
    moreover have "read_loop path (int (length data)) (int off) k (take off data) g =
        read_loop path (int (length data)) (int (off + length ?d)) (k + 1) (take (off + length ?d) data) g1"
      using False g1(1) unfolding acc [symmetric] by (subst read_loop.simps) (simp only: len, simp add: bind_def)
    ultimately show ?thesis using g1(4) sp by simp
  qed
qed

text \<open>
  C23. What is pulled is what is there: if the bridge reports the size and checksum of its file and
  answers each READFILE with the bytes of that span, in any chunks and among any other lines,
  the pull writes exactly that file and reports a verified checksum.
\<close>

theorem pull_returns_file:
  assumes "ready g" and "data \<noteq> []" and "plain path" and "script g = w # ws @ later"
    and "replies 10000 ''checksum'' (checksum_line path data) w"
    and "list_all2 (\<lambda>s w. replies CHUNK_TIMEOUT ''file'' (file_line path s) w) (spans data 0) ws"
  shows "\<exists>r g'. pull_file took path local_path g = (Inr (r, Some data), g') \<and> success r \<and> crc_match r = Some True \<and>
    wire (link g') = wire (link g) @
      unlines ((''CHECKSUM|'' @ path) # map (\<lambda>(off, d). read_line path (int off) (int (length d))) (spans data 0))"
proof -
  from ask_checksum_ok [OF assms(1,4,5,3)] obtain v g1 where
    v: "ask_checksum path g = (Inr (Some v), g1)" "ready g1" "script g1 = ws @ later"
      "wire (link g1) = wire (link g) @ unlines [''CHECKSUM|'' @ path]" "replied (Some v)"
      "get_str (as_dict v) ''crc32'' '''' = fmt_hex False 8 (crc32 data)" "get_int (as_dict v) ''size'' 0 = int (length data)" by blast
  from read_loop_ok [OF v(2,3) assms(3,6), where k = 0] obtain m g' where
    l: "read_loop path (int (length data)) 0 0 [] g1 = (Inr (Collected data m), g')"
      "wire (link g') = wire (link g1) @ unlines (map (\<lambda>(o1, d). read_line path (int o1) (int (length d))) (spans data 0))" by auto
  have "read_file 3 path (int (length data)) (fmt_hex False 8 (crc32 data)) g1 = (Inr (Collected data m, Some True), g')"
    by (subst read_file.simps) (simp add: bind_def l(1) Let_def crc_verdict_def ret_def)
  then show ?thesis
    using v l(2) assms(2) by (simp add: pull_file_def bind_def ret_def Let_def outcome_def)
qed

section \<open>Failures\<close>

text \<open>
  A push does not survive a lost connection: if the connection is down after the first failed
  attempt at a chunk, the next attempt raises the connection's RuntimeError out of the push,
  whatever the reconnect loop would have made of it; the wait for a reconnection is not reached.
\<close>

theorem push_not_resumed:
  assumes "can_send (link g)" and "data \<noteq> []"
    and "await ''ok'' CHUNK_TIMEOUT (Some (field_is ''context'' ''WRITEFILE'')) (sent (write_line path (0, take CHUNK_SIZE data)) g) = (Inr None, g1)"
    and "await ''err'' 300 (Some (field_is ''context'' ''WRITEFILE'')) g1 = (Inr m, g2)"
    and "pause g2 = (Inr (), g3)" and "\<not> conn_up (link g3)"
  shows "push_file took outs local_path (Some data) path g = (Inl (RuntimeError ''Not connected to Amiga serial port''), g3)"
proof -
  let ?d = "take CHUNK_SIZE data"
  note first = post_sent [OF assms(1) format_write, of path 0 ?d]
  have "push_tries (Suc n) path 0 ?d g3 = (Inl (RuntimeError ''Not connected to Amiga serial port''), g3)" for n
    using assms(6) by (simp add: bind_def post_def lift_link_def send_def)
  then have "push_tries (Suc (Suc n)) path 0 ?d g = (Inl (RuntimeError ''Not connected to Amiga serial port''), g3)" for n
    using first assms(3-5) by (simp add: bind_def replied_def ret_def del: push_tries.simps(2)) (simp add: bind_def replied_def ret_def)
  moreover have "MAX_RETRIES = Suc (Suc 4)" by (simp add: MAX_RETRIES_def)
  ultimately have "push_chunk path 0 ?d g = (Inl (RuntimeError ''Not connected to Amiga serial port''), g3)"
    unfolding push_chunk_def by metis
  then have "push_loop path data outs 0 0 0 g = (Inl (RuntimeError ''Not connected to Amiga serial port''), g3)"
    using assms(2) by (subst push_loop.simps) (simp add: bind_def Let_def)
  then show ?thesis using assms(2) by (simp add: push_file_def bind_def)
qed

text \<open>
  The report on several files names the wrong ones: when the first of two files is missing and
  the second is pushed, the failed result lists the path of the first as transferred.
\<close>

theorem push_files_misreports:
  assumes "push_file (took 1) (outs 1) l2 content p2 g = (Inr r, g')" and "success r"
  shows "\<exists>all. push_files secs took outs [((l1, None), p1), ((l2, content), p2)] g = (Inr all, g') \<and>
    \<not> success all \<and> files all = [l1] \<and> bytes_transferred all = bytes_transferred r"
proof -
  have "push_file (took 0) (outs 0) l1 None p1 g = (Inr (outcome False (''Local file not found: '' @ l1) 0 None), g)"
    by (simp add: push_file_def ret_def)
  then show ?thesis
    using assms by (simp add: push_files_def bind_def ret_def report_all_def outcome_def)
qed

section \<open>Sample transfers\<close>

definition line_now :: "string \<Rightarrow> wait_script" where
  "line_now l = (0, [(\<lparr>wall = 0, mono = 0, stamp = ''''\<rparr>, l @ [CHR 0x0A])])"

lemma replies_now: "0 < timeout \<Longrightarrow> replies timeout ev l (line_now l)"
  unfolding replies_def line_now_def by (intro exI [of _ "[l]"] exI [of _ "[]"] exI [of _ 0]) simp

definition sample :: "byte list" where "sample = [1, 2, 3]"

lemma sample_simps: "sample \<noteq> []" "length sample = 3" "spans sample 0 = [(0, sample)]"
  by (simp_all add: sample_def spans_next CHUNK_SIZE_def)

definition push_gdb :: gdb where
  "push_gdb = reading_gdb\<lparr>script := [line_now (ok_line 3), line_now (checksum_line ''RAM:x'' sample)]\<rparr>"

definition pull_gdb :: gdb where
  "pull_gdb = reading_gdb\<lparr>script := [line_now (checksum_line ''RAM:x'' sample), line_now (file_line ''RAM:x'' (0, sample))]\<rparr>"

lemma sample_ready: "ready push_gdb" "ready pull_gdb" "plain ''RAM:x''"
  by (simp_all add: push_gdb_def pull_gdb_def ready_reading field_char_def)

lemma push_script:
  "script push_gdb = [line_now (ok_line 3)] @ line_now (checksum_line ''RAM:x'' sample) # []"
  "list_all2 (\<lambda>(off, d) w. replies CHUNK_TIMEOUT ''ok'' (ok_line (int (length d))) w) (spans sample 0) [line_now (ok_line 3)]"
  by (simp_all add: push_gdb_def sample_simps replies_now CHUNK_TIMEOUT_def)

lemma pull_script:
  "script pull_gdb = line_now (checksum_line ''RAM:x'' sample) # [line_now (file_line ''RAM:x'' (0, sample))] @ []"
  "list_all2 (\<lambda>s w. replies CHUNK_TIMEOUT ''file'' (file_line ''RAM:x'' s) w) (spans sample 0) [line_now (file_line ''RAM:x'' (0, sample))]"
  by (simp_all add: pull_gdb_def sample_simps replies_now CHUNK_TIMEOUT_def)

lemma checksum_now: "replies 10000 ''checksum'' (checksum_line ''RAM:x'' sample) (line_now (checksum_line ''RAM:x'' sample))"
  by (simp add: replies_now)

theorem push_succeeds_witness:
  "\<exists>r g'. push_file (\<lambda>_. ''0.1s'') [] ''x'' (Some sample) ''RAM:x'' push_gdb = (Inr r, g') \<and> success r"
  using push_succeeds [OF sample_ready(1) sample_simps(1) sample_ready(3) push_script checksum_now,
    where took = "\<lambda>_. ''0.1s''" and outs = "[]" and local_path = "''x''"] by blast

lemma push_sample:
  "\<exists>r g'. push_file (\<lambda>_. ''0.1s'') [] ''x'' (Some sample) ''RAM:x'' push_gdb = (Inr r, g') \<and> success r"
proof -
  from push_loop_ok [OF sample_ready(1) push_script, where path = "''RAM:x''" and outs = "[]" and k = 0 and res = 0]
  obtain g1 n where l: "push_loop ''RAM:x'' sample [] 0 0 0 push_gdb = (Inr (Written n), g1)" "ready g1"
      "script g1 = line_now (checksum_line ''RAM:x'' sample) # []" by blast
  from ask_checksum_ok [OF l(2,3) checksum_now sample_ready(3)] obtain v g' where
    "ask_checksum ''RAM:x'' g1 = (Inr (Some v), g')" "replied (Some v)" "get_str (as_dict v) ''crc32'' '''' = fmt_hex False 8 (crc32 sample)" by blast
  with l(1) show ?thesis
    by (simp add: push_file_def bind_def ret_def Let_def crc_verdict_def outcome_def sample_simps(1))
qed

theorem push_writes_file_witness:
  "\<exists>ws. \<forall>f. apply_writes ws f = sample"
proof -
  from push_sample obtain r g' where
    "push_file (\<lambda>_. ''0.1s'') [] ''x'' (Some sample) ''RAM:x'' push_gdb = (Inr r, g')" "success r" by blast
  from push_writes_file [OF _ this] show ?thesis by auto
qed

theorem push_files_misreports_witness:
  "\<exists>all g'. push_files ''1.0s'' (\<lambda>_ _. ''0.1s'') (\<lambda>_. []) [((''y'', None), ''RAM:y''), ((''x'', Some sample), ''RAM:x'')] push_gdb = (Inr all, g') \<and>
     files all = [''y'']"
proof -
  from push_sample obtain r g' where
    "push_file (\<lambda>_. ''0.1s'') [] ''x'' (Some sample) ''RAM:x'' push_gdb = (Inr r, g')" "success r" by blast
  from push_files_misreports [of "\<lambda>_ _. ''0.1s''" "\<lambda>_. []", OF this, of "''1.0s''" "''y''" "''RAM:y''"] show ?thesis by blast
qed

theorem pull_returns_file_witness:
  "\<exists>r g'. pull_file (\<lambda>_. ''0.1s'') ''RAM:x'' ''x'' pull_gdb = (Inr (r, Some sample), g')"
  using pull_returns_file [OF sample_ready(2) sample_simps(1) sample_ready(3) pull_script(1) checksum_now pull_script(2),
    where took = "\<lambda>_. ''0.1s''" and local_path = "''x''"] by blast

lemma pull_sample:
  "\<exists>v g1 r g'. ask_checksum ''RAM:x'' pull_gdb = (Inr (Some v), g1) \<and> truthy v \<and>
     get_str (as_dict v) ''crc32'' '''' = fmt_hex False 8 (crc32 sample) \<and> get_int (as_dict v) ''size'' 0 = int (length sample) \<and>
     pull_file (\<lambda>_. ''0.1s'') ''RAM:x'' ''x'' pull_gdb = (Inr (r, Some sample), g') \<and> success r"
proof -
  from ask_checksum_ok [OF sample_ready(2) pull_script(1) checksum_now sample_ready(3)] obtain v g1 where
    v: "ask_checksum ''RAM:x'' pull_gdb = (Inr (Some v), g1)" "ready g1" "truthy v" "replied (Some v)"
      "script g1 = [line_now (file_line ''RAM:x'' (0, sample))] @ []"
      "get_str (as_dict v) ''crc32'' '''' = fmt_hex False 8 (crc32 sample)" "get_int (as_dict v) ''size'' 0 = int (length sample)" by blast
  from read_loop_ok [OF v(2,5) sample_ready(3) pull_script(2), where k = 0] obtain m g' where
    "read_loop ''RAM:x'' (int (length sample)) 0 0 [] g1 = (Inr (Collected sample m), g')" by auto
  then have "read_file 3 ''RAM:x'' (int (length sample)) (fmt_hex False 8 (crc32 sample)) g1 = (Inr (Collected sample m, Some True), g')"
    by (subst read_file.simps) (simp add: bind_def Let_def crc_verdict_def ret_def)
  then have "\<exists>r. pull_file (\<lambda>_. ''0.1s'') ''RAM:x'' ''x'' pull_gdb = (Inr (r, Some sample), g') \<and> success r"
    using v(1,4,6,7) sample_simps(1,2) by (simp add: pull_file_def bind_def ret_def Let_def outcome_def)
  with v(1,3,6,7) show ?thesis by blast
qed

theorem pull_detects_corruption_witness:
  "\<exists>r bs g'. pull_file (\<lambda>_. ''0.1s'') ''RAM:x'' ''x'' pull_gdb = (Inr (r, Some bs), g') \<and> crc32 bs = crc32 sample"
proof -
  from pull_sample obtain v g1 r g' where
    v: "ask_checksum ''RAM:x'' pull_gdb = (Inr (Some v), g1)" "truthy v"
      "get_str (as_dict v) ''crc32'' '''' = fmt_hex False 8 (crc32 sample)" "get_int (as_dict v) ''size'' 0 = int (length sample)"
      "pull_file (\<lambda>_. ''0.1s'') ''RAM:x'' ''x'' pull_gdb = (Inr (r, Some sample), g')" "success r" by blast
  from pull_detects_corruption [OF v(1-5)] v(5,6) show ?thesis by auto
qed

text \<open>A malformed line ends the read loop while the first chunk waits for its acknowledgement.\<close>

definition dropped_gdb :: gdb where
  "dropped_gdb = reading_gdb\<lparr>script := [line_now ''DBGSTOP|reason|zz|00000000'']\<rparr>"

theorem push_not_resumed_witness:
  "fst (push_file (\<lambda>_. ''0.1s'') [\<lambda>sc. sc\<lparr>conn_up := True, writer_open := True, tcp_task := True\<rparr>]
     ''x'' (Some sample) ''RAM:x'' dropped_gdb) = Inl (RuntimeError ''Not connected to Amiga serial port'')"
proof -
  let ?p = "Some (field_is ''context'' ''WRITEFILE'')"
  let ?w1 = "await ''ok'' CHUNK_TIMEOUT ?p (sent (write_line ''RAM:x'' (0, take CHUNK_SIZE sample)) dropped_gdb)"
  let ?w2 = "await ''err'' 300 ?p (snd ?w1)"
  have "can_send (link dropped_gdb)" by code_simp
  moreover have "fst ?w1 = Inr None" by code_simp
  then have "?w1 = (Inr None, snd ?w1)" by (simp add: prod_eq_iff)
  moreover have "fst ?w2 = Inr None" by code_simp
  then have "?w2 = (Inr None, snd ?w2)" by (simp add: prod_eq_iff)
  moreover have "pause (snd ?w2) = (Inr (), snd (pause (snd ?w2)))" by (simp add: pause_def)
  moreover have "\<not> conn_up (link (snd (pause (snd ?w2))))" by code_simp
  ultimately show ?thesis
    using push_not_resumed [OF _ sample_simps(1)] by (metis fst_conv)
qed

end
