(* ===== verification/Screenshot.thy ===== *)
theory Screenshot
  imports File_Transfer
begin

text \<open>
  Screenshots: collecting the rows the bridge sends (\<open>server.py\<close>, \<open>mcp_tools.py\<close>), and turning
  planar, chunky, true-colour or run-length coded rows into an image (\<open>screenshot.py\<close>). The PNG
  encoder of the imaging library is an argument (None when it is not installed); the file that
  is written is part of the result.
\<close>

section \<open>Base64\<close>

text \<open>\<open>base64.b64decode\<close> as the standard library does it: other characters are skipped, and two
padding characters in the right place end the text.\<close>

definition b64_value :: "char \<Rightarrow> nat option" where
  "b64_value c =
     (let n = chr_code c
      in if 65 \<le> n \<and> n \<le> 90 then Some (n - 65) else if 97 \<le> n \<and> n \<le> 122 then Some (n - 71)
         else if 48 \<le> n \<and> n \<le> 57 then Some (n + 4) else if n = 43 then Some 62 else if n = 47 then Some 63 else None)"

fun b64_scan :: "nat \<Rightarrow> nat \<Rightarrow> nat \<Rightarrow> string \<Rightarrow> byte list res" where
  "b64_scan quad pads left [] = (if quad = 0 then Inr [] else Inl ValueError)"
| "b64_scan quad pads left (c # s) =
     (if c = CHR ''='' then
        (if 2 \<le> quad \<and> 4 \<le> quad + (pads + 1) then Inr []
         else b64_scan quad (if 2 \<le> quad then pads + 1 else pads) left s)
      else case b64_value c of
        None \<Rightarrow> b64_scan quad pads left s
      | Some v \<Rightarrow>
          if quad = 0 then b64_scan 1 0 v s
          else if quad = 1 then res_bind (b64_scan 2 0 (v mod 16) s) (\<lambda>bs. Inr (of_nat (left * 4 + v div 16) # bs))
          else if quad = 2 then res_bind (b64_scan 3 0 (v mod 4) s) (\<lambda>bs. Inr (of_nat (left * 16 + v div 4) # bs))
          else res_bind (b64_scan 0 0 0 s) (\<lambda>bs. Inr (of_nat (left * 64 + v) # bs)))"

definition b64decode :: "string \<Rightarrow> byte list res" where
  "b64decode s = (if list_all (\<lambda>c. chr_code c < 128) s then b64_scan 0 0 0 s else Inl ValueError)"

section \<open>Pixels\<close>

text \<open>The colour of pixel \<open>x\<close>, one bit from each plane of its row.\<close>

definition planar_pixel :: "nat \<Rightarrow> byte list list \<Rightarrow> nat \<Rightarrow> int" where
  "planar_pixel depth row x =
     foldl (\<lambda>color p. if x div 8 < length (row ! p) \<and> bit (row ! p ! (x div 8)) (7 - x mod 8)
       then color OR push_bit p 1 else color) 0 [0..<depth]"

definition planar_to_chunky :: "nat \<Rightarrow> nat \<Rightarrow> nat \<Rightarrow> byte list list list \<Rightarrow> int list" where
  "planar_to_chunky width height depth planes_data =
     concat (map (\<lambda>y. map (planar_pixel depth (planes_data ! y)) [0..<width]) [0..<height])"

function rle_decode :: "byte list \<Rightarrow> nat \<Rightarrow> byte list" where
  "rle_decode [] bpp = []"
| "rle_decode (hdr # data) bpp =
     (let count = unat (hdr AND 0x7F) + 1
      in if hdr AND 0x80 \<noteq> 0 then concat (replicate count (take bpp data)) @ rle_decode (drop bpp data) bpp
         else take (count * bpp) data @ rle_decode (drop (count * bpp) data) bpp)"
  by pat_completeness auto
termination by (relation "measure (\<lambda>(data, bpp). length data)") auto

type_synonym rgb = "int \<times> int \<times> int"

text \<open>An entry of the palette: eight bits for each channel, or four.\<close>

definition palette_entry :: "string \<Rightarrow> rgb res" where
  "palette_entry e =
     (let s = py_strip e
      in if 6 \<le> length s then
           res_bind (py_int 16 (take 2 s)) (\<lambda>r. res_bind (py_int 16 (take 2 (drop 2 s))) (\<lambda>g.
             res_bind (py_int 16 (take 2 (drop 4 s))) (\<lambda>b. Inr (r, g, b))))
         else if 3 \<le> length s then
           res_bind (py_int 16 [s ! 0]) (\<lambda>r. res_bind (py_int 16 [s ! 1]) (\<lambda>g.
             res_bind (py_int 16 [s ! 2]) (\<lambda>b. Inr (r * 17, g * 17, b * 17))))
         else Inr (0, 0, 0))"

definition parse_palette :: "string \<Rightarrow> rgb list res" where
  "parse_palette palette_str = res_map palette_entry (split_char (CHR '','') palette_str)"

section \<open>Images\<close>

text \<open>The encoder gets width, height and pixels.\<close>

type_synonym encoder = "int \<Rightarrow> int \<Rightarrow> rgb list \<Rightarrow> byte list res"

definition ascii_bytes :: "string \<Rightarrow> byte list" where
  "ascii_bytes s = map of_char s"

definition to_byte :: "int \<Rightarrow> byte res" where
  "to_byte i = (if 0 \<le> i \<and> i < 256 then Inr (word_of_int i) else Inl ValueError)"

definition ppm_header :: "int \<Rightarrow> int \<Rightarrow> byte list" where
  "ppm_header width height =
     ascii_bytes (''P6'' @ [CHR 0x0A] @ fmt_dec width @ '' '' @ fmt_dec height @ [CHR 0x0A] @ ''255'' @ [CHR 0x0A])"

definition ppm_data :: "rgb list \<Rightarrow> byte list res" where
  "ppm_data pixels = res_map to_byte (concat (map (\<lambda>(r, g, b). [r, g, b]) pixels))"

definition render_rgb_png :: "encoder option \<Rightarrow> encoder" where
  "render_rgb_png enc width height pixels =
     (case enc of
        Some png \<Rightarrow> png width height pixels
      | None \<Rightarrow> res_bind (ppm_data pixels) (\<lambda>d. Inr (ppm_header width height @ d)))"

definition colour_of :: "rgb list \<Rightarrow> int \<Rightarrow> rgb" where
  "colour_of palette idx = (if idx < int (length palette) then palette ! nat idx else (0, 0, 0))"

definition render_ppm :: "int \<Rightarrow> int \<Rightarrow> int list \<Rightarrow> rgb list \<Rightarrow> byte list res" where
  "render_ppm width height pixel_indices palette =
     res_bind (ppm_data (map (colour_of palette) pixel_indices)) (\<lambda>d. Inr (ppm_header width height @ d))"

definition render_png :: "encoder option \<Rightarrow> int \<Rightarrow> int \<Rightarrow> int list \<Rightarrow> rgb list \<Rightarrow> byte list res" where
  "render_png enc width height pixel_indices palette =
     (case enc of
        Some png \<Rightarrow> png width height (map (colour_of palette) pixel_indices)
      | None \<Rightarrow> render_ppm width height pixel_indices palette)"

text \<open>\<open>s.endswith(w)\<close> and \<open>s.rsplit(".", 1)[0]\<close>.\<close>

definition py_endswith :: "string \<Rightarrow> string \<Rightarrow> bool" where
  "py_endswith s w = py_startswith (rev s) (rev w)"

definition before_last_dot :: "string \<Rightarrow> string" where
  "before_last_dot s = (if CHR ''.'' \<in> set s then rev (after_char (CHR ''.'') (rev s)) else s)"

text \<open>The path the image is written to; \<open>tmp\<close> is the path of a fresh temporary file without suffix.\<close>

definition image_path :: "string \<Rightarrow> string option \<Rightarrow> byte list \<Rightarrow> string" where
  "image_path tmp save_path png_data =
     (let ext = (if take 4 png_data = [0x89, 0x50, 0x4E, 0x47] then ''.png'' else ''.ppm'')
      in case save_path of
           Some (c # p) \<Rightarrow> if py_endswith (c # p) ext then c # p else before_last_dot (c # p) @ ext
         | _ \<Rightarrow> tmp @ ext)"

definition write_image :: "string \<Rightarrow> byte list \<Rightarrow> string option \<Rightarrow> string \<times> byte list" where
  "write_image tmp png_data save_path = (image_path tmp save_path png_data, png_data)"

section \<open>Rows\<close>

text \<open>\<open>d[k]\<close> of a message, whose numbers and texts the parser has made.\<close>

definition int_at :: "pydict \<Rightarrow> string \<Rightarrow> int res" where
  "int_at d k = res_bind (dict_index d k) (\<lambda>v. Inr (case v of VInt i \<Rightarrow> i | _ \<Rightarrow> 0))"

definition str_at :: "pydict \<Rightarrow> string \<Rightarrow> string res" where
  "str_at d k = res_bind (dict_index d k) (\<lambda>v. Inr (case v of VStr s \<Rightarrow> s | _ \<Rightarrow> ''''))"

text \<open>A run-length coded row as the row it stands for.\<close>

definition expand_rle :: "nat \<Rightarrow> pydict \<Rightarrow> pydict \<Rightarrow> pydict res" where
  "expand_rle bpp extra r =
     res_bind (int_at r ''row'') (\<lambda>y. res_bind (str_at r ''hexData'') (\<lambda>s. res_bind (b64decode s) (\<lambda>bs.
       Inr ((''row'', VInt y) # extra @ [(''hexData'', VStr (bytes_hex False (rle_decode bs bpp)))]))))"

text \<open>\<open>{sd["row"]: bytes.fromhex(sd["hexData"]) ...}\<close>, and a row of it (empty when it is missing).\<close>

definition row_bytes :: "pydict list \<Rightarrow> (int \<times> byte list) list res" where
  "row_bytes = res_map (\<lambda>sd. res_bind (int_at sd ''row'') (\<lambda>y. res_bind (str_at sd ''hexData'') (\<lambda>s.
     res_bind (bytes_fromhex s) (\<lambda>bs. Inr (y, bs)))))"

definition row_at :: "(int \<times> byte list) list \<Rightarrow> nat \<Rightarrow> byte list" where
  "row_at rows y = (case map_of (rev rows) (int y) of Some bs \<Rightarrow> bs | None \<Rightarrow> [])"

definition rgb_pixels :: "nat \<Rightarrow> nat \<Rightarrow> (int \<times> byte list) list \<Rightarrow> rgb list" where
  "rgb_pixels width height rows =
     concat (map (\<lambda>y. map (\<lambda>x. if x * 3 + 2 < length (row_at rows y)
         then (uint (row_at rows y ! (x * 3)), uint (row_at rows y ! (x * 3 + 1)), uint (row_at rows y ! (x * 3 + 2)))
         else (0, 0, 0)) [0..<width]) [0..<height])"

definition chunky_pixels :: "nat \<Rightarrow> nat \<Rightarrow> (int \<times> byte list) list \<Rightarrow> int list" where
  "chunky_pixels width height rows =
     concat (map (\<lambda>y. map (\<lambda>x. if x < length (row_at rows y) then uint (row_at rows y ! x) else 0) [0..<width]) [0..<height])"

definition is_chunky :: "pydict \<Rightarrow> bool" where
  "is_chunky sd = (dict_get sd ''plane'' VNone = VInt 255)"

text \<open>The plane of a row replaces the blank one; negative numbers count from the end.\<close>

fun fill_planes :: "int \<Rightarrow> int \<Rightarrow> pydict list \<Rightarrow> byte list list list \<Rightarrow> byte list list list res" where
  "fill_planes height depth [] planes = Inr planes"
| "fill_planes height depth (sd # sds) planes =
     res_bind (int_at sd ''row'') (\<lambda>row. res_bind (int_at sd ''plane'') (\<lambda>plane. res_bind (str_at sd ''hexData'') (\<lambda>s.
       if row < height \<and> plane < depth then
         res_bind (bytes_fromhex s) (\<lambda>bs. res_bind (py_index planes row) (\<lambda>y. res_bind (py_index (planes ! y) plane) (\<lambda>p.
           fill_planes height depth sds (planes[y := (planes ! y)[p := bs]]))))
       else fill_planes height depth sds planes)))"

definition blank_planes :: "int \<Rightarrow> int \<Rightarrow> int \<Rightarrow> byte list list list" where
  "blank_planes width height depth =
     replicate (nat height) (replicate (nat depth) (replicate (nat ((width + 15) div 16 * 2)) 0))"

text \<open>The pen of every pixel of a chunky or planar screen.\<close>

definition pen_pixels :: "int \<Rightarrow> int \<Rightarrow> int \<Rightarrow> pydict list \<Rightarrow> int list res" where
  "pen_pixels width height depth scrdata_lines =
     res_bind (row_bytes (filter is_chunky scrdata_lines)) (\<lambda>chunky_rows.
       if chunky_rows \<noteq> [] then Inr (chunky_pixels (nat width) (nat height) chunky_rows)
       else res_bind (fill_planes height depth scrdata_lines (blank_planes width height depth)) (\<lambda>planes.
         Inr (planar_to_chunky (nat width) (nat height) (nat depth) planes)))"

definition list_of :: "'a list option \<Rightarrow> 'a list" where
  "list_of xs = (case xs of Some l \<Rightarrow> l | None \<Rightarrow> [])"

definition save_screenshot :: "encoder option \<Rightarrow> string \<Rightarrow> pydict \<Rightarrow> pydict list \<Rightarrow> string option \<Rightarrow>
    pydict list option \<Rightarrow> pydict list option \<Rightarrow> (string \<times> byte list) res" where
  "save_screenshot enc tmp scrinfo scrdata_lines save_path rgb_lines rle_lines =
     res_bind (int_at scrinfo ''width'') (\<lambda>width. res_bind (int_at scrinfo ''height'') (\<lambda>height.
     res_bind (int_at scrinfo ''depth'') (\<lambda>depth.
     res_bind (if list_of rle_lines = [] then Inr (scrdata_lines, list_of rgb_lines)
         else if 8 < depth then res_bind (res_map (expand_rle 3 []) (list_of rle_lines)) (\<lambda>ls. Inr (scrdata_lines, list_of rgb_lines @ ls))
         else res_bind (res_map (expand_rle 1 [(''plane'', VInt 255)]) (list_of rle_lines)) (\<lambda>ls.
           Inr (scrdata_lines @ ls, list_of rgb_lines)))
       (\<lambda>(scrdata, rgb).
         if rgb \<noteq> [] then
           res_bind (row_bytes rgb) (\<lambda>rows.
           res_bind (render_rgb_png enc width height (rgb_pixels (nat width) (nat height) rows)) (\<lambda>d. Inr (write_image tmp d save_path)))
         else
           res_bind (str_at scrinfo ''palette'') (\<lambda>s. res_bind (parse_palette s) (\<lambda>palette.
           res_bind (pen_pixels width height depth scrdata) (\<lambda>pixels.
           res_bind (render_png enc width height pixels palette) (\<lambda>d. Inr (write_image tmp d save_path)))))))))"

section \<open>Collecting the rows\<close>

record shots =
  shot_info :: "pydict option"
  planar_rows :: "pydict list"
  rgb_rows :: "pydict list"
  rle_rows :: "pydict list"

definition no_shots :: shots where
  "no_shots = \<lparr>shot_info = None, planar_rows = [], rgb_rows = [], rle_rows = []\<rparr>"

text \<open>How many rows of a kind complete the screen, 0 while that is not known.\<close>

definition shot_height :: "shots \<Rightarrow> int" where
  "shot_height s = (case shot_info s of None \<Rightarrow> 0 | Some d \<Rightarrow> get_int d ''height'' 0)"

definition planes_needed :: "pydict \<Rightarrow> shots \<Rightarrow> int" where
  "planes_needed d s =
     (case shot_info s of None \<Rightarrow> 0
      | Some info \<Rightarrow> if is_chunky d then shot_height s else shot_height s * get_int info ''depth'' 0)"

text \<open>One event; the flag says that the screen is complete.\<close>

definition take_row :: "string \<Rightarrow> pydict \<Rightarrow> shots \<Rightarrow> bool \<times> shots" where
  "take_row evt d s =
     (if evt = ''scrinfo'' then (False, s\<lparr>shot_info := Some d\<rparr>)
      else if evt = ''scrrle'' then
        (let s' = s\<lparr>rle_rows := rle_rows s @ [d]\<rparr>
         in (shot_info s \<noteq> None \<and> shot_height s \<le> int (length (rle_rows s')), s'))
      else if evt = ''scrrgb'' then
        (let s' = s\<lparr>rgb_rows := rgb_rows s @ [d]\<rparr>
         in (shot_info s \<noteq> None \<and> shot_height s \<le> int (length (rgb_rows s')), s'))
      else if evt = ''scrdata'' then
        (let s' = s\<lparr>planar_rows := planar_rows s @ [d]\<rparr>
         in (planes_needed d s \<noteq> 0 \<and> planes_needed d s \<le> int (length (planar_rows s')), s'))
      else (False, s))"

definition shot_failed :: "string \<Rightarrow> pydict \<Rightarrow> bool" where
  "shot_failed evt d \<longleftrightarrow> evt = ''err'' \<and> py_in ''SCREENSHOT'' (get_str d ''context'' '''')"

text \<open>The server collects for a minute; an error event ends with its message.\<close>

fun collect_rows :: "int \<Rightarrow> int \<Rightarrow> (int \<times> event) list \<Rightarrow> shots \<Rightarrow> string + shots" where
  "collect_rows deadline now [] s = Inr s"
| "collect_rows deadline now ((t, evt, m) # later) s =
     (if deadline - now \<le> 0 \<or> deadline \<le> t then Inr s
      else if shot_failed evt (as_dict m) then Inl (get_str (as_dict m) ''message'' ''screenshot failed'')
      else case take_row evt (as_dict m) s of
        (done, s') \<Rightarrow> if done then Inr s' else collect_rows deadline (max now t) later s')"

text \<open>The tool collects as long as rows keep coming, with a pause of at most twenty seconds.\<close>

fun collect_idle :: "int \<Rightarrow> int \<Rightarrow> int \<Rightarrow> (int \<times> event) list \<Rightarrow> shots \<Rightarrow> string + shots" where
  "collect_idle hard_cap deadline now [] s = Inr s"
| "collect_idle hard_cap deadline now ((t, evt, m) # later) s =
     (if deadline - now \<le> 0 \<or> hard_cap < now \<or> deadline \<le> t then Inr s
      else if shot_failed evt (as_dict m) then Inl (''Screenshot failed: '' @ get_str (as_dict m) ''message'' ''unknown error'')
      else case take_row evt (as_dict m) s of
        (done, s') \<Rightarrow> if done then Inr s' else collect_idle hard_cap (max now t + 20000) (max now t) later s')"

definition screen_events :: "string list" where
  "screen_events = [''scrinfo'', ''scrdata'', ''scrrgb'', ''scrrle'', ''err'']"

definition screenshot_command :: "string \<Rightarrow> command" where
  "screenshot_command window =
     (''type'', AStr ''SCREENSHOT'') # (if window \<noteq> [] then [(''window'', AStr window)] else [])"

text \<open>\<open>lines or None\<close>\<close>

definition or_none :: "'a list \<Rightarrow> 'a list option" where
  "or_none xs = (if xs = [] then None else Some xs)"

text \<open>
  The request handler: its answer and the file it has written. Subscribing comes before sending in
  the source; nothing is published in between. \<open>dir\<close> is the directory of the images, \<open>ts\<close> the
  time stamp in the name, \<open>show_exn\<close> the text of an exception.
\<close>

definition api_tool_screenshot :: "encoder option \<Rightarrow> string \<Rightarrow> string \<Rightarrow> (exn \<Rightarrow> string) \<Rightarrow> string \<Rightarrow>
    (pydict \<times> (string \<times> byte list) option) gm" where
  "api_tool_screenshot enc dir ts show_exn window g =
     (if \<not> conn_up (link g) then ret ([(''error'', VStr ''Not connected'')], None) g
      else bind (post (screenshot_command window)) (\<lambda>_. bind (listen screen_events) (\<lambda>(now, got).
        case collect_rows (now + 60000) now got no_shots of
          Inl text \<Rightarrow> ret ([(''error'', VStr text)], None)
        | Inr s \<Rightarrow>
            case shot_info s of
              None \<Rightarrow> ret ([(''error'', VStr ''No SCRINFO response'')], None)
            | Some info \<Rightarrow>
                if planar_rows s = [] \<and> rgb_rows s = [] \<and> rle_rows s = [] then ret ([(''error'', VStr ''No pixel data received'')], None)
                else let label = (if window \<noteq> [] then map (\<lambda>c. if c = CHR '' '' then CHR ''_'' else c) window else ''screen'');
                         save_path = dir @ ''/'' @ label @ ''_'' @ ts @ ''.png''
                  in case save_screenshot enc '''' info (planar_rows s) (Some save_path) (or_none (rgb_rows s)) (or_none (rle_rows s)) of
                       Inl e \<Rightarrow> ret ([(''error'', VStr (show_exn e))], None)
                     | Inr (path, content) \<Rightarrow>
                         ret ([(''path'', VStr path), (''filename'', VStr (path_name path)),
                           (''viewUrl'', VStr (''/api/screenshot/view?file='' @ path_name path)),
                           (''width'', dict_get info ''width'' VNone), (''height'', dict_get info ''height'' VNone),
                           (''depth'', dict_get info ''depth'' VNone)], Some (path, content)))) g)"

text \<open>The tool, with the text it answers; exceptions of saving are its own.\<close>

definition size_text :: "pydict \<Rightarrow> string" where
  "size_text info = fmt_dec (get_int info ''width'' 0) @ ''x'' @ fmt_dec (get_int info ''height'' 0)"

definition amiga_screenshot :: "encoder option \<Rightarrow> string \<Rightarrow> string \<Rightarrow> (string \<times> (string \<times> byte list) option) gm" where
  "amiga_screenshot enc tmp window g =
     (if \<not> conn_up (link g) then throw (RuntimeError ''Not connected to Amiga'') g
      else bind (post (screenshot_command window)) (\<lambda>_. bind (listen screen_events) (\<lambda>(now, got).
        case collect_idle (now + 600000) (now + 20000) now got no_shots of
          Inl text \<Rightarrow> ret (text, None)
        | Inr s \<Rightarrow>
            case shot_info s of
              None \<Rightarrow> ret (''Timed out waiting for screenshot header'', None)
            | Some info \<Rightarrow>
                if planar_rows s = [] \<and> rgb_rows s = [] \<and> rle_rows s = [] then
                  ret (''Got header ('' @ size_text info @ ''x'' @ fmt_dec (get_int info ''depth'' 0) @ '') but no pixel data'', None)
                else case save_screenshot enc tmp info (planar_rows s) None (or_none (rgb_rows s)) (or_none (rle_rows s)) of
                  Inl e \<Rightarrow> throw e
                | Inr (path, content) \<Rightarrow>
                    let (rows, kind) = (if rle_rows s \<noteq> [] then (length (rle_rows s), ''RLE'')
                        else if rgb_rows s \<noteq> [] then (length (rgb_rows s), ''truecolor'')
                        else (length (planar_rows s), fmt_dec (get_int info ''depth'' 0) @ '' planes''))
                    in ret (''Screenshot saved: '' @ path @ '' ('' @ size_text info @ '', '' @ kind @ '', '' @ fmt_dec (int rows) @
                      '' rows received)'', Some (path, content)))) g)"

section \<open>Planar screens\<close>

text \<open>The plane \<open>p\<close> of a row of pens, padded to whole words.\<close>

definition plane_byte :: "int list \<Rightarrow> nat \<Rightarrow> nat \<Rightarrow> byte" where
  "plane_byte row p j = horner_sum of_bool 2 (map (\<lambda>i. 8 * j + (7 - i) < length row \<and> bit (row ! (8 * j + (7 - i))) p) [0..<8])"

definition to_planes :: "nat \<Rightarrow> int list \<Rightarrow> byte list list" where
  "to_planes depth row = map (\<lambda>p. map (plane_byte row p) [0..<(length row + 15) div 16 * 2]) [0..<depth]"

lemma plane_bit:
  assumes "x < length row"
  shows "x div 8 < (length row + 15) div 16 * 2" and "bit (plane_byte row p (x div 8)) (7 - x mod 8) = bit (row ! x) p"
proof -
  show "x div 8 < (length row + 15) div 16 * 2" using assms by simp
  have "8 * (x div 8) + (7 - (7 - x mod 8)) = x" "7 - x mod 8 < 8" by presburger+
  then show "bit (plane_byte row p (x div 8)) (7 - x mod 8) = bit (row ! x) p"
    using assms by (simp add: plane_byte_def bit_horner_sum_bit_word_iff del: upt_rec_numeral)
qed

lemma planar_pixel_planes:
  assumes "x < length row"
  shows "planar_pixel depth (to_planes depth row) x = take_bit depth (row ! x)"
proof -
  let ?step = "\<lambda>color p. if x div 8 < length (to_planes depth row ! p) \<and> bit (to_planes depth row ! p ! (x div 8)) (7 - x mod 8)
       then color OR push_bit p 1 else color"
  have "foldl ?step 0 [0..<d] = take_bit d (row ! x)" if "d \<le> depth" for d
    using that
  proof (induction d)
    case (Suc d)
    then have "x div 8 < length (to_planes depth row ! d) \<and> bit (to_planes depth row ! d ! (x div 8)) (7 - x mod 8) \<longleftrightarrow> bit (row ! x) d"
      using plane_bit [OF assms] by (simp add: to_planes_def)
    moreover have "take_bit (Suc d) (row ! x) = (if bit (row ! x) d then take_bit d (row ! x) OR push_bit d 1 else take_bit d (row ! x))"
      by (rule bit_eqI) (auto simp: bit_simps less_Suc_eq)
    ultimately show ?case using Suc by (simp del: push_bit_of_1)
  qed simp
  then show ?thesis by (simp add: planar_pixel_def)
qed

text \<open>
  Planar screens come out as their pens: the planes of an image whose pens fit the depth, each
  row padded to whole words, are converted back into exactly these pens, row by row.
\<close>

theorem planar_roundtrip:
  assumes "\<forall>row \<in> set rows. length row = width \<and> (\<forall>c \<in> set row. 0 \<le> c \<and> c < 2 ^ depth)"
  shows "planar_to_chunky width (length rows) depth (map (to_planes depth) rows) = concat rows"
proof -
  have "map (planar_pixel depth (map (to_planes depth) rows ! y)) [0..<width] = rows ! y" if "y < length rows" for y
  proof (rule nth_equalityI)
    have row: "rows ! y \<in> set rows" using that by simp
    then have len: "length (rows ! y) = width" using assms by blast
    then show "length (map (planar_pixel depth (map (to_planes depth) rows ! y)) [0..<width]) = length (rows ! y)" by simp
    fix x assume "x < length (map (planar_pixel depth (map (to_planes depth) rows ! y)) [0..<width])"
    then have x: "x < length (rows ! y)" using len by simp
    then have "0 \<le> rows ! y ! x \<and> rows ! y ! x < 2 ^ depth" using assms row nth_mem by blast
    then show "map (planar_pixel depth (map (to_planes depth) rows ! y)) [0..<width] ! x = rows ! y ! x"
      using planar_pixel_planes [OF x, of depth] x len that by (simp add: take_bit_int_eq_self)
  qed
  then have "map (\<lambda>y. map (planar_pixel depth (map (to_planes depth) rows ! y)) [0..<width]) [0..<length rows] = rows"
    by (intro nth_equalityI) simp_all
  then show ?thesis by (simp add: planar_to_chunky_def)
qed

theorem planar_roundtrip_witness:
  "planar_to_chunky 3 2 2 (map (to_planes 2) [[0, 1, 2], [3, 2, 1]]) = [0, 1, 2, 3, 2, 1]"
  using planar_roundtrip [of "[[0, 1, 2], [3, 2, 1]]" 3 2] by (simp add: numeral_2_eq_2 numeral_3_eq_3)

section \<open>Run-length coding\<close>

text \<open>What the bridge sends for a row: runs of one pixel, and pixels as they are.\<close>

datatype packet = Run nat "byte list" | Literal "byte list list"

fun packet_bytes :: "packet \<Rightarrow> byte list" where
  "packet_bytes (Run n pix) = (0x80 OR of_nat (n - 1)) # pix"
| "packet_bytes (Literal ps) = of_nat (length ps - 1) # concat ps"

fun packet_pixels :: "packet \<Rightarrow> byte list" where
  "packet_pixels (Run n pix) = concat (replicate n pix)"
| "packet_pixels (Literal ps) = concat ps"

fun wf_packet :: "nat \<Rightarrow> packet \<Rightarrow> bool" where
  "wf_packet bpp (Run n pix) \<longleftrightarrow> 0 < n \<and> n \<le> 128 \<and> length pix = bpp"
| "wf_packet bpp (Literal ps) \<longleftrightarrow> 0 < length ps \<and> length ps \<le> 128 \<and> list_all (\<lambda>p. length p = bpp) ps"

lemma header_bits:
  assumes "n < 128"
  shows "unat ((0x80 OR of_nat n :: byte) AND 0x7F) = n" "(0x80 OR of_nat n :: byte) AND 0x80 \<noteq> 0"
    "unat ((of_nat n :: byte) AND 0x7F) = n" "(of_nat n :: byte) AND 0x80 = 0"
proof -
  have all: "list_all (\<lambda>n. unat ((0x80 OR of_nat n :: byte) AND 0x7F) = n \<and> (0x80 OR of_nat n :: byte) AND 0x80 \<noteq> 0 \<and>
      unat ((of_nat n :: byte) AND 0x7F) = n \<and> (of_nat n :: byte) AND 0x80 = 0) [0..<128]"
    by code_simp
  then have "unat ((0x80 OR of_nat n :: byte) AND 0x7F) = n \<and> (0x80 OR of_nat n :: byte) AND 0x80 \<noteq> 0 \<and>
      unat ((of_nat n :: byte) AND 0x7F) = n \<and> (of_nat n :: byte) AND 0x80 = 0"
    using assms unfolding list_all_iff by (metis atLeastLessThan_iff set_upt zero_le)
  then show "unat ((0x80 OR of_nat n :: byte) AND 0x7F) = n" "(0x80 OR of_nat n :: byte) AND 0x80 \<noteq> 0"
    "unat ((of_nat n :: byte) AND 0x7F) = n" "(of_nat n :: byte) AND 0x80 = 0" by blast+
qed

lemma rle_decode_packet:
  assumes "wf_packet bpp p"
  shows "rle_decode (packet_bytes p @ r) bpp = packet_pixels p @ rle_decode r bpp"
proof (cases p)
  case (Run n pix)
  then obtain k where "n = Suc k" using assms by (cases n) auto
  then show ?thesis using Run assms header_bits(1,2) [of k] by (auto simp: Let_def)
next
  case (Literal ps)
  have "length (concat ps) = length ps * bpp"
    using assms Literal by (simp add: list_all_iff length_concat sum_list_triv cong: map_cong)
  moreover obtain k where "length ps = Suc k" using assms Literal by (cases ps) auto
  ultimately show ?thesis using assms Literal header_bits(3,4) [of k] by (simp add: Let_def)
qed

lemma rle_decode_packets:
  "list_all (wf_packet bpp) ps \<Longrightarrow> rle_decode (concat (map packet_bytes ps)) bpp = concat (map packet_pixels ps)"
  by (induction ps) (simp_all add: rle_decode_packet)

section \<open>Base64 texts\<close>

definition b64_char :: "nat \<Rightarrow> char" where
  "b64_char n = char_of (if n < 26 then n + 65 else if n < 52 then n + 71 else if n < 62 then n - 4 else if n = 62 then 43 else 47)"

fun b64_encode :: "byte list \<Rightarrow> string" where
  "b64_encode [] = []"
| "b64_encode [a] = [b64_char (unat a div 4), b64_char (unat a mod 4 * 16), CHR ''='', CHR ''='']"
| "b64_encode [a, b] =
     [b64_char (unat a div 4), b64_char (unat a mod 4 * 16 + unat b div 16), b64_char (unat b mod 16 * 4), CHR ''='']"
| "b64_encode (a # b # c # bs) =
     [b64_char (unat a div 4), b64_char (unat a mod 4 * 16 + unat b div 16), b64_char (unat b mod 16 * 4 + unat c div 64),
      b64_char (unat c mod 64)] @ b64_encode bs"

lemma b64_char_value:
  assumes "n < 64"
  shows "b64_value (b64_char n) = Some n" "b64_char n \<noteq> CHR ''=''" "chr_code (b64_char n) < 128"
proof -
  have c: "chr_code (b64_char n) =
      (if n < 26 then n + 65 else if n < 52 then n + 71 else if n < 62 then n - 4 else if n = 62 then 43 else 47)"
    using assms by (simp add: b64_char_def)
  then show "b64_value (b64_char n) = Some n" "chr_code (b64_char n) < 128"
    using assms by (auto simp: b64_value_def Let_def)
  have "chr_code (b64_char n) \<noteq> chr_code (CHR ''='')" unfolding c using assms by simp presburger
  then show "b64_char n \<noteq> CHR ''=''" by metis
qed

lemma b64_parts:
  fixes a :: byte
  shows "unat a div 4 < 64" "x < 16 \<Longrightarrow> unat a mod 4 * 16 + x < 64" "unat a mod 4 * 16 < 64" "x < 4 \<Longrightarrow> unat a mod 16 * 4 + x < 64"
    "unat a mod 16 * 4 < 64" "unat a mod 64 < 64" "unat a div 16 < 16" "unat a div 64 < 4"
proof -
  have "unat a < 256" using unsigned_less [of a, where ?'a = nat] by simp
  then show "unat a div 4 < 64" "unat a div 16 < 16" "unat a div 64 < 4" by simp_all
  have "unat a mod 4 \<le> 3" "unat a mod 16 \<le> 15" by (simp_all add: less_Suc_eq_le [symmetric])
  then show "x < 16 \<Longrightarrow> unat a mod 4 * 16 + x < 64" "unat a mod 4 * 16 < 64" "x < 4 \<Longrightarrow> unat a mod 16 * 4 + x < 64"
    "unat a mod 16 * 4 < 64" "unat a mod 64 < 64"
    by (linarith | simp)+
qed

lemma b64_joins:
  fixes a b c p :: nat
  shows "x < 16 \<Longrightarrow> a div 4 * 4 + (a mod 4 * 16 + x) div 16 = a"
    and "b < 256 \<Longrightarrow> y < 4 \<Longrightarrow> (p mod 4 * 16 + b div 16) mod 16 * 16 + (b mod 16 * 4 + y) div 4 = b"
    and "c < 256 \<Longrightarrow> (p mod 16 * 4 + c div 64) mod 4 * 64 + c mod 64 = c"
proof -
  show "x < 16 \<Longrightarrow> a div 4 * 4 + (a mod 4 * 16 + x) div 16 = a" by simp
  assume "b < 256" "y < 4"
  then have "(p mod 4 * 16 + b div 16) mod 16 = b div 16" "(b mod 16 * 4 + y) div 4 = b mod 16" by simp_all
  then show "(p mod 4 * 16 + b div 16) mod 16 * 16 + (b mod 16 * 4 + y) div 4 = b" by simp
next
  assume "c < 256"
  then have "(p mod 16 * 4 + c div 64) mod 4 = c div 64" by simp
  then show "(p mod 16 * 4 + c div 64) mod 4 * 64 + c mod 64 = c" by simp
qed

lemma unat_byte: "unat (a :: byte) < 256"
  using unsigned_less [of a, where ?'a = nat] by simp

lemma b64_scan_encode: "b64_scan 0 q l (b64_encode bs) = Inr bs"
proof (induction bs arbitrary: q l rule: b64_encode.induct)
  case (2 a)
  have "b64_value (b64_char (unat a mod 4 * 16 + 0)) = Some (unat a mod 4 * 16 + 0)" by (rule b64_char_value) (simp add: b64_parts)
  then show ?case using b64_joins(1) [of 0 "unat a"] by (simp add: b64_char_value b64_parts)
next
  case (3 a b)
  then show ?case using b64_joins(1) [of "unat b div 16" "unat a"] b64_joins(2) [OF unat_byte, of 0 "unat a" b]
    by (simp add: b64_char_value b64_parts)
next
  case (4 a b c bs)
  then show ?case
    using b64_joins(1) [of "unat b div 16" "unat a"] b64_joins(2) [OF unat_byte, of "unat c div 64" "unat a" b]
      b64_joins(3) [OF unat_byte, of "unat b" c]
    by (simp add: b64_char_value b64_parts)
qed simp

lemma b64decode_encode [simp]: "b64decode (b64_encode bs) = Inr bs"
proof -
  have "list_all (\<lambda>c. chr_code c < 128) (b64_encode bs)"
    by (induction bs rule: b64_encode.induct) (simp_all add: b64_char_value b64_parts)
  then show ?thesis by (simp add: b64decode_def b64_scan_encode)
qed

section \<open>Run-length coded screens\<close>

text \<open>Rows as messages: run-length coded, and as they are.\<close>

definition coded_row :: "int \<times> packet list \<Rightarrow> pydict" where
  "coded_row r = [(''type'', VStr ''SCRRLE''), (''row'', VInt (fst r)), (''hexData'', VStr (b64_encode (concat (map packet_bytes (snd r)))))]"

definition plain_row :: "pydict \<Rightarrow> int \<times> packet list \<Rightarrow> pydict" where
  "plain_row extra r = (''row'', VInt (fst r)) # extra @ [(''hexData'', VStr (bytes_hex False (concat (map packet_pixels (snd r)))))]"

lemma expand_rows:
  "list_all (\<lambda>r. list_all (wf_packet bpp) (snd r)) rs \<Longrightarrow> res_map (expand_rle bpp extra) (map coded_row rs) = Inr (map (plain_row extra) rs)"
  by (induction rs) (simp_all add: expand_rle_def coded_row_def int_at_def str_at_def dict_index_def rle_decode_packets plain_row_def)

section \<open>The image a coded screen shows\<close>

text \<open>
  The pixels a row's packets stand for, each of them its bytes (red, green and blue, or the pen),
  the pixel sent for a place of the screen, and the picture: a function of the place.
\<close>

fun packet_pels :: "packet \<Rightarrow> byte list list" where
  "packet_pels (Run n pix) = replicate n pix"
| "packet_pels (Literal ps) = ps"

definition pixel_sent :: "(int \<times> packet list) list \<Rightarrow> nat \<Rightarrow> nat \<Rightarrow> byte list option" where
  "pixel_sent rs x y =
     (case map_of rs (int y) of
        None \<Rightarrow> None
      | Some ps \<Rightarrow> let pels = concat (map packet_pels ps) in if x < length pels then Some (pels ! x) else None)"

definition true_colour :: "byte list option \<Rightarrow> rgb" where
  "true_colour p = (case p of Some [r, g, b] \<Rightarrow> (uint r, uint g, uint b) | _ \<Rightarrow> (0, 0, 0))"

definition pen_colour :: "rgb list \<Rightarrow> byte list option \<Rightarrow> rgb" where
  "pen_colour palette p = colour_of palette (case p of Some [c] \<Rightarrow> uint c | _ \<Rightarrow> 0)"

definition raster :: "int \<Rightarrow> int \<Rightarrow> (nat \<Rightarrow> nat \<Rightarrow> 'a) \<Rightarrow> 'a list" where
  "raster width height f = concat (map (\<lambda>y. map (\<lambda>x. f x y) [0..<nat width]) [0..<nat height])"

lemma packet_pels_bytes: "concat (packet_pels p) = packet_pixels p"
  by (cases p) simp_all

lemma packet_pels_length: "wf_packet n p \<Longrightarrow> list_all (\<lambda>c. length c = n) (packet_pels p)"
  by (cases p) (simp_all add: list_all_iff)

lemma concat_pels: "concat (map packet_pixels ps) = concat (concat (map packet_pels ps))"
  by (induction ps) (simp_all add: packet_pels_bytes)

lemma pels_length: "list_all (wf_packet n) ps \<Longrightarrow> list_all (\<lambda>c. length c = n) (concat (map packet_pels ps))"
  by (induction ps) (simp_all add: packet_pels_length)

lemma nth_concat_uniform:
  assumes "list_all (\<lambda>c. length c = n) cs" and "x < length cs" and "k < n"
  shows "x * n + k < length (concat cs)" and "concat cs ! (x * n + k) = cs ! x ! k"
proof -
  have "x * n + k < length (concat cs) \<and> concat cs ! (x * n + k) = cs ! x ! k"
    using assms(1,2)
  proof (induction cs arbitrary: x)
    case (Cons c cs)
    show ?case
    proof (cases x)
      case 0
      then show ?thesis using Cons.prems assms(3) by (simp add: nth_append)
    next
      case (Suc z)
      then have "z * n + k < length (concat cs) \<and> concat cs ! (z * n + k) = cs ! z ! k"
        using Cons by simp
      then show ?thesis using Suc Cons.prems(1) by (simp add: nth_append)
    qed
  qed simp
  then show "x * n + k < length (concat cs)" "concat cs ! (x * n + k) = cs ! x ! k" by blast+
qed

lemma length_concat_uniform: "list_all (\<lambda>c. length c = n) cs \<Longrightarrow> length (concat cs) = length cs * n"
  by (induction cs) simp_all

definition sent_rows :: "(int \<times> packet list) list \<Rightarrow> (int \<times> byte list) list" where
  "sent_rows rs = map (\<lambda>(y, ps). (y, concat (map packet_pixels ps))) rs"

lemma plain_row_bytes:
  "row_bytes (map (plain_row []) rs) = Inr (sent_rows rs)"
  "row_bytes (map (plain_row [(''plane'', VInt 255)]) rs) = Inr (sent_rows rs)"
  by (induction rs)
     (simp_all add: row_bytes_def sent_rows_def int_at_def str_at_def plain_row_def dict_index_def case_prod_beta)

lemma chunky_plain_row: "filter is_chunky (map (plain_row [(''plane'', VInt 255)]) rs) = map (plain_row [(''plane'', VInt 255)]) rs"
  by (induction rs) (simp_all add: is_chunky_def plain_row_def dict_get_def)

lemma map_of_rev_distinct: "distinct (map fst xs) \<Longrightarrow> map_of (rev xs) = map_of xs"
  by (subst map_of_inject_set) (simp_all add: rev_map [symmetric])

lemma row_at_sent:
  assumes "distinct (map fst rs)"
  shows "row_at (sent_rows rs) y =
    (case map_of rs (int y) of None \<Rightarrow> [] | Some ps \<Rightarrow> concat (concat (map packet_pels ps)))"
proof -
  have "map fst (sent_rows rs) = map fst rs" by (simp add: sent_rows_def comp_def case_prod_beta)
  then have "map_of (rev (sent_rows rs)) = map_of (sent_rows rs)" using assms by (simp add: map_of_rev_distinct)
  then show ?thesis
    by (simp add: row_at_def sent_rows_def map_of_map concat_pels split: option.split)
qed

lemma map_of_pels:
  "list_all (\<lambda>r. list_all (wf_packet n) (snd r)) rs \<Longrightarrow> map_of rs y = Some ps \<Longrightarrow>
   list_all (\<lambda>c. length c = n) (concat (map packet_pels ps))"
  by (rule pels_length) (auto simp: list_all_iff dest: map_of_SomeD)

lemma true_colour_place:
  assumes "distinct (map fst rs)" and "list_all (\<lambda>r. list_all (wf_packet 3) (snd r)) rs"
    and row: "row = row_at (sent_rows rs) y"
  shows "(if x * 3 + 2 < length row then (uint (row ! (x * 3)), uint (row ! (x * 3 + 1)), uint (row ! (x * 3 + 2)))
      else (0, 0, 0)) = true_colour (pixel_sent rs x y)"
proof (cases "map_of rs (int y)")
  case (Some ps)
  let ?pels = "concat (map packet_pels ps)"
  have u: "list_all (\<lambda>c. length c = 3) ?pels" by (rule map_of_pels [OF assms(2) Some])
  have r: "row = concat ?pels" by (simp add: row row_at_sent [OF assms(1)] Some)
  show ?thesis
  proof (cases "x < length ?pels")
    case True
    then have "length (?pels ! x) = 3" using u by (simp add: list_all_length)
    then obtain a b c where "?pels ! x = [a, b, c]" by (auto simp: length_Suc_conv eval_nat_numeral)
    then show ?thesis
      using True nth_concat_uniform [OF u True, of 0] nth_concat_uniform [OF u True, of 1]
        nth_concat_uniform [OF u True, of 2]
      by (simp add: r pixel_sent_def Some true_colour_def Let_def del: concat_append)
  next
    case False
    then show ?thesis
      using length_concat_uniform [OF u] by (simp add: r pixel_sent_def Some true_colour_def Let_def)
  qed
qed (simp add: row row_at_sent [OF assms(1)] pixel_sent_def true_colour_def)

lemma pen_place:
  assumes "distinct (map fst rs)" and "list_all (\<lambda>r. list_all (wf_packet 1) (snd r)) rs"
    and row: "row = row_at (sent_rows rs) y"
  shows "colour_of palette (if x < length row then uint (row ! x) else 0) = pen_colour palette (pixel_sent rs x y)"
proof (cases "map_of rs (int y)")
  case (Some ps)
  let ?pels = "concat (map packet_pels ps)"
  have u: "list_all (\<lambda>c. length c = 1) ?pels" by (rule map_of_pels [OF assms(2) Some])
  have r: "row = concat ?pels" by (simp add: row row_at_sent [OF assms(1)] Some)
  show ?thesis
  proof (cases "x < length ?pels")
    case True
    then have "length (?pels ! x) = 1" using u by (simp add: list_all_length)
    then obtain a where "?pels ! x = [a]" by (auto simp: length_Suc_conv)
    then show ?thesis
      using True nth_concat_uniform [OF u True, of 0] by (simp add: r pixel_sent_def Some pen_colour_def Let_def)
  next
    case False
    then show ?thesis
      using length_concat_uniform [OF u] by (simp add: r pixel_sent_def Some pen_colour_def Let_def)
  qed
qed (simp add: row row_at_sent [OF assms(1)] pixel_sent_def pen_colour_def)

text \<open>
  C24. A run-length coded screen is shown pixel by pixel: whatever runs and literals its rows are made
  of, and in whatever order the rows arrive, the picture handed to the encoder (or written as PPM
  without one) has at column x of line y the pixel x of the row sent for y. More than eight bits of
  depth mean three bytes to a pixel, which are its red, green and blue, and black where nothing was
  sent; with up to eight a pixel is one byte, the pen, and is shown in its palette colour, pen 0 where
  nothing was sent.
\<close>

theorem coded_screen:
  assumes "int_at info ''width'' = Inr width" and "int_at info ''height'' = Inr height"
    and "int_at info ''depth'' = Inr depth" and "str_at info ''palette'' = Inr s" and "parse_palette s = Inr palette"
    and "rs \<noteq> []" and "distinct (map fst rs)"
    and "list_all (\<lambda>r. list_all (wf_packet (if 8 < depth then 3 else 1)) (snd r)) rs"
    and picture: "picture = raster width height (\<lambda>x y.
      if 8 < depth then true_colour (pixel_sent rs x y) else pen_colour palette (pixel_sent rs x y))"
  shows "save_screenshot enc tmp info [] path None (Some (map coded_row rs)) =
    res_bind (case enc of Some png \<Rightarrow> png width height picture
              | None \<Rightarrow> res_bind (res_map to_byte (concat (map (\<lambda>(r, g, b). [r, g, b]) picture)))
                          (\<lambda>px. Inr (ppm_header width height @ px)))
      (\<lambda>d. Inr (write_image tmp d path))"
proof (cases "8 < depth")
  case True
  have "rgb_pixels (nat width) (nat height) (sent_rows rs) = picture"
    using True assms(7,8) true_colour_place [OF assms(7) _ refl]
    by (simp add: rgb_pixels_def picture raster_def)
  then show ?thesis
    using True assms(1-3,6,8) expand_rows [of 3 rs "[]"]
    by (simp add: save_screenshot_def list_of_def plain_row_bytes render_rgb_png_def ppm_data_def res_bind_assoc
        split: option.split)
next
  case False
  have "map (colour_of palette) (chunky_pixels (nat width) (nat height) (sent_rows rs)) = picture"
    using False assms(7,8) pen_place [OF assms(7) _ refl, where palette = palette]
    by (simp add: chunky_pixels_def picture raster_def map_concat comp_def)
  moreover have "sent_rows rs \<noteq> []" using assms(6) by (simp add: sent_rows_def)
  ultimately show ?thesis
    using False assms(1-6,8) expand_rows [of 1 rs "[(''plane'', VInt 255)]"]
    by (simp add: save_screenshot_def list_of_def pen_pixels_def chunky_plain_row plain_row_bytes render_png_def
        render_ppm_def ppm_data_def res_bind_assoc split: option.split)
qed

definition sample_info :: pydict where
  "sample_info = [(''width'', VInt 2), (''height'', VInt 1), (''depth'', VInt 24), (''palette'', VStr '''')]"

text \<open>Two rows of a palette screen, the second one first, as a PPM file.\<close>

theorem coded_screen_witness:
  "save_screenshot None ''/tmp/s'' [(''width'', VInt 2), (''height'', VInt 2), (''depth'', VInt 8), (''palette'', VStr ''000,fff,102030'')] [] None None
     (Some (map coded_row [(1, [Literal [[1], [2]]]), (0, [Run 2 [2]])])) =
   Inr (''/tmp/s.ppm'', ppm_header 2 2 @ [16, 32, 48, 16, 32, 48, 255, 255, 255, 16, 32, 48])"
proof -
  let ?rs = "[(1, [Literal [[1], [2]]]), (0, [Run 2 [2]])] :: (int \<times> packet list) list"
  let ?info = "[(''width'', VInt 2), (''height'', VInt 2), (''depth'', VInt 8), (''palette'', VStr ''000,fff,102030'')]"
  let ?pal = "[(0, 0, 0), (255, 255, 255), (16, 32, 48)] :: rgb list"
  let ?picture = "raster 2 2 (\<lambda>x y. if 8 < (8::int) then true_colour (pixel_sent ?rs x y) else pen_colour ?pal (pixel_sent ?rs x y))"
  have at: "int_at ?info ''width'' = Inr 2" "int_at ?info ''height'' = Inr 2" "int_at ?info ''depth'' = Inr 8"
    "str_at ?info ''palette'' = Inr ''000,fff,102030''" "parse_palette ''000,fff,102030'' = Inr ?pal"
    by code_simp+
  have px: "res_map to_byte (concat (map (\<lambda>(r, g, b). [r, g, b]) ?picture)) =
      Inr [16, 32, 48, 16, 32, 48, 255, 255, 255, 16, 32, 48]"
    by code_simp
  have saved: "write_image ''/tmp/s'' (ppm_header 2 2 @ d) None = (''/tmp/s.ppm'', ppm_header 2 2 @ d)" for d
    by (simp add: write_image_def image_path_def ppm_header_def ascii_bytes_def Let_def)
  show ?thesis
    using coded_screen [OF at, of ?rs ?picture None "''/tmp/s''" None] px by (simp add: saved)
qed

section \<open>The file\<close>

lemma res_map_length: "res_map f xs = Inr ys \<Longrightarrow> length ys = length xs"
  by (rule res_map_Inr_length)

lemma length_pixels [simp]:
  "length (rgb_pixels w h rows) = w * h" "length (chunky_pixels w h rows) = w * h" "length (planar_to_chunky w h d planes) = w * h"
proof -
  have "sum_list (map (\<lambda>y. w) [0..<h]) = w * h" by (simp add: sum_list_triv)
  then show "length (rgb_pixels w h rows) = w * h" "length (chunky_pixels w h rows) = w * h" "length (planar_to_chunky w h d planes) = w * h"
    by (simp_all add: rgb_pixels_def chunky_pixels_def planar_to_chunky_def length_concat comp_def)
qed

lemma pen_pixels_length: "pen_pixels w h d ls = Inr ps \<Longrightarrow> length ps = nat w * nat h"
  by (auto simp: pen_pixels_def res_inv split: if_splits)

lemma ppm_data_length: "ppm_data ps = Inr d \<Longrightarrow> length d = 3 * length ps"
proof -
  assume "ppm_data ps = Inr d"
  then have "length d = length (concat (map (\<lambda>(r, g, b). [r, g, b]) ps))" unfolding ppm_data_def by (rule res_map_Inr_length)
  also have "\<dots> = 3 * length ps" by (induction ps) auto
  finally show ?thesis .
qed

lemma endswith_append: "py_endswith (s @ w) w"
  by (simp add: py_endswith_def py_startswith_def)

lemma ppm_path:
  assumes "take 4 d \<noteq> [0x89, 0x50, 0x4E, 0x47]"
  shows "py_endswith (image_path tmp path d) ''.ppm''"
  using assms endswith_append [of tmp "''.ppm''"] endswith_append [of "before_last_dot p" "''.ppm''" for p]
  by (simp add: image_path_def Let_def split: option.split list.split)

text \<open>
  Without the imaging library a screenshot is a well-formed PPM file of the size of the screen:
  whenever one is saved, from whatever rows arrived, it is the header for the width and height
  followed by exactly three bytes for each pixel, in a file whose name ends in .ppm.
\<close>

theorem ppm_screenshot:
  assumes "save_screenshot None tmp info planar path rgbs rles = Inr (p, d)"
    and "int_at info ''width'' = Inr w" and "int_at info ''height'' = Inr h"
  shows "\<exists>px. d = ppm_header w h @ px \<and> length px = 3 * (nat w * nat h) \<and> py_endswith p ''.ppm''"
proof -
  from assms obtain px where px: "d = ppm_header w h @ px" "length px = 3 * (nat w * nat h)" and p: "p = image_path tmp path d"
    by (auto simp: save_screenshot_def res_inv render_rgb_png_def render_png_def render_ppm_def write_image_def
        dest!: ppm_data_length pen_pixels_length split: if_splits)
  have "hd d = of_char (CHR ''P'')" by (simp add: px(1) ppm_header_def ascii_bytes_def)
  then have "take 4 d \<noteq> [0x89, 0x50, 0x4E, 0x47]" by (cases d) auto
  from ppm_path [OF this] px p show ?thesis by blast
qed

theorem ppm_screenshot_witness:
  "\<exists>d px. save_screenshot None ''/tmp/s'' sample_info [] None (Some [plain_row [] (0, [Run 2 [1, 2, 3]])]) None = Inr (''/tmp/s.ppm'', d) \<and>
     d = ppm_header 2 1 @ px \<and> length px = 6"
proof -
  have s: "save_screenshot None ''/tmp/s'' sample_info [] None (Some [plain_row [] (0, [Run 2 [1, 2, 3]])]) None =
      Inr (''/tmp/s.ppm'', ppm_header 2 1 @ [1, 2, 3, 1, 2, 3])"
    by code_simp
  have "int_at sample_info ''width'' = Inr 2" "int_at sample_info ''height'' = Inr 1" by code_simp+
  from ppm_screenshot [OF s this] s show ?thesis by auto
qed

end
