(* ===== verification/Screenshot_Diff.thy ===== *)
theory Screenshot_Diff
  imports Pystr
begin

text \<open>
  Comparing screenshots (\<open>screenshot_diff.py\<close>): the pixels that differ, the blocks in which more
  than five percent do, and the regions of adjacent changed blocks, found by flood fill. Opening
  an image, converting it to RGB, drawing the frames and writing the file are the imaging
  library's; an image is its size and its pixels.
\<close>

section \<open>Pixels\<close>

definition BLOCK_SIZE :: nat where "BLOCK_SIZE = 16"

type_synonym pixel = "int list"

record image =
  img_width :: nat
  img_height :: nat
  img_pixel :: "nat \<times> nat \<Rightarrow> pixel"

text \<open>The greatest difference of a channel; both have the three channels of RGB.\<close>

definition pixel_diff :: "pixel \<Rightarrow> pixel \<Rightarrow> int" where
  "pixel_diff a b = Max (set (map (\<lambda>i. \<bar>a ! i - b ! i\<bar>) [0..<min (min (length a) (length b)) 3]))"

section \<open>Regions\<close>

type_synonym cell = "int \<times> int"
type_synonym box = "int \<times> int \<times> int \<times> int"

text \<open>The smallest and greatest column and row so far.\<close>

definition extend_box :: "cell \<Rightarrow> box \<Rightarrow> box" where
  "extend_box c b = (case (c, b) of ((cx, cy), min_gx, max_gx, min_gy, max_gy) \<Rightarrow>
     (min min_gx cx, max max_gx cx, min min_gy cy, max max_gy cy))"

definition in_grid :: "int \<Rightarrow> int \<Rightarrow> cell \<Rightarrow> bool" where
  "in_grid grid_w grid_h c \<longleftrightarrow> 0 \<le> fst c \<and> fst c < grid_w \<and> 0 \<le> snd c \<and> snd c < grid_h"

lemma finite_grid [simp]: "finite {c. in_grid grid_w grid_h c}"
proof -
  have "{c. in_grid grid_w grid_h c} \<subseteq> {0..<grid_w} \<times> {0..<grid_h}" by (auto simp: in_grid_def)
  then show ?thesis by (rule finite_subset) simp
qed

text \<open>The flood fill; the top of the stack is the head of the list.\<close>

function flood :: "(cell \<Rightarrow> bool) \<Rightarrow> int \<Rightarrow> int \<Rightarrow> cell list \<Rightarrow> cell set \<Rightarrow> box \<Rightarrow> cell set \<times> box" where
  "flood changed grid_w grid_h [] visited b = (visited, b)"
| "flood changed grid_w grid_h (c # stack) visited b =
     (if \<not> in_grid grid_w grid_h c then flood changed grid_w grid_h stack visited b
      else if c \<in> visited \<or> \<not> changed c then flood changed grid_w grid_h stack visited b
      else flood changed grid_w grid_h
        ((fst c, snd c + 1) # (fst c, snd c - 1) # (fst c + 1, snd c) # (fst c - 1, snd c) # stack)
        (insert c visited) (extend_box c b))"
  by pat_completeness auto

termination
proof (relation "measures [\<lambda>(changed, grid_w, grid_h, stack, visited, b). card ({c. in_grid grid_w grid_h c} - visited),
    \<lambda>(changed, grid_w, grid_h, stack, visited, b). length stack]", goal_cases)
  case (4 changed grid_w grid_h c stack visited b)
  have "{d. in_grid grid_w grid_h d} - insert c visited = ({d. in_grid grid_w grid_h d} - visited) - {c}" by blast
  moreover have "card (({d. in_grid grid_w grid_h d} - visited) - {c}) < card ({d. in_grid grid_w grid_h d} - visited)"
    using 4 by (intro card_Diff1_less) auto
  ultimately show ?case by simp
qed simp_all

record region =
  reg_x :: int
  reg_y :: int
  reg_w :: int
  reg_h :: int

definition box_region :: "int \<Rightarrow> int \<Rightarrow> int \<Rightarrow> box \<Rightarrow> region" where
  "box_region block_size img_w img_h b = (case b of (min_gx, max_gx, min_gy, max_gy) \<Rightarrow>
     \<lparr>reg_x = min_gx * block_size, reg_y = min_gy * block_size,
       reg_w = min ((max_gx + 1) * block_size) img_w - min_gx * block_size,
       reg_h = min ((max_gy + 1) * block_size) img_h - min_gy * block_size\<rparr>)"

text \<open>One cell of the scan: a changed cell that no region has yet starts one.\<close>

definition scan_cell :: "(cell \<Rightarrow> bool) \<Rightarrow> int \<Rightarrow> int \<Rightarrow> cell \<Rightarrow> cell set \<times> box list \<Rightarrow> cell set \<times> box list" where
  "scan_cell changed grid_w grid_h c s =
     (if changed c \<and> c \<notin> fst s then
        (let (visited, b) = flood changed grid_w grid_h [c] (fst s) (fst c, fst c, snd c, snd c)
         in (visited, snd s @ [b]))
      else s)"

definition grid_cells :: "nat \<Rightarrow> nat \<Rightarrow> cell list" where
  "grid_cells grid_w grid_h = concat (map (\<lambda>gy. map (\<lambda>gx. (int gx, int gy)) [0..<grid_w]) [0..<grid_h])"

definition detect_boxes :: "(cell \<Rightarrow> bool) \<Rightarrow> nat \<Rightarrow> nat \<Rightarrow> box list" where
  "detect_boxes changed grid_w grid_h =
     snd (fold (scan_cell changed (int grid_w) (int grid_h)) (grid_cells grid_w grid_h) ({}, []))"

definition detect_regions :: "(cell \<Rightarrow> bool) \<Rightarrow> nat \<Rightarrow> nat \<Rightarrow> nat \<Rightarrow> nat \<Rightarrow> nat \<Rightarrow> region list" where
  "detect_regions changed grid_w grid_h block_size img_w img_h =
     map (box_region (int block_size) (int img_w) (int img_h)) (detect_boxes changed grid_w grid_h)"

section \<open>Comparing\<close>

record diff_state =
  changed_pixels :: nat
  block_changed :: "nat \<times> nat \<Rightarrow> nat"
  block_total :: "nat \<times> nat \<Rightarrow> nat"
  diff_pixel :: "nat \<times> nat \<Rightarrow> pixel"

definition count_one :: "nat \<times> nat \<Rightarrow> (nat \<times> nat \<Rightarrow> nat) \<Rightarrow> (nat \<times> nat \<Rightarrow> nat)" where
  "count_one k f = f(k := f k + 1)"

definition compare_pixel :: "int \<Rightarrow> image \<Rightarrow> image \<Rightarrow> nat \<times> nat \<Rightarrow> diff_state \<Rightarrow> diff_state" where
  "compare_pixel threshold a b xy s =
     (let block = (fst xy div BLOCK_SIZE, snd xy div BLOCK_SIZE);
          s1 = s\<lparr>block_total := count_one block (block_total s)\<rparr>
      in if threshold < pixel_diff (img_pixel a xy) (img_pixel b xy) then
           s1\<lparr>changed_pixels := changed_pixels s1 + 1, block_changed := count_one block (block_changed s1),
             diff_pixel := (diff_pixel s1)(xy := [255, 0, 255])\<rparr>
         else s1)"

definition pixels_of :: "nat \<Rightarrow> nat \<Rightarrow> (nat \<times> nat) list" where
  "pixels_of w h = concat (map (\<lambda>y. map (\<lambda>x. (x, y)) [0..<w]) [0..<h])"

text \<open>The first image at half brightness.\<close>

definition dimmed :: "image \<Rightarrow> nat \<times> nat \<Rightarrow> pixel" where
  "dimmed a xy = map (\<lambda>v. v div 2) (img_pixel a xy)"

text \<open>
  A block has changed when more than 5 percent of its pixels have. The quotient of the two counts,
  of at most 256, is compared to 0.05 as a floating point number: it rounds to 0.05 exactly when
  it is a twentieth, and else is far from it.
\<close>

definition block_is_changed :: "diff_state \<Rightarrow> nat \<times> nat \<Rightarrow> bool" where
  "block_is_changed s k \<longleftrightarrow> 0 < block_total s k \<and> block_total s k < 20 * block_changed s k"

definition compare_loop :: "int \<Rightarrow> image \<Rightarrow> image \<Rightarrow> diff_state" where
  "compare_loop threshold a b =
     (let w = min (img_width a) (img_width b); h = min (img_height a) (img_height b)
      in fold (compare_pixel threshold a b) (pixels_of w h)
        \<lparr>changed_pixels = 0, block_changed = (\<lambda>_. 0), block_total = (\<lambda>_. 0), diff_pixel = dimmed a\<rparr>)"

record comparison =
  all_pixels :: nat
  number_changed :: nat
  change_percent :: string
  identical :: bool
  dimensions_match :: bool
  size_a :: "nat list"
  size_b :: "nat list"
  regions :: "region list"
  diff_image :: image

text \<open>The percentage is shown by \<open>percent\<close>, the rounding of a floating point number.\<close>

definition compare_screenshots :: "bool \<Rightarrow> (nat \<Rightarrow> nat \<Rightarrow> string) \<Rightarrow> (region list \<Rightarrow> image \<Rightarrow> image) \<Rightarrow>
    image \<Rightarrow> image \<Rightarrow> int \<Rightarrow> comparison res" where
  "compare_screenshots has_pillow percent draw a b threshold =
     (if \<not> has_pillow then
        Inl (RuntimeError ''Pillow is required for screenshot diff. Install with: pip install Pillow'')
      else let w = min (img_width a) (img_width b); h = min (img_height a) (img_height b);
               grid_w = (w + BLOCK_SIZE - 1) div BLOCK_SIZE; grid_h = (h + BLOCK_SIZE - 1) div BLOCK_SIZE;
               s = compare_loop threshold a b;
               changed = (\<lambda>c. block_is_changed s (nat (fst c), nat (snd c)));
               rs = detect_regions changed grid_w grid_h BLOCK_SIZE w h
        in Inr \<lparr>all_pixels = w * h, number_changed = changed_pixels s,
             change_percent = (if 0 < w * h then percent (changed_pixels s) (w * h) else ''0.0''),
             identical = (changed_pixels s = 0),
             dimensions_match = ([img_width a, img_height a] = [img_width b, img_height b]),
             size_a = [img_width a, img_height a], size_b = [img_width b, img_height b], regions = rs,
             diff_image = draw rs \<lparr>img_width = w, img_height = h, img_pixel = diff_pixel s\<rparr>\<rparr>)"

section \<open>Counting\<close>

lemma set_pixels [simp]: "set (pixels_of w h) = {..<w} \<times> {..<h}" and distinct_pixels: "distinct (pixels_of w h)"
proof -
  show "set (pixels_of w h) = {..<w} \<times> {..<h}" by (auto simp: pixels_of_def)
  show "distinct (pixels_of w h)"
    unfolding pixels_of_def by (induction h) (auto simp: distinct_map inj_on_def)
qed

definition differs :: "int \<Rightarrow> image \<Rightarrow> image \<Rightarrow> nat \<times> nat \<Rightarrow> bool" where
  "differs threshold a b xy \<longleftrightarrow> threshold < pixel_diff (img_pixel a xy) (img_pixel b xy)"

definition block_of :: "nat \<times> nat \<Rightarrow> nat \<times> nat" where
  "block_of xy = (fst xy div BLOCK_SIZE, snd xy div BLOCK_SIZE)"

lemma compare_pixel_fields:
  "compare_pixel threshold a b p s =
    \<lparr>changed_pixels = changed_pixels s + (if differs threshold a b p then 1 else 0),
     block_changed = (\<lambda>k. block_changed s k + (if differs threshold a b p \<and> block_of p = k then 1 else 0)),
     block_total = (\<lambda>k. block_total s k + (if block_of p = k then 1 else 0)),
     diff_pixel = (\<lambda>q. if q = p \<and> differs threshold a b p then [255, 0, 255] else diff_pixel s q)\<rparr>"
  by (cases s) (auto simp: compare_pixel_def Let_def differs_def block_of_def count_one_def fun_eq_iff)

lemma card_member:
  "p \<notin> set ps \<Longrightarrow> card {q \<in> set (p # ps). P q} = (if P p then 1 else 0) + card {q \<in> set ps. P q}"
proof -
  assume p: "p \<notin> set ps"
  have "{q \<in> set (p # ps). P q} = (if P p then insert p {q \<in> set ps. P q} else {q \<in> set ps. P q})" by auto
  then show ?thesis using p by simp
qed

lemma compare_fold:
  "distinct ps \<Longrightarrow> fold (compare_pixel threshold a b) ps s =
    \<lparr>changed_pixels = changed_pixels s + card {p \<in> set ps. differs threshold a b p},
     block_changed = (\<lambda>k. block_changed s k + card {p \<in> set ps. differs threshold a b p \<and> block_of p = k}),
     block_total = (\<lambda>k. block_total s k + card {p \<in> set ps. block_of p = k}),
     diff_pixel = (\<lambda>p. if p \<in> set ps \<and> differs threshold a b p then [255, 0, 255] else diff_pixel s p)\<rparr>"
proof (induction ps arbitrary: s)
  case (Cons p ps)
  then have p: "p \<notin> set ps" "distinct ps" by simp_all
  show ?case
    unfolding card_member [OF p(1)] using Cons.IH [OF p(2)]
    by (simp add: compare_pixel_fields fun_eq_iff) auto
qed simp

text \<open>
  The comparison counts what differs: on the part the two images share, the number of changed
  pixels is the number of pixels of which some channel differs by more than the threshold, every
  block counts those in it, the images are called identical exactly when there are none, and the
  picture shows exactly these in magenta on the first image at half brightness.
\<close>

theorem comparison_counts:
  assumes "w = min (img_width a) (img_width b)" and "h = min (img_height a) (img_height b)"
    and "s = compare_loop threshold a b"
  shows "changed_pixels s = card {p \<in> {..<w} \<times> {..<h}. differs threshold a b p} \<and>
    block_changed s k = card {p \<in> {..<w} \<times> {..<h}. differs threshold a b p \<and> block_of p = k} \<and>
    block_total s k = card {p \<in> {..<w} \<times> {..<h}. block_of p = k} \<and>
    (changed_pixels s = 0 \<longleftrightarrow> (\<forall>p \<in> {..<w} \<times> {..<h}. \<not> differs threshold a b p)) \<and>
    (\<forall>p \<in> {..<w} \<times> {..<h}. diff_pixel s p = (if differs threshold a b p then [255, 0, 255] else map (\<lambda>v. v div 2) (img_pixel a p)))"
proof -
  have "s = \<lparr>changed_pixels = card {p \<in> {..<w} \<times> {..<h}. differs threshold a b p},
     block_changed = (\<lambda>k. card {p \<in> {..<w} \<times> {..<h}. differs threshold a b p \<and> block_of p = k}),
     block_total = (\<lambda>k. card {p \<in> {..<w} \<times> {..<h}. block_of p = k}),
     diff_pixel = (\<lambda>p. if p \<in> {..<w} \<times> {..<h} \<and> differs threshold a b p then [255, 0, 255] else dimmed a p)\<rparr>"
    unfolding assms compare_loop_def Let_def by (simp add: compare_fold distinct_pixels del: mem_Sigma_iff cong: if_cong)
  moreover have "finite {p \<in> {..<w} \<times> {..<h}. differs threshold a b p}" by (rule finite_subset [of _ "{..<w} \<times> {..<h}"]) auto
  ultimately show ?thesis by (simp add: dimmed_def del: mem_Sigma_iff) blast
qed

theorem comparison_counts_witness:
  "changed_pixels (compare_loop 10 \<lparr>img_width = 2, img_height = 1, img_pixel = \<lambda>p. [0, 0, 0]\<rparr>
     \<lparr>img_width = 2, img_height = 3, img_pixel = \<lambda>p. if p = (1, 0) then [0, 200, 0] else [5, 5, 5]\<rparr>) = 1"
proof -
  let ?a = "\<lparr>img_width = 2, img_height = 1, img_pixel = \<lambda>p. [0, 0, 0]\<rparr> :: image"
  let ?b = "\<lparr>img_width = 2, img_height = 3, img_pixel = \<lambda>p. if p = (1, 0) then [0, 200, 0] else [5, 5, 5]\<rparr> :: image"
  have "pixel_diff [0, 0, 0] [0, 200, 0] = 200" "pixel_diff [0, 0, 0] [5, 5, 5] = 5" by code_simp+
  then have "{p \<in> {..<2} \<times> {..<1}. differs 10 ?a ?b p} = {(1, 0)}" by (auto simp: differs_def)
  then show ?thesis using comparison_counts [OF refl refl refl, where a = ?a and b = ?b and threshold = 10] by simp
qed

section \<open>The flood fill finds components\<close>

definition neighbours :: "cell \<Rightarrow> cell set" where
  "neighbours c = {(fst c, snd c + 1), (fst c, snd c - 1), (fst c + 1, snd c), (fst c - 1, snd c)}"

text \<open>The changed cells of the grid, and those connected to a cell through neighbours.\<close>

definition changed_cells :: "(cell \<Rightarrow> bool) \<Rightarrow> int \<Rightarrow> int \<Rightarrow> cell set" where
  "changed_cells changed grid_w grid_h = {c. in_grid grid_w grid_h c \<and> changed c}"

definition touching :: "cell set \<Rightarrow> (cell \<times> cell) set" where
  "touching G = {(c, d). c \<in> G \<and> d \<in> G \<and> d \<in> neighbours c}"

definition component :: "cell set \<Rightarrow> cell \<Rightarrow> cell set" where
  "component G s = (touching G)\<^sup>* `` {s}"

definition box_of :: "cell set \<Rightarrow> box" where
  "box_of S = (Min (fst ` S), Max (fst ` S), Min (snd ` S), Max (snd ` S))"

text \<open>Closed under neighbours in \<open>G\<close>, up to the cells of \<open>T\<close>.\<close>

definition closed_in :: "cell set \<Rightarrow> cell set \<Rightarrow> cell set \<Rightarrow> bool" where
  "closed_in G T S \<longleftrightarrow> (\<forall>c \<in> S. \<forall>d \<in> G. d \<in> neighbours c \<longrightarrow> d \<in> S \<union> T)"

lemma extend_box_of:
  assumes "finite S" and "S \<noteq> {}"
  shows "extend_box c (box_of S) = box_of (insert c S)"
  using assms by (cases c) (simp add: extend_box_def box_of_def min.commute max.commute)

lemma flood_fills:
  assumes "visited = V \<union> S" and "C \<inter> V = {}" and "S \<subseteq> C" and "C \<subseteq> G" and "G = changed_cells changed grid_w grid_h"
    and "closed_in G {} C" and "set stack \<inter> G \<subseteq> C" and "closed_in G (set stack) S" and "b = box_of (insert s S)"
  shows "\<exists>S'. flood changed grid_w grid_h stack visited b = (V \<union> S', box_of (insert s S')) \<and>
    S \<subseteq> S' \<and> S' \<subseteq> C \<and> set stack \<inter> G \<subseteq> S' \<and> closed_in G {} S'"
  using assms
proof (induction changed grid_w grid_h stack visited b arbitrary: S rule: flood.induct)
  case (1 changed grid_w grid_h visited b)
  then show ?case by (intro exI [of _ S]) simp
next
  case (2 changed grid_w grid_h c stack visited b)
  note G = \<open>G = changed_cells changed grid_w grid_h\<close>
  consider "\<not> in_grid grid_w grid_h c" | "in_grid grid_w grid_h c" "c \<in> visited \<or> \<not> changed c" | "in_grid grid_w grid_h c" "\<not> (c \<in> visited \<or> \<not> changed c)"
    by blast
  then show ?case
  proof cases
    case 1
    then have c: "c \<notin> G" by (simp add: G changed_cells_def)
    have "set stack \<inter> G \<subseteq> C" "closed_in G (set stack) S" using "2.prems"(7,8) c by (auto simp: closed_in_def)
    from "2.IH"(1) [OF 1 "2.prems"(1-6) this "2.prems"(9)] c 1 show ?thesis by auto
  next
    case 2
    then have c: "c \<notin> G \<or> c \<in> S" using "2.prems"(1,2,7) by (auto simp: G changed_cells_def)
    have "set stack \<inter> G \<subseteq> C" "closed_in G (set stack) S" using "2.prems"(7,8) c by (auto simp: closed_in_def)
    from "2.IH"(2) [OF _ 2(2) "2.prems"(1-6) this "2.prems"(9)] 2 c show ?thesis by auto
  next
    case 3
    let ?st = "(fst c, snd c + 1) # (fst c, snd c - 1) # (fst c + 1, snd c) # (fst c - 1, snd c) # stack"
    have c: "c \<in> G" "c \<in> C" "c \<notin> S" using 3 "2.prems"(1,7) by (auto simp: G changed_cells_def)
    have st: "set ?st = neighbours c \<union> set stack" by (auto simp: neighbours_def)
    have "finite S" using "2.prems"(3,4) finite_grid by (rule_tac finite_subset [of _ G]) (auto simp: G changed_cells_def intro: finite_subset [OF _ finite_grid])
    then have b: "extend_box c b = box_of (insert s (insert c S))"
      using extend_box_of [of "insert s S" c] "2.prems"(9) by (simp add: insert_commute)
    have p: "insert c visited = V \<union> insert c S" "insert c S \<subseteq> C" using "2.prems"(1,3) c by auto
    have q: "set ?st \<inter> G \<subseteq> C" using "2.prems"(6,7) c unfolding st by (auto simp: closed_in_def)
    have r: "closed_in G (set ?st) (insert c S)" using "2.prems"(8) unfolding st by (auto simp: closed_in_def)
    have "\<not> \<not> in_grid grid_w grid_h c" using 3(1) by simp
    from "2.IH"(3) [OF this 3(2) p(1) "2.prems"(2) p(2) "2.prems"(4-6) q r b] obtain S' where
      "flood changed grid_w grid_h ?st (insert c visited) (extend_box c b) = (V \<union> S', box_of (insert s S'))"
      "insert c S \<subseteq> S'" "S' \<subseteq> C" "set ?st \<inter> G \<subseteq> S'" "closed_in G {} S'" by blast
    then show ?thesis using 3 unfolding st by (intro exI [of _ S']) auto
  qed
qed

declare flood.simps(2) [simp del]

lemma component_self: "s \<in> component G s"
  by (simp add: component_def)

lemma component_closed: "closed_in G {} (component G s)" if "s \<in> G"
proof -
  have "c \<in> G" if "c \<in> component G s" for c
    using that \<open>s \<in> G\<close> by (auto simp: component_def touching_def elim: rtranclE)
  then have "(c, d) \<in> touching G" if "c \<in> component G s" "d \<in> G" "d \<in> neighbours c" for c d
    using that by (simp add: touching_def)
  then show ?thesis unfolding closed_in_def component_def by (blast intro: rtrancl_into_rtrancl)
qed

lemma component_sub: "s \<in> G \<Longrightarrow> component G s \<subseteq> G"
  by (auto simp: component_def touching_def elim: rtranclE)

lemma closed_component: "closed_in G {} S \<Longrightarrow> s \<in> S \<Longrightarrow> component G s \<subseteq> S"
proof
  fix d assume "closed_in G {} S" "s \<in> S" "d \<in> component G s"
  then have "(s, d) \<in> (touching G)\<^sup>*" by (simp add: component_def)
  then show "d \<in> S"
    by (induction rule: rtrancl_induct) (use \<open>closed_in G {} S\<close> \<open>s \<in> S\<close> in \<open>auto simp: closed_in_def touching_def\<close>)
qed

lemma component_sym: "d \<in> component G s \<Longrightarrow> s \<in> component G d"
proof -
  have "sym (touching G)" by (auto simp: sym_def touching_def neighbours_def)
  then have "sym ((touching G)\<^sup>*)" by (rule sym_rtrancl)
  then show "d \<in> component G s \<Longrightarrow> s \<in> component G d" unfolding component_def by (blast dest: symD)
qed

lemma component_trans: "d \<in> component G s \<Longrightarrow> e \<in> component G d \<Longrightarrow> e \<in> component G s"
  by (auto simp: component_def)

lemma flood_component:
  assumes "G = changed_cells changed grid_w grid_h" and "s \<in> G" and "component G s \<inter> V = {}"
  shows "flood changed grid_w grid_h [s] V (fst s, fst s, snd s, snd s) = (V \<union> component G s, box_of (component G s))"
proof -
  have b: "(fst s, fst s, snd s, snd s) = box_of (insert s {})" by (simp add: box_of_def)
  have self: "set [s] \<inter> G \<subseteq> component G s" using component_self [of s G] by auto
  have "closed_in G (set [s]) {}" "V = V \<union> {}" "{} \<subseteq> component G s" by (simp_all add: closed_in_def)
  from flood_fills [OF this(2) assms(3) this(3) component_sub [OF assms(2)] assms(1) component_closed [OF assms(2)] self this(1) b]
  obtain S' where S: "flood changed grid_w grid_h [s] V (fst s, fst s, snd s, snd s) = (V \<union> S', box_of (insert s S'))"
    "S' \<subseteq> component G s" "set [s] \<inter> G \<subseteq> S'" "closed_in G {} S'" by blast
  have s: "s \<in> S'" using S(3) assms(2) by simp
  have "S' = component G s" using S(2) closed_component [OF S(4) s] by (rule subset_antisym)
  moreover have "insert s S' = S'" using s by (rule insert_absorb)
  ultimately show ?thesis using S(1) by (simp only:)
qed

text \<open>The scan: regions for the components met so far.\<close>

definition found :: "cell set \<Rightarrow> cell list \<Rightarrow> cell set \<times> box list \<Rightarrow> bool" where
  "found G reps s \<longleftrightarrow>
     set reps \<subseteq> G \<and> distinct (map (component G) reps) \<and> fst s = (\<Union>r \<in> set reps. component G r) \<and>
     snd s = map (\<lambda>r. box_of (component G r)) reps"

lemma scan_cell_found:
  assumes "found G reps s" and "G = changed_cells changed grid_w grid_h" and "in_grid grid_w grid_h c"
  shows "\<exists>reps'. found G reps' (scan_cell changed grid_w grid_h c s) \<and> fst s \<subseteq> fst (scan_cell changed grid_w grid_h c s) \<and>
    (c \<in> G \<longrightarrow> c \<in> fst (scan_cell changed grid_w grid_h c s))"
proof (cases "changed c \<and> c \<notin> fst s")
  case False
  then have s: "scan_cell changed grid_w grid_h c s = s" unfolding scan_cell_def by (rule if_not_P)
  have "c \<in> G \<longrightarrow> c \<in> fst s" using False assms(2) by (simp add: changed_cells_def)
  with assms(1) show ?thesis unfolding s by blast
next
  case True
  then have c: "c \<in> G" using assms(2,3) by (simp add: changed_cells_def)
  have new: "c \<notin> component G r" if "r \<in> set reps" for r
    using True assms(1) that by (auto simp: found_def)
  have disj: "component G c \<inter> fst s = {}"
  proof (rule ccontr)
    assume "component G c \<inter> fst s \<noteq> {}"
    then obtain d r where d: "d \<in> component G c" "r \<in> set reps" "d \<in> component G r"
      using assms(1) unfolding found_def by blast
    from component_trans [OF d(3) component_sym [OF d(1)]] new [OF d(2)] show False by simp
  qed
  from flood_component [OF assms(2) c disj] have
    s: "scan_cell changed grid_w grid_h c s = (fst s \<union> component G c, snd s @ [box_of (component G c)])"
    using True by (simp add: scan_cell_def)
  have "component G c \<noteq> component G r" if "r \<in> set reps" for r
    using new [OF that] component_self [of c G] by metis
  then have "found G (reps @ [c]) (scan_cell changed grid_w grid_h c s)"
    using assms(1) c unfolding s by (auto simp: found_def)
  then show ?thesis using component_self [of c G] unfolding s by (intro exI [of _ "reps @ [c]"]) simp
qed

lemma scan_cells_found:
  assumes "found G reps s" and "G = changed_cells changed grid_w grid_h" and "list_all (in_grid grid_w grid_h) cs"
  shows "\<exists>reps'. found G reps' (fold (scan_cell changed grid_w grid_h) cs s) \<and>
    fst s \<union> (set cs \<inter> G) \<subseteq> fst (fold (scan_cell changed grid_w grid_h) cs s)"
  using assms(1,3)
proof (induction cs arbitrary: s reps)
  case (Cons c cs)
  then have "in_grid grid_w grid_h c" "list_all (in_grid grid_w grid_h) cs" by simp_all
  from scan_cell_found [OF Cons.prems(1) assms(2) this(1)] obtain reps1 where
    1: "found G reps1 (scan_cell changed grid_w grid_h c s)" "fst s \<subseteq> fst (scan_cell changed grid_w grid_h c s)"
      "c \<in> G \<longrightarrow> c \<in> fst (scan_cell changed grid_w grid_h c s)" by blast
  from Cons.IH [OF 1(1) \<open>list_all (in_grid grid_w grid_h) cs\<close>] 1(2,3) show ?case by (simp, blast)
qed auto

lemma grid_cells_set: "set (grid_cells w h) = {c. in_grid (int w) (int h) c}"
proof -
  have "c \<in> set (grid_cells w h) \<longleftrightarrow> (\<exists>x < w. \<exists>y < h. c = (int x, int y))" for c
    by (auto simp: grid_cells_def image_iff Bex_def)
  moreover have "in_grid (int w) (int h) c \<longleftrightarrow> (\<exists>x < w. \<exists>y < h. c = (int x, int y))" for c
    by (cases c) (auto simp: in_grid_def intro: exI [of _ "nat (fst c)"] exI [of _ "nat (snd c)"] simp flip: zless_nat_eq_int_zless
      dest!: zero_le_imp_eq_int)
  ultimately show ?thesis by blast
qed

text \<open>
  C25. The regions are the components: the flood fill gives one region for each connected component
  of changed blocks, and no other; each region is the smallest rectangle of blocks around its
  component, in pixels, cut off at the border of the image.
\<close>

theorem regions_are_components:
  "\<exists>reps. set reps \<subseteq> changed_cells changed (int grid_w) (int grid_h) \<and>
     distinct (map (component (changed_cells changed (int grid_w) (int grid_h))) reps) \<and>
     (\<Union>r \<in> set reps. component (changed_cells changed (int grid_w) (int grid_h)) r) = changed_cells changed (int grid_w) (int grid_h) \<and>
     detect_regions changed grid_w grid_h block_size img_w img_h =
       map (\<lambda>r. box_region (int block_size) (int img_w) (int img_h)
         (box_of (component (changed_cells changed (int grid_w) (int grid_h)) r))) reps"
proof -
  let ?G = "changed_cells changed (int grid_w) (int grid_h)"
  let ?fin = "fold (scan_cell changed (int grid_w) (int grid_h)) (grid_cells grid_w grid_h) ({}, [])"
  have "found ?G [] ({}, [])" by (simp add: found_def)
  moreover have "list_all (in_grid (int grid_w) (int grid_h)) (grid_cells grid_w grid_h)"
    by (simp add: list_all_iff grid_cells_set)
  ultimately obtain reps where reps: "found ?G reps ?fin" "set (grid_cells grid_w grid_h) \<inter> ?G \<subseteq> fst ?fin"
    using scan_cells_found [OF _ refl, of changed "int grid_w" "int grid_h" "[]" "({}, [])" "grid_cells grid_w grid_h"] by auto
  then have "?G \<subseteq> (\<Union>r \<in> set reps. component ?G r)"
    unfolding grid_cells_set found_def by (auto simp: changed_cells_def)
  moreover have "(\<Union>r \<in> set reps. component ?G r) \<subseteq> ?G"
    using reps(1) component_sub unfolding found_def by blast
  ultimately show ?thesis
    using reps(1) by (intro exI [of _ reps]) (simp add: found_def detect_regions_def detect_boxes_def)
qed

end
