(* ===== verification/Tools.thy ===== *)
theory Tools
  imports Listing Copper File_Transfer
begin

text \<open>
  The tools a client of the bench calls (\<open>mcp_tools.py\<close>): how they send a command and collect
  events until a deadline, and the tools for memory, files, scripts and programs. A tool is a task
  like a transfer: its result is the text it answers, or the exception that leaves it.

  Texts with characters outside latin-1 are written as their UTF-8 bytes; timeouts that are shown
  are whole seconds. Entries of messages that the parser always sets are read like those with a
  default.
\<close>

section \<open>Values as text\<close>

text \<open>\<open>str(v)\<close> of the values the tools show; lists and dictionaries are never shown as such.\<close>

fun py_str :: "pyval \<Rightarrow> string" where
  "py_str VNone = ''None''"
| "py_str (VBool b) = (if b then ''True'' else ''False'')"
| "py_str (VInt i) = fmt_dec i"
| "py_str (VStr s) = s"
| "py_str (VList vs) = ''[...]''"
| "py_str (VDict d) = ''{...}''"

definition shown :: "pydict \<Rightarrow> string \<Rightarrow> string \<Rightarrow> string" where
  "shown d k dflt = (case map_of d k of None \<Rightarrow> dflt | Some v \<Rightarrow> py_str v)"

text \<open>A field of a given width: numbers are aligned to the right, texts to the left.\<close>

definition shown_pad :: "nat \<Rightarrow> pydict \<Rightarrow> string \<Rightarrow> string \<Rightarrow> string" where
  "shown_pad w d k dflt =
     (case map_of d k of Some (VInt i) \<Rightarrow> fmt_right w (fmt_dec i) | _ \<Rightarrow> fmt_left w (shown d k dflt))"

definition as_list :: "pyval \<Rightarrow> pyval list" where
  "as_list v = (case v of VList vs \<Rightarrow> vs | _ \<Rightarrow> [])"

definition get_list :: "pydict \<Rightarrow> string \<Rightarrow> pyval list" where
  "get_list d k = as_list (dict_get d k (VList []))"

definition em_dash :: string where
  "em_dash = [CHR 0xE2, CHR 0x80, CHR 0x94]"

definition quoted :: "string \<Rightarrow> string" where
  "quoted s = CHR 0x27 # s @ [CHR 0x27]"

definition newline :: string where
  "newline = [CHR 0x0A]"

definition text_lines :: "string list \<Rightarrow> string" where
  "text_lines = py_join newline"

text \<open>\<open>n / 1000\<close> as a floating point number is shown, for a number of milliseconds.\<close>

definition thousandths :: "int \<Rightarrow> string" where
  "thousandths n =
     (let m = \<bar>n\<bar>; frac = rstrip_char (CHR ''0'') (fmt_dec_pad 3 (m mod 1000))
      in (if n < 0 then ''-'' else '''') @ fmt_dec (m div 1000) @ ''.'' @ (if frac = [] then ''0'' else frac))"

text \<open>\<open>s.replace(a + b, c)\<close> and \<open>s.split(p)[0]\<close>.\<close>

fun replace_pair :: "char \<Rightarrow> char \<Rightarrow> string \<Rightarrow> string \<Rightarrow> string" where
  "replace_pair a b c (x # y # s) =
     (if x = a \<and> y = b then c @ replace_pair a b c s else x # replace_pair a b c (y # s))"
| "replace_pair a b c s = s"

fun before_text :: "string \<Rightarrow> string \<Rightarrow> string" where
  "before_text p [] = []"
| "before_text p (c # s) = (if py_startswith (c # s) p then [] else c # before_text p s)"

definition replace_char :: "char \<Rightarrow> char \<Rightarrow> string \<Rightarrow> string" where
  "replace_char a b = map (\<lambda>c. if c = a then b else c)"

definition py_rstrip :: "string \<Rightarrow> string" where
  "py_rstrip s = rev (dropWhile is_space (rev s))"

section \<open>Sending and collecting\<close>

definition lift_res :: "'a res \<Rightarrow> 'a gm" where
  "lift_res r = (case r of Inl e \<Rightarrow> throw e | Inr x \<Rightarrow> ret x)"

text \<open>\<open>_require_connected\<close>\<close>

definition connected_tool :: "'a gm \<Rightarrow> 'a gm" where
  "connected_tool body g = (if conn_up (link g) then body g else throw (RuntimeError ''Not connected to Amiga'') g)"

definition bridge_no_response :: "string \<Rightarrow> string gm" where
  "bridge_no_response cmd_name g =
     ret (if \<not> conn_up (link g) then
        ''ERROR: lost connection to the Amiga bridge '' @ em_dash @ '' '' @ quoted cmd_name @ '' could not be delivered. Reconnect and retry '' @
        ''(this is a connection failure, not an unsupported command).''
      else
        ''ERROR: the Amiga bridge did not respond to '' @ quoted cmd_name @ '' within the timeout. It is reachable but not answering '' @
        em_dash @ '' most likely busy running a long command or wedged. This is a communication timeout, NOT an unsupported command.'') g"

text \<open>
  The loop of the tools: the events of a subscription are taken one by one until the deadline. A
  turn returns from the tool, leaves the loop, or goes on with a new state.
\<close>

datatype ('a, 's) turn = Return 'a | Raise exn | Break 's | Next 's

fun poll :: "('s \<Rightarrow> string \<Rightarrow> pydict \<Rightarrow> ('a, 's) turn) \<Rightarrow> int \<Rightarrow> int \<Rightarrow> (int \<times> event) list \<Rightarrow> 's \<Rightarrow> 'a res + 's" where
  "poll turn deadline now [] s = Inr s"
| "poll turn deadline now ((t, evt, m) # later) s =
     (if deadline - now \<le> 0 \<or> deadline \<le> t then Inr s
      else case turn s evt (as_dict m) of
        Return x \<Rightarrow> Inl (Inr x)
      | Raise e \<Rightarrow> Inl (Inl e)
      | Break s' \<Rightarrow> Inr s'
      | Next s' \<Rightarrow> poll turn deadline (max now t) later s')"

definition collect :: "string list \<Rightarrow> int \<Rightarrow> ('s \<Rightarrow> string \<Rightarrow> pydict \<Rightarrow> ('a, 's) turn) \<Rightarrow> 's \<Rightarrow> ('s \<Rightarrow> 'a gm) \<Rightarrow> 'a gm" where
  "collect evs timeout turn s fin =
     bind (listen evs) (\<lambda>(now, got).
       case poll turn (now + timeout) now got s of
         Inl r \<Rightarrow> lift_res r
       | Inr s' \<Rightarrow> fin s')"

text \<open>The command is sent inside the subscription; nothing is published in between.\<close>

definition exchange :: "string list \<Rightarrow> command \<Rightarrow> int \<Rightarrow> ('s \<Rightarrow> string \<Rightarrow> pydict \<Rightarrow> ('a, 's) turn) \<Rightarrow> 's \<Rightarrow> ('s \<Rightarrow> 'a gm) \<Rightarrow> 'a gm" where
  "exchange evs cmd timeout turn s fin = bind (post cmd) (\<lambda>_. collect evs timeout turn s fin)"

text \<open>Send, wait for one event, and answer from its data; \<open>none\<close> when there is none.\<close>

definition request :: "command \<Rightarrow> string \<Rightarrow> int \<Rightarrow> (pyval \<Rightarrow> bool) option \<Rightarrow> (pydict \<Rightarrow> 'a gm) \<Rightarrow> 'a gm \<Rightarrow> 'a gm" where
  "request cmd ev timeout pred body none =
     bind (post cmd) (\<lambda>_. bind (await ev timeout pred) (\<lambda>m. if replied m then body (as_dict (the m)) else none))"

definition context_in :: "string \<Rightarrow> pydict \<Rightarrow> bool" where
  "context_in w d = py_in w (get_str d ''context'' '''')"

text \<open>\<open>_send_await\<close>\<close>

datatype answer = Ok_Data pydict | Err_Data pydict | No_Resp

definition send_await :: "command \<Rightarrow> string \<Rightarrow> (pydict \<Rightarrow> bool) \<Rightarrow> int \<Rightarrow> answer gm" where
  "send_await cmd target pred timeout =
     exchange [target, ''err''] cmd timeout
       (\<lambda>s evt d. if evt = ''err'' then Return (Err_Data d)
                  else if evt = target \<and> pred d then Return (Ok_Data d) else Next s)
       () (\<lambda>_. ret No_Resp)"

definition text_field_is :: "string \<Rightarrow> string \<Rightarrow> pydict \<Rightarrow> bool" where
  "text_field_is k w d = (dict_get d k VNone = VStr w)"

section \<open>Files and scripts\<close>

text \<open>\<open>decode("latin-1")\<close>\<close>

definition latin1 :: "byte list \<Rightarrow> string" where
  "latin1 = map (\<lambda>b. char_of (unat b))"

text \<open>
  \<open>_read_amiga_file_text\<close>: the offset is the number of bytes collected. A chunk goes on only when
  it is full, so the loop ends.
\<close>

function read_amiga_file_text :: "string \<Rightarrow> nat \<Rightarrow> int \<Rightarrow> byte list \<Rightarrow> string option gm" where
  "read_amiga_file_text path max_bytes per_chunk_timeout collected =
     (if max_bytes \<le> length collected then ret (Some (latin1 collected))
      else bind (exchange [''file'', ''err'']
            [(''type'', AStr ''READFILE''), (''path'', AStr path), (''offset'', AInt (int (length collected))), (''size'', AInt 4096)]
            per_chunk_timeout
            (\<lambda>s evt d. if evt = ''err'' then Return None
                       else if evt = ''file'' \<and> text_field_is ''path'' path d then Return (Some d) else Next s)
            () (\<lambda>_. ret None)) (\<lambda>got.
         case got of
           None \<Rightarrow> ret None
         | Some d \<Rightarrow>
             let hexd = get_str d ''hexData'' ''''
             in if hexd = [] then ret (Some (latin1 collected))
                else case bytes_fromhex hexd of
                  Inl e \<Rightarrow> throw e
                | Inr chunk \<Rightarrow>
                    if length chunk < 4096 then ret (Some (latin1 (collected @ chunk)))
                    else read_amiga_file_text path max_bytes per_chunk_timeout (collected @ chunk)))"
  by pat_completeness auto
termination by (relation "measure (\<lambda>(path, max_bytes, per_chunk_timeout, collected). max_bytes - length collected)") auto

declare read_amiga_file_text.simps [simp del]

definition SCRIPT_SENTINEL :: string where
  "SCRIPT_SENTINEL = ''###ABDONE###''"

datatype script_status = S_Ok | S_Running | S_Timeout | S_Disconnected | S_Error

text \<open>
  The polling of the capture file. \<open>clocks\<close> are the times read at the head of the loop, in order;
  the deadline has passed when they end.
\<close>

definition partial_output :: "string \<Rightarrow> string" where
  "partial_output prev = (if prev = [] then [] else py_rstrip (before_text SCRIPT_SENTINEL prev))"

fun script_poll :: "string \<Rightarrow> int \<Rightarrow> int list \<Rightarrow> string \<Rightarrow> (script_status \<times> string) gm" where
  "script_poll outfile deadline [] prev = ret (S_Running, partial_output prev)"
| "script_poll outfile deadline (t # clocks) prev =
     (if deadline \<le> t then ret (S_Running, partial_output prev)
      else bind (read_amiga_file_text outfile 65536 4000 []) (\<lambda>r g.
        case r of
          Some s \<Rightarrow>
            (if py_in SCRIPT_SENTINEL s then
               bind (post [(''type'', AStr ''DELETEFILE''), (''path'', AStr outfile)]) (\<lambda>_.
                 ret (S_Ok, py_rstrip (before_text SCRIPT_SENTINEL s))) g
             else bind pause (\<lambda>_. script_poll outfile deadline clocks s) g)
        | None \<Rightarrow>
            if \<not> conn_up (link g) then ret (S_Disconnected, '''') g
            else bind pause (\<lambda>_. script_poll outfile deadline clocks prev) g))"

text \<open>
  \<open>script_execute\<close>; \<open>cmd_id\<close> is made from the clock, and \<open>start\<close> the time when the launch has been
  acknowledged.
\<close>

definition script_execute :: "int \<Rightarrow> int \<Rightarrow> int list \<Rightarrow> string \<Rightarrow> int \<Rightarrow> (script_status \<times> string) gm" where
  "script_execute cmd_id start clocks script_line timeout =
     bind (exchange [''cmd'', ''err''] [(''type'', AStr ''SCRIPT''), (''id'', AInt cmd_id), (''script'', AStr script_line)] 10000
        (\<lambda>s evt d. if evt = ''err'' then Return (Inl (get_str d ''message'' ''Error''))
                   else if evt = ''cmd'' \<and> dict_get d ''id'' VNone = VInt cmd_id then Return (Inr (Some d)) else Next s)
        () (\<lambda>_. ret (Inr None))) (\<lambda>r g.
       case r of
         Inl text \<Rightarrow> ret (S_Error, text) g
       | Inr None \<Rightarrow> ret (if \<not> conn_up (link g) then S_Disconnected else S_Timeout, '''') g
       | Inr (Some ack) \<Rightarrow>
           let resp = get_str ack ''data'' ''''
           in if \<not> py_startswith resp ''ASYNC|'' then ret (S_Ok, replace_char (CHR '';'') (CHR 0x0A) resp) g
              else script_poll (py_strip (drop (length ''ASYNC|'') resp)) (start + timeout) clocks [] g)"

text \<open>\<open>list_dir_all\<close>: pages until all entries are there; every further page has entries.\<close>

datatype dir_list = Entries "pyval list" | Dir_Error string | Dir_Silent

function list_dir_pages :: "string \<Rightarrow> int \<Rightarrow> pyval list \<Rightarrow> dir_list gm" where
  "list_dir_pages path timeout entries =
     bind (send_await [(''type'', AStr ''LISTDIR''), (''path'', AStr path), (''offset'', AInt (int (length entries)))]
        ''dir'' (text_field_is ''path'' path) timeout) (\<lambda>r.
       case r of
         Err_Data _ \<Rightarrow> ret (Dir_Error (''Not found or unreadable: '' @ path))
       | No_Resp \<Rightarrow> ret (if entries = [] then Dir_Silent else Entries entries)
       | Ok_Data d \<Rightarrow>
           let page = get_list d ''entries''; all = get_int d ''count'' (int (length page)); entries' = entries @ page
           in if page = [] \<or> all \<le> int (length entries') \<or> 100000 < length entries' then ret (Entries entries')
              else list_dir_pages path timeout entries')"
  by pat_completeness auto
termination by (relation "measure (\<lambda>(path, timeout, entries). 100001 - length entries)") (auto simp flip: length_greater_0_conv)

declare list_dir_pages.simps [simp del]

definition list_dir_all :: "string \<Rightarrow> dir_list gm" where
  "list_dir_all path = list_dir_pages path 5000 []"

end
