(* ===== verification/Toolset.thy ===== *)
theory Toolset
  imports Tools
begin

text \<open>
  The tools of \<open>mcp_tools.py\<close> for logs, memory, variables, files and programs, each as the source
  has it: the command it sends, the events it waits for, and the text it answers.
\<close>

section \<open>Connection and logs\<close>

definition amiga_ping :: "string gm" where
  "amiga_ping = connected_tool (request [(''type'', AStr ''PING'')] ''pong'' 5000 None
     (\<lambda>d. ret (''Amiga alive - clients: '' @ shown d ''clientCount'' ''?'' @ '', chip: '' @ shown d ''freeChip'' ''?'' @
       '' bytes, fast: '' @ shown d ''freeFast'' ''?'' @ '' bytes''))
     (ret ''No response from Amiga (timeout)''))"

definition log_line :: "pydict \<Rightarrow> string" where
  "log_line l = ''['' @ level_name (shown l ''level'' '''') @ ''] tick='' @ shown l ''tick'' '''' @ '' '' @ shown l ''message'' ''''"

definition amiga_log :: "int \<Rightarrow> string option \<Rightarrow> string gm" where
  "amiga_log count level g =
     (let ls = get_recent_logs count level (app (hub (link g)))
      in ret (if ls = [] then ''No log messages'' else text_lines (map log_line ls)) g)"

text \<open>\<open>level.upper()[0]\<close>, when a level is given.\<close>

definition level_filter :: "string option \<Rightarrow> string option" where
  "level_filter level = (case level of Some (c # s) \<Rightarrow> Some [upper_char c] | _ \<Rightarrow> None)"

definition amiga_watch_logs :: "int \<Rightarrow> string option \<Rightarrow> string gm" where
  "amiga_watch_logs duration_ms level = connected_tool (collect [''log''] duration_ms
     (\<lambda>count evt d. case level_filter level of
          Some l \<Rightarrow> Next (if dict_get d ''level'' VNone \<noteq> VStr l then count else count + 1)
        | None \<Rightarrow> Next (count + 1 :: int)) 0
     (\<lambda>count. ret (''Log watch ended. '' @ fmt_dec count @ '' messages received in '' @ thousandths duration_ms @ ''s.'')))"

definition amiga_watch_status :: "int \<Rightarrow> string gm" where
  "amiga_watch_status duration_ms = connected_tool (collect [''heartbeat'', ''var''] duration_ms
     (\<lambda>(hb, var) evt d. Next (if evt = ''heartbeat'' then (hb + 1, var) else if evt = ''var'' then (hb, var + 1) else (hb, var)))
     (0 :: int, 0 :: int)
     (\<lambda>(hb, var). ret (''Status watch ended. '' @ fmt_dec hb @ '' heartbeats, '' @ fmt_dec var @ '' variable updates in '' @
       thousandths duration_ms @ ''s.'')))"

section \<open>Memory\<close>

text \<open>\<open>sum(c["size"] for c in chunks)\<close> and \<open>"".join(c["hexData"] for c in chunks)\<close>\<close>

definition received_bytes :: "pydict list \<Rightarrow> int" where
  "received_bytes ms = sum_list (map (\<lambda>c. get_int c ''size'' 0) ms)"

definition all_hex :: "pydict list \<Rightarrow> string" where
  "all_hex ms = concat (map (\<lambda>c. get_str c ''hexData'' '''') ms)"

text \<open>Memory chunks until there are enough; an error of the inspection is answered as \<open>refused\<close> says.\<close>

definition memory_turn :: "int \<Rightarrow> (pydict \<Rightarrow> string) \<Rightarrow> pydict list \<Rightarrow> string \<Rightarrow> pydict \<Rightarrow> (string, pydict list) turn" where
  "memory_turn expected refused ms evt d =
     (if evt = ''err'' \<and> context_in ''INSPECT'' d then Return (refused d)
      else if evt = ''mem'' then
        (if expected \<le> received_bytes (ms @ [d]) then Break (ms @ [d]) else Next (ms @ [d]))
      else Next ms)"

definition inspect_command :: "string \<Rightarrow> int \<Rightarrow> command" where
  "inspect_command address n = [(''type'', AStr ''INSPECT''), (''address'', AStr address), (''size'', AInt n)]"

definition amiga_inspect_memory :: "string \<Rightarrow> int \<Rightarrow> string gm" where
  "amiga_inspect_memory address sz =
     (let expected = min sz 4096
      in connected_tool (exchange [''mem'', ''err''] (inspect_command address expected) 15000
           (memory_turn expected (\<lambda>d. let m = get_str d ''message'' '''' in if m \<noteq> [] then m else ''Address not accessible'')) []
           (\<lambda>ms. if ms = [] then ret ''Timed out waiting for memory dump''
              else bind (lift_res (format_hex_dump address (all_hex ms))) (\<lambda>result.
                ret (if received_bytes ms < expected then result @ newline @ ''(partial - timed out)'' else result)))))"

text \<open>The project of the first table with a symbol for the address.\<close>

fun project_of :: "tables \<Rightarrow> int \<Rightarrow> string option" where
  "project_of [] addr = None"
| "project_of ((p, t) # ts) addr =
     (case lookup_address t addr of Some (c # s) \<Rightarrow> Some p | _ \<Rightarrow> project_of ts addr)"

definition amiga_disassemble :: "tables \<Rightarrow> string \<Rightarrow> int \<Rightarrow> string gm" where
  "amiga_disassemble ts address count = connected_tool
     (bind (lift_res (py_int 16 address)) (\<lambda>addr_int.
        let read_size = min (count * 10) 4096; addr_hex = fmt_hex True 8 addr_int
        in exchange [''mem'', ''err''] (inspect_command addr_hex read_size) 15000
          (memory_turn read_size (\<lambda>d. ''Cannot read memory at $'' @ addr_hex @ '': '' @ get_str d ''message'' ''not accessible'')) []
          (\<lambda>ms. if ms = [] then ret (''Timed out reading memory at $'' @ addr_hex)
             else bind (lift_res (disassemble_hex (all_hex ms) addr_int count)) (\<lambda>instructions.
               if instructions = [] then ret (''No instructions decoded at $'' @ addr_hex)
               else ret (format_listing ts instructions (project_of ts addr_int))))))"

definition amiga_write_memory :: "string \<Rightarrow> string \<Rightarrow> string gm" where
  "amiga_write_memory address hex_data = connected_tool
     (exchange [''ok'', ''err''] [(''type'', AStr ''WRITEMEM''), (''address'', AStr address), (''hexData'', AStr hex_data)] 3000
       (\<lambda>s evt d. if context_in ''WRITEMEM'' d then
          (if evt = ''ok'' then Return (''Wrote '' @ fmt_dec (int (length hex_data div 2)) @ '' bytes to 0x'' @ address)
           else Return (''Error: '' @ shown d ''message'' ''Write failed''))
        else Next s) ()
       (\<lambda>_. ret ''Write command sent (no confirmation)''))"

definition read_memregion_turn :: "pydict option \<Rightarrow> string \<Rightarrow> pydict \<Rightarrow> (string, pydict option) turn" where
  "read_memregion_turn s evt d =
     (if evt = ''err'' then Return (''Error: '' @ shown d ''message'' ''Unknown error'') else Break (Some d))"

definition amiga_read_memregion :: "string \<Rightarrow> string \<Rightarrow> string gm" where
  "amiga_read_memregion client region = connected_tool
     (exchange [''mem'', ''err''] [(''type'', AStr ''READMEMREG''), (''client'', AStr client), (''region'', AStr region)] 5000
       read_memregion_turn None
       (\<lambda>m. case m of None \<Rightarrow> ret ''Timed out waiting for memory region data''
          | Some d \<Rightarrow> lift_res (format_hex_dump (get_str d ''address'' '''') (get_str d ''hexData'' ''''))))"

section \<open>Variables, hooks and clients\<close>

definition amiga_get_var :: "string \<Rightarrow> string gm" where
  "amiga_get_var name = connected_tool (request [(''type'', AStr ''GETVAR''), (''name'', AStr name)] ''var'' 5000
     (Some (field_is ''name'' name))
     (\<lambda>d. ret (name @ '' ('' @ shown d ''varType'' ''?'' @ '') = '' @ shown d ''value'' ''?''))
     (\<lambda>g. case map_of (vars (app (hub (link g)))) name of
        Some (kv # d) \<Rightarrow> ret (name @ '' ('' @ shown (kv # d) ''varType'' ''?'' @ '') = '' @ shown (kv # d) ''value'' ''?'' @ '' (cached)'') g
      | _ \<Rightarrow> ret (''Variable '' @ quoted name @ '' not found or timed out'') g))"

definition amiga_set_var :: "string \<Rightarrow> string \<Rightarrow> string gm" where
  "amiga_set_var name val = connected_tool
     (bind (post [(''type'', AStr ''SETVAR''), (''name'', AStr name), (''value'', AStr val)]) (\<lambda>_. ret (''Set '' @ name @ '' = '' @ val)))"

definition amiga_exec :: "int \<Rightarrow> string \<Rightarrow> string gm" where
  "amiga_exec cmd_id cmdline = connected_tool
     (exchange [''cmd''] [(''type'', AStr ''EXEC''), (''id'', AInt cmd_id), (''expression'', AStr cmdline)] 5000
       (\<lambda>s evt d. if dict_get d ''id'' VNone = VInt cmd_id then Return (''['' @ shown d ''status'' '''' @ ''] '' @ shown d ''data'' '''') else Next s) ()
       (\<lambda>_. bridge_no_response ''exec''))"

definition names_text :: "pyval list \<Rightarrow> string" where
  "names_text vs = py_join '', '' (map py_str vs)"

definition amiga_list_clients :: "string gm" where
  "amiga_list_clients = connected_tool (request [(''type'', AStr ''LISTCLIENTS'')] ''clients'' 5000 None
     (\<lambda>d. let names = get_list d ''names''
          in ret (''Clients ('' @ fmt_dec (int (length names)) @ ''): '' @ (if names \<noteq> [] then names_text names else ''none'')))
     (bridge_no_response ''LISTCLIENTS''))"

definition for_client :: "string \<Rightarrow> string" where
  "for_client client = (if client \<noteq> [] then '' for '' @ client else '''')"

definition amiga_list_hooks :: "string \<Rightarrow> string gm" where
  "amiga_list_hooks client = connected_tool (request [(''type'', AStr ''LISTHOOKS''), (''client'', AStr client)] ''hooks'' 5000 None
     (\<lambda>d. let hooks = map as_dict (get_list d ''hooks'')
          in ret (if hooks = [] then ''No hooks registered'' @ for_client client
            else text_lines ((''Hooks for '' @ shown d ''client'' ''all'' @ '':'') #
              map (\<lambda>h. ''  '' @ shown h ''name'' '''' @ '': '' @ shown h ''description'' '''') hooks)))
     (ret ''No response''))"

definition amiga_call_hook :: "int \<Rightarrow> string \<Rightarrow> string \<Rightarrow> string \<Rightarrow> string gm" where
  "amiga_call_hook cmd_id client hook args = connected_tool
     (exchange [''cmd''] [(''type'', AStr ''CALLHOOK''), (''id'', AInt cmd_id), (''client'', AStr client), (''hook'', AStr hook), (''args'', AStr args)] 5000
       (\<lambda>s evt d. if dict_get d ''id'' VNone = VInt cmd_id
          then Return (''['' @ shown d ''status'' '''' @ ''] '' @
            replace_pair (CHR 0x5C) (CHR ''|'') ''|'' (replace_pair (CHR 0x5C) (CHR ''n'') newline (get_str d ''data'' '''')))
          else Next s) ()
       (\<lambda>_. ret ''Hook call timed out''))"

definition amiga_list_memregions :: "string \<Rightarrow> string gm" where
  "amiga_list_memregions client = connected_tool (request [(''type'', AStr ''LISTMEMREGS''), (''client'', AStr client)] ''memregs'' 5000 None
     (\<lambda>d. let ms = map as_dict (get_list d ''memregs'')
          in ret (if ms = [] then ''No memory regions registered'' @ for_client client
            else text_lines ((''Memory regions for '' @ shown d ''client'' ''all'' @ '':'') #
              map (\<lambda>m. ''  '' @ shown m ''name'' '''' @ '': 0x'' @ shown m ''address'' '''' @ '' ('' @ shown m ''size'' '''' @ '' bytes) - '' @
                shown m ''description'' '''') ms)))
     (ret ''No response''))"

text \<open>The rows of a client that are there.\<close>

definition info_row :: "string \<Rightarrow> pydict \<Rightarrow> string \<Rightarrow> string list" where
  "info_row label d k = (if get_list d k \<noteq> [] then [''  '' @ label @ '': '' @ names_text (get_list d k)] else [])"

definition amiga_client_info :: "string \<Rightarrow> string gm" where
  "amiga_client_info client = connected_tool (request [(''type'', AStr ''CLIENTINFO''), (''client'', AStr client)] ''cinfo'' 5000 None
     (\<lambda>d. ret (text_lines ((''Client: '' @ shown d ''client'' ''?'' @ '' (id='' @ shown d ''id'' ''?'' @ '', msgs='' @ shown d ''msgCount'' ''0'' @ '')'') #
        info_row ''Variables'' d ''vars'' @ info_row ''Hooks'' d ''hooks'' @ info_row ''Memory regions'' d ''memregs'')))
     (ret (''Client '' @ quoted client @ '' not found or no response'')))"

section \<open>Files\<close>

definition dir_row :: "pydict \<Rightarrow> string" where
  "dir_row e =
     (let is_dir = (dict_get e ''type'' VNone = VStr ''dir'')
      in ''  '' @ (if is_dir then ''DIR '' else ''FILE'') @ '' '' @ fmt_left 30 (shown e ''name'' ''?'') @ '' '' @
         (if is_dir then ''       -'' else fmt_right 8 (shown e ''size'' ''0'')) @ ''  '' @ shown e ''date'' '''')"

definition amiga_list_dir :: "string \<Rightarrow> string gm" where
  "amiga_list_dir path = connected_tool (bind (list_dir_all path) (\<lambda>r. case r of
       Dir_Silent \<Rightarrow> bridge_no_response ''LISTDIR''
     | Dir_Error text \<Rightarrow> ret text
     | Entries entries \<Rightarrow>
         ret (if entries = [] then ''Empty directory: '' @ path
           else text_lines ((''Directory: '' @ path @ '' ('' @ fmt_dec (int (length entries)) @ '' entries)'') #
             map (\<lambda>e. dir_row (as_dict e)) entries))))"

definition amiga_read_file :: "string \<Rightarrow> int \<Rightarrow> int \<Rightarrow> string gm" where
  "amiga_read_file path off sz = connected_tool (bind
     (send_await [(''type'', AStr ''READFILE''), (''path'', AStr path), (''offset'', AInt off), (''size'', AInt sz)] ''file'' (text_field_is ''path'' path) 5000)
     (\<lambda>r. case r of
        Err_Data _ \<Rightarrow> ret (''Not found or unreadable: '' @ path)
      | Ok_Data d \<Rightarrow>
          let hex_data = get_str d ''hexData'' ''''
          in if hex_data \<noteq> [] then lift_res (format_hex_dump (fmt_hex False 8 off) hex_data)
             else ret (''File is empty or could not be read: '' @ path)
      | No_Resp \<Rightarrow> bridge_no_response ''READFILE''))"

definition amiga_write_file :: "string \<Rightarrow> int \<Rightarrow> string \<Rightarrow> string gm" where
  "amiga_write_file path off hex_data = connected_tool
     (bind (post [(''type'', AStr ''WRITEFILE''), (''path'', AStr path), (''offset'', AInt off), (''hexData'', AStr hex_data)]) (\<lambda>_.
       ret (''Write command sent: '' @ path @ '' at offset '' @ fmt_dec off @ '', '' @ fmt_dec (int (length hex_data div 2)) @ '' bytes'')))"

text \<open>The tools that send one command and report its acknowledgement.\<close>

definition acknowledged :: "string \<Rightarrow> command \<Rightarrow> string \<Rightarrow> (pydict \<Rightarrow> bool) \<Rightarrow> int \<Rightarrow> (pydict \<Rightarrow> string gm) \<Rightarrow> string gm" where
  "acknowledged cmd_name cmd target pred timeout body = connected_tool (bind (send_await cmd target pred timeout) (\<lambda>r. case r of
       Ok_Data d \<Rightarrow> body d
     | Err_Data d \<Rightarrow> ret (''Error: '' @ shown d ''message'' ''?'')
     | No_Resp \<Rightarrow> bridge_no_response cmd_name))"

definition context_is :: "string \<Rightarrow> pydict \<Rightarrow> bool" where
  "context_is = text_field_is ''context''"

definition amiga_checksum :: "string \<Rightarrow> string gm" where
  "amiga_checksum path = acknowledged ''CHECKSUM'' [(''type'', AStr ''CHECKSUM''), (''path'', AStr path)] ''checksum'' (text_field_is ''path'' path) 10000
     (\<lambda>d. ret (text_lines [''File: '' @ shown d ''path'' '''', ''CRC32: '' @ shown d ''crc32'' '''', ''Size: '' @ shown d ''size'' '''' @ '' bytes'']))"

definition amiga_rename :: "string \<Rightarrow> string \<Rightarrow> string gm" where
  "amiga_rename old_path new_path = acknowledged ''RENAME'' [(''type'', AStr ''RENAME''), (''oldPath'', AStr old_path), (''newPath'', AStr new_path)]
     ''ok'' (context_is ''RENAME'') 5000
     (\<lambda>d. ret (''Renamed: '' @ old_path @ '' -> '' @ shown d ''message'' new_path))"

definition amiga_set_comment :: "string \<Rightarrow> string \<Rightarrow> string gm" where
  "amiga_set_comment path comment = acknowledged ''SETCOMMENT'' [(''type'', AStr ''SETCOMMENT''), (''path'', AStr path), (''comment'', AStr comment)]
     ''ok'' (context_is ''SETCOMMENT'') 5000 (\<lambda>d. ret (''Comment set on '' @ path))"

definition amiga_copy :: "string \<Rightarrow> string \<Rightarrow> string gm" where
  "amiga_copy src dst = acknowledged ''COPY'' [(''type'', AStr ''COPY''), (''src'', AStr src), (''dst'', AStr dst)]
     ''ok'' (context_is ''COPY'') 30000 (\<lambda>d. ret (''Copied: '' @ src @ '' -> '' @ shown d ''message'' dst))"

definition amiga_append_file :: "string \<Rightarrow> string \<Rightarrow> string gm" where
  "amiga_append_file path hex_data = acknowledged ''APPEND'' [(''type'', AStr ''APPEND''), (''path'', AStr path), (''hexData'', AStr hex_data)]
     ''ok'' (context_is ''APPEND'') 5000 (\<lambda>d. ret (''Appended '' @ shown d ''message'' ''?'' @ '' bytes to '' @ path))"

text \<open>\<open>mode.upper()\<close> for ASCII letters.\<close>

definition amiga_assign :: "string \<Rightarrow> string \<Rightarrow> string \<Rightarrow> string gm" where
  "amiga_assign name path mode = acknowledged ''ASSIGN''
     ([(''type'', AStr ''ASSIGN''), (''name'', AStr name), (''path'', AStr path)] @ (if mode \<noteq> [] then [(''mode'', AStr (map upper_char mode))] else []))
     ''ok'' (context_is ''ASSIGN'') 5000 (\<lambda>d. ret (shown d ''message'' ''Assign updated''))"

definition protection_flags :: "int \<Rightarrow> string" where
  "protection_flags raw =
     (if raw AND 0x08 = 0 then ''r'' else '''') @ (if raw AND 0x04 = 0 then ''w'' else '''') @
     (if raw AND 0x02 = 0 then ''e'' else '''') @ (if raw AND 0x01 = 0 then ''d'' else '''') @
     (if raw AND 0x80 \<noteq> 0 then ''h'' else '''') @ (if raw AND 0x40 \<noteq> 0 then ''s'' else '''') @
     (if raw AND 0x20 \<noteq> 0 then ''p'' else '''') @ (if raw AND 0x10 \<noteq> 0 then ''a'' else '''')"

definition amiga_protect :: "string \<Rightarrow> string option \<Rightarrow> string gm" where
  "amiga_protect path bits = acknowledged ''PROTECT''
     ([(''type'', AStr ''PROTECT''), (''path'', AStr path)] @ (case bits of Some (c # b) \<Rightarrow> [(''bits'', AStr (c # b))] | _ \<Rightarrow> []))
     ''protect'' (text_field_is ''path'' path) 5000
     (\<lambda>d. bind (lift_res (py_int 16 (get_str d ''bits'' ''''))) (\<lambda>raw.
        ret (''File: '' @ shown d ''path'' '''' @ newline @ ''Protection: '' @ shown d ''bits'' '''' @ '' ('' @ protection_flags raw @ '')'')))"

text \<open>
  \<open>date_to_amiga\<close>: \<open>days\<close> is the number of days since 1978-01-01; the calendar is the standard
  library's.
\<close>

record moment =
  day_number :: int
  hour :: int
  minute :: int
  second :: int

definition date_to_amiga :: "moment \<Rightarrow> int \<times> int \<times> int" where
  "date_to_amiga dt = (day_number dt, hour dt * 60 + minute dt, second dt * 50)"

text \<open>\<open>parse\<close> reads the date (None is the ValueError), \<open>now\<close> is the time of the call, \<open>show\<close> writes it.\<close>

definition amiga_set_date :: "(string \<Rightarrow> moment option) \<Rightarrow> (moment \<Rightarrow> string) \<Rightarrow> moment \<Rightarrow> string \<Rightarrow> string \<Rightarrow> string gm" where
  "amiga_set_date parse show_date now path date = connected_tool
     (case (if date \<noteq> [] then parse date else Some now) of
        None \<Rightarrow> ret ''Error: date must be in YYYY-MM-DD HH:MM:SS format''
      | Some dt \<Rightarrow>
          let (days, mins, ticks) = date_to_amiga dt
          in acknowledged ''SETDATE'' [(''type'', AStr ''SETDATE''), (''path'', AStr path), (''days'', AInt days), (''mins'', AInt mins), (''ticks'', AInt ticks)]
            ''ok'' (context_is ''SETDATE'') 5000 (\<lambda>d. ret (''Date set on '' @ path @ '': '' @ show_date dt)))"

section \<open>Programs\<close>

definition amiga_launch :: "int \<Rightarrow> string \<Rightarrow> string gm" where
  "amiga_launch cmd_id cmdline = connected_tool
     (request [(''type'', AStr ''LAUNCH''), (''id'', AInt cmd_id), (''command'', AStr cmdline)] ''cmd'' 5000
       (Some (\<lambda>v. dict_get (as_dict v) ''id'' VNone = VInt cmd_id))
       (\<lambda>d. ret (''['' @ shown d ''status'' '''' @ ''] '' @ shown d ''data'' ''''))
       (bridge_no_response ''launch''))"

definition amiga_dos_command :: "int \<Rightarrow> int \<Rightarrow> int list \<Rightarrow> string \<Rightarrow> int \<Rightarrow> string gm" where
  "amiga_dos_command cmd_id start clocks cmdline seconds = connected_tool
     (bind (script_execute cmd_id start clocks cmdline (seconds * 1000)) (\<lambda>(status, output).
        case status of
          S_Ok \<Rightarrow> ret (if py_strip output \<noteq> [] then output else ''[OK] (no output)'')
        | S_Running \<Rightarrow> ret (''[RUNNING] still going after '' @ fmt_dec seconds @ ''s '' @
            (if py_strip output \<noteq> [] then em_dash @ '' partial output:'' @ newline @ output else ''(no output yet)''))
        | S_Error \<Rightarrow> ret (''[ERR] '' @ output)
        | _ \<Rightarrow> bridge_no_response ''dos_command''))"

definition amiga_run_script :: "int \<Rightarrow> int \<Rightarrow> int list \<Rightarrow> string \<Rightarrow> int \<Rightarrow> string gm" where
  "amiga_run_script cmd_id start clocks script_text seconds = connected_tool
     (bind (script_execute cmd_id start clocks (replace_char (CHR 0x0A) (CHR '';'') script_text) (seconds * 1000)) (\<lambda>(status, output).
        case status of
          S_Ok \<Rightarrow> ret (if output \<noteq> [] then ''[OK]'' @ newline @ output else ''[OK] (no output)'')
        | S_Running \<Rightarrow> ret (''[STILL RUNNING] Command did not finish within '' @ fmt_dec seconds @ ''s, but the bridge stayed responsive.'' @
            newline @ ''Partial output:'' @ newline @ (if output \<noteq> [] then output else ''(none yet)''))
        | S_Error \<Rightarrow> ret (''ERROR: the Amiga reported: '' @ output)
        | _ \<Rightarrow> bridge_no_response ''run_script''))"

text \<open>Stopping a task or a client: the first acknowledgement that fits.\<close>

definition stop_turn :: "string \<Rightarrow> string \<Rightarrow> string \<Rightarrow> unit \<Rightarrow> string \<Rightarrow> pydict \<Rightarrow> (string, unit) turn" where
  "stop_turn word1 word2 name s evt d =
     (if context_in word1 d \<or> context_in word2 d
      then Return (''['' @ (if evt = ''ok'' then ''ok'' else ''error'') @ ''] '' @ shown d ''message'' name)
      else Next s)"

definition amiga_kill_task :: "string \<Rightarrow> string gm" where
  "amiga_kill_task name = connected_tool (exchange [''ok'', ''err''] [(''type'', AStr ''BREAK''), (''name'', AStr name)] 3000
     (stop_turn ''BREAK'' ''Task'' name) () (\<lambda>_. ret (''BREAK sent to '' @ name @ '' (no confirmation)'')))"

definition amiga_stop_client :: "string \<Rightarrow> string \<Rightarrow> string gm" where
  "amiga_stop_client name signal = connected_tool
     (exchange [''ok'', ''err''] [(''type'', AStr ''STOP''), (''name'', AStr name), (''signal'', AStr signal)] 3000
       (stop_turn ''STOP'' ''Client'' name) () (\<lambda>_. ret (''Stop command sent to '' @ name @ '' (no confirmation)'')))"

definition amiga_proc_list :: "string gm" where
  "amiga_proc_list = connected_tool (request [(''type'', AStr ''PROCLIST'')] ''proclist'' 5000 None
     (\<lambda>d. let procs = map as_dict (get_list d ''processes'')
          in ret (if procs = [] then ''No tracked processes''
            else text_lines ((''Tracked processes ('' @ fmt_dec (int (length procs)) @ ''):'') #
              map (\<lambda>p. ''  ['' @ shown p ''id'' '''' @ ''] '' @ shown p ''command'' '''' @ '' '' @ em_dash @ '' '' @ shown p ''status'' '''') procs)))
     (ret ''No response (timeout)''))"

definition amiga_proc_stat :: "int \<Rightarrow> string gm" where
  "amiga_proc_stat proc_id = acknowledged ''PROCSTAT'' [(''type'', AStr ''PROCSTAT''), (''id'', AInt proc_id)]
     ''procstat'' (\<lambda>d. dict_get d ''id'' VNone = VInt proc_id) 5000
     (\<lambda>d. ret (''Process '' @ shown d ''id'' '''' @ '': '' @ shown d ''command'' ''?'' @ '' '' @ em_dash @ '' '' @ shown d ''status'' ''?''))"

definition signal_number :: "string \<Rightarrow> int" where
  "signal_number name =
     (case map_of [(''CTRL_C'', 0), (''CTRL_D'', 1), (''CTRL_E'', 2), (''CTRL_F'', 3)] (map upper_char name) of Some n \<Rightarrow> n | None \<Rightarrow> 0)"

definition amiga_signal :: "int \<Rightarrow> string \<Rightarrow> string gm" where
  "amiga_signal proc_id signal = acknowledged ''SIGNAL''
     [(''type'', AStr ''SIGNAL''), (''id'', AInt proc_id), (''sigType'', AInt (signal_number signal))]
     ''ok'' (context_is ''SIGNAL'') 5000 (\<lambda>d. ret (shown d ''message'' ''Signal sent''))"

end
