(* ===== verification/Toolset_System.thy ===== *)
theory Toolset_System
  imports Stabs Toolset Screenshot
begin

text \<open>
  The tools of \<open>mcp_tools.py\<close> that ask about the system, the display and the chips, the symbol
  tables and the debugger, and those that combine file transfers and scripts.
\<close>

section \<open>Lists of the system\<close>

definition task_row :: "pydict \<Rightarrow> string" where
  "task_row t = ''  '' @ fmt_left 30 (shown t ''name'' ''?'') @ '' pri='' @ shown_pad 3 t ''priority'' ''?'' @
     '' state='' @ fmt_left 10 (shown t ''state'' ''?'') @ '' stack='' @ shown t ''stackSize'' ''?''"

text \<open>A reply with a list: what is answered when it is empty, the heading, and a row for each entry.\<close>

definition listed :: "string \<Rightarrow> string \<Rightarrow> (string \<Rightarrow> string) \<Rightarrow> (pydict \<Rightarrow> string) \<Rightarrow> pydict \<Rightarrow> string gm" where
  "listed k nothing heading row d =
     (let es = map as_dict (get_list d k)
      in ret (if es = [] then nothing else text_lines (heading (fmt_dec (int (length es))) # map row es)))"

definition amiga_list_tasks :: "string gm" where
  "amiga_list_tasks = connected_tool (request [(''type'', AStr ''LISTTASKS'')] ''tasks'' 5000 None
     (listed ''tasks'' ''No tasks found'' (\<lambda>n. ''Tasks ('' @ n @ ''):'') task_row) (bridge_no_response ''LISTTASKS''))"

definition amiga_list_libs :: "string gm" where
  "amiga_list_libs = connected_tool (request [(''type'', AStr ''LISTLIBS'')] ''libs'' 5000 None
     (listed ''libs'' ''No libraries found'' (\<lambda>n. ''Libraries ('' @ n @ ''):'')
       (\<lambda>l. ''  '' @ fmt_left 30 (shown l ''name'' ''?'') @ '' v'' @ shown l ''version'' ''?'' @ ''.'' @ shown l ''revision'' ''?''))
     (bridge_no_response ''LISTLIBS''))"

definition info_lines :: "string \<Rightarrow> pydict \<Rightarrow> string" where
  "info_lines kind d = text_lines
     [kind @ '': '' @ shown d ''name'' ''?'',
      ''  Version:   '' @ shown d ''version'' ''?'' @ ''.'' @ shown d ''revision'' ''?'',
      ''  Open count: '' @ shown d ''openCnt'' ''?'',
      ''  Flags:     0x'' @ fmt_hex False 2 (get_int d ''flags'' 0),
      ''  Neg size:  '' @ shown d ''negSize'' ''?'' @ '' bytes (jump table)'',
      ''  Pos size:  '' @ shown d ''posSize'' ''?'' @ '' bytes (data)'',
      ''  Base addr: 0x'' @ shown d ''baseAddr'' ''?'',
      ''  ID string: '' @ shown d ''idString'' ''n/a'']"

text \<open>Only the first event counts; the name in the last answer is the one the source has.\<close>

definition info_turn :: "string \<Rightarrow> string \<Rightarrow> string \<Rightarrow> unit \<Rightarrow> string \<Rightarrow> pydict \<Rightarrow> (string, unit) turn" where
  "info_turn verb ev kind s evt d =
     (if evt = ''err'' \<and> context_is verb d then Return (''Error: '' @ shown d ''message'' ''Unknown'')
      else if evt = ev then Return (info_lines kind d) else Break ())"

definition amiga_lib_info :: "string \<Rightarrow> string gm" where
  "amiga_lib_info name = connected_tool (exchange [''libinfo'', ''err''] [(''type'', AStr ''LIBINFO''), (''name'', AStr name)] 5000
     (info_turn ''LIBINFO'' ''libinfo'' ''Library'') () (\<lambda>_. bridge_no_response ''get_var''))"

definition amiga_dev_info :: "string \<Rightarrow> string gm" where
  "amiga_dev_info name = connected_tool (exchange [''devinfo'', ''err''] [(''type'', AStr ''DEVINFO''), (''name'', AStr name)] 5000
     (info_turn ''DEVINFO'' ''devinfo'' ''Device'') () (\<lambda>_. bridge_no_response ''set_var''))"

definition assign_kind :: "pydict \<Rightarrow> string" where
  "assign_kind a =
     (let k = shown a ''assignType'' ''?''
      in case map_of [(''A'', ''assign''), (''L'', ''late''), (''N'', ''nonbinding''), (''?'', ''unknown'')] k of Some n \<Rightarrow> n | None \<Rightarrow> k)"

definition amiga_list_assigns :: "string gm" where
  "amiga_list_assigns = connected_tool (request [(''type'', AStr ''ASSIGNS'')] ''assigns'' 5000 None
     (listed ''assigns'' ''No assigns found'' (\<lambda>n. ''Assigns ('' @ n @ ''):'')
       (\<lambda>a. ''  '' @ shown a ''name'' '''' @ '': -> '' @ shown a ''path'' ''?'' @ '' ['' @ assign_kind a @ '']''))
     (ret ''No response (timeout)''))"

definition amiga_version :: "string gm" where
  "amiga_version = connected_tool (request [(''type'', AStr ''VERSION'')] ''version'' 5000 None
     (\<lambda>d. ret (shown d ''name'' ''AmigaBridge'' @ '' v'' @ shown d ''major'' ''?'' @ ''.'' @ shown d ''minor'' ''?'' @ '' ('' @ shown d ''date'' '''' @ '')''))
     (bridge_no_response ''VERSION''))"

definition amiga_get_env :: "string \<Rightarrow> bool \<Rightarrow> string gm" where
  "amiga_get_env name archive = connected_tool
     (exchange [''env'', ''err''] [(''type'', AStr ''GETENV''), (''name'', AStr name), (''archive'', ABool archive)] 5000
       (\<lambda>s evt d. if evt = ''err'' then Return (''Error: '' @ shown d ''message'' ''Unknown'')
                  else Return (shown d ''name'' name @ ''='' @ shown d ''value'' '''')) ()
       (\<lambda>_. ret ''No response (timeout)''))"

definition amiga_set_env :: "string \<Rightarrow> string \<Rightarrow> bool \<Rightarrow> string gm" where
  "amiga_set_env name val archive = acknowledged ''SETENV''
     [(''type'', AStr ''SETENV''), (''name'', AStr name), (''value'', AStr val), (''archive'', ABool archive)]
     ''ok'' (context_is ''SETENV'') 5000
     (\<lambda>d. ret (''Set '' @ name @ ''='' @ val @ (if archive then '' (archived)'' else '''')))"

definition volume_row :: "pydict \<Rightarrow> string" where
  "volume_row v =
     (let used = get_int v ''usedKB'' 0; free = get_int v ''freeKB'' 0
      in ''  '' @ fmt_left 20 (shown v ''name'' ''?'') @ '' '' @ fmt_left 12 (shown v ''handler'' '''') @ '' '' @
         fmt_left 8 (shown v ''state'' '''') @ '' '' @ fmt_right 8 (fmt_dec used) @ ''KB / '' @
         fmt_right 8 (fmt_dec (used + free)) @ ''KB ('' @ fmt_dec free @ ''KB free)'')"

definition amiga_list_volumes :: "string gm" where
  "amiga_list_volumes = connected_tool (request [(''type'', AStr ''VOLUMES'')] ''volumes'' 5000 None
     (listed ''volumes'' ''No volumes found'' (\<lambda>n. ''Volumes ('' @ n @ ''):'') volume_row) (bridge_no_response ''VOLUMES''))"

definition amiga_list_ports :: "string gm" where
  "amiga_list_ports = connected_tool (request [(''type'', AStr ''PORTS'')] ''ports'' 5000 None
     (\<lambda>d. let ps = get_list d ''ports''
          in ret (if ps = [] then ''No public ports found''
            else text_lines ((''Public Message Ports ('' @ fmt_dec (int (length ps)) @ ''):'') # map (\<lambda>p. ''  '' @ py_str p) ps)))
     (bridge_no_response ''PORTS''))"

text \<open>\<open>f"{n:,}"\<close>: groups of three digits.\<close>

fun group_digits :: "string \<Rightarrow> string" where
  "group_digits (a # b # c # d # ds) = a # b # c # CHR '','' # group_digits (d # ds)"
| "group_digits ds = ds"

definition fmt_commas :: "int \<Rightarrow> string" where
  "fmt_commas n = (if n < 0 then ''-'' else '''') @ rev (group_digits (rev (fmt_dec \<bar>n\<bar>)))"

definition sysinfo_lines :: "pydict \<Rightarrow> string list" where
  "sysinfo_lines d =
     (let chip_free = get_int d ''chipFree'' 0; fast_free = get_int d ''fastFree'' 0;
          chip_total = get_int d ''chipTotal'' 0; fast_total = get_int d ''fastTotal'' 0; vblank = get_int d ''vblankHz'' 0;
          video = (if vblank = 50 then ''PAL (50Hz)'' else if vblank = 60 then ''NTSC (60Hz)'' else fmt_dec vblank @ ''Hz'')
      in [''System Information:'',
          ''  Exec:     v'' @ shown d ''execVer'' ''?'' @ ''.'' @ shown d ''execRev'' ''?'',
          ''  CPU:      '' @ shown d ''cpuType'' ''?'',
          ''  Video:    '' @ video,
          ''  Chip RAM: '' @ fmt_commas chip_free @ '' / '' @ fmt_commas chip_total @ '' bytes free'',
          ''  Fast RAM: '' @ fmt_commas fast_free @ '' / '' @ fmt_commas fast_total @ '' bytes free'',
          ''  Total:    '' @ fmt_commas (chip_free + fast_free) @ '' / '' @ fmt_commas (chip_total + fast_total) @ '' bytes free''])"

definition amiga_sysinfo :: "string gm" where
  "amiga_sysinfo = connected_tool (request [(''type'', AStr ''SYSINFO'')] ''sysinfo'' 5000 None
     (\<lambda>d. ret (text_lines (sysinfo_lines d))) (bridge_no_response ''SYSINFO''))"

definition uptime_text :: "int \<Rightarrow> string" where
  "uptime_text secs =
     (let hours = secs div 3600; remainder = secs mod 3600; minutes = remainder div 60; seconds = remainder mod 60
      in ''Uptime: '' @ fmt_dec hours @ ''h '' @ fmt_dec minutes @ ''m '' @ fmt_dec seconds @ ''s ('' @ fmt_dec secs @ '' seconds)'')"

definition amiga_uptime :: "string gm" where
  "amiga_uptime = connected_tool (request [(''type'', AStr ''UPTIME'')] ''uptime'' 5000 None
     (\<lambda>d. ret (uptime_text (get_int d ''seconds'' 0))) (bridge_no_response ''UPTIME''))"

definition amiga_reboot :: "string gm" where
  "amiga_reboot = connected_tool (bind (post [(''type'', AStr ''REBOOT'')]) (\<lambda>_. ret ''Reboot command sent''))"

definition amiga_shutdown :: "string gm" where
  "amiga_shutdown = connected_tool (request [(''type'', AStr ''SHUTDOWN'')] ''ok'' 5000 (Some (field_is ''context'' ''SHUTDOWN''))
     (\<lambda>d. ret ''AmigaBridge daemon shutting down'') (ret ''Shutdown command sent (no confirmation)''))"

definition capability_lines :: "pydict \<Rightarrow> string list" where
  "capability_lines d =
     [''Version: '' @ shown d ''version'' ''?'', ''Protocol Level: '' @ shown d ''protocolLevel'' ''?'', ''Max Line: '' @ shown d ''maxLine'' ''?'',
      ''Commands ('' @ fmt_dec (int (length (get_list d ''commands''))) @ ''): '' @ names_text (get_list d ''commands'')] @
     (if map_of d ''platform'' \<noteq> None then
        [''Platform: '' @ shown d ''platform'' '''', ''Features: '' @ names_text (get_list d ''features''),
         ''Profiles: '' @ names_text (get_list d ''profiles'')]
      else []) @
     (if truthy (dict_get d ''malformed'' VNone) then [''Warning: level-2 CAPABILITIES line is missing platform/features/profiles''] else [])"

definition amiga_capabilities :: "string gm" where
  "amiga_capabilities = connected_tool (request [(''type'', AStr ''CAPABILITIES'')] ''capabilities'' 5000 None
     (\<lambda>d. ret (text_lines (capability_lines d))) (ret ''No response (timeout)''))"

definition amiga_arexx_ports :: "string gm" where
  "amiga_arexx_ports = connected_tool (request [(''type'', AStr ''AREXXPORTS'')] ''arexxports'' 5000 None
     (\<lambda>d. let ps = get_list d ''ports''
          in ret (if ps = [] then ''No public ports found''
            else text_lines ([''Public message ports ('' @ shown d ''count'' (fmt_dec (int (length ps))) @ ''):'', ''''] @ map (\<lambda>p. ''  '' @ py_str p) ps)))
     (ret ''Timeout waiting for port list''))"

definition amiga_arexx_send :: "string \<Rightarrow> string \<Rightarrow> string gm" where
  "amiga_arexx_send portname cmdline = connected_tool
     (request [(''type'', AStr ''AREXXSEND''), (''port'', AStr portname), (''command'', AStr cmdline)] ''arexxresult'' 15000 None
       (\<lambda>d. let rc = get_int d ''rc'' (-1); result = get_str d ''result'' ''''
            in ret (if rc = 0 then (if result \<noteq> [] then ''[OK] '' @ result else ''[OK]'')
               else ''[RC='' @ fmt_dec rc @ ''] '' @ (if result \<noteq> [] then result else ''Command failed'')))
       (ret ''Timeout waiting for ARexx result''))"

section \<open>Display, palette, copper, sprites, sound\<close>

definition palette_row :: "nat \<Rightarrow> rgb \<Rightarrow> string" where
  "palette_row i c = (case c of (r, g, b) \<Rightarrow>
     ''  '' @ fmt_right 2 (fmt_dec (int i)) @ '': $'' @ fmt_hex True 0 (r div 17) @ fmt_hex True 0 (g div 17) @ fmt_hex True 0 (b div 17) @
     ''  R='' @ fmt_right 3 (fmt_dec r) @ '' G='' @ fmt_right 3 (fmt_dec g) @ '' B='' @ fmt_right 3 (fmt_dec b) @
     ''  #'' @ fmt_hex True 2 r @ fmt_hex True 2 g @ fmt_hex True 2 b)"

definition palette_text :: "pydict \<Rightarrow> string res" where
  "palette_text d =
     res_bind (parse_palette (get_str d ''palette'' '''')) (\<lambda>colors.
       Inr (text_lines ((''Palette ('' @ fmt_dec (int (length colors)) @ '' colors, depth='' @ shown d ''depth'' '''' @ ''):'') #
         map (\<lambda>(i, c). palette_row i c) (enumerate 0 colors))))"

definition give :: "'a res \<Rightarrow> ('a, 's) turn" where
  "give r = (case r of Inl e \<Rightarrow> Raise e | Inr x \<Rightarrow> Return x)"

definition amiga_get_palette :: "string gm" where
  "amiga_get_palette = connected_tool (exchange [''palette'', ''err''] [(''type'', AStr ''PALETTE'')] 5000
     (\<lambda>s evt d. if evt = ''err'' \<and> context_in ''PALETTE'' d
        then Return (''Palette read failed: '' @ shown d ''message'' ''unknown error'')
        else if evt = ''palette'' then give (palette_text d) else Next s) ()
     (\<lambda>_. ret ''Timed out waiting for palette data''))"

definition amiga_set_palette :: "int \<Rightarrow> int \<Rightarrow> int \<Rightarrow> int \<Rightarrow> string gm" where
  "amiga_set_palette index r g b = connected_tool
     (if \<not> (0 \<le> r \<and> r \<le> 15 \<and> 0 \<le> g \<and> g \<le> 15 \<and> 0 \<le> b \<and> b \<le> 15) then ret ''Error: r, g, b must be 0-15''
      else if index < 0 \<or> 255 < index then ret ''Error: index must be 0-255''
      else let rgb_hex = fmt_hex True 0 r @ fmt_hex True 0 g @ fmt_hex True 0 b
        in exchange [''ok'', ''err''] [(''type'', AStr ''SETPALETTE''), (''index'', AInt index), (''rgb'', AStr rgb_hex)] 5000
          (\<lambda>s evt d. if context_in ''SETPALETTE'' d then
              Return (if evt = ''ok'' then ''Color '' @ fmt_dec index @ '' set to $'' @ rgb_hex @ '' (R='' @ fmt_dec r @ '' G='' @ fmt_dec g @ '' B='' @ fmt_dec b @ '')''
                else ''Error: '' @ shown d ''message'' ''failed'')
            else Next s) ()
          (\<lambda>_. ret ''Set palette command sent (no confirmation)''))"

text \<open>
  The chunks of the copper list: the loop ends with a chunk that has the text \<open>fffffffffe\<close>, in
  either case of letters as a whole, or within half a second of the deadline. The time is that at
  which the event is taken.
\<close>

fun poll_copper :: "int \<Rightarrow> int \<Rightarrow> (int \<times> event) list \<Rightarrow> pydict list \<Rightarrow> string + pydict list" where
  "poll_copper deadline now [] cs = Inr cs"
| "poll_copper deadline now ((t, evt, m) # later) cs =
     (let d = as_dict m; hex_data = get_str d ''hexData'' '''' in
      if deadline - now \<le> 0 \<or> deadline \<le> t then Inr cs
      else if evt = ''err'' \<and> context_in ''COPPERLIST'' d then Inl (''Copper list read failed: '' @ shown d ''message'' ''unknown error'')
      else if evt = ''copper'' then
        (if py_in ''fffffffffe'' (py_lower hex_data) \<or> py_in ''FFFFFFFFFE'' hex_data then Inr (cs @ [d])
         else if deadline - max now t \<le> 500 then Inr (cs @ [d])
         else poll_copper deadline (max now t) later (cs @ [d]))
      else poll_copper deadline (max now t) later cs)"

definition amiga_copper_list :: "string gm" where
  "amiga_copper_list = connected_tool (bind (post [(''type'', AStr ''COPPERLIST'')]) (\<lambda>_.
     bind (listen [''copper'', ''err'']) (\<lambda>(now, got).
       case poll_copper (now + 10000) now got [] of
         Inl text \<Rightarrow> ret text
       | Inr [] \<Rightarrow> ret ''Timed out waiting for copper list data''
       | Inr (c # cs) \<Rightarrow>
           bind (lift_res (py_int 16 (get_str c ''address'' ''''))) (\<lambda>base_addr.
             bind (lift_res (decode_copper_list (all_hex (c # cs)) base_addr)) (\<lambda>instructions.
               ret (format_copper_list instructions))))))"

definition sprite_lines :: "pydict \<Rightarrow> string list" where
  "sprite_lines spr =
     (let vstart = get_int spr ''vstart'' 0; vstop = get_int spr ''vstop'' 0; hex_data = get_str spr ''hexData'' '''';
          height = (if vstart < vstop then vstop - vstart else 0)
      in [fmt_right 2 (fmt_dec (get_int spr ''id'' 0)) @ ''  '' @ fmt_right 6 (fmt_dec vstart) @ ''  '' @ fmt_right 5 (fmt_dec vstop) @ ''  '' @
          fmt_right 6 (fmt_dec (get_int spr ''hstart'' 0)) @ ''  '' @ fmt_right 6 (if get_bool spr ''attached'' then ''Yes'' else ''No'') @ ''  '' @
          fmt_right 6 (fmt_dec height) @ ''  '' @ fmt_right 6 (fmt_dec (int (length hex_data div 2))) @ ''B''] @
         (if hex_data = [] then []
          else [''      Ctrl: '' @ take 8 hex_data @ ''  Data: '' @ take 32 (drop 8 hex_data) @ (if 40 < length hex_data then ''...'' else '''')]))"

definition amiga_sprites :: "string gm" where
  "amiga_sprites = connected_tool (exchange [''sprite'', ''err''] [(''type'', AStr ''SPRITES'')] 5000
     (\<lambda>ss evt d. if evt = ''err'' \<and> context_in ''SPRITES'' d
        then Return (''Sprite inspection failed: '' @ shown d ''message'' ''unknown error'')
        else if evt = ''sprite'' then (if 8 \<le> length (ss @ [d]) then Break (ss @ [d]) else Next (ss @ [d]))
        else Next ss) []
     (\<lambda>ss. ret (if ss = [] then ''No active sprites found (or timed out)''
        else text_lines ([''Hardware Sprites ('' @ fmt_dec (int (length ss)) @ '' active):'',
            ''ID  VStart  VStop  HStart  Attach  Height    Data'', replicate 55 (CHR ''-'')] @
          concat (map sprite_lines (sort_key (\<lambda>s. get_int s ''id'' 0) ss))))))"

definition channel_row :: "int \<Rightarrow> int \<Rightarrow> int \<Rightarrow> nat \<Rightarrow> string" where
  "channel_row dma ireq iena ch =
     ''  Channel '' @ fmt_dec (int ch) @ '': DMA='' @ (if dma AND push_bit ch 1 \<noteq> 0 then ''ON'' else ''off'') @
     ''  IntReq='' @ (if ireq AND push_bit ch 1 \<noteq> 0 then ''YES'' else ''no'') @
     ''  IntEna='' @ (if iena AND push_bit ch 1 \<noteq> 0 then ''YES'' else ''no'')"

definition amiga_audio_channels :: "string gm" where
  "amiga_audio_channels = connected_tool (request [(''type'', AStr ''AUDIOCHANNELS'')] ''audiochannels'' 5000 None
     (\<lambda>d. bind (lift_res (py_int 16 (get_str d ''dmaEnabled'' ''0''))) (\<lambda>dma.
        bind (lift_res (py_int 16 (get_str d ''intReq'' ''0''))) (\<lambda>ireq.
          bind (lift_res (py_int 16 (get_str d ''intEna'' ''0''))) (\<lambda>iena.
            ret (text_lines ([''Paula Audio Channels:'', ''''] @ map (channel_row dma ireq iena) [0..<4]))))))
     (ret ''Timeout waiting for audio channel data''))"

text \<open>An event that is an error, or the one waited for.\<close>

definition first_answer :: "string \<Rightarrow> (pydict \<Rightarrow> (string, unit) turn) \<Rightarrow> unit \<Rightarrow> string \<Rightarrow> pydict \<Rightarrow> (string, unit) turn" where
  "first_answer ev f s evt d =
     (if evt = ''err'' then Return (''Error: '' @ shown d ''message'' ''?'') else if evt = ev then f d else Next s)"

definition amiga_audio_sample :: "string \<Rightarrow> int \<Rightarrow> string gm" where
  "amiga_audio_sample address sz = connected_tool
     (exchange [''audiosample'', ''err''] [(''type'', AStr ''AUDIOSAMPLE''), (''address'', AStr address), (''size'', AInt (min sz 512))] 5000
       (first_answer ''audiosample'' (\<lambda>d. give (format_hex_dump (get_str d ''address'' ''0'') (get_str d ''hexData'' '''')))) ()
       (\<lambda>_. ret ''Timeout''))"

definition screen_modes :: "int \<Rightarrow> string" where
  "screen_modes vm =
     (let modes = (if vm AND 0x8000 \<noteq> 0 then [''HIRES''] else []) @ (if vm AND 0x0004 \<noteq> 0 then [''LACE''] else []) @
        (if vm AND 0x0800 \<noteq> 0 then [''HAM''] else [])
      in if modes = [] then ''LORES'' else py_join ''+'' modes)"

definition screen_row :: "pydict \<Rightarrow> string res" where
  "screen_row s =
     res_bind (py_int 16 (get_str s ''viewModes'' ''0'')) (\<lambda>vm.
       Inr (''  '' @ shown s ''title'' '''' @ ''  '' @ shown s ''width'' '''' @ ''x'' @ shown s ''height'' '''' @ ''  '' @ shown s ''depth'' '''' @
         ''bpp  '' @ screen_modes vm @ ''  @'' @ shown s ''addr'' ''''))"

definition amiga_list_screens :: "string gm" where
  "amiga_list_screens = connected_tool (request [(''type'', AStr ''LISTSCREENS'')] ''screens'' 5000 None
     (\<lambda>d. let ss = map as_dict (get_list d ''screens'')
          in if ss = [] then ret ''No screens found''
             else bind (lift_res (res_map screen_row ss)) (\<lambda>rows.
               ret (text_lines ([''Screens ('' @ fmt_dec (int (length ss)) @ ''):'', ''''] @ rows))))
     (ret ''Timeout waiting for screen list''))"

definition placed :: "pydict \<Rightarrow> string" where
  "placed w = ''pos=('' @ shown w ''left'' '''' @ '','' @ shown w ''top'' '''' @ '')  size='' @ shown w ''width'' '''' @ ''x'' @ shown w ''height'' ''''"

definition windows_text :: "pydict \<Rightarrow> string" where
  "windows_text d =
     (let ws = map as_dict (get_list d ''windows'')
      in if ws = [] then ''No windows found on this screen''
         else text_lines ([''Windows on screen @'' @ shown d ''screenAddr'' ''?'' @ '' ('' @ fmt_dec (int (length ws)) @ ''):'', ''''] @
           map (\<lambda>w. ''  '' @ shown w ''title'' '''' @ ''  '' @ placed w @ ''  @'' @ shown w ''addr'' '''') ws))"

definition amiga_list_screen_windows :: "string \<Rightarrow> string gm" where
  "amiga_list_screen_windows screen = connected_tool
     (exchange [''windows'', ''err''] [(''type'', AStr ''LISTWINDOWS2''), (''screen'', AStr screen)] 5000
       (first_answer ''windows'' (\<lambda>d. Return (windows_text d))) () (\<lambda>_. ret ''Timeout''))"

definition gadgets_text :: "pydict \<Rightarrow> string" where
  "gadgets_text d =
     (let gs = map as_dict (get_list d ''gadgets'')
      in if gs = [] then ''No gadgets found''
         else text_lines ([''Gadgets ('' @ fmt_dec (int (length gs)) @ ''):'', ''''] @
           map (\<lambda>x. ''  ID='' @ shown x ''id'' '''' @ ''  '' @ placed x @ ''  type='' @ shown x ''gadgetType'' '''' @ ''  text='' @
             shown x ''text'' '''' @ ''  @'' @ shown x ''addr'' '''') gs))"

definition amiga_list_gadgets :: "string \<Rightarrow> string gm" where
  "amiga_list_gadgets window = connected_tool
     (exchange [''gadgets'', ''err''] [(''type'', AStr ''LISTGADGETS''), (''window'', AStr window)] 5000
       (first_answer ''gadgets'' (\<lambda>d. Return (gadgets_text d))) () (\<lambda>_. ret ''Timeout''))"

text \<open>The tools that take any acknowledgement.\<close>

definition any_ok :: "command \<Rightarrow> string \<Rightarrow> string \<Rightarrow> string gm" where
  "any_ok cmd text none = connected_tool (request cmd ''ok'' 5000 None (\<lambda>d. ret (shown d ''message'' text)) (ret none))"

definition amiga_window_move :: "string \<Rightarrow> int \<Rightarrow> int \<Rightarrow> string gm" where
  "amiga_window_move window x y = any_ok [(''type'', AStr ''WINMOVE''), (''window'', AStr window), (''x'', AInt x), (''y'', AInt y)]
     ''Window moved'' ''Timeout (window not found?)''"

definition amiga_window_resize :: "string \<Rightarrow> int \<Rightarrow> int \<Rightarrow> string gm" where
  "amiga_window_resize window width height = any_ok
     [(''type'', AStr ''WINSIZE''), (''window'', AStr window), (''width'', AInt width), (''height'', AInt height)]
     ''Window resized'' ''Timeout (window not found?)''"

definition amiga_input_key :: "string \<Rightarrow> string \<Rightarrow> string gm" where
  "amiga_input_key rawkey direction = any_ok [(''type'', AStr ''INPUTKEY''), (''rawkey'', AStr rawkey), (''direction'', AStr direction)]
     ''Key injected'' ''Timeout''"

definition amiga_input_mouse_move :: "int \<Rightarrow> int \<Rightarrow> string gm" where
  "amiga_input_mouse_move dx dy = any_ok [(''type'', AStr ''INPUTMOVE''), (''dx'', AInt dx), (''dy'', AInt dy)] ''Mouse moved'' ''Timeout''"

definition amiga_input_pointer_pos :: "int \<Rightarrow> int \<Rightarrow> string gm" where
  "amiga_input_pointer_pos x y = any_ok [(''type'', AStr ''INPUTPOS''), (''x'', AInt x), (''y'', AInt y)] ''Pointer positioned'' ''Timeout''"

definition amiga_input_click :: "string \<Rightarrow> string \<Rightarrow> string gm" where
  "amiga_input_click button direction = any_ok [(''type'', AStr ''INPUTCLICK''), (''button'', AStr button), (''direction'', AStr direction)]
     ''Click injected'' ''Timeout''"

end
