(* ===== verification/Toolset_Debug.thy ===== *)
theory Toolset_Debug
  imports Toolset_System
begin

text \<open>
  The tools of \<open>mcp_tools.py\<close> for crashes, resources and profiles, for symbols and the debugger, and
  those that combine transfers and scripts.

  The debugger tools have a \<open>DebuggerState\<close> of their own: the one the server makes is never given to
  this module. It is an argument and a result of these tools. They import the name \<open>_loaded_tables\<close>
  from \<open>symbols.py\<close>, which does not define it; the import raises and is caught, so the code
  inside these try blocks has no effect and is no part of the model.
\<close>

section \<open>Crashes\<close>

text \<open>\<open>symbols.annotate_address\<close> and the source line, for a register that is a number.\<close>

definition crash_note :: "tables \<Rightarrow> string \<Rightarrow> string" where
  "crash_note ts val =
     (case py_int 16 val of
        Inl _ \<Rightarrow> ''''
      | Inr addr \<Rightarrow>
          let name = annotate_address ts addr None; src = source_line_for_address ts addr None
          in if name = [] then '''' else ''  ; '' @ name @ (if src \<noteq> [] then '' ['' @ src @ '']'' else ''''))"

definition stack_row :: "tables \<Rightarrow> nat \<Rightarrow> string \<Rightarrow> string res" where
  "stack_row ts i word_hex =
     res_bind (py_int 16 word_hex) (\<lambda>addr.
       let off = ''  SP+'' @ fmt_dec_pad 2 (int (i div 2)) @ '': 0x'' @ word_hex;
           name = annotate_address ts addr None; src = source_line_for_address ts addr None
       in Inr (if name \<noteq> [] \<and> 0x1000 < addr
            then off @ '' -> '' @ name @ (if src \<noteq> [] then '' ['' @ src @ '']'' else '''') else off))"

text \<open>The words of the stack that are shown: complete ones among the first 64 characters.\<close>

definition stack_words :: "string \<Rightarrow> (nat \<times> string) list" where
  "stack_words stack_hex =
     takeWhile (\<lambda>(i, w). 8 \<le> length w)
       (map (\<lambda>k. (8 * k, take 8 (drop (8 * k) stack_hex))) [0..<(min (length stack_hex) 64 + 7) div 8])"

definition format_crash :: "tables \<Rightarrow> pydict \<Rightarrow> string res" where
  "format_crash ts crash =
     (let head = [''=== AMIGA CRASH REPORT ==='',
            ''Alert: 0x'' @ shown crash ''alertNum'' ''?'' @ '' ('' @ shown crash ''alertName'' ''Unknown'' @ '')'',
            ''Time: '' @ shown crash ''timestamp'' ''?'', '''', ''Data Registers:''] @
          map (\<lambda>(i, v). ''  D'' @ fmt_dec (int i) @ '': 0x'' @ v) (enumerate 0 (get_strs crash ''dataRegs'')) @
          ['''', ''Address Registers:''] @
          map (\<lambda>(i, v). ''  A'' @ fmt_dec (int i) @ '': 0x'' @ v @ crash_note ts v) (enumerate 0 (get_strs crash ''addrRegs'')) @
          ['''', ''Stack Pointer: 0x'' @ shown crash ''sp'' ''?''];
          stack_hex = get_str crash ''stackHex'' ''''
      in if stack_hex = [] then Inr (text_lines head)
         else res_bind (py_int 16 (get_str crash ''sp'' ''0'')) (\<lambda>sp.
           res_bind (res_map (\<lambda>(i, w). stack_row ts i w) (stack_words stack_hex)) (\<lambda>rows.
             res_bind (format_hex_dump (fmt_hex True 8 sp) stack_hex) (\<lambda>dump.
               Inr (text_lines (head @ ['''', ''Stack Trace:''] @ rows @ ['''', ''Raw Stack:'', dump]))))))"

definition remember_crash :: "pydict \<Rightarrow> unit gm" where
  "remember_crash d g = (Inr (), g\<lparr>link := (link g)\<lparr>hub := (hub (link g))\<lparr>app := (app (hub (link g)))\<lparr>last_crash := Some d\<rparr>\<rparr>\<rparr>\<rparr>)"

definition amiga_last_crash :: "tables \<Rightarrow> string gm" where
  "amiga_last_crash ts = connected_tool (\<lambda>g.
     case last_crash (app (hub (link g))) of
       Some (kv # d) \<Rightarrow> lift_res (format_crash ts (kv # d)) g
     | _ \<Rightarrow> exchange [''crash'', ''err''] [(''type'', AStr ''LASTCRASH'')] 5000
         (\<lambda>s evt d. if evt = ''crash'' then Break (Some d)
            else if evt = ''err'' \<and> context_in ''LASTCRASH'' d then Return ''No crash data recorded'' else Next s) None
         (\<lambda>r. case r of
            Some d \<Rightarrow> bind (remember_crash d) (\<lambda>_. lift_res (format_crash ts d))
          | None \<Rightarrow> ret ''No crash data available'') g)"

section \<open>Resources and profiles\<close>

definition resource_row :: "pydict \<Rightarrow> string" where
  "resource_row r = fmt_left 8 (shown r ''type'' ''?'') @ '' '' @ fmt_left 24 (shown r ''tag'' ''?'') @ '' 0x'' @
     fmt_left 10 (shown r ''ptr'' ''0'') @ '' '' @ fmt_right 8 (fmt_dec (get_int r ''size'' 0)) @ '' '' @ fmt_left 8 (shown r ''state'' ''?'')"

definition in_state :: "string \<Rightarrow> pydict list \<Rightarrow> pydict list" where
  "in_state st = filter (\<lambda>r. dict_get r ''state'' VNone = VStr st)"

definition resources_text :: "string \<Rightarrow> pydict \<Rightarrow> string" where
  "resources_text client d =
     (let rs = map as_dict (get_list d ''resources''); open_res = in_state ''OPEN'' rs
      in if rs = [] then ''No tracked resources for '' @ client
         else text_lines ([''Resources for '' @ shown d ''client'' client @ '' ('' @ fmt_dec (int (length rs)) @ '' tracked):'',
             fmt_left 8 ''Type'' @ '' '' @ fmt_left 24 ''Tag'' @ '' '' @ fmt_left 12 ''Ptr'' @ '' '' @ fmt_right 8 ''Size'' @ '' '' @ fmt_left 8 ''State'',
             replicate 65 (CHR ''-'')] @ map resource_row rs @
           ['''', ''Open: '' @ fmt_dec (int (length open_res)) @ '', Closed: '' @ fmt_dec (int (length (in_state ''CLOSED'' rs)))] @
           (if open_res \<noteq> [] then [''** '' @ fmt_dec (int (length open_res)) @ '' potentially leaked resource(s) **''] else [])))"

definition amiga_list_resources :: "string \<Rightarrow> string gm" where
  "amiga_list_resources client = connected_tool (exchange [''resources'', ''err''] [(''type'', AStr ''LISTRESOURCES''), (''client'', AStr client)] 5000
     (\<lambda>s evt d. if evt = ''err'' \<and> context_in ''LISTRESOURCES'' d then Return (''Error: '' @ shown d ''message'' ''failed'')
        else if evt = ''resources'' then Return (resources_text client d) else Next s) ()
     (\<lambda>_. ret ''Timed out waiting for resource data''))"

text \<open>\<open>tenth a b\<close> is the floating point quotient of the two with one decimal place.\<close>

definition perf_rows :: "(int \<Rightarrow> int \<Rightarrow> string) \<Rightarrow> int \<Rightarrow> string list" where
  "perf_rows tenth frame_avg =
     (if frame_avg \<le> 0 then []
      else let avg_us = frame_avg div 256 * 64
        in (''  (~'' @ fmt_dec avg_us @ ''us avg, ~'' @ tenth avg_us 1000 @ ''ms)'') #
           (if 0 < avg_us then [''  (~'' @ tenth 1000000 avg_us @ '' fps)''] else []))"

definition section_row :: "pydict \<Rightarrow> string" where
  "section_row s = ''  '' @ fmt_left 20 (shown s ''label'' ''?'') @ '' '' @ fmt_right 8 (fmt_dec (get_int s ''avg'' 0)) @ '' '' @
     fmt_right 8 (fmt_dec (get_int s ''min'' 0)) @ '' '' @ fmt_right 8 (fmt_dec (get_int s ''max'' 0)) @ '' '' @
     fmt_right 8 (fmt_dec (get_int s ''count'' 0))"

definition format_perf :: "(int \<Rightarrow> int \<Rightarrow> string) \<Rightarrow> pydict \<Rightarrow> string" where
  "format_perf tenth perf =
     (let ss = map as_dict (get_list perf ''sections'')
      in text_lines ([''=== PERFORMANCE REPORT: '' @ shown perf ''client'' ''?'' @ '' ==='', '''',
           ''Frame Timing (VHPOS units, ~64us/line):'', ''  Avg: '' @ shown perf ''frameAvg'' ''0'', ''  Min: '' @ shown perf ''frameMin'' ''0'',
           ''  Max: '' @ shown perf ''frameMax'' ''0'', ''  Frames: '' @ shown perf ''frameCount'' ''0''] @
         perf_rows tenth (get_int perf ''frameAvg'' 0) @
         (if ss \<noteq> [] then ['''', ''Section Timing:'',
             ''  '' @ fmt_left 20 ''Label'' @ '' '' @ fmt_right 8 ''Avg'' @ '' '' @ fmt_right 8 ''Min'' @ '' '' @ fmt_right 8 ''Max'' @ '' '' @ fmt_right 8 ''Count'',
             ''  '' @ replicate 56 (CHR ''-'')] @ map section_row ss
          else ['''', ''No named sections profiled''])))"

definition amiga_perf_report :: "(int \<Rightarrow> int \<Rightarrow> string) \<Rightarrow> string \<Rightarrow> string gm" where
  "amiga_perf_report tenth client = connected_tool (exchange [''perf'', ''err''] [(''type'', AStr ''GETPERF''), (''client'', AStr client)] 5000
     (\<lambda>s evt d. if evt = ''err'' \<and> context_in ''GETPERF'' d then Return (''Error: '' @ shown d ''message'' ''failed'')
        else if evt = ''perf'' then Return (format_perf tenth d) else Next s) ()
     (\<lambda>_. ret ''Timed out waiting for performance data''))"

section \<open>Symbols\<close>

text \<open>
  \<open>path\<close> is the binary of the project, or the text that says it was not found; the table is that of
  \<open>load_symbols\<close>.
\<close>

definition of_types :: "string list \<Rightarrow> symbol list \<Rightarrow> symbol list" where
  "of_types tys = filter (\<lambda>s. sym_type s \<in> set tys)"

definition count_text :: "'a list \<Rightarrow> string" where
  "count_text xs = fmt_dec (int (length xs))"

definition loaded_text :: "string \<Rightarrow> string \<Rightarrow> symbol_table \<Rightarrow> string" where
  "loaded_text project path t =
     (if symbols t = [] then ''No symbols found for project '' @ quoted project @ '' (binary: '' @ path @ '')''
      else text_lines ([''Loaded '' @ count_text (symbols t) @ '' symbols ('' @ count_text (of_types [''T'', ''t''] (symbols t)) @ '' functions, '' @
             count_text (of_types [''D'', ''d'', ''B'', ''b''] (symbols t)) @ '' data) from '' @ path] @
           (if source_lines t \<noteq> [] then [''STABS debug info: '' @ count_text (source_lines t) @ '' source line mappings''] else []) @
           (if struct_types t \<noteq> [] then [''Struct types: '' @ py_join '', '' (map fst (struct_types t))] else []) @
           (if func_source t \<noteq> [] then [''Function sources: '' @ count_text (func_source t) @ '' mapped to source files''] else [])))"

definition amiga_load_symbols :: "string \<Rightarrow> string \<Rightarrow> string option \<Rightarrow> string option \<Rightarrow> tables \<Rightarrow> string \<times> tables" where
  "amiga_load_symbols project path nm stabs ts =
     (loaded_text project path (load_symbols nm stabs), load_project project nm stabs ts)"

definition amiga_lookup_symbol :: "tables \<Rightarrow> string \<Rightarrow> string \<Rightarrow> string res" where
  "amiga_lookup_symbol ts address project =
     res_bind (py_int 16 address) (\<lambda>addr.
       let ann = annotate_address_full ts addr (Some project); num = ''0x'' @ fmt_hex False 8 addr
       in Inr (if map_of ann ''symbol'' = None then num @ '': no symbol found (load symbols first with amiga_load_symbols)''
            else text_lines ((num @ '' = '' @ shown ann ''symbol'' '''') #
              (if map_of ann ''file'' \<noteq> None then [''Source: '' @ shown ann ''file'' '''' @ '':'' @ shown ann ''line'' ''?''] else []))))"

definition amiga_list_functions :: "tables \<Rightarrow> string \<Rightarrow> string" where
  "amiga_list_functions ts project =
     (let fs = list_functions ts project
      in if fs = [] then ''No functions found for '' @ quoted project @ '' (load symbols first)''
         else text_lines ([''Functions in '' @ project @ '' ('' @ count_text fs @ ''):'', ''''] @
           map (\<lambda>f. ''  '' @ shown f ''address'' '''' @ ''  '' @ shown f ''name'' '''' @
             (if map_of f ''file'' \<noteq> None then ''  ['' @ shown f ''file'' '''' @ '':'' @ shown f ''line'' ''?'' @ '']'' else '''')) fs))"

section \<open>The debugger\<close>

definition amiga_debug_attach :: "debugger \<Rightarrow> string \<Rightarrow> (string \<times> debugger) gm" where
  "amiga_debug_attach d target = connected_tool (exchange [''dbg_state'', ''err''] [(''type'', AStr ''DBGATTACH''), (''target'', AStr target)] 5000
     (\<lambda>s evt m. if evt = ''err'' \<and> context_in ''DBGATTACH'' m then Return (''Attach failed: '' @ shown m ''message'' ''?'', d)
        else if evt = ''dbg_state'' then
          (let d' = update_from_state m d
           in Return (''Attached to '' @ quoted (target_name d') @ '' '' @ em_dash @ '' debugger ready'', d'))
        else Next s) ()
     (\<lambda>_. ret (''Attach sent (no confirmation received)'', d)))"

definition first_event :: "'s option \<Rightarrow> string \<Rightarrow> pydict \<Rightarrow> ('a, pydict option) turn" where
  "first_event s evt m = Break (Some m)"

definition one_event :: "string \<Rightarrow> command \<Rightarrow> int \<Rightarrow> (pydict option \<Rightarrow> 'a gm) \<Rightarrow> 'a gm" where
  "one_event ev cmd timeout fin = exchange [ev] cmd timeout first_event None fin"

definition amiga_debug_detach :: "debugger \<Rightarrow> (string \<times> debugger) gm" where
  "amiga_debug_detach d = connected_tool (one_event ''dbg_detached'' [(''type'', AStr ''DBGDETACH'')] 5000
     (\<lambda>m. ret (if m \<noteq> None then ''Debugger detached'' else ''Detach sent'', reset d)))"

definition hex_text :: "string \<Rightarrow> bool" where
  "hex_text s = list_all (\<lambda>c. c \<in> set ''0123456789abcdefABCDEF'') s"

definition amiga_set_breakpoint :: "string \<Rightarrow> string gm" where
  "amiga_set_breakpoint address = connected_tool
     (if \<not> hex_text address then ret (''Symbol '' @ quoted address @ '' not found. Use hex address or load symbols first.'')
      else exchange [''dbg_bpinfo'', ''err''] [(''type'', AStr ''BPSET''), (''address'', AStr address)] 5000
        (\<lambda>s evt m. if evt = ''err'' \<and> context_in ''BPSET'' m then Return (''Failed: '' @ shown m ''message'' ''?'')
           else if evt = ''dbg_bpinfo'' then
             Return (''Breakpoint #'' @ shown m ''id'' ''0'' @ '' set at 0x'' @ fmt_hex True 8 (get_int m ''address'' 0))
           else Next s) ()
        (\<lambda>_. ret ''Breakpoint command sent (no confirmation)''))"

definition amiga_clear_breakpoint :: "string \<Rightarrow> string gm" where
  "amiga_clear_breakpoint id_or_address = connected_tool
     (exchange [''ok'', ''err''] [(''type'', AStr ''BPCLEAR''), (''id'', AStr id_or_address)] 5000
       (\<lambda>s evt m. if evt = ''ok'' \<and> context_in ''BPCLEAR'' m then Return ''Breakpoint cleared''
          else if evt = ''err'' \<and> context_in ''BPCLEAR'' m then Return (''Failed: '' @ shown m ''message'' ''?'') else Next s) ()
       (\<lambda>_. ret ''Clear command sent''))"

definition breakpoint_row :: "pydict \<Rightarrow> string" where
  "breakpoint_row bp = ''  #'' @ shown bp ''id'' ''0'' @ ''  0x'' @ fmt_hex True 8 (get_int bp ''address'' 0) @ ''  ['' @
     (if get_bool bp ''enabled'' then ''enabled'' else ''disabled'') @ '']  orig=0x'' @ fmt_hex True 4 (get_int bp ''originalWord'' 0)"

definition amiga_list_breakpoints :: "string gm" where
  "amiga_list_breakpoints = connected_tool (one_event ''dbg_bplist'' [(''type'', AStr ''BPLIST'')] 5000
     (\<lambda>m. case m of
        Some (kv # d) \<Rightarrow> listed ''breakpoints'' ''No breakpoints set'' (\<lambda>n. ''Breakpoints ('' @ n @ ''):'') breakpoint_row (kv # d)
      | _ \<Rightarrow> ret ''No response''))"

definition stopped_text :: "string \<Rightarrow> debugger \<Rightarrow> string" where
  "stopped_text word d = word @ stop_reason d @ '' at PC=0x'' @ fmt_hex True 8 (pc d) @ newline @ newline @ format_regs d"

definition step_text :: "debugger \<Rightarrow> string" where
  "step_text d = stopped_text ''Stopped: '' d @
     (if warnings d \<noteq> [] then newline @ newline @ ''Warnings: '' @ py_join '', '' (warnings d) else '''')"

definition run_to_stop :: "string \<Rightarrow> string \<Rightarrow> debugger \<Rightarrow> (string \<times> debugger) gm" where
  "run_to_stop verb none d = connected_tool (one_event ''dbg_stop'' [(''type'', AStr verb)] 30000
     (\<lambda>m. case m of
        Some (kv # m') \<Rightarrow> (let d' = update_from_stop (kv # m') d in ret (step_text d', d'))
      | _ \<Rightarrow> ret (none, d)))"

definition amiga_step :: "debugger \<Rightarrow> (string \<times> debugger) gm" where
  "amiga_step = run_to_stop ''DBGSTEP'' (''Step sent (no stop received '' @ em_dash @ '' target may still be running)'')"

definition amiga_next :: "debugger \<Rightarrow> (string \<times> debugger) gm" where
  "amiga_next = run_to_stop ''DBGNEXT'' ''Next sent (no stop received)''"

definition amiga_continue :: "debugger \<Rightarrow> (string \<times> debugger) gm" where
  "amiga_continue d = connected_tool (exchange [''dbg_running'', ''dbg_stop''] [(''type'', AStr ''DBGCONT'')] 2000
     (\<lambda>s evt m. if evt = ''dbg_running''
        then Return (''Target resumed '' @ em_dash @ '' will notify on breakpoint hit'', d\<lparr>stopped := False\<rparr>)
        else if evt = ''dbg_stop'' then
          (let d' = update_from_stop m d in Return (stopped_text ''Immediately stopped: '' d', d'))
        else Next s) ()
     (\<lambda>_. ret (''Continue sent'', d)))"

definition amiga_backtrace :: "debugger \<Rightarrow> (string \<times> debugger) gm" where
  "amiga_backtrace d = connected_tool (one_event ''dbg_bt'' [(''type'', AStr ''DBGBT'')] 5000
     (\<lambda>m. case m of
        Some (kv # m') \<Rightarrow>
          (let d' = update_backtrace (map as_dict (get_list (kv # m') ''frames'')) d
           in ret (''Backtrace ('' @ shown (kv # m') ''depth'' ''0'' @ '' frames):'' @ newline @ format_backtrace d', d'))
      | _ \<Rightarrow> ret (''No backtrace response'', d)))"

end
