(* ===== verification/Toolset_Run.thy ===== *)
theory Toolset_Run
  imports Toolset_Debug
begin

text \<open>
  The tools of \<open>mcp_tools.py\<close> that move files, follow a file, and build, deploy and run programs.
  Building and deploying are processes and file operations of the host: their results are
  arguments. So are the contents of local files and downloads.
\<close>

section \<open>Following a file\<close>

definition tail_turn :: "string list \<Rightarrow> string \<Rightarrow> pydict \<Rightarrow> (string, string list) turn" where
  "tail_turn cs evt d =
     (let hex_data = get_str d ''data'' ''''
      in if hex_data = ''TRUNCATED'' then Next (cs @ [''[file truncated]''])
         else if hex_data \<noteq> [] then (case hex_to_ascii hex_data of Inl e \<Rightarrow> Raise e | Inr s \<Rightarrow> Next (cs @ [s]))
         else Next cs)"

text \<open>The \<open>finally\<close> block sends STOPTAIL whatever happens; its own exception would replace the first.\<close>

definition stop_tail :: "unit gm" where
  "stop_tail = bind (post [(''type'', AStr ''STOPTAIL'')]) (\<lambda>_.
     bind (await ''ok'' 2000 (Some (field_is ''context'' ''STOPTAIL''))) (\<lambda>_. ret ()))"

definition amiga_tail :: "string \<Rightarrow> int \<Rightarrow> string gm" where
  "amiga_tail path duration_ms = acknowledged ''TAIL'' [(''type'', AStr ''TAIL''), (''path'', AStr path)] ''ok'' (context_is ''TAIL'') 5000
     (\<lambda>_. bind (listen [''taildata'']) (\<lambda>(now, got).
        let r = poll tail_turn (now + duration_ms) now got []
        in bind stop_tail (\<lambda>_. case r of
             Inl x \<Rightarrow> lift_res x
           | Inr cs \<Rightarrow> ret (if cs = [] then ''No new data in '' @ path @ '' during '' @ fmt_dec duration_ms @ ''ms''
               else ''Tail of '' @ path @ '':'' @ newline @ concat cs))))"

section \<open>Moving files\<close>

text \<open>What a transfer needs of its surroundings: the times it took, and the outages of the connection.\<close>

type_synonym surroundings = "(int \<Rightarrow> string) \<times> (serial \<Rightarrow> serial) list"

definition push_with :: "surroundings \<Rightarrow> string \<Rightarrow> byte list option \<Rightarrow> string \<Rightarrow> transfer_result gm" where
  "push_with env local_path content amiga_path = push_file (fst env) (snd env) local_path content amiga_path"

definition amiga_push_file :: "surroundings \<Rightarrow> string \<Rightarrow> byte list option \<Rightarrow> string \<Rightarrow> string gm" where
  "amiga_push_file env local_path content amiga_path =
     connected_tool (bind (push_with env local_path content amiga_path) (\<lambda>r. ret (msg_text r)))"

definition amiga_pull_file :: "(int \<Rightarrow> string) \<Rightarrow> string \<Rightarrow> string \<Rightarrow> (string \<times> byte list option) gm" where
  "amiga_pull_file took amiga_path local_path =
     connected_tool (bind (pull_file took amiga_path local_path) (\<lambda>(r, written). ret (msg_text r, written)))"

text \<open>\<open>fetched\<close> is the text of the exception or the data; \<open>tmp\<close> the path of the temporary file.\<close>

definition amiga_fetch_url :: "surroundings \<Rightarrow> string \<Rightarrow> string + byte list \<Rightarrow> string \<Rightarrow> string \<Rightarrow> string gm" where
  "amiga_fetch_url env tmp fetched url amiga_path = connected_tool
     (case fetched of
        Inl e \<Rightarrow> ret (''Fetch failed for '' @ url @ '': '' @ e)
      | Inr data \<Rightarrow> bind (push_with env tmp (Some data) amiga_path) (\<lambda>r.
          ret (''Fetched '' @ fmt_dec (int (length data)) @ '' bytes from '' @ url @ newline @ msg_text r)))"

text \<open>\<open>str\<close> of the pair that \<open>script_execute\<close> returns.\<close>

fun status_name :: "script_status \<Rightarrow> string" where
  "status_name S_Ok = ''ok''"
| "status_name S_Running = ''running''"
| "status_name S_Timeout = ''timeout''"
| "status_name S_Disconnected = ''disconnected''"
| "status_name S_Error = ''error''"

definition script_pair :: "script_status \<times> string \<Rightarrow> string" where
  "script_pair r = ''('' @ py_repr (status_name (fst r)) @ '', '' @ py_repr (snd r) @ '')''"

definition scratch_lha :: string where
  "scratch_lha = ''T:_install.lha''"

text \<open>The first step: None when it went well as far as its text tells.\<close>

definition install_step :: "surroundings \<Rightarrow> string \<Rightarrow> string + byte list \<Rightarrow> byte list option \<Rightarrow> string \<Rightarrow> string option gm" where
  "install_step env tmp fetched content url_or_path =
     (if py_startswith url_or_path ''http://'' \<or> py_startswith url_or_path ''https://'' then
        bind (amiga_fetch_url env tmp fetched url_or_path scratch_lha) (\<lambda>r1.
          ret (if py_in ''failed'' (py_lower r1) \<or> py_in ''error'' (py_lower r1) then Some (''Fetch step failed:'' @ newline @ r1) else None))
      else bind (push_with env url_or_path content scratch_lha) (\<lambda>r.
          ret (if py_in ''error'' (py_lower (msg_text r)) \<or> py_in ''fail'' (py_lower (msg_text r))
               then Some (''Push step failed:'' @ newline @ msg_text r) else None)))"

definition amiga_install_lha :: "surroundings \<Rightarrow> string \<Rightarrow> string + byte list \<Rightarrow> byte list option \<Rightarrow> (int \<times> int \<times> int list) \<times> (int \<times> int \<times> int list) \<Rightarrow>
    string \<Rightarrow> string \<Rightarrow> bool \<Rightarrow> string gm" where
  "amiga_install_lha env tmp fetched content clocks url_or_path extract_to run_installer = connected_tool
     (bind (install_step env tmp fetched content url_or_path) (\<lambda>failed. case failed of
        Some text \<Rightarrow> ret text
      | None \<Rightarrow>
          bind (case fst clocks of (i, t, ts) \<Rightarrow> script_execute i t ts (''lha x '' @ scratch_lha @ '' '' @ extract_to) 180000) (\<lambda>extract_out.
            if run_installer then
              bind (case snd clocks of (i, t, ts) \<Rightarrow> script_execute i t ts
                  (''echo '' @ [CHR 0x22] @ ''extract done: '' @ extract_to @ [CHR 0x22] @ ''; list '' @ extract_to @ ''#? PAT #?Install#?'') 15000) (\<lambda>find_out.
                ret (''Fetched + extracted to '' @ extract_to @ newline @ newline @ ''--- lha output ---'' @ newline @ script_pair extract_out @
                  newline @ newline @ ''--- installer files ---'' @ newline @ script_pair find_out @ newline @ newline @
                  ''Run the Installer manually from Workbench (they usually need interactive prompts).''))
            else ret (''Fetched + extracted to '' @ extract_to @ newline @ newline @ script_pair extract_out))))"

text \<open>
  \<open>amiga_transfer\<close>: \<open>matches\<close> are the files a pattern stands for, sorted, with their contents; \<open>content\<close>
  is that of a single file. The result of a pull is what is written.
\<close>

definition glob_pattern :: "string \<Rightarrow> bool" where
  "glob_pattern s \<longleftrightarrow> CHR ''*'' \<in> set s \<or> CHR ''?'' \<in> set s"

definition dest_of :: "string \<Rightarrow> string \<Rightarrow> string" where
  "dest_of dest f =
     (if py_endswith dest ''/'' \<or> py_endswith dest '':'' then rstrip_char (CHR ''/'') dest @ ''/'' @ path_name f else dest)"

definition amiga_transfer :: "string \<Rightarrow> (nat \<Rightarrow> surroundings) \<Rightarrow> (string \<times> byte list option) list \<Rightarrow> byte list option \<Rightarrow>
    string \<Rightarrow> string \<Rightarrow> bool \<Rightarrow> bool \<Rightarrow> (string \<times> byte list option) gm" where
  "amiga_transfer secs env matches content source dest source_is_amiga dest_is_amiga = connected_tool
     (if source_is_amiga \<and> \<not> dest_is_amiga then
        bind (pull_file (fst (env 0)) source dest) (\<lambda>(r, written). ret (msg_text r, written))
      else if \<not> source_is_amiga \<and> dest_is_amiga then
        (if glob_pattern source then
           (if matches = [] then ret (''No files match pattern: '' @ source, None)
            else bind (push_files secs (fst \<circ> env) (snd \<circ> env) (map (\<lambda>(f, c). ((f, c), dest_of dest f)) matches)) (\<lambda>r. ret (msg_text r, None)))
         else bind (push_with (env 0) source content dest) (\<lambda>r. ret (msg_text r, None)))
      else ret (''Invalid direction: source and dest cannot both be on the same side'', None))"

section \<open>Building and running\<close>

record build_result =
  build_ok :: bool
  build_output :: string
  build_errors :: string
  duration :: int

record deploy_result =
  deploy_ok :: bool
  deploy_text :: string
  deploy_files :: "string list"

definition amiga_build :: "build_result \<Rightarrow> string" where
  "amiga_build result =
     ''Build '' @ (if build_ok result then ''SUCCEEDED'' else ''FAILED'') @ '' ('' @ fmt_dec (duration result) @ ''ms)'' @
     (if build_output result \<noteq> [] then newline @ ''--- Output ---'' @ newline @ build_output result else '''') @
     (if build_errors result \<noteq> [] then newline @ ''--- Errors ---'' @ newline @ build_errors result else '''')"

definition amiga_clean :: "build_result \<Rightarrow> string" where
  "amiga_clean result =
     ''Clean '' @ (if build_ok result then ''done'' else ''failed'') @ '': '' @ (if build_errors result \<noteq> [] then build_errors result else ''OK'')"

definition amiga_deploy :: "deploy_result gm \<Rightarrow> string gm" where
  "amiga_deploy deploy = bind deploy (\<lambda>r.
     ret (text_lines (deploy_text r # (if deploy_files r \<noteq> [] then [''Files: '' @ py_join '', '' (deploy_files r)] else []))))"

text \<open>\<open>try: ... except Exception as e: ...\<close>\<close>

definition try_gm :: "'a gm \<Rightarrow> (exn \<Rightarrow> 'a gm) \<Rightarrow> 'a gm" where
  "try_gm body handle g = (case body g of (Inl e, g') \<Rightarrow> handle e g' | r \<Rightarrow> r)"

definition launch_command :: "int \<Rightarrow> string \<Rightarrow> command" where
  "launch_command cmd_id cmdline = [(''type'', AStr ''LAUNCH''), (''id'', AInt cmd_id), (''command'', AStr cmdline)]"

definition id_is :: "int \<Rightarrow> pyval \<Rightarrow> bool" where
  "id_is cmd_id v = (dict_get (as_dict v) ''id'' VNone = VInt cmd_id)"

definition amiga_build_deploy_run :: "build_result \<Rightarrow> deploy_result gm \<Rightarrow> int \<Rightarrow> string option \<Rightarrow> string gm" where
  "amiga_build_deploy_run build deploy cmd_id cmdline =
     (if \<not> build_ok build then ret (''Build FAILED ('' @ fmt_dec (duration build) @ ''ms)'' @ newline @ build_errors build)
      else bind deploy (\<lambda>r.
        if \<not> deploy_ok r then ret (''Build OK but deploy failed: '' @ deploy_text r)
        else let result = ''Build SUCCEEDED ('' @ fmt_dec (duration build) @ ''ms)'' @ newline @ ''Deploy: '' @ deploy_text r
          in (\<lambda>g. case cmdline of
            Some (c # cs) \<Rightarrow>
              if \<not> conn_up (link g) then ret result g
              else request (launch_command cmd_id (c # cs)) ''proc'' 5000 (Some (id_is cmd_id))
                (\<lambda>d. ret (result @ newline @ ''Launch: ['' @ shown d ''status'' '''' @ ''] '' @ shown d ''output'' ''''))
                (ret (result @ newline @ ''Launch command sent: '' @ c # cs)) g
          | _ \<Rightarrow> ret result g)))"

text \<open>\<open>project.rstrip("/").split("/")[-1]\<close>\<close>

definition binary_name :: "string \<Rightarrow> string" where
  "binary_name project = last (split_char (CHR ''/'') (rstrip_char (CHR ''/'') project))"

text \<open>The steps of \<open>amiga_run\<close> after the deployment; each gives the lines it adds.\<close>

definition run_stop :: "string \<Rightarrow> string list gm" where
  "run_stop name = try_gm (exchange [''ok'', ''err''] [(''type'', AStr ''STOP''), (''name'', AStr name)] 2000
     (\<lambda>s evt d. if context_in ''STOP'' d \<or> context_in ''Client'' d
        then Break [''Stop: ['' @ evt @ ''] '' @ shown d ''message'' name] else Next s) []
     (\<lambda>ls. ret ls))
     (\<lambda>_. ret [''Stop: skipped (send failed)''])"

definition run_launch :: "(exn \<Rightarrow> string) \<Rightarrow> int \<Rightarrow> string \<Rightarrow> string list gm" where
  "run_launch show_exn cmd_id cmdline = try_gm (request (launch_command cmd_id cmdline) ''cmd'' 5000 (Some (id_is cmd_id))
     (\<lambda>d. ret [''Launch: ['' @ shown d ''status'' '''' @ ''] '' @ shown d ''data'' ''''])
     (ret [''Launch: sent '' @ cmdline @ '' (no response)'']))
     (\<lambda>e. ret [''Launch: failed ('' @ show_exn e @ '')''])"

fun wait_for_client :: "nat \<Rightarrow> string \<Rightarrow> bool gm" where
  "wait_for_client 0 name = ret False"
| "wait_for_client (Suc n) name =
     bind pause (\<lambda>_.
       bind (try_gm (request [(''type'', AStr ''LISTCLIENTS'')] ''clients'' 1000 None
            (\<lambda>d. ret (name \<in> set (get_strs d ''names''))) (ret False)) (\<lambda>_. ret False)) (\<lambda>there.
         if there then ret True else wait_for_client n name))"

definition amiga_run :: "(exn \<Rightarrow> string) \<Rightarrow> build_result \<Rightarrow> deploy_result gm \<Rightarrow> int \<Rightarrow> string \<Rightarrow> string option \<Rightarrow> string gm" where
  "amiga_run show_exn build deploy cmd_id project cmdline =
     (let name = binary_name project;
          launch = (case cmdline of Some (c # cs) \<Rightarrow> c # cs | _ \<Rightarrow> ''Dropbox:Dev/'' @ name);
          s1 = ''Build: '' @ (if build_ok build then ''OK'' else ''FAILED'') @ '' ('' @ fmt_dec (duration build) @ ''ms)''
      in if \<not> build_ok build then
           ret (text_lines (s1 # (if build_errors build \<noteq> [] then [''Errors:'' @ newline @ build_errors build] else [])))
         else bind deploy (\<lambda>r.
           let s2 = ''Deploy: '' @ (if deploy_ok r then ''OK'' else ''FAILED'') @ '' - '' @ deploy_text r
           in if \<not> deploy_ok r then ret (text_lines [s1, s2])
              else (\<lambda>g.
                if \<not> conn_up (link g) then
                  ret (text_lines [s1, s2, ''Stop: skipped (not connected to Amiga)'', ''Launch: skipped (not connected to Amiga)'',
                    ''Client: skipped (not connected to Amiga)'']) g
                else bind (run_stop name) (\<lambda>s3. bind pause (\<lambda>_. bind (run_launch show_exn cmd_id launch) (\<lambda>s4.
                  bind (wait_for_client 6 name) (\<lambda>there.
                    ret (text_lines ([s1, s2] @ s3 @ s4 @
                      [''Client: '' @ (if there then ''connected'' else ''not detected (timeout)'')])))))) g)))"

text \<open>The report of a test run.\<close>

fun test_rows :: "int \<Rightarrow> int \<Rightarrow> pydict list \<Rightarrow> string list" where
  "test_rows passed failed [] = []"
| "test_rows passed failed (r # rs) =
     (let ty = dict_get r ''type'' VNone
      in if ty = VStr ''TEST_PASS'' then (''  PASS: '' @ shown r ''testName'' ''?'') # test_rows (passed + 1) failed rs
         else if ty = VStr ''TEST_FAIL'' then
           (''  FAIL: '' @ shown r ''testName'' ''?'' @ '' ('' @ shown r ''file'' ''?'' @ '':'' @ shown r ''line'' ''0'' @ '')'') # test_rows passed (failed + 1) rs
         else if ty = VStr ''TEST_END'' then
           ['''', ''Results: '' @ fmt_dec passed @ '' passed, '' @ fmt_dec failed @ '' failed, '' @
              shown r ''total'' (fmt_dec (passed + failed)) @ '' total'',
            if failed = 0 then ''ALL TESTS PASSED'' else ''SOME TESTS FAILED''] @ test_rows passed failed rs
         else test_rows passed failed rs)"

definition test_turn :: "pydict list \<times> string \<Rightarrow> string \<Rightarrow> pydict \<Rightarrow> (string, pydict list \<times> string) turn" where
  "test_turn s evt d =
     (let results = fst s @ [d]; ty = dict_get d ''type'' VNone;
          suite_name = (if ty = VStr ''TEST_BEGIN'' then get_str d ''suite'' '''' else snd s)
      in if ty = VStr ''TEST_END'' then Break (results, suite_name) else Next (results, suite_name))"

text \<open>
  \<open>deploy\<close> deploys the test binary, over the shared folder or the bridge, as the source chooses;
  the STOP and LAUNCH commands precede the subscription.
\<close>

definition amiga_run_tests :: "build_result \<Rightarrow> deploy_result gm \<Rightarrow> int \<Rightarrow> string \<Rightarrow> string option \<Rightarrow> string gm" where
  "amiga_run_tests build deploy cmd_id project cmdline = connected_tool
     (if \<not> build_ok build then ret (''Build failed ('' @ fmt_dec (duration build) @ ''ms)'' @ newline @ build_errors build)
      else bind deploy (\<lambda>r.
        if \<not> deploy_ok r then ret (''Build OK but deploy failed: '' @ deploy_text r)
        else let name = (case cmdline of Some (c # cs) \<Rightarrow> c # cs | _ \<Rightarrow> binary_name project)
          in bind (post [(''type'', AStr ''STOP''), (''name'', AStr name)]) (\<lambda>_. bind pause (\<lambda>_.
            bind (post (launch_command cmd_id (''DH2:Dev/'' @ name))) (\<lambda>_.
              collect [''test''] 30000 test_turn ([], '''')
                (\<lambda>(results, suite_name). ret (if results = [] then ''No test results received (timeout after 30s)''
                   else text_lines ([''Test Suite: '' @ suite_name, ''''] @ test_rows 0 0 results))))))))"

end
