(* ===== verification/Tool_Runs.thy ===== *)
theory Tool_Runs
  imports Toolset_Run Transfers
begin

text \<open>
  What the tools of \<open>mcp_tools.py\<close> do: with a bridge that answers, they return what the Amiga holds,
  however the answers are cut and whatever else arrives; the loops over a directory end; and some
  tools cannot do what they promise.
\<close>

section \<open>Answers during a wait\<close>

text \<open>
  \<open>answered\<close>: during a wait of \<open>timeout\<close>, the lines \<open>ls\<close> arrive in time, in any chunks and among
  other lines that publish none of the events \<open>evs\<close>.
\<close>

definition answered :: "int \<Rightarrow> string list \<Rightarrow> string list \<Rightarrow> wait_script \<Rightarrow> bool" where
  "answered timeout evs ls w \<longleftrightarrow>
     (\<exists>xs others t0. concat (map snd (snd w)) = unlines xs \<and> xs \<in> shuffles ls others \<and> list_all (quiet evs) others \<and>
        list_all (\<lambda>c. snd c \<noteq> [] \<and> mono (fst c) < fst w + timeout) (snd w) \<and>
        steady t0 (map (\<lambda>c. (mono (fst c), snd c)) (snd w)))"

lemma listen_answered:
  assumes "ready g" and "script g = w # later" and "answered timeout evs ls w" and "list_all2 (gives evs) ls fs"
    and "''*'' \<notin> set evs" and "length (fst (effects fs)) \<le> queue_max"
  shows "\<exists>got g'. listen evs g = (Inr (fst w, got), g') \<and> map (untimed \<circ> snd) got = fst (effects fs) \<and>
    list_all (\<lambda>x. fst x < fst w + timeout) got \<and> ready g' \<and> script g' = later \<and> wire (link g') = wire (link g)"
proof -
  obtain now cs where w: "w = (now, cs)" by (cases w)
  with assms(3) obtain xs others t0 where
    r: "concat (map snd cs) = unlines xs" "xs \<in> shuffles ls others" "list_all (quiet evs) others"
      "list_all (\<lambda>c. snd c \<noteq> [] \<and> mono (fst c) < now + timeout) cs" "steady t0 (map (\<lambda>c. (mono (fst c), snd c)) cs)"
    by (auto simp: answered_def)
  from effects_quiet [OF assms(4) r(3,2)] obtain fs' where
    fs: "list_all2 (gives evs) xs fs'" "effects fs' = effects fs" by blast
  have "arriving g now (now + timeout) xs"
    using assms(1,2) r by (auto simp: arriving_def w timely_def ready_def list_all_iff)
  from listen_lines [OF fs(1) assms(5) _ assms(1) this] assms(2,6) fs(2) show ?thesis
    by (auto simp: w waited_def)
qed

text \<open>The turns of a tool without their times.\<close>

fun turns :: "('s \<Rightarrow> string \<Rightarrow> pydict \<Rightarrow> ('a, 's) turn) \<Rightarrow> event list \<Rightarrow> 's \<Rightarrow> 'a res + 's" where
  "turns turn [] s = Inr s"
| "turns turn (e # es) s =
     (case turn s (fst e) (as_dict (snd e)) of
        Return x \<Rightarrow> Inl (Inr x)
      | Raise ex \<Rightarrow> Inl (Inl ex)
      | Break s' \<Rightarrow> Inr s'
      | Next s' \<Rightarrow> turns turn es s')"

lemma poll_turns:
  "list_all (\<lambda>x. fst x < deadline) got \<Longrightarrow> now < deadline \<Longrightarrow> poll turn deadline now got s = turns turn (map snd got) s"
proof (induction got arbitrary: now s)
  case (Cons x got)
  obtain t evt m where x: "x = (t, evt, m)" by (cases x) auto
  then have "t < deadline" using Cons.prems by simp
  then have "max now t < deadline" using Cons.prems(2) by simp
  from Cons.IH [OF _ this] Cons.prems x show ?case by (simp split: turn.split)
qed simp

text \<open>The tool takes the events of the answer, up to their time stamps.\<close>

lemma exchange_turns:
  assumes "ready g" and "format_command cmd = Inr line" and "script g = w # later" and "answered timeout evs ls w"
    and "list_all2 (gives evs) ls fs" and "''*'' \<notin> set evs" and "length (fst (effects fs)) \<le> queue_max" and "0 < timeout"
  shows "\<exists>es g'. map untimed es = fst (effects fs) \<and>
    exchange evs cmd timeout turn s fin g = (case turns turn es s of Inl r \<Rightarrow> lift_res r g' | Inr s' \<Rightarrow> fin s' g') \<and>
    ready g' \<and> script g' = later \<and> wire (link g') = wire (link g) @ unlines [line]"
proof -
  from listen_answered [OF _ _ assms(4-7), of "sent line g" later] assms(1,3) obtain got g' where
    got: "listen evs (sent line g) = (Inr (fst w, got), g')" "map (untimed \<circ> snd) got = fst (effects fs)"
      "list_all (\<lambda>x. fst x < fst w + timeout) got" and
    g': "ready g'" "script g' = later" "wire (link g') = wire (link (sent line g))"
    by auto
  have "poll turn (fst w + timeout) (fst w) got s = turns turn (map snd got) s"
    using got(3) assms(8) by (intro poll_turns) simp_all
  moreover have "post cmd g = (Inr (), sent line g)" using assms(1,2) by (intro post_sent) (simp_all add: ready_def)
  ultimately show ?thesis
    using got(1,2) g' by (intro exI [of _ "map snd got"] exI [of _ g']) (simp add: exchange_def collect_def bind_def comp_def split: sum.split)
qed

text \<open>One answer, whose data the tool keeps.\<close>

lemma exchange_one:
  assumes "ready g" and "format_command cmd = Inr line" and "script g = w # later" and "answered timeout evs [l] w"
    and "gives evs l ([(ev, VDict m)], \<lambda>d. d)" and "''*'' \<notin> set evs" and "0 < timeout"
  shows "\<exists>d g'. (\<forall>k. k \<noteq> ''timestamp'' \<longrightarrow> map_of d k = map_of m k) \<and>
    exchange evs cmd timeout turn s fin g =
      (case turn s ev d of Return x \<Rightarrow> ret x | Raise e \<Rightarrow> throw e | Break s' \<Rightarrow> fin s' | Next s' \<Rightarrow> fin s') g' \<and>
    ready g' \<and> script g' = later \<and> wire (link g') = wire (link g) @ unlines [line]"
proof -
  let ?fs = "[([(ev, VDict m)], \<lambda>d. d)] :: effect list"
  have fs: "list_all2 (gives evs) [l] ?fs" "fst (effects ?fs) = [(ev, VDict m)]" using assms(5) by simp_all
  then have "length (fst (effects ?fs)) \<le> queue_max" by (simp add: queue_max_def)
  from exchange_turns [OF assms(1-4) fs(1) assms(6) this assms(7), of turn s fin] obtain es g' where
    es: "map untimed es = [(ev, VDict m)]" and
    x: "exchange evs cmd timeout turn s fin g = (case turns turn es s of Inl r \<Rightarrow> lift_res r g' | Inr s' \<Rightarrow> fin s' g')"
      "ready g'" "script g' = later" "wire (link g') = wire (link g) @ unlines [line]" unfolding fs(2) by (elim exE conjE) (rule that)
  from es obtain e where e: "es = [e]" "untimed e = (ev, VDict m)" by (cases es) auto
  then have "fst e = ev" by (metis fst_conv fst_untimed)
  then have "exchange evs cmd timeout turn s fin g =
      (case turn s ev (as_dict (snd e)) of Return x \<Rightarrow> ret x | Raise e \<Rightarrow> throw e | Break s' \<Rightarrow> fin s' | Next s' \<Rightarrow> fin s') g'"
    using x(1) e(1) by (simp add: lift_res_def split: turn.split)
  then show ?thesis using x(2-4) untimed_get [OF e(2)] by blast
qed

text \<open>What is sent, whatever arrives.\<close>

lemma listen_wire: "listen evs g = (r, g') \<Longrightarrow> wire (link g') = wire (link g)"
  by (auto simp: listen_def Let_def subscribe_def dest!: arrivals_wire split: prod.splits list.splits)

lemma post_cases:
  assumes "post cmd g = (r, g')" and "format_command cmd = Inr line"
  shows "(r = Inr () \<and> wire (link g') = wire (link g) @ unlines [line]) \<or>
    ((\<exists>e. r = Inl e) \<and> wire (link g') = wire (link g))"
  using assms by (auto simp: post_def lift_link_def send_def send_raw_def Let_def split: if_splits)

lemma send_await_wire:
  assumes "send_await cmd target pred timeout g = (r, g')" and "format_command cmd = Inr line"
  shows "(\<exists>a. r = Inr a) \<and> wire (link g') = wire (link g) @ unlines [line] \<or> (\<exists>e. r = Inl e) \<and> wire (link g') = wire (link g)"
proof -
  obtain r1 g1 where p: "post cmd g = (r1, g1)" by fastforce
  show ?thesis
  proof (cases r1)
    case (Inl e)
    then show ?thesis using assms(1) post_cases [OF p assms(2)] p
      by (auto simp: send_await_def exchange_def bind_def)
  next
    case (Inr u)
    obtain r2 g2 where l: "listen [target, ''err''] g1 = (r2, g2)" by fastforce
    then obtain now got where r2: "r2 = Inr (now, got)" by (auto simp: listen_def Let_def split: prod.splits)
    let ?turn = "\<lambda>s evt d. if evt = ''err'' then Return (Err_Data d) else if evt = target \<and> pred d then Return (Ok_Data d) else Next s"
    have "\<exists>a. poll ?turn deadline now got () = Inl (Inr a) \<or> poll ?turn deadline now got () = Inr ()" for deadline now
    proof (induction got arbitrary: now)
      case (Cons x got)
      from Cons.IH [of "max now (fst x)"] show ?case by (cases x) auto
    qed simp
    then obtain a where "poll ?turn (now + timeout) now got () = Inl (Inr a) \<or> poll ?turn (now + timeout) now got () = Inr ()" by blast
    then have "g' = g2 \<and> (\<exists>a. r = Inr a)"
      using assms(1) p Inr l r2
      by (auto simp: send_await_def exchange_def collect_def bind_def lift_res_def ret_def split: sum.splits)
    then show ?thesis using listen_wire [OF l] post_cases [OF p assms(2)] Inr by auto
  qed
qed

section \<open>Listing a directory ends\<close>

definition list_line :: "string \<Rightarrow> nat \<Rightarrow> string" where
  "list_line path off = ''LISTDIR|'' @ path @ ''|'' @ fmt_dec (int off)"

lemma format_list:
  "format_command [(''type'', AStr ''LISTDIR''), (''path'', AStr path), (''offset'', AInt (int off))] = Inr (list_line path off)"
  by (simp add: format_command_def format_table_def format_table1_def Protocol_Format.fields_def req_def opt_def list_line_def)

lemma list_dir_pages_wire:
  "\<exists>offs. wire (link (snd (list_dir_pages path timeout entries g))) = wire (link g) @ unlines (map (list_line path) offs) \<and>
     sorted_wrt (<) offs \<and> (\<forall>i \<in> set offs. length entries \<le> i \<and> (i = length entries \<or> i \<le> 100000))"
proof (induction path timeout entries arbitrary: g rule: list_dir_pages.induct)
  case (1 path timeout entries)
  let ?cmd = "[(''type'', AStr ''LISTDIR''), (''path'', AStr path), (''offset'', AInt (int (length entries)))]"
  obtain r g1 where s: "send_await ?cmd ''dir'' (text_field_is ''path'' path) timeout g = (r, g1)" by fastforce
  note w = send_await_wire [OF s format_list]
  show ?case
  proof (cases "\<exists>d page. r = Inr (Ok_Data d) \<and> page = get_list d ''entries'' \<and>
      \<not> (page = [] \<or> get_int d ''count'' (int (length page)) \<le> int (length (entries @ page)) \<or> 100000 < length (entries @ page))")
    case True
    then obtain d where d: "r = Inr (Ok_Data d)" and
      go: "\<not> (get_list d ''entries'' = [] \<or> get_int d ''count'' (int (length (get_list d ''entries''))) \<le> int (length (entries @ get_list d ''entries'')) \<or>
        100000 < length (entries @ get_list d ''entries''))" by blast
    let ?page = "get_list d ''entries''"
    from 1 [OF s [unfolded d] refl refl refl refl go, of g1] obtain offs where
      offs: "wire (link (snd (list_dir_pages path timeout (entries @ ?page) g1))) = wire (link g1) @ unlines (map (list_line path) offs)"
        "sorted_wrt (<) offs" "\<forall>i \<in> set offs. length (entries @ ?page) \<le> i \<and> (i = length (entries @ ?page) \<or> i \<le> 100000)" by blast
    have "list_dir_pages path timeout entries g = list_dir_pages path timeout (entries @ ?page) g1"
      by (subst list_dir_pages.simps) (use s d go in \<open>simp add: bind_def Let_def\<close>)
    moreover have w1: "wire (link g1) = wire (link g) @ unlines [list_line path (length entries)]" using w d by auto
    moreover have len: "length entries < length (entries @ ?page)" "length (entries @ ?page) \<le> 100000" using go by auto
    have "\<forall>i \<in> set offs. length entries < i \<and> i \<le> 100000"
    proof
      fix i assume "i \<in> set offs"
      with offs(3) have "length (entries @ ?page) \<le> i" "i = length (entries @ ?page) \<or> i \<le> 100000" by blast+
      with len show "length entries < i \<and> i \<le> 100000" by (auto simp del: length_append)
    qed
    ultimately show ?thesis
      using offs(1,2) by (intro exI [of _ "length entries # offs"]) (simp add: less_imp_le)
  next
    case False
    then have "wire (link (snd (list_dir_pages path timeout entries g))) = wire (link g1)"
      by (subst list_dir_pages.simps) (use s in \<open>auto simp: bind_def ret_def Let_def split: sum.split answer.split\<close>)
    with w show ?thesis by (intro exI [of _ "if \<exists>a. r = Inr a then [length entries] else []"]) auto
  qed
qed

text \<open>
  C27. Listing a directory ends: whatever the bridge answers, and whether it answers at all, the tool
  sends at most 100001 commands, each for a later entry than the one before.
\<close>

theorem list_dir_ends:
  "\<exists>offs. wire (link (snd (list_dir_all path g))) = wire (link g) @ unlines (map (list_line path) offs) \<and>
     sorted_wrt (<) offs \<and> length offs \<le> 100001"
proof -
  from list_dir_pages_wire [of path 5000 "[]" g] obtain offs where
    offs: "wire (link (snd (list_dir_all path g))) = wire (link g) @ unlines (map (list_line path) offs)"
      "sorted_wrt (<) offs" "set offs \<subseteq> {..100000}" unfolding list_dir_all_def by fastforce
  have "length offs = card (set offs)" using offs(2) by (simp add: distinct_card strict_sorted_iff)
  also have "\<dots> \<le> 100001" using card_mono [OF _ offs(3)] by simp
  finally show ?thesis using offs(1,2) by blast
qed

section \<open>Listing a directory\<close>

lemma entries_parsed:
  assumes "ts \<noteq> []" and "\<And>t. t \<in> set ts \<Longrightarrow> f (stem t) = Some (v t) \<and> f (stem t @ '')'') = Some (v t) \<and> CHR '')'' \<notin> set (stem t)"
  shows "List.map_filter f (split_pair (CHR '')'') (CHR '','') (py_join '','' (map (\<lambda>t. stem t @ '')'') ts))) = map v ts"
proof -
  have stems: "map stem ts \<noteq> []" "\<forall>e \<in> set (map stem ts). CHR '')'' \<notin> set e" using assms by auto
  have "map (\<lambda>t. stem t @ '')'') ts = map (\<lambda>e. e @ '')'') (map stem ts)" by simp
  then have s: "split_pair (CHR '')'') (CHR '','') (py_join '','' (map (\<lambda>t. stem t @ '')'') ts)) =
      map stem (butlast ts) @ [stem (last ts) @ '')'']"
    using split_pair_entries [OF stems] assms(1) by (simp only: map_butlast last_map [OF assms(1)])
  have "List.map_filter f (map stem (butlast ts)) = map v (butlast ts)"
    using assms(2) by (intro map_filter_Some) (meson in_set_butlastD)
  moreover have "f (stem (last ts) @ '')'') = Some (v (last ts))" using assms by simp
  moreover have "map v ts = map v (butlast ts) @ [v (last ts)]"
    using assms(1) by (metis append_butlast_last_id list.simps(8,9) map_append)
  ultimately show ?thesis unfolding s by (simp add: List.map_filter_def)
qed

text \<open>An entry of a directory: its name, its size and whether it is a directory.\<close>

type_synonym file_entry = "string \<times> int \<times> bool"

definition entry_stem :: "file_entry \<Rightarrow> string" where
  "entry_stem e = (case e of (name, sz, is_dir) \<Rightarrow> name @ ''('' @ fmt_dec sz @ '','' @ (if is_dir then ''D'' else ''F''))"

definition entry_val :: "file_entry \<Rightarrow> pyval" where
  "entry_val e = (case e of (name, sz, is_dir) \<Rightarrow>
     VDict [(''name'', VStr name), (''size'', VInt sz), (''type'', VStr (if is_dir then ''dir'' else ''file''))])"

definition wf_entry :: "file_entry \<Rightarrow> bool" where
  "wf_entry e = (plain (fst e) \<and> fst e \<noteq> [] \<and> CHR ''('' \<notin> set (fst e) \<and> CHR '')'' \<notin> set (fst e))"

text \<open>A page of the listing, as the bridge writes it.\<close>

definition dir_line :: "string \<Rightarrow> nat \<Rightarrow> file_entry list \<Rightarrow> string" where
  "dir_line path n page = py_join ''|'' [''DIR'', path, fmt_dec (int n), py_join '','' (map (\<lambda>e. entry_stem e @ '')'') page)]"

lemma entry_parsed:
  assumes "wf_entry e"
  shows "dir_entry (entry_stem e) = Some (entry_val e)" and "dir_entry (entry_stem e @ '')'') = Some (entry_val e)"
    and "CHR '')'' \<notin> set (entry_stem e)" and "plain (entry_stem e)"
proof -
  obtain name sz d where e: "e = (name, sz, d)" by (cases e)
  let ?t = "if d then ''D'' else ''F''" and ?s = "entry_stem e"
  have n: "plain name" "name \<noteq> []" "CHR ''('' \<notin> set name" "CHR '')'' \<notin> set name" using assms by (simp_all add: wf_entry_def e)
  have s: "?s = name @ ''('' @ fmt_dec sz @ '','' @ ?t" by (simp add: entry_stem_def e)
  show p: "plain ?s" using n(1) by (simp add: s field_char_def)
  show c: "CHR '')'' \<notin> set ?s" using n(4) word_text_mem [OF fmt_dec_word [of sz]] by (simp add: s)
  have "\<not> is_space x" if "x \<in> set ?s" for x using p that field_char_not(3) by (auto simp: plain_def list_all_iff)
  then have sp: "py_strip ?s = ?s" "py_strip (?s @ '')'') = ?s @ '')''"
    by (auto intro!: py_strip_no_space simp: is_space_def)
  have ne: "?s \<noteq> []" by (simp add: s)
  then have "last ?s \<noteq> CHR '')''" using c last_in_set by metis
  then have r: "rstrip_char (CHR '')'') ?s = ?s" using ne by (rule rstrip_char_none [rotated])
  have b: "before_char (CHR ''('') ?s = name" "after_char (CHR ''('') ?s = fmt_dec sz @ '','' @ ?t"
    using n(3) by (simp_all add: s before_char_append after_char_append)
  have i: "split_char (CHR '','') (after_char (CHR ''('') ?s) = [fmt_dec sz, ?t]"
    unfolding b using word_text_mem [OF fmt_dec_word [of sz]] by (simp add: split_char_append split_char_no_sep)
  have m: "CHR ''('' \<in> set ?s" by (simp add: s)
  have t: "py_strip ?t = ?t" by (simp add: py_strip_def py_lstrip_def is_space_def)
  have ev: "entry_val e = VDict [(''name'', VStr name), (''size'', VInt sz), (''type'', VStr (if d then ''dir'' else ''file''))]"
    by (simp add: entry_val_def e)
  show "dir_entry ?s = Some (entry_val e)" "dir_entry (?s @ '')'') = Some (entry_val e)"
    unfolding dir_entry_def sp rstrip_char_one r Let_def b(1) i using m t by (simp_all add: ev)
qed

lemma plain_join: "plain sep \<Longrightarrow> (\<And>x. x \<in> set xs \<Longrightarrow> plain x) \<Longrightarrow> plain (py_join sep xs)"
proof (induction xs)
  case (Cons x xs)
  then show ?case by (cases xs) simp_all
qed simp

definition dir_message :: "string \<Rightarrow> nat \<Rightarrow> file_entry list \<Rightarrow> pydict" where
  "dir_message path n page =
     [(''type'', VStr ''DIR''), (''path'', VStr path), (''count'', VInt (int n)), (''entries'', VList (map entry_val page))]"

lemma dir_line_gives:
  assumes "plain path" and "list_all wf_entry page"
  shows "gives [''dir'', ''err''] (dir_line path n page) ([(''dir'', VDict (dir_message path n page))], \<lambda>d. d)"
proof -
  let ?es = "py_join '','' (map (\<lambda>e. entry_stem e @ '')'') page)"
  have pl: "plain ?es"
    using assms(2) entry_parsed(4) by (intro plain_join) (auto simp: field_char_def list_all_iff)
  have es: "(if ?es \<noteq> [] then List.map_filter dir_entry (split_pair (CHR '')'') (CHR '','') ?es) else []) = map entry_val page"
  proof (cases "page = []")
    case False
    then have "?es \<noteq> []" by (cases page; cases "tl page") (auto simp: entry_stem_def)
    moreover have "List.map_filter dir_entry (split_pair (CHR '')'') (CHR '','') ?es) = map entry_val page"
      using assms(2) entry_parsed(1-3) by (intro entries_parsed [OF False]) (auto simp: list_all_iff)
    ultimately show ?thesis by simp
  qed simp
  have p: "parse_DIR [''DIR'', path, fmt_dec (int n), ?es] = Inr (Some (dir_message path n page))"
    using es by (simp add: parse_DIR_def fld_def ifld_def present_def rest_def dir_message_def split: if_splits)
  show ?thesis
    unfolding dir_line_def
    by (rule fields_give [where branch = parse_DIR and t = "''DIR''"])
      (use assms(1) pl p in \<open>simp_all add: parse_table_def field_char_def message_branch_def plain_events_def dir_message_def\<close>)
qed

text \<open>The offsets at which the pages start.\<close>

fun page_starts :: "nat \<Rightarrow> 'a list list \<Rightarrow> nat list" where
  "page_starts off [] = []"
| "page_starts off (p # ps) = off # page_starts (off + length p) ps"

lemma list_dir_page:
  assumes "ready g" and "script g = w # later" and "plain path" and "list_all wf_entry page"
    and "answered timeout [''dir'', ''err''] [dir_line path n page] w" and "0 < timeout"
  shows "\<exists>d g'. send_await [(''type'', AStr ''LISTDIR''), (''path'', AStr path), (''offset'', AInt (int (length es)))]
      ''dir'' (text_field_is ''path'' path) timeout g = (Inr (Ok_Data d), g') \<and>
    get_list d ''entries'' = map entry_val page \<and> get_int d ''count'' k = int n \<and>
    ready g' \<and> script g' = later \<and> wire (link g') = wire (link g) @ unlines [list_line path (length es)]"
proof -
  let ?turn = "\<lambda>s evt d. if evt = ''err'' then Return (Err_Data d)
      else if evt = ''dir'' \<and> text_field_is ''path'' path d then Return (Ok_Data d) else Next s"
  from exchange_one [OF assms(1) format_list assms(2,5) dir_line_gives [OF assms(3,4)] _ assms(6), of path "length es" ?turn "()" "\<lambda>_. ret No_Resp"]
  obtain d g' where d: "\<forall>k. k \<noteq> ''timestamp'' \<longrightarrow> map_of d k = map_of (dir_message path n page) k"
    and x: "exchange [''dir'', ''err''] [(''type'', AStr ''LISTDIR''), (''path'', AStr path), (''offset'', AInt (int (length es)))] timeout
        ?turn () (\<lambda>_. ret No_Resp) g =
      (case ?turn () ''dir'' d of Return x \<Rightarrow> ret x | Raise e \<Rightarrow> throw e | Break s' \<Rightarrow> ret No_Resp | Next s' \<Rightarrow> ret No_Resp) g'"
    and g': "ready g'" "script g' = later" "wire (link g') = wire (link g) @ unlines [list_line path (length es)]" by auto
  have m: "text_field_is ''path'' path d" "get_list d ''entries'' = map entry_val page" "get_int d ''count'' k = int n"
    using d by (simp_all add: text_field_is_def dict_get_def dir_message_def get_list_def get_int_def as_list_def)
  then have "send_await [(''type'', AStr ''LISTDIR''), (''path'', AStr path), (''offset'', AInt (int (length es)))]
      ''dir'' (text_field_is ''path'' path) timeout g = (Inr (Ok_Data d), g')"
    using x by (simp add: send_await_def ret_def)
  then show ?thesis using m g' by blast
qed

lemma list_dir_pages_complete:
  assumes "ready g" and "script g = ws @ later" and "plain path" and "0 < timeout"
    and "list_all2 (\<lambda>p w. answered timeout [''dir'', ''err''] [dir_line path n p] w) pages ws"
    and "list_all (list_all wf_entry) pages" and "length es + length (concat pages) = n" and "n \<le> 100000"
    and "pages \<noteq> []" and "list_all (\<lambda>p. p \<noteq> []) pages \<or> pages = [[]]"
  shows "\<exists>g'. list_dir_pages path timeout es g = (Inr (Entries (es @ map entry_val (concat pages))), g') \<and>
    ready g' \<and> script g' = later \<and> wire (link g') = wire (link g) @ unlines (map (list_line path) (page_starts (length es) pages))"
  using assms
proof (induction pages arbitrary: g ws es)
  case (Cons p pages)
  from Cons.prems(5) obtain w ws' where ws: "ws = w # ws'" "answered timeout [''dir'', ''err''] [dir_line path n p] w"
    "list_all2 (\<lambda>p w. answered timeout [''dir'', ''err''] [dir_line path n p] w) pages ws'" by (auto simp: list_all2_Cons1)
  have wf: "list_all wf_entry p" "list_all (list_all wf_entry) pages" using Cons.prems(6) by simp_all
  have "script g = w # ws' @ later" using Cons.prems(2) ws(1) by simp
  from list_dir_page [OF Cons.prems(1) this Cons.prems(3) wf(1) ws(2) Cons.prems(4), of es "int (length (map entry_val p))"] obtain d g1 where
    d: "send_await [(''type'', AStr ''LISTDIR''), (''path'', AStr path), (''offset'', AInt (int (length es)))]
      ''dir'' (text_field_is ''path'' path) timeout g = (Inr (Ok_Data d), g1)"
      "get_list d ''entries'' = map entry_val p" "get_int d ''count'' (int (length (map entry_val p))) = int n"
    and g1: "ready g1" "script g1 = ws' @ later" "wire (link g1) = wire (link g) @ unlines [list_line path (length es)]" by blast
  show ?case
  proof (cases "pages = []")
    case True
    then have "ws' = []" using ws(3) by simp
    moreover have "list_dir_pages path timeout es g = (Inr (Entries (es @ map entry_val p)), g1)"
      by (subst list_dir_pages.simps)
        (use d True Cons.prems(7) in \<open>simp add: bind_def ret_def Let_def del: length_map\<close>, simp)
    ultimately show ?thesis using True g1 by simp
  next
    case False
    let ?es = "es @ map entry_val p"
    from False Cons.prems(10) have ne: "p \<noteq> []" "list_all (\<lambda>p. p \<noteq> []) pages" by auto
    then have "concat pages \<noteq> []" using False by (cases pages) auto
    then have "length ?es < n" using Cons.prems(7) by (cases "concat pages") auto
    then have go: "\<not> (map entry_val p = [] \<or> int n \<le> int (length ?es) \<or> 100000 < length ?es)"
      using ne(1) Cons.prems(8) by simp
    have "list_dir_pages path timeout es g = list_dir_pages path timeout ?es g1"
      by (subst list_dir_pages.simps) (use d go in \<open>simp add: bind_def Let_def\<close>)
    moreover have "length ?es + length (concat pages) = n" using Cons.prems(7) by simp
    ultimately show ?thesis
      using Cons.IH [OF g1(1,2) Cons.prems(3,4) ws(3) wf(2) _ Cons.prems(8) False, of ?es] ne(2) g1(3) by auto
  qed
qed simp

text \<open>
  C26. A directory is listed completely: if the bridge answers each LISTDIR with the next page, in any
  chunks and among any lines that report no directory and no error, the tool collects all
  entries in order, with their sizes and kinds, and asks once for each page.
\<close>

theorem list_dir_complete:
  assumes "ready g" and "script g = ws @ later" and "plain path"
    and "list_all2 (\<lambda>p w. answered 5000 [''dir'', ''err''] [dir_line path (length es) p] w) pages ws"
    and "concat pages = es" and "list_all wf_entry es" and "length es \<le> 100000"
    and "pages \<noteq> []" and "list_all (\<lambda>p. p \<noteq> []) pages \<or> pages = [[]]"
  shows "\<exists>g'. list_dir_all path g = (Inr (Entries (map entry_val es)), g') \<and>
    wire (link g') = wire (link g) @ unlines (map (list_line path) (page_starts 0 pages))"
proof -
  have "list_all (list_all wf_entry) pages" using assms(5,6) by (auto simp: list_all_iff)
  from list_dir_pages_complete [OF assms(1-3) _ assms(4) this _ assms(7-9), of "[]"] assms(5) show ?thesis
    unfolding list_dir_all_def by auto
qed

end
