(* ===== verification/Tool_Results.thy ===== *)
theory Tool_Results
  imports Tool_Runs
begin

text \<open>
  The results of single tools of \<open>mcp_tools.py\<close>: the output of a script, memory and its
  disassembly, breakpoints, and the installation of an archive.
\<close>

section \<open>The text of a file\<close>

text \<open>
  What a read of the capture file brings. \<open>_read_amiga_file_text\<close> asks for 4096 bytes, but the bridge
  answers with as many as fit a line of 8192 characters beside the path (\<open>protocol_send_file\<close> of
  \<open>protocol_handler.c\<close>, \<open>BRIDGE_MAX_LINE\<close> of \<open>bridge_internal.h\<close>), which is never 4096. The short
  answer is taken for the end of the file, so one read is all that is seen of it.
\<close>

definition read_cap :: "string \<Rightarrow> nat" where
  "read_cap path = min 4096 ((8192 - length path - 40) div 2)"

definition seen_of :: "string \<Rightarrow> byte list \<Rightarrow> byte list" where
  "seen_of path data = take (read_cap path) data"

definition capture_answered :: "string \<Rightarrow> byte list \<Rightarrow> wait_script \<Rightarrow> bool" where
  "capture_answered path data w \<longleftrightarrow> answered 4000 [''file'', ''err''] [file_line path (0, seen_of path data)] w"

lemma read_cap_bounds: "read_cap path < 4096" "2 * read_cap path \<le> 8152 - length path"
proof -
  have "read_cap path \<le> (8152 - length path) div 2" by (simp add: read_cap_def)
  then show "2 * read_cap path \<le> 8152 - length path" by linarith
  then show "read_cap path < 4096" by linarith
qed

lemma seen_short: "length (seen_of path data) < 4096" "2 * length (seen_of path data) \<le> 8152 - length path"
  using read_cap_bounds [of path] by (simp_all add: seen_of_def min_def)

text \<open>Such an answer keeps to the limit of a line.\<close>

lemma nat_digits_short: "n < 10 ^ Suc k \<Longrightarrow> length (nat_digits False 10 n) \<le> Suc k"
proof (induction k arbitrary: n)
  case (Suc k)
  have "n div 10 < 10 ^ Suc k" using Suc.prems by (simp add: less_mult_imp_div_less mult.commute)
  from Suc.IH [OF this] show ?case by (subst nat_digits.simps) simp
qed (subst nat_digits.simps, simp)

lemma fmt_dec_short: "n < 4096 \<Longrightarrow> length (fmt_dec (int n)) \<le> 4"
  using nat_digits_short [of n 3] by (simp add: fmt_dec_def)

lemma file_line_fits:
  assumes "length path \<le> 8152"
  shows "length (file_line path (0, seen_of path data)) < 8192"
proof -
  have "length (fmt_dec (int (length (seen_of path data)))) \<le> 4"
    by (rule fmt_dec_short [OF seen_short(1)])
  moreover note seen_short(2) [of path data]
  ultimately show ?thesis
    using assms by (simp add: file_line_def fmt_dec_small)
qed

lemma bytes_hex_empty: "bytes_hex u d = [] \<longleftrightarrow> d = []"
  by (cases d) (simp_all add: bytes_hex_def byte_hex_def)

lemma text_read_exchange:
  assumes "ready g" and "script g = w # later" and "plain path" and "0 < timeout"
    and "answered timeout [''file'', ''err''] [file_line path (off, d)] w"
  shows "\<exists>got g'. exchange [''file'', ''err'']
      [(''type'', AStr ''READFILE''), (''path'', AStr path), (''offset'', AInt (int off)), (''size'', AInt 4096)] timeout
      (\<lambda>s evt d. if evt = ''err'' then Return None
                 else if evt = ''file'' \<and> text_field_is ''path'' path d then Return (Some d) else Next s)
      () (\<lambda>_. ret None) g = (Inr (Some got), g') \<and> get_str got ''hexData'' '''' = bytes_hex False d \<and>
    ready g' \<and> script g' = later \<and> wire (link g') = wire (link g) @ unlines [read_line path (int off) 4096]"
proof -
  let ?turn = "\<lambda>s evt d. if evt = ''err'' then Return None
      else if evt = ''file'' \<and> text_field_is ''path'' path d then Return (Some d) else Next s"
  have "gives [''file'', ''err''] (file_line path (off, d)) ([(''file'', VDict [(''type'', VStr ''FILE''), (''path'', VStr path),
      (''size'', VInt (int off)), (''offset'', VInt (int (length d))), (''hexData'', VStr (bytes_hex False d))])], \<lambda>d. d)"
    using assms(3) by (intro file_line_gives) simp_all
  from exchange_one [OF assms(1) format_read assms(2,5) this _ assms(4), of path "int off" 4096 ?turn "()" "\<lambda>_. ret None"]
  obtain got g' where got: "\<forall>k. k \<noteq> ''timestamp'' \<longrightarrow> map_of got k = map_of [(''type'', VStr ''FILE''), (''path'', VStr path),
      (''size'', VInt (int off)), (''offset'', VInt (int (length d))), (''hexData'', VStr (bytes_hex False d))] k"
    and x: "exchange [''file'', ''err'']
        [(''type'', AStr ''READFILE''), (''path'', AStr path), (''offset'', AInt (int off)), (''size'', AInt 4096)] timeout
        ?turn () (\<lambda>_. ret None) g =
      (case ?turn () ''file'' got of Return x \<Rightarrow> ret x | Raise e \<Rightarrow> throw e | Break s' \<Rightarrow> ret None | Next s' \<Rightarrow> ret None) g'"
    and g': "ready g'" "script g' = later" "wire (link g') = wire (link g) @ unlines [read_line path (int off) 4096]" by auto
  have "text_field_is ''path'' path got" "get_str got ''hexData'' '''' = bytes_hex False d"
    using got by (simp_all add: text_field_is_def dict_get_def get_str_def)
  then show ?thesis using x g' by (intro exI [of _ got] exI [of _ g']) (simp add: ret_def)
qed

lemma read_text:
  assumes "ready g" and "script g = w # later" and "plain path" and "capture_answered path data w"
  shows "\<exists>g'. read_amiga_file_text path 65536 4000 [] g = (Inr (Some (latin1 (seen_of path data))), g') \<and>
    ready g' \<and> script g' = later \<and> wire (link g') = wire (link g) @ unlines [read_line path 0 4096]"
proof -
  let ?d = "seen_of path data"
  have w: "answered 4000 [''file'', ''err''] [file_line path (0, ?d)] w" using assms(4) by (simp add: capture_answered_def)
  from text_read_exchange [OF assms(1-3) _ w] obtain got g1 where
    x: "exchange [''file'', ''err'']
        [(''type'', AStr ''READFILE''), (''path'', AStr path), (''offset'', AInt 0), (''size'', AInt 4096)] 4000
        (\<lambda>s evt d. if evt = ''err'' then Return None
                   else if evt = ''file'' \<and> text_field_is ''path'' path d then Return (Some d) else Next s)
        () (\<lambda>_. ret None) g = (Inr (Some got), g1)" "get_str got ''hexData'' '''' = bytes_hex False ?d"
    and g1: "ready g1" "script g1 = later" "wire (link g1) = wire (link g) @ unlines [read_line path 0 4096]"
    by auto
  have "read_amiga_file_text path 65536 4000 [] g =
      (if ?d = [] then ret (Some (latin1 [])) else ret (Some (latin1 ?d))) g1"
    using x seen_short(1) [of path data]
    by (subst read_amiga_file_text.simps) (simp add: bind_def Let_def bytes_hex_empty)
  then have "read_amiga_file_text path 65536 4000 [] g = (Inr (Some (latin1 ?d)), g1)" by (simp add: ret_def)
  with g1 show ?thesis by blast
qed

section \<open>Scripts\<close>

lemma before_text_found:
  "\<not> py_in p (s @ butlast p) \<Longrightarrow> p \<noteq> [] \<Longrightarrow> before_text p (s @ p @ r) = s \<and> py_in p (s @ p @ r)"
proof (induction s)
  case Nil
  then show ?case using py_startswith_append [of p r] by (cases p) auto
next
  case (Cons c s)
  have "py_startswith (c # s @ p @ r) p \<longleftrightarrow> py_startswith (c # s @ butlast p) p"
  proof -
    have "p @ r = butlast p @ last p # r"
      by (metis append.assoc append_Cons append_Nil append_butlast_last_id Cons.prems(2))
    then have "take (length p) (c # s @ p @ r) = take (length p) ((c # s @ butlast p) @ (last p # r))"
      by (simp only: append_assoc append_Cons)
    also have "\<dots> = take (length p) (c # s @ butlast p)" using Cons.prems(2) by (cases p) simp_all
    finally show ?thesis by (simp add: py_startswith_def)
  qed
  with Cons show ?case by simp
qed

text \<open>A poll that finds the script still running, and the pause after it.\<close>

definition unfinished :: "string \<Rightarrow> byte list \<Rightarrow> wait_script list \<Rightarrow> bool" where
  "unfinished path data ws \<longleftrightarrow>
     \<not> py_in SCRIPT_SENTINEL (latin1 (seen_of path data)) \<and>
     (\<exists>w t. ws = [w, (t, [])] \<and> capture_answered path data w)"

abbreviation last_text :: "string \<Rightarrow> string \<Rightarrow> byte list list \<Rightarrow> string" where
  "last_text path prev datas \<equiv> (if datas = [] then prev else latin1 (seen_of path (last datas)))"

lemma ready_pause: "ready g \<Longrightarrow> script g = (t, []) # later \<Longrightarrow> pause g = (Inr (), g\<lparr>script := later\<rparr>)"
  by (simp add: pause_def)

lemma script_polls:
  assumes "ready g" and "script g = concat wss @ later" and "plain path" and "list_all2 (unfinished path) datas wss"
    and "length cs = length datas" and "list_all (\<lambda>t. t < deadline) cs"
  shows "\<exists>g'. script_poll path deadline (cs @ clocks) prev g = script_poll path deadline clocks (last_text path prev datas) g' \<and>
    ready g' \<and> script g' = later \<and> wire (link g') = wire (link g) @ unlines (replicate (length datas) (read_line path 0 4096))"
  using assms
proof (induction datas arbitrary: g wss cs prev)
  case (Cons d datas)
  from Cons.prems(4) obtain w t wss' where ws: "wss = [w, (t, [])] # wss'" "capture_answered path d w"
    "\<not> py_in SCRIPT_SENTINEL (latin1 (seen_of path d))" "list_all2 (unfinished path) datas wss'"
    by (auto simp: list_all2_Cons1 unfinished_def [of path d])
  from Cons.prems(5,6) obtain c cs' where cs: "cs = c # cs'" "c < deadline" "length cs' = length datas" "list_all (\<lambda>t. t < deadline) cs'"
    by (cases cs) auto
  have "script g = w # (t, []) # concat wss' @ later" using Cons.prems(2) ws(1) by simp
  from read_text [OF Cons.prems(1) this Cons.prems(3) ws(2)] obtain g1 where
    g1: "read_amiga_file_text path 65536 4000 [] g = (Inr (Some (latin1 (seen_of path d))), g1)" "ready g1"
      "script g1 = (t, []) # concat wss' @ later" "wire (link g1) = wire (link g) @ unlines [read_line path 0 4096]" by blast
  let ?g = "g1\<lparr>script := concat wss' @ later\<rparr>"
  have "ready ?g" "script ?g = concat wss' @ later" "wire (link ?g) = wire (link g1)" using g1(2) by (simp_all add: ready_def)
  with Cons.IH [OF _ _ Cons.prems(3) ws(4) cs(3,4), of ?g "latin1 (seen_of path d)"] obtain g' where
    g': "script_poll path deadline (cs' @ clocks) (latin1 (seen_of path d)) ?g =
        script_poll path deadline clocks (last_text path (latin1 (seen_of path d)) datas) g'" "ready g'" "script g' = later"
      "wire (link g') = wire (link g1) @ unlines (replicate (length datas) (read_line path 0 4096))" by auto
  have "script_poll path deadline (cs @ clocks) prev g = script_poll path deadline (cs' @ clocks) (latin1 (seen_of path d)) ?g"
    using cs(1,2) g1(1) ws(3) ready_pause [OF g1(2,3)] by (simp add: bind_def)
  with g' g1(4) show ?case by auto
qed auto

definition script_ack :: "int \<Rightarrow> string \<Rightarrow> string" where
  "script_ack cmd_id path = py_join ''|'' [''CMD'', fmt_dec cmd_id, ''ok'', ''ASYNC'', path]"

definition script_line_of :: "int \<Rightarrow> string \<Rightarrow> string" where
  "script_line_of cmd_id cmd = ''SCRIPT|'' @ fmt_dec cmd_id @ ''|'' @ cmd"

lemma format_script:
  "format_command [(''type'', AStr ''SCRIPT''), (''id'', AInt cmd_id), (''script'', AStr cmd)] = Inr (script_line_of cmd_id cmd)"
  by (simp add: format_command_def format_table_def format_table1_def format_table2_def format_table3_def format_table4_def
    Protocol_Format.fields_def req_def script_line_of_def)

lemma format_delete:
  "format_command [(''type'', AStr ''DELETEFILE''), (''path'', AStr path)] = Inr (''DELETEFILE|'' @ path)"
  by (simp add: format_command_def format_table_def format_table1_def format_table2_def format_table3_def format_table4_def
    Protocol_Format.fields_def req_def)

lemma script_ack_gives:
  assumes "plain path"
  shows "gives [''cmd'', ''err''] (script_ack cmd_id path)
     ([(''cmd'', VDict [(''type'', VStr ''CMD''), (''id'', VInt cmd_id), (''status'', VStr ''ok''), (''data'', VStr (''ASYNC|'' @ path))])], \<lambda>d. d)"
  unfolding script_ack_def
  by (rule fields_give [where branch = parse_CMD and t = "''CMD''"])
    (use assms in \<open>simp_all add: parse_table_def parse_CMD_def rest_def field_char_def message_branch_def plain_events_def\<close>)

lemma script_launched:
  assumes "ready g" and "script g = w # later" and "plain path" and "answered 10000 [''cmd'', ''err''] [script_ack cmd_id path] w"
  shows "\<exists>g1. script_execute cmd_id start clocks cmd timeout g = script_poll path (start + timeout) clocks [] g1 \<and>
    ready g1 \<and> script g1 = later \<and> wire (link g1) = wire (link g) @ unlines [script_line_of cmd_id cmd]"
proof -
  let ?turn = "\<lambda>s evt d. if evt = ''err'' then Return (Inl (get_str d ''message'' ''Error''))
      else if evt = ''cmd'' \<and> dict_get d ''id'' VNone = VInt cmd_id then Return (Inr (Some d)) else Next s"
  from exchange_one [OF assms(1) format_script [of cmd_id cmd] assms(2,4) script_ack_gives [OF assms(3)], of ?turn "()" "\<lambda>_. ret (Inr None)"]
  obtain d g1 where d: "\<forall>k. k \<noteq> ''timestamp'' \<longrightarrow> map_of d k = map_of [(''type'', VStr ''CMD''), (''id'', VInt cmd_id),
      (''status'', VStr ''ok''), (''data'', VStr (''ASYNC|'' @ path))] k"
    and y: "exchange [''cmd'', ''err''] [(''type'', AStr ''SCRIPT''), (''id'', AInt cmd_id), (''script'', AStr cmd)] 10000
        ?turn () (\<lambda>_. ret (Inr None)) g =
      (case ?turn () ''cmd'' d of Return x \<Rightarrow> ret x | Raise e \<Rightarrow> throw e | Break s' \<Rightarrow> ret (Inr None) | Next s' \<Rightarrow> ret (Inr None)) g1"
    and g1: "ready g1" "script g1 = later" "wire (link g1) = wire (link g) @ unlines [script_line_of cmd_id cmd]" by auto
  have data: "get_str d ''data'' '''' = ''ASYNC|'' @ path" "dict_get d ''id'' VNone = VInt cmd_id"
    using d by (simp_all add: get_str_def dict_get_def)
  with y have x: "exchange [''cmd'', ''err''] [(''type'', AStr ''SCRIPT''), (''id'', AInt cmd_id), (''script'', AStr cmd)] 10000
        ?turn () (\<lambda>_. ret (Inr None)) g = (Inr (Inr (Some d)), g1)" by (simp add: ret_def)
  have path: "py_strip path = path" using assms(3) by (intro py_strip_no_space) (use field_char_not(3) in \<open>auto simp: plain_def list_all_iff\<close>)
  show ?thesis
    using x data(1) path g1 by (intro exI [of _ g1]) (simp add: script_execute_def bind_def Let_def py_startswith_def)
qed

text \<open>
  C28. A script's output comes back: when the bridge acknowledges the script with a capture file and
  answers every read of it with the bytes that fit a line, in any chunks and among any lines that
  publish neither an answer nor an error, and the output with its sentinel fits such a read, then,
  however often the file is found without the sentinel first, the result is what stands before the
  sentinel, without trailing white space, and the capture file is deleted.
\<close>

theorem script_returns_output:
  assumes "ready g" and "script g = w # concat wss @ v # later" and "plain path"
    and "answered 10000 [''cmd'', ''err''] [script_ack cmd_id path] w"
    and "list_all2 (unfinished path) datas wss" and "capture_answered path data v"
    and "length datas < length clocks" and "list_all (\<lambda>t. t < start + timeout) (take (Suc (length datas)) clocks)"
    and "latin1 data = out @ SCRIPT_SENTINEL @ trail" and "length out + length SCRIPT_SENTINEL \<le> read_cap path"
    and "\<not> py_in SCRIPT_SENTINEL (out @ butlast SCRIPT_SENTINEL)"
  shows "\<exists>g'. script_execute cmd_id start clocks cmd timeout g = (Inr (S_Ok, py_rstrip out), g') \<and>
    wire (link g') = wire (link g) @ unlines (script_line_of cmd_id cmd #
      replicate (Suc (length datas)) (read_line path 0 4096) @ [''DELETEFILE|'' @ path])"
proof -
  let ?deadline = "start + timeout"
  obtain g1 where
    x: "script_execute cmd_id start clocks cmd timeout g = script_poll path ?deadline clocks [] g1"
    and g1: "ready g1" "script g1 = concat wss @ v # later" "wire (link g1) = wire (link g) @ unlines [script_line_of cmd_id cmd]"
    using script_launched [OF assms(1-4)] by blast
  obtain cs c clocks' where cs: "clocks = cs @ c # clocks'" "length cs = length datas" "list_all (\<lambda>t. t < ?deadline) cs" "c < ?deadline"
  proof (rule that [of "take (length datas) clocks" "clocks ! length datas" "drop (Suc (length datas)) clocks"])
    show "clocks = take (length datas) clocks @ clocks ! length datas # drop (Suc (length datas)) clocks"
      using assms(7) by (rule id_take_nth_drop)
  qed (use assms(7,8) in \<open>auto simp: take_Suc_conv_app_nth\<close>)
  from script_polls [OF g1(1,2) assms(3,5) cs(2,3), of "c # clocks'" "[]"] obtain g2 where
    g2: "script_poll path ?deadline clocks [] g1 = script_poll path ?deadline (c # clocks') (last_text path [] datas) g2" "ready g2"
      "script g2 = v # later" "wire (link g2) = wire (link g1) @ unlines (replicate (length datas) (read_line path 0 4096))"
    unfolding cs(1) by blast
  let ?trail = "take (read_cap path - length out - length SCRIPT_SENTINEL) trail"
  have shown: "latin1 (seen_of path data) = out @ SCRIPT_SENTINEL @ ?trail"
  proof -
    have "latin1 (seen_of path data) = take (read_cap path) (latin1 data)" by (simp add: seen_of_def latin1_def take_map)
    also have "\<dots> = out @ SCRIPT_SENTINEL @ ?trail"
      using assms(10) by (simp add: assms(9) take_append diff_diff_eq add.commute)
    finally show ?thesis .
  qed
  from read_text [OF g2(2,3) assms(3,6)] obtain g3 where
    g3: "read_amiga_file_text path 65536 4000 [] g2 = (Inr (Some (out @ SCRIPT_SENTINEL @ ?trail)), g3)" "ready g3"
      "wire (link g3) = wire (link g2) @ unlines [read_line path 0 4096]" unfolding shown by blast
  note found = before_text_found [OF assms(11), of ?trail]
  have "post [(''type'', AStr ''DELETEFILE''), (''path'', AStr path)] g3 = (Inr (), sent (''DELETEFILE|'' @ path) g3)"
    using g3(2) by (intro post_sent [OF _ format_delete]) (simp add: ready_def)
  then have "script_poll path ?deadline clocks [] g1 = (Inr (S_Ok, py_rstrip out), sent (''DELETEFILE|'' @ path) g3)"
    unfolding g2(1) using cs(4) g3(1) found by (simp add: bind_def ret_def SCRIPT_SENTINEL_def)
  then show ?thesis using x g1(3) g2(4) g3(3) by (simp add: sent_def replicate_append_same [symmetric])
qed

lemma py_in_append: "py_in p s \<Longrightarrow> py_in p (s @ r)"
proof (induction s)
  case Nil
  then show ?case by (cases r) (simp_all add: py_startswith_def)
next
  case (Cons c s)
  have "py_startswith (c # s) p \<Longrightarrow> py_startswith ((c # s) @ r) p"
    unfolding py_startswith_def by (metis append_eq_conv_conj append_take_drop_id append.assoc)
  with Cons show ?case by auto
qed

lemma before_text_none: "\<not> py_in p s \<Longrightarrow> before_text p s = s"
  by (induction s) auto

text \<open>
  C29. A script that writes more than about 4 KB is never seen to finish: when the sentinel does not end
  within the bytes the bridge can send in one answer, then, however often the finished capture file
  is polled before the deadline, only its beginning is read, the sentinel is not in it, and the
  script is reported as still running with the part of the output that was read; the file is not
  deleted.
\<close>

theorem long_output_never_finishes:
  assumes "ready g" and "script g = w # concat wss @ later" and "plain path"
    and "answered 10000 [''cmd'', ''err''] [script_ack cmd_id path] w"
    and "list_all (\<lambda>ws. \<exists>v t. ws = [v, (t, [])] \<and> capture_answered path data v) wss"
    and "length wss = length clocks" and "clocks \<noteq> []" and "list_all (\<lambda>t. t < start + timeout) clocks"
    and "latin1 data = out @ SCRIPT_SENTINEL @ trail" and "\<not> py_in SCRIPT_SENTINEL (out @ butlast SCRIPT_SENTINEL)"
    and "read_cap path < length out + length SCRIPT_SENTINEL"
  shows "\<exists>g'. script_execute cmd_id start clocks cmd timeout g = (Inr (S_Running, py_rstrip (latin1 (seen_of path data))), g') \<and>
    wire (link g') = wire (link g) @ unlines (script_line_of cmd_id cmd # replicate (length clocks) (read_line path 0 4096))"
proof -
  let ?t = "latin1 (seen_of path data)" and ?datas = "replicate (length clocks) data" and ?n = "read_cap path"
  have "?t = take ?n (latin1 data)" by (simp add: seen_of_def latin1_def take_map)
  also have "\<dots> = take ?n ((out @ butlast SCRIPT_SENTINEL) @ CHR ''#'' # trail)"
    by (simp add: assms(9) SCRIPT_SENTINEL_def)
  also have "\<dots> = take ?n (out @ butlast SCRIPT_SENTINEL)"
    using assms(11) unfolding take_append [of _ "out @ butlast SCRIPT_SENTINEL"] by (simp add: SCRIPT_SENTINEL_def)
  finally have no: "\<not> py_in SCRIPT_SENTINEL ?t"
    using assms(10) py_in_append by (metis append_take_drop_id)
  have "list_all2 (unfinished path) ?datas wss"
    using assms(5,6) no by (auto simp: list_all2_conv_all_nth list_all_length unfinished_def)
  moreover obtain g1 where x: "script_execute cmd_id start clocks cmd timeout g = script_poll path (start + timeout) clocks [] g1"
    and g1: "ready g1" "script g1 = concat wss @ later" "wire (link g1) = wire (link g) @ unlines [script_line_of cmd_id cmd]"
    using script_launched [OF assms(1-4)] by blast
  ultimately obtain g' where "script_poll path (start + timeout) (clocks @ []) [] g1 =
      script_poll path (start + timeout) [] (last_text path [] ?datas) g'"
    "wire (link g') = wire (link g1) @ unlines (replicate (length ?datas) (read_line path 0 4096))"
    using script_polls [OF _ _ assms(3) _ _ assms(8), of g1 wss later ?datas "[]" "[]"] by auto
  then show ?thesis
    using x g1(3) assms(7) no
    by (intro exI [of _ g']) (auto simp: ret_def partial_output_def before_text_none py_rstrip_def latin1_def)
qed

section \<open>A sample script\<close>

lemma answered_now: "0 < timeout \<Longrightarrow> answered timeout evs [l] (line_now l)"
  unfolding answered_def line_now_def by (intro exI [of _ "[l]"] exI [of _ "[]"] exI [of _ 0]) simp

definition read_now :: "string \<Rightarrow> byte list \<Rightarrow> wait_script" where
  "read_now path data = line_now (file_line path (0, seen_of path data))"

lemma read_now_answered: "capture_answered path data (read_now path data)"
  by (simp add: capture_answered_def read_now_def answered_now)

lemma no_sentinel: "CHR ''#'' \<notin> set s \<Longrightarrow> \<not> py_in SCRIPT_SENTINEL (s @ butlast SCRIPT_SENTINEL)"
  by (induction s) (auto simp: SCRIPT_SENTINEL_def py_startswith_def)

definition bytes_of :: "string \<Rightarrow> byte list" where
  "bytes_of = map (\<lambda>c. word_of_nat (of_char c))"

lemma latin1_bytes_of [simp]: "latin1 (bytes_of s) = s"
proof -
  have "char_of (unat (word_of_nat (of_char c) :: byte)) = c" for c
    by (simp add: unat_of_nat)
  then show ?thesis by (simp add: latin1_def bytes_of_def comp_def)
qed

definition script_gdb :: "byte list \<Rightarrow> byte list \<Rightarrow> gdb" where
  "script_gdb early late = reading_gdb\<lparr>script :=
     [line_now (script_ack 7 ''T:ab_sout_7''), read_now ''T:ab_sout_7'' early, (0, []), read_now ''T:ab_sout_7'' late]\<rparr>"

theorem script_returns_output_witness:
  "\<exists>g'. script_execute 7 0 [0, 1] ''list'' 1000 (script_gdb [] (bytes_of (''done '' @ SCRIPT_SENTINEL))) = (Inr (S_Ok, ''done''), g')"
proof -
  let ?data = "bytes_of (''done '' @ SCRIPT_SENTINEL)" and ?p = "''T:ab_sout_7''"
  have p: "plain ?p" by (simp add: field_char_def)
  have r: "ready (script_gdb [] ?data)" by (simp add: script_gdb_def ready_reading)
  have g: "script (script_gdb [] ?data) = line_now (script_ack 7 ?p) # concat [[read_now ?p [], (0, [])]] @ read_now ?p ?data # []"
    by (simp add: script_gdb_def)
  have u: "list_all2 (unfinished ?p) [[]] [[read_now ?p [], (0, [])]]"
    using read_now_answered by (auto simp: unfinished_def latin1_def seen_of_def SCRIPT_SENTINEL_def)
  have d: "latin1 ?data = ''done '' @ SCRIPT_SENTINEL @ []" by simp
  have "length ''done '' + length SCRIPT_SENTINEL \<le> read_cap ?p" by (simp add: read_cap_def SCRIPT_SENTINEL_def)
  from script_returns_output [OF r g p answered_now u read_now_answered _ _ d this no_sentinel, where clocks = "[0, 1]" and start = 0 and
    timeout = 1000 and cmd = "''list''"]
  show ?thesis by (auto simp: py_rstrip_def is_space_def)
qed

theorem long_output_never_finishes_witness:
  "\<exists>r g'. script_execute 7 0 [0] ''list'' 1000 (reading_gdb\<lparr>script := line_now (script_ack 7 ''T:ab_sout_7'') #
      [read_now ''T:ab_sout_7'' (bytes_of (replicate 4070 (CHR ''x'') @ SCRIPT_SENTINEL)), (0, [])]\<rparr>) = (Inr (S_Running, r), g')"
proof -
  let ?data = "bytes_of (replicate 4070 (CHR ''x'') @ SCRIPT_SENTINEL)" and ?p = "''T:ab_sout_7''"
  let ?g = "reading_gdb\<lparr>script := line_now (script_ack 7 ?p) # [read_now ?p ?data, (0, [])]\<rparr>"
  have p: "plain ?p" by (simp add: field_char_def)
  have g: "script ?g = line_now (script_ack 7 ?p) # concat [[read_now ?p ?data, (0, [])]] @ []" by simp
  have u: "list_all (\<lambda>ws. \<exists>v t. ws = [v, (t, [])] \<and> capture_answered ?p ?data v) [[read_now ?p ?data, (0, [])]]"
    using read_now_answered [of ?p ?data] by (cases "read_now ?p ?data") simp
  have "latin1 ?data = replicate 4070 (CHR ''x'') @ SCRIPT_SENTINEL @ []" by simp
  from long_output_never_finishes [OF ready_reading g p answered_now u _ _ _ this no_sentinel, where clocks = "[0]" and start = 0 and
    timeout = 1000 and cmd = "''list''"]
  show ?thesis by (auto simp: SCRIPT_SENTINEL_def read_cap_def)
qed

section \<open>A sample directory\<close>

theorem list_dir_complete_witness:
  "\<exists>g'. list_dir_all ''RAM:'' (reading_gdb\<lparr>script := [line_now (dir_line ''RAM:'' 2 [(''a'', 3, False)]),
      line_now (dir_line ''RAM:'' 2 [(''T'', 0, True)])]\<rparr>) =
    (Inr (Entries [entry_val (''a'', 3, False), entry_val (''T'', 0, True)]), g')"
proof -
  let ?es = "[(''a'', 3, False), (''T'', 0, True)]"
  have s: "script (reading_gdb\<lparr>script := ws\<rparr>) = ws @ []" for ws by simp
  have p: "plain ''RAM:''" by (simp add: field_char_def)
  have w: "list_all2 (\<lambda>p w. answered 5000 [''dir'', ''err''] [dir_line ''RAM:'' (length ?es) p] w) [[(''a'', 3, False)], [(''T'', 0, True)]]
      [line_now (dir_line ''RAM:'' 2 [(''a'', 3, False)]), line_now (dir_line ''RAM:'' 2 [(''T'', 0, True)])]"
    using answered_now by (simp add: numeral_2_eq_2)
  from list_dir_complete [OF ready_reading s p w] show ?thesis by (auto simp: wf_entry_def field_char_def)
qed

section \<open>Memory\<close>

text \<open>The lines with which the bridge answers an INSPECT: blocks of bytes with their addresses.\<close>

definition mem_message :: "int \<times> byte list \<Rightarrow> pydict" where
  "mem_message p = [(''type'', VStr ''MEM''), (''address'', VStr (fmt_hex False 8 (fst p))), (''size'', VInt (int (length (snd p)))),
     (''hexData'', VStr (bytes_hex False (snd p)))]"

definition block_line :: "int \<times> byte list \<Rightarrow> string" where
  "block_line p = py_join ''|'' [''MEM'', fmt_hex False 8 (fst p), fmt_dec (int (length (snd p))), bytes_hex False (snd p)]"

lemma block_line_gives: "gives [''mem'', ''err''] (block_line p) ([(''mem'', VDict (mem_message p))], \<lambda>d. d)"
  unfolding block_line_def
  by (rule fields_give [where branch = parse_MEM and t = "''MEM''"])
    (simp_all add: parse_table_def parse_MEM_def field_char_def message_branch_def plain_events_def mem_message_def)

lemma memory_turns:
  assumes "map untimed es = map (\<lambda>p. (''mem'', VDict (mem_message p))) ps"
    and "\<forall>p \<in> set ps. snd p \<noteq> []" and "received_bytes ms + int (length (concat (map snd ps))) \<le> expected"
  shows "\<exists>ms'. turns (memory_turn expected refused) es ms = Inr ms' \<and> all_hex ms' = all_hex ms @ bytes_hex False (concat (map snd ps)) \<and>
    received_bytes ms' = received_bytes ms + int (length (concat (map snd ps))) \<and> (ms' = [] \<longleftrightarrow> ms = [] \<and> ps = [])"
  using assms
proof (induction ps arbitrary: es ms)
  case (Cons p ps)
  then obtain e es' where e: "es = e # es'" "untimed e = (''mem'', VDict (mem_message p))"
    "map untimed es' = map (\<lambda>p. (''mem'', VDict (mem_message p))) ps" by (cases es) auto
  let ?d = "as_dict (snd e)"
  have "fst e = ''mem''" using e(2) by (metis fst_conv fst_untimed)
  have d: "get_int ?d ''size'' 0 = int (length (snd p))" "get_str ?d ''hexData'' '''' = bytes_hex False (snd p)"
    using untimed_get [OF e(2)] by (simp_all add: get_int_def get_str_def mem_message_def)
  have r: "received_bytes (ms @ [?d]) = received_bytes ms + int (length (snd p))" "all_hex (ms @ [?d]) = all_hex ms @ bytes_hex False (snd p)"
    using d by (simp_all add: received_bytes_def all_hex_def)
  show ?case
  proof (cases "expected \<le> received_bytes (ms @ [?d])")
    case True
    moreover have "received_bytes ms + int (length (snd p)) + int (length (concat (map snd ps))) \<le> expected"
      using Cons.prems(3) by simp
    ultimately have "int (length (concat (map snd ps))) \<le> 0" unfolding r(1) by linarith
    then have "concat (map snd ps) = []" by (simp only: of_nat_le_0_iff length_0_conv)
    then have "ps = []" using Cons.prems(2) by (cases ps) auto
    with True show ?thesis using e(1) \<open>fst e = ''mem''\<close> r by (simp add: memory_turn_def)
  next
    case False
    with Cons.IH [OF e(3), of "ms @ [?d]"] Cons.prems(2,3) r show ?thesis
      using e(1) \<open>fst e = ''mem''\<close> by (auto simp: memory_turn_def bytes_hex_def)
  qed
qed (simp add: bytes_hex_def)

lemma memory_exchange:
  assumes "ready g" and "format_command cmd = Inr line" and "script g = w # later" and "ps \<noteq> []"
    and "answered 15000 [''mem'', ''err''] (map block_line ps) w" and "\<forall>p \<in> set ps. snd p \<noteq> []"
    and "concat (map snd ps) = data" and "int (length data) = n" and "length ps \<le> queue_max"
  shows "\<exists>ms g'. exchange [''mem'', ''err''] cmd 15000 (memory_turn n refused) [] fin g = fin ms g' \<and> ms \<noteq> [] \<and>
    all_hex ms = bytes_hex False data \<and> received_bytes ms = n \<and>
    ready g' \<and> script g' = later \<and> wire (link g') = wire (link g) @ unlines [line]"
proof -
  let ?fs = "map (\<lambda>p. ([(''mem'', VDict (mem_message p))], \<lambda>d. d)) ps :: effect list"
  have "list_all2 (gives [''mem'', ''err'']) (map block_line ps) ?fs"
    by (simp add: list_all2_map1 list_all2_map2 list_all2_same block_line_gives)
  moreover have e: "fst (effects ?fs) = map (\<lambda>p. (''mem'', VDict (mem_message p))) ps" by (induction ps) simp_all
  ultimately obtain es g' where
    es: "map untimed es = map (\<lambda>p. (''mem'', VDict (mem_message p))) ps" and
    x: "exchange [''mem'', ''err''] cmd 15000 (memory_turn n refused) [] fin g =
      (case turns (memory_turn n refused) es [] of Inl r \<Rightarrow> lift_res r g' | Inr s' \<Rightarrow> fin s' g')" and
    g': "ready g'" "script g' = later" "wire (link g') = wire (link g) @ unlines [line]"
    using exchange_turns [OF assms(1-3,5), of ?fs "memory_turn n refused" "[]" fin] assms(9) by auto
  have "all_hex [] = []" "received_bytes [] = 0" by (simp_all add: all_hex_def received_bytes_def)
  with memory_turns [OF es assms(6), of "[]" n refused] assms(4,7,8) obtain ms where
    "turns (memory_turn n refused) es [] = Inr ms" "all_hex ms = bytes_hex False data" "received_bytes ms = n" "ms \<noteq> []" by auto
  then show ?thesis using x g' by (intro exI [of _ ms] exI [of _ g']) simp
qed

text \<open>
  C30. Memory is shown as it is: when the bridge answers an inspection of at most 4096 bytes with the
  bytes in blocks of any sizes, in any chunks and among other lines, the tool answers the hex dump
  of exactly these bytes: a row for every 16 of them, with its address.
\<close>

theorem inspect_shows_memory:
  assumes "ready g" and "script g = w # later" and "answered 15000 [''mem'', ''err''] (map block_line ps) w"
    and "\<forall>p \<in> set ps. snd p \<noteq> []" and "ps \<noteq> []" and "concat (map snd ps) = data" and "int (length data) = min sz 4096"
    and "length ps \<le> queue_max"
  shows "\<exists>g'. amiga_inspect_memory (fmt_hex u k addr) sz g =
      (Inr (text_lines (map (\<lambda>(i, row). dump_row False (addr + 16 * int i) row) (enumerate 0 (chunks 16 data)))), g') \<and>
    wire (link g') = wire (link g) @ unlines [''INSPECT|'' @ fmt_hex u k addr @ ''|'' @ fmt_dec (int (length data))]"
proof -
  have f: "format_command (inspect_command (fmt_hex u k addr) (min sz 4096)) =
      Inr (''INSPECT|'' @ fmt_hex u k addr @ ''|'' @ fmt_dec (int (length data)))"
    by (simp add: format_command_def format_table_def format_table1_def Protocol_Format.fields_def req_def inspect_command_def assms(7))
  let ?refused = "\<lambda>d. let m = get_str d ''message'' '''' in if m \<noteq> [] then m else ''Address not accessible''"
  let ?fin = "\<lambda>ms. if ms = [] then ret ''Timed out waiting for memory dump''
      else bind (lift_res (format_hex_dump (fmt_hex u k addr) (all_hex ms))) (\<lambda>result.
        ret (if received_bytes ms < min sz 4096 then result @ newline @ ''(partial - timed out)'' else result))"
  from memory_exchange [OF assms(1) f assms(2,5,3,4,6,7,8), of ?refused ?fin] obtain ms g' where
    x: "exchange [''mem'', ''err''] (inspect_command (fmt_hex u k addr) (min sz 4096)) 15000 (memory_turn (min sz 4096) ?refused) [] ?fin g = ?fin ms g'"
      "ms \<noteq> []" "all_hex ms = bytes_hex False data" "received_bytes ms = min sz 4096"
      "wire (link g') = wire (link g) @ unlines [''INSPECT|'' @ fmt_hex u k addr @ ''|'' @ fmt_dec (int (length data))]" by auto
  have "conn_up (link g)" using assms(1) by (simp add: ready_def can_send_def)
  then show ?thesis
    using x by (simp add: amiga_inspect_memory_def connected_tool_def Let_def hex_dump_rows bind_def lift_res_def ret_def text_lines_def newline_def)
qed

text \<open>
  A disassembly shows the memory: when the bridge answers with the bytes asked for, in any blocks,
  the tool answers the listing of their disassembly at the given address, and the listing is
  never void.
\<close>

theorem disassemble_shows_memory:
  assumes "ready g" and "script g = w # later" and "answered 15000 [''mem'', ''err''] (map block_line ps) w"
    and "\<forall>p \<in> set ps. snd p \<noteq> []" and "ps \<noteq> []" and "concat (map snd ps) = data" and "int (length data) = min (count * 10) 4096"
    and "length ps \<le> queue_max" and "0 < count" and "py_int 16 address = Inr addr"
  shows "\<exists>rows g'. disassemble data addr count = Inr rows \<and> rows \<noteq> [] \<and>
    amiga_disassemble ts address count g = (Inr (format_listing ts rows (project_of ts addr)), g') \<and>
    wire (link g') = wire (link g) @ unlines [''INSPECT|'' @ fmt_hex True 8 addr @ ''|'' @ fmt_dec (int (length data))]"
proof -
  let ?n = "min (count * 10) 4096" and ?a = "fmt_hex True 8 addr"
  have f: "format_command (inspect_command ?a ?n) = Inr (''INSPECT|'' @ ?a @ ''|'' @ fmt_dec (int (length data)))"
    by (simp add: format_command_def format_table_def format_table1_def Protocol_Format.fields_def req_def inspect_command_def assms(7))
  obtain rows m where rows: "disassemble data addr count = Inr rows" "concat (map row_hex rows) = bytes_hex True (take (m) data)"
    "m \<le> length data" "length rows = nat count \<or> length data < m + 10"
    using disassemble_listing [of data addr count] by blast
  have "rows \<noteq> []"
  proof
    assume "rows = []"
    then have "bytes_hex True (take (m) data) = []" using rows(2) by simp
    then have "take (m) data = []" unfolding bytes_hex_empty .
    moreover have "length data < m + 10" using rows(4) assms(9) \<open>rows = []\<close> by auto
    ultimately have "take (m) data = []" "length data < m + 10" by blast+
    with rows(3) have "length data < 10" by auto
    with assms(7,9) show False by (auto simp: min_def split: if_splits)
  qed
  let ?refused = "\<lambda>d. ''Cannot read memory at $'' @ ?a @ '': '' @ get_str d ''message'' ''not accessible''"
  let ?fin = "\<lambda>ms. if ms = [] then ret (''Timed out reading memory at $'' @ ?a)
     else bind (lift_res (disassemble_hex (all_hex ms) addr count)) (\<lambda>instructions.
       if instructions = [] then ret (''No instructions decoded at $'' @ ?a)
       else ret (format_listing ts instructions (project_of ts addr)))"
  from memory_exchange [OF assms(1) f assms(2,5,3,4,6,7,8), of ?refused ?fin] obtain ms g' where
    x: "exchange [''mem'', ''err''] (inspect_command ?a ?n) 15000 (memory_turn ?n ?refused) [] ?fin g = ?fin ms g'"
      "ms \<noteq> []" "all_hex ms = bytes_hex False data"
      "wire (link g') = wire (link g) @ unlines [''INSPECT|'' @ ?a @ ''|'' @ fmt_dec (int (length data))]" by auto
  have "conn_up (link g)" using assms(1) by (simp add: ready_def can_send_def)
  then have "amiga_disassemble ts address count g = (Inr (format_listing ts rows (project_of ts addr)), g')"
    using x(1-3) rows(1) \<open>rows \<noteq> []\<close> assms(10)
    by (simp add: amiga_disassemble_def connected_tool_def Let_def disassemble_hex_bytes bind_def lift_res_def ret_def)
  then show ?thesis using rows(1) \<open>rows \<noteq> []\<close> x(4) by blast
qed

section \<open>A sample memory\<close>

definition lines_now :: "string list \<Rightarrow> wait_script" where
  "lines_now ls = (0, [(\<lparr>wall = 0, mono = 0, stamp = ''''\<rparr>, unlines ls)])"

lemma answered_lines: "0 < timeout \<Longrightarrow> ls \<noteq> [] \<Longrightarrow> answered timeout evs ls (lines_now ls)"
  unfolding answered_def lines_now_def
  by (intro exI [of _ ls] exI [of _ "[]"] exI [of _ 0]) (cases ls, simp_all)

definition rts_blocks :: "(int \<times> byte list) list" where
  "rts_blocks = [(0x1000, [0x4E, 0x75, 0x4E, 0x71]), (0x1004, [0x4E, 0x71, 0x4E, 0x71, 0x4E, 0x75])]"

definition memory_gdb :: gdb where
  "memory_gdb = reading_gdb\<lparr>script := [lines_now (map block_line rts_blocks)]\<rparr>"

lemma memory_gdb_ready: "ready memory_gdb" "script memory_gdb = lines_now (map block_line rts_blocks) # []"
  by (simp_all add: memory_gdb_def ready_reading)

lemma rts_blocks_simps:
  "\<forall>p \<in> set rts_blocks. snd p \<noteq> []" "rts_blocks \<noteq> []" "map block_line rts_blocks \<noteq> []"
  "concat (map snd rts_blocks) = [0x4E, 0x75, 0x4E, 0x71, 0x4E, 0x71, 0x4E, 0x71, 0x4E, 0x75]" "length rts_blocks \<le> queue_max"
  by (simp_all add: rts_blocks_def queue_max_def)

theorem inspect_shows_memory_witness:
  "\<exists>g'. amiga_inspect_memory ''1000'' 10 memory_gdb =
     (Inr (dump_row False 0x1000 [0x4E, 0x75, 0x4E, 0x71, 0x4E, 0x71, 0x4E, 0x71, 0x4E, 0x75]), g')"
proof -
  have a: "fmt_hex False 0 0x1000 = ''1000''" by code_simp
  from inspect_shows_memory [OF memory_gdb_ready answered_lines rts_blocks_simps(1,2,4), of 10 False 0 "0x1000"] show ?thesis
    using rts_blocks_simps by (auto simp: a text_lines_def chunks.simps)
qed

theorem disassemble_shows_memory_witness:
  "\<exists>rows g'. rows \<noteq> [] \<and> amiga_disassemble [] ''1000'' 1 memory_gdb = (Inr (format_listing [] rows None), g')"
proof -
  have a: "py_int 16 ''1000'' = Inr 0x1000" by code_simp
  from disassemble_shows_memory [OF memory_gdb_ready answered_lines rts_blocks_simps(1,2,4) _ _ _ a, of 1 "[]"] show ?thesis
    using rts_blocks_simps by auto
qed

section \<open>Installing an archive\<close>

text \<open>
  An installation does not notice that its archive is missing: for a local path without a file (and
  without the words error and fail in it) nothing is pushed, and yet whatever archive lies at the
  scratch path is extracted to the destination, and the tool reports that it has fetched and
  extracted.
\<close>

theorem install_ignores_missing_file:
  assumes "conn_up (link g)" and "\<not> py_startswith path ''http://''" and "\<not> py_startswith path ''https://''"
    and "\<not> py_in ''error'' (py_lower (''Local file not found: '' @ path))" and "\<not> py_in ''fail'' (py_lower (''Local file not found: '' @ path))"
    and "script_execute cmd_id start cs (''lha x T:_install.lha '' @ extract_to) 180000 g = (Inr out, g')"
  shows "amiga_install_lha env tmp fetched None ((cmd_id, start, cs), later) path extract_to False g =
    (Inr (''Fetched + extracted to '' @ extract_to @ newline @ newline @ script_pair out), g')"
proof -
  have "push_with env path None scratch_lha g = (Inr (outcome False (''Local file not found: '' @ path) 0 None), g)"
    by (simp add: push_with_def push_file_def ret_def)
  then have "install_step env tmp fetched None path g = (Inr None, g)"
    using assms(2-5) by (simp add: install_step_def bind_def ret_def outcome_def)
  then show ?thesis
    using assms(1,6) by (simp add: amiga_install_lha_def connected_tool_def bind_def ret_def scratch_lha_def)
qed

lemma silent_script:
  assumes "can_send (link g)" and "script g = []"
  shows "\<exists>g'. script_execute cmd_id start cs cmd timeout g = (Inr (if conn_up (link g') then S_Timeout else S_Disconnected, ''''), g')"
proof -
  have "post [(''type'', AStr ''SCRIPT''), (''id'', AInt cmd_id), (''script'', AStr cmd)] g = (Inr (), sent (script_line_of cmd_id cmd) g)"
    using assms(1) by (intro post_sent [OF _ format_script])
  moreover obtain g' where "listen [''cmd'', ''err''] (sent (script_line_of cmd_id cmd) g) = (Inr (0, []), g')"
    using assms(2) by (auto simp: listen_def Let_def subscribe_def)
  ultimately show ?thesis
    by (intro exI [of _ g']) (simp add: script_execute_def exchange_def collect_def bind_def ret_def)
qed

theorem install_ignores_missing_file_witness:
  "\<exists>r g'. amiga_install_lha (\<lambda>_. '''', []) ''/tmp/x'' (Inl '''') None ((7, 0, []), (8, 0, [])) ''new.lha'' ''RAM:'' False (reading_gdb\<lparr>script := []\<rparr>) =
     (Inr (''Fetched + extracted to RAM:'' @ newline @ newline @ r), g')"
proof -
  let ?g = "reading_gdb\<lparr>script := []\<rparr>"
  have r: "can_send (link ?g)" using ready_reading [of "[]"] by (simp add: ready_def)
  then have c: "conn_up (link ?g)" by (simp add: can_send_def)
  obtain out g' where s: "script_execute 7 0 [] (''lha x T:_install.lha '' @ ''RAM:'') 180000 ?g = (Inr out, g')"
    using silent_script [OF r] by fastforce
  have "\<not> py_startswith ''new.lha'' ''http://''" "\<not> py_startswith ''new.lha'' ''https://''"
    "\<not> py_in ''error'' (py_lower (''Local file not found: '' @ ''new.lha''))" "\<not> py_in ''fail'' (py_lower (''Local file not found: '' @ ''new.lha''))"
    by code_simp+
  from install_ignores_missing_file [OF c this s] show ?thesis by simp
qed

end
