(* ===== verification/Rsp.thy ===== *)
theory Rsp
  imports Pystr
begin

text \<open>
  The debugger connection to WinUAE (\<open>winuae_debug.py\<close>): packets of the remote serial protocol
  with their quoting, the state of the connection, and the task that reads from it. Bytes are
  characters, as elsewhere. What arrives is the list \<open>incoming\<close> of the environment.
\<close>

section \<open>Arguments\<close>

definition integer :: "string \<Rightarrow> int \<Rightarrow> int \<Rightarrow> pyval \<Rightarrow> int res" where
  "integer name maximum minimum v =
     res_bind (case v of
         VStr s \<Rightarrow>
           (let t = py_strip s
            in case (if py_startswith t ''$'' then py_int 16 (drop 1 t)
                     else py_int (if py_startswith (py_lower t) ''0x'' then 16 else 10) t) of
                 Inl _ \<Rightarrow> Inl (DebugError (name @ '' must be an integer (hex requires 0x or $)''))
               | Inr n \<Rightarrow> Inr (Some n))
       | VInt n \<Rightarrow> Inr (Some n)
       | _ \<Rightarrow> Inr None) (\<lambda>r. case r of
         Some n \<Rightarrow> (if minimum \<le> n \<and> n \<le> maximum then Inr n
                    else Inl (DebugError (name @ '' must be in '' @ fmt_dec minimum @ ''..'' @ fmt_dec maximum)))
       | None \<Rightarrow> Inl (DebugError (name @ '' must be in '' @ fmt_dec minimum @ ''..'' @ fmt_dec maximum)))"

abbreviation MAX32 :: int where
  "MAX32 \<equiv> 0xFFFFFFFF"

definition boolean :: "string \<Rightarrow> pyval \<Rightarrow> bool res" where
  "boolean name v =
     (if v \<in> {VInt 0, VBool False, VStr ''0''} then Inr False
      else if v \<in> {VInt 1, VBool True, VStr ''1''} then Inr True
      else Inl (DebugError (name @ '' must be true or false'')))"

section \<open>Packets\<close>

definition xor_char :: "char \<Rightarrow> nat \<Rightarrow> char" where
  "xor_char c n = char_of ((of_char c :: nat) XOR n)"

definition ascii :: "string \<Rightarrow> bool" where
  "ascii s = list_all (\<lambda>c. (of_char c :: nat) < 128) s"

text \<open>The loop of \<open>decode_packet\<close>; \<open>acc\<close> is the result so far.\<close>

fun unquote :: "string \<Rightarrow> string \<Rightarrow> string res" where
  "unquote acc [] = Inr acc"
| "unquote acc (c # s) =
     (if c = CHR 0x7D then
        (case s of
           [] \<Rightarrow> Inl (DebugError ''Truncated RSP escape'')
         | x # s' \<Rightarrow>
             if 65536 < length acc + 1 then Inl (DebugError ''RSP response too large'')
             else unquote (acc @ [xor_char x 32]) s')
      else if c = CHR ''*'' then
        (case s of
           [] \<Rightarrow> Inl (DebugError ''Invalid RSP repeat'')
         | x # s' \<Rightarrow>
             let n = (of_char x :: nat)
             in if acc = [] \<or> \<not> (32 \<le> n \<and> n \<le> 126) then Inl (DebugError ''Invalid RSP repeat'')
                else if 65536 < length acc + (n - 29) then Inl (DebugError ''RSP response too large'')
                else unquote (acc @ replicate (n - 29) (last acc)) s')
      else if 65536 < length acc + 1 then Inl (DebugError ''RSP response too large'')
      else unquote (acc @ [c]) s)"

definition decode_packet :: "string \<Rightarrow> string res" where
  "decode_packet data = res_bind (unquote [] data) (\<lambda>r. if ascii r then Inr r else Inl ValueError)"

definition char_sum :: "string \<Rightarrow> nat" where
  "char_sum s = sum_list (map of_char s)"

definition frame_packet :: "string \<Rightarrow> string" where
  "frame_packet data = CHR ''$'' # data @ CHR ''#'' # fmt_hex False 2 (int (char_sum data mod 256))"

definition is_hex :: "char \<Rightarrow> bool" where
  "is_hex c = (hex_digit c \<noteq> None)"

definition hex_pair :: "string \<Rightarrow> bool" where
  "hex_pair s = (length s = 2 \<and> list_all is_hex s)"

text \<open>Console packets, stops and errors among the replies.\<close>

definition console_reply :: "string \<Rightarrow> bool" where
  "console_reply r = (case r of
      c # s \<Rightarrow> c = CHR ''O'' \<and> s \<noteq> [] \<and> even (length s) \<and> list_all is_hex s
    | [] \<Rightarrow> False)"

definition STOP :: "string \<Rightarrow> bool" where
  "STOP r = (case r of
      c # s \<Rightarrow> (c = CHR ''S'' \<and> hex_pair s) \<or>
        (c = CHR ''T'' \<and> hex_pair (take 2 s) \<and> CHR 0x0A \<notin> set (drop 2 s))
    | [] \<Rightarrow> False)"

definition error_reply :: "string \<Rightarrow> bool" where
  "error_reply r = (case r of c # s \<Rightarrow> c = CHR ''E'' \<and> hex_pair s | [] \<Rightarrow> False)"

section \<open>The state of a session\<close>

record point =
  p_kind :: int
  p_address :: int
  p_size :: int
  p_hits :: int
  p_skip :: int
  p_oneshot :: bool
  p_symbol :: "string option"

type_synonym point_key = "int \<times> int \<times> int"

text \<open>
  What the reading task waits for: the first byte of a frame, the end of its data, or its checksum.
  What arrives: bytes, the end of the stream, or nothing for as long as the debugger waits.
\<close>

datatype phase = At_Start | In_Body | At_Sum string

datatype arrival = Bytes string | Eof | Silence

text \<open>
  \<open>pending\<close> is the future of a request: none, one without and one with a result. \<open>stops\<close> are the
  tasks of \<open>_process_stop\<close> that wait for the lock.
\<close>

record winuae =
  enabled :: bool
  debug_host :: string
  debug_port :: int
  up :: bool
  written :: string
  inbuf :: string
  phase :: phase
  reading :: bool
  bad_checksums :: nat
  pending :: "string res option option"
  stop_set :: bool
  stop_generation :: nat
  stops :: "string list"
  interrupting :: bool
  run_mode :: "string option"
  no_ack :: bool
  last_packet :: string
  retries :: nat
  packet_size :: nat
  execution :: string
  last_stop :: "string option"
  last_error :: "string option"
  capabilities :: pydict
  points :: "(point_key \<times> point) list"
  exception_mask :: int
  watches :: "(int \<times> string) list"
  dma_watches :: "(int \<times> string) list"
  conditions :: "(int \<times> string) list"
  guest_output :: bool
  incoming :: "arrival list"

definition new_winuae :: "string \<Rightarrow> int \<Rightarrow> bool \<Rightarrow> winuae" where
  "new_winuae host port on = \<lparr>enabled = on, debug_host = host, debug_port = port, up = False, written = [], inbuf = [], phase = At_Start,
     reading = False, bad_checksums = 0, pending = None, stop_set = False, stop_generation = 0, stops = [], interrupting = False,
     run_mode = None, no_ack = False, last_packet = [], retries = 0, packet_size = 4096, execution = ''disconnected'', last_stop = None,
     last_error = None, capabilities = [], points = [], exception_mask = 0, watches = [], dma_watches = [], conditions = [], guest_output = False, incoming = []\<rparr>"

text \<open>\<open>_closed\<close>\<close>

definition closed :: "string option \<Rightarrow> winuae \<Rightarrow> winuae" where
  "closed message d =
     d\<lparr>up := False, execution := ''disconnected'', last_error := message, capabilities := [], points := [], exception_mask := 0,
       watches := [], dma_watches := [], conditions := [], guest_output := False, stop_set := True,
       pending := (if pending d = Some None
         then Some (Some (Inl (DebugError (case message of Some (c # s) \<Rightarrow> c # s | _ \<Rightarrow> ''Debugger disconnected''))))
         else pending d)\<rparr>"

definition signal_stop :: "string \<Rightarrow> winuae \<Rightarrow> winuae" where
  "signal_stop reply d =
     d\<lparr>stop_generation := stop_generation d + 1, execution := ''stopped'', last_stop := Some reply, interrupting := False,
       run_mode := None, stop_set := True\<rparr>"

definition plain_stop :: "string \<Rightarrow> bool" where
  "plain_stop reply = (take 2 (drop 1 reply) = ''05'' \<and> \<not> py_in ''watch'' reply \<and> \<not> py_in ''winuae-'' reply)"

text \<open>\<open>_stopped\<close>\<close>

definition on_stop :: "string \<Rightarrow> winuae \<Rightarrow> winuae" where
  "on_stop reply d =
     (if plain_stop reply \<and> run_mode d \<noteq> Some ''step'' \<and> list_ex (\<lambda>(k, p). fst k = 0) (points d)
      then d\<lparr>stops := stops d @ [reply]\<rparr>
      else signal_stop reply d)"

definition put :: "string \<Rightarrow> winuae \<Rightarrow> winuae" where
  "put bytes d = d\<lparr>written := written d @ bytes\<rparr>"

section \<open>The reading task\<close>

text \<open>The end of the task: \<open>_closed\<close> with the text of the exception.\<close>

definition reader_fails :: "string \<Rightarrow> winuae \<Rightarrow> winuae" where
  "reader_fails message d = (closed (Some (if message = [] then ''Debugger disconnected'' else message)) d)\<lparr>reading := False\<rparr>"

definition ascii_message :: "string \<Rightarrow> string" where
  "ascii_message r =
     (let good = takeWhile (\<lambda>c. (of_char c :: nat) < 128) r
      in [CHR 0x27] @ ''ascii'' @ [CHR 0x27] @ '' codec can'' @ [CHR 0x27] @ ''t decode byte 0x'' @
         fmt_hex False 2 (of_char (r ! length good)) @ '' in position '' @ fmt_dec (int (length good)) @ '': ordinal not in range(128)'')"

definition take_reply :: "string \<Rightarrow> winuae \<Rightarrow> winuae" where
  "take_reply reply d =
     (if console_reply reply then d
      else if STOP reply then on_stop reply d
      else if pending d = Some None then d\<lparr>pending := Some (Some (Inr reply))\<rparr>
      else if error_reply reply then reader_fails (''WinUAE run command failed: '' @ reply) d
      else reader_fails ''Unexpected RSP reply'' d)"

definition take_frame :: "string \<Rightarrow> string \<Rightarrow> winuae \<Rightarrow> winuae" where
  "take_frame data ck d =
     (if 65536 < length data \<or> \<not> hex_pair ck then reader_fails ''Invalid RSP checksum'' d
      else if Inr (int (char_sum data mod 256)) \<noteq> py_int 16 ck then
        (if no_ack d \<or> 3 < bad_checksums d + 1 then reader_fails ''RSP checksum mismatch'' d
         else put ''-'' (d\<lparr>bad_checksums := bad_checksums d + 1\<rparr>))
      else
        let d1 = (if no_ack d then d else put ''+'' d)\<lparr>bad_checksums := 0\<rparr>
        in case decode_packet data of
             Inl (DebugError message) \<Rightarrow> reader_fails message d1
           | Inl _ \<Rightarrow> reader_fails (case unquote [] data of Inr r \<Rightarrow> ascii_message r | Inl _ \<Rightarrow> []) d1
           | Inr reply \<Rightarrow> take_reply reply d1)"

definition take_mark :: "char \<Rightarrow> winuae \<Rightarrow> winuae" where
  "take_mark c d =
     (if c = CHR ''+'' then d
      else if c = CHR ''-'' then
        (if no_ack d \<or> 3 < retries d + 1 \<or> last_packet d = [] then reader_fails ''RSP packet rejected'' (d\<lparr>retries := retries d + 1\<rparr>)
         else put (last_packet d) (d\<lparr>retries := retries d + 1\<rparr>))
      else if c = CHR ''$'' then d\<lparr>phase := In_Body\<rparr>
      else reader_fails ''Invalid RSP frame'' d)"

text \<open>
  The loop: it takes from the buffer as long as what it waits for is there. \<open>readuntil\<close> has a limit
  of 65540 bytes.
\<close>

definition READ_LIMIT :: nat where
  "READ_LIMIT = 65540"

lemma inbuf_simps [simp]:
  "inbuf (closed m d) = inbuf d" "inbuf (signal_stop r d) = inbuf d" "inbuf (put b d) = inbuf d"
  "inbuf (on_stop r d) = inbuf d" "inbuf (reader_fails t d) = inbuf d"
  by (simp_all add: closed_def signal_stop_def put_def on_stop_def reader_fails_def)

lemma inbuf_takes [simp]:
  "inbuf (take_reply r d) = inbuf d" "inbuf (take_frame s c d) = inbuf d" "inbuf (take_mark x d) = inbuf d"
proof -
  show r: "inbuf (take_reply r d) = inbuf d" for r d by (simp add: take_reply_def)
  show "inbuf (take_frame s c d) = inbuf d"
    by (auto simp: take_frame_def Let_def r split: sum.split exn.split)
  show "inbuf (take_mark x d) = inbuf d" by (simp add: take_mark_def)
qed

function rsp_loop :: "winuae \<Rightarrow> winuae" where
  "rsp_loop d =
     (if \<not> reading d then d
      else case phase d of
        At_Start \<Rightarrow> (case inbuf d of [] \<Rightarrow> d | c # s \<Rightarrow> rsp_loop (take_mark c (d\<lparr>inbuf := s\<rparr>)))
      | In_Body \<Rightarrow>
          (if CHR ''#'' \<in> set (inbuf d) then
             (let data = before_char (CHR ''#'') (inbuf d)
              in if READ_LIMIT < length data then reader_fails ''Separator is found, but chunk is longer than limit'' d
                 else rsp_loop (d\<lparr>inbuf := after_char (CHR ''#'') (inbuf d), phase := At_Sum data\<rparr>))
           else if READ_LIMIT < length (inbuf d) then reader_fails ''Separator is not found, and chunk exceed the limit'' d
           else d)
      | At_Sum data \<Rightarrow>
          (case inbuf d of
             a # b # s \<Rightarrow> rsp_loop (take_frame data [a, b] (d\<lparr>inbuf := s, phase := At_Start\<rparr>))
           | _ \<Rightarrow> d))"
  by pat_completeness auto

termination by (relation "measure (\<lambda>d. length (inbuf d))") (auto simp: after_char_less)

declare rsp_loop.simps [simp del]

text \<open>Bytes arrive, or the stream ends.\<close>

definition rsp_feed :: "string \<Rightarrow> winuae \<Rightarrow> winuae" where
  "rsp_feed bytes d = (if reading d then rsp_loop (d\<lparr>inbuf := inbuf d @ bytes\<rparr>) else d)"

definition feed_eof :: "winuae \<Rightarrow> winuae" where
  "feed_eof d =
     (if reading d then
        reader_fails (fmt_dec (int (length (inbuf d))) @ '' bytes read on a total of '' @
          (case phase d of At_Start \<Rightarrow> ''1'' | In_Body \<Rightarrow> ''undefined'' | At_Sum data \<Rightarrow> ''2'') @ '' expected bytes'') d
      else d)"

definition arrive :: "arrival \<Rightarrow> winuae \<Rightarrow> winuae" where
  "arrive a d = (case a of Bytes s \<Rightarrow> rsp_feed s d | Eof \<Rightarrow> feed_eof d | Silence \<Rightarrow> d)"

text \<open>
  A task other than the reader closes the connection: the reader then meets the end of the stream.
\<close>

definition hang_up :: "string \<Rightarrow> winuae \<Rightarrow> winuae" where
  "hang_up message d = feed_eof (closed (Some message) d)"

end
