(* ===== verification/Json.thy ===== *)
theory Json
  imports Pystr
begin

text \<open>
  What the program uses of Python's \<open>json\<close>: reading a text whose numbers are integers and whose
  characters fit a byte, and writing a value with all but printable ASCII escaped. Also the
  check of \<open>bytes.decode("utf-8")\<close>; the decoded text is kept as its bytes.
\<close>

section \<open>Text and bytes\<close>

definition text_bytes :: "string \<Rightarrow> byte list" where
  "text_bytes = map (\<lambda>c. word_of_nat (of_char c))"

definition bytes_text :: "byte list \<Rightarrow> string" where
  "bytes_text = map (\<lambda>b. char_of (unat b))"

lemma bytes_text_bytes [simp]: "bytes_text (text_bytes s) = s"
proof -
  have "char_of (unat (word_of_nat (of_char c) :: byte)) = c" for c by (simp add: unat_of_nat)
  then show ?thesis by (simp add: bytes_text_def text_bytes_def comp_def)
qed

definition follows :: "nat \<Rightarrow> nat \<Rightarrow> byte \<Rightarrow> bool" where
  "follows lo hi b \<longleftrightarrow> lo \<le> unat b \<and> unat b \<le> hi"

fun utf8_ok :: "byte list \<Rightarrow> bool" where
  "utf8_ok [] = True"
| "utf8_ok (b # bs) =
     (let n = unat b
      in if n < 0x80 then utf8_ok bs
         else if 0xC2 \<le> n \<and> n \<le> 0xDF then (case bs of x # r \<Rightarrow> follows 0x80 0xBF x \<and> utf8_ok r | _ \<Rightarrow> False)
         else if 0xE0 \<le> n \<and> n \<le> 0xEF then
           (case bs of x # y # r \<Rightarrow>
              follows (if n = 0xE0 then 0xA0 else 0x80) (if n = 0xED then 0x9F else 0xBF) x \<and> follows 0x80 0xBF y \<and> utf8_ok r
            | _ \<Rightarrow> False)
         else if 0xF0 \<le> n \<and> n \<le> 0xF4 then
           (case bs of x # y # z # r \<Rightarrow>
              follows (if n = 0xF0 then 0x90 else 0x80) (if n = 0xF4 then 0x8F else 0xBF) x \<and> follows 0x80 0xBF y \<and>
              follows 0x80 0xBF z \<and> utf8_ok r
            | _ \<Rightarrow> False)
         else False)"

lemma utf8_ascii: "list_all (\<lambda>b. unat b < 0x80) bs \<Longrightarrow> utf8_ok bs"
  by (induction bs) (simp_all add: Let_def)

section \<open>Reading\<close>

definition json_space :: "char \<Rightarrow> bool" where
  "json_space c = (c \<in> {CHR '' '', CHR 0x09, CHR 0x0A, CHR 0x0D})"

definition skip_space :: "string \<Rightarrow> string" where
  "skip_space = dropWhile json_space"

definition json_escapes :: "(char \<times> char) list" where
  "json_escapes = [(CHR 0x22, CHR 0x22), (CHR 0x5C, CHR 0x5C), (CHR ''/'', CHR ''/''), (CHR ''b'', CHR 0x08), (CHR ''f'', CHR 0x0C),
     (CHR ''n'', CHR 0x0A), (CHR ''r'', CHR 0x0D), (CHR ''t'', CHR 0x09)]"

text \<open>A string after its opening quote, and what follows it.\<close>

fun json_chars :: "string \<Rightarrow> (string \<times> string) option" where
  "json_chars [] = None"
| "json_chars (c # s) =
     (if c = CHR 0x22 then Some ([], s)
      else if c = CHR 0x5C then
        (case s of
           [] \<Rightarrow> None
         | e # s1 \<Rightarrow>
             if e = CHR ''u'' then
               (case s1 of
                  h1 # h2 # h3 # h4 # s2 \<Rightarrow>
                    (case py_int_opt 16 [h1, h2, h3, h4] of
                       Some n \<Rightarrow> if list_all (\<lambda>h. hex_digit h \<noteq> None) [h1, h2, h3, h4] \<and> n < 256
                                 then map_option (\<lambda>(t, r). (char_of (nat n) # t, r)) (json_chars s2) else None
                     | None \<Rightarrow> None)
                | _ \<Rightarrow> None)
             else
               (case map_of json_escapes e of
                  Some x \<Rightarrow> map_option (\<lambda>(t, r). (x # t, r)) (json_chars s1)
                | None \<Rightarrow> None))
      else if (of_char c :: nat) < 32 then None
      else map_option (\<lambda>(t, r). (c # t, r)) (json_chars s))"

text \<open>An integer: a fraction or an exponent is not read.\<close>

definition json_int :: "string \<Rightarrow> (pyval \<times> string) option" where
  "json_int s =
     (let neg = py_startswith s ''-''; t = (if neg then drop 1 s else s); ds = takeWhile is_digit_char t; r = dropWhile is_digit_char t
      in if ds = [] \<or> (hd ds = CHR ''0'' \<and> tl ds \<noteq> []) \<or> (r \<noteq> [] \<and> hd r \<in> {CHR ''.'', CHR ''e'', CHR ''E''}) then None
         else case py_int_opt 10 ds of Some n \<Rightarrow> Some (VInt (if neg then - n else n), r) | None \<Rightarrow> None)"

definition json_literals :: "(string \<times> pyval) list" where
  "json_literals = [(''null'', VNone), (''true'', VBool True), (''false'', VBool False)]"

definition json_literal :: "string \<Rightarrow> (pyval \<times> string) option" where
  "json_literal s =
     (case filter (\<lambda>(l, v). py_startswith s l) json_literals of
        (l, v) # _ \<Rightarrow> Some (v, drop (length l) s)
      | [] \<Rightarrow> json_int s)"

text \<open>Values, and the rest of a list or dictionary; every call takes a character or is the last.\<close>

fun json_value :: "nat \<Rightarrow> string \<Rightarrow> (pyval \<times> string) option"
  and json_items :: "nat \<Rightarrow> string \<Rightarrow> pyval list \<Rightarrow> (pyval \<times> string) option"
  and json_pairs :: "nat \<Rightarrow> string \<Rightarrow> pydict \<Rightarrow> (pyval \<times> string) option" where
  "json_value 0 s = None"
| "json_value (Suc n) s =
     (case s of
        [] \<Rightarrow> None
      | c # r \<Rightarrow>
          if c = CHR 0x22 then map_option (\<lambda>(t, r'). (VStr t, r')) (json_chars r)
          else if c = CHR ''['' then
            (case skip_space r of
               x # r' \<Rightarrow> if x = CHR '']'' then Some (VList [], r') else json_items n (x # r') []
             | [] \<Rightarrow> None)
          else if c = CHR ''{'' then
            (case skip_space r of
               x # r' \<Rightarrow> if x = CHR ''}'' then Some (VDict [], r') else json_pairs n (x # r') []
             | [] \<Rightarrow> None)
          else json_literal s)"
| "json_items 0 s vs = None"
| "json_items (Suc n) s vs =
     (case json_value n s of
        Some (v, r) \<Rightarrow>
          (case skip_space r of
             x # r' \<Rightarrow> if x = CHR '','' then json_items n (skip_space r') (vs @ [v])
                       else if x = CHR '']'' then Some (VList (vs @ [v]), r') else None
           | [] \<Rightarrow> None)
      | None \<Rightarrow> None)"
| "json_pairs 0 s d = None"
| "json_pairs (Suc n) s d =
     (if py_startswith s [CHR 0x22] then
        (case json_chars (drop 1 s) of
           Some (k, r) \<Rightarrow>
             (case skip_space r of
                c # r1 \<Rightarrow>
                  if c = CHR '':'' then
                    (case json_value n (skip_space r1) of
                       Some (v, r2) \<Rightarrow>
                         (case skip_space r2 of
                            x # r3 \<Rightarrow> if x = CHR '','' then json_pairs n (skip_space r3) (dict_set d k v)
                                      else if x = CHR ''}'' then Some (VDict (dict_set d k v), r3) else None
                          | [] \<Rightarrow> None)
                     | None \<Rightarrow> None)
                  else None
              | [] \<Rightarrow> None)
         | None \<Rightarrow> None)
      else None)"

definition json_loads :: "string \<Rightarrow> pyval option" where
  "json_loads s =
     (case json_value (2 * length s + 2) (skip_space s) of
        Some (v, r) \<Rightarrow> if skip_space r = [] then Some v else None
      | None \<Rightarrow> None)"

section \<open>Writing\<close>

definition json_escape :: "char \<Rightarrow> string" where
  "json_escape c =
     (let n = (of_char c :: nat)
      in if c = CHR 0x22 \<or> c = CHR 0x5C then [CHR 0x5C, c]
         else if n = 8 then [CHR 0x5C, CHR ''b''] else if n = 9 then [CHR 0x5C, CHR ''t'']
         else if n = 10 then [CHR 0x5C, CHR ''n''] else if n = 12 then [CHR 0x5C, CHR ''f'']
         else if n = 13 then [CHR 0x5C, CHR ''r'']
         else if 32 \<le> n \<and> n < 127 then [c]
         else CHR 0x5C # CHR ''u'' # fmt_hex False 4 (int n))"

definition json_text :: "string \<Rightarrow> string" where
  "json_text s = CHR 0x22 # concat (map json_escape s) @ [CHR 0x22]"

fun json_dumps :: "pyval \<Rightarrow> string" where
  "json_dumps VNone = ''null''"
| "json_dumps (VBool b) = (if b then ''true'' else ''false'')"
| "json_dumps (VInt i) = fmt_dec i"
| "json_dumps (VStr s) = json_text s"
| "json_dumps (VList vs) = ''['' @ py_join '', '' (map json_dumps vs) @ '']''"
| "json_dumps (VDict d) = ''{'' @ py_join '', '' (map (\<lambda>kv. json_text (fst kv) @ '': '' @ json_dumps (snd kv)) d) @ ''}''"

end
