(* ===== verification/Winuae.thy ===== *)
theory Winuae
  imports Rsp Json "HOL-Library.Product_Lexorder"
begin

text \<open>
  Requests to WinUAE and the tasks around them (\<open>winuae_debug.py\<close>): a task is a function on the
  session that may raise. While it waits for a reply it takes what arrives; a stop at a
  breakpoint is handled by a task of its own, which waits for the lock of the session.
\<close>

section \<open>Tasks\<close>

type_synonym 'a dm = "winuae \<Rightarrow> 'a res \<times> winuae"

definition dret :: "'a \<Rightarrow> 'a dm" where
  "dret x d = (Inr x, d)"

definition draise :: "exn \<Rightarrow> 'a dm" where
  "draise e d = (Inl e, d)"

abbreviation fails :: "string \<Rightarrow> 'a dm" where
  "fails text \<equiv> draise (DebugError text)"

definition dbind :: "'a dm \<Rightarrow> ('a \<Rightarrow> 'b dm) \<Rightarrow> 'b dm" where
  "dbind m f d = (case m d of (Inl e, d') \<Rightarrow> (Inl e, d') | (Inr x, d') \<Rightarrow> f x d')"

abbreviation dthen :: "'a dm \<Rightarrow> 'b dm \<Rightarrow> 'b dm" where
  "dthen m k \<equiv> dbind m (\<lambda>_. k)"

definition dget :: "(winuae \<Rightarrow> 'a) \<Rightarrow> 'a dm" where
  "dget f d = (Inr (f d), d)"

definition dmod :: "(winuae \<Rightarrow> winuae) \<Rightarrow> unit dm" where
  "dmod f d = (Inr (), f d)"

definition dres :: "'a res \<Rightarrow> 'a dm" where
  "dres r d = (r, d)"

definition dwhen :: "bool \<Rightarrow> unit dm \<Rightarrow> unit dm" where
  "dwhen b m = (if b then m else dret ())"

text \<open>\<open>try ... finally\<close> and \<open>try ... except\<close>; the exceptions here are \<open>DebugError\<close> and \<open>ValueError\<close>.\<close>

definition dfinally :: "'a dm \<Rightarrow> unit dm \<Rightarrow> 'a dm" where
  "dfinally m k d = (case m d of (r, d1) \<Rightarrow> (case k d1 of (Inl e, d2) \<Rightarrow> (Inl e, d2) | (Inr _, d2) \<Rightarrow> (r, d2)))"

definition dcatch :: "'a dm \<Rightarrow> (string \<Rightarrow> 'a dm) \<Rightarrow> 'a dm" where
  "dcatch m h d = (case m d of (Inl (DebugError t), d1) \<Rightarrow> h t d1 | r \<Rightarrow> r)"

fun dmap :: "('a \<Rightarrow> 'b dm) \<Rightarrow> 'a list \<Rightarrow> 'b list dm" where
  "dmap f [] = dret []"
| "dmap f (x # xs) = dbind (f x) (\<lambda>y. dbind (dmap f xs) (\<lambda>ys. dret (y # ys)))"

lemma dbind_simps [simp]:
  "dbind (dret x) f = f x" "dbind (draise e) f = draise e" "dbind (dget g) f = (\<lambda>d. f (g d) d)"
  "dbind (dmod h) f = (\<lambda>d. f () (h d))"
  by (simp_all add: dbind_def dret_def draise_def dget_def dmod_def fun_eq_iff)

lemma dbind_cong [fundef_cong]:
  "m = m' \<Longrightarrow> d = d' \<Longrightarrow> (\<And>x d1. m' d' = (Inr x, d1) \<Longrightarrow> f x d1 = f' x d1) \<Longrightarrow> dbind m f d = dbind m' f' d'"
  by (auto simp: dbind_def split: prod.split sum.split)

lemma dbind_assoc: "dbind (dbind m f) g = dbind m (\<lambda>x. dbind (f x) g)"
  by (auto simp: dbind_def fun_eq_iff split: prod.split sum.split)

section \<open>Requests\<close>

definition DISCONNECTED :: string where
  "DISCONNECTED = ''Connect to the WinUAE debugger first''"

definition send_rsp :: "string \<Rightarrow> unit dm" where
  "send_rsp command d =
     (if \<not> up d then fails DISCONNECTED d
      else if \<not> ascii command then draise ValueError d
      else if packet_size d < length command then fails ''RSP request exceeds target packet size'' d
      else dret () (put (frame_packet command) (d\<lparr>last_packet := frame_packet command, retries := 0\<rparr>)))"

text \<open>What arrives until the future has a result or the time is over.\<close>

fun await_result :: "arrival list \<Rightarrow> winuae \<Rightarrow> winuae" where
  "await_result [] d = d\<lparr>incoming := []\<rparr>"
| "await_result (a # as) d =
     (case pending d of
        Some (Some r) \<Rightarrow> d\<lparr>incoming := a # as\<rparr>
      | _ \<Rightarrow> if a = Silence then d\<lparr>incoming := as\<rparr> else await_result as (arrive a d))"

definition rsp_request :: "string \<Rightarrow> string dm" where
  "rsp_request command d =
     (case send_rsp command (d\<lparr>pending := Some None\<rparr>) of
        (Inl e, d1) \<Rightarrow> (Inl e, d1\<lparr>pending := None\<rparr>)
      | (Inr _, d1) \<Rightarrow>
          let d2 = await_result (incoming d1) d1
          in case pending d2 of
               Some (Some r) \<Rightarrow>
                 (res_bind r (\<lambda>reply.
                    if error_reply reply then Inl (DebugError (''WinUAE rejected the request ('' @ reply @ '')''))
                    else if reply = [] then Inl (DebugError ''Command is not supported by this WinUAE build'')
                    else Inr reply), d2\<lparr>pending := None\<rparr>)
             | _ \<Rightarrow> (Inl (DebugError ''WinUAE request timed out; connection closed''),
                    hang_up ''RSP request interrupted; reconnect before retrying'' (d2\<lparr>pending := None\<rparr>)))"

definition acknowledge :: "string \<Rightarrow> unit dm" where
  "acknowledge command = dbind (rsp_request command) (\<lambda>r.
     if r = ''OK'' then dret () else fails ''WinUAE did not acknowledge the change'')"

text \<open>\<open>text in value\<close>\<close>

definition has_item :: "string \<Rightarrow> pyval \<Rightarrow> bool res" where
  "has_item s v = (case v of
       VList vs \<Rightarrow> Inr (VStr s \<in> set vs) | VStr t \<Rightarrow> Inr (py_in s t) | VDict m \<Rightarrow> Inr (map_of m s \<noteq> None) | _ \<Rightarrow> Inl TypeError)"

definition offered :: "winuae \<Rightarrow> pyval" where
  "offered d = dict_get (capabilities d) ''commands'' (VList [])"

definition require :: "string \<Rightarrow> unit dm" where
  "require capability d = dbind (dres (has_item capability (offered d))) (\<lambda>b.
     if b then dret () else fails (''This WinUAE build does not support '' @ capability)) d"

definition require_some :: "string option \<Rightarrow> unit dm" where
  "require_some capability = (case capability of Some (c # s) \<Rightarrow> require (c # s) | _ \<Rightarrow> dret ())"

definition monitor_text :: "string \<Rightarrow> string option \<Rightarrow> string option dm" where
  "monitor_text command capability =
     dthen (require_some capability) (dbind (rsp_request (''qRcmd,'' @ bytes_hex False (text_bytes command))) (\<lambda>reply.
       if reply = ''OK'' then dret None
       else case bytes_fromhex reply of
         Inr bs \<Rightarrow> if utf8_ok bs then dret (Some (bytes_text bs)) else fails ''Invalid WinUAE monitor response''
       | Inl _ \<Rightarrow> fails ''Invalid WinUAE monitor response''))"

definition monitor :: "string \<Rightarrow> string option \<Rightarrow> pyval dm" where
  "monitor command capability =
     dbind (monitor_text command capability) (\<lambda>t. case t of
       None \<Rightarrow> dret VNone
     | Some s \<Rightarrow> (case json_loads s of Some v \<Rightarrow> dret v | None \<Rightarrow> fails ''Invalid WinUAE monitor response''))"

section \<open>Guest access\<close>

definition wraps :: "int \<Rightarrow> int \<Rightarrow> bool" where
  "wraps address n \<longleftrightarrow> 0x100000000 < address + n"

definition chunk_size :: "winuae \<Rightarrow> int" where
  "chunk_size d = min 4096 ((int (packet_size d) - 40) div 2)"

text \<open>\<open>range(0, size, chunk_size)\<close> with the length of each chunk.\<close>

definition chunk_spans :: "nat \<Rightarrow> nat \<Rightarrow> (nat \<times> nat) list" where
  "chunk_spans n c = map (\<lambda>i. (i * c, min c (n - i * c))) [0..<(n + c - 1) div c]"

definition in_chunks :: "nat \<Rightarrow> (nat \<times> nat \<Rightarrow> 'a dm) \<Rightarrow> 'a list dm" where
  "in_chunks n f d =
     (let c = chunk_size d
      in if c = 0 then draise ValueError d else dmap f (if c < 0 then [] else chunk_spans n (nat c)) d)"

definition read_request :: "int \<Rightarrow> nat \<times> nat \<Rightarrow> string" where
  "read_request address s = ''m'' @ fmt_hex False 0 (address + int (fst s)) @ '','' @ fmt_hex False 0 (int (snd s))"

definition read_bytes :: "int \<Rightarrow> nat \<Rightarrow> byte list dm" where
  "read_bytes address n =
     (if wraps address (int n) then fails ''Memory range wraps the address space''
      else dbind (in_chunks n (\<lambda>s. dbind (rsp_request (read_request address s)) (\<lambda>reply.
          if length reply = 2 * snd s \<and> list_all is_hex reply then dres (bytes_fromhex reply)
          else fails ''Truncated memory response''))) (\<lambda>parts. dret (concat parts)))"

definition writable :: "pyval \<Rightarrow> bool" where
  "writable v = (case v of VDict m \<Rightarrow> map_of m ''writable_ram'' = Some (VBool True) | _ \<Rightarrow> False)"

definition write_request :: "int \<Rightarrow> byte list \<Rightarrow> nat \<times> nat \<Rightarrow> string" where
  "write_request address data s =
     (let part = take (snd s) (drop (fst s) data)
      in ''M'' @ fmt_hex False 0 (address + int (fst s)) @ '','' @ fmt_hex False 0 (int (length part)) @ '':'' @ bytes_hex False part)"

definition write_bytes :: "int \<Rightarrow> byte list \<Rightarrow> bool \<Rightarrow> unit dm" where
  "write_bytes address data chk =
     (if wraps address (int (length data)) then fails ''Memory range wraps the address space''
      else dthen (if chk then
          dbind (monitor (''memory-check '' @ fmt_hex False 0 address @ '' '' @ fmt_hex False 0 (int (length data))) (Some ''memory-check'')) (\<lambda>v.
            if writable v then dret () else fails ''The complete write range must be physical RAM'')
        else dret ())
        (dthen (in_chunks (length data) (\<lambda>s. acknowledge (write_request address data s))) (dret ())))"

definition REGISTERS :: "string list" where
  "REGISTERS = map (\<lambda>i. ''D'' @ fmt_dec (int i)) [0..<8] @ map (\<lambda>i. ''A'' @ fmt_dec (int i)) [0..<8] @ [''SR'', ''PC'']"

type_synonym registers = "(string \<times> int) list"

definition reg :: "string \<Rightarrow> registers \<Rightarrow> int" where
  "reg name regs = the (map_of regs name)"

fun hex_longs :: "string \<Rightarrow> int list" where
  "hex_longs (a # b # c # e # f # g # h # i # s) =
     (case py_int_opt 16 [a, b, c, e, f, g, h, i] of Some n \<Rightarrow> n # hex_longs s | None \<Rightarrow> [])"
| "hex_longs s = []"

definition read_registers :: "registers dm" where
  "read_registers = dbind (rsp_request ''g'') (\<lambda>reply.
     if length reply = 144 \<and> list_all is_hex reply then dret (zip REGISTERS (hex_longs reply))
     else fails ''Unexpected m68k register layout'')"

text \<open>\<open>REGISTERS.index(name)\<close>\<close>

fun index_of :: "string \<Rightarrow> string list \<Rightarrow> nat" where
  "index_of x [] = 0"
| "index_of x (y # ys) = (if x = y then 0 else index_of x ys + 1)"

definition set_register :: "string \<Rightarrow> int \<Rightarrow> unit dm" where
  "set_register name v = acknowledge (''P'' @ fmt_hex False 0 (int (index_of name REGISTERS)) @ ''='' @ fmt_hex False 8 v)"

definition stack_modes :: "winuae \<Rightarrow> (string \<times> int) list" where
  "stack_modes d = [(''USP'', 0), (''ISP'', 0x2000)] @
     (if dict_get (capabilities d) ''cpu_model'' (VInt 68000) \<in> {VInt 68020, VInt 68030, VInt 68040} then [(''MSP'', 0x3000)] else [])"

definition current_stack :: "(string \<times> int) list \<Rightarrow> int \<Rightarrow> string" where
  "current_stack modes sr =
     (if sr AND 0x2000 = 0 then ''USP'' else if sr AND 0x1000 \<noteq> 0 \<and> map_of modes ''MSP'' \<noteq> None then ''MSP'' else ''ISP'')"

text \<open>\<open>(sr & ~0x3000) | bits\<close> for an SR of 16 bits\<close>

definition in_mode :: "int \<Rightarrow> int \<Rightarrow> int" where
  "in_mode sr bits = ((sr AND NOT 0x3000) OR bits)"

definition stack_pointers :: "registers \<Rightarrow> registers dm" where
  "stack_pointers regs d =
     (let sr = reg ''SR'' regs; modes = stack_modes d; current = current_stack modes sr;
          others = filter (\<lambda>m. fst m \<noteq> current) modes
      in dbind (dfinally
           (dmap (\<lambda>(name, bits). dthen (set_register ''SR'' (in_mode sr bits))
              (dbind (rsp_request ''p0f'') (\<lambda>r. dbind (dres (py_int 16 r)) (\<lambda>v. dret (name, v))))) others)
           (dwhen (others \<noteq> []) (set_register ''SR'' sr)))
         (\<lambda>got. dret (map (\<lambda>m. (fst m, reg (fst m) ((current, reg ''A7'' regs) # got))) modes)) d)"

definition set_stack_pointer :: "string \<Rightarrow> int \<Rightarrow> unit dm" where
  "set_stack_pointer name v d =
     (let modes = stack_modes d
      in case map_of modes name of
           None \<Rightarrow> fails (name @ '' does not exist on this CPU'') d
         | Some bits \<Rightarrow> dbind read_registers (\<lambda>regs.
             dfinally (dthen (set_register ''SR'' (in_mode (reg ''SR'' regs) bits)) (set_register ''A7'' v))
               (set_register ''SR'' (reg ''SR'' regs))) d)"

definition run_command :: "string \<Rightarrow> string \<Rightarrow> unit dm" where
  "run_command command run d =
     send_rsp command (d\<lparr>stop_set := False, last_stop := None, execution := ''running'', run_mode := Some run\<rparr>)"

end
