(* ===== verification/Winuae_Ops.thy ===== *)
theory Winuae_Ops
  imports Winuae Symbols
begin

text \<open>
  The operations of the WinUAE debugger (\<open>winuae_debug.py\<close>): connecting, running and stepping,
  breakpoints with hit counts, skip counts and one-shots, registers and memory. Locked operations
  wait for the tasks that handle stops and hold the lock themselves.
\<close>

section \<open>Stops at breakpoints\<close>

definition set_point :: "point_key \<Rightarrow> point \<Rightarrow> winuae \<Rightarrow> winuae" where
  "set_point k p d = d\<lparr>points := AList.update k p (points d)\<rparr>"

definition drop_point :: "point_key \<Rightarrow> winuae \<Rightarrow> winuae" where
  "drop_point k d = d\<lparr>points := filter (\<lambda>q. fst q \<noteq> k) (points d)\<rparr>"

definition point_range :: "int \<times> int \<times> int \<Rightarrow> string" where
  "point_range k = (case k of (kind, address, n) \<Rightarrow> fmt_dec kind @ '','' @ fmt_hex False 0 address @ '','' @ fmt_hex False 0 n)"

text \<open>
  The body of \<open>_process_stop\<close> under the lock, for a stop at \<open>addr\<close> and as a whole: whether the program
  has been resumed.
\<close>

definition hit_at :: "int \<Rightarrow> bool dm" where
  "hit_at addr d =
     (let k = (0, addr, 2)
      in case map_of (points d) k of
           None \<Rightarrow> dret False d
         | Some p \<Rightarrow>
             if p_skip p \<noteq> 0 \<and> run_mode d = Some ''continue'' \<and> \<not> interrupting d then
               dthen (send_rsp ''c'') (dret True) (set_point k (p\<lparr>p_hits := p_hits p + 1, p_skip := p_skip p - 1\<rparr>) d)
             else
               dthen (dwhen (p_oneshot p) (dthen (acknowledge (CHR ''z'' # point_range k)) (dmod (drop_point k)))) (dret False)
                 (set_point k (p\<lparr>p_hits := p_hits p + 1\<rparr>) d))"

definition hit_point :: "bool dm" where
  "hit_point = dbind (rsp_request ''p11'') (\<lambda>r. dbind (dres (py_int 16 r)) hit_at)"

definition handle_stop :: "string \<Rightarrow> winuae \<Rightarrow> winuae" where
  "handle_stop reply d =
     (case (if up d then hit_point d else (Inr False, d)) of
        (Inr True, d1) \<Rightarrow> d1
      | (_, d1) \<Rightarrow> signal_stop reply d1)"

text \<open>The task of the first stop.\<close>

definition next_stop :: "winuae \<Rightarrow> winuae" where
  "next_stop d = handle_stop (hd (stops d)) (d\<lparr>stops := tl (stops d)\<rparr>)"

subsection \<open>Tasks come to an end\<close>

text \<open>A request takes something of what arrives, or leaves the stops as they are.\<close>

definition advances :: "winuae \<Rightarrow> winuae \<Rightarrow> bool" where
  "advances d d' \<longleftrightarrow> length (incoming d') < length (incoming d) \<or> (incoming d' = incoming d \<and> stops d' = stops d)"

lemma advances_refl [simp]: "advances d d"
  by (simp add: advances_def)

lemma advances_trans: "advances d d1 \<Longrightarrow> advances d1 d2 \<Longrightarrow> advances d d2"
  by (auto simp: advances_def)

lemma advances_same: "incoming d' = incoming d \<Longrightarrow> stops d' = stops d \<Longrightarrow> advances d d'"
  by (simp add: advances_def)

lemma incoming_simps [simp]:
  "incoming (closed m d) = incoming d" "incoming (signal_stop r d) = incoming d" "incoming (put b d) = incoming d"
  "incoming (on_stop r d) = incoming d" "incoming (reader_fails t d) = incoming d"
  by (simp_all add: closed_def signal_stop_def put_def on_stop_def reader_fails_def)

lemma incoming_takes [simp]:
  "incoming (take_reply r d) = incoming d" "incoming (take_frame s c d) = incoming d" "incoming (take_mark x d) = incoming d"
proof -
  show r: "incoming (take_reply r d) = incoming d" for r d by (simp add: take_reply_def)
  show "incoming (take_frame s c d) = incoming d"
    by (auto simp: take_frame_def Let_def r split: sum.split exn.split)
  show "incoming (take_mark x d) = incoming d" by (simp add: take_mark_def)
qed

lemma incoming_rsp_loop [simp]: "incoming (rsp_loop d) = incoming d"
proof (induction d rule: rsp_loop.induct)
  case (1 d)
  then show ?case
    by (subst rsp_loop.simps) (auto simp: Let_def split: phase.split list.split)
qed

lemma incoming_arrive [simp]: "incoming (arrive a d) = incoming d" "incoming (rsp_feed s d) = incoming d" "incoming (feed_eof d) = incoming d"
  by (simp_all add: arrive_def rsp_feed_def feed_eof_def split: arrival.split phase.split)

lemma stops_closed [simp]:
  "stops (closed m d) = stops d" "stops (signal_stop r d) = stops d" "stops (put b d) = stops d" "stops (reader_fails t d) = stops d"
  "stops (feed_eof d) = stops d" "stops (hang_up t d) = stops d" "incoming (hang_up t d) = incoming d"
  by (simp_all add: closed_def signal_stop_def put_def reader_fails_def feed_eof_def hang_up_def split: phase.split)

lemma await_result_shorter: "length (incoming (await_result as d)) \<le> length as"
proof (induction as arbitrary: d)
  case (Cons a as)
  from Cons.IH [of "arrive a d"] show ?case
    by (auto split: option.split)
qed simp

lemma await_result_advances:
  assumes "pending d = Some None" and "incoming d = as"
  shows "advances d (await_result as d)"
proof (cases as)
  case (Cons a as')
  have "length (incoming (await_result as' (arrive a d))) \<le> length as'" by (rule await_result_shorter)
  then show ?thesis using assms Cons by (simp add: advances_def)
qed (use assms in \<open>simp add: advances_def\<close>)

lemma send_advances: "advances d (snd (send_rsp c d))"
  by (simp add: advances_def send_rsp_def draise_def dret_def)

lemma request_advances: "advances d (snd (rsp_request c d))"
proof -
  obtain r d1 where s: "send_rsp c (d\<lparr>pending := Some None\<rparr>) = (r, d1)" by fastforce
  then have d1: "incoming d1 = incoming d" "stops d1 = stops d" "pending d1 = Some None"
    by (auto simp: send_rsp_def draise_def dret_def put_def split: if_splits)
  then have "advances d1 (await_result (incoming d1) d1)" by (intro await_result_advances) simp_all
  then have "advances d (await_result (incoming d1) d1)" using d1 by (auto simp: advances_def)
  then show ?thesis
    using s d1 by (auto simp: rsp_request_def Let_def advances_def split: sum.split option.split)
qed

lemma dbind_advances:
  "advances d (snd (m d)) \<Longrightarrow> (\<And>x d1. m d = (Inr x, d1) \<Longrightarrow> advances d1 (snd (f x d1))) \<Longrightarrow> advances d (snd (dbind m f d))"
  by (auto simp: dbind_def split: prod.split sum.split intro: advances_trans)

lemma acknowledge_advances: "advances d (snd (acknowledge c d))"
  unfolding acknowledge_def
  by (rule dbind_advances [OF request_advances]) (simp add: dret_def draise_def)

lemma clear_advances: "advances e (snd (dthen (acknowledge c) (dmod (drop_point k)) e))"
proof (rule dbind_advances)
  show "advances e (snd (acknowledge c e))" by (rule acknowledge_advances)
qed (simp add: dmod_def drop_point_def advances_def)

lemma hit_at_advances: "advances d (snd (hit_at addr d))"
proof -
  have same: "advances d (set_point k p d)" for k p by (simp add: advances_def set_point_def)
  have "advances e (snd (dthen (send_rsp ''c'') (dret True) e))" for e
    by (rule dbind_advances [OF send_advances]) (simp add: dret_def)
  moreover have "advances e (snd (dthen (dwhen b (dthen (acknowledge c) (dmod (drop_point k)))) (dret False) e))" for b c k e
  proof (rule dbind_advances)
    show "advances e (snd (dwhen b (dthen (acknowledge c) (dmod (drop_point k))) e))"
      using clear_advances by (cases b) (simp_all add: dwhen_def dret_def)
  qed (simp add: dret_def)
  ultimately have "advances (set_point k p d) (snd (dthen (send_rsp ''c'') (dret True) (set_point k p d)))"
    "advances (set_point k p d) (snd (dthen (dwhen b (dthen (acknowledge c) (dmod (drop_point l)))) (dret False) (set_point k p d)))"
    for k p b c l by blast+
  note both = this [THEN advances_trans [OF same]]
  show ?thesis
    by (cases "map_of (points d) (0, addr, 2)") (simp_all add: hit_at_def Let_def dret_def both)
qed

lemma hit_point_advances: "advances d (snd (hit_point d))"
  unfolding hit_point_def
proof (rule dbind_advances [OF request_advances])
  show "advances d1 (snd (dbind (dres (py_int 16 r)) hit_at d1))" for r d1
    by (rule dbind_advances) (simp_all add: dres_def hit_at_advances)
qed

lemma handle_stop_advances: "advances d (handle_stop r d)"
proof -
  obtain x d1 where h: "(if up d then hit_point d else (Inr False, d)) = (x, d1)" by fastforce
  then have "advances d d1" using hit_point_advances [of d] by (auto split: if_splits)
  then have "advances d (signal_stop r d1)" by (simp add: advances_def)
  with \<open>advances d d1\<close> h show ?thesis
    by (auto simp: handle_stop_def split: sum.split bool.split)
qed

lemma next_stop_less:
  "stops d \<noteq> [] \<Longrightarrow> (next_stop d, d) \<in> measures [\<lambda>d. length (incoming d), \<lambda>d. length (stops d)]"
  using handle_stop_advances [of "d\<lparr>stops := tl (stops d)\<rparr>" "hd (stops d)"]
  by (auto simp: next_stop_def advances_def)

text \<open>All tasks that wait for the lock.\<close>

function settle :: "winuae \<Rightarrow> winuae" where
  "settle d = (if stops d = [] then d else settle (next_stop d))"
  by pat_completeness auto
termination
  by (relation "measures [\<lambda>d. length (incoming d), \<lambda>d. length (stops d)]") (use next_stop_less in auto)

declare settle.simps [simp del]

text \<open>Waiting for \<open>_stop\<close>, without the lock: False when the time is over.\<close>

function wait_stop :: "winuae \<Rightarrow> bool \<times> winuae" where
  "wait_stop d =
     (if stop_set d then (True, d)
      else if stops d \<noteq> [] then wait_stop (next_stop d)
      else case incoming d of
        [] \<Rightarrow> (False, d)
      | a # as \<Rightarrow> if a = Silence then (False, d\<lparr>incoming := as\<rparr>) else wait_stop (arrive a (d\<lparr>incoming := as\<rparr>)))"
  by pat_completeness auto
termination
  by (relation "measures [\<lambda>d. length (incoming d), \<lambda>d. length (stops d)]") (use next_stop_less in auto)

declare wait_stop.simps [simp del]

end
