(* ===== verification/Winuae_Actions.thy ===== *)
theory Winuae_Actions
  imports Winuae_Ops Bus
begin

text \<open>
  The actions of the WinUAE debugger (\<open>winuae_debug.py\<close>) that its web routes and tools call. An
  action holds the lock, and finds a paused CPU where it says so; the ones that wait for a stop do it
  without the lock. What the functions get from outside is an argument: how opening a connection ends,
  whether a deadline has passed, the hooks of the feature modules.
\<close>

section \<open>The session\<close>

definition py_upper :: "string \<Rightarrow> string" where
  "py_upper s = map upper_char s"

definition opt_text :: "string option \<Rightarrow> pyval" where
  "opt_text v = (case v of Some s \<Rightarrow> VStr s | None \<Rightarrow> VNone)"

definition describe :: "point \<Rightarrow> pyval" where
  "describe p = VDict [(''kind'', VInt (p_kind p)), (''address'', VInt (p_address p)), (''size'', VInt (p_size p)), (''hits'', VInt (p_hits p)),
     (''skip'', VInt (p_skip p)), (''oneshot'', VBool (p_oneshot p)), (''symbol'', opt_text (p_symbol p))]"

definition point_list :: "winuae \<Rightarrow> pyval" where
  "point_list d = VList (map (\<lambda>q. describe (snd q)) (sort_key fst (points d)))"

definition snapshot :: "winuae \<Rightarrow> pydict" where
  "snapshot d = [(''enabled'', VBool (enabled d)), (''connected'', VBool (up d)), (''host'', VStr (debug_host d)),
     (''port'', VInt (debug_port d)), (''execution'', VStr (execution d)), (''last_stop'', opt_text (last_stop d)),
     (''last_error'', opt_text (last_error d)), (''capabilities'', VDict (capabilities d)), (''breakpoints'', point_list d)]"

text \<open>\<open>_close\<close>: the reading task is cancelled.\<close>

definition close_session :: "winuae \<Rightarrow> winuae" where
  "close_session d = (closed None d)\<lparr>reading := False\<rparr>"

text \<open>\<open>aclose\<close>\<close>

definition leave_session :: "winuae \<Rightarrow> winuae" where
  "leave_session d = (let d1 = settle d in close_session (if up d1 then snd (acknowledge ''D'' d1) else d1))"

definition paused :: "unit dm" where
  "paused d =
     (if \<not> up d then fails DISCONNECTED d
      else if execution d \<noteq> ''stopped'' then fails ''Pause WinUAE before inspecting or changing native state'' d
      else dret () d)"

text \<open>A locked operation: stops come first, then what the operation requires.\<close>

definition locked :: "bool \<Rightarrow> string option \<Rightarrow> 'a dm \<Rightarrow> 'a dm" where
  "locked halted capability m d = dthen (dwhen halted paused) (dthen (require_some capability) m) (settle d)"

text \<open>\<open>_execution\<close>\<close>

definition execution_status :: "pydict dm" where
  "execution_status d = dbind (monitor ''execution-status'' (Some ''execution-status'')) (\<lambda>v e.
     case v of
       VDict m \<Rightarrow>
         (case map_of m ''execution'' of
            Some (VStr x) \<Rightarrow>
              if x \<in> {''running'', ''stopped'', ''host-paused''} then
                dret m (if stop_generation e \<noteq> stop_generation d \<or> stops e \<noteq> [] then e
                        else if truthy (dict_get m ''debugger_stopped'' VNone) then e\<lparr>execution := ''stopped'', stop_set := True\<rparr>
                        else if x \<noteq> ''stopped'' then e\<lparr>execution := x, stop_set := False\<rparr>
                        else e\<lparr>execution := x\<rparr>)
              else fails ''Invalid WinUAE execution status'' e
          | _ \<Rightarrow> fails ''Invalid WinUAE execution status'' e)
     | _ \<Rightarrow> fails ''Invalid WinUAE execution status'' e) d"

text \<open>\<open>(?:^|;)PacketSize=([0-9a-fA-F]+)\<close>\<close>

definition packet_field :: "string \<Rightarrow> int option" where
  "packet_field supported =
     (case filter (\<lambda>f. py_startswith f ''PacketSize='' \<and> takeWhile is_hex (drop 11 f) \<noteq> []) (split_char CHR '';'' supported) of
        f # fs \<Rightarrow> py_int_opt 16 (takeWhile is_hex (drop 11 f))
      | [] \<Rightarrow> None)"

definition use_packet_size :: "int option \<Rightarrow> winuae \<Rightarrow> winuae" where
  "use_packet_size n d = (case n of Some k \<Rightarrow> d\<lparr>packet_size := nat (min 65536 (max 64 k))\<rparr> | None \<Rightarrow> d)"

text \<open>What follows the opening of the connection.\<close>

definition negotiate :: "pydict dm" where
  "negotiate =
     dbind (rsp_request ''qSupported'') (\<lambda>supported.
       dthen (dmod (use_packet_size (packet_field supported)))
       (dthen (dwhen (''QStartNoAckMode+'' \<in> set (split_char CHR '';'' supported))
           (dbind (rsp_request ''QStartNoAckMode'') (\<lambda>r.
              if r = ''OK'' then dmod (\<lambda>d. d\<lparr>no_ack := True\<rparr>) else fails ''Invalid no-ack negotiation'')))
       (dbind (monitor ''capabilities'' None) (\<lambda>caps.
         case caps of
           VDict m \<Rightarrow>
             if dict_get m ''protocol'' VNone \<notin> {VInt 1, VBool True} then fails ''The endpoint is not a supported WinUAE debugger''
             else dbind (dres (has_item ''execution-status'' (dict_get m ''commands'' (VList [])))) (\<lambda>ok.
               if ok then dthen (dmod (\<lambda>d. d\<lparr>capabilities := m\<rparr>)) (dthen execution_status (dget snapshot))
               else fails ''The endpoint is not a supported WinUAE debugger'')
         | _ \<Rightarrow> fails ''The endpoint is not a supported WinUAE debugger''))))"

text \<open>\<open>_connect\<close>: \<open>opened\<close> is None when the connection has been opened, and the text of the error otherwise.\<close>

definition open_session :: "string option \<Rightarrow> pydict dm" where
  "open_session opened d =
     (if \<not> enabled d then fails ''Enable [winuae_debug] in your DevBench configuration first'' d
      else if up d then dret (snapshot d) d
      else
        let d1 = (close_session d)\<lparr>no_ack := False, packet_size := 4096, last_stop := None, stop_set := False\<rparr>;
            d2 = d1\<lparr>up := True, reading := True, inbuf := [], phase := At_Start, bad_checksums := 0\<rparr>
        in case (case opened of Some message \<Rightarrow> fails message d1 | None \<Rightarrow> negotiate d2) of
             (Inl (DebugError message), e) \<Rightarrow>
               fails (''Cannot connect to WinUAE at '' @ debug_host d @ '':'' @ fmt_dec (debug_port d) @ '': '' @ message)
                 ((close_session e)\<lparr>last_error := Some message\<rparr>)
           | r \<Rightarrow> r)"

definition status :: "pydict dm" where
  "status = locked False None (\<lambda>d. dthen (if up d then dbind execution_status (\<lambda>_. dret ()) else dret ()) (dget snapshot) d)"

section \<open>Waiting and stepping\<close>

definition stop_time :: "pyval \<Rightarrow> bool" where
  "stop_time t = (case t of VInt n \<Rightarrow> 0 < n \<and> n \<le> 60 | VBool b \<Rightarrow> b | _ \<Rightarrow> False)"

text \<open>\<open>wait_stopped\<close> after the check of its argument: whether the time was over.\<close>

definition await_stop :: "bool dm" where
  "await_stop d =
     (if \<not> up d then fails DISCONNECTED d
      else case wait_stop d of
        (False, e) \<Rightarrow> dret True e
      | (True, e) \<Rightarrow>
          if up e then dret False e
          else fails (case last_error e of Some (c # s) \<Rightarrow> c # s | _ \<Rightarrow> ''Debugger disconnected'') e)"

definition wait_stopped :: "pyval \<Rightarrow> pydict dm" where
  "wait_stopped t =
     (if stop_time t then dbind await_stop (\<lambda>late. dget (\<lambda>d. snapshot d @ [(''timed_out'', VBool late)]))
      else fails ''Stop timeout must be greater than zero and at most 60 seconds'')"

text \<open>\<open>_step_once\<close>: the reply of the stop.\<close>

definition step_once :: "string \<Rightarrow> string \<Rightarrow> string dm" where
  "step_once command run =
     dthen (locked True None (run_command command run))
       (dbind await_stop (\<lambda>late.
          if late then fails ''The CPU did not stop in time; it is still running''
          else dget (\<lambda>d. case last_stop d of Some s \<Rightarrow> s | None \<Rightarrow> [])))"

definition pause_cpu :: "pydict dm" where
  "pause_cpu d =
     (let d1 = settle d
      in if \<not> up d1 then fails DISCONNECTED d1
         else if execution d1 = ''stopped'' then dret (snapshot d1 @ [(''timed_out'', VBool False)]) d1
         else dbind await_stop (\<lambda>late.
                if late then fails ''Interrupt timed out; WinUAE has not reported a stop''
                else dget (\<lambda>d. snapshot d @ [(''timed_out'', VBool False)])) (put [CHR 0x03] (d1\<lparr>interrupting := True\<rparr>)))"

definition resume :: "pydict dm" where
  "resume = locked True None (dthen (run_command ''c'' ''continue'') (dget snapshot))"

fun step_many :: "nat \<Rightarrow> int dm" where
  "step_many 0 = dret 0"
| "step_many (Suc n) = dbind (step_once ''s'' ''step'') (\<lambda>r.
     if plain_stop r then dbind (step_many n) (\<lambda>k. dret (k + 1)) else dret 1)"

definition step :: "pyval \<Rightarrow> pyval \<Rightarrow> pydict dm" where
  "step count wait =
     dbind (dres (integer ''count'' 1000 1 count)) (\<lambda>n.
       dbind (if n = 1 then dres (boolean ''wait'' wait) else dret True) (\<lambda>waits.
         if waits then dbind (step_many (nat n)) (\<lambda>k. dget (\<lambda>d. snapshot d @ [(''steps'', VInt k)]))
         else dthen (locked True None (run_command ''s'' ''step'')) (dget snapshot)))"

text \<open>\<open>_step_over\<close> without the lock.\<close>

definition step_over_body :: "pydict dm" where
  "step_over_body d =
     (case monitor ''step-over'' None (d\<lparr>stop_set := False, last_stop := None, execution := ''running'', run_mode := Some ''over''\<rparr>) of
        (Inl (DebugError t), e) \<Rightarrow> fails t (if up e then e\<lparr>execution := ''stopped'', stop_set := True\<rparr> else e)
      | (Inl x, e) \<Rightarrow> draise x e
      | (Inr v, e) \<Rightarrow> dret (snapshot e) e)"

definition step_over :: "pydict dm" where
  "step_over = locked True (Some ''step-over'') step_over_body"

text \<open>\<open>^\s*([0-9A-Fa-f]{8})\s\<close>; \<open>goes_on\<close> says that a line break follows.\<close>

definition line_address :: "bool \<Rightarrow> string \<Rightarrow> int option" where
  "line_address goes_on line =
     (let t = py_lstrip line
      in if 8 \<le> length t \<and> list_all is_hex (take 8 t) \<and> (case drop 8 t of [] \<Rightarrow> goes_on | c # s \<Rightarrow> is_space c)
         then py_int_opt 16 (take 8 t) else None)"

fun line_addresses :: "string list \<Rightarrow> int list" where
  "line_addresses [] = []"
| "line_addresses (l # ls) = (case line_address (ls \<noteq> []) l of Some a \<Rightarrow> a # line_addresses ls | None \<Rightarrow> line_addresses ls)"

definition next_address :: "int \<Rightarrow> int dm" where
  "next_address a =
     dbind (monitor_text (''disasm '' @ fmt_hex False 0 a @ '' 2'') (Some ''disasm'')) (\<lambda>t.
       case line_addresses (split_char CHR 0x0A (case t of Some s \<Rightarrow> s | None \<Rightarrow> [])) of
         x # y # zs \<Rightarrow> if x = a then dret y else fails ''Cannot determine the next instruction address''
       | _ \<Rightarrow> fails ''Cannot determine the next instruction address'')"

text \<open>\<open>int.from_bytes(..., 'big')\<close>\<close>

definition be_value :: "byte list \<Rightarrow> int" where
  "be_value bs = foldl (\<lambda>n b. n * 256 + uint b) 0 bs"

definition is_call :: "int \<Rightarrow> bool" where
  "is_call opcode \<longleftrightarrow> opcode AND 0xFFC0 = 0x4E80 \<or> opcode AND 0xFF00 = 0x6100 \<or> opcode AND 0xFFF0 = 0x4E40"

definition is_return :: "int \<Rightarrow> bool" where
  "is_return opcode \<longleftrightarrow> opcode \<in> {0x4E73, 0x4E74, 0x4E75, 0x4E77}"

text \<open>The loop of \<open>_step_out\<close> from instruction \<open>k\<close> on; \<open>late k\<close> says that the time is over after it.\<close>

definition step_out_end :: "bool \<Rightarrow> nat \<Rightarrow> string option \<Rightarrow> pydict dm" where
  "step_out_end returned k reason = dget (\<lambda>d. snapshot d @ [(''returned'', VBool returned), (''instructions'', VInt (int k))] @
     (case reason of Some r \<Rightarrow> [(''reason'', VStr r)] | None \<Rightarrow> []))"

definition next_opcode :: "(int \<times> int option) dm" where
  "next_opcode = locked True None (dbind read_registers (\<lambda>r. dbind (read_bytes (reg ''PC'' r) 2) (\<lambda>b.
     if is_call (be_value b) then dbind (next_address (reg ''PC'' r)) (\<lambda>a. dret (be_value b, Some a)) else dret (be_value b, None))))"

fun step_out_loop :: "(nat \<Rightarrow> bool) \<Rightarrow> nat \<Rightarrow> nat \<Rightarrow> pydict dm" where
  "step_out_loop late k 0 = step_out_end False k (Some ''instruction or time budget exhausted'')"
| "step_out_loop late k (Suc n) =
     (let go_on = (if late k \<or> n = 0 then step_out_end False k (Some ''instruction or time budget exhausted'')
                   else step_out_loop late (k + 1) n)
      in dbind next_opcode (\<lambda>(opcode, target).
        if is_call opcode then
          dthen (require ''step-over'') (dthen (locked True None step_over_body) (dbind await_stop (\<lambda>timed_out.
            if timed_out then fails ''The called subroutine has not returned; the CPU is still running''
            else dbind (locked False None read_registers) (\<lambda>r.
              if target \<noteq> Some (reg ''PC'' r) then step_out_end False k (Some ''stopped inside a call'') else go_on))))
        else
          dbind (step_once ''s'' ''step'') (\<lambda>reply.
            if \<not> plain_stop reply then step_out_end False k (Some reply)
            else if is_return opcode then step_out_end True k None
            else go_on)))"

definition step_out :: "(nat \<Rightarrow> bool) \<Rightarrow> pyval \<Rightarrow> pyval \<Rightarrow> pydict dm" where
  "step_out late max_instructions timeout =
     dbind (dres (integer ''max_instructions'' 1000000 1 max_instructions)) (\<lambda>n.
       if stop_time timeout then step_out_loop late 1 (nat n)
       else fails ''timeout must be greater than zero and at most 60 seconds'')"

definition range_step :: "pyval \<Rightarrow> pyval \<Rightarrow> pydict dm" where
  "range_step start beyond_arg = locked True None
     (dbind (dres (integer ''start'' MAX32 0 start)) (\<lambda>first. dbind (dres (integer ''end'' 0x100000000 0 beyond_arg)) (\<lambda>beyond.
        if beyond < first then fails ''end must not be below start''
        else dbind (rsp_request ''vCont?'') (\<lambda>r.
          if ''r'' \<notin> set (split_char CHR '';'' r) then fails ''This WinUAE build does not support range stepping''
          else dthen (run_command (''vCont;r'' @ fmt_hex False 0 first @ '','' @ fmt_hex False 0 beyond) ''range'') (dget snapshot)))))"

end
