(* ===== verification/Winuae_Access.thy ===== *)
theory Winuae_Access
  imports Winuae_Actions
begin

text \<open>
  Registers, memory, breakpoints, inspection and the reset of the WinUAE debugger
  (\<open>winuae_debug.py\<close>).
\<close>

section \<open>Registers and memory\<close>

definition STACK_POINTERS :: "string list" where
  "STACK_POINTERS = [''USP'', ''ISP'', ''MSP'']"

definition change_register :: "string \<Rightarrow> pyval \<Rightarrow> unit dm" where
  "change_register register v =
     (let name = py_upper register
      in if name \<in> set REGISTERS then
           dbind (dres (integer ''register value'' (if name = ''SR'' then 0xFFFF else MAX32) 0 v)) (\<lambda>n.
             if name \<in> {''PC'', ''A7''} \<and> odd n then fails (name @ '' must be even'') else set_register name n)
         else if name \<in> set STACK_POINTERS then
           dbind (dres (integer ''register value'' MAX32 0 v)) (\<lambda>n.
             if odd n then fails (name @ '' must be even'') else set_stack_pointer name n)
         else fails ''Register must be D0-D7, A0-A7, SR, PC, USP, ISP or MSP'')"

definition registers_action :: "string option \<Rightarrow> pyval \<Rightarrow> pyval \<Rightarrow> registers dm" where
  "registers_action register v with_stacks = locked True None
     (dthen (case register of Some name \<Rightarrow> change_register name v | None \<Rightarrow> dret ())
       (dbind read_registers (\<lambda>regs. dbind (dres (boolean ''stack_pointers'' with_stacks)) (\<lambda>b.
          if b then dbind (stack_pointers regs) (\<lambda>sps. dret (regs @ sps)) else dret regs))))"

definition read_memory_action :: "pyval \<Rightarrow> pyval \<Rightarrow> pydict dm" where
  "read_memory_action address n = locked True None
     (dbind (dres (integer ''address'' MAX32 0 address)) (\<lambda>a. dbind (dres (integer ''size'' 65536 1 n)) (\<lambda>k.
        if 0x100000000 < a + k then fails ''Memory range wraps the address space''
        else dbind (read_bytes a (nat k)) (\<lambda>bs.
          dret [(''address'', VInt a), (''size'', VInt k), (''hex'', VStr (bytes_hex False bs))]))))"

definition hex_bytes_text :: "pyval \<Rightarrow> string option" where
  "hex_bytes_text v = (case v of
       VStr s \<Rightarrow> if even (length s) \<and> 2 \<le> length s \<and> length s \<le> 8192 \<and> list_all is_hex s then Some s else None
     | _ \<Rightarrow> None)"

definition write_memory_action :: "pyval \<Rightarrow> pyval \<Rightarrow> pydict dm" where
  "write_memory_action address hex_data = locked True None
     (dbind (dres (integer ''address'' MAX32 0 address)) (\<lambda>a.
        case hex_bytes_text hex_data of
          None \<Rightarrow> fails ''Supply 1..4096 bytes as pairs of hex digits''
        | Some s \<Rightarrow> dbind (dres (bytes_fromhex s)) (\<lambda>data.
            if 0x100000000 < a + int (length data) then fails ''Memory range wraps the address space''
            else dthen (write_bytes a data True) (dret [(''address'', VInt a), (''size'', VInt (int (length data)))]))))"

section \<open>Breakpoints\<close>

fun remove_points :: "point_key list \<Rightarrow> unit dm" where
  "remove_points [] = dret ()"
| "remove_points (k # ks) = dthen (acknowledge (CHR ''z'' # point_range k)) (dthen (dmod (drop_point k)) (remove_points ks))"

definition point_code :: "string \<Rightarrow> int option" where
  "point_code kind = map_of [(''execute'', 0), (''write'', 2), (''read'', 3), (''access'', 4)] kind"

text \<open>The address of a symbol takes the place of the argument; \<open>ts\<close> are the loaded tables.\<close>

definition point_address :: "tables \<Rightarrow> int \<Rightarrow> pyval \<Rightarrow> string option \<Rightarrow> string option \<Rightarrow> int dm" where
  "point_address ts code address named project =
     dbind (case named of
         Some (c # s) \<Rightarrow>
           if code \<noteq> 0 then fails ''Symbol breakpoints are execute breakpoints''
           else (case lookup_function_address ts (c # s) project of
               Some hit \<Rightarrow> dret (VInt (snd hit))
             | None \<Rightarrow> fails (''No symbol '' @ [CHR 0x27] @ (c # s) @ [CHR 0x27] @ '' in the loaded projects; load symbols first''))
       | _ \<Rightarrow> dret address) (\<lambda>v. dres (integer ''address'' MAX32 0 v))"

definition new_point :: "point_key \<Rightarrow> int \<Rightarrow> bool \<Rightarrow> string option \<Rightarrow> point" where
  "new_point k skips once named = (case k of (code, a, n) \<Rightarrow>
     \<lparr>p_kind = code, p_address = a, p_size = n, p_hits = 0, p_skip = skips, p_oneshot = once,
      p_symbol = (case named of Some (c # s) \<Rightarrow> Some (c # s) | _ \<Rightarrow> None)\<rparr>)"

definition add_point :: "point_key \<Rightarrow> pyval \<Rightarrow> pyval \<Rightarrow> string option \<Rightarrow> pyval dm" where
  "add_point k skip oneshot named =
     dbind (dres (integer ''skip'' 1000000 0 skip)) (\<lambda>skips. dbind (dres (boolean ''oneshot'' oneshot)) (\<lambda>once d.
       if fst k \<noteq> 0 \<and> (skips \<noteq> 0 \<or> once) then fails ''Skip counts and one-shot apply to execute breakpoints'' d
       else dthen (dwhen (map_of (points d) k = None) (acknowledge (CHR ''Z'' # point_range k)))
         (dthen (dmod (set_point k (new_point k skips once named))) (dget point_list)) d))"

definition remove_point :: "point_key \<Rightarrow> pyval dm" where
  "remove_point k d =
     (if map_of (points d) k = None then fails ''This session does not own that breakpoint'' d
      else dthen (remove_points [k]) (dget point_list) d)"

definition breakpoint_action ::
    "tables \<Rightarrow> string \<Rightarrow> pyval \<Rightarrow> string \<Rightarrow> pyval \<Rightarrow> pyval \<Rightarrow> pyval \<Rightarrow> string option \<Rightarrow> string option \<Rightarrow> pyval dm" where
  "breakpoint_action ts operation address kind n skip oneshot named project = locked True None
     (if operation = ''list'' then dget point_list
      else if operation = ''clear'' then (\<lambda>d. dthen (remove_points (map fst (points d))) (dret (VList [])) d)
      else if operation \<notin> {''add'', ''remove''} then fails ''Breakpoint operation must be add, remove, clear or list''
      else case point_code kind of
        None \<Rightarrow> fails ''Breakpoint kind must be execute, read, write or access''
      | Some code \<Rightarrow> dbind (point_address ts code address named project) (\<lambda>a.
          dbind (if code = 0 then dret 2 else dres (integer ''size'' 65536 1 n)) (\<lambda>len.
            if 0x100000000 < a + len \<or> (code = 0 \<and> odd a) then fails ''Invalid breakpoint range or instruction alignment''
            else if operation = ''remove'' then remove_point (code, a, len)
            else add_point (code, a, len) skip oneshot named)))"

section \<open>Reinstalling what a restore has cleared\<close>

fun reinstall :: "point list \<Rightarrow> unit dm" where
  "reinstall [] = dret ()"
| "reinstall (p # ps) =
     (let k = (p_kind p, p_address p, p_size p)
      in dthen (acknowledge (CHR ''Z'' # point_range k)) (dthen (dmod (set_point k p)) (reinstall ps)))"

text \<open>\<open>hooks\<close> are the functions in \<open>REARM\<close>, one after the other.\<close>

definition rearm :: "unit dm \<Rightarrow> unit dm" where
  "rearm hooks d =
     dthen (reinstall (map snd (points d)))
       (dthen (\<lambda>d1. dwhen (exception_mask d1 \<noteq> 0)
            (dbind (monitor (''exception-mask '' @ fmt_hex False 16 (exception_mask d1)) (Some ''exception-mask'')) (\<lambda>_. dret ())) d1) hooks)
       (d\<lparr>points := []\<rparr>)"

section \<open>Inspection\<close>

definition inspect_action :: "string \<Rightarrow> pyval \<Rightarrow> pyval dm" where
  "inspect_action subject process = locked True None
     (if subject = ''capabilities'' then monitor ''capabilities'' None
      else if subject \<in> {''tasks'', ''exception'', ''memory-map''} then monitor subject (Some subject)
      else if subject = ''segments'' then
        dbind (dres (integer ''process address'' MAX32 0 process)) (\<lambda>a.
          if a AND 3 \<noteq> 0 then fails ''Process address must be aligned to four bytes''
          else monitor (''segments'' @ (if a \<noteq> 0 then '' '' @ fmt_hex False 0 a else [])) (Some ''segments''))
      else fails ''Inspection must be tasks, segments, exception, memory-map or capabilities'')"

definition program_name :: "pyval \<Rightarrow> string option" where
  "program_name v = (case v of
       VStr s \<Rightarrow> if 1 \<le> length s \<and> length s \<le> 255 \<and> list_all (\<lambda>c. 32 \<le> chr_code c \<and> chr_code c < 127) s then Some s else None
     | _ \<Rightarrow> None)"

definition process_break :: "string \<Rightarrow> pyval \<Rightarrow> pyval \<Rightarrow> pyval dm" where
  "process_break operation named address = locked True None
     (if operation \<in> {''clear'', ''status''} then monitor (''process-break '' @ operation) (Some ''process-break'')
      else if operation = ''name'' then
        (case program_name named of
           None \<Rightarrow> fails ''Program name must contain 1..255 printable ASCII characters''
         | Some s \<Rightarrow> monitor (''process-break name '' @ s) (Some ''process-break''))
      else if operation = ''address'' then
        dbind (dres (integer ''process address'' MAX32 4 address)) (\<lambda>a.
          if a AND 3 \<noteq> 0 then fails ''Process address must be aligned to four bytes''
          else monitor (''process-break address '' @ fmt_hex False 0 a) (Some ''process-break''))
      else fails ''Process breakpoint operation must be status, name, address or clear'')"

fun vector_mask :: "pyval list \<Rightarrow> int res" where
  "vector_mask [] = Inr 0"
| "vector_mask (v # vs) = res_bind (integer ''exception vector'' 63 2 v) (\<lambda>n. res_bind (vector_mask vs) (\<lambda>m. Inr (push_bit (nat n) 1 OR m)))"

definition exception_mask_action :: "pyval \<Rightarrow> pyval dm" where
  "exception_mask_action vectors = locked True None
     (case (case vectors of VList vs \<Rightarrow> if length vs \<le> 62 then Some vs else None | _ \<Rightarrow> None) of
        None \<Rightarrow> fails ''Supply a list of exception vectors (2..63); [] disables stops''
      | Some vs \<Rightarrow> dbind (dres (vector_mask vs)) (\<lambda>m.
          dthen (monitor (''exception-mask '' @ fmt_hex False 16 m) (Some ''exception-mask''))
            (dthen (dmod (\<lambda>d. d\<lparr>exception_mask := m\<rparr>)) (monitor ''exception'' (Some ''exception'')))))"

section \<open>Reset\<close>

definition reset_keys :: "bool \<Rightarrow> int list" where
  "reset_keys hard = (if hard then [0x64] else []) @ [0x63, 0x66, 0x67]"

fun press_keys :: "(int \<times> int) list \<Rightarrow> unit dm" where
  "press_keys [] = dret ()"
| "press_keys ((key, state) # ks) =
     dthen (monitor_text (''input event 0 0 '' @ fmt_hex False 0 key @ '' '' @ fmt_dec state) None) (press_keys ks)"

definition key_events :: "bool \<Rightarrow> (int \<times> int) list" where
  "key_events hard = map (\<lambda>k. (k, 1)) (reset_keys hard) @ map (\<lambda>k. (k, 0)) (rev (reset_keys hard))"

text \<open>Waiting for WinUAE to close the connection, with the lock free.\<close>

function wait_hangup :: "winuae \<Rightarrow> winuae" where
  "wait_hangup d =
     (if \<not> up d then d
      else if stops d \<noteq> [] then wait_hangup (next_stop d)
      else case incoming d of
        [] \<Rightarrow> d
      | a # as \<Rightarrow> if a = Silence then d\<lparr>incoming := as\<rparr> else wait_hangup (arrive a (d\<lparr>incoming := as\<rparr>)))"
  by pat_completeness auto
termination
  by (relation "measures [\<lambda>d. length (incoming d), \<lambda>d. length (stops d)]") (use next_stop_less in auto)

declare wait_hangup.simps [simp del]

text \<open>The attempts to connect again; \<open>opens\<close> says how each one opens the connection until the time is over.\<close>

fun reconnect :: "string option list \<Rightarrow> unit dm" where
  "reconnect [] = fails ''WinUAE reset, but its GDB server did not come back in time''"
| "reconnect (opened # opens) = (\<lambda>d.
     case locked False None (open_session opened) d of
       (Inl (DebugError t), e) \<Rightarrow> reconnect opens e
     | (Inl x, e) \<Rightarrow> draise x e
     | (Inr v, e) \<Rightarrow> dret () e)"

definition keep_session :: "winuae \<Rightarrow> winuae \<Rightarrow> winuae" where
  "keep_session saved d = d\<lparr>points := fold (\<lambda>(k, p). AList.update k p) (points saved) (points d), exception_mask := exception_mask saved,
     watches := watches saved, dma_watches := dma_watches saved, conditions := conditions saved, guest_output := guest_output saved\<rparr>"

definition guest_reset :: "unit dm \<Rightarrow> string option list \<Rightarrow> pyval \<Rightarrow> pyval \<Rightarrow> pyval \<Rightarrow> pydict dm" where
  "guest_reset hooks opens hard_arg resume_arg timeout =
     dbind (dres (boolean ''hard'' hard_arg)) (\<lambda>hard. dbind (dres (boolean ''resume'' resume_arg)) (\<lambda>resumes.
       if \<not> stop_time timeout then fails ''timeout must be greater than zero and at most 60 seconds''
       else dbind (locked False None (\<lambda>d.
           if \<not> up d then fails DISCONNECTED d
           else dthen (require ''input'') (\<lambda>saved.
             case dthen (press_keys (key_events hard)) (\<lambda>e. dwhen (execution e = ''stopped'') (run_command ''c'' ''continue'') e) saved of
               (Inl (DebugError t), e) \<Rightarrow> if up e then fails t e else dret saved e
             | (Inl x, e) \<Rightarrow> draise x e
             | (Inr _, e) \<Rightarrow> dret saved e) d))
         (\<lambda>saved d. (let e = wait_hangup d
           in if up e then fails ''WinUAE did not reset; is input recording or playback active?''
              else dthen (reconnect opens) (dthen (locked False None (dthen (dmod (keep_session saved)) (rearm hooks)))
                (dthen (if resumes then dbind resume (\<lambda>_. dret ()) else dret ())
                  (dget (\<lambda>d. snapshot d @ [(''reset'', VStr (if hard then ''hard'' else ''soft''))])))))
           (wait_hangup d))))"

end
