(* ===== verification/Winuae_Watch.thy ===== *)
theory Winuae_Watch
  imports Winuae_Access
begin

text \<open>
  Watchpoints, watches on DMA, conditions on registers and the history of the PC
  (\<open>winuae_watch.py\<close>). A session owns what it has added; the identifiers WinUAE answers with index
  the commands, so that they can be given again after a restore.
\<close>

section \<open>Accesses and sources\<close>

definition SOURCES :: "(string \<times> int) list" where
  "SOURCES = [(''cpu'', 0x6), (''blitter'', 0x1F8), (''copper'', 0x200), (''disk'', 0x400),
     (''audio'', 0x7800), (''bitplane'', 0x7F8000), (''sprite'', 0x7F800000)]"

definition CPU_FETCH :: int where
  "CPU_FETCH = 1"

definition ACCESS :: "(string \<times> int) list" where
  "ACCESS = [(''read'', 1), (''write'', 2), (''access'', 3), (''fetch'', 4)]"

definition CONDITION_REGISTERS :: "string list" where
  "CONDITION_REGISTERS = take 16 REGISTERS @ [''PC'', ''USP'', ''MSP'', ''ISP'', ''VBR'', ''SR'']"

definition CONDITION_OPERATORS :: "string list" where
  "CONDITION_OPERATORS = [''eq'', ''ne'', ''le'', ''ge'', ''lt'', ''gt'']"

definition letter_bits :: "string \<Rightarrow> int" where
  "letter_bits s = (if CHR ''R'' \<in> set s then 1 else 0) + (if CHR ''W'' \<in> set s then 2 else 0) + (if CHR ''I'' \<in> set s then 4 else 0)"

definition access_bits :: "pyval \<Rightarrow> int res" where
  "access_bits access =
     (let wrong = Inl (DebugError ''access must be read, write, access, fetch or a combination of R, W and I'')
      in case access of
        VStr s \<Rightarrow>
          (case map_of ACCESS s of
             Some n \<Rightarrow> Inr n
           | None \<Rightarrow> if s \<noteq> [] \<and> set (py_upper s) \<subseteq> {CHR ''R'', CHR ''W'', CHR ''I''} then Inr (letter_bits (py_upper s)) else wrong)
      | _ \<Rightarrow> wrong)"

text \<open>Whether a name is not in a table; what cannot be hashed raises.\<close>

fun unknown_name :: "string list \<Rightarrow> pyval list \<Rightarrow> bool res" where
  "unknown_name known [] = Inr False"
| "unknown_name known (v # vs) = (case v of
     VStr s \<Rightarrow> if s \<in> set known then unknown_name known vs else Inr True
   | VList xs \<Rightarrow> Inl TypeError | VDict m \<Rightarrow> Inl TypeError | _ \<Rightarrow> Inr True)"

definition or_else :: "'a \<Rightarrow> 'a option \<Rightarrow> 'a" where
  "or_else x v = (case v of Some y \<Rightarrow> y | None \<Rightarrow> x)"

fun names_mask :: "pyval list \<Rightarrow> int" where
  "names_mask [] = 0"
| "names_mask (v # vs) = ((case v of VStr s \<Rightarrow> or_else 0 (map_of SOURCES s) | _ \<Rightarrow> 0) OR names_mask vs)"

definition sources_text :: "string list \<Rightarrow> string" where
  "sources_text names = py_join '', '' names"

definition named_sources :: "string list \<Rightarrow> string \<Rightarrow> pyval \<Rightarrow> int res" where
  "named_sources known wrong v =
     (case v of
        VList (n # ns) \<Rightarrow> res_bind (unknown_name known (n # ns)) (\<lambda>bad. if bad then Inl (DebugError wrong) else Inr (names_mask (n # ns)))
      | _ \<Rightarrow> Inl (DebugError wrong))"

definition source_mask :: "pyval \<Rightarrow> int \<Rightarrow> int res" where
  "source_mask sources access =
     (let names = (if sources = VNone then VList [VStr ''cpu''] else sources)
      in res_bind (named_sources (map fst SOURCES) (''sources must be a non-empty list of '' @ sources_text (map fst SOURCES)) names) (\<lambda>m.
        if access AND 4 = 0 then Inr m
        else if has_item ''cpu'' names \<noteq> Inr True then Inl (DebugError ''Instruction fetches are CPU accesses; include the cpu source'')
        else if access AND 3 = 0 then Inr ((m OR CPU_FETCH) AND NOT 6)
        else Inr (m OR CPU_FETCH)))"

section \<open>Watches\<close>

text \<open>The identifier in a reply.\<close>

definition reply_id :: "string \<Rightarrow> pyval \<Rightarrow> int res" where
  "reply_id name reply = integer name 255 0 (case reply of VDict m \<Rightarrow> dict_get m ''id'' VNone | _ \<Rightarrow> VNone)"

definition add_watch :: "string \<Rightarrow> pyval dm" where
  "add_watch command = dbind (monitor command (Some ''watch'')) (\<lambda>reply. dbind (dres (reply_id ''watch id'' reply)) (\<lambda>ident.
     dthen (dmod (\<lambda>d. d\<lparr>watches := AList.update ident command (watches d)\<rparr>)) (dret (VDict [(''id'', VInt ident)]))))"

definition drop_watch :: "int \<Rightarrow> winuae \<Rightarrow> winuae" where
  "drop_watch ident d = d\<lparr>watches := filter (\<lambda>w. fst w \<noteq> ident) (watches d)\<rparr>"

fun remove_watches :: "int list \<Rightarrow> unit dm" where
  "remove_watches [] = dret ()"
| "remove_watches (i # is) =
     dthen (monitor_text (''watch remove '' @ fmt_hex False 0 i) None) (dthen (dmod (drop_watch i)) (remove_watches is))"

definition gdb_points :: "winuae \<Rightarrow> pyval" where
  "gdb_points d = VList (map (\<lambda>(k, a, s). VDict [(''kind'', VStr ([''write'', ''read'', ''access''] ! nat (k - 2))), (''address'', VInt a),
     (''size'', VInt s), (''gdb'', VBool True)]) (filter (\<lambda>k. fst k \<noteq> 0) (sort (map fst (points d)))))"

text \<open>The arguments of a watch after their checks.\<close>

record watch_spec =
  w_start :: int
  w_length :: int
  w_bits :: int
  w_source :: int
  w_value :: "int option"
  w_mask :: int
  w_change :: bool
  w_log :: bool
  w_exact :: bool

definition value_limit :: "int \<Rightarrow> int" where
  "value_limit n = (if n < 4 then push_bit (nat (8 * n)) 1 - 1 else MAX32)"

definition watch_spec_of :: "pyval \<Rightarrow> pyval \<Rightarrow> pyval \<Rightarrow> pyval \<Rightarrow> pyval \<Rightarrow> pyval \<Rightarrow> pyval \<Rightarrow> pyval \<Rightarrow> pyval \<Rightarrow> watch_spec res" where
  "watch_spec_of address n access sources v m change_only log_only exact =
     res_bind (integer ''address'' MAX32 0 address) (\<lambda>start. res_bind (integer ''size'' 65536 1 n) (\<lambda>len.
     res_bind (access_bits access) (\<lambda>bits. res_bind (source_mask sources bits) (\<lambda>source.
     res_bind (boolean ''change_only'' change_only) (\<lambda>change. res_bind (boolean ''log_only'' log_only) (\<lambda>log.
     res_bind (boolean ''exact'' exact) (\<lambda>ex.
       if change \<and> bits \<noteq> 2 then Inl (DebugError ''change_only requires write access to RAM'')
       else if m \<noteq> VNone \<and> v = VNone then Inl (DebugError ''mask requires value'')
       else if v \<noteq> VNone \<and> len \<notin> {1, 2, 4} then Inl (DebugError ''WinUAE compares values at the watch width; value needs size 1, 2 or 4'')
       else res_bind (if v = VNone then Inr None else res_bind (integer ''value'' (value_limit len) 0 v) (\<lambda>x. Inr (Some x))) (\<lambda>number.
         res_bind (if m = VNone then Inr (value_limit len) else integer ''mask'' (value_limit len) 0 m) (\<lambda>under.
           Inr \<lparr>w_start = start, w_length = len, w_bits = bits, w_source = source, w_value = number, w_mask = under, w_change = change,
                w_log = log, w_exact = ex\<rparr>)))))))))"

definition int_flag :: "bool \<Rightarrow> string" where
  "int_flag b = (if b then ''1'' else ''0'')"

definition watch_args :: "watch_spec \<Rightarrow> string" where
  "watch_args w = py_join '' '' [fmt_hex False 0 (w_start w), fmt_hex False 0 (w_length w), fmt_hex False 0 (w_bits w), fmt_hex False 0 (w_source w),
     int_flag (w_value w \<noteq> None), fmt_hex False 0 (or_else 0 (w_value w)), fmt_hex False 0 (w_mask w), int_flag (w_change w), int_flag (w_log w)]"

text \<open>A plain CPU data range is a standard watchpoint.\<close>

definition watch_kind :: "int \<Rightarrow> int" where
  "watch_kind bits = (if bits = 1 then 3 else if bits = 2 then 2 else 4)"

definition gdb_watch :: "watch_spec \<Rightarrow> pyval dm" where
  "gdb_watch w =
     (let k = (watch_kind (w_bits w), w_start w, w_length w)
      in if 0x100000000 < w_start w + w_length w then fails ''Memory range wraps the address space''
         else dthen (acknowledge (CHR ''Z'' # point_range k)) (dthen (dmod (set_point k (new_point k 0 False None)))
           (dret (VDict [(''gdb'', VBool True), (''kind'', VInt (fst k)), (''address'', VInt (w_start w)), (''size'', VInt (w_length w))]))))"

definition install_watch :: "watch_spec \<Rightarrow> pyval dm" where
  "install_watch w =
     (if w_exact w then
        (if w_length w \<notin> {1, 2, 4} \<or> w_start w mod w_length w \<noteq> 0 \<or> w_bits w AND 4 \<noteq> 0
         then fails ''Exact watches need an aligned 1, 2 or 4 byte read, write or access''
         else add_watch (''watch add '' @ watch_args w))
      else (\<lambda>d. dbind (dres (has_item ''watch-range'' (offered d))) (\<lambda>b.
        if b then add_watch (''watch range '' @ watch_args w)
        else if w_bits w AND 4 \<noteq> 0 \<or> w_value w \<noteq> None \<or> w_change w \<or> w_log w \<or> w_source w \<noteq> 6
        then fails ''Fetch, value, change-only, log-only and DMA source ranges need a WinUAE build with watch-range''
        else gdb_watch w) d))"

definition watch_action ::
    "string \<Rightarrow> pyval \<Rightarrow> pyval \<Rightarrow> pyval \<Rightarrow> pyval \<Rightarrow> pyval \<Rightarrow> pyval \<Rightarrow> pyval \<Rightarrow> pyval \<Rightarrow> pyval \<Rightarrow> pyval \<Rightarrow> pyval dm" where
  "watch_action operation ident address n access sources v m change_only log_only exact = locked True (Some ''watch'')
     (if operation \<in> {''last'', ''events'', ''clear-events''} then monitor (''watch '' @ operation) None
      else if operation = ''list'' then
        (\<lambda>d. dbind (monitor ''watch list'' None) (\<lambda>ws. dret (VDict [(''watches'', ws), (''gdb_watchpoints'', gdb_points d)])) d)
      else if operation = ''remove'' then
        dbind (dres (integer ''id'' 255 0 ident)) (\<lambda>i d.
          if map_of (watches d) i = None then fails ''This session does not own that watch'' d
          else dthen (remove_watches [i]) (dret (VDict [(''removed'', VInt i)])) d)
      else if operation = ''clear'' then
        dthen (\<lambda>d. remove_watches (map fst (watches d)) d)
          (dthen (\<lambda>d. remove_points (filter (\<lambda>k. fst k \<noteq> 0) (map fst (points d))) d)
            (dret (VDict [(''watches'', VList []), (''gdb_watchpoints'', VList [])])))
      else if operation \<noteq> ''add'' then fails ''Watch operation must be add, remove, clear, list, last, events or clear-events''
      else dbind (dres (watch_spec_of address n access sources v m change_only log_only exact)) install_watch)"

section \<open>DMA watches, conditions and history\<close>

definition text_id :: "string \<Rightarrow> string option \<Rightarrow> int res" where
  "text_id name t = integer name 255 0 (VStr (py_strip (case t of Some s \<Rightarrow> s | None \<Rightarrow> [])))"

definition dma_names :: "string list" where
  "dma_names = filter (\<lambda>n. n \<noteq> ''cpu'') (map fst SOURCES)"

definition dma_watch :: "string \<Rightarrow> pyval \<Rightarrow> pyval \<Rightarrow> pyval \<Rightarrow> string \<Rightarrow> pyval \<Rightarrow> pyval dm" where
  "dma_watch operation ident address n mode sources = locked True (Some ''dma-watch'')
     (if operation = ''list'' then monitor ''dma-watch list'' None
      else if operation = ''remove'' then
        dbind (dres (integer ''id'' 255 0 ident)) (\<lambda>i d.
          if map_of (dma_watches d) i = None then fails ''This session does not own that DMA watch'' d
          else dthen (monitor_text (''dma-watch remove '' @ fmt_hex False 0 i) None)
            (dthen (dmod (\<lambda>d. d\<lparr>dma_watches := filter (\<lambda>w. fst w \<noteq> i) (dma_watches d)\<rparr>)) (monitor ''dma-watch list'' None)) d)
      else if operation \<noteq> ''add'' then fails ''DMA watch operation must be add, remove or list''
      else dbind (dres (integer ''address'' MAX32 0 address)) (\<lambda>start. dbind (dres (integer ''length'' 65536 1 n)) (\<lambda>len.
        case map_of ACCESS mode of
          None \<Rightarrow> fails ''mode must be read, write or access''
        | Some bits \<Rightarrow>
            if bits = 4 then fails ''mode must be read, write or access''
            else dbind (dres (named_sources dma_names (''sources must be DMA groups: '' @ sources_text dma_names)
                (if truthy sources then sources else VList (map VStr dma_names)))) (\<lambda>source.
              let command = ''dma-watch add '' @ py_join '' '' (map (fmt_hex False 0) [start, len, bits, source])
              in dbind (monitor_text command None) (\<lambda>t. dbind (dres (text_id ''DMA watch id'' t)) (\<lambda>i.
                dthen (dmod (\<lambda>d. d\<lparr>dma_watches := AList.update i command (dma_watches d)\<rparr>)) (dret (VDict [(''id'', VInt i)]))))))))"

definition condition_numbers :: "string \<Rightarrow> string \<Rightarrow> pyval \<Rightarrow> pyval \<Rightarrow> pyval \<Rightarrow> int list res" where
  "condition_numbers name operator v m as_signed =
     res_bind (integer ''value'' MAX32 0 v) (\<lambda>x. res_bind (integer ''mask'' MAX32 0 m) (\<lambda>y. res_bind (boolean ''signed'' as_signed) (\<lambda>b.
       Inr [int (index_of name CONDITION_REGISTERS), int (index_of operator CONDITION_OPERATORS), x, y, if b then 1 else 0])))"

definition condition :: "string \<Rightarrow> pyval \<Rightarrow> string \<Rightarrow> string \<Rightarrow> pyval \<Rightarrow> pyval \<Rightarrow> pyval \<Rightarrow> pyval dm" where
  "condition operation ident register operator v m as_signed = locked True (Some ''condition'')
     (if operation = ''list'' then monitor ''condition list'' None
      else if operation = ''remove'' then
        dbind (dres (integer ''id'' 255 0 ident)) (\<lambda>i d.
          if map_of (conditions d) i = None then fails ''This session does not own that condition'' d
          else dthen (monitor_text (''condition remove '' @ fmt_hex False 0 i) None)
            (dthen (dmod (\<lambda>d. d\<lparr>conditions := filter (\<lambda>w. fst w \<noteq> i) (conditions d)\<rparr>)) (dret (VDict [(''removed'', VInt i)]))) d)
      else if operation \<noteq> ''add'' then fails ''Condition operation must be add, remove or list''
      else
        let name = py_upper register
        in if name \<notin> set CONDITION_REGISTERS \<or> name = ''PC''
           then fails ''Condition register must be D0-D7, A0-A7, USP, MSP, ISP, VBR or SR; use breakpoints for PC''
           else if operator \<notin> set CONDITION_OPERATORS then fails (''operator must be one of '' @ py_join '', '' CONDITION_OPERATORS)
           else dbind (dres (condition_numbers name operator v m as_signed)) (\<lambda>ns.
             let command = ''condition add '' @ py_join '' '' (map (fmt_hex False 0) ns)
             in dbind (monitor command None) (\<lambda>reply. dbind (dres (reply_id ''condition id'' reply)) (\<lambda>i.
               dthen (dmod (\<lambda>d. d\<lparr>conditions := AList.update i command (conditions d)\<rparr>)) (dret (VDict [(''id'', VInt i)]))))))"

definition history_action :: "string \<Rightarrow> pyval \<Rightarrow> pyval dm" where
  "history_action operation count = locked True (Some ''history'')
     (if operation \<notin> {''read'', ''on'', ''off''} then fails ''History operation must be read, on or off''
      else dthen (if operation \<noteq> ''read'' then dbind (monitor_text (''history '' @ operation) None) (\<lambda>_. dret ()) else dret ())
        (dbind (dres (integer ''count'' 128 1 count)) (\<lambda>n. monitor (''history read '' @ fmt_hex False 0 n) None)))"

section \<open>Reinstalling\<close>

text \<open>\<open>reply['id']\<close>\<close>

definition item_id :: "pyval \<Rightarrow> int res" where
  "item_id reply = (case reply of VDict m \<Rightarrow> res_bind (dict_index m ''id'') (integer ''id'' 255 0) | _ \<Rightarrow> Inl TypeError)"

fun again :: "(string \<Rightarrow> int dm) \<Rightarrow> (int \<Rightarrow> string \<Rightarrow> winuae \<Rightarrow> winuae) \<Rightarrow> string list \<Rightarrow> unit dm" where
  "again give own [] = dret ()"
| "again give own (c # cs) = dbind (give c) (\<lambda>i. dthen (dmod (own i c)) (again give own cs))"

definition give_command :: "string \<Rightarrow> int dm" where
  "give_command c = dbind (monitor c None) (\<lambda>reply. dres (item_id reply))"

definition give_dma :: "string \<Rightarrow> int dm" where
  "give_dma c = dbind (monitor_text c None) (\<lambda>t. dres (text_id ''DMA watch id'' t))"

definition rearm_watches :: "unit dm" where
  "rearm_watches =
     dthen (\<lambda>d. again give_command (\<lambda>i c d. d\<lparr>watches := AList.update i c (watches d)\<rparr>) (map snd (watches d)) (d\<lparr>watches := []\<rparr>))
     (dthen (\<lambda>d. again give_dma (\<lambda>i c d. d\<lparr>dma_watches := AList.update i c (dma_watches d)\<rparr>) (map snd (dma_watches d)) (d\<lparr>dma_watches := []\<rparr>))
       (\<lambda>d. again give_command (\<lambda>i c d. d\<lparr>conditions := AList.update i c (conditions d)\<rparr>) (map snd (conditions d)) (d\<lparr>conditions := []\<rparr>)))"

end
