(* ===== verification/Winuae_Guest.thy ===== *)
theory Winuae_Guest
  imports Winuae_Watch
begin

text \<open>
  Input for the guest and its debug output (\<open>winuae_guest.py\<close>): single events, sequences with delays in
  emulated frames, taps of a chord of keys and typed text.
\<close>

section \<open>Events\<close>

definition DIRECTIONS :: "string list" where
  "DIRECTIONS = [''left'', ''right'', ''up'', ''down'']"

abbreviation SEQUENCE_STEPS :: nat where
  "SEQUENCE_STEPS \<equiv> 256"

abbreviation SEQUENCE_FRAMES :: int where
  "SEQUENCE_FRAMES \<equiv> 3600"

abbreviation refused :: "string \<Rightarrow> 'a res" where
  "refused message \<equiv> Inl (DebugError message)"

definition mouse_event :: "int \<Rightarrow> pydict \<Rightarrow> int list res" where
  "mouse_event port args =
     (case (dict_get args ''axis'' VNone, dict_get args ''delta'' VNone) of
        (VStr axis, VInt delta) \<Rightarrow>
          if axis \<in> {''x'', ''y''} \<and> \<bar>delta\<bar> \<le> 127 then Inr [1, port, if axis = ''x'' then 0 else 1, delta AND MAX32]
          else refused ''Mouse motion needs axis x or y and an integer delta of -127..127''
      | _ \<Rightarrow> refused ''Mouse motion needs axis x or y and an integer delta of -127..127'')"

definition input_event :: "pydict \<Rightarrow> int list res" where
  "input_event args =
     (let kind = dict_get args ''action'' VNone
      in res_bind (integer ''port'' 1 0 (dict_get args ''port'' (VInt 0))) (\<lambda>port.
        if kind = VStr ''mouse'' then mouse_event port args
        else res_bind (boolean ''pressed'' (dict_get args ''pressed'' VNone)) (\<lambda>pressed.
          let state = (if pressed then 1 else 0)
          in if kind = VStr ''key'' then
               (if port \<noteq> 0 then refused ''The keyboard has no port''
                else res_bind (integer ''code'' 0x67 0 (dict_get args ''code'' VNone)) (\<lambda>code. Inr [0, 0, code, state]))
             else if kind = VStr ''button'' then
               res_bind (integer ''button'' 2 0 (dict_get args ''button'' VNone)) (\<lambda>button. Inr [2, port, 4 + button, state])
             else
               (case dict_get args ''direction'' VNone of
                  VStr direction \<Rightarrow>
                    if kind = VStr ''joystick'' \<and> direction \<in> set DIRECTIONS
                    then Inr [2, port, int (index_of direction DIRECTIONS), state]
                    else refused ''Input action must be key, mouse, button or joystick''
                | _ \<Rightarrow> refused ''Input action must be key, mouse, button or joystick''))))"

section \<open>The US keymap\<close>

type_synonym keys = "(char \<times> int \<times> bool) list"

definition key_row :: "string \<Rightarrow> int \<Rightarrow> keys" where
  "key_row row base = map (\<lambda>i. (row ! i, base + int i, False)) [0..<length row]"

definition plain_keys :: keys where
  "plain_keys = key_row ''`1234567890-='' 0x00 @ key_row ''qwertyuiop[]'' 0x10 @ key_row (''asdfghjkl;'' @ [CHR 0x27]) 0x20 @
     key_row ''zxcvbnm,./'' 0x31"

definition plain_code :: "char \<Rightarrow> int" where
  "plain_code c = (case map_of plain_keys c of Some (code, sh) \<Rightarrow> code | None \<Rightarrow> 0)"

definition shifted_keys :: keys where
  "shifted_keys = map (\<lambda>c. (upper_char c, plain_code c, True)) ''abcdefghijklmnopqrstuvwxyz'' @
     map (\<lambda>(a, b). (b, plain_code a, True))
       (zip ''`1234567890-='' ''~!@#$%^&*()_+'' @ zip ''[]'' ''{}'' @ zip (CHR '';'' # [CHR 0x27]) (CHR '':'' # [CHR 0x22]) @ zip '',./'' ''<>?'')"

definition TEXT_KEYS :: keys where
  "TEXT_KEYS = plain_keys @ shifted_keys @
     [(CHR 0x5C, 0x0D, False), (CHR ''|'', 0x0D, True), (CHR '' '', 0x40, False), (CHR 0x09, 0x42, False), (CHR 0x0A, 0x44, False)]"

definition KEY_SHIFT :: int where
  "KEY_SHIFT = 0x60"

section \<open>Sequences\<close>

text \<open>A step has a delay in frames, a kind, a port, a code and a value; kind 3 waits.\<close>

definition sequence_step :: "pyval \<Rightarrow> int list res" where
  "sequence_step v = (case v of
       VDict m \<Rightarrow> res_bind (integer ''after_frames'' SEQUENCE_FRAMES 0 (dict_get m ''after_frames'' (VInt 0))) (\<lambda>delay.
         if dict_get m ''action'' VNone = VStr ''wait'' then Inr [delay, 3, 0, 0, 0]
         else res_bind (input_event m) (\<lambda>e. Inr (delay # e)))
     | _ \<Rightarrow> refused ''Each step must be an object'')"

definition tap :: "int \<Rightarrow> int \<Rightarrow> int list \<Rightarrow> int list list" where
  "tap hold gap codes =
     map (\<lambda>c. [0, 0, 0, c, 1]) codes @
     (case rev codes of c # cs \<Rightarrow> [hold, 0, 0, c, 0] # map (\<lambda>c. [0, 0, 0, c, 0]) cs | [] \<Rightarrow> []) @ [[gap, 3, 0, 0, 0]]"

definition chord :: "pyval \<Rightarrow> int list res" where
  "chord v = (case v of
       VList vs \<Rightarrow>
         if 1 \<le> length vs \<and> length vs \<le> 8 then
           res_bind (res_map (integer ''code'' 0x67 0) vs) (\<lambda>codes.
             if distinct codes then Inr codes else refused ''A chord cannot contain a key twice'')
         else refused ''Supply 1..8 key codes''
     | _ \<Rightarrow> refused ''Supply 1..8 key codes'')"

definition key_taps :: "char \<Rightarrow> int list res" where
  "key_taps c = (case map_of TEXT_KEYS c of
       None \<Rightarrow> refused (''Unsupported character for the US keymap: '' @ py_repr [c])
     | Some (code, shifted) \<Rightarrow> Inr (if shifted then [KEY_SHIFT, code] else [code]))"

definition typed_keys :: "pydict \<Rightarrow> int list list res" where
  "typed_keys args = (case (dict_get args ''layout'' VNone, dict_get args ''text'' VNone) of
       (VStr layout, VStr s) \<Rightarrow>
         if layout = ''us'' \<and> 1 \<le> length s \<and> length s \<le> 60 then res_map key_taps s
         else refused ''Supply 1..60 characters and layout \"us\" (the guest keymap)''
     | _ \<Rightarrow> refused ''Supply 1..60 characters and layout \"us\" (the guest keymap)'')"

definition sequence_frames :: "int list list \<Rightarrow> int" where
  "sequence_frames steps = sum_list (map hd steps)"

definition sequence_of :: "string \<Rightarrow> pydict \<Rightarrow> int list list res" where
  "sequence_of kind args =
     (if kind = ''input_sequence'' then
        (case dict_get args ''steps'' VNone of
           VList vs \<Rightarrow> if 1 \<le> length vs \<and> length vs \<le> SEQUENCE_STEPS then res_map sequence_step vs else refused ''Supply 1..256 steps''
         | _ \<Rightarrow> refused ''Supply 1..256 steps'')
      else
        res_bind (integer ''hold_frames'' 120 1 (dict_get args ''hold_frames'' (VInt 3))) (\<lambda>hold.
        res_bind (integer ''gap_frames'' 120 1 (dict_get args ''gap_frames'' (VInt 3))) (\<lambda>gap.
          res_bind (if kind = ''key_tap'' then res_bind (chord (dict_get args ''codes'' VNone)) (\<lambda>codes. Inr [codes]) else typed_keys args)
            (\<lambda>taps. Inr (concat (map (tap hold gap) taps))))))"

definition build_sequence :: "string \<Rightarrow> pydict \<Rightarrow> int list list res" where
  "build_sequence kind args = res_bind (sequence_of kind args) (\<lambda>steps.
     if SEQUENCE_STEPS < length steps \<or> SEQUENCE_FRAMES < sequence_frames steps
     then refused ''The sequence exceeds 256 events or 3600 frames; split it'' else Inr steps)"

section \<open>Actions\<close>

definition numbers_text :: "int list \<Rightarrow> string" where
  "numbers_text ns = py_join '' '' (map (fmt_hex False 0) ns)"

text \<open>\<open>event\<close> takes the place of an \<open>action\<close> among the arguments.\<close>

definition input_action :: "string \<Rightarrow> pydict \<Rightarrow> pyval dm" where
  "input_action event args = locked False (Some ''input'') (\<lambda>d.
     (if \<not> up d then fails DISCONNECTED
      else if event \<in> {''status'', ''release''} then monitor (''input '' @ event) None
      else dbind (dres (input_event (dict_set args ''action'' (VStr event)))) (\<lambda>ns. monitor (''input event '' @ numbers_text ns) None)) d)"

definition sequence_action :: "string \<Rightarrow> pydict \<Rightarrow> pyval dm" where
  "sequence_action kind args = locked False (Some ''input-sequence'') (\<lambda>d.
     if \<not> up d then fails DISCONNECTED d
     else dbind (dres (boolean ''resume'' (dict_get args ''resume'' (VBool False)))) (\<lambda>resumes.
       dbind (dres (build_sequence kind (filter (\<lambda>e. fst e \<noteq> ''resume'') args))) (\<lambda>steps.
         dbind (monitor (''input sequence '' @ py_join '';'' (map numbers_text steps)) None) (\<lambda>r.
           dthen (\<lambda>e. dwhen (resumes \<and> execution e = ''stopped'') (run_command ''c'' ''continue'') e) (dret r)))) d)"

definition guest_output_action :: "string \<Rightarrow> pyval dm" where
  "guest_output_action operation = locked True (Some ''guest-output'')
     (if operation \<notin> {''on'', ''off'', ''read'', ''clear''} then fails ''Guest output operation must be on, off, read or clear''
      else dthen (dwhen (operation \<in> {''on'', ''off''}) (dmod (\<lambda>d. d\<lparr>guest_output := (operation = ''on'')\<rparr>)))
        (monitor (''guest-output '' @ operation) None))"

definition rearm_output :: "unit dm" where
  "rearm_output d = (if guest_output d then dbind (monitor ''guest-output on'' None) (\<lambda>_. dret ()) d else dret () d)"

text \<open>The hooks in the order the modules are imported in.\<close>

definition rearm_hooks :: "unit dm" where
  "rearm_hooks = dthen rearm_output rearm_watches"

end
