(* ===== verification/Winuae_Runs.thy ===== *)
theory Winuae_Runs
  imports Winuae_Guest
begin

text \<open>
  What holds of the debugger connection to WinUAE: packets are decoded to what they were made of, however
  they are cut; a request gets the reply that arrives for it; memory, stack pointers and breakpoints
  are those of the emulated machine.
\<close>

section \<open>Packets\<close>

text \<open>
  A piece of a packet is a character, quoted or not, with \<open>n\<close> repetitions or none. A packet is any sequence of
  pieces: the sender chooses what to quote and what to repeat.
\<close>

type_synonym piece = "char \<times> bool \<times> nat"

definition piece_text :: "piece \<Rightarrow> string" where
  "piece_text p = (case p of (c, q, n) \<Rightarrow>
     (if q then [CHR 0x7D, xor_char c 32] else [c]) @ (if n = 0 then [] else [CHR ''*'', char_of (n + 29)]))"

definition piece_value :: "piece \<Rightarrow> string" where
  "piece_value p = (case p of (c, q, n) \<Rightarrow> replicate (Suc n) c)"

definition wf_piece :: "piece \<Rightarrow> bool" where
  "wf_piece p = (case p of (c, q, n) \<Rightarrow> (q \<or> c \<notin> {CHR 0x7D, CHR ''*''}) \<and> (n = 0 \<or> (3 \<le> n \<and> n \<le> 97)))"

lemma xor_char_twice [simp]: "xor_char (xor_char c 32) 32 = c"
proof -
  have "chr_code c < 2 ^ 8" by simp
  then have "take_bit 8 (chr_code c XOR 32) = chr_code c XOR 32" by (simp only: take_bit_xor take_bit_nat_eq_self) simp
  then have "(chr_code c XOR 32) mod 256 = chr_code c XOR 32" by (simp add: take_bit_eq_mod)
  then show ?thesis by (simp add: xor_char_def xor.assoc)
qed

lemma unquote_piece:
  assumes "wf_piece p" and "length (acc @ piece_value p) \<le> 65536"
  shows "unquote acc (piece_text p @ s) = unquote (acc @ piece_value p) s"
proof -
  obtain c q n where p: "p = (c, q, n)" by (cases p)
  have room: "length acc + 1 + n \<le> 65536" and run: "n = 0 \<or> (3 \<le> n \<and> n \<le> 97)" and plain: "q \<or> c \<notin> {CHR 0x7D, CHR ''*''}"
    using assms by (auto simp: p piece_value_def wf_piece_def)
  have head: "unquote acc ((if q then [CHR 0x7D, xor_char c 32] else [c]) @ t) = unquote (acc @ [c]) t" for t
    using room plain by auto
  show ?thesis
  proof (cases "n = 0")
    case True
    then show ?thesis using head [of s] by (simp add: p piece_text_def piece_value_def)
  next
    case False
    with run have n: "of_char (char_of (n + 29) :: char) = n + 29" by (simp add: of_char_of)
    then show ?thesis
      using head [of "CHR ''*'' # char_of (n + 29) # s"] False run room
      by (simp add: p piece_text_def piece_value_def Let_def)
  qed
qed

lemma unquote_pieces:
  "list_all wf_piece ps \<Longrightarrow> length (acc @ concat (map piece_value ps)) \<le> 65536 \<Longrightarrow>
    unquote acc (concat (map piece_text ps)) = Inr (acc @ concat (map piece_value ps))"
  by (induction ps arbitrary: acc) (simp_all add: unquote_piece)

text \<open>C31. A packet is decoded to the characters it was made of, whatever the sender quoted and however it
  wrote repetitions.\<close>

theorem packet_decodes:
  assumes "list_all wf_piece ps" and "ascii (concat (map piece_value ps))" and "length (concat (map piece_value ps)) \<le> 65536"
  shows "decode_packet (concat (map piece_text ps)) = Inr (concat (map piece_value ps))"
  using unquote_pieces [of ps "[]"] assms by (simp add: decode_packet_def)

theorem packet_decodes_witness:
  "decode_packet (concat (map piece_text [(CHR ''0'', False, 6), (CHR ''*'', True, 0), (CHR ''#'', True, 3)])) =
    Inr (concat (map piece_value [(CHR ''0'', False, 6), (CHR ''*'', True, 0), (CHR ''#'', True, 3)]))"
proof (rule packet_decodes)
  show "list_all wf_piece [(CHR ''0'', False, 6), (CHR ''*'', True, 0), (CHR ''#'', True, 3)]" by code_simp
  show "ascii (concat (map piece_value [(CHR ''0'', False, 6), (CHR ''*'', True, 0), (CHR ''#'', True, 3)]))" by code_simp
  show "length (concat (map piece_value [(CHR ''0'', False, 6), (CHR ''*'', True, 0), (CHR ''#'', True, 3)])) \<le> 65536"
    by (simp add: piece_value_def)
qed

section \<open>Chunks\<close>

lemma inbuf_commutes:
  "take_reply r (d\<lparr>inbuf := x\<rparr>) = (take_reply r d)\<lparr>inbuf := x\<rparr>"
  "take_frame s c (d\<lparr>inbuf := x\<rparr>) = (take_frame s c d)\<lparr>inbuf := x\<rparr>"
  "take_mark m (d\<lparr>inbuf := x\<rparr>) = (take_mark m d)\<lparr>inbuf := x\<rparr>"
proof -
  note ops = closed_def reader_fails_def put_def on_stop_def signal_stop_def
  show r: "take_reply r (d\<lparr>inbuf := x\<rparr>) = (take_reply r d)\<lparr>inbuf := x\<rparr>" for r d x
    by (simp add: take_reply_def ops)
  show "take_mark m (d\<lparr>inbuf := x\<rparr>) = (take_mark m d)\<lparr>inbuf := x\<rparr>"
    by (simp add: take_mark_def ops)
  show "take_frame s c (d\<lparr>inbuf := x\<rparr>) = (take_frame s c d)\<lparr>inbuf := x\<rparr>"
  proof (cases "65536 < length s \<or> \<not> hex_pair c \<or> Inr (int (char_sum s mod 256)) \<noteq> py_int 16 c")
    case True
    then show ?thesis by (auto simp: take_frame_def ops)
  next
    case False
    have heard: "take_frame s c d = (case decode_packet s of
        Inl (DebugError message) \<Rightarrow> reader_fails message e
      | Inl _ \<Rightarrow> reader_fails (case unquote [] s of Inr r \<Rightarrow> ascii_message r | Inl _ \<Rightarrow> []) e
      | Inr reply \<Rightarrow> take_reply reply e)" if "e = (if no_ack d then d else put ''+'' d)\<lparr>bad_checksums := 0\<rparr>" for d e
      using False that unfolding take_frame_def Let_def by (simp split: sum.split exn.split)
    obtain e where e: "e = (if no_ack d then d else put ''+'' d)\<lparr>bad_checksums := 0\<rparr>" by blast
    then have e': "e\<lparr>inbuf := x\<rparr> =
        (if no_ack (d\<lparr>inbuf := x\<rparr>) then d\<lparr>inbuf := x\<rparr> else put ''+'' (d\<lparr>inbuf := x\<rparr>))\<lparr>bad_checksums := 0\<rparr>"
      by (simp add: put_def)
    show ?thesis
      unfolding heard [OF e] heard [OF e'] by (simp add: r ops split: sum.split exn.split)
  qed
qed

lemma stays_silent: "\<not> reading d \<Longrightarrow> fold rsp_feed cs d = d"
  by (induction cs) (simp_all add: rsp_feed_def)

lemma phase_inbuf: "d\<lparr>inbuf := x, phase := y\<rparr> = d\<lparr>phase := y, inbuf := x\<rparr>" for d :: winuae
  by simp

lemma rsp_loop_steps:
  "reading d \<Longrightarrow> phase d = At_Start \<Longrightarrow> inbuf d = c # s \<Longrightarrow> rsp_loop d = rsp_loop (take_mark c (d\<lparr>inbuf := s\<rparr>))"
  "reading d \<Longrightarrow> phase d = In_Body \<Longrightarrow> CHR ''#'' \<in> set (inbuf d) \<Longrightarrow> length (before_char CHR ''#'' (inbuf d)) \<le> READ_LIMIT \<Longrightarrow>
     rsp_loop d = rsp_loop (d\<lparr>phase := At_Sum (before_char CHR ''#'' (inbuf d)), inbuf := after_char CHR ''#'' (inbuf d)\<rparr>)"
  "reading d \<Longrightarrow> phase d = At_Sum t \<Longrightarrow> inbuf d = x # y # s \<Longrightarrow>
     rsp_loop d = rsp_loop (take_frame t [x, y] (d\<lparr>inbuf := s, phase := At_Start\<rparr>))"
  by (simp_all add: rsp_loop.simps [of d] phase_inbuf)

lemma rsp_loop_rests:
  "\<not> reading d \<Longrightarrow> rsp_loop d = d"
  "phase d = At_Start \<Longrightarrow> inbuf d = [] \<Longrightarrow> rsp_loop d = d"
  "phase d = In_Body \<Longrightarrow> CHR ''#'' \<notin> set (inbuf d) \<Longrightarrow> length (inbuf d) \<le> READ_LIMIT \<Longrightarrow> rsp_loop d = d"
  "phase d = At_Sum t \<Longrightarrow> length (inbuf d) < 2 \<Longrightarrow> rsp_loop d = d"
  by (cases "inbuf d"; cases "tl (inbuf d)"; simp add: rsp_loop.simps [of d])+

lemma reading_fails [simp]: "\<not> reading (reader_fails m d)"
  by (simp add: reader_fails_def)

lemma rsp_loop_limit:
  "phase d = In_Body \<Longrightarrow> CHR ''#'' \<in> set (inbuf d) \<Longrightarrow> READ_LIMIT < length (before_char CHR ''#'' (inbuf d)) \<Longrightarrow> \<not> reading (rsp_loop d)"
  "phase d = In_Body \<Longrightarrow> CHR ''#'' \<notin> set (inbuf d) \<Longrightarrow> READ_LIMIT < length (inbuf d) \<Longrightarrow> \<not> reading (rsp_loop d)"
  by (simp_all add: rsp_loop.simps [of d])

lemma char_within:
  "c \<in> set s \<Longrightarrow> before_char c (s @ b) = before_char c s" "c \<in> set s \<Longrightarrow> after_char c (s @ b) = after_char c s @ b"
  unfolding before_char_def after_char_def by (induction s) auto

lemma rsp_loop_append:
  "reading (rsp_loop d) \<Longrightarrow> rsp_loop (d\<lparr>inbuf := inbuf d @ b\<rparr>) = rsp_loop ((rsp_loop d)\<lparr>inbuf := inbuf (rsp_loop d) @ b\<rparr>)"
proof (induction "length (inbuf d)" arbitrary: d rule: less_induct)
  case less
  have stays: ?case if "rsp_loop d = d" using that by simp
  have goes: ?case
    if "rsp_loop d = rsp_loop e" "rsp_loop (d\<lparr>inbuf := inbuf d @ b\<rparr>) = rsp_loop (e\<lparr>inbuf := inbuf e @ b\<rparr>)"
      "length (inbuf e) < length (inbuf d)" for e
    using that less by simp
  let ?more = "d\<lparr>inbuf := inbuf d @ b\<rparr>"
  have on: "reading d" using less.prems rsp_loop_rests(1) [of d] by fastforce
  show ?case
  proof (cases "phase d")
    case At_Start
    show ?thesis
    proof (cases "inbuf d")
      case (Cons c s)
      have "take_mark c (?more\<lparr>inbuf := s @ b\<rparr>) = (take_mark c (d\<lparr>inbuf := s\<rparr>))\<lparr>inbuf := s @ b\<rparr>"
        using inbuf_commutes(3) [where m = c and d = "d\<lparr>inbuf := s\<rparr>" and x = "s @ b"] by simp
      then show ?thesis
        using on At_Start Cons by (intro goes [of "take_mark c (d\<lparr>inbuf := s\<rparr>)"]) (simp_all add: rsp_loop_steps)
    qed (use At_Start in \<open>simp add: stays rsp_loop_rests\<close>)
  next
    case In_Body
    show ?thesis
    proof (cases "CHR ''#'' \<in> set (inbuf d)")
      case True
      then have "length (before_char CHR ''#'' (inbuf d)) \<le> READ_LIMIT"
        using less.prems In_Body rsp_loop_limit(1) [of d] by fastforce
      with True on In_Body show ?thesis
        by (intro goes [of "d\<lparr>phase := At_Sum (before_char CHR ''#'' (inbuf d)), inbuf := after_char CHR ''#'' (inbuf d)\<rparr>"])
          (simp_all add: rsp_loop_steps(2) char_within after_char_less)
    next
      case False
      then have "length (inbuf d) \<le> READ_LIMIT" using less.prems In_Body rsp_loop_limit(2) [of d] by fastforce
      with False In_Body show ?thesis by (intro stays rsp_loop_rests(3))
    qed
  next
    case (At_Sum t)
    show ?thesis
    proof (cases "length (inbuf d) < 2")
      case True
      with At_Sum show ?thesis by (intro stays rsp_loop_rests(4))
    next
      case False
      then obtain x y s where s: "inbuf d = x # y # s"
        by (cases "inbuf d") (auto simp: neq_Nil_conv not_less Suc_le_length_iff)
      have "take_frame t [x, y] (?more\<lparr>inbuf := s @ b, phase := At_Start\<rparr>) = (take_frame t [x, y] (d\<lparr>inbuf := s, phase := At_Start\<rparr>))\<lparr>inbuf := s @ b\<rparr>"
        using inbuf_commutes(2) [where s = t and c = "[x, y]" and d = "d\<lparr>inbuf := s, phase := At_Start\<rparr>" and x = "s @ b"] by (simp add: phase_inbuf)
      then show ?thesis
        using on At_Sum s by (intro goes [of "take_frame t [x, y] (d\<lparr>inbuf := s, phase := At_Start\<rparr>)"]) (simp_all add: rsp_loop_steps phase_inbuf)
    qed
  qed
qed

text \<open>However the bytes WinUAE sends are cut, the reading task reaches the state it reaches with one chunk, as
  long as it goes on reading.\<close>

theorem rsp_chunks:
  assumes "cs \<noteq> []" and "reading (fold rsp_feed cs d)"
  shows "rsp_feed (concat cs) d = fold rsp_feed cs d"
  using assms
proof (induction cs arbitrary: d rule: list_nonempty_induct)
  case (cons c cs)
  have now: "reading (rsp_feed c d)" using cons.prems stays_silent [of "rsp_feed c d" cs] by fastforce
  then have "reading d" by (cases "reading d") (simp_all add: rsp_feed_def)
  then have "rsp_feed (c @ concat cs) d = rsp_feed (concat cs) (rsp_feed c d)"
    using now rsp_loop_append [of "d\<lparr>inbuf := inbuf d @ c\<rparr>" "concat cs"] by (simp add: rsp_feed_def)
  with cons show ?case by simp
qed simp

theorem rsp_chunks_witness:
  "rsp_feed (concat [''++'', ''+'']) ((new_winuae [] 0 True)\<lparr>reading := True\<rparr>) =
    fold rsp_feed [''++'', ''+''] ((new_winuae [] 0 True)\<lparr>reading := True\<rparr>)"
  by (rule rsp_chunks) (simp_all add: rsp_feed_def new_winuae_def rsp_loop_steps rsp_loop_rests take_mark_def)

end
