(* ===== verification/Winuae_Served.thy ===== *)
theory Winuae_Served
  imports Winuae_Runs
begin

text \<open>
  Requests that WinUAE answers: a session with a machine that replies to every request in order.
\<close>

section \<open>One request\<close>

definition plain_reply :: "string \<Rightarrow> bool" where
  "plain_reply r \<longleftrightarrow> r \<noteq> [] \<and> length r \<le> 65536 \<and> ascii r \<and> set r \<inter> {CHR ''#'', CHR 0x7D, CHR ''*''} = {} \<and>
     \<not> console_reply r \<and> \<not> STOP r \<and> \<not> error_reply r"

definition idle :: "winuae \<Rightarrow> bool" where
  "idle d \<longleftrightarrow> up d \<and> reading d \<and> phase d = At_Start \<and> inbuf d = []"

definition ack_text :: "bool \<Rightarrow> string" where
  "ack_text b = (if b then [] else ''+'')"

definition answers :: "bool \<Rightarrow> string list \<Rightarrow> arrival list" where
  "answers b rs = map (\<lambda>r. Bytes (ack_text b @ frame_packet r)) rs"

text \<open>The session after a request that has been answered.\<close>

definition rsp_served :: "string \<Rightarrow> winuae \<Rightarrow> winuae" where
  "rsp_served q d = d\<lparr>written := written d @ frame_packet q @ ack_text (no_ack d), last_packet := frame_packet q, retries := 0,
     bad_checksums := 0, pending := None, incoming := tl (incoming d)\<rparr>"

lemma rsp_served_simps [simp]:
  "up (rsp_served q d) = up d" "no_ack (rsp_served q d) = no_ack d" "packet_size (rsp_served q d) = packet_size d"
  "incoming (rsp_served q d) = tl (incoming d)" "points (rsp_served q d) = points d" "execution (rsp_served q d) = execution d"
  "run_mode (rsp_served q d) = run_mode d" "interrupting (rsp_served q d) = interrupting d" "stops (rsp_served q d) = stops d"
  "capabilities (rsp_served q d) = capabilities d" "idle (rsp_served q d) = idle d"
  by (simp_all add: rsp_served_def idle_def)

lemma checksum_digits:
  obtains x y where "fmt_hex False 2 (int n mod 256) = [x, y]" and "hex_pair [x, y]" and "py_int 16 [x, y] = Inr (int n mod 256)"
proof -
  let ?b = "of_nat (nat (int n mod 256)) :: byte"
  have "unat ?b < 256" using unsigned_less [of ?b, where ?'a = nat] by simp
  then have "unat ?b div 16 < 16" "unat ?b mod 16 < 16" by simp_all
  then have "hex_pair [digit_char False (unat ?b div 16), digit_char False (unat ?b mod 16)]"
    by (simp add: hex_pair_def is_hex_def hex_digit_digit_char)
  moreover have "fmt_hex False 2 (int n mod 256) = [digit_char False (unat ?b div 16), digit_char False (unat ?b mod 16)]"
    by (simp add: fmt_hex_fixed fixed_hex_byte byte_hex_def)
  ultimately show thesis using that py_int_fmt_hex [of False 2 "int n mod 256"] by metis
qed

lemma take_plain_reply:
  assumes "plain_reply r" and "pending d = Some None"
  shows "take_frame r (fmt_hex False 2 (int (char_sum r mod 256))) d =
    d\<lparr>written := written d @ ack_text (no_ack d), bad_checksums := 0, pending := Some (Some (Inr r))\<rparr>"
proof -
  have "unquote acc r = Inr (acc @ r)" if "length (acc @ r) \<le> 65536" "set r \<inter> {CHR ''#'', CHR 0x7D, CHR ''*''} = {}" for acc
    using that by (induction r arbitrary: acc) auto
  then have "decode_packet r = Inr r" using assms(1) by (simp add: plain_reply_def decode_packet_def)
  moreover obtain x y where "fmt_hex False 2 (int (char_sum r) mod 256) = [x, y]" and "hex_pair [x, y]"
      and "py_int 16 [x, y] = Inr (int (char_sum r) mod 256)" by (rule checksum_digits)
  ultimately show ?thesis
    using assms by (simp add: take_frame_def Let_def plain_reply_def take_reply_def zmod_int put_def ack_text_def)
qed

lemma rsp_loop_frame:
  assumes "reading d" and "phase d = At_Start" and "inbuf d = frame_packet r" and "plain_reply r" and "pending d = Some None"
  shows "rsp_loop d =
    d\<lparr>inbuf := [], written := written d @ ack_text (no_ack d), bad_checksums := 0, pending := Some (Some (Inr r))\<rparr>"
proof -
  obtain x y where xy: "fmt_hex False 2 (int (char_sum r mod 256)) = [x, y]"
    using checksum_digits [of "char_sum r"] by (metis of_nat_mod of_nat_numeral)
  have r: "CHR ''#'' \<notin> set r" "length r \<le> READ_LIMIT" using assms(4) by (auto simp: plain_reply_def READ_LIMIT_def)
  let ?d1 = "d\<lparr>inbuf := r @ CHR ''#'' # [x, y], phase := In_Body\<rparr>"
  let ?d2 = "d\<lparr>phase := At_Sum r, inbuf := [x, y]\<rparr>"
  let ?d3 = "d\<lparr>inbuf := [], written := written d @ ack_text (no_ack d), bad_checksums := 0, pending := Some (Some (Inr r))\<rparr>"
  have "rsp_loop d = rsp_loop ?d1"
    using assms xy by (subst rsp_loop_steps(1) [of d "CHR ''$''" "r @ CHR ''#'' # [x, y]"]) (simp_all add: frame_packet_def take_mark_def)
  also have "\<dots> = rsp_loop ?d2"
    using assms r by (subst rsp_loop_steps(2)) (simp_all add: before_char_append after_char_append)
  also have "\<dots> = rsp_loop (take_frame r [x, y] (d\<lparr>inbuf := [], phase := At_Start\<rparr>))"
    using assms by (subst rsp_loop_steps(3) [of _ r x y "[]"]) (simp_all add: phase_inbuf)
  also have "take_frame r [x, y] (d\<lparr>inbuf := [], phase := At_Start\<rparr>) = ?d3"
    using take_plain_reply [OF assms(4), of "d\<lparr>inbuf := [], phase := At_Start\<rparr>"] assms xy by simp
  also have "rsp_loop ?d3 = ?d3" using assms by (intro rsp_loop_rests(2)) simp_all
  finally show ?thesis .
qed

lemma feed_frame:
  assumes "idle d" and "plain_reply r" and "pending d = Some None"
  shows "rsp_feed (ack_text (no_ack d) @ frame_packet r) d =
    d\<lparr>written := written d @ ack_text (no_ack d), bad_checksums := 0, pending := Some (Some (Inr r))\<rparr>"
proof -
  let ?d1 = "d\<lparr>inbuf := frame_packet r\<rparr>"
  have "rsp_loop (d\<lparr>inbuf := ack_text (no_ack d) @ frame_packet r\<rparr>) = rsp_loop ?d1"
  proof (cases "no_ack d")
    case False
    then show ?thesis
      using assms by (subst rsp_loop_steps(1) [of _ "CHR ''+''" "frame_packet r"]) (simp_all add: idle_def ack_text_def take_mark_def)
  qed (simp add: ack_text_def)
  also have "\<dots> = d\<lparr>inbuf := [], written := written d @ ack_text (no_ack d), bad_checksums := 0, pending := Some (Some (Inr r))\<rparr>"
    using assms by (subst rsp_loop_frame) (simp_all add: idle_def)
  finally show ?thesis using assms by (simp add: rsp_feed_def idle_def)
qed

definition sendable :: "winuae \<Rightarrow> string \<Rightarrow> bool" where
  "sendable d q \<longleftrightarrow> ascii q \<and> length q \<le> packet_size d"

lemma sendable_served [simp]: "sendable (rsp_served q d) = sendable d"
  by (simp add: sendable_def fun_eq_iff)

lemma await_done: "pending d = Some (Some r) \<Longrightarrow> await_result as d = d\<lparr>incoming := as\<rparr>"
  by (cases as) simp_all

lemma request_answered:
  assumes "idle d" and "sendable d q" and "plain_reply r" and "incoming d = Bytes (ack_text (no_ack d) @ frame_packet r) # as"
  shows "rsp_request q d = (Inr r, rsp_served q d)"
proof -
  let ?d1 = "d\<lparr>pending := Some None, written := written d @ frame_packet q, last_packet := frame_packet q, retries := 0\<rparr>"
  have "send_rsp q (d\<lparr>pending := Some None\<rparr>) = (Inr (), ?d1)"
    using assms(1,2) by (simp add: send_rsp_def idle_def sendable_def dret_def put_def)
  moreover have "await_result (incoming ?d1) ?d1 =
      d\<lparr>written := written d @ frame_packet q @ ack_text (no_ack d), last_packet := frame_packet q, retries := 0, bad_checksums := 0,
        pending := Some (Some (Inr r)), incoming := as\<rparr>"
    using assms(1,3,4) feed_frame [of ?d1 r] by (simp add: arrive_def idle_def await_done)
  ultimately show ?thesis
    using assms(3,4) by (simp add: rsp_request_def Let_def plain_reply_def rsp_served_def)
qed

section \<open>Sessions\<close>

primrec session :: "string list \<Rightarrow> winuae \<Rightarrow> winuae" where
  "session [] d = d"
| "session (q # qs) d = session qs (rsp_served q d)"

lemma session_append: "session (ps @ qs) d = session qs (session ps d)"
  by (induction ps arbitrary: d) simp_all

lemma session_simps [simp]:
  "up (session qs d) = up d" "no_ack (session qs d) = no_ack d" "packet_size (session qs d) = packet_size d"
  "points (session qs d) = points d" "execution (session qs d) = execution d" "run_mode (session qs d) = run_mode d"
  "interrupting (session qs d) = interrupting d" "stops (session qs d) = stops d" "capabilities (session qs d) = capabilities d"
  "idle (session qs d) = idle d" "sendable (session qs d) = sendable d"
  by (induction qs arbitrary: d) simp_all

text \<open>The replies that wait for the requests.\<close>

definition answering :: "winuae \<Rightarrow> string list \<Rightarrow> string list \<Rightarrow> bool" where
  "answering d qs rs \<longleftrightarrow> idle d \<and> length qs = length rs \<and> list_all (sendable d) qs \<and> list_all plain_reply rs \<and>
     (\<exists>as. incoming d = answers (no_ack d) rs @ as)"

lemma answering_Cons:
  "answering d (q # qs) (r # rs) \<Longrightarrow> rsp_request q d = (Inr r, rsp_served q d)"
  "answering d (q # qs) (r # rs) \<Longrightarrow> answering (rsp_served q d) qs rs"
  using request_answered [of d q r] by (auto simp: answering_def answers_def)

lemma answering_append:
  assumes "answering d (ps @ qs) (ss @ rs)" and "length ps = length ss"
  shows "answering d ps ss" and "answering (session ps d) qs rs"
proof -
  show "answering d ps ss" using assms by (auto simp: answering_def answers_def)
  show "answering (session ps d) qs rs"
    using assms
  proof (induction ps arbitrary: d ss)
    case (Cons p ps)
    then show ?case by (cases ss) (auto dest: answering_Cons(2))
  qed simp
qed

lemma plain_OK [simp]: "plain_reply ''OK''"
  by (simp add: plain_reply_def ascii_def console_reply_def STOP_def error_reply_def)

lemma acknowledged: "answering d (q # qs) (''OK'' # rs) \<Longrightarrow> acknowledge q d = (Inr (), rsp_served q d)"
  by (simp add: acknowledge_def dbind_def answering_Cons dret_def)

text \<open>A machine that replies to requests in order.\<close>

primrec replies :: "('m \<Rightarrow> string \<Rightarrow> string \<times> 'm) \<Rightarrow> 'm \<Rightarrow> string list \<Rightarrow> string list" where
  "replies srv m [] = []"
| "replies srv m (q # qs) = fst (srv m q) # replies srv (snd (srv m q)) qs"

primrec machine :: "('m \<Rightarrow> string \<Rightarrow> string \<times> 'm) \<Rightarrow> 'm \<Rightarrow> string list \<Rightarrow> 'm" where
  "machine srv m [] = m"
| "machine srv m (q # qs) = machine srv (snd (srv m q)) qs"

lemma length_replies [simp]: "length (replies srv m qs) = length qs"
  by (induction qs arbitrary: m) simp_all

lemma replies_append: "replies srv m (ps @ qs) = replies srv m ps @ replies srv (machine srv m ps) qs"
  by (induction ps arbitrary: m) simp_all

lemma machine_append: "machine srv m (ps @ qs) = machine srv (machine srv m ps) qs"
  by (induction ps arbitrary: m) simp_all

text \<open>A session for the samples: what it waits for is the argument.\<close>

definition sample_winuae :: "arrival list \<Rightarrow> winuae" where
  "sample_winuae as = (new_winuae ''127.0.0.1'' 2345 True)\<lparr>up := True, reading := True, no_ack := True, execution := ''stopped'',
     capabilities := [(''commands'', VList [VStr ''memory-check''])], incoming := as\<rparr>"

lemma sample_winuae_simps [simp]:
  "idle (sample_winuae as)" "execution (sample_winuae as) = ''stopped''" "stops (sample_winuae as) = []" "no_ack (sample_winuae as) = True"
  "packet_size (sample_winuae as) = 4096" "incoming (sample_winuae as) = as" "up (sample_winuae as)"
  "points (sample_winuae as) = []" "interrupting (sample_winuae as) = False"
  "capabilities (sample_winuae as) = [(''commands'', VList [VStr ''memory-check''])]"
  by (simp_all add: sample_winuae_def idle_def new_winuae_def)

end
