(* ===== verification/Winuae_Memory.thy ===== *)
theory Winuae_Memory
  imports Winuae_Served
begin

text \<open>
  Guest memory through the debugger: requests in chunks that fit the packet size, against a machine whose
  memory the requests read and write.
\<close>

section \<open>Texts of requests and replies\<close>

lemma ascii_simps [simp]: "ascii []" "ascii (c # s) \<longleftrightarrow> chr_code c < 128 \<and> ascii s" "ascii (s @ t) \<longleftrightarrow> ascii s \<and> ascii t"
  by (simp_all add: ascii_def)

lemma ascii_hex [simp]: "ascii (fmt_hex u w i)"
proof -
  have "chr_code c < 128" if "alnum_char c" for c using that by (auto simp: alnum_char_def Let_def)
  then show ?thesis using fmt_hex_alnum by (auto simp: ascii_def list_all_iff)
qed

lemma bytes_hex_digits: "c \<in> set (bytes_hex False bs) \<Longrightarrow> \<exists>k < 16. c = digit_char False k"
proof (induction bs)
  case (Cons b bs)
  have "unat b < 256" using unsigned_less [of b, where ?'a = nat] by simp
  then have "\<exists>k < 16. digit_char False (unat b div 16) = digit_char False k" "\<exists>k < 16. digit_char False (unat b mod 16) = digit_char False k"
    by (intro exI [of _ "unat b div 16"] exI [of _ "unat b mod 16"]; simp)+
  with Cons show ?case by (auto simp: bytes_hex_def byte_hex_def)
qed (simp add: bytes_hex_def)

lemma bytes_hex_chars:
  assumes "c \<in> set (bytes_hex False bs)"
  shows "is_hex c" and "chr_code c < 128" and "c \<notin> {CHR ''#'', CHR 0x7D, CHR ''*'', CHR ''O'', CHR ''S'', CHR ''T'', CHR ''E''}"
proof -
  obtain k where k: "k < 16" "c = digit_char False k" using bytes_hex_digits [OF assms] by blast
  then show "is_hex c" by (simp add: is_hex_def hex_digit_digit_char)
  have n: "chr_code c = (if k < 10 then 48 + k else 87 + k)" using digit_char_eq_iff [of k False c] k by simp
  then show "chr_code c < 128" using k by simp
  show "c \<notin> {CHR ''#'', CHR 0x7D, CHR ''*'', CHR ''O'', CHR ''S'', CHR ''T'', CHR ''E''}"
    using n k(1) by (auto split: if_splits)
qed

lemma ascii_bytes_hex [simp]: "ascii (bytes_hex False bs)"
  using bytes_hex_chars(2) by (auto simp: ascii_def list_all_iff)

lemma hex_bytes_hex [simp]: "list_all is_hex (bytes_hex False bs)"
  using bytes_hex_chars(1) by (auto simp: list_all_iff)

lemma plain_bytes_hex: 
  assumes "bs \<noteq> []" and "length bs \<le> 32768"
  shows "plain_reply (bytes_hex False bs)"
proof -
  obtain c s where cs: "bytes_hex False bs = c # s" using assms(1) by (cases bs) (simp_all add: bytes_hex_def byte_hex_def)
  then have "c \<notin> {CHR ''O'', CHR ''S'', CHR ''T'', CHR ''E''}" using bytes_hex_chars(3) [of c bs] by simp
  then have "\<not> console_reply (c # s)" "\<not> STOP (c # s)" "\<not> error_reply (c # s)"
    by (simp_all add: console_reply_def STOP_def error_reply_def)
  moreover have "set (bytes_hex False bs) \<inter> {CHR ''#'', CHR 0x7D, CHR ''*''} = {}" using bytes_hex_chars(3) by blast
  ultimately show ?thesis using assms(2) by (simp add: plain_reply_def flip: cs) (simp add: cs)
qed

lemma length_hex: "0 \<le> i \<Longrightarrow> i < 16 ^ w \<Longrightarrow> 0 < w \<Longrightarrow> length (fmt_hex u 0 i) \<le> w"
  using nat_digits_fixed [of "nat i" w u] by (simp add: fmt_hex_def nat_less_iff)

section \<open>Chunks\<close>

lemma span_bounds:
  assumes "s \<in> set (chunk_spans n c)" and "0 < c"
  shows "0 < snd s" and "snd s \<le> c" and "fst s + snd s \<le> n"
proof -
  obtain i where "i \<in> set [0..<(n + c - 1) div c]" and s: "s = (i * c, min c (n - i * c))"
    using assms(1) unfolding chunk_spans_def set_map by blast
  then have i: "i < (n + c - 1) div c" by simp
  have "(i + 1) * c \<le> (n + c - 1) div c * c" using i by (intro mult_le_mono1) simp
  also have "\<dots> \<le> n + c - 1" by (rule div_times_less_eq_dividend)
  finally have "i * c < n" using assms(2) by simp
  with s assms(2) show "0 < snd s" and "snd s \<le> c" and "fst s + snd s \<le> n" by simp_all
qed

lemma chunks_cover: "0 < c \<Longrightarrow> n \<le> (n + c - 1) div c * (c :: nat)"
  using div_mult_mod_eq [of "n + c - 1" c] mod_less_divisor [of c "n + c - 1"] by linarith

definition part :: "'a list \<Rightarrow> nat \<times> nat \<Rightarrow> 'a list" where
  "part bs s = take (snd s) (drop (fst s) bs)"

lemma first_parts:
  "concat (map (\<lambda>i. part bs (i * c, min c (length bs - i * c))) [0..<k]) = take (k * c) bs"
proof (induction k)
  case (Suc k)
  have "take (min c (length bs - k * c)) (drop (k * c) bs) = take c (drop (k * c) bs)"
    by (simp add: min_def)
  then show ?case using Suc take_add [of "k * c" c bs] by (simp add: part_def add.commute)
qed simp

lemma parts_tile: "0 < c \<Longrightarrow> concat (map (part bs) (chunk_spans (length bs) c)) = bs"
  using first_parts [of bs c "(length bs + c - 1) div c"] chunks_cover [of c "length bs"]
  by (simp add: chunk_spans_def comp_def)

section \<open>The machine\<close>

definition hex_number :: "string \<Rightarrow> int" where
  "hex_number s = (case py_int 16 s of Inr n \<Rightarrow> n | Inl e \<Rightarrow> 0)"

definition mem_write :: "(int \<Rightarrow> byte) \<Rightarrow> int \<Rightarrow> byte list \<Rightarrow> int \<Rightarrow> byte" where
  "mem_write M a bs = (\<lambda>x. if a \<le> x \<and> x < a + int (length bs) then bs ! nat (x - a) else M x)"

definition writable_report :: string where
  "writable_report = ''{\"writable_ram\": true}''"

definition mem_reply :: "(int \<Rightarrow> byte) \<Rightarrow> string \<Rightarrow> string \<times> (int \<Rightarrow> byte)" where
  "mem_reply M q =
     (let a = hex_number (before_char CHR '','' (tl q)); t = after_char CHR '','' (tl q)
      in if hd q = CHR ''m'' then (bytes_hex False (map (\<lambda>i. M (a + int i)) [0..<nat (hex_number t)]), M)
         else if hd q = CHR ''M'' then
           (''OK'', mem_write M a (case bytes_fromhex (after_char CHR '':'' t) of Inr bs \<Rightarrow> bs | Inl e \<Rightarrow> []))
         else (bytes_hex False (text_bytes writable_report), M))"

lemma number_hex [simp]: "hex_number (fmt_hex u w i) = i"
  by (simp add: hex_number_def)

lemma hex_no_separator: "CHR '','' \<notin> set (fmt_hex u w i)" "CHR '':'' \<notin> set (fmt_hex u w i)"
proof -
  have "\<not> alnum_char CHR '',''" "\<not> alnum_char CHR '':''" by (simp_all add: alnum_char_def)
  then show "CHR '','' \<notin> set (fmt_hex u w i)" "CHR '':'' \<notin> set (fmt_hex u w i)" using fmt_hex_alnum by blast+
qed

lemma mem_reply_read:
  "mem_reply M (read_request a s) = (bytes_hex False (map (\<lambda>i. M (a + int (fst s) + int i)) [0..<snd s]), M)"
  by (simp add: mem_reply_def read_request_def before_char_append after_char_append hex_no_separator)

lemma mem_reply_write:
  "mem_reply M (write_request a data s) = (''OK'', mem_write M (a + int (fst s)) (part data s))"
  by (simp add: mem_reply_def write_request_def Let_def part_def before_char_append after_char_append hex_no_separator)

lemma mem_write_Nil [simp]: "mem_write M a [] = M"
  by (auto simp: mem_write_def fun_eq_iff)

lemma mem_write_append:
  "mem_write (mem_write M a bs) (a + int (length bs)) cs = mem_write M a (bs @ cs)"
  by (auto simp: mem_write_def fun_eq_iff nth_append nat_less_iff intro!: arg_cong [where f = "nth cs"])

lemma machine_writes:
  "machine mem_reply M (map (\<lambda>i. write_request a data (i * c, min c (length data - i * c))) [0..<k]) = mem_write M a (take (k * c) data)"
proof (induction k)
  case 0
  show ?case by simp
next
  case (Suc k)
  have p: "part data (k * c, min c (length data - k * c)) = take c (drop (k * c) data)" by (simp add: part_def min_def)
  show ?case
  proof (cases "k * c \<le> length data")
    case True
    then have "length (take (k * c) data) = k * c" by simp
    then have "mem_write (mem_write M a (take (k * c) data)) (a + int (k * c)) (take c (drop (k * c) data)) = mem_write M a (take (k * c + c) data)"
      using mem_write_append [of M a "take (k * c) data" "take c (drop (k * c) data)"] by (simp only: take_add)
    with Suc p show ?thesis by (simp add: machine_append mem_reply_write add.commute)
  next
    case False
    with Suc p show ?thesis by (simp add: machine_append mem_reply_write)
  qed
qed

section \<open>Requests for chunks\<close>

lemma dmap_answered:
  assumes "answering d (map q xs @ qs) (map r xs @ rs)"
    and "\<And>x e. x \<in> set xs \<Longrightarrow> f x e = dbind (rsp_request (q x)) (k x) e" and "\<And>x. x \<in> set xs \<Longrightarrow> k x (r x) = dret (y x)"
  shows "dmap f xs d = (Inr (map y xs), session (map q xs) d)"
  using assms
proof (induction xs arbitrary: d)
  case (Cons x xs)
  have "dmap f xs (rsp_served (q x) d) = (Inr (map y xs), session (map q xs) (rsp_served (q x) d))"
    using Cons.prems answering_Cons(2) [of d "q x" _ "r x"] by (intro Cons.IH) auto
  then show ?case
    using Cons.prems answering_Cons(1) [of d "q x" _ "r x"] by (simp add: dbind_def dret_def)
qed (simp add: dret_def)

text \<open>The requests of \<open>read_bytes\<close> and \<open>write_bytes\<close>.\<close>

definition memory_spans :: "winuae \<Rightarrow> nat \<Rightarrow> (nat \<times> nat) list" where
  "memory_spans d n = chunk_spans n (nat (chunk_size d))"

definition read_requests :: "winuae \<Rightarrow> int \<Rightarrow> nat \<Rightarrow> string list" where
  "read_requests d a n = map (read_request a) (memory_spans d n)"

definition check_request :: "int \<Rightarrow> nat \<Rightarrow> string" where
  "check_request a n = ''qRcmd,'' @ bytes_hex False (text_bytes (''memory-check '' @ fmt_hex False 0 a @ '' '' @ fmt_hex False 0 (int n)))"

definition write_requests :: "winuae \<Rightarrow> int \<Rightarrow> byte list \<Rightarrow> string list" where
  "write_requests d a data = check_request a (length data) # map (write_request a data) (memory_spans d (length data))"

lemma chunk_size_bounds:
  "64 \<le> packet_size d \<Longrightarrow> 12 \<le> chunk_size d" "chunk_size d \<le> 4096" "2 * chunk_size d \<le> int (packet_size d) - 40"
  by (simp_all add: chunk_size_def)

lemma chunk_size_session [simp]: "chunk_size (session qs d) = chunk_size d"
  by (simp add: chunk_size_def)

lemma requests_session [simp]:
  "read_requests (session qs d) a n = read_requests d a n" "write_requests (session qs d) a data = write_requests d a data"
  by (simp_all add: read_requests_def write_requests_def memory_spans_def)

lemma length_text_bytes [simp]: "length (text_bytes s) = length s"
  by (simp add: text_bytes_def)

lemma sendable_requests:
  assumes "64 \<le> packet_size d" and "0 \<le> a" and "a + int n \<le> 0x100000000" and "n \<le> 65536"
  shows "s \<in> set (memory_spans d n) \<Longrightarrow> sendable d (read_request a s)"
    and "s \<in> set (memory_spans d n) \<Longrightarrow> length data = n \<Longrightarrow> sendable d (write_request a data s)"
    and "n \<le> 4096 \<Longrightarrow> 0 < n \<Longrightarrow> sendable d (check_request a n)"
proof -
  have c: "0 < nat (chunk_size d)" using chunk_size_bounds(1) [OF assms(1)] by simp
  have len: "length (fmt_hex False 0 (a + int k)) \<le> 8" if "k < n" for k using length_hex [of "a + int k" 8] that assms by simp
  {
    assume s: "s \<in> set (memory_spans d n)"
    note b = span_bounds [OF s [unfolded memory_spans_def] c]
    have "length (fmt_hex False 0 (int (snd s))) \<le> 8" using b assms(4) by (intro length_hex) auto
    moreover have "length (fmt_hex False 0 (a + int (fst s))) \<le> 8" using b by (intro len) linarith
    ultimately show "sendable d (read_request a s)" using assms(1) by (simp add: sendable_def read_request_def)
    assume "length data = n"
    then have "length (part data s) = snd s" using b by (simp add: part_def)
    moreover have "2 * snd s + 40 \<le> packet_size d" using b chunk_size_bounds(3) [of d] c by linarith
    ultimately show "sendable d (write_request a data s)"
      using \<open>length (fmt_hex False 0 (int (snd s))) \<le> 8\<close> \<open>length (fmt_hex False 0 (a + int (fst s))) \<le> 8\<close>
      by (simp add: sendable_def write_request_def Let_def part_def)
  next
    assume "n \<le> 4096" and "0 < n"
    then have "length (fmt_hex False 0 (int n)) \<le> 4" by (intro length_hex) simp_all
    moreover have "length (fmt_hex False 0 a) \<le> 8" using len [of 0] \<open>0 < n\<close> by simp
    ultimately show "sendable d (check_request a n)" using assms(1) by (simp add: sendable_def check_request_def)
  }
qed

lemma read_answered:
  assumes "answering d (read_requests d a (length bs) @ qs) (map (\<lambda>s. bytes_hex False (part bs s)) (memory_spans d (length bs)) @ rs)"
    and "64 \<le> packet_size d" and "\<not> wraps a (int (length bs))"
  shows "read_bytes a (length bs) d = (Inr bs, session (read_requests d a (length bs)) d)"
proof -
  let ?ss = "memory_spans d (length bs)"
  have c: "12 \<le> chunk_size d" using assms(2) by (rule chunk_size_bounds(1))
  let ?k = "\<lambda>s reply. if length reply = 2 * snd s \<and> list_all is_hex reply then dres (bytes_fromhex reply) else fails ''Truncated memory response''"
  have "dmap (\<lambda>s. dbind (rsp_request (read_request a s)) (?k s)) ?ss d =
      (Inr (map (part bs) ?ss), session (map (read_request a) ?ss) d)"
  proof (rule dmap_answered)
    show "answering d (map (read_request a) ?ss @ qs) (map (\<lambda>s. bytes_hex False (part bs s)) ?ss @ rs)"
      using assms(1) by (simp add: read_requests_def)
    show "?k s (bytes_hex False (part bs s)) = dret (part bs s)" if "s \<in> set ?ss" for s
      using span_bounds(3) [OF that [unfolded memory_spans_def]] c by (simp add: part_def dres_def dret_def fun_eq_iff)
  qed simp
  moreover have "concat (map (part bs) ?ss) = bs" using c by (simp add: memory_spans_def parts_tile)
  ultimately show ?thesis
    using c assms(3) by (simp add: read_bytes_def in_chunks_def Let_def dbind_def dret_def read_requests_def flip: memory_spans_def)
qed

lemma writable_reply: "json_loads writable_report = Some (VDict [(''writable_ram'', VBool True)])"
  by code_simp

lemma write_answered:
  assumes "answering d (write_requests d a data @ qs)
      (bytes_hex False (text_bytes writable_report) # map (\<lambda>s. ''OK'') (memory_spans d (length data)) @ rs)"
    and "64 \<le> packet_size d" and "\<not> wraps a (int (length data))" and "has_item ''memory-check'' (offered d) = Inr True"
  shows "write_bytes a data True d = (Inr (), session (write_requests d a data) d)"
proof -
  let ?ss = "memory_spans d (length data)" and ?q = "check_request a (length data)"
  let ?d1 = "rsp_served ?q d"
  let ?t = "''memory-check '' @ fmt_hex False 0 a @ '' '' @ fmt_hex False 0 (int (length data))"
  have c: "12 \<le> chunk_size d" using assms(2) by (rule chunk_size_bounds(1))
  have later: "answering ?d1 (map (write_request a data) ?ss @ qs) (map (\<lambda>s. ''OK'') ?ss @ rs)"
    and now: "rsp_request ?q d = (Inr (bytes_hex False (text_bytes writable_report)), ?d1)"
    using answering_Cons assms(1) unfolding write_requests_def append_Cons by blast+
  have "length (bytes_hex False (text_bytes writable_report)) \<noteq> length ''OK''" by (simp add: writable_report_def)
  then have "bytes_hex False (text_bytes writable_report) \<noteq> ''OK''" by metis
  moreover have "utf8_ok (text_bytes writable_report)" by code_simp
  moreover have "require ''memory-check'' d = (Inr (), d)"
    using assms(4) by (simp add: require_def dbind_def dres_def dret_def)
  ultimately have "monitor ?t (Some ''memory-check'') d = (Inr (VDict [(''writable_ram'', VBool True)]), ?d1)"
    using now by (simp add: monitor_def monitor_text_def require_some_def dbind_def dret_def check_request_def writable_reply)
  moreover have "dmap (\<lambda>s. acknowledge (write_request a data s)) ?ss ?d1 = (Inr (map (\<lambda>s. ()) ?ss), session (map (write_request a data) ?ss) ?d1)"
    by (rule dmap_answered [OF later, where k = "\<lambda>s r. if r = ''OK'' then dret () else fails ''WinUAE did not acknowledge the change''"])
      (simp_all add: acknowledge_def)
  moreover have "chunk_size ?d1 = chunk_size d" by (simp add: chunk_size_def)
  ultimately show ?thesis
    using c assms(3)
    by (simp add: write_bytes_def in_chunks_def Let_def dbind_def dret_def write_requests_def writable_def flip: memory_spans_def)
qed

section \<open>Reading what has been written\<close>

lemma replies_reads:
  "replies mem_reply M (map (read_request a) ss) = map (\<lambda>s. bytes_hex False (map (\<lambda>i. M (a + int (fst s) + int i)) [0..<snd s])) ss"
  "machine mem_reply M (map (read_request a) ss) = M"
  by (induction ss) (simp_all add: mem_reply_read)

lemma replies_writes: "replies mem_reply M (map (write_request a data) ss) = map (\<lambda>s. ''OK'') ss"
  by (induction ss arbitrary: M) (simp_all add: mem_reply_write)

lemma mem_reply_check: "mem_reply M (check_request a n) = (bytes_hex False (text_bytes writable_report), M)"
  by (simp add: mem_reply_def check_request_def)

lemma read_back:
  assumes "fst s + snd s \<le> length data"
  shows "map (\<lambda>i. mem_write M a data (a + int (fst s) + int i)) [0..<snd s] = part data s"
  using assms by (intro nth_equalityI) (simp_all add: part_def mem_write_def nat_add_distrib flip: of_nat_add)

lemma written_memory:
  assumes "64 \<le> packet_size d"
  shows "machine mem_reply M (write_requests d a data) = mem_write M a data"
  using machine_writes [of M a data "nat (chunk_size d)" "(length data + nat (chunk_size d) - 1) div nat (chunk_size d)"]
    chunks_cover [of "nat (chunk_size d)" "length data"] chunk_size_bounds(1) [OF assms]
  by (simp add: write_requests_def mem_reply_check memory_spans_def chunk_spans_def comp_def)

lemma memory_replies:
  assumes "64 \<le> packet_size d"
  shows "replies mem_reply M (write_requests d a data @ read_requests d a (length data)) =
    (bytes_hex False (text_bytes writable_report) # map (\<lambda>s. ''OK'') (memory_spans d (length data))) @
    map (\<lambda>s. bytes_hex False (part data s)) (memory_spans d (length data))"
proof -
  have "0 < nat (chunk_size d)" using chunk_size_bounds(1) [OF assms] by simp
  then have "map (\<lambda>i. mem_write M a data (a + int (fst s) + int i)) [0..<snd s] = part data s" if "s \<in> set (memory_spans d (length data))" for s
    using span_bounds(3) that unfolding memory_spans_def by (intro read_back) blast
  then have "replies mem_reply (mem_write M a data) (read_requests d a (length data)) =
      map (\<lambda>s. bytes_hex False (part data s)) (memory_spans d (length data))"
    unfolding read_requests_def replies_reads by simp
  moreover have "replies mem_reply M (write_requests d a data) = bytes_hex False (text_bytes writable_report) # map (\<lambda>s. ''OK'') (memory_spans d (length data))"
    by (simp add: write_requests_def mem_reply_check replies_writes)
  ultimately show ?thesis using assms by (simp add: replies_append written_memory)
qed

definition at_rest :: "winuae \<Rightarrow> bool" where
  "at_rest d \<longleftrightarrow> idle d \<and> execution d = ''stopped'' \<and> stops d = []"

lemma locked_rest: "at_rest d \<Longrightarrow> locked True None m d = m d"
  by (simp add: at_rest_def idle_def locked_def settle.simps [of d] paused_def dwhen_def require_some_def dbind_def dret_def)

lemma at_rest_session [simp]: "at_rest (session qs d) = at_rest d"
  by (simp add: at_rest_def)

lemma memory_answering:
  assumes "idle d" and "64 \<le> packet_size d" and "0 \<le> a" and "a + int (length data) \<le> 0x100000000"
    and "1 \<le> length data" and "length data \<le> 4096"
    and "incoming d = answers (no_ack d) (replies mem_reply M (write_requests d a data @ read_requests d a (length data))) @ as"
  shows "answering d (write_requests d a data @ read_requests d a (length data))
    ((bytes_hex False (text_bytes writable_report) # map (\<lambda>s. ''OK'') (memory_spans d (length data))) @
     map (\<lambda>s. bytes_hex False (part data s)) (memory_spans d (length data)))"
proof -
  note fits = sendable_requests [OF assms(2,3,4)]
  have c: "0 < nat (chunk_size d)" "nat (chunk_size d) \<le> 4096"
    using chunk_size_bounds(1) [OF assms(2)] chunk_size_bounds(2) [of d] by simp_all
  have "plain_reply (bytes_hex False (part data s))" if "s \<in> set (memory_spans d (length data))" for s
    using span_bounds [OF that [unfolded memory_spans_def] c(1)] c(2) by (intro plain_bytes_hex) (auto simp: part_def)
  moreover have "plain_reply (bytes_hex False (text_bytes writable_report))"
    by (intro plain_bytes_hex) (simp_all add: writable_report_def text_bytes_def)
  moreover have "data \<noteq> []" using assms(5) by auto
  ultimately show ?thesis
    using assms fits unfolding answering_def memory_replies [OF assms(2)]
    by (auto simp: write_requests_def read_requests_def list_all_iff)
qed

text \<open>C32. Bytes written to RAM are what is read back: the write and the read succeed against any machine that
  executes their requests, its memory holds the bytes and is otherwise unchanged, and no request
  exceeds the packet size.\<close>

theorem memory_roundtrip:
  assumes "at_rest d" and "64 \<le> packet_size d" and "has_item ''memory-check'' (offered d) = Inr True"
    and "0 \<le> a" and "a + int (length data) \<le> 0x100000000" and "1 \<le> length data" and "length data \<le> 4096"
    and "qs = write_requests d a data @ read_requests d a (length data)"
    and "incoming d = answers (no_ack d) (replies mem_reply M qs) @ as"
  shows "dthen (write_memory_action (VInt a) (VStr (bytes_hex False data))) (read_memory_action (VInt a) (VInt (int (length data)))) d =
      (Inr [(''address'', VInt a), (''size'', VInt (int (length data))), (''hex'', VStr (bytes_hex False data))], session qs d) \<and>
    machine mem_reply M qs = mem_write M a data \<and> list_all (\<lambda>q. length q \<le> packet_size d) qs"
proof -
  let ?W = "write_requests d a data" and ?R = "read_requests d a (length data)" and ?d1 = "session (write_requests d a data) d"
  have served: "answering d (?W @ ?R) ((bytes_hex False (text_bytes writable_report) # map (\<lambda>s. ''OK'') (memory_spans d (length data))) @
      map (\<lambda>s. bytes_hex False (part data s)) (memory_spans d (length data)))"
    using assms memory_answering [of d a data M as] by (simp add: at_rest_def)
  have inside: "\<not> wraps a (int (length data))" "a \<le> MAX32" "hex_bytes_text (VStr (bytes_hex False data)) = Some (bytes_hex False data)"
    using assms(4-7) by (simp_all add: wraps_def hex_bytes_text_def)
  have w: "write_bytes a data True d = (Inr (), ?d1)"
    using served assms(2,3) inside(1) by (intro write_answered) simp_all
  have "answering ?d1 ?R (map (\<lambda>s. bytes_hex False (part data s)) (memory_spans d (length data)))"
    using answering_append(2) [OF served] by (simp add: write_requests_def)
  then have r: "read_bytes a (length data) ?d1 = (Inr data, session ?R ?d1)"
    using read_answered [of ?d1 a data "[]" "[]"] assms(2) inside(1) by (simp add: memory_spans_def)
  have "dthen (write_memory_action (VInt a) (VStr (bytes_hex False data))) (read_memory_action (VInt a) (VInt (int (length data)))) d =
      (Inr [(''address'', VInt a), (''size'', VInt (int (length data))), (''hex'', VStr (bytes_hex False data))], session ?R ?d1)"
    using w r inside assms(1,4-7)
    by (simp add: write_memory_action_def read_memory_action_def locked_rest integer_def dbind_def dres_def dret_def)
  moreover have "list_all (\<lambda>q. length q \<le> packet_size d) qs" using served assms(8) by (simp add: answering_def list_all_iff sendable_def)
  ultimately show ?thesis
    using assms(2,8) by (simp add: machine_append written_memory session_append read_requests_def replies_reads)
qed

lemma sample_requests:
  "write_requests (sample_winuae as) a data = write_requests (sample_winuae []) a data"
  "read_requests (sample_winuae as) a n = read_requests (sample_winuae []) a n"
  by (simp_all add: write_requests_def read_requests_def memory_spans_def chunk_size_def)

theorem memory_roundtrip_witness:
  "let qs = write_requests (sample_winuae []) 0x1000 [0x4E, 0x75] @ read_requests (sample_winuae []) 0x1000 2;
       d = sample_winuae (answers True (replies mem_reply (\<lambda>x. 0) qs))
   in dthen (write_memory_action (VInt 0x1000) (VStr (bytes_hex False [0x4E, 0x75]))) (read_memory_action (VInt 0x1000) (VInt 2)) d =
        (Inr [(''address'', VInt 0x1000), (''size'', VInt 2), (''hex'', VStr (bytes_hex False [0x4E, 0x75]))], session qs d) \<and>
      machine mem_reply (\<lambda>x. 0) qs = mem_write (\<lambda>x. 0) 0x1000 [0x4E, 0x75]"
proof -
  let ?qs = "write_requests (sample_winuae []) 0x1000 [0x4E, 0x75] @ read_requests (sample_winuae []) 0x1000 2"
  let ?d = "sample_winuae (answers True (replies mem_reply (\<lambda>x. 0) ?qs))"
  have "?qs = write_requests ?d 0x1000 [0x4E, 0x75] @ read_requests ?d 0x1000 (length [0x4E, 0x75])"
    by (simp add: sample_requests [of "answers _ _"] numeral_2_eq_2)
  then have "dthen (write_memory_action (VInt 0x1000) (VStr (bytes_hex False [0x4E, 0x75]))) (read_memory_action (VInt 0x1000) (VInt (int (length [0x4E, 0x75 :: byte])))) ?d =
        (Inr [(''address'', VInt 0x1000), (''size'', VInt (int (length [0x4E, 0x75 :: byte]))), (''hex'', VStr (bytes_hex False [0x4E, 0x75]))], session ?qs ?d) \<and>
      machine mem_reply (\<lambda>x. 0) ?qs = mem_write (\<lambda>x. 0) 0x1000 [0x4E, 0x75] \<and> list_all (\<lambda>q. length q \<le> packet_size ?d) ?qs"
    by (intro memory_roundtrip [where M = "\<lambda>x. 0" and as = "[]"]) (simp_all add: at_rest_def has_item_def offered_def dict_get_def)
  then show ?thesis unfolding Let_def by simp
qed

end
