(* ===== verification/Winuae_Hits.thy ===== *)
theory Winuae_Hits
  imports Winuae_Memory
begin

text \<open>
  Breakpoints with skip counts and one-shot breakpoints, and the stack pointers read through the status
  register.
\<close>

section \<open>Longs in replies\<close>

lemma long_text:
  assumes "0 \<le> v" and "v < 0x100000000"
  obtains bs where "length bs = 4" and "fmt_hex False 8 v = bytes_hex False bs"
proof
  let ?n = "nat v"
  let ?bs = "[of_nat (?n div 0x1000000), of_nat (?n div 0x10000), of_nat (?n div 0x100), of_nat ?n] :: byte list"
  have "fixed_hex False 8 ?n = fixed_hex False 2 (?n div 0x1000000) @ fixed_hex False 2 (?n div 0x10000) @ fixed_hex False 2 (?n div 0x100) @ fixed_hex False 2 ?n"
    using fixed_hex_add [of False 6 2 ?n] fixed_hex_add [of False 4 2 "?n div 0x100"] fixed_hex_add [of False 2 2 "?n div 0x10000"]
    by (simp add: div_mult2_eq [symmetric])
  moreover have "fmt_hex False 8 v = fixed_hex False 8 ?n" using assms by (intro fmt_hex_fixed) simp_all
  ultimately show "fmt_hex False 8 v = bytes_hex False ?bs" by (simp add: bytes_hex_def fixed_hex_byte)
qed simp

lemma plain_long: "0 \<le> v \<Longrightarrow> v < 0x100000000 \<Longrightarrow> plain_reply (fmt_hex False 8 v)"
  by (rule long_text [of v]) (auto intro!: plain_bytes_hex)

section \<open>Skip counts\<close>

text \<open>A program that has been resumed, with a breakpoint; it stops there whenever WinUAE replies with its address.\<close>

definition resumed :: "int \<Rightarrow> point \<Rightarrow> winuae \<Rightarrow> bool" where
  "resumed a p d \<longleftrightarrow> idle d \<and> 64 \<le> packet_size d \<and> run_mode d = Some ''continue'' \<and> \<not> interrupting d \<and> map_of (points d) (0, a, 2) = Some p"

lemma hit_point_reads:
  assumes "answering d (''p11'' # qs) (fmt_hex False 8 a # rs)"
  shows "hit_point d = hit_at a (rsp_served ''p11'' d)"
  using answering_Cons(1) [OF assms] by (simp add: hit_point_def dbind_def dres_def)

lemma set_point_simps [simp]:
  "map_of (points (set_point k p d)) k = Some p" "points (put b d) = points d" "idle (set_point k p d) = idle d" "idle (put b d) = idle d"
  "run_mode (set_point k p d) = run_mode d" "interrupting (set_point k p d) = interrupting d" "packet_size (set_point k p d) = packet_size d"
  "incoming (set_point k p d) = incoming d" "no_ack (set_point k p d) = no_ack d" "execution (set_point k p d) = execution d"
  "reading (set_point k p d) = reading d" "phase (set_point k p d) = phase d" "inbuf (set_point k p d) = inbuf d"
  "reading (rsp_served q d) = reading d" "phase (rsp_served q d) = phase d" "inbuf (rsp_served q d) = inbuf d"
  "up (set_point k p d) = up d" "idle (signal_stop r d) = idle d" "points (signal_stop r d) = points d" "execution (signal_stop r d) = ''stopped''"
  by (simp_all add: set_point_def put_def idle_def signal_stop_def update_conv' rsp_served_def)

lemma resumed_answering:
  assumes "resumed a p d" and "0 \<le> a" and "a < 0x100000000" and "incoming d = answers (no_ack d) (fmt_hex False 8 a # rs) @ as"
  shows "answering d [''p11''] [fmt_hex False 8 a]"
  using assms plain_long [of a] by (auto simp: answering_def resumed_def sendable_def answers_def)

text \<open>What a skipped stop sends, the request for the address and the command that resumes the program, and
what a reported one sends.\<close>

definition resume_traffic :: "winuae \<Rightarrow> string" where
  "resume_traffic d = frame_packet ''p11'' @ ack_text (no_ack d) @ frame_packet ''c''"

definition report_traffic :: "int \<Rightarrow> bool \<Rightarrow> winuae \<Rightarrow> string" where
  "report_traffic a oneshot d =
     frame_packet ''p11'' @ ack_text (no_ack d) @
     (if oneshot then frame_packet (''z0,'' @ fmt_hex False 0 a @ '',2'') @ ack_text (no_ack d) else [])"

text \<open>A stop at the breakpoint while its skip count lasts: the program goes on.\<close>

lemma stop_skipped:
  assumes "resumed a p d" and "p_skip p \<noteq> 0" and "0 \<le> a" and "a < 0x100000000"
    and "incoming d = answers (no_ack d) (fmt_hex False 8 a # rs) @ as"
  shows "resumed a (p\<lparr>p_hits := p_hits p + 1, p_skip := p_skip p - 1\<rparr>) (handle_stop r d)"
    and "incoming (handle_stop r d) = answers (no_ack d) rs @ as" and "no_ack (handle_stop r d) = no_ack d"
    and "execution (handle_stop r d) = execution d" and "written (handle_stop r d) = written d @ resume_traffic d"
proof -
  let ?p = "p\<lparr>p_hits := p_hits p + 1, p_skip := p_skip p - 1\<rparr>"
  let ?e = "set_point (0, a, 2) ?p (rsp_served ''p11'' d)"
  have "hit_point d = hit_at a (rsp_served ''p11'' d)" using resumed_answering [OF assms(1,3-5)] by (rule hit_point_reads)
  also have "\<dots> = (Inr True, put (frame_packet ''c'') (?e\<lparr>last_packet := frame_packet ''c'', retries := 0\<rparr>))"
    using assms(1,2) by (simp add: hit_at_def Let_def resumed_def dbind_def dret_def send_rsp_def idle_def)
  finally have "handle_stop r d = put (frame_packet ''c'') (?e\<lparr>last_packet := frame_packet ''c'', retries := 0\<rparr>)"
    using assms(1) by (simp add: handle_stop_def resumed_def idle_def)
  moreover have "map_of (points ?e) (0, a, 2) = Some ?p" by simp
  ultimately show "resumed a ?p (handle_stop r d)" "incoming (handle_stop r d) = answers (no_ack d) rs @ as"
      "no_ack (handle_stop r d) = no_ack d" "execution (handle_stop r d) = execution d"
      "written (handle_stop r d) = written d @ resume_traffic d"
    using assms(1,5)
    by (simp_all add: resumed_def idle_def put_def answers_def resume_traffic_def set_point_def rsp_served_def)
qed

lemma dropped_key [simp]: "map_of (filter (\<lambda>q. fst q \<noteq> k) xs) k = None"
  by (auto simp: map_of_eq_None_iff)

text \<open>A stop at the breakpoint without a skip count: the program has stopped.\<close>

lemma stop_reported:
  assumes "resumed a p d" and "p_skip p = 0" and "0 \<le> a" and "a < 0x100000000"
    and "incoming d = answers (no_ack d) (fmt_hex False 8 a # (if p_oneshot p then [''OK''] else [])) @ as"
  shows "execution (handle_stop r d) = ''stopped''"
    and "map_of (points (handle_stop r d)) (0, a, 2) = (if p_oneshot p then None else Some (p\<lparr>p_hits := p_hits p + 1\<rparr>))"
    and "incoming (handle_stop r d) = as" and "written (handle_stop r d) = written d @ report_traffic a (p_oneshot p) d"
proof -
  let ?e = "set_point (0, a, 2) (p\<lparr>p_hits := p_hits p + 1\<rparr>) (rsp_served ''p11'' d)"
  let ?z = "CHR ''z'' # point_range (0, a, 2)"
  have up: "up d" using assms(1) by (simp add: resumed_def idle_def)
  have hit: "hit_point d = hit_at a (rsp_served ''p11'' d)" using resumed_answering [OF assms(1,3-5)] by (rule hit_point_reads)
  have later: "hit_at a (rsp_served ''p11'' d) =
      dthen (dwhen (p_oneshot p) (dthen (acknowledge ?z) (dmod (drop_point (0, a, 2))))) (dret False) ?e"
    using assms(1,2) by (simp add: hit_at_def Let_def resumed_def)
  have "execution (handle_stop r d) = ''stopped'' \<and>
      map_of (points (handle_stop r d)) (0, a, 2) = (if p_oneshot p then None else Some (p\<lparr>p_hits := p_hits p + 1\<rparr>)) \<and> incoming (handle_stop r d) = as \<and>
      written (handle_stop r d) = written d @ report_traffic a (p_oneshot p) d"
  proof (cases "p_oneshot p")
    case True
    have "length (fmt_hex False 0 a) \<le> 8" using assms(3,4) by (intro length_hex) simp_all
    moreover have two: "fmt_dec 0 = ''0''" "fmt_hex False 0 2 = ''2''" by code_simp+
    ultimately have "sendable ?e ?z" using assms(1) by (simp add: sendable_def resumed_def point_range_def)
    then have "answering ?e [?z] [''OK'']" using assms(1,5) True by (auto simp: answering_def resumed_def answers_def)
    then have "hit_point d = (Inr False, drop_point (0, a, 2) (rsp_served ?z ?e))"
      using True by (simp add: hit later acknowledged dwhen_def dbind_def dmod_def dret_def)
    then show ?thesis
      using True up assms(5) two
      by (simp add: handle_stop_def drop_point_def answers_def signal_stop_def report_traffic_def rsp_served_def set_point_def point_range_def)
  next
    case False
    then have "hit_point d = (Inr False, ?e)" by (simp add: hit later dwhen_def dbind_def dret_def)
    then show ?thesis
      using False up assms(5)
      by (simp add: handle_stop_def answers_def report_traffic_def signal_stop_def set_point_def rsp_served_def update_conv')
  qed
  then show "execution (handle_stop r d) = ''stopped''"
    and "map_of (points (handle_stop r d)) (0, a, 2) = (if p_oneshot p then None else Some (p\<lparr>p_hits := p_hits p + 1\<rparr>))"
    and "incoming (handle_stop r d) = as" and "written (handle_stop r d) = written d @ report_traffic a (p_oneshot p) d" by blast+
qed

text \<open>C33. A breakpoint with a skip count of \<open>n\<close> lets the program go on \<open>n\<close> times and reports the next hit. At
  each of the first \<open>n\<close> stops exactly two packets are sent, the request for the address and \<open>c\<close>, which
  resumes the program, and the program is not shown as stopped; at the next one nothing resumes it, it is
  shown as stopped, and all hits are counted. A one-shot breakpoint is then removed from WinUAE and
  from the table.\<close>

theorem skip_count_hits:
  assumes "resumed a p d" and "p_skip p = int n" and "0 \<le> a" and "a < 0x100000000"
    and "incoming d = answers (no_ack d) (replicate (Suc n) (fmt_hex False 8 a) @ (if p_oneshot p then [''OK''] else [])) @ as"
  shows "(\<forall>i \<le> n. execution ((handle_stop r ^^ i) d) = execution d \<and>
      written ((handle_stop r ^^ i) d) =
        written d @ concat (replicate i (frame_packet ''p11'' @ ack_text (no_ack d) @ frame_packet ''c''))) \<and>
    execution ((handle_stop r ^^ Suc n) d) = ''stopped'' \<and> incoming ((handle_stop r ^^ Suc n) d) = as \<and>
    written ((handle_stop r ^^ Suc n) d) = written ((handle_stop r ^^ n) d) @ report_traffic a (p_oneshot p) d \<and>
    map_of (points ((handle_stop r ^^ Suc n) d)) (0, a, 2) =
      (if p_oneshot p then None else Some (p\<lparr>p_hits := p_hits p + int n + 1, p_skip := 0\<rparr>))"
  using assms
proof (induction n arbitrary: d p)
  case 0
  then show ?case using stop_reported [of a p d as r] by auto
next
  case (Suc n)
  let ?p = "p\<lparr>p_hits := p_hits p + 1, p_skip := p_skip p - 1\<rparr>"
  let ?e = "handle_stop r d"
  note skip = stop_skipped [OF Suc.prems(1) _ Suc.prems(3,4), of "replicate (Suc n) (fmt_hex False 8 a) @ (if p_oneshot p then [''OK''] else [])" as r]
  have e: "resumed a ?p ?e" "incoming ?e = answers (no_ack ?e) (replicate (Suc n) (fmt_hex False 8 a) @ (if p_oneshot ?p then [''OK''] else [])) @ as"
      "execution ?e = execution d" "written ?e = written d @ resume_traffic d" "no_ack ?e = no_ack d"
    using skip Suc.prems(2,5) by simp_all
  have step: "(handle_stop r ^^ Suc i) d = (handle_stop r ^^ i) ?e" for i by (simp add: funpow_swap1)
  note IH = Suc.IH [OF e(1) _ Suc.prems(3,4) e(2)]
  have report: "report_traffic a (p_oneshot ?p) ?e = report_traffic a (p_oneshot p) d"
    by (simp add: report_traffic_def e(5))
  have skips: "execution ((handle_stop r ^^ i) d) = execution d \<and> written ((handle_stop r ^^ i) d) =
      written d @ concat (replicate i (frame_packet ''p11'' @ ack_text (no_ack d) @ frame_packet ''c''))" if "i \<le> Suc n" for i
  proof (cases i)
    case (Suc k)
    then show ?thesis
      using that IH Suc.prems(2) unfolding Suc step by (simp add: e(3-5) resume_traffic_def)
  qed simp
  show ?case
    using IH Suc.prems(2) skips unfolding step [of "Suc n"] step [of n] report
    by (simp add: add.commute add.left_commute del: funpow.simps)
qed

definition sample_point :: point where
  "sample_point = \<lparr>p_kind = 0, p_address = 0x1000, p_size = 2, p_hits = 0, p_skip = 2, p_oneshot = True, p_symbol = None\<rparr>"

definition sample_resumed :: winuae where
  "sample_resumed = (sample_winuae (answers True (replicate 3 (fmt_hex False 8 0x1000) @ [''OK''])))
     \<lparr>execution := ''running'', run_mode := Some ''continue'', points := [((0, 0x1000, 2), sample_point)]\<rparr>"

theorem skip_count_hits_witness:
  "execution ((handle_stop ''S05'' ^^ 2) sample_resumed) = ''running'' \<and>
   written ((handle_stop ''S05'' ^^ 2) sample_resumed) = ''$p11#d2$c#63$p11#d2$c#63'' \<and>
   execution ((handle_stop ''S05'' ^^ 3) sample_resumed) = ''stopped'' \<and>
   map_of (points ((handle_stop ''S05'' ^^ 3) sample_resumed)) (0, 0x1000, 2) = None"
proof -
  have "resumed 0x1000 sample_point sample_resumed"
    by (simp add: resumed_def sample_resumed_def idle_def sample_winuae_def new_winuae_def)
  moreover have "p_skip sample_point = int 2" "p_oneshot sample_point" by (simp_all add: sample_point_def)
  moreover have "incoming sample_resumed = answers (no_ack sample_resumed) (replicate (Suc 2) (fmt_hex False 8 0x1000) @ [''OK'']) @ []"
    by (simp add: sample_resumed_def sample_winuae_def new_winuae_def)
  moreover have "execution sample_resumed = ''running''" "written sample_resumed = []" "no_ack sample_resumed"
    by (simp_all add: sample_resumed_def sample_winuae_def new_winuae_def)
  moreover have "frame_packet ''p11'' = ''$p11#d2''" "frame_packet ''c'' = ''$c#63''" by code_simp+
  ultimately have all: "\<forall>i \<le> 2. execution ((handle_stop ''S05'' ^^ i) sample_resumed) = ''running'' \<and>
        written ((handle_stop ''S05'' ^^ i) sample_resumed) = concat (replicate i (''$p11#d2'' @ ack_text True @ ''$c#63''))"
      and "execution ((handle_stop ''S05'' ^^ 3) sample_resumed) = ''stopped''"
      and "map_of (points ((handle_stop ''S05'' ^^ 3) sample_resumed)) (0, 0x1000, 2) = None"
    using skip_count_hits [where a = "0x1000" and p = sample_point and d = sample_resumed and n = 2 and as = "[]" and r = "''S05''"]
    by (simp_all add: numeral_3_eq_3)
  moreover have "concat (replicate 2 (''$p11#d2'' @ ack_text True @ ''$c#63'')) = ''$p11#d2$c#63$p11#d2$c#63''" by code_simp
  ultimately show ?thesis by (simp only: all [rule_format, of 2, OF order_refl] simp_thms)
qed

section \<open>Stack pointers\<close>

text \<open>A CPU that keeps a stack pointer for each mode: \<open>A7\<close> is the one its status register selects.\<close>

record stacks =
  m_sr :: int
  m_usp :: int
  m_isp :: int
  m_msp :: int

definition stack_of :: "string \<Rightarrow> stacks \<Rightarrow> int" where
  "stack_of name c = (if name = ''USP'' then m_usp c else if name = ''MSP'' then m_msp c else m_isp c)"

definition selected :: "bool \<Rightarrow> int \<Rightarrow> string" where
  "selected master sw = (if \<not> bit sw 13 then ''USP'' else if master \<and> bit sw 12 then ''MSP'' else ''ISP'')"

definition cpu_reply :: "bool \<Rightarrow> stacks \<Rightarrow> string \<Rightarrow> string \<times> stacks" where
  "cpu_reply master c q =
     (if q = ''p0f'' then (fmt_hex False 8 (stack_of (selected master (m_sr c)) c), c)
      else (''OK'', c\<lparr>m_sr := hex_number (drop 4 q)\<rparr>))"

definition sr_request :: "int \<Rightarrow> string" where
  "sr_request v = ''P10='' @ fmt_hex False 8 v"

definition stack_requests :: "int \<Rightarrow> (string \<times> int) list \<Rightarrow> string list" where
  "stack_requests sw ms = concat (map (\<lambda>m. [sr_request (in_mode sw (snd m)), ''p0f'']) ms)"

lemma set_SR: "set_register ''SR'' v = acknowledge (sr_request v)"
proof -
  have "index_of ''SR'' REGISTERS = 16" "fmt_hex False 0 16 = ''10''" by code_simp+
  then show ?thesis by (simp add: set_register_def sr_request_def)
qed

lemma cpu_replies:
  "cpu_reply master c ''p0f'' = (fmt_hex False 8 (stack_of (selected master (m_sr c)) c), c)"
  "cpu_reply master c (sr_request v) = (''OK'', c\<lparr>m_sr := v\<rparr>)"
  by (simp_all add: cpu_reply_def sr_request_def)

lemma stack_of_sr [simp]: "stack_of name (c\<lparr>m_sr := v\<rparr>) = stack_of name c"
  by (simp add: stack_of_def)

lemma in_mode_bits: "bit (in_mode sw b) 13 = bit b 13" "bit (in_mode sw b) 12 = bit b 12"
  by (simp_all add: in_mode_def bit_simps)

definition wf_mode :: "bool \<Rightarrow> string \<times> int \<Rightarrow> bool" where
  "wf_mode master m \<longleftrightarrow> selected master (snd m) = fst m \<and> 0 \<le> snd m \<and> snd m < 0x10000"

lemma selected_in_mode: "wf_mode master m \<Longrightarrow> selected master (in_mode sw (snd m)) = fst m"
  by (auto simp: wf_mode_def selected_def in_mode_bits split: if_splits)

lemma stack_machine:
  assumes "list_all (wf_mode master) ms"
  shows "replies (cpu_reply master) c (stack_requests sw ms) = concat (map (\<lambda>m. [''OK'', fmt_hex False 8 (stack_of (fst m) c)]) ms)"
    and "\<exists>v. machine (cpu_reply master) c (stack_requests sw ms) = c\<lparr>m_sr := v\<rparr>"
  using assms
proof (induction ms arbitrary: c)
  case (Cons m ms)
  {
    case 1
    then show ?case using Cons.IH(1) by (simp add: stack_requests_def cpu_replies selected_in_mode)
  next
    case 2
    then show ?case using Cons.IH(2) [of "c\<lparr>m_sr := in_mode sw (snd m)\<rparr>"] by (auto simp: stack_requests_def cpu_replies)
  }
next
  case Nil
  have same: "c\<lparr>m_sr := m_sr c\<rparr> = c" for c :: stacks by (cases c) simp
  { case 1 show ?case by (simp add: stack_requests_def) }
  { case 2 show ?case by (simp add: stack_requests_def) (metis same) }
qed

lemma dbind_step: "m d = (Inr x, e) \<Longrightarrow> dbind m f d = f x e"
  by (simp add: dbind_def)

lemma read_stacks:
  assumes "answering d (stack_requests sw ms @ qs) (concat (map (\<lambda>m. [''OK'', fmt_hex False 8 (val (fst m))]) ms) @ rs)"
  shows "dmap (\<lambda>(name, bits). dthen (set_register ''SR'' (in_mode sw bits))
      (dbind (rsp_request ''p0f'') (\<lambda>r. dbind (dres (py_int 16 r)) (\<lambda>v. dret (name, v))))) ms d =
    (Inr (map (\<lambda>m. (fst m, val (fst m))) ms), session (stack_requests sw ms) d)"
  using assms
proof (induction ms arbitrary: d)
  case (Cons m ms)
  let ?q = "sr_request (in_mode sw (snd m))"
  have first: "answering d (?q # ''p0f'' # stack_requests sw ms @ qs)
      (''OK'' # fmt_hex False 8 (val (fst m)) # concat (map (\<lambda>m. [''OK'', fmt_hex False 8 (val (fst m))]) ms) @ rs)"
    using Cons.prems by (simp add: stack_requests_def)
  note second = answering_Cons(2) [OF first]
  obtain name bits where m: "m = (name, bits)" by (cases m)
  show ?case
    using acknowledged [OF first] answering_Cons(1) [OF second] Cons.IH [OF answering_Cons(2) [OF second]]
    by (simp add: m set_SR stack_requests_def dbind_step dres_def dret_def)
qed (simp add: stack_requests_def dret_def)

lemma current_selected: "master = (map_of modes ''MSP'' \<noteq> None) \<Longrightarrow> current_stack modes sw = selected master sw"
  using and_exp_eq_0_iff_not_bit [of sw 13] and_exp_eq_0_iff_not_bit [of sw 12]
  by (auto simp: current_stack_def selected_def)

lemma stack_modes_wf:
  assumes "master = (map_of (stack_modes d) ''MSP'' \<noteq> None)"
  shows "list_all (wf_mode master) (stack_modes d)" and "distinct (map fst (stack_modes d))" and "{''USP'', ''ISP''} \<subseteq> fst ` set (stack_modes d)"
  using assms by (auto simp: stack_modes_def wf_mode_def selected_def bit_iff_odd split: if_splits)

lemma in_mode_range:
  assumes "0 \<le> sw" and "sw < 0x10000" and "0 \<le> b" and "b < 0x10000"
  shows "0 \<le> in_mode sw b" and "in_mode sw b < 0x10000"
proof -
  have "0 \<le> sw AND NOT 0x3000" "sw AND NOT 0x3000 < 2 ^ 16" using assms AND_upper1 [of sw "NOT 0x3000"] by simp_all
  then show "0 \<le> in_mode sw b" "in_mode sw b < 0x10000" using assms OR_upper [of "sw AND NOT 0x3000" 16 b] by (simp_all add: in_mode_def)
qed

definition other_modes :: "bool \<Rightarrow> stacks \<Rightarrow> winuae \<Rightarrow> (string \<times> int) list" where
  "other_modes master c d = filter (\<lambda>m. fst m \<noteq> selected master (m_sr c)) (stack_modes d)"

definition all_stack_requests :: "bool \<Rightarrow> stacks \<Rightarrow> winuae \<Rightarrow> string list" where
  "all_stack_requests master c d = stack_requests (m_sr c) (other_modes master c d) @ [sr_request (m_sr c)]"

lemma stack_lengths: "length (stack_requests w ms) = length (concat (map (\<lambda>m. [''OK'', fmt_hex False 8 (val (fst m))]) ms))"
  by (induction ms) (simp_all add: stack_requests_def)

lemma stack_answering:
  assumes "idle d" and "64 \<le> packet_size d" and "list_all (wf_mode master) (other_modes master c d)"
    and "0 \<le> m_sr c" and "m_sr c < 0x10000" and "\<And>name. 0 \<le> stack_of name c \<and> stack_of name c < 0x100000000"
    and "incoming d = answers (no_ack d) (replies (cpu_reply master) c (all_stack_requests master c d)) @ as"
  shows "answering d (stack_requests (m_sr c) (other_modes master c d) @ [sr_request (m_sr c)])
    (concat (map (\<lambda>m. [''OK'', fmt_hex False 8 (stack_of (fst m) c)]) (other_modes master c d)) @ [''OK''])"
proof -
  have sr: "sendable d (sr_request v)" if "0 \<le> v" "v < 0x10000" for v
  proof -
    have "length (fmt_hex False 8 v) = 8" using that by (subst fmt_hex_fixed) simp_all
    then show ?thesis using assms(2) by (simp add: sendable_def sr_request_def)
  qed
  have "sendable d q" if "q \<in> set (stack_requests (m_sr c) (other_modes master c d))" for q
    using that assms(2-5) sr in_mode_range [of "m_sr c"] by (auto simp: stack_requests_def list_all_iff wf_mode_def sendable_def)
  moreover note stack_lengths [of "m_sr c" "other_modes master c d" "\<lambda>name. stack_of name c"]
  moreover have "list_all plain_reply (concat (map (\<lambda>m. [''OK'', fmt_hex False 8 (stack_of (fst m) c)]) (other_modes master c d)))"
    using assms(6) by (auto simp: list_all_iff intro!: plain_long)
  ultimately show ?thesis
    using assms(1,4,5,7) sr [of "m_sr c"] stack_machine(1) [OF assms(3), of c "m_sr c"]
    by (auto simp: answering_def list_all_iff all_stack_requests_def replies_append cpu_replies)
qed

text \<open>C34. Reading the stack pointers gives the pointer of every mode the CPU has, the one in use taken from the
  registers, and leaves the CPU as it was: the status register has been restored.\<close>

theorem stack_pointers_read:
  assumes "idle d" and "64 \<le> packet_size d" and "master = (map_of (stack_modes d) ''MSP'' \<noteq> None)"
    and "reg ''SR'' rs = m_sr c" and "reg ''A7'' rs = stack_of (selected master (m_sr c)) c"
    and "0 \<le> m_sr c" and "m_sr c < 0x10000" and "\<And>name. 0 \<le> stack_of name c \<and> stack_of name c < 0x100000000"
    and "incoming d = answers (no_ack d) (replies (cpu_reply master) c (all_stack_requests master c d)) @ as"
  shows "stack_pointers rs d = (Inr (map (\<lambda>m. (fst m, stack_of (fst m) c)) (stack_modes d)), session (all_stack_requests master c d) d) \<and>
    machine (cpu_reply master) c (all_stack_requests master c d) = c"
proof -
  let ?os = "other_modes master c d" and ?sw = "m_sr c" and ?cur = "selected master (m_sr c)"
  have wf: "list_all (wf_mode master) ?os" using stack_modes_wf(1) [OF assms(3)] by (auto simp: other_modes_def list_all_iff)
  note served = stack_answering [OF assms(1,2) wf assms(6-9)]
  have got: "dmap (\<lambda>(name, bits). dthen (set_register ''SR'' (in_mode ?sw bits))
      (dbind (rsp_request ''p0f'') (\<lambda>r. dbind (dres (py_int 16 r)) (\<lambda>v. dret (name, v))))) ?os d =
    (Inr (map (\<lambda>m. (fst m, stack_of (fst m) c)) ?os), session (stack_requests ?sw ?os) d)"
    using served by (rule read_stacks [where val = "\<lambda>name. stack_of name c"])
  have "\<exists>name \<in> {''USP'', ''ISP''}. name \<noteq> ?cur" by (simp add: selected_def)
  then obtain name where n: "name \<in> {''USP'', ''ISP''}" "name \<noteq> ?cur" by (rule bexE)
  have "name \<in> fst ` set (stack_modes d)" by (rule subsetD [OF stack_modes_wf(3) [OF assms(3)] n(1)])
  then obtain m where "m \<in> set (stack_modes d)" "name = fst m" by (rule imageE)
  with n(2) have "m \<in> set ?os" by (simp add: other_modes_def)
  then have some: "?os \<noteq> []" by auto
  have "answering (session (stack_requests ?sw ?os) d) [sr_request ?sw] [''OK'']"
    using served stack_lengths by (rule answering_append(2))
  note restored = acknowledged [OF this]
  have found: "reg (fst m) ((?cur, stack_of ?cur c) # map (\<lambda>m. (fst m, stack_of (fst m) c)) ?os) = stack_of (fst m) c" if "m \<in> set (stack_modes d)" for m
  proof (cases "fst m = ?cur")
    case False
    then have "fst m \<in> set (map fst ?os)" using that by (auto simp: other_modes_def)
    then have "map_of (map (\<lambda>k. (k, stack_of k c)) (map fst ?os)) (fst m) = Some (stack_of (fst m) c)"
      by (simp only: map_of_map_restrict) simp
    then show ?thesis using False by (simp add: reg_def comp_def)
  qed (simp add: reg_def)
  have "stack_pointers rs d = (Inr (map (\<lambda>m. (fst m, stack_of (fst m) c)) (stack_modes d)), session (all_stack_requests master c d) d)"
    using got restored some found assms(3-5)
    by (simp add: stack_pointers_def Let_def current_selected other_modes_def [symmetric] dfinally_def dbind_def dwhen_def set_SR dret_def
        all_stack_requests_def session_append)
  moreover have "c\<lparr>m_sr := v, m_sr := m_sr c\<rparr> = c" for v by (cases c) simp
  then have "machine (cpu_reply master) c (all_stack_requests master c d) = c"
    using stack_machine(2) [OF wf, of c ?sw] by (auto simp: all_stack_requests_def machine_append cpu_replies)
  ultimately show ?thesis by blast
qed

definition sample_cpu :: stacks where
  "sample_cpu = \<lparr>m_sr = 0x2000, m_usp = 0x1234, m_isp = 0x8000, m_msp = 0\<rparr>"

lemma sample_modes: "stack_modes (sample_winuae as) = [(''USP'', 0), (''ISP'', 0x2000)]"
  by (simp add: stack_modes_def dict_get_def)

theorem stack_pointers_read_witness:
  "let qs = all_stack_requests False sample_cpu (sample_winuae []);
       d = sample_winuae (answers True (replies (cpu_reply False) sample_cpu qs))
   in fst (stack_pointers [(''SR'', 0x2000), (''A7'', 0x8000)] d) = Inr [(''USP'', 0x1234), (''ISP'', 0x8000)] \<and>
      machine (cpu_reply False) sample_cpu qs = sample_cpu"
proof -
  let ?qs = "all_stack_requests False sample_cpu (sample_winuae [])"
  let ?d = "sample_winuae (answers True (replies (cpu_reply False) sample_cpu ?qs))"
  have same: "all_stack_requests False sample_cpu ?d = ?qs" by (simp add: all_stack_requests_def other_modes_def sample_modes)
  have "selected False 0x2000 = ''ISP''" by code_simp
  then have "reg ''A7'' [(''SR'', 0x2000), (''A7'', 0x8000)] = stack_of (selected False (m_sr sample_cpu)) sample_cpu"
    by (simp add: reg_def stack_of_def sample_cpu_def)
  moreover have "0 \<le> stack_of name sample_cpu \<and> stack_of name sample_cpu < 0x100000000" for name
    by (simp add: stack_of_def sample_cpu_def)
  moreover have "incoming ?d = answers (no_ack ?d) (replies (cpu_reply False) sample_cpu (all_stack_requests False sample_cpu ?d)) @ []"
    unfolding same by simp
  ultimately have "stack_pointers [(''SR'', 0x2000), (''A7'', 0x8000)] ?d =
        (Inr (map (\<lambda>m. (fst m, stack_of (fst m) sample_cpu)) (stack_modes ?d)), session (all_stack_requests False sample_cpu ?d) ?d) \<and>
      machine (cpu_reply False) sample_cpu (all_stack_requests False sample_cpu ?d) = sample_cpu"
    by (intro stack_pointers_read [where as = "[]"]) (simp_all add: sample_modes reg_def sample_cpu_def)
  then show ?thesis unfolding same Let_def by (simp add: sample_modes stack_of_def sample_cpu_def)
qed

end
