(* ===== verification/Winuae_Chipset.thy ===== *)
theory Winuae_Chipset
  imports Winuae_Guest Lvo Stabs Copper "HOL-Library.List_Lexorder"
begin

text \<open>
  Views of the machine for the WinUAE debugger (\<open>winuae_chipset.py\<close>): names of registers and vectors, tables of
  library vectors read from FD files, annotated disassembly, custom registers, Copper lists and
  return addresses on the stack. The tables of library vectors are an argument, as are the loaded symbols.
\<close>

section \<open>Names\<close>

definition CUSTOM_BASE :: "(int \<times> string) list" where
  "CUSTOM_BASE = [
     (0x000, ''BLTDDAT''), (0x002, ''DMACONR''), (0x004, ''VPOSR''), (0x006, ''VHPOSR''), (0x008, ''DSKDATR''), (0x00A, ''JOY0DAT''),
     (0x00C, ''JOY1DAT''), (0x00E, ''CLXDAT''), (0x010, ''ADKCONR''), (0x012, ''POT0DAT''), (0x014, ''POT1DAT''), (0x016, ''POTGOR''),
     (0x018, ''SERDATR''), (0x01A, ''DSKBYTR''), (0x01C, ''INTENAR''), (0x01E, ''INTREQR''), (0x020, ''DSKPTH''), (0x022, ''DSKPTL''),
     (0x024, ''DSKLEN''), (0x026, ''DSKDAT''), (0x028, ''REFPTR''), (0x02A, ''VPOSW''), (0x02C, ''VHPOSW''), (0x02E, ''COPCON''), (0x030,
     ''SERDAT''), (0x032, ''SERPER''), (0x034, ''POTGO''), (0x036, ''JOYTEST''), (0x038, ''STREQU''), (0x03A, ''STRVBL''), (0x03C,
     ''STRHOR''), (0x03E, ''STRLONG''), (0x040, ''BLTCON0''), (0x042, ''BLTCON1''), (0x044, ''BLTAFWM''), (0x046, ''BLTALWM''), (0x048,
     ''BLTCPTH''), (0x04A, ''BLTCPTL''), (0x04C, ''BLTBPTH''), (0x04E, ''BLTBPTL''), (0x050, ''BLTAPTH''), (0x052, ''BLTAPTL''), (0x054,
     ''BLTDPTH''), (0x056, ''BLTDPTL''), (0x058, ''BLTSIZE''), (0x05A, ''BLTCON0L''), (0x05C, ''BLTSIZV''), (0x05E, ''BLTSIZH''), (0x060,
     ''BLTCMOD''), (0x062, ''BLTBMOD''), (0x064, ''BLTAMOD''), (0x066, ''BLTDMOD''), (0x070, ''BLTCDAT''), (0x072, ''BLTBDAT''), (0x074,
     ''BLTADAT''), (0x078, ''SPRHDAT''), (0x07A, ''BPLHDAT''), (0x07C, ''DENISEID''), (0x07E, ''DSKSYNC''), (0x080, ''COP1LCH''), (0x082,
     ''COP1LCL''), (0x084, ''COP2LCH''), (0x086, ''COP2LCL''), (0x088, ''COPJMP1''), (0x08A, ''COPJMP2''), (0x08C, ''COPINS''), (0x08E,
     ''DIWSTRT''), (0x090, ''DIWSTOP''), (0x092, ''DDFSTRT''), (0x094, ''DDFSTOP''), (0x096, ''DMACON''), (0x098, ''CLXCON''), (0x09A,
     ''INTENA''), (0x09C, ''INTREQ''), (0x09E, ''ADKCON''), (0x100, ''BPLCON0''), (0x102, ''BPLCON1''), (0x104, ''BPLCON2''), (0x106,
     ''BPLCON3''), (0x108, ''BPL1MOD''), (0x10A, ''BPL2MOD''), (0x10C, ''BPLCON4''), (0x10E, ''CLXCON2''), (0x1C0, ''HTOTAL''), (0x1C2,
     ''HSSTOP''), (0x1C4, ''HBSTRT''), (0x1C6, ''HBSTOP''), (0x1C8, ''VTOTAL''), (0x1CA, ''VSSTOP''), (0x1CC, ''VBSTRT''), (0x1CE,
     ''VBSTOP''), (0x1D0, ''SPRHSTRT''), (0x1D2, ''SPRHSTOP''), (0x1D4, ''BPLHSTRT''), (0x1D6, ''BPLHSTOP''), (0x1D8, ''HHPOSW''), (0x1DA,
     ''HHPOSR''), (0x1DC, ''BEAMCON0''), (0x1DE, ''HSSTRT''), (0x1E0, ''VSSTRT''), (0x1E2, ''HCENTER''), (0x1E4, ''DIWHIGH''), (0x1E6,
     ''BPLHMOD''), (0x1E8, ''SPRHPTH''), (0x1EA, ''SPRHPTL''), (0x1EC, ''BPLHPTH''), (0x1EE, ''BPLHPTL''), (0x1FC, ''FMODE''), (0x1FE,
     ''NOOP'')]"

definition audio_names :: "(int \<times> string) list" where
  "audio_names = concat (map (\<lambda>n. map (\<lambda>i. (0x0A0 + int n * 0x10 + int i * 2,
     ''AUD'' @ fmt_dec (int n) @ [''LCH'', ''LCL'', ''LEN'', ''PER'', ''VOL'', ''DAT''] ! i)) [0..<6]) [0..<4])"

definition plane_names :: "(int \<times> string) list" where
  "plane_names = concat (map (\<lambda>n.
     [(0x0E0 + int n * 4, ''BPL'' @ fmt_dec (int n + 1) @ ''PTH''), (0x0E2 + int n * 4, ''BPL'' @ fmt_dec (int n + 1) @ ''PTL''),
      (0x110 + int n * 2, ''BPL'' @ fmt_dec (int n + 1) @ ''DAT''),
      (0x120 + int n * 4, ''SPR'' @ fmt_dec (int n) @ ''PTH''), (0x122 + int n * 4, ''SPR'' @ fmt_dec (int n) @ ''PTL'')] @
     map (\<lambda>i. (0x140 + int n * 8 + int i * 2, ''SPR'' @ fmt_dec (int n) @ [''POS'', ''CTL'', ''DATA'', ''DATB''] ! i)) [0..<4]) [0..<8])"

definition color_names :: "(int \<times> string) list" where
  "color_names = map (\<lambda>n. (0x180 + int n * 2, ''COLOR'' @ fmt_dec_pad 2 (int n))) [0..<32]"

definition CUSTOM :: "(int \<times> string) list" where
  "CUSTOM = CUSTOM_BASE @ audio_names @ plane_names @ color_names"

definition DMACON_BITS :: "string option list" where
  "DMACON_BITS = [
     Some ''AUD0EN'', Some ''AUD1EN'', Some ''AUD2EN'', Some ''AUD3EN'', Some ''DSKEN'', Some ''SPREN'', Some ''BLTEN'', Some
     ''COPEN'', Some ''BPLEN'', Some ''DMAEN'', Some ''BLTPRI'', None, None, Some ''BZERO'', Some ''BBUSY'', Some ''SETCLR'']"

definition INT_BITS :: "string option list" where
  "INT_BITS = [
     Some ''TBE'', Some ''DSKBLK'', Some ''SOFT'', Some ''PORTS'', Some ''COPER'', Some ''VERTB'', Some ''BLIT'', Some ''AUD0'', Some
     ''AUD1'', Some ''AUD2'', Some ''AUD3'', Some ''RBF'', Some ''DSKSYN'', Some ''EXTER'', Some ''INTEN'', Some ''SETCLR'']"

definition BPLCON0_BITS :: "string option list" where
  "BPLCON0_BITS = [
     Some ''ECSENA'', Some ''ERSY'', Some ''LACE'', Some ''LPEN'', Some ''BPU3'', Some ''BYPASS'', Some ''SHRES'', Some ''UHRES'', Some
     ''GAUD'', Some ''COLOR'', Some ''DPF'', Some ''HAM'', None, None, None, Some ''HIRES'']"

definition CIA_REGISTERS :: "string option list" where
  "CIA_REGISTERS = [
     Some ''PRA'', Some ''PRB'', Some ''DDRA'', Some ''DDRB'', Some ''TALO'', Some ''TAHI'', Some ''TBLO'', Some ''TBHI'', Some
     ''TODLO'', Some ''TODMID'', Some ''TODHI'', None, Some ''SDR'', Some ''ICR'', Some ''CRA'', Some ''CRB'']"

definition VECTORS :: "(int \<times> string) list" where
  "VECTORS = [
     (0, ''Reset initial SSP''), (1, ''Reset initial PC''), (2, ''Bus error''), (3, ''Address error''), (4, ''Illegal instruction''),
     (5, ''Zero divide''), (6, ''CHK''), (7, ''TRAPV''), (8, ''Privilege violation''), (9, ''Trace''), (10, ''Line A emulator''), (11,
     ''Line F emulator''), (13, ''Coprocessor protocol violation''), (14, ''Format error''), (15, ''Uninitialized interrupt''), (24,
     ''Spurious interrupt''), (48, ''FPU branch or set on unordered''), (49, ''FPU inexact result''), (50, ''FPU divide by zero''),
     (51, ''FPU underflow''), (52, ''FPU operand error''), (53, ''FPU overflow''), (54, ''FPU signaling NaN''), (55, ''FPU
     unimplemented data type''), (56, ''MMU configuration error''), (57, ''MMU illegal operation''), (58, ''MMU access level
     violation'')]"

definition INTERRUPT_LEVELS :: "(int \<times> string) list" where
  "INTERRUPT_LEVELS = [(1, ''TBE, DSKBLK, SOFT''), (2, ''PORTS (CIA-A)''), (3, ''COPER, VERTB, BLIT''),
     (4, ''AUD0-AUD3''), (5, ''RBF, DSKSYN''), (6, ''EXTER (CIA-B)''), (7, ''NMI'')]"

definition REGIONS :: "(int \<times> int \<times> string) list" where
  "REGIONS = [(0x000000, 0x200000, ''Chip RAM''), (0x200000, 0xA00000, ''Zorro II fast RAM''),
     (0xBFD000, 0xBFE000, ''CIA-B''), (0xBFE000, 0xBFF000, ''CIA-A''),
     (0xC00000, 0xD80000, ''Slow RAM''), (0xDC0000, 0xDD0000, ''Real-time clock''),
     (0xDFF000, 0xDFF200, ''Custom chips''), (0xE80000, 0xF00000, ''Zorro II autoconfig''),
     (0xF00000, 0xF80000, ''Extended ROM''), (0xF80000, 0x1000000, ''Kickstart ROM'')]"

text \<open>\<open>bits\<close>\<close>

definition flag_names :: "int \<Rightarrow> string option list \<Rightarrow> string list" where
  "flag_names v names = List.map_filter (\<lambda>i. if bit v i then names ! i else None) [0..<length names]"

definition custom_name :: "int \<Rightarrow> string" where
  "custom_name offs = (case map_of CUSTOM offs of Some s \<Rightarrow> s | None \<Rightarrow> ''custom+$'' @ fmt_hex True 3 offs)"

definition vector_name :: "int \<Rightarrow> string" where
  "vector_name v =
     (if 25 \<le> v \<and> v \<le> 31 then
        ''Level '' @ fmt_dec (v - 24) @ '' interrupt autovector ('' @ the (map_of INTERRUPT_LEVELS (v - 24)) @ '')''
      else if 32 \<le> v \<and> v \<le> 47 then ''TRAP #'' @ fmt_dec (v - 32)
      else if 64 \<le> v then ''User interrupt vector '' @ fmt_dec v
      else (case map_of VECTORS v of Some s \<Rightarrow> s | None \<Rightarrow> ''Reserved vector '' @ fmt_dec v))"

definition cia_register :: "int \<Rightarrow> string option" where
  "cia_register address =
     (if address AND NOT 0xF00 \<in> {0xBFE001, 0xBFD000} then CIA_REGISTERS ! nat (drop_bit 8 address AND 0xF) else None)"

definition address_kind :: "int \<Rightarrow> pydict" where
  "address_kind address =
     (if 0xDFF000 \<le> address \<and> address < 0xDFF200 then
        [(''kind'', VStr ''custom''), (''name'', VStr (custom_name (address AND 0x1FE))), (''offset'', VInt (address AND 0x1FE))]
      else case cia_register address of
        Some name \<Rightarrow>
          [(''kind'', VStr ''cia''), (''chip'', VStr (if odd address then ''CIA-A'' else ''CIA-B'')),
           (''name'', VStr ((if odd address then ''ciaa'' else ''ciab'') @ py_lower name)), (''register'', VStr name)]
      | None \<Rightarrow>
          if address < 0x400 \<and> address mod 4 = 0 then
            [(''kind'', VStr ''vector''), (''vector'', VInt (address div 4)), (''name'', VStr (vector_name (address div 4)))] @
            (if address = 4 then [(''note'', VStr ''AbsExecBase: the ExecBase pointer after boot'')] else [])
          else [])"

definition region_of :: "int \<Rightarrow> pydict" where
  "region_of address = (case rev (filter (\<lambda>(a, b, name). a \<le> address \<and> address < b) REGIONS) of
     (a, b, name) # rs \<Rightarrow> [(''region'', VStr name)] | [] \<Rightarrow> [])"

text \<open>\<open>lookup_address\<close>\<close>

definition well_known :: "int \<Rightarrow> pydict" where
  "well_known address = [(''address'', VInt address)] @ address_kind address @ region_of address"

definition lookup_action :: "pyval \<Rightarrow> pydict dm" where
  "lookup_action address = dbind (dres (integer ''address'' MAX32 0 address)) (\<lambda>a. dret (well_known a))"

section \<open>Tables of library vectors\<close>

type_synonym fd_tables = "(string \<times> (int \<times> string) list) list"

definition FD_TABLES :: fd_tables where
  "FD_TABLES = ALL_LVOS"

definition library_key :: "string \<Rightarrow> string" where
  "library_key name =
     (let t = py_lower (py_strip name);
          key = (if length t \<ge> 8 \<and> drop (length t - 8) t = ''.library'' then take (length t - 8) t else t)
      in if key = ''graphics'' then ''gfx'' else key)"

text \<open>The name of a function line: \<open>([A-Za-z_][A-Za-z0-9_]*)\s*\(\<close>.\<close>

definition name_char :: "char \<Rightarrow> bool" where
  "name_char c = (let n = chr_code c in (65 \<le> n \<and> n \<le> 90) \<or> n = 95 \<or> (97 \<le> n \<and> n \<le> 122) \<or> (48 \<le> n \<and> n \<le> 57))"

definition fd_name :: "string \<Rightarrow> string option" where
  "fd_name line = (case takeWhile name_char line of
     [] \<Rightarrow> None
   | c # s \<Rightarrow>
       if (48 \<le> chr_code c \<and> chr_code c \<le> 57) then None
       else (case dropWhile is_space (dropWhile name_char line) of x # r \<Rightarrow> if x = CHR ''('' then Some (c # s) else None | [] \<Rightarrow> None))"

text \<open>The lines from one on: the table so far and the offset of the next function, when \<open>##bias\<close> has set it.\<close>

fun fd_lines :: "string list \<Rightarrow> (int \<times> string) list \<Rightarrow> int option \<Rightarrow> (int \<times> string) list res" where
  "fd_lines [] table bias = Inr table"
| "fd_lines (raw # rest) table bias =
     (let line = py_strip raw
      in if line = [] \<or> py_startswith line ''*'' then fd_lines rest table bias
         else if py_startswith line ''##'' then
           (case py_words (drop 2 line) of
              [w, n] \<Rightarrow>
                if w = ''bias'' then res_bind (py_int 10 n) (\<lambda>b. fd_lines rest table (Some b))
                else if w = ''end'' then Inr table else fd_lines rest table bias
            | w # ws \<Rightarrow> if w = ''end'' then Inr table else fd_lines rest table bias
            | [] \<Rightarrow> fd_lines rest table bias)
         else (case (fd_name line, bias) of
             (Some name, Some b) \<Rightarrow> fd_lines rest (AList.update (- b) name table) (Some (b + 6))
           | _ \<Rightarrow> Inl (DebugError (''Invalid FD line: '' @ take 80 line))))"

definition parse_fd :: "string \<Rightarrow> (int \<times> string) list res" where
  "parse_fd t = res_bind (fd_lines (py_splitlines t) [] None) (\<lambda>table.
     if table = [] then Inl (DebugError ''The FD file defines no functions'') else Inr table)"

definition fd_lookup :: "fd_tables \<Rightarrow> int \<Rightarrow> string \<Rightarrow> pydict res" where
  "fd_lookup fds offs library =
     (case map_of fds (library_key library) of
        None \<Rightarrow> Inl (DebugError (''No FD table for '' @ library @ ''; load its .fd file''))
      | Some table \<Rightarrow>
          let name = map_of table (- \<bar>offs\<bar>)
          in Inr [(''library'', VStr (library_key library)), (''offset'', VInt (- \<bar>offs\<bar>)), (''name'', opt_text name), (''found'', VBool (name \<noteq> None))])"

text \<open>\<open>int(text, 0)\<close>: the prefix gives the base, and a decimal number has no leading zero.\<close>

definition int_base0 :: "string \<Rightarrow> int option" where
  "int_base0 s =
     (let t = int_trim s;
          neg = py_startswith t ''-'';
          u = (if neg \<or> py_startswith t ''+'' then tl t else t);
          p = py_lower (take 2 u);
          body = (if py_startswith (drop 2 u) ''_'' then drop 3 u else drop 2 u);
          n = (if p = ''0x'' then int_body 16 True 0 body else if p = ''0o'' then int_body 8 True 0 body
               else if p = ''0b'' then int_body 2 True 0 body
               else if py_startswith u ''0'' then (case int_body 10 True 0 u of Some 0 \<Rightarrow> Some 0 | _ \<Rightarrow> None)
               else int_body 10 True 0 u)
      in map_option (\<lambda>k. if neg then - int k else int k) n)"

definition lvo_offset :: "pyval \<Rightarrow> int res" where
  "lvo_offset v =
     (let wrong = Inl (DebugError ''offset must be a library vector offset such as -552'')
      in case (case v of
           VStr s \<Rightarrow>
             (let t = dropWhile (\<lambda>c. c = CHR ''+'' \<or> c = CHR ''-'') (py_strip s)
              in if py_isdigit t then py_int_opt 10 (py_strip s) else int_base0 s)
         | VInt n \<Rightarrow> Some n | _ \<Rightarrow> None) of
           Some n \<Rightarrow> if 6 \<le> \<bar>n\<bar> \<and> \<bar>n\<bar> \<le> 0x8000 then Inr n else wrong
         | None \<Rightarrow> wrong)"

text \<open>\<open>content\<close> is what reading the file gives. The tables after the operation are part of the result.\<close>

definition fd_action :: "string \<Rightarrow> pyval \<Rightarrow> string \<Rightarrow> byte list res \<Rightarrow> fd_tables \<Rightarrow> (pyval \<times> fd_tables) res" where
  "fd_action operation offs library content fds =
     (if operation = ''libraries'' then
        Inr (VList (map (\<lambda>(k, t). VDict [(''library'', VStr k), (''functions'', VInt (int (length t)))])
          (sort_key (\<lambda>e. map chr_code (fst e)) fds)), fds)
      else if operation = ''lookup'' then res_bind (lvo_offset offs) (\<lambda>n. res_bind (fd_lookup fds n library) (\<lambda>m. Inr (VDict m, fds)))
      else if operation = ''list'' then
        (case map_of fds (library_key library) of
           None \<Rightarrow> Inl (DebugError (''No FD table for '' @ library))
         | Some t \<Rightarrow> Inr (VList (map (\<lambda>(o1, n). VDict [(''offset'', VInt o1), (''name'', VStr n)]) (sort_key (\<lambda>e. - fst e) t)), fds))
      else if operation = ''load'' then
        res_bind content (\<lambda>bs. res_bind (parse_fd (bytes_text bs)) (\<lambda>t.
          let fds' = AList.update (library_key library) t fds
          in Inr (VDict [(''library'', VStr (library_key library)), (''functions'', VInt (int (length t)))], fds')))
      else Inl (DebugError ''FD operation must be libraries, lookup, list or load''))"

section \<open>Annotated disassembly\<close>

text \<open>\<open>ln_Name\<close> of the library node at \<open>base\<close>.\<close>

definition library_name :: "int \<Rightarrow> string option dm" where
  "library_name base = dcatch
     (dbind (read_bytes base 14) (\<lambda>node.
        let ptr = be_value (take 4 (drop 10 node))
        in if node ! 8 \<noteq> 9 \<or> ptr = 0 then dret None
           else dbind (read_bytes ptr 32) (\<lambda>t. case takeWhile (\<lambda>b. b \<noteq> 0) t of [] \<Rightarrow> dret None | bs \<Rightarrow> dret (Some (bytes_text bs)))))
     (\<lambda>message. dret None)"

text \<open>\<open>\b(JSR|JMP)\s+\(-\$([0-9a-fA-F]+),a6\)\<close> in either case, from a place on; \<open>start\<close> says that a word may begin.\<close>

definition call_at :: "string \<Rightarrow> int option" where
  "call_at s =
     (let r = dropWhile is_space (drop 3 s)
      in if py_lower (take 3 s) \<in> {''jsr'', ''jmp''} \<and> takeWhile is_space (drop 3 s) \<noteq> [] \<and> py_startswith r ''(-$'' \<and>
            takeWhile is_hex (drop 3 r) \<noteq> [] \<and> py_startswith (py_lower (dropWhile is_hex (drop 3 r))) '',a6)''
         then py_int_opt 16 (takeWhile is_hex (drop 3 r)) else None)"

fun find_call :: "bool \<Rightarrow> string \<Rightarrow> int option" where
  "find_call start [] = None"
| "find_call start (c # s) =
     (case (if start then call_at (c # s) else None) of Some n \<Rightarrow> Some n | None \<Rightarrow> find_call (\<not> word_char c) s)"

fun first_function :: "fd_tables \<Rightarrow> int \<Rightarrow> string option" where
  "first_function [] n = None"
| "first_function ((key, table) # fds) n =
     (case map_of table n of Some name \<Rightarrow> Some (key @ ''.'' @ name @ ''()'') | None \<Rightarrow> first_function fds n)"

definition annotate_line :: "fd_tables \<Rightarrow> string \<Rightarrow> string option \<Rightarrow> string option" where
  "annotate_line fds line library =
     (case find_call True line of
        None \<Rightarrow> None
      | Some k \<Rightarrow>
          (case library of
             Some (c # s) \<Rightarrow>
               (case map_of fds (library_key (c # s)) of
                  None \<Rightarrow> None
                | Some table \<Rightarrow>
                    (case map_of table (- k) of
                       Some (x # xs) \<Rightarrow> Some (library_key (c # s) @ ''.'' @ (x # xs) @ ''()'') | _ \<Rightarrow> None))
           | _ \<Rightarrow> first_function fds (- k)))"

definition line_entry :: "fd_tables \<Rightarrow> tables \<Rightarrow> bool \<Rightarrow> bool \<Rightarrow> string option \<Rightarrow> string option \<Rightarrow> string \<Rightarrow> pyval" where
  "line_entry fds ts annotate source_xref library project line =
     (let a = line_address False line
      in VDict ([(''text'', VStr line)] @ (case a of Some n \<Rightarrow> [(''address'', VInt n)] | None \<Rightarrow> []) @
           (case (if annotate then annotate_line fds line library else None) of Some s \<Rightarrow> [(''annotation'', VStr s)] | None \<Rightarrow> []) @
           (case (if source_xref then a else None) of
              Some n \<Rightarrow>
                (let info = annotate_address_full ts n project
                 in if truthy (dict_get info ''symbol'' VNone) \<or> truthy (dict_get info ''file'' VNone) then [(''source'', VDict info)] else [])
            | None \<Rightarrow> [])))"

definition disassemble_action ::
    "fd_tables \<Rightarrow> tables \<Rightarrow> pyval \<Rightarrow> pyval \<Rightarrow> pyval \<Rightarrow> string option \<Rightarrow> pyval \<Rightarrow> string option \<Rightarrow> pydict dm" where
  "disassemble_action fds ts address count annotate library source_xref project = locked True (Some ''disasm'')
     (dbind (if address = VStr ''pc'' then dbind read_registers (\<lambda>r. dret (Some r, VInt (reg ''PC'' r))) else dret (None, address)) (\<lambda>(rs, v).
        dbind (dres (integer ''address'' MAX32 0 v)) (\<lambda>a. dbind (dres (integer ''count'' 256 1 count)) (\<lambda>n.
        dbind (monitor_text (''disasm '' @ fmt_hex False 0 a @ '' '' @ fmt_dec n) None) (\<lambda>t.
        dbind (dres (boolean ''annotate'' annotate)) (\<lambda>b.
        dbind (case (library, rs) of
            (None, Some r) \<Rightarrow>
              if b then dbind (library_name (reg ''A6'' r)) (\<lambda>name. dret (case name of
                  Some (c # s) \<Rightarrow> if map_of fds (library_key (c # s)) \<noteq> None then Some (c # s) else None | _ \<Rightarrow> None))
              else dret None
          | _ \<Rightarrow> dret library) (\<lambda>lib.
        let whole = (case t of Some s \<Rightarrow> s | None \<Rightarrow> [])
        in dbind (if py_splitlines whole = [] then dret False else dres (boolean ''source_xref'' source_xref)) (\<lambda>x.
          dret [(''address'', VInt a), (''text'', VStr whole),
            (''lines'', VList (map (line_entry fds ts b x lib project) (py_splitlines whole))), (''library'', opt_text lib)]))))))))"

section \<open>Custom registers and Copper lists\<close>

definition custom_registers :: "(int \<Rightarrow> int) dm" where
  "custom_registers = dbind (read_bytes 0xDFF000 0x200) (\<lambda>data. dret (\<lambda>offs. be_value (take 2 (drop (nat offs) data))))"

definition custom_long :: "(int \<Rightarrow> int) \<Rightarrow> int \<Rightarrow> int" where
  "custom_long rs offs = (push_bit 16 (rs offs) OR rs (offs + 2))"

definition str_list :: "string list \<Rightarrow> pyval" where
  "str_list ss = VList (map VStr ss)"

definition int_list :: "int list \<Rightarrow> pyval" where
  "int_list ns = VList (map VInt ns)"

definition plane_count :: "int \<Rightarrow> int" where
  "plane_count bplcon0 = (drop_bit 12 bplcon0 AND 7) + (if bplcon0 AND 0x10 \<noteq> 0 then 8 else 0)"

definition custom_decoded :: "(int \<Rightarrow> int) \<Rightarrow> pydict" where
  "custom_decoded rs =
     [(''dmacon'', str_list (flag_names (rs 0x002) DMACON_BITS)), (''intena'', str_list (flag_names (rs 0x01C) INT_BITS)),
      (''intreq'', str_list (flag_names (rs 0x01E) INT_BITS)), (''bplcon0'', str_list (flag_names (rs 0x100) BPLCON0_BITS)),
      (''planes'', VInt (plane_count (rs 0x100))),
      (''bitplanes'', int_list (map (\<lambda>n. custom_long rs (0x0E0 + int n * 4)) [0..<8])),
      (''sprites'', int_list (map (\<lambda>n. custom_long rs (0x120 + int n * 4)) [0..<8])),
      (''cop1lc'', VInt (custom_long rs 0x080)), (''cop2lc'', VInt (custom_long rs 0x084)), (''dskpt'', VInt (custom_long rs 0x020)),
      (''blitter'', VDict [(''bltcon0'', VInt (rs 0x040)), (''bltcon1'', VInt (rs 0x042)), (''apt'', VInt (custom_long rs 0x050)),
         (''bpt'', VInt (custom_long rs 0x04C)), (''cpt'', VInt (custom_long rs 0x048)), (''dpt'', VInt (custom_long rs 0x054))]),
      (''display'', VDict [(''diwstrt'', VInt (rs 0x08E)), (''diwstop'', VInt (rs 0x090)), (''ddfstrt'', VInt (rs 0x092)),
         (''ddfstop'', VInt (rs 0x094)), (''bpl1mod'', VInt (rs 0x108)), (''bpl2mod'', VInt (rs 0x10A)), (''fmode'', VInt (rs 0x1FC))]),
      (''colors'', int_list (map (\<lambda>n. rs (0x180 + int n * 2)) [0..<32]))]"

definition named_registers :: "(int \<Rightarrow> int) \<Rightarrow> pydict" where
  "named_registers rs = List.map_filter (\<lambda>i. case map_of CUSTOM (2 * int i) of Some name \<Rightarrow> Some (name, VInt (rs (2 * int i))) | None \<Rightarrow> None) [0..<256]"

definition custom_action :: "pydict dm" where
  "custom_action = locked True None
     (dbind custom_registers (\<lambda>rs. dbind (monitor ''execution-status'' None) (\<lambda>beam.
        dret [(''registers'', VDict (named_registers rs)), (''decoded'', VDict (custom_decoded rs)),
          (''beam'', case beam of VDict m \<Rightarrow> VDict (map (\<lambda>k. (k, dict_get m k VNone)) [''frame'', ''vpos'', ''hpos'']) | _ \<Rightarrow> VNone)])))"

text \<open>The instructions get the names of this module's table, and their addresses again.\<close>

definition int_field :: "pydict \<Rightarrow> string \<Rightarrow> int" where
  "int_field m k = (case map_of m k of Some (VInt n) \<Rightarrow> n | _ \<Rightarrow> 0)"

definition name_move :: "int \<Rightarrow> pydict \<Rightarrow> pydict" where
  "name_move a inst =
     (let moved = (if map_of inst ''type'' = Some (VStr ''MOVE'') then
                     (let name = custom_name (int_field inst ''register'')
                      in dict_set (dict_set inst ''regName'' (VStr name)) ''text''
                           (VStr (''MOVE #$'' @ fmt_hex True 4 (int_field inst ''value'') @ '','' @ name)))
                   else inst)
      in dict_set moved ''address'' (VInt (a + int_field inst ''offset'')))"

definition copper_base :: "pyval \<Rightarrow> int option" where
  "copper_base address = (if address = VStr ''cop1lc'' then Some 0x080 else if address = VStr ''cop2lc'' then Some 0x084 else None)"

definition copper_action :: "pyval \<Rightarrow> pyval \<Rightarrow> pydict dm" where
  "copper_action address count = locked True None
     (dbind (case copper_base address of
         Some b \<Rightarrow> dbind custom_registers (\<lambda>rs. dret (VInt (custom_long rs b))) | None \<Rightarrow> dret address) (\<lambda>v.
        dbind (dres (integer ''address'' MAX32 0 v)) (\<lambda>a. dbind (dres (integer ''count'' 4096 1 count)) (\<lambda>n.
        dbind (read_bytes a (4 * nat n)) (\<lambda>data. dbind (dres (decode_copper_list (bytes_hex False data) a)) (\<lambda>insts.
          dret [(''address'', VInt a), (''instructions'', VList (map (\<lambda>i. VDict (name_move a i)) insts))]))))))"

section \<open>The stack\<close>

definition word_in :: "byte list \<Rightarrow> nat \<Rightarrow> int" where
  "word_in bs i = be_value (take 2 (drop i bs))"

definition call_before :: "byte list \<Rightarrow> bool" where
  "call_before before =
     (let lst = word_in before 4; mid = word_in before 2; fst_word = word_in before 0
      in (lst AND 0xFF00 = 0x6100 \<and> lst AND 0xFF \<notin> {0, 0xFF}) \<or> (0x4E90 \<le> lst \<and> lst \<le> 0x4E97) \<or>
         mid = 0x6100 \<or> (0x4EA8 \<le> mid \<and> mid \<le> 0x4EB8) \<or> mid \<in> {0x4EBA, 0x4EBB} \<or> fst_word \<in> {0x61FF, 0x4EB9})"

text \<open>
  Ranges of a memory map or of the segments of a program. The interpreter's own exceptions, for replies of another
  shape, are \<open>TypeError\<close>.
\<close>

definition range_of :: "pydict \<Rightarrow> (int \<times> int) res" where
  "range_of m = (case (map_of m ''address'', map_of m ''size'') of
     (Some (VInt a), Some (VInt n)) \<Rightarrow> Inr (a, a + n) | _ \<Rightarrow> Inl TypeError)"

definition region_list :: "pyval \<Rightarrow> pydict list res" where
  "region_list report =
     (case (case report of VDict m \<Rightarrow> dict_get m ''regions'' report | v \<Rightarrow> v) of
        VList vs \<Rightarrow> Inr (filter (\<lambda>m. map_of m ''address'' \<noteq> None \<and> map_of m ''size'' \<noteq> None)
          (List.map_filter (\<lambda>v. case v of VDict m \<Rightarrow> Some m | _ \<Rightarrow> None) vs))
      | VDict m \<Rightarrow> Inr [] | VStr s \<Rightarrow> Inr [] | _ \<Rightarrow> Inl TypeError)"

definition memory_regions :: "pydict list dm" where
  "memory_regions = dcatch (dbind (monitor ''memory-map'' (Some ''memory-map'')) (\<lambda>r. dres (region_list r))) (\<lambda>message. dret [])"

definition segment_ranges :: "(int \<times> int) list dm" where
  "segment_ranges = dcatch (dbind (monitor ''segments'' (Some ''segments'')) (\<lambda>r. dres
     (case r of
        VDict m \<Rightarrow> (case dict_get m ''segments'' (VList []) of
           VList vs \<Rightarrow> res_map (\<lambda>v. case v of VDict s \<Rightarrow> range_of s | _ \<Rightarrow> Inl TypeError) vs | _ \<Rightarrow> Inl TypeError)
      | _ \<Rightarrow> Inl TypeError))) (\<lambda>message. dret [])"

definition of_type :: "string list \<Rightarrow> pydict \<Rightarrow> bool" where
  "of_type types m = (case map_of m ''type'' of Some (VStr t) \<Rightarrow> t \<in> set types | _ \<Rightarrow> False)"

definition within :: "int \<Rightarrow> int \<Rightarrow> (int \<times> int) list \<Rightarrow> bool" where
  "within k v rs = list_ex (\<lambda>(a, b). a + k \<le> v \<and> v < b) rs"

definition word_kind :: "(int \<times> int) list \<Rightarrow> (int \<times> int) list \<Rightarrow> int \<Rightarrow> string dm" where
  "word_kind mapped code v =
     (let other = (if even v \<and> within 0 v code then ''code'' else ''data'')
      in if even v \<and> within 6 v mapped then
           dbind (read_bytes (v - 6) 6) (\<lambda>bs. dret (if call_before bs then ''return'' else other))
         else dret other)"

definition stack_action :: "pyval \<Rightarrow> pydict dm" where
  "stack_action depth = locked True None
     (dbind (dres (integer ''depth'' 1024 1 depth)) (\<lambda>n. dbind read_registers (\<lambda>r.
        let sp = reg ''A7'' r
        in dbind (read_bytes sp (4 * nat n)) (\<lambda>data. dbind memory_regions (\<lambda>regions.
           dbind (dres (res_map range_of (filter (of_type [''ram'', ''rom'']) regions))) (\<lambda>mapped.
           dbind (dres (res_map range_of (filter (of_type [''rom'']) regions))) (\<lambda>rom. dbind segment_ranges (\<lambda>segs.
           dbind (dmap (\<lambda>i.
               let v = be_value (take 4 (drop (4 * i) data))
               in dbind (word_kind mapped (rom @ segs) v) (\<lambda>kind.
                    dret (VDict [(''offset'', VInt (4 * int i)), (''address'', VInt (sp + 4 * int i)), (''value'', VInt v), (''kind'', VStr kind)])))
             [0..<nat n]) (\<lambda>ws. dret [(''sp'', VInt sp), (''words'', VList ws)])))))))))"

end
