(* ===== verification/Winuae_State.thy ===== *)
theory Winuae_State
  imports Winuae_Guest
begin

text \<open>
  Checkpoints of the WinUAE debugger (\<open>winuae_state.py\<close>): slots, saving and restoring a state file with the
  session's breakpoints lifted, the ring of automatic snapshots, state files and their comparison. The
  decompression of a chunk (zlib) and the file system are arguments.
\<close>

section \<open>Slots and paths\<close>

text \<open>The name of the file of a slot, in the folder \<open>dir\<close>.\<close>

definition slot_path :: "string \<Rightarrow> string \<Rightarrow> string res" where
  "slot_path dir name =
     (let kind = before_char CHR ''-'' name; number = after_char CHR ''-'' name;
          wrong = Inl (DebugError ''Snapshot slots are slot-1 .. slot-9 or auto-N'')
      in if kind \<notin> {''slot'', ''auto''} \<or> \<not> py_isdigit number then wrong
         else res_bind (py_int 10 number) (\<lambda>n.
           if kind = ''slot'' \<and> n \<notin> {1..9} then wrong else Inr (dir @ ''/'' @ kind @ ''-'' @ fmt_dec n @ ''.uss'')))"

definition utf8_length :: "string \<Rightarrow> nat" where
  "utf8_length s = sum_list (map (\<lambda>c. if chr_code c < 128 then 1 else 2) s)"

text \<open>\<open>resolve\<close> is \<open>Path(...).expanduser().resolve()\<close>.\<close>

definition state_file :: "string \<Rightarrow> (string \<Rightarrow> string) \<Rightarrow> pyval \<Rightarrow> string res" where
  "state_file dir resolve v =
     (case v of
        VStr s \<Rightarrow>
          if py_startswith s ''slot-'' \<or> py_startswith s ''auto-'' then slot_path dir s
          else if s = [] \<or> set s \<inter> {CHR 0x00, CHR 0x0D, CHR 0x0A} \<noteq> {} then Inl (DebugError ''Supply a state file path or a slot name'')
          else if 900 < utf8_length (resolve s) then Inl (DebugError ''State file path is too long'')
          else Inr (resolve s)
      | _ \<Rightarrow> Inl (DebugError ''Supply a state file path or a slot name''))"

section \<open>State files\<close>

type_synonym chunk = "string \<times> byte list"

text \<open>The chunks of the rest of a file. A chunk has a name, a size, flags and data, padded.\<close>

definition chunk_size_at :: "byte list \<Rightarrow> int" where
  "chunk_size_at data = be_value (take 4 (drop 4 data))"

definition chunk_end :: "int \<Rightarrow> int \<Rightarrow> int" where
  "chunk_end n flags = (let written = (if odd flags then n - 16 else n - 12) in n + 4 - (written AND 3))"

lemma chunk_end_pos: "12 < n \<Longrightarrow> 0 < nat (chunk_end n flags)"
  using AND_upper2 [of 3 "if odd flags then n - 16 else n - 12"] by (simp add: chunk_end_def Let_def split: if_splits)

function parse_chunks :: "(byte list \<Rightarrow> byte list option) \<Rightarrow> string \<Rightarrow> byte list \<Rightarrow> chunk list res" where
  "parse_chunks inflate path data =
     (if length data < 8 then Inr []
      else
        let name = bytes_text (take 4 data); n = chunk_size_at data;
            flags = be_value (take 4 (drop 8 data)); body = take (nat (n - 12)) (drop 12 data)
        in if n \<le> 12 then
             (if name = ''END '' then Inr [] else Inl (DebugError (''Invalid empty chunk '' @ py_repr name @ '' in '' @ path)))
           else if int (length body) \<noteq> n - 12 then Inl (DebugError (''Truncated chunk '' @ py_repr name @ '' in '' @ path))
           else res_bind (if odd flags then
               (case inflate (drop 4 body) of
                  Some bs \<Rightarrow> Inr bs | None \<Rightarrow> Inl (DebugError (''Corrupt compressed chunk '' @ py_repr name @ '' in '' @ path)))
               else Inr body)
             (\<lambda>bs. res_bind (parse_chunks inflate path (drop (nat (chunk_end n flags)) data)) (\<lambda>rest. Inr ((name, bs) # rest))))"
  by pat_completeness auto
termination
  by (relation "measure (\<lambda>(inflate, path, data). length data)") (auto simp: not_le intro!: diff_less chunk_end_pos [simplified])

declare parse_chunks.simps [simp del]

definition parse_state :: "(byte list \<Rightarrow> byte list option) \<Rightarrow> string \<Rightarrow> byte list \<Rightarrow> chunk list res" where
  "parse_state inflate path data = res_bind (parse_chunks inflate path data) (\<lambda>cs.
     if cs = [] \<or> fst (hd cs) \<noteq> ''ASF '' then Inl (DebugError (path @ '' is not a WinUAE state file'')) else Inr cs)"

definition longs_at :: "byte list \<Rightarrow> nat \<Rightarrow> nat \<Rightarrow> int list" where
  "longs_at cpu offs n = map (\<lambda>i. be_value (take 4 (drop (offs + 4 * i) cpu))) [0..<n]"

definition cpu_registers :: "byte list \<Rightarrow> registers" where
  "cpu_registers cpu =
     (let model = be_value (take 4 cpu); usp = be_value (take 4 (drop 76 cpu)); isp = be_value (take 4 (drop 80 cpu));
          sw = be_value (take 2 (drop 84 cpu))
      in zip (take 15 REGISTERS) (longs_at cpu 8 15) @
         [(''PC'', be_value (take 4 (drop 68 cpu))), (''A7'', if sw AND 0x2000 \<noteq> 0 then isp else usp), (''SR'', sw), (''USP'', usp), (''ISP'', isp)] @
         (if 68010 \<le> model \<and> 102 \<le> length cpu then [(''VBR'', be_value (take 4 (drop 98 cpu)))] else []))"

definition saved_registers :: "(byte list \<Rightarrow> byte list option) \<Rightarrow> string \<Rightarrow> byte list \<Rightarrow> registers res" where
  "saved_registers inflate path data = res_bind (parse_state inflate path data) (\<lambda>cs.
     case filter (\<lambda>c. fst c = ''CPU '') cs of
       c # rest \<Rightarrow> if length (snd c) < 84 then Inl (DebugError (path @ '' has no CPU state'')) else Inr (cpu_registers (snd c))
     | [] \<Rightarrow> Inl (DebugError (path @ '' has no CPU state'')))"

section \<open>Comparison\<close>

text \<open>The number of bytes two blocks differ in; a missing byte differs.\<close>

definition byte_at :: "byte list \<Rightarrow> nat \<Rightarrow> byte option" where
  "byte_at bs i = (if i < length bs then Some (bs ! i) else None)"

definition block_count :: "byte list \<Rightarrow> byte list \<Rightarrow> nat" where
  "block_count x y = length (filter (\<lambda>i. byte_at x i \<noteq> byte_at y i) [0..<max (length x) (length y)])"

abbreviation DIFF_BLOCK :: nat where
  "DIFF_BLOCK \<equiv> 256"

type_synonym byte_region = "nat \<times> nat \<times> nat"

definition add_region :: "nat \<Rightarrow> nat \<Rightarrow> byte_region list \<Rightarrow> byte_region list" where
  "add_region start n rs =
     (case rev rs of
        (a, b, k) # older \<Rightarrow>
          if b = start then rev older @ [(a, start + DIFF_BLOCK, k + n)]
          else if length rs < 16 then rs @ [(start, start + DIFF_BLOCK, n)] else rs
      | [] \<Rightarrow> [(start, start + DIFF_BLOCK, n)])"

definition compare_block :: "byte list \<Rightarrow> byte list \<Rightarrow> nat \<Rightarrow> nat \<times> byte_region list \<Rightarrow> nat \<times> byte_region list" where
  "compare_block a b start acc =
     (let x = take DIFF_BLOCK (drop start a); y = take DIFF_BLOCK (drop start b)
      in if x = y then acc else (fst acc + block_count x y, add_region start (block_count x y) (snd acc)))"

text \<open>\<open>_ranges\<close>\<close>

definition block_starts :: "nat \<Rightarrow> nat list" where
  "block_starts n = map (\<lambda>i. i * DIFF_BLOCK) [0..<(n + DIFF_BLOCK - 1) div DIFF_BLOCK]"

definition differing :: "byte list \<Rightarrow> byte list \<Rightarrow> nat \<times> byte_region list" where
  "differing a b = fold (compare_block a b) (block_starts (max (length a) (length b))) (0, [])"

fun keyed_from :: "(string \<Rightarrow> nat) \<Rightarrow> (string \<times> byte list) list \<Rightarrow> chunk list \<Rightarrow> (string \<times> byte list) list" where
  "keyed_from seen acc [] = acc"
| "keyed_from seen acc ((name, body) # cs) =
     (let i = seen name; key = (if i \<noteq> 0 then py_strip name @ ''#'' @ fmt_dec (int i) else py_strip name)
      in keyed_from (seen(name := i + 1)) (AList.update key body acc) cs)"

definition keyed :: "chunk list \<Rightarrow> (string \<times> byte list) list" where
  "keyed cs = keyed_from (\<lambda>s. 0) [] cs"

definition region_dict :: "byte_region \<Rightarrow> pyval" where
  "region_dict r = (case r of (a, b, k) \<Rightarrow> VDict [(''start'', VInt (int a)), (''end'', VInt (int b)), (''bytes'', VInt (int k))])"

definition changed_entry :: "string \<Rightarrow> byte list \<Rightarrow> byte list \<Rightarrow> pyval" where
  "changed_entry key x y = VDict [(''chunk'', VStr key), (''size_a'', VInt (int (length x))), (''size_b'', VInt (int (length y))),
     (''differing_bytes'', VInt (int (fst (differing x y)))), (''regions'', VList (map region_dict (snd (differing x y))))]"

definition compare_states :: "string \<Rightarrow> string \<Rightarrow> chunk list \<Rightarrow> chunk list \<Rightarrow> pydict" where
  "compare_states a b xs ys =
     (let first = keyed xs; second = keyed ys; both = filter (\<lambda>e. map_of second (fst e) \<noteq> None) first;
          same = (\<lambda>e. map_of second (fst e) = Some (snd e))
      in [(''a'', VStr a), (''b'', VStr b),
          (''changed'', VList (map (\<lambda>e. changed_entry (fst e) (snd e) (the (map_of second (fst e)))) (filter (\<lambda>e. \<not> same e) both))),
          (''only_in_a'', VList (map (\<lambda>e. VStr (fst e)) (filter (\<lambda>e. map_of second (fst e) = None) first))),
          (''only_in_b'', VList (map (\<lambda>e. VStr (fst e)) (filter (\<lambda>e. map_of first (fst e) = None) second))),
          (''unchanged'', VInt (int (length (filter same both))))])"

definition diff_states :: "(byte list \<Rightarrow> byte list option) \<Rightarrow> string \<Rightarrow> string \<Rightarrow> byte list \<Rightarrow> byte list \<Rightarrow> pydict res" where
  "diff_states inflate a b data_a data_b =
     res_bind (parse_state inflate a data_a) (\<lambda>xs. res_bind (parse_state inflate b data_b) (\<lambda>ys. Inr (compare_states a b xs ys)))"

text \<open>\<open>fs\<close> gives the contents of files.\<close>

definition snapshot_diff :: "(byte list \<Rightarrow> byte list option) \<Rightarrow> string \<Rightarrow> (string \<Rightarrow> string) \<Rightarrow> (string \<Rightarrow> byte list option) \<Rightarrow> pyval \<Rightarrow> pyval \<Rightarrow> pydict res" where
  "snapshot_diff inflate dir resolve fs a b =
     res_bind (state_file dir resolve a) (\<lambda>p. res_bind (state_file dir resolve b) (\<lambda>q.
       case (fs p, fs q) of
         (None, _) \<Rightarrow> Inl (DebugError (''No state file at '' @ p))
       | (_, None) \<Rightarrow> Inl (DebugError (''No state file at '' @ q))
       | (Some x, Some y) \<Rightarrow> diff_states inflate p q x y))"

section \<open>Checkpoints\<close>

text \<open>Lifting breakpoints one after the other; the second list has those that have been lifted.\<close>

fun lift_points :: "point_key list \<Rightarrow> point_key list \<Rightarrow> winuae \<Rightarrow> (unit res \<times> point_key list) \<times> winuae" where
  "lift_points [] lifted d = ((Inr (), lifted), d)"
| "lift_points (k # ks) lifted d =
     (case acknowledge (CHR ''z'' # point_range k) d of
        (Inl e, d1) \<Rightarrow> ((Inl e, lifted), d1)
      | (Inr _, d1) \<Rightarrow> lift_points ks (lifted @ [k]) d1)"

text \<open>The number of lifted breakpoints.\<close>

definition save_state :: "string \<Rightarrow> nat dm" where
  "save_state path d =
     (case lift_points (map fst (points d)) [] d of
        ((r, lifted), d1) \<Rightarrow>
          dfinally
            (dbind (dres r) (\<lambda>_. dbind (monitor_text (''checkpoint save '' @ path) (Some ''checkpoint'')) (\<lambda>_. dret (length lifted))))
            (dbind (dmap (\<lambda>k. acknowledge (CHR ''Z'' # point_range k)) lifted) (\<lambda>_. dret ())) d1)"

definition registers_dict :: "registers \<Rightarrow> pyval" where
  "registers_dict rs = VDict (map (\<lambda>(name, n). (name, VInt n)) rs)"

definition now_stopped :: "registers dm" where
  "now_stopped = dthen (dmod (\<lambda>d. d\<lparr>execution := ''stopped'', stop_set := True\<rparr>)) read_registers"

text \<open>\<open>_checkpoint\<close>; \<open>exists\<close> says that there is such a file, \<open>saved\<close> is what it holds after a save.\<close>

definition checkpoint :: "(byte list \<Rightarrow> byte list option) \<Rightarrow> unit dm \<Rightarrow> bool \<Rightarrow> byte list \<Rightarrow> string \<Rightarrow> string \<Rightarrow> pydict dm" where
  "checkpoint inflate hooks exists saved operation path =
     (if operation = ''restore'' then
        (if \<not> exists then fails (''No state file at '' @ path)
         else dbind (monitor_text (''checkpoint restore '' @ path) (Some ''checkpoint'')) (\<lambda>_.
           dthen (dmod (\<lambda>d. d\<lparr>last_stop := None\<rparr>)) (dthen (rearm hooks)
             (dbind now_stopped (\<lambda>rs. dret [(''operation'', VStr operation), (''path'', VStr path), (''registers'', registers_dict rs)])))))
      else
        dbind (save_state path) (\<lambda>n. dbind now_stopped (\<lambda>rs. dbind (dres (saved_registers inflate path saved)) (\<lambda>held.
          dret ([(''operation'', VStr operation), (''path'', VStr path), (''registers'', registers_dict held), (''suspended_breakpoints'', VInt (int n))] @
            (if reg ''PC'' held \<noteq> reg ''PC'' rs then [(''stopped_at'', registers_dict rs)] else []))))))"

definition checkpoint_action ::
    "(byte list \<Rightarrow> byte list option) \<Rightarrow> unit dm \<Rightarrow> string \<Rightarrow> (string \<Rightarrow> string) \<Rightarrow> bool \<Rightarrow> byte list \<Rightarrow> string \<Rightarrow> pyval \<Rightarrow> pydict dm" where
  "checkpoint_action inflate hooks dir resolve exists saved operation path = locked True (Some ''checkpoint'')
     (if operation \<notin> {''save'', ''restore''} then fails ''Checkpoint operation must be save or restore''
      else dbind (dres (state_file dir resolve path)) (\<lambda>p. checkpoint inflate hooks exists saved operation p))"

section \<open>Automatic snapshots\<close>

record autosnap =
  s_interval :: int
  s_ring :: int
  s_next :: int
  s_saves :: int
  s_last_save :: "int option"
  s_last_error :: "string option"
  s_task :: bool

definition new_autosnap :: autosnap where
  "new_autosnap = \<lparr>s_interval = 0, s_ring = 5, s_next = 0, s_saves = 0, s_last_save = None, s_last_error = None, s_task = False\<rparr>"

definition snap_status :: "autosnap \<Rightarrow> pydict" where
  "snap_status r = [(''enabled'', VBool (0 < s_interval r)), (''interval'', VInt (s_interval r)), (''ring_size'', VInt (s_ring r)),
     (''next_slot'', VInt (s_next r mod s_ring r)), (''saves'', VInt (s_saves r)),
     (''last_save'', case s_last_save r of Some t \<Rightarrow> VInt t | None \<Rightarrow> VNone), (''last_error'', opt_text (s_last_error r))]"

definition snap_configure :: "int \<Rightarrow> int \<Rightarrow> autosnap \<Rightarrow> autosnap" where
  "snap_configure interval ring r = r\<lparr>s_interval := interval, s_ring := ring, s_task := (interval \<noteq> 0)\<rparr>"

definition autosnap_action :: "pyval \<Rightarrow> pyval \<Rightarrow> autosnap \<Rightarrow> (pydict \<times> autosnap) res" where
  "autosnap_action interval ring r =
     res_bind (if interval = VNone \<and> ring = VNone then Inr r
       else res_bind (integer ''interval'' 3600 0 (if interval = VNone then VInt (s_interval r) else interval)) (\<lambda>i.
         res_bind (integer ''ring_size'' 64 1 (if ring = VNone then VInt (s_ring r) else ring)) (\<lambda>n. Inr (snap_configure i n r))))
       (\<lambda>r'. Inr (snap_status r', r'))"

text \<open>A turn of \<open>_loop\<close> after its sleep, at the time \<open>now\<close>; \<open>save\<close> is the checkpoint of the slot with the given name.\<close>

definition snap_turn :: "(string \<Rightarrow> pydict dm) \<Rightarrow> int \<Rightarrow> autosnap \<Rightarrow> winuae \<Rightarrow> autosnap res \<times> winuae" where
  "snap_turn save now r d =
     (if \<not> up d \<or> execution d = ''host-paused'' then (Inr r, d)
      else
        let running = (execution d \<noteq> ''stopped'');
            turn = dthen (dwhen running (dbind pause_cpu (\<lambda>_. dret ())))
              (dfinally (dbind (save (''auto-'' @ fmt_dec (s_next r mod s_ring r))) (\<lambda>_. dret ()))
                (\<lambda>e. dwhen (running \<and> up e) (dbind resume (\<lambda>_. dret ())) e))
        in case turn d of
             (Inr _, e) \<Rightarrow> (Inr (r\<lparr>s_next := s_next r + 1, s_saves := s_saves r + 1, s_last_save := Some now, s_last_error := None\<rparr>), e)
           | (Inl (DebugError t), e) \<Rightarrow> (Inr (r\<lparr>s_last_error := Some t\<rparr>), e)
           | (Inl x, e) \<Rightarrow> (Inl x, e))"

section \<open>Files that WinUAE writes\<close>

text \<open>A chunk as it is written: its name, whether it is packed, and its data.\<close>

type_synonym stored = "string \<times> bool \<times> byte list"

definition be_bytes :: "nat \<Rightarrow> byte list" where
  "be_bytes n = map (\<lambda>i. of_nat (n div 256 ^ i)) [3, 2, 1, 0]"

definition padding :: "nat \<Rightarrow> byte list" where
  "padding n = replicate (4 - n mod 4) 0"

definition stored_bytes :: "(byte list \<Rightarrow> byte list) \<Rightarrow> stored \<Rightarrow> byte list" where
  "stored_bytes deflate c = (case c of (name, packed, body) \<Rightarrow>
     let data = (if packed then be_bytes (length body) @ deflate body else body);
         written = (if packed then deflate body else body)
     in text_bytes name @ be_bytes (12 + length data) @ be_bytes (if packed then 1 else 0) @ data @ padding (length written))"

definition state_bytes :: "(byte list \<Rightarrow> byte list) \<Rightarrow> stored list \<Rightarrow> byte list" where
  "state_bytes deflate cs = concat (map (stored_bytes deflate) cs) @ text_bytes ''END '' @ be_bytes 8"

definition wf_stored :: "(byte list \<Rightarrow> byte list) \<Rightarrow> stored \<Rightarrow> bool" where
  "wf_stored deflate c = (case c of (name, packed, body) \<Rightarrow>
     length name = 4 \<and> (packed \<or> body \<noteq> []) \<and> length body < 0x80000000 \<and> length (deflate body) < 0x80000000)"

lemma length_be_bytes [simp]: "length (be_bytes n) = 4"
  by (simp add: be_bytes_def)

lemma be_bytes_not_Nil [simp]: "be_bytes n \<noteq> []"
  by (simp add: be_bytes_def)

lemma be_value_bytes:
  assumes "n < 0x100000000"
  shows "be_value (be_bytes n) = int n"
proof -
  have "int (k div 256) * int 256 + int (k mod 256) = int k" for k :: nat
    by (simp only: of_nat_mult [symmetric] of_nat_add [symmetric] div_mult_mod_eq)
  then have step: "int k = int (k div 256) * 256 + int (k mod 256)" for k :: nat
    by (simp only: of_nat_numeral)
  have "n div 16777216 mod 256 = n div 16777216" using assms by simp
  moreover have "n div 65536 div 256 = n div 16777216" "n div 256 div 256 = n div 65536" by (simp_all add: div_mult2_eq [symmetric])
  ultimately have "int n = ((int (n div 16777216 mod 256) * 256 + int (n div 65536 mod 256)) * 256 + int (n div 256 mod 256)) * 256 + int (n mod 256)"
    using step [of n] step [of "n div 256"] step [of "n div 65536"] by simp
  moreover have "uint (of_nat k :: byte) = int (k mod 256)" for k by (simp add: unsigned_of_nat take_bit_eq_mod)
  ultimately show ?thesis by (simp add: be_bytes_def be_value_def)
qed

text \<open>A written chunk is read back, and the rest follows.\<close>

lemma parse_stored:
  assumes "wf_stored deflate (name, packed, body)" and "inflate (deflate body) = Some body"
  shows "parse_chunks inflate path (stored_bytes deflate (name, packed, body) @ rest) =
    res_bind (parse_chunks inflate path rest) (\<lambda>cs. Inr ((name, body) # cs))"
proof -
  let ?written = "if packed then deflate body else body"
  let ?data = "if packed then be_bytes (length body) @ deflate body else body"
  let ?n = "12 + length ?data"
  let ?whole = "stored_bytes deflate (name, packed, body) @ rest"
  have whole: "?whole = text_bytes name @ be_bytes ?n @ be_bytes (if packed then 1 else 0) @ ?data @ padding (length ?written) @ rest"
    by (simp add: stored_bytes_def Let_def)
  have name: "length (text_bytes name) = 4" using assms(1) by (simp add: wf_stored_def text_bytes_def)
  have n: "?n < 0x100000000" "12 < ?n" using assms(1) by (auto simp: wf_stored_def)
  have size: "chunk_size_at ?whole = int ?n"
    using n(1) by (simp add: chunk_size_at_def whole name be_value_bytes del: of_nat_add)
  have flags: "be_value (take 4 (drop 8 ?whole)) = (if packed then 1 else 0)"
    by (simp add: whole name be_value_bytes)
  have "12 + length ?data - (if packed then 16 else 12) = length ?written" by simp
  moreover have "k AND 3 = k mod 4" for k :: int by (rule and_3)
  ultimately have "chunk_end (int ?n) (if packed then 1 else 0) = int (?n + (4 - length ?written mod 4))"
    by (simp add: chunk_end_def Let_def of_nat_diff zmod_int)
  then have "drop (nat (chunk_end (int ?n) (if packed then 1 else 0))) ?whole = rest"
    by (simp add: whole name padding_def)
  moreover have "take (nat (int ?n - 12)) (drop 12 ?whole) = ?data" by (simp add: whole name)
  moreover have "bytes_text (take 4 ?whole) = name" by (simp add: whole name)
  moreover have "\<not> length ?whole < 8" by (simp add: whole name)
  ultimately show ?thesis
    using n(2) assms(2) size flags by (subst parse_chunks.simps) (simp add: Let_def)
qed

lemma parse_end: "parse_chunks inflate path (text_bytes ''END '' @ be_bytes 8) = Inr []"
proof -
  have "length (text_bytes ''END '' @ be_bytes 8) = 8" by (simp add: text_bytes_def)
  moreover have "chunk_size_at (text_bytes ''END '' @ be_bytes 8) = 8"
    using be_value_bytes [of 8] by (simp add: chunk_size_at_def text_bytes_def)
  moreover have "bytes_text (take 4 (text_bytes ''END '' @ be_bytes 8)) = ''END ''"
    using bytes_text_bytes [of "''END ''"] by (simp add: text_bytes_def)
  ultimately show ?thesis by (subst parse_chunks.simps) (simp add: Let_def)
qed

text \<open>C35. The chunks of a state file are read back with their names and data, packed or not, whatever their
  padding.\<close>

theorem state_roundtrip:
  assumes "\<And>body. inflate (deflate body) = Some body"
    and "list_all (wf_stored deflate) cs" and "cs \<noteq> []" and "fst (hd cs) = ''ASF ''"
  shows "parse_state inflate path (state_bytes deflate cs) = Inr (map (\<lambda>(name, packed, body). (name, body)) cs)"
proof -
  have "parse_chunks inflate path (concat (map (stored_bytes deflate) cs) @ text_bytes ''END '' @ be_bytes 8) =
      Inr (map (\<lambda>(name, packed, body). (name, body)) cs)"
    using assms(2)
  proof (induction cs)
    case (Cons c cs)
    obtain name packed body where "c = (name, packed, body)" by (cases c)
    with Cons assms(1) show ?case by (simp add: parse_stored)
  qed (simp add: parse_end)
  then show ?thesis
    using assms(3,4) by (cases cs) (auto simp: parse_state_def state_bytes_def)
qed

theorem state_roundtrip_witness:
  "parse_state (\<lambda>bs. Some (tl bs)) ''a.uss'' (state_bytes (\<lambda>bs. 0x78 # bs) [(''ASF '', False, [1, 2]), (''CPU '', True, [3])]) =
    Inr [(''ASF '', [1, 2]), (''CPU '', [3])]"
  using state_roundtrip [of "\<lambda>bs. Some (tl bs)" "\<lambda>bs. 0x78 # bs" "[(''ASF '', False, [1, 2]), (''CPU '', True, [3])]" "''a.uss''"]
  by (simp add: wf_stored_def)

section \<open>Differing bytes\<close>

definition differ_at :: "byte list \<Rightarrow> byte list \<Rightarrow> nat \<Rightarrow> bool" where
  "differ_at a b i \<longleftrightarrow> byte_at a i \<noteq> byte_at b i"

lemma byte_at_block: "byte_at (take n (drop s a)) i = (if i < n then byte_at a (s + i) else None)"
  by (auto simp: byte_at_def)

lemma filter_upt_longer:
  assumes "m \<le> n" and "\<And>i. m \<le> i \<Longrightarrow> \<not> P i"
  shows "length (filter P [0..<n]) = length (filter P [0..<m])"
proof -
  have "[0..<n] = [0..<m] @ [m..<n]" using assms(1) by (metis le0 upt_add_eq_append le_add_diff_inverse)
  then show ?thesis using assms(2) by (simp add: filter_empty_conv)
qed

lemma block_counts:
  "block_count (take DIFF_BLOCK (drop s a)) (take DIFF_BLOCK (drop s b)) = length (filter (\<lambda>i. differ_at a b (s + i)) [0..<DIFF_BLOCK])"
proof -
  let ?x = "take DIFF_BLOCK (drop s a)" and ?y = "take DIFF_BLOCK (drop s b)"
  have "byte_at ?x i \<noteq> byte_at ?y i \<longleftrightarrow> differ_at a b (s + i)" if "i < DIFF_BLOCK" for i
    using that by (simp add: byte_at_block differ_at_def)
  then have "filter (\<lambda>i. byte_at ?x i \<noteq> byte_at ?y i) [0..<DIFF_BLOCK] = filter (\<lambda>i. differ_at a b (s + i)) [0..<DIFF_BLOCK]"
    by (intro filter_cong) auto
  moreover have "length (filter (\<lambda>i. byte_at ?x i \<noteq> byte_at ?y i) [0..<DIFF_BLOCK]) = block_count ?x ?y"
    unfolding block_count_def by (rule filter_upt_longer) (auto simp: byte_at_def)
  ultimately show ?thesis by simp
qed

lemma equal_blocks: "block_count x x = 0"
  by (simp add: block_count_def)

definition blocks_done :: "byte list \<Rightarrow> byte list \<Rightarrow> nat \<Rightarrow> nat \<times> byte_region list" where
  "blocks_done a b k = fold (compare_block a b) (map (\<lambda>i. i * DIFF_BLOCK) [0..<k]) (0, [])"

lemma blocks_done_Suc: "blocks_done a b (Suc k) = compare_block a b (k * DIFF_BLOCK) (blocks_done a b k)"
  by (simp add: blocks_done_def)

lemma blocks_counted: "fst (blocks_done a b k) = length (filter (differ_at a b) [0..<k * DIFF_BLOCK])"
proof (induction k)
  case (Suc k)
  have "[0..<Suc k * DIFF_BLOCK] = [0..<k * DIFF_BLOCK] @ map (\<lambda>i. k * DIFF_BLOCK + i) [0..<DIFF_BLOCK]"
    using map_add_upt [of "k * DIFF_BLOCK" DIFF_BLOCK] upt_add_eq_append [of 0 "k * DIFF_BLOCK" DIFF_BLOCK] by (simp add: add.commute)
  then have "length (filter (differ_at a b) [0..<Suc k * DIFF_BLOCK]) =
      fst (blocks_done a b k) + block_count (take DIFF_BLOCK (drop (k * DIFF_BLOCK) a)) (take DIFF_BLOCK (drop (k * DIFF_BLOCK) b))"
    using Suc by (simp add: block_counts filter_map comp_def)
  then show ?case by (simp add: blocks_done_Suc compare_block_def Let_def equal_blocks)
qed (simp add: blocks_done_def)

definition covered :: "byte_region list \<Rightarrow> nat \<Rightarrow> bool" where
  "covered rs i \<longleftrightarrow> (\<exists>(s, e, n) \<in> set rs. s \<le> i \<and> i < e)"

lemma covered_simps [simp]:
  "\<not> covered [] i" "covered ((s, e, n) # rs) i \<longleftrightarrow> (s \<le> i \<and> i < e) \<or> covered rs i" "covered (rs @ rs') i \<longleftrightarrow> covered rs i \<or> covered rs' i"
  by (auto simp: covered_def)

definition wf_regions :: "byte_region list \<Rightarrow> bool" where
  "wf_regions rs \<longleftrightarrow> list_all (\<lambda>(s, e, n). s < e) rs"

lemma add_region_cases:
  obtains (grow) ys s0 k where "rs = ys @ [(s0, s, k)]" and "add_region s n rs = ys @ [(s0, s + DIFF_BLOCK, k + n)]"
  | (new) "length rs < 16" and "add_region s n rs = rs @ [(s, s + DIFF_BLOCK, n)]"
  | (full) "16 \<le> length rs" and "add_region s n rs = rs"
proof (cases rs rule: rev_cases)
  case Nil
  then show ?thesis using new by (simp add: add_region_def)
next
  case (snoc ys r)
  obtain s0 e0 k where r: "r = (s0, e0, k)" by (cases r)
  show ?thesis
  proof (cases "e0 = s")
    case True
    then show ?thesis using grow [of ys s0 k] snoc r by (simp add: add_region_def)
  next
    case False
    then show ?thesis using new full snoc r by (cases "length rs < 16") (simp_all add: add_region_def)
  qed
qed

lemma add_region_shape:
  assumes "wf_regions rs"
  shows "wf_regions (add_region s n rs) \<and> (length rs \<le> 16 \<longrightarrow> length (add_region s n rs) \<le> 16) \<and>
    (length (add_region s n rs) < 16 \<longrightarrow> length rs < 16 \<and> (\<forall>i. covered (add_region s n rs) i \<longleftrightarrow> covered rs i \<or> (s \<le> i \<and> i < s + DIFF_BLOCK)))"
proof (cases rs s n rule: add_region_cases)
  case (grow ys s0 k)
  have "s0 < s" using assms by (simp add: grow(1) wf_regions_def)
  then show ?thesis using assms unfolding grow(2) by (auto simp: grow(1) wf_regions_def)
next
  case new
  then show ?thesis using assms unfolding new(2) by (auto simp: wf_regions_def)
next
  case full
  then show ?thesis using assms by simp
qed

lemma blocks_covered:
  "wf_regions (snd (blocks_done a b k)) \<and> length (snd (blocks_done a b k)) \<le> 16 \<and>
   (length (snd (blocks_done a b k)) < 16 \<longrightarrow> (\<forall>i < k * DIFF_BLOCK. differ_at a b i \<longrightarrow> covered (snd (blocks_done a b k)) i))"
proof (induction k)
  case (Suc k)
  let ?x = "take DIFF_BLOCK (drop (k * DIFF_BLOCK) a)" and ?y = "take DIFF_BLOCK (drop (k * DIFF_BLOCK) b)"
  let ?rs = "snd (blocks_done a b k)"
  show ?case
  proof (cases "?x = ?y")
    case True
    have "\<not> differ_at a b i" if "k * DIFF_BLOCK \<le> i" "i < Suc k * DIFF_BLOCK" for i
    proof -
      have "i - k * DIFF_BLOCK < DIFF_BLOCK" "k * DIFF_BLOCK + (i - k * DIFF_BLOCK) = i" using that by simp_all
      then show ?thesis using arg_cong [OF True, of "\<lambda>z. byte_at z (i - k * DIFF_BLOCK)"] by (simp add: byte_at_block differ_at_def)
    qed
    then have "i < k * DIFF_BLOCK" if "i < Suc k * DIFF_BLOCK" "differ_at a b i" for i
      using that by (metis linorder_not_le)
    moreover have "snd (blocks_done a b (Suc k)) = ?rs" using True by (simp add: blocks_done_Suc compare_block_def)
    ultimately show ?thesis using Suc by simp
  next
    case False
    let ?n = "block_count ?x ?y"
    let ?rs' = "add_region (k * DIFF_BLOCK) ?n ?rs"
    have next_rs: "snd (blocks_done a b (Suc k)) = ?rs'"
      using False by (simp add: blocks_done_Suc compare_block_def Let_def)
    have shape: "wf_regions ?rs' \<and> length ?rs' \<le> 16"
      using Suc add_region_shape [of ?rs "k * DIFF_BLOCK" ?n] by blast
    have grown: "length ?rs < 16 \<and> (\<forall>i. covered ?rs' i \<longleftrightarrow> covered ?rs i \<or> (k * DIFF_BLOCK \<le> i \<and> i < k * DIFF_BLOCK + DIFF_BLOCK))"
        if "length ?rs' < 16"
      using Suc add_region_shape [of ?rs "k * DIFF_BLOCK" ?n] that by blast
    have "covered ?rs' i" if "length ?rs' < 16" "i < Suc k * DIFF_BLOCK" "differ_at a b i" for i
    proof (cases "i < k * DIFF_BLOCK")
      case True
      then show ?thesis using grown [OF that(1)] Suc that(3) by blast
    next
      case False
      then have "k * DIFF_BLOCK \<le> i \<and> i < k * DIFF_BLOCK + DIFF_BLOCK" using that(2) by simp
      then show ?thesis using grown [OF that(1)] by blast
    qed
    then show ?thesis using shape unfolding next_rs by blast
  qed
qed (simp add: blocks_done_def wf_regions_def)

lemma blocks_enough: "n \<le> (n + DIFF_BLOCK - 1) div DIFF_BLOCK * DIFF_BLOCK"
  using div_mult_mod_eq [of "n + 255" DIFF_BLOCK] mod_less_divisor [of DIFF_BLOCK "n + 255"] by simp

text \<open>C36. The comparison of two chunks counts exactly the bytes they differ in, the bytes one of them lacks included,
  and reports at most 16 regions; with fewer, they contain every such byte.\<close>

theorem differing_counts:
  "fst (differing a b) = card {i. differ_at a b i} \<and> length (snd (differing a b)) \<le> 16 \<and>
   (length (snd (differing a b)) < 16 \<longrightarrow> (\<forall>i. differ_at a b i \<longrightarrow> covered (snd (differing a b)) i))"
proof -
  let ?n = "max (length a) (length b)"
  let ?k = "(?n + DIFF_BLOCK - 1) div DIFF_BLOCK"
  have all: "?n \<le> ?k * DIFF_BLOCK" by (rule blocks_enough)
  have none: "\<not> differ_at a b i" if "?n \<le> i" for i using that by (simp add: differ_at_def byte_at_def)
  have same: "differing a b = blocks_done a b ?k" by (simp add: differing_def blocks_done_def block_starts_def)
  have inside: "i < ?k * DIFF_BLOCK" if "differ_at a b i" for i using all none [of i] that by linarith
  have "{i. differ_at a b i} = set (filter (differ_at a b) [0..<?k * DIFF_BLOCK])" using inside by auto
  then have "card {i. differ_at a b i} = length (filter (differ_at a b) [0..<?k * DIFF_BLOCK])" by (simp only: distinct_card [OF distinct_filter [OF distinct_upt]])
  then have "fst (differing a b) = card {i. differ_at a b i}" unfolding same blocks_counted by (rule sym)
  moreover have "length (snd (differing a b)) \<le> 16" using blocks_covered [of a b ?k] unfolding same by (rule conjunct1 [OF conjunct2])
  moreover have "covered (snd (differing a b)) i" if "length (snd (differing a b)) < 16" "differ_at a b i" for i
    using blocks_covered [of a b ?k, THEN conjunct2, THEN conjunct2] that inside [of i] unfolding same by blast
  ultimately show ?thesis by blast
qed

theorem differing_counts_witness:
  "covered (snd (differing [1, 2, 3] [1, 5 :: byte])) 2 \<and> fst (differing [1, 2, 3] [1, 5 :: byte]) = card {i. differ_at [1, 2, 3] [1, 5] i}"
proof -
  have "length (snd (differing [1, 2, 3] [1, 5 :: byte])) < 16" by code_simp
  moreover have "differ_at [1, 2, 3] [1, 5 :: byte] 2" by code_simp
  ultimately show ?thesis using differing_counts [of "[1, 2, 3]" "[1, 5]"] by blast
qed

end
