(* ===== verification/Winuae_Typing.thy ===== *)
theory Winuae_Typing
  imports Winuae_Guest
begin

text \<open>
  Typing through WinUAE's input (\<open>build_sequence\<close> of \<open>winuae_guest.py\<close>): a guest with the US keymap
  that carries out the steps of a sequence receives the text, and no key stays down.
\<close>

section \<open>A guest with the US keymap\<close>

text \<open>Raw key codes with their plain and shifted characters.\<close>

definition us_row :: "int \<Rightarrow> string \<Rightarrow> string \<Rightarrow> (int \<times> char \<times> char) list" where
  "us_row base plain shifted = zip (map (\<lambda>i. base + int i) [0..<length plain]) (zip plain shifted)"

definition us_keymap :: "(int \<times> char \<times> char) list" where
  "us_keymap =
     us_row 0x00 (''`1234567890-='' @ [CHR 0x5C]) ''~!@#$%^&*()_+|'' @
     us_row 0x10 ''qwertyuiop[]'' ''QWERTYUIOP{}'' @
     us_row 0x20 (''asdfghjkl;'' @ [CHR 0x27]) (''ASDFGHJKL:'' @ [CHR 0x22]) @
     us_row 0x31 ''zxcvbnm,./'' ''ZXCVBNM<>?'' @
     [(0x40, CHR '' '', CHR '' ''), (0x42, CHR 0x09, CHR 0x09), (0x44, CHR 0x0A, CHR 0x0A)]"

definition key_char :: "bool \<Rightarrow> int \<Rightarrow> string" where
  "key_char shift code = (case map_of us_keymap code of Some (p, s) \<Rightarrow> [if shift then s else p] | None \<Rightarrow> [])"

text \<open>The keys that are down and the text received so far; kind 0 is a key, value 1 presses it.\<close>

definition key_step :: "int list \<Rightarrow> int list \<times> string \<Rightarrow> int list \<times> string" where
  "key_step s k =
     (if s ! 1 \<noteq> 0 then k
      else if s ! 4 = 1 then (s ! 3 # fst k, snd k @ key_char (KEY_SHIFT \<in> set (fst k)) (s ! 3))
      else (filter (\<lambda>c. c \<noteq> s ! 3) (fst k), snd k))"

definition guest_types :: "int list list \<Rightarrow> int list \<times> string \<Rightarrow> int list \<times> string" where
  "guest_types = fold key_step"

text \<open>Every character that has a key gets that of the keymap, and every printable one has a key.\<close>

lemma keymap_agrees: "list_all (\<lambda>(c, code, sh). key_char sh code = [c] \<and> code \<noteq> KEY_SHIFT) TEXT_KEYS"
  by code_simp

lemma no_shift_char: "key_char sh KEY_SHIFT = []"
  by (cases sh) code_simp+

definition typeable :: "char \<Rightarrow> bool" where
  "typeable c \<longleftrightarrow> (32 \<le> (of_char c :: nat) \<and> (of_char c :: nat) < 127) \<or> c = CHR 0x09 \<or> c = CHR 0x0A"

lemma printable_keys: "list_all (\<lambda>c. c \<in> set (map fst TEXT_KEYS)) (map char_of [32..<127 :: nat] @ [CHR 0x09, CHR 0x0A])"
  by code_simp

lemma typeable_key:
  assumes "typeable c"
  obtains code sh where "map_of TEXT_KEYS c = Some (code, sh)" and "key_char sh code = [c]" and "code \<noteq> KEY_SHIFT"
proof -
  have "c = char_of (of_char c :: nat)" by simp
  then have "c \<in> set (map char_of [32..<127 :: nat] @ [CHR 0x09, CHR 0x0A])"
    using assms unfolding typeable_def set_append set_map set_upt by force
  then have "c \<in> fst ` set TEXT_KEYS"
    using printable_keys by (simp only: list_all_iff set_map)
  then have "map_of TEXT_KEYS c \<noteq> None" by (simp add: map_of_eq_None_iff)
  then obtain v where "map_of TEXT_KEYS c = Some v" by blast
  moreover obtain code sh where "v = (code, sh)" by (cases v)
  ultimately have k: "map_of TEXT_KEYS c = Some (code, sh)" by simp
  then have "(c, code, sh) \<in> set TEXT_KEYS" by (rule map_of_SomeD)
  then have "key_char sh code = [c] \<and> code \<noteq> KEY_SHIFT" using keymap_agrees by (auto simp only: list_all_iff)
  with k that show thesis by blast
qed

section \<open>What a tap does\<close>

lemma tap_plain: "code \<noteq> KEY_SHIFT \<Longrightarrow> guest_types (tap hold gap [code]) ([], t) = ([], t @ key_char False code)"
  by (simp add: guest_types_def tap_def key_step_def)

lemma tap_shifted:
  "code \<noteq> KEY_SHIFT \<Longrightarrow> guest_types (tap hold gap [KEY_SHIFT, code]) ([], t) = ([], t @ key_char True code)"
  by (simp add: guest_types_def tap_def key_step_def no_shift_char)

lemma typed_tap:
  assumes "typeable c"
  obtains codes where "key_taps c = Inr codes" and "guest_types (tap hold gap codes) ([], t) = ([], t @ [c])"
    and "length (tap hold gap codes) \<le> 5" and "sequence_frames (tap hold gap codes) = hold + gap"
proof -
  obtain code sh where k: "map_of TEXT_KEYS c = Some (code, sh)" "key_char sh code = [c]" "code \<noteq> KEY_SHIFT"
    using typeable_key [OF assms] by metis
  show thesis
  proof (cases sh)
    case True
    then show thesis
      using that [of "[KEY_SHIFT, code]"] k tap_shifted [of code hold gap t] by (simp add: key_taps_def tap_def sequence_frames_def)
  next
    case False
    then show thesis
      using that [of "[code]"] k tap_plain [of code hold gap t] by (simp add: key_taps_def tap_def sequence_frames_def)
  qed
qed

lemma typed_taps:
  assumes "list_all typeable s"
  shows "\<exists>taps. res_map key_taps s = Inr taps \<and> guest_types (concat (map (tap hold gap) taps)) ([], t) = ([], t @ s) \<and>
    length (concat (map (tap hold gap) taps)) \<le> 5 * length s \<and>
    sequence_frames (concat (map (tap hold gap) taps)) = int (length s) * (hold + gap)"
  using assms
proof (induction s arbitrary: t)
  case Nil
  then show ?case by (simp add: guest_types_def sequence_frames_def)
next
  case (Cons c s)
  obtain codes where c: "key_taps c = Inr codes" "guest_types (tap hold gap codes) ([], t) = ([], t @ [c])"
    "length (tap hold gap codes) \<le> 5" "sequence_frames (tap hold gap codes) = hold + gap"
    using typed_tap [of c hold gap t] Cons.prems by auto
  obtain taps where s: "res_map key_taps s = Inr taps" "guest_types (concat (map (tap hold gap) taps)) ([], t @ [c]) = ([], (t @ [c]) @ s)"
    "length (concat (map (tap hold gap) taps)) \<le> 5 * length s"
    "sequence_frames (concat (map (tap hold gap) taps)) = int (length s) * (hold + gap)"
    using Cons.IH [of "t @ [c]"] Cons.prems by auto
  show ?case
    using c s by (intro exI [of _ "codes # taps"]) (simp add: guest_types_def sequence_frames_def algebra_simps)
qed

text \<open>C37. A text of printable characters, tabs and newlines becomes a sequence that fits WinUAE's limits whenever the text is
  short enough for them; a guest with the US keymap that carries it out receives exactly the text, and no key stays
  down. The sequence lasts the hold and gap frames of each character.\<close>

theorem text_typed:
  assumes "dict_get args ''layout'' VNone = VStr ''us''" and "dict_get args ''text'' VNone = VStr s"
    and "dict_get args ''hold_frames'' (VInt 3) = VInt hold" and "1 \<le> hold" and "hold \<le> 120"
    and "dict_get args ''gap_frames'' (VInt 3) = VInt gap" and "1 \<le> gap" and "gap \<le> 120"
    and "list_all typeable s" and "s \<noteq> []" and "length s \<le> 51" and "int (length s) * (hold + gap) \<le> 3600"
  shows "\<exists>steps. build_sequence ''type_text'' args = Inr steps \<and> guest_types steps ([], []) = ([], s) \<and>
    sequence_frames steps = int (length s) * (hold + gap)"
proof -
  obtain taps where t: "res_map key_taps s = Inr taps" "guest_types (concat (map (tap hold gap) taps)) ([], []) = ([], s)"
    "length (concat (map (tap hold gap) taps)) \<le> 5 * length s"
    "sequence_frames (concat (map (tap hold gap) taps)) = int (length s) * (hold + gap)"
    using typed_taps [OF assms(9), of hold gap "[]"] by auto
  have "typed_keys args = Inr taps"
    using assms(1,2,10,11) t(1) by (cases s) (simp_all add: typed_keys_def)
  then have "sequence_of ''type_text'' args = Inr (concat (map (tap hold gap) taps))"
    using assms(3-8) by (simp add: sequence_of_def integer_def)
  moreover have "length (concat (map (tap hold gap) taps)) \<le> 256" using t(3) assms(11) by linarith
  ultimately show ?thesis using t(2,4) assms(12) by (simp add: build_sequence_def)
qed

theorem text_typed_witness:
  "\<exists>steps. build_sequence ''type_text'' [(''layout'', VStr ''us''), (''text'', VStr ''Dir S:'')] = Inr steps \<and>
     guest_types steps ([], []) = ([], ''Dir S:'') \<and> sequence_frames steps = 36"
  using text_typed [of "[(''layout'', VStr ''us''), (''text'', VStr ''Dir S:'')]" "''Dir S:''" 3 3]
  by (simp add: dict_get_def typeable_def)

end
