(* ===== verification/Logs.thy ===== *)
theory Logs
  imports Json "HOL-Library.AList"
begin

text \<open>
  The logs of the bench: the traffic log of calls (\<open>traffic_log.py\<close>), a buffer of entries with an
  index by their ids, and the log file (\<open>persistent_log.py\<close>), with one line of keys and values for an
  event. Times are arguments, as texts or values that are only stored.
\<close>

section \<open>The traffic log\<close>

record traffic =
  t_id :: string
  t_stamp :: pyval
  t_kind :: string
  t_method :: string
  t_path :: string
  t_request :: pyval
  t_response :: pyval
  t_status :: int
  t_duration :: pyval
  t_error :: "string option"

definition error_value :: "string option \<Rightarrow> pyval" where
  "error_value e = (case e of Some s \<Rightarrow> VStr s | None \<Rightarrow> VNone)"

definition traffic_dict :: "traffic \<Rightarrow> pydict" where
  "traffic_dict e = [(''id'', VStr (t_id e)), (''timestamp'', t_stamp e), (''kind'', VStr (t_kind e)), (''method'', VStr (t_method e)),
     (''path'', VStr (t_path e)), (''request_body'', t_request e), (''response_body'', t_response e), (''status'', VInt (t_status e)),
     (''duration_ms'', t_duration e), (''error'', error_value (t_error e))]"

definition summary :: "traffic \<Rightarrow> pydict" where
  "summary e = [(''id'', VStr (t_id e)), (''timestamp'', t_stamp e), (''kind'', VStr (t_kind e)), (''method'', VStr (t_method e)),
     (''path'', VStr (t_path e)), (''status'', VInt (t_status e)), (''duration_ms'', t_duration e), (''error'', error_value (t_error e))]"

record traffic_log =
  entries :: "traffic list"
  by_id :: "(string \<times> traffic) list"
  max_entries :: nat

definition new_traffic_log :: "nat \<Rightarrow> traffic_log" where
  "new_traffic_log n = \<lparr>entries = [], by_id = [], max_entries = n\<rparr>"

text \<open>\<open>append\<close> of a deque with a maximal length.\<close>

definition deque_append :: "nat \<Rightarrow> 'a \<Rightarrow> 'a list \<Rightarrow> 'a list" where
  "deque_append n x xs = (if n = 0 then [] else if length xs < n then xs @ [x] else tl xs @ [x])"

text \<open>The entry has been made of the arguments, a new id and the time.\<close>

definition record_traffic :: "traffic \<Rightarrow> traffic_log \<Rightarrow> traffic_log res" where
  "record_traffic e l =
     res_bind (if length (entries l) = max_entries l
       then (case entries l of evicted # es \<Rightarrow> Inr (AList.delete (t_id evicted) (by_id l)) | [] \<Rightarrow> Inl IndexError)
       else Inr (by_id l))
     (\<lambda>index. Inr (l\<lparr>entries := deque_append (max_entries l) e (entries l), by_id := AList.update (t_id e) e index\<rparr>))"

definition get_entry :: "string \<Rightarrow> traffic_log \<Rightarrow> traffic option" where
  "get_entry i l = map_of (by_id l) i"

definition get_detail :: "string \<Rightarrow> traffic_log \<Rightarrow> pydict option" where
  "get_detail i l = map_option traffic_dict (get_entry i l)"

definition clear_traffic :: "traffic_log \<Rightarrow> traffic_log" where
  "clear_traffic l = l\<lparr>entries := [], by_id := []\<rparr>"

text \<open>The text a search looks at.\<close>

definition haystack :: "traffic \<Rightarrow> string" where
  "haystack e =
     py_lower (t_method e @ '' '' @ t_path e @ '' '' @ (case t_error e of Some s \<Rightarrow> s | None \<Rightarrow> [])) @
     (if truthy (t_request e) then '' '' @ py_lower (json_dumps (t_request e)) else []) @
     (if truthy (t_response e) then '' '' @ py_lower (take 2000 (json_dumps (t_response e))) else [])"

definition listed_entry :: "string option \<Rightarrow> string option \<Rightarrow> traffic \<Rightarrow> bool" where
  "listed_entry kind search e \<longleftrightarrow>
     (case kind of Some (c # k) \<Rightarrow> t_kind e = c # k | _ \<Rightarrow> True) \<and>
     (case search of Some (c # q) \<Rightarrow> py_in (py_lower (c # q)) (haystack e) | _ \<Rightarrow> True)"

text \<open>A bound of a slice: negative ones count from the end.\<close>

definition slice_bound :: "int \<Rightarrow> 'a list \<Rightarrow> nat" where
  "slice_bound i xs = nat (min (int (length xs)) (if i < 0 then max 0 (int (length xs) + i) else i))"

definition py_slice :: "int \<Rightarrow> int \<Rightarrow> 'a list \<Rightarrow> 'a list" where
  "py_slice a b xs = drop (slice_bound a xs) (take (slice_bound b xs) xs)"

definition list_entries :: "string option \<Rightarrow> string option \<Rightarrow> int \<Rightarrow> int \<Rightarrow> traffic_log \<Rightarrow> pydict" where
  "list_entries kind search limit offs l =
     (let results = filter (listed_entry kind search) (rev (entries l))
      in [(''total'', VInt (int (length results))),
          (''entries'', VList (map (\<lambda>e. VDict (summary e)) (py_slice offs (offs + limit) results)))])"

section \<open>The log file\<close>

definition SKIP_FIELDS :: "string list" where
  "SKIP_FIELDS = [''hexData'', ''scrdata'', ''bitmapData'', ''diffData'', ''sampleData'']"

text \<open>\<open>repr\<close> and \<open>str\<close> of a value.\<close>

fun value_repr :: "pyval \<Rightarrow> string" where
  "value_repr VNone = ''None''"
| "value_repr (VBool b) = (if b then ''True'' else ''False'')"
| "value_repr (VInt i) = fmt_dec i"
| "value_repr (VStr s) = py_repr s"
| "value_repr (VList vs) = ''['' @ py_join '', '' (map value_repr vs) @ '']''"
| "value_repr (VDict d) = ''{'' @ py_join '', '' (map (\<lambda>kv. py_repr (fst kv) @ '': '' @ value_repr (snd kv)) d) @ ''}''"

definition value_str :: "pyval \<Rightarrow> string" where
  "value_str v = (case v of VStr s \<Rightarrow> s | _ \<Rightarrow> value_repr v)"

text \<open>Line breaks are written as a backslash and n, carriage returns are dropped.\<close>

definition log_plain :: "string \<Rightarrow> string" where
  "log_plain s = concat (map (\<lambda>c. if c = CHR 0x0A then [CHR 0x5C, CHR ''n''] else if c = CHR 0x0D then [] else [c]) s)"

definition needs_quotes :: "string \<Rightarrow> bool" where
  "needs_quotes s \<longleftrightarrow> list_ex (\<lambda>c. c \<in> {CHR '' '', CHR ''='', CHR 0x22, CHR 0x09}) s"

definition quoted_value :: "string \<Rightarrow> string" where
  "quoted_value s = CHR 0x22 # concat (map (\<lambda>c. if c = CHR 0x5C \<or> c = CHR 0x22 then [CHR 0x5C, c] else [c]) s) @ [CHR 0x22]"

definition escape_text :: "string \<Rightarrow> string" where
  "escape_text s = (let t = log_plain s in if needs_quotes t then quoted_value t else t)"

definition escape_val :: "pyval \<Rightarrow> string" where
  "escape_val v = (case v of
       VNone \<Rightarrow> []
     | VBool b \<Rightarrow> if b then ''true'' else ''false''
     | VInt i \<Rightarrow> fmt_dec i
     | _ \<Rightarrow> escape_text (value_str v))"

fun is_text :: "pyval \<Rightarrow> bool" where
  "is_text (VStr s) = True"
| "is_text v = False"

definition text_of :: "pyval \<Rightarrow> string" where
  "text_of v = (case v of VStr s \<Rightarrow> s | _ \<Rightarrow> [])"

text \<open>A value that is no dictionary, under its full key.\<close>

definition leaf_pair :: "string \<Rightarrow> pyval \<Rightarrow> string \<times> string" where
  "leaf_pair key v = (case v of
       VList vs \<Rightarrow>
         if length vs \<le> 10 \<and> list_all is_text vs then (key, py_join '','' (map text_of vs))
         else (key @ ''_count'', fmt_dec (int (length vs)))
     | _ \<Rightarrow> (key, escape_val v))"

function flatten :: "string \<Rightarrow> pydict \<Rightarrow> (string \<times> string) list" where
  "flatten pre [] = []"
| "flatten pre ((k, v) # kvs) =
     (if k \<in> set SKIP_FIELDS then (case v of VStr s \<Rightarrow> [(pre @ k @ ''_len'', fmt_dec (int (length s)))] | _ \<Rightarrow> [])
      else if k = ''type'' then []
      else case v of
        VDict d \<Rightarrow> flatten (pre @ k @ ''.'') d
      | _ \<Rightarrow> [leaf_pair (pre @ k) v]) @ flatten pre kvs"
  by pat_completeness auto
termination by (relation "measure (\<lambda>(p, d). size (VDict d))") auto

record log_file =
  log_text :: string
  log_open :: bool

definition newline_char :: char where
  "newline_char = CHR 0x0A"

text \<open>A write to a closed file raises; the exception is only logged.\<close>

definition append_line :: "string \<Rightarrow> log_file \<Rightarrow> log_file" where
  "append_line line f = (if log_open f then f\<lparr>log_text := log_text f @ line @ [newline_char]\<rparr> else f)"

definition pairs_line :: "(string \<times> string) list \<Rightarrow> string" where
  "pairs_line ps = py_join '' '' (map (\<lambda>(k, v). k @ ''='' @ v) ps)"

definition event_pairs :: "string \<Rightarrow> string \<Rightarrow> pyval \<Rightarrow> (string \<times> string) list" where
  "event_pairs ts event data = [(''ts'', ts), (''event'', event)] @
     (case data of VDict d \<Rightarrow> flatten [] d | VNone \<Rightarrow> [] | v \<Rightarrow> [(''data'', escape_val v)])"

definition write_event :: "string \<Rightarrow> string \<Rightarrow> pyval \<Rightarrow> log_file \<Rightarrow> log_file" where
  "write_event ts event data = append_line (pairs_line (event_pairs ts event data))"

definition payload_text :: "string \<Rightarrow> string" where
  "payload_text payload =
     (if payload = [] then []
      else if 200 < length payload then
        '' payload='' @ escape_text (take 200 payload) @ ''... payload_len='' @ fmt_dec (int (length payload))
      else '' payload='' @ escape_text payload)"

definition write_tx :: "string \<Rightarrow> string \<Rightarrow> log_file \<Rightarrow> log_file" where
  "write_tx ts line = append_line (''ts='' @ ts @ '' event=tx cmd='' @ before_char CHR ''|'' line @ payload_text (after_char CHR ''|'' line))"

definition write_rx :: "string \<Rightarrow> string \<Rightarrow> log_file \<Rightarrow> log_file" where
  "write_rx ts line = append_line (''ts='' @ ts @ '' event=rx msg_type='' @ before_char CHR ''|'' line @ payload_text (after_char CHR ''|'' line))"

text \<open>\<open>took\<close> is the duration with one digit after the point.\<close>

definition write_api :: "string \<Rightarrow> string \<Rightarrow> string \<Rightarrow> int \<Rightarrow> string \<Rightarrow> string option \<Rightarrow> log_file \<Rightarrow> log_file" where
  "write_api ts method path status_code took err = append_line
     (''ts='' @ ts @ '' event=api method='' @ method @ '' url='' @ escape_text path @ '' status='' @ fmt_dec status_code @
      '' duration_ms='' @ took @ (case err of Some (c # s) \<Rightarrow> '' error='' @ escape_text (c # s) | _ \<Rightarrow> []))"

text \<open>The task: events of the bus, each with its time.\<close>

definition log_events :: "(string \<times> string \<times> pyval) list \<Rightarrow> log_file \<Rightarrow> log_file" where
  "log_events = fold (\<lambda>(ts, event, data). write_event ts event data)"

definition start_log :: "string \<Rightarrow> int \<Rightarrow> log_file \<Rightarrow> log_file" where
  "start_log ts pid = write_event ts ''devbench_start'' (VDict [(''pid'', VInt pid)])"

definition stop_log :: "string \<Rightarrow> log_file \<Rightarrow> log_file" where
  "stop_log ts f = (write_event ts ''devbench_stop'' VNone f)\<lparr>log_open := False\<rparr>"

section \<open>The index of the traffic log\<close>

definition record_all :: "traffic list \<Rightarrow> traffic_log \<Rightarrow> traffic_log res" where
  "record_all es l = fold (\<lambda>e r. res_bind r (record_traffic e)) es (Inr l)"

definition index_of_entries :: "traffic list \<Rightarrow> string \<Rightarrow> traffic option" where
  "index_of_entries es = map_of (map (\<lambda>e. (t_id e, e)) es)"

lemma index_None: "i \<notin> t_id ` set es \<Longrightarrow> index_of_entries es i = None"
  by (simp add: index_of_entries_def map_of_eq_None_iff image_image)

lemma index_Nil: "index_of_entries [] = Map.empty"
  by (simp add: index_of_entries_def)

lemma index_append: "t_id e \<notin> t_id ` set es \<Longrightarrow> index_of_entries (es @ [e]) = (index_of_entries es)(t_id e \<mapsto> e)"
  using index_None [of "t_id e" es] by (auto simp: index_of_entries_def fun_eq_iff map_add_def split: option.split)

lemma index_drop: "t_id x \<notin> t_id ` set es \<Longrightarrow> (index_of_entries (x # es))(t_id x := None) = index_of_entries es"
  using index_None [of "t_id x" es] by (auto simp: index_of_entries_def fun_eq_iff)

definition traffic_inv :: "traffic_log \<Rightarrow> bool" where
  "traffic_inv l \<longleftrightarrow> distinct (map t_id (entries l)) \<and> map_of (by_id l) = index_of_entries (entries l) \<and> length (entries l) \<le> max_entries l"

lemma record_keeps:
  assumes "traffic_inv l" and "0 < max_entries l" and "t_id e \<notin> t_id ` set (entries l)"
  obtains l' where "record_traffic e l = Inr l'" and "traffic_inv l'" and "max_entries l' = max_entries l"
    and "entries l' = (if length (entries l) < max_entries l then entries l else tl (entries l)) @ [e]"
proof (cases "length (entries l) = max_entries l")
  case False
  then show thesis
    using that assms by (simp add: record_traffic_def deque_append_def traffic_inv_def index_append AList.update_conv')
next
  case True
  then obtain x xs where x: "entries l = x # xs" using assms(2) by (cases "entries l") auto
  then have x': "t_id x \<notin> t_id ` set xs" "t_id e \<notin> t_id ` set xs" using assms(1,3) by (auto simp: traffic_inv_def)
  have "(map_of (by_id l))(t_id x := None) = index_of_entries xs"
    using assms(1) x by (simp add: traffic_inv_def index_drop [OF x'(1)])
  then have "map_of (AList.update (t_id e) e (AList.delete (t_id x) (by_id l))) = index_of_entries (xs @ [e])"
    by (simp add: AList.update_conv' AList.delete_conv' index_append [OF x'(2)])
  then show thesis
    using that assms True x x' by (simp add: record_traffic_def deque_append_def traffic_inv_def)
qed

text \<open>C38. A traffic log that has recorded calls with different ids holds the latest of them, as many as fit, in order, and
  finds by its id exactly an entry that it still holds.\<close>

theorem traffic_index:
  assumes "0 < n" and "distinct (map t_id es)"
  shows "\<exists>l. record_all es (new_traffic_log n) = Inr l \<and> entries l = drop (length es - n) es \<and>
    (\<forall>i e. get_entry i l = Some e \<longleftrightarrow> e \<in> set (entries l) \<and> t_id e = i)"
proof -
  have "\<exists>l. record_all es (new_traffic_log n) = Inr l \<and> entries l = drop (length es - n) es \<and> traffic_inv l \<and> max_entries l = n"
    using assms(2)
  proof (induction es rule: rev_induct)
    case Nil
    then show ?case by (simp add: record_all_def new_traffic_log_def traffic_inv_def index_Nil)
  next
    case (snoc e es)
    then obtain l where l: "record_all es (new_traffic_log n) = Inr l" "entries l = drop (length es - n) es" "traffic_inv l" "max_entries l = n"
      by auto
    have "t_id e \<notin> t_id ` set (entries l)" using snoc.prems l(2) by (auto dest: in_set_dropD)
    then obtain l' where l': "record_traffic e l = Inr l'" "traffic_inv l'" "max_entries l' = n"
      "entries l' = (if length (entries l) < n then entries l else tl (entries l)) @ [e]"
      using record_keeps [OF l(3)] l(4) assms(1) by metis
    have "entries l' = drop (length (es @ [e]) - n) (es @ [e])"
      using l'(4) l(2) assms(1) by (auto simp: Suc_diff_le drop_Suc tl_drop)
    then show ?case using l l' by (auto simp: record_all_def)
  qed
  then obtain l where l: "record_all es (new_traffic_log n) = Inr l" "entries l = drop (length es - n) es" "traffic_inv l" by blast
  have "get_entry i l = Some e \<longleftrightarrow> e \<in> set (entries l) \<and> t_id e = i" for i e
    using l(3) by (auto simp: traffic_inv_def get_entry_def index_of_entries_def comp_def)
  with l show ?thesis by blast
qed

definition sample_entry :: "string \<Rightarrow> traffic" where
  "sample_entry i = \<lparr>t_id = i, t_stamp = VInt 0, t_kind = ''rest'', t_method = ''GET'', t_path = ''/'', t_request = VNone,
     t_response = VNone, t_status = 200, t_duration = VInt 1, t_error = None\<rparr>"

theorem traffic_index_witness:
  "\<exists>l. record_all (map sample_entry [''a'', ''b'', ''c'']) (new_traffic_log 2) = Inr l \<and> entries l = map sample_entry [''b'', ''c''] \<and>
    get_entry ''a'' l = None \<and> get_entry ''c'' l = Some (sample_entry ''c'')"
proof -
  let ?es = "map sample_entry [''a'', ''b'', ''c'']"
  have "distinct (map t_id ?es)" by (simp add: sample_entry_def)
  then obtain l where l: "record_all ?es (new_traffic_log 2) = Inr l" "entries l = drop (length ?es - 2) ?es"
    "\<forall>i e. get_entry i l = Some e \<longleftrightarrow> e \<in> set (entries l) \<and> t_id e = i"
    using traffic_index [of 2 ?es] by auto
  have "get_entry ''a'' l = None"
    using l(3) spec [OF spec [OF l(3)], of "''a''"] l(2) by (cases "get_entry ''a'' l") (auto simp: sample_entry_def)
  then show ?thesis using l by (auto simp: sample_entry_def)
qed

section \<open>Lines of the log file\<close>

text \<open>A reader of lines of keys and values: a value is quoted, or it ends at the next space.\<close>

fun read_quoted :: "string \<Rightarrow> (string \<times> string) option" where
  "read_quoted [] = None"
| "read_quoted (c # s) =
     (if c = CHR 0x22 then Some ([], s)
      else if c = CHR 0x5C then (case s of [] \<Rightarrow> None | x # r \<Rightarrow> map_option (\<lambda>(t, u). (x # t, u)) (read_quoted r))
      else map_option (\<lambda>(t, u). (c # t, u)) (read_quoted s))"

definition read_value :: "string \<Rightarrow> (string \<times> string) option" where
  "read_value s = (case s of
       c # r \<Rightarrow> if c = CHR 0x22 then read_quoted r else Some (takeWhile (\<lambda>x. x \<noteq> CHR '' '') s, dropWhile (\<lambda>x. x \<noteq> CHR '' '') s)
     | [] \<Rightarrow> Some ([], []))"

lemma read_quoted_shorter: "read_quoted s = Some (t, u) \<Longrightarrow> length u < length s"
  by (induction s arbitrary: t u rule: read_quoted.induct) (fastforce split: if_splits list.splits)+

lemma read_value_shorter: "read_value s = Some (t, u) \<Longrightarrow> length u \<le> length s"
  by (auto simp: read_value_def length_dropWhile_le split: list.splits if_splits dest!: read_quoted_shorter)
    (meson length_dropWhile_le le_SucI)

lemma read_next: "read_value (after_char c s) = Some (v, x # r) \<Longrightarrow> c \<in> set s \<Longrightarrow> length r < length s"
  by (drule read_value_shorter, drule after_char_less) simp

function read_pairs :: "string \<Rightarrow> (string \<times> string) list option" where
  "read_pairs s =
     (if CHR ''='' \<notin> set s then None
      else case read_value (after_char CHR ''='' s) of
        Some (v, c # r) \<Rightarrow> map_option (\<lambda>ps. (before_char CHR ''='' s, v) # ps) (if c = CHR '' '' then read_pairs r else None)
      | Some (v, []) \<Rightarrow> Some [(before_char CHR ''='' s, v)]
      | None \<Rightarrow> None)"
  by pat_completeness auto
termination
  by (relation "measure length") (auto dest: read_next)

declare read_pairs.simps [simp del]

lemma read_quoted_value:
  "read_quoted (concat (map (\<lambda>c. if c = CHR 0x5C \<or> c = CHR 0x22 then [CHR 0x5C, c] else [c]) s) @ CHR 0x22 # r) = Some (s, r)"
  by (induction s) auto

lemma read_escaped:
  assumes "r = [] \<or> (\<exists>u. r = CHR '' '' # u)"
  shows "read_value (escape_text t @ r) = Some (log_plain t, r)"
proof (cases "needs_quotes (log_plain t)")
  case True
  then show ?thesis by (simp add: escape_text_def Let_def quoted_value_def read_value_def read_quoted_value)
next
  case False
  let ?t = "log_plain t"
  have t: "x \<noteq> CHR '' ''" "x \<noteq> CHR 0x22" if "x \<in> set ?t" for x
    using False that by (auto simp: needs_quotes_def list_ex_iff)
  have "takeWhile (\<lambda>x. x \<noteq> CHR '' '') (?t @ r) = ?t" "dropWhile (\<lambda>x. x \<noteq> CHR '' '') (?t @ r) = r"
    using t(1) assms by (auto simp: takeWhile_append2 dropWhile_append2)
  moreover have "?t @ r = [] \<or> hd (?t @ r) \<noteq> CHR 0x22"
    using t(2) assms by (cases ?t) auto
  ultimately have "read_value (?t @ r) = Some (?t, r)"
    by (cases "?t @ r") (auto simp: read_value_def)
  then show ?thesis using False by (simp add: escape_text_def Let_def)
qed

lemma read_pairs_line:
  assumes "ps \<noteq> []" and "\<forall>(k, t) \<in> set ps. CHR ''='' \<notin> set k"
  shows "read_pairs (pairs_line (map (\<lambda>(k, t). (k, escape_text t)) ps)) = Some (map (\<lambda>(k, t). (k, log_plain t)) ps)"
  using assms
proof (induction ps rule: list_nonempty_induct)
  case (single p)
  obtain k t where p: "p = (k, t)" by (cases p)
  show ?case
    using single read_escaped [of "[]" t]
    by (subst read_pairs.simps) (simp add: p pairs_line_def before_char_append after_char_append)
next
  case (cons p ps)
  obtain k t where p: "p = (k, t)" by (cases p)
  have k: "CHR ''='' \<notin> set k" using cons.prems p by simp
  have "pairs_line (map (\<lambda>(k, t). (k, escape_text t)) (p # ps)) =
      k @ CHR ''='' # escape_text t @ CHR '' '' # pairs_line (map (\<lambda>(k, t). (k, escape_text t)) ps)"
    using cons.hyps by (cases ps) (simp_all add: p pairs_line_def split_beta)
  then show ?case
    using k cons read_escaped [of "CHR '' '' # pairs_line (map (\<lambda>(k, t). (k, escape_text t)) ps)" t]
    by (subst read_pairs.simps) (simp add: p before_char_append after_char_append)
qed

text \<open>The pairs of an event before their texts are escaped, and events whose keys and lists need no escaping.\<close>

definition leaf_text :: "string \<Rightarrow> pyval \<Rightarrow> string \<times> string" where
  "leaf_text key v = (case v of
       VNone \<Rightarrow> (key, []) | VBool b \<Rightarrow> (key, if b then ''true'' else ''false'') | VInt i \<Rightarrow> (key, fmt_dec i) | VStr s \<Rightarrow> (key, s)
     | VList vs \<Rightarrow> if length vs \<le> 10 \<and> list_all is_text vs then (key, py_join '','' (map text_of vs)) else (key @ ''_count'', fmt_dec (int (length vs)))
     | VDict d \<Rightarrow> (key, value_repr v))"

function leaves :: "string \<Rightarrow> pydict \<Rightarrow> (string \<times> string) list" where
  "leaves pre [] = []"
| "leaves pre ((k, v) # kvs) =
     (if k \<in> set SKIP_FIELDS then (case v of VStr s \<Rightarrow> [(pre @ k @ ''_len'', fmt_dec (int (length s)))] | _ \<Rightarrow> [])
      else if k = ''type'' then []
      else case v of VDict d \<Rightarrow> leaves (pre @ k @ ''.'') d | _ \<Rightarrow> [leaf_text (pre @ k) v]) @ leaves pre kvs"
  by pat_completeness auto
termination by (relation "measure (\<lambda>(p, d). size (VDict d))") auto

definition plain_text :: "string \<Rightarrow> bool" where
  "plain_text s \<longleftrightarrow> list_all (\<lambda>c. c \<notin> {CHR '' '', CHR ''='', CHR 0x22, CHR 0x09, CHR 0x0A, CHR 0x0D}) s"

function plain_data :: "pydict \<Rightarrow> bool" where
  "plain_data [] = True"
| "plain_data ((k, v) # kvs) =
     (plain_text k \<and> plain_data kvs \<and>
      (case v of VDict d \<Rightarrow> plain_data d | VList vs \<Rightarrow> list_all (\<lambda>x. plain_text (text_of x)) vs | _ \<Rightarrow> True))"
  by pat_completeness auto
termination by (relation "measure (\<lambda>d. size (VDict d))") auto

lemma plain_text_simps [simp]:
  "plain_text []" "plain_text (c # s) \<longleftrightarrow> c \<notin> {CHR '' '', CHR ''='', CHR 0x22, CHR 0x09, CHR 0x0A, CHR 0x0D} \<and> plain_text s"
  "plain_text (s @ t) \<longleftrightarrow> plain_text s \<and> plain_text t"
  by (simp_all add: plain_text_def)

lemma plain_log [simp]: "plain_text s \<Longrightarrow> log_plain s = s"
  by (induction s) (simp_all add: log_plain_def)

lemma plain_escape [simp]: "plain_text s \<Longrightarrow> escape_text s = s"
  by (simp add: escape_text_def Let_def needs_quotes_def) (auto simp: plain_text_def list_all_iff list_ex_iff)

lemma plain_dec [simp]: "plain_text (fmt_dec i)"
  using fmt_dec_alnum [of _ i] by (force simp: plain_text_def list_all_iff alnum_char_def)

lemma plain_joined: "list_all (\<lambda>x. plain_text (text_of x)) vs \<Longrightarrow> plain_text (py_join '','' (map text_of vs))"
  by (induction vs rule: induct_list012) auto

lemma leaf_escaped:
  assumes "case v of VList vs \<Rightarrow> list_all (\<lambda>x. plain_text (text_of x)) vs | VDict d \<Rightarrow> False | _ \<Rightarrow> True"
  shows "leaf_pair key v = (fst (leaf_text key v), escape_text (snd (leaf_text key v)))"
  using assms by (auto simp: leaf_pair_def leaf_text_def escape_val_def value_str_def plain_joined split: pyval.splits)

lemma flatten_leaves:
  "plain_data d \<Longrightarrow> flatten pre d = map (\<lambda>(k, t). (k, escape_text t)) (leaves pre d)"
proof (induction pre d rule: leaves.induct)
  case (2 pre k v kvs)
  then show ?case by (cases v) (auto simp: leaf_escaped split_beta)
qed simp

lemma leaf_keys: "plain_text (pre @ k) \<Longrightarrow> plain_text (fst (leaf_text (pre @ k) v))"
  by (auto simp: leaf_text_def split: pyval.split)

lemma leaves_keys: "plain_data d \<Longrightarrow> plain_text pre \<Longrightarrow> \<forall>(k, t) \<in> set (leaves pre d). plain_text k"
proof (induction pre d rule: leaves.induct)
  case (2 pre k v kvs)
  then show ?case using leaf_keys [of pre k v] by (cases v) (auto split: if_splits)
qed simp

lemma newline_escaped: "newline_char \<notin> set (escape_text t)"
  by (auto simp: escape_text_def Let_def quoted_value_def log_plain_def newline_char_def split: if_splits)

lemma set_join: "c \<in> set (py_join sep xs) \<Longrightarrow> c \<in> set sep \<or> (\<exists>x \<in> set xs. c \<in> set x)"
  by (induction sep xs rule: py_join.induct) auto

lemma newline_line:
  assumes "\<forall>(k, t) \<in> set ps. plain_text k"
  shows "newline_char \<notin> set (pairs_line (map (\<lambda>(k, t). (k, escape_text t)) ps))"
proof
  assume "newline_char \<in> set (pairs_line (map (\<lambda>(k, t). (k, escape_text t)) ps))"
  then obtain k t where "(k, t) \<in> set ps" "newline_char \<in> set (k @ ''='' @ escape_text t)"
    unfolding pairs_line_def by (fastforce dest!: set_join simp: newline_char_def)
  then show False
    using assms newline_escaped by (auto simp: newline_char_def plain_text_def list_all_iff)
qed

section \<open>What a line shows\<close>

text \<open>
  The values of an event, said of the dictionary alone: \<open>value_at d ks v\<close> when the keys \<open>ks\<close>, one for each
  level of nesting, lead to \<open>v\<close>.
\<close>

inductive value_at :: "pydict \<Rightarrow> string list \<Rightarrow> pyval \<Rightarrow> bool" where
  here: "(k, v) \<in> set d \<Longrightarrow> value_at d [k] v"
| below: "(k, VDict e) \<in> set d \<Longrightarrow> value_at e ks v \<Longrightarrow> value_at d (k # ks) v"

text \<open>
  What the log shows for a value: its path, joined by points, and its text. Payloads (\<open>SKIP_FIELDS\<close>) are shown
  by their length, lists that are long or hold other things than texts by the number of their elements, and
  the entries named \<open>type\<close>, like everything inside a skipped dictionary, not at all.
\<close>

definition hidden :: "string \<Rightarrow> bool" where
  "hidden k \<longleftrightarrow> k \<in> set SKIP_FIELDS \<or> k = ''type''"

definition shown_at :: "string list \<Rightarrow> pyval \<Rightarrow> (string \<times> string) option" where
  "shown_at ks v =
     (let path = py_join ''.'' ks
      in if list_ex hidden (butlast ks) then None
         else if last ks \<in> set SKIP_FIELDS then
           (case v of VStr s \<Rightarrow> Some (path @ ''_len'', fmt_dec (int (length s))) | _ \<Rightarrow> None)
         else if last ks = ''type'' then None
         else case v of
           VNone \<Rightarrow> Some (path, [])
         | VBool b \<Rightarrow> Some (path, if b then ''true'' else ''false'')
         | VInt i \<Rightarrow> Some (path, fmt_dec i)
         | VStr s \<Rightarrow> Some (path, log_plain s)
         | VList vs \<Rightarrow>
             if length vs \<le> 10 \<and> list_all is_text vs then Some (path, py_join '','' (map text_of vs))
             else Some (path @ ''_count'', fmt_dec (int (length vs)))
         | VDict e \<Rightarrow> None)"

lemma value_at_some: "value_at d ks v \<Longrightarrow> ks \<noteq> []"
  by (induction rule: value_at.induct) simp_all

lemma value_at_Nil: "\<not> value_at [] ks v"
  by (auto elim: value_at.cases)

lemma value_at_Cons:
  "value_at ((k, v) # d) ks w \<longleftrightarrow>
     ks = [k] \<and> w = v \<or> (\<exists>e ks'. v = VDict e \<and> ks = k # ks' \<and> value_at e ks' w) \<or> value_at d ks w"
proof
  assume "value_at ((k, v) # d) ks w"
  then show "ks = [k] \<and> w = v \<or> (\<exists>e ks'. v = VDict e \<and> ks = k # ks' \<and> value_at e ks' w) \<or> value_at d ks w"
  proof (cases rule: value_at.cases)
    case (here l)
    then show ?thesis by (auto intro: value_at.here)
  next
    case (below l e ls)
    show ?thesis
    proof (cases "(l, VDict e) \<in> set d")
      case True
      then show ?thesis using below value_at.below by blast
    next
      case False
      then show ?thesis using below by auto
    qed
  qed
next
  have more: "value_at (p # d) ks w" if "value_at d ks w" for p
    using that
  proof (cases rule: value_at.cases)
    case (here l)
    then show ?thesis using value_at.here [of l w "p # d"] by simp
  next
    case (below l e ls)
    then show ?thesis using value_at.below [of l e "p # d" ls w] by simp
  qed
  assume "ks = [k] \<and> w = v \<or> (\<exists>e ks'. v = VDict e \<and> ks = k # ks' \<and> value_at e ks' w) \<or> value_at d ks w"
  then show "value_at ((k, v) # d) ks w"
  proof (elim disjE exE conjE)
    assume "ks = [k]" "w = v"
    then show ?thesis using value_at.here [of k v "(k, v) # d"] by simp
  next
    fix e ks' assume "v = VDict e" "ks = k # ks'" "value_at e ks' w"
    then show ?thesis using value_at.below [of k e "(k, v) # d" ks' w] by simp
  qed (rule more)
qed

lemma shown_at_below:
  assumes "ks \<noteq> []"
  shows "shown_at (k # ks) v = (if hidden k then None else map_option (\<lambda>(x, t). (k @ ''.'' @ x, t)) (shown_at ks v))"
proof -
  have "py_join ''.'' (k # ks) = k @ ''.'' @ py_join ''.'' ks" using assms by (cases ks) simp_all
  then show ?thesis
    using assms by (cases v) (auto simp: shown_at_def Let_def)
qed

text \<open>What one entry shows, for itself and for the values below it.\<close>

definition shown_in :: "pydict \<Rightarrow> (string \<times> string) set" where
  "shown_in d = {p. \<exists>ks v. value_at d ks v \<and> shown_at ks v = Some p}"

lemma shown_in_Nil: "shown_in [] = {}"
  by (auto simp: shown_in_def value_at_Nil)

lemma shown_below:
  "{p. \<exists>ks w. value_at e ks w \<and> shown_at (k # ks) w = Some p} =
     (if hidden k then {} else (\<lambda>(x, t). (k @ ''.'' @ x, t)) ` shown_in e)"
proof -
  have step: "shown_at (k # ks) w = (if hidden k then None else map_option (\<lambda>(x, t). (k @ ''.'' @ x, t)) (shown_at ks w))"
    if "value_at e ks w" for ks w
    using value_at_some [OF that] by (rule shown_at_below)
  show ?thesis
  proof (cases "hidden k")
    case True
    then show ?thesis using step by fastforce
  next
    case False
    let ?f = "\<lambda>(x, t). (k @ ''.'' @ x, t)"
    have "p \<in> ?f ` shown_in e" if p: "value_at e ks w" "shown_at (k # ks) w = Some p" for p ks w
    proof -
      from p step [OF p(1)] False obtain q where "shown_at ks w = Some q" "p = ?f q" by auto
      then have "q \<in> shown_in e" using p(1) unfolding shown_in_def by blast
      with \<open>p = ?f q\<close> show ?thesis by (rule image_eqI)
    qed
    moreover have "\<exists>ks w. value_at e ks w \<and> shown_at (k # ks) w = Some (?f q)" if q: "q \<in> shown_in e" for q
    proof -
      from q obtain ks w where "value_at e ks w" "shown_at ks w = Some q" unfolding shown_in_def by blast
      with step False show ?thesis by fastforce
    qed
    ultimately show ?thesis using False by auto
  qed
qed

lemma shown_in_Cons:
  "shown_in ((k, v) # d) =
     {p. shown_at [k] v = Some p} \<union>
     (case v of VDict e \<Rightarrow> if hidden k then {} else (\<lambda>(x, t). (k @ ''.'' @ x, t)) ` shown_in e | _ \<Rightarrow> {}) \<union> shown_in d"
proof -
  have split: "shown_in ((k, v) # d) = {p. shown_at [k] v = Some p} \<union>
      {p. \<exists>ks w. (\<exists>e. v = VDict e \<and> value_at e ks w) \<and> shown_at (k # ks) w = Some p} \<union> shown_in d"
    unfolding shown_in_def value_at_Cons by blast
  show ?thesis
  proof (cases v)
    case (VDict e)
    then show ?thesis unfolding split using shown_below [of e k] by simp
  qed (use split in simp_all)
qed

lemma leaf_shown:
  assumes "\<not> hidden k" and "case v of VList vs \<Rightarrow> list_all (\<lambda>x. plain_text (text_of x)) vs | VDict d \<Rightarrow> False | _ \<Rightarrow> True"
  shows "shown_at [k] v = Some (case leaf_text k v of (x, t) \<Rightarrow> (x, log_plain t))"
  using assms by (auto simp: shown_at_def hidden_def leaf_text_def plain_joined split: pyval.splits)

lemma leaf_prefix: "leaf_text (pre @ k) v = (case leaf_text k v of (x, t) \<Rightarrow> (pre @ x, t))"
  if "\<nexists>d. v = VDict d"
  using that by (cases v) (simp_all add: leaf_text_def)

lemma leaves_shown:
  "plain_data d \<Longrightarrow>
   (\<lambda>(k, t). (k, log_plain t)) ` set (leaves pre d) = (\<lambda>(k, t). (pre @ k, t)) ` shown_in d"
proof (induction pre d rule: leaves.induct)
  case (1 pre)
  then show ?case by (simp add: shown_in_Nil)
next
  case (2 pre k v kvs)
  have rest: "(\<lambda>(k, t). (k, log_plain t)) ` set (leaves pre kvs) = (\<lambda>(k, t). (pre @ k, t)) ` shown_in kvs"
    using 2 by simp
  show ?case
  proof (cases "hidden k")
    case True
    have "shown_in ((k, v) # kvs) = {p. shown_at [k] v = Some p} \<union> shown_in kvs"
      using True by (simp add: shown_in_Cons split: pyval.split)
    then show ?thesis
      using True rest by (cases v) (auto simp: hidden_def shown_at_def image_Un)
  next
    case shown: False
    then have k: "k \<notin> set SKIP_FIELDS" "k \<noteq> ''type''" by (simp_all add: hidden_def)
    show ?thesis
    proof (cases "\<exists>e. v = VDict e")
      case True
      then obtain e where v: "v = VDict e" by blast
      have "(\<lambda>(k, t). (k, log_plain t)) ` set (leaves (pre @ k @ ''.'') e) = (\<lambda>(x, t). ((pre @ k @ ''.'') @ x, t)) ` shown_in e"
        using 2 k v by simp
      moreover have "shown_at [k] v = None" using k by (simp add: v shown_at_def)
      ultimately show ?thesis
        using k shown rest by (simp add: v shown_in_Cons image_Un image_image case_prod_beta)
    next
      case False
      have "case v of VList vs \<Rightarrow> list_all (\<lambda>x. plain_text (text_of x)) vs | VDict d \<Rightarrow> False | _ \<Rightarrow> True"
        using 2 False by (cases v) auto
      note leaf = leaf_shown [OF shown this]
      have "shown_in ((k, v) # kvs) = insert (case leaf_text k v of (x, t) \<Rightarrow> (x, log_plain t)) (shown_in kvs)"
        using False leaf by (cases v) (auto simp: shown_in_Cons)
      moreover have "leaves pre ((k, v) # kvs) = leaf_text (pre @ k) v # leaves pre kvs"
        using k False by (cases v) simp_all
      ultimately show ?thesis
        using rest leaf_prefix [OF False, of pre k] by (simp add: case_prod_beta)
    qed
  qed
qed

text \<open>C39. An event whose keys and lists hold no spaces, equals signs, quotes or line breaks is written to the log file as one line
  from which a reader of keys and values gets back the time, the event, and of its data exactly what the log is to show: every
  number, truth value, text and short list of texts, at any depth, under its path, except that the entries named \<open>type\<close>
  are left out, a payload (\<open>SKIP_FIELDS\<close>) is replaced by its length and any other list by its number of elements. The
  texts may hold anything; line feeds in them are shown as a backslash and n, and carriage returns are dropped.\<close>

theorem event_line_reads:
  assumes "log_open f" and "plain_text ts" and "plain_text event" and "plain_data d"
  shows "\<exists>line ps. log_text (write_event ts event (VDict d) f) = log_text f @ line @ [newline_char] \<and> newline_char \<notin> set line \<and>
    read_pairs line = Some ([(''ts'', ts), (''event'', event)] @ ps) \<and>
    set ps = {p. \<exists>ks v. value_at d ks v \<and> shown_at ks v = Some p}"
proof -
  let ?ps = "[(''ts'', ts), (''event'', event)] @ leaves [] d"
  have pairs: "event_pairs ts event (VDict d) = map (\<lambda>(k, t). (k, escape_text t)) ?ps"
    using assms(2-4) by (simp add: event_pairs_def flatten_leaves)
  have keys: "\<forall>(k, t) \<in> set ?ps. plain_text k" using leaves_keys [OF assms(4), of "[]"] by simp
  then have "\<forall>(k, t) \<in> set ?ps. CHR ''='' \<notin> set k" by (auto simp: plain_text_def list_all_iff)
  note line = read_pairs_line [OF _ this] newline_line [OF keys]
  have "set (map (\<lambda>(k, t). (k, log_plain t)) (leaves [] d)) = shown_in d"
    using leaves_shown [OF assms(4), of "[]"] by simp
  then show ?thesis
    using line assms(1-3) unfolding shown_in_def
    by (intro exI [of _ "pairs_line (map (\<lambda>(k, t). (k, escape_text t)) ?ps)"]
        exI [of _ "map (\<lambda>(k, t). (k, log_plain t)) (leaves [] d)"])
      (simp add: write_event_def append_line_def pairs)
qed

text \<open>A nested value, a text with quotes, and a payload of three characters.\<close>

theorem event_line_reads_witness:
  "\<exists>line ps. log_text (write_event ''12:00'' ''log'' (VDict [(''type'', VStr ''LOG''), (''msg'', VStr ''a \"b\" c''),
        (''hexData'', VStr ''4e7''), (''at'', VDict [(''x'', VBool True)])])
      \<lparr>log_text = [], log_open = True\<rparr>) = line @ [newline_char] \<and>
    newline_char \<notin> set line \<and> read_pairs line = Some ([(''ts'', ''12:00''), (''event'', ''log'')] @ ps) \<and>
    set ps = {(''msg'', ''a \"b\" c''), (''hexData_len'', ''3''), (''at.x'', ''true'')}"
proof -
  let ?d = "[(''type'', VStr ''LOG''), (''msg'', VStr ''a \"b\" c''), (''hexData'', VStr ''4e7''), (''at'', VDict [(''x'', VBool True)])]"
  have three: "fmt_dec 3 = ''3''" by code_simp
  have plain: "plain_text ''12:00''" "plain_text ''log''" "plain_data ?d" by simp_all
  have "shown_in ?d = {(''msg'', ''a \"b\" c''), (''hexData_len'', ''3''), (''at.x'', ''true'')}"
    using three by (auto simp: shown_in_Cons shown_in_Nil shown_at_def hidden_def SKIP_FIELDS_def log_plain_def)
  then have shown: "{p. \<exists>ks v. value_at ?d ks v \<and> shown_at ks v = Some p} =
      {(''msg'', ''a \"b\" c''), (''hexData_len'', ''3''), (''at.x'', ''true'')}"
    unfolding shown_in_def .
  have "log_open \<lparr>log_text = [], log_open = True\<rparr>" by simp
  from event_line_reads [OF this plain] show ?thesis unfolding shown by simp
qed

end
