(* ===== verification/Config.thy ===== *)
theory Config
  imports Logs "HOL-Library.Char_ord" "HOL-Library.List_Lexorder"
begin

text \<open>
  The configuration (\<open>config.py\<close>): its defaults, what a TOML file, a profile and the command line
  change, and the file that is saved. The attributes of \<open>DevBenchConfig\<close> take values of any type, so
  a configuration is a dictionary of them. What depends on the host's file system is an argument.
\<close>

section \<open>Defaults\<close>

type_synonym config = pydict

definition LLM_PROMPT :: string where
  "LLM_PROMPT = ''You are an assistant embedded in an Amiga terminal. Prefer short, '' @
     ''concrete answers. When you need to inspect the machine, use the '' @
     ''run_command tool with an AmigaDOS command; do not fabricate output.''"

definition default_config :: config where
  "default_config = [
     (''profiles'', VDict []), (''active_profile'', VStr []),
     (''serial_mode'', VStr ''tcp''), (''serial_host'', VStr ''127.0.0.1''), (''serial_port'', VInt 1234),
     (''pty_path'', VStr ''/tmp/amiga-serial''),
     (''emulator_binary'', VStr ''auto''),
     (''emulator_config'', VStr ''~/Documents/FS-UAE/Configurations/AmiKit-Debug.fs-uae''),
     (''emulator_auto_start'', VBool False), (''emulator_process'', VStr []), (''emulator_env'', VDict []),
     (''emulator_ssh'', VStr []), (''emulator_start_cmd'', VStr []), (''emulator_stop_cmd'', VStr []),
     (''emulator_status_cmd'', VStr []), (''emulator_ready_probe'', VStr []), (''emulator_reboot_cmd'', VStr ''sudo reboot''),
     (''server_port'', VInt 3000), (''log_level'', VStr ''INFO''),
     (''project_root'', VStr []), (''deploy_dir'', VStr []),
     (''crash_handler_auto_enable'', VBool True), (''arch'', VStr ''m68k''), (''docker_image'', VStr []),
     (''gdb_port'', VInt 2159),
     (''winuae_debug_enabled'', VBool False), (''winuae_debug_host'', VStr ''127.0.0.1''), (''winuae_debug_port'', VInt 2345),
     (''fsuae_rpc_enabled'', VStr ''auto''), (''fsuae_rpc_port'', VInt 8765), (''fsuae_rpc_pause_at_boot'', VBool False),
     (''fsuae_gdb_port'', VInt 0), (''fsuae_auto_pause_on_crash'', VBool True),
     (''fsuae_auto_snapshot_interval_s'', VInt 0), (''fsuae_auto_snapshot_ring_size'', VInt 5),
     (''simulator'', VBool False),
     (''llm_enabled'', VBool False), (''llm_host'', VStr ''spark.hitorro.com''), (''llm_port'', VInt 11434),
     (''llm_scheme'', VStr ''http''), (''llm_model'', VStr ''nemotron''), (''llm_system_prompt'', VStr LLM_PROMPT),
     (''llm_client_name'', VStr ''amiterm''), (''llm_hook_name'', VStr ''llm_event'')]"

section \<open>Reading tables\<close>

text \<open>\<open>k in t\<close> with \<open>t[k]\<close>: None when the key is not there.\<close>

definition member :: "string \<Rightarrow> pyval \<Rightarrow> pyval option res" where
  "member k t = (case t of
       VDict m \<Rightarrow> Inr (map_of m k)
     | VStr s \<Rightarrow> if py_in k s then Inl TypeError else Inr None
     | VList vs \<Rightarrow> if VStr k \<in> set vs then Inl TypeError else Inr None
     | _ \<Rightarrow> Inl TypeError)"

text \<open>\<open>if k in t: cfg.name = conv(t[k])\<close>\<close>

definition take_key :: "pyval \<Rightarrow> string \<Rightarrow> (pyval \<Rightarrow> pyval res) \<Rightarrow> string \<Rightarrow> config \<Rightarrow> config res" where
  "take_key t k conv name cfg =
     res_bind (member k t) (\<lambda>found. case found of
       None \<Rightarrow> Inr cfg
     | Some v \<Rightarrow> res_bind (conv v) (\<lambda>w. Inr (dict_set cfg name w)))"

definition as_is :: "pyval \<Rightarrow> pyval res" where
  "as_is v = Inr v"

definition to_str :: "pyval \<Rightarrow> pyval res" where
  "to_str v = Inr (VStr (value_str v))"

definition to_lower :: "pyval \<Rightarrow> pyval res" where
  "to_lower v = Inr (VStr (py_lower (value_str v)))"

definition to_bool :: "pyval \<Rightarrow> pyval res" where
  "to_bool v = Inr (VBool (truthy v))"

definition to_int :: "pyval \<Rightarrow> pyval res" where
  "to_int v = (case v of
       VInt i \<Rightarrow> Inr (VInt i) | VBool b \<Rightarrow> Inr (VInt (if b then 1 else 0)) | VStr s \<Rightarrow> res_bind (py_int 10 s) (\<lambda>i. Inr (VInt i))
     | _ \<Rightarrow> Inl TypeError)"

text \<open>\<open>str\<close> of keys and values; \<open>emulator_env\<close> is left alone when it is no table.\<close>

definition take_env :: "pyval \<Rightarrow> config \<Rightarrow> config res" where
  "take_env t cfg =
     res_bind (member ''emulator_env'' t) (\<lambda>found. Inr (case found of
       Some (VDict m) \<Rightarrow> dict_set cfg ''emulator_env'' (VDict (map (\<lambda>(k, v). (k, VStr (value_str v))) m))
     | _ \<Rightarrow> cfg))"

type_synonym setting = "string \<times> (pyval \<Rightarrow> pyval res) \<times> string"

definition take_keys :: "setting list \<Rightarrow> pyval \<Rightarrow> config \<Rightarrow> config res" where
  "take_keys ss t cfg = fold (\<lambda>(k, conv, name) r. res_bind r (take_key t k conv name)) ss (Inr cfg)"

section \<open>The WinUAE section\<close>

definition winuae_enabled :: "pyval \<Rightarrow> pyval res" where
  "winuae_enabled v = (case v of VBool b \<Rightarrow> Inr v | _ \<Rightarrow> Inl ValueError)"

definition winuae_host :: "pyval \<Rightarrow> pyval res" where
  "winuae_host v = (case v of VStr s \<Rightarrow> if py_strip s = [] then Inl ValueError else Inr v | _ \<Rightarrow> Inl ValueError)"

definition winuae_port :: "pyval \<Rightarrow> pyval res" where
  "winuae_port v = (case v of VInt p \<Rightarrow> if 1 \<le> p \<and> p \<le> 65535 then Inr v else Inl ValueError | _ \<Rightarrow> Inl ValueError)"

definition apply_winuae_debug :: "pyval \<Rightarrow> config \<Rightarrow> config res" where
  "apply_winuae_debug t cfg = (case t of
       VDict m \<Rightarrow> take_keys [(''enabled'', winuae_enabled, ''winuae_debug_enabled''), (''host'', winuae_host, ''winuae_debug_host''),
         (''port'', winuae_port, ''winuae_debug_port'')] t cfg
     | _ \<Rightarrow> Inl ValueError)"

section \<open>Profiles\<close>

definition profile_settings :: "setting list" where
  "profile_settings = [
     (''mode'', to_lower, ''serial_mode''), (''host'', to_str, ''serial_host''), (''port'', to_int, ''serial_port''),
     (''pty_path'', to_str, ''pty_path''),
     (''auto_start_emulator'', to_bool, ''emulator_auto_start''), (''emulator_config'', to_str, ''emulator_config''),
     (''emulator_binary'', to_str, ''emulator_binary''), (''emulator_process'', to_str, ''emulator_process'')]"

definition remote_settings :: "setting list" where
  "remote_settings = map (\<lambda>k. (k, to_str, k))
     [''emulator_ssh'', ''emulator_start_cmd'', ''emulator_stop_cmd'', ''emulator_status_cmd'', ''emulator_ready_probe'', ''emulator_reboot_cmd'']"

definition build_settings :: "setting list" where
  "build_settings = [(''deploy_dir'', to_str, ''deploy_dir''), (''arch'', to_lower, ''arch''), (''docker_image'', to_str, ''docker_image'')]"

definition winuae_part :: "pydict \<Rightarrow> pydict" where
  "winuae_part m = map (\<lambda>(k, v). (drop 13 k, v)) (filter (\<lambda>e. py_startswith (fst e) ''winuae_debug_'') m)"

definition no_profile :: "string \<Rightarrow> pydict \<Rightarrow> string" where
  "no_profile name profiles =
     ''Profile '' @ [CHR 0x27] @ name @ [CHR 0x27] @ '' not found in devbench.toml. Available: '' @
     (case py_join '', '' (sort (map fst profiles)) of [] \<Rightarrow> ''(none)'' | c # s \<Rightarrow> c # s)"

definition get_profiles :: "config \<Rightarrow> pydict" where
  "get_profiles cfg = (case dict_get cfg ''profiles'' VNone of VDict ps \<Rightarrow> ps | _ \<Rightarrow> [])"

definition apply_profile :: "string \<Rightarrow> config \<Rightarrow> config res" where
  "apply_profile name cfg =
     (case map_of (get_profiles cfg) name of
        None \<Rightarrow> Inl (KeyError (no_profile name (get_profiles cfg)))
      | Some p \<Rightarrow>
          res_bind (take_keys profile_settings p cfg) (\<lambda>c1. res_bind (take_env p c1) (\<lambda>c2.
          res_bind (take_keys (remote_settings @ build_settings) p c2) (\<lambda>c3.
          res_bind (case p of VDict m \<Rightarrow> apply_winuae_debug (VDict (winuae_part m)) c3 | _ \<Rightarrow> Inl AttributeError) (\<lambda>c4.
            Inr (dict_set c4 ''active_profile'' (VStr name)))))))"

section \<open>TOML files\<close>

definition section_of :: "pydict \<Rightarrow> string \<Rightarrow> pyval" where
  "section_of data k = dict_get data k (VDict [])"

definition rpc_mode :: "pyval \<Rightarrow> pyval res" where
  "rpc_mode v = (case v of VBool b \<Rightarrow> Inr (VStr (if b then ''on'' else ''off'')) | _ \<Rightarrow> to_lower v)"

definition flat_settings :: "(string \<times> setting list) list" where
  "flat_settings = [
     (''serial'', [(''mode'', as_is, ''serial_mode''), (''host'', as_is, ''serial_host''), (''port'', to_int, ''serial_port''),
        (''pty_path'', as_is, ''pty_path'')]),
     (''emulator'', [(''binary'', as_is, ''emulator_binary''), (''config'', as_is, ''emulator_config''),
        (''auto_start'', to_bool, ''emulator_auto_start'')]),
     (''server'', [(''port'', to_int, ''server_port''), (''log_level'', as_is, ''log_level'')]),
     (''paths'', [(''deploy_dir'', as_is, ''deploy_dir''), (''project_root'', as_is, ''project_root'')]),
     (''bridge'', [(''crash_handler_auto_enable'', to_bool, ''crash_handler_auto_enable'')]),
     (''build'', [(''arch'', to_lower, ''arch''), (''docker_image'', to_str, ''docker_image'')]),
     (''llm'', [(''enabled'', to_bool, ''llm_enabled''), (''host'', to_str, ''llm_host''), (''port'', to_int, ''llm_port''),
        (''scheme'', to_str, ''llm_scheme''), (''model'', to_str, ''llm_model''), (''system_prompt'', to_str, ''llm_system_prompt''),
        (''client_name'', to_str, ''llm_client_name''), (''hook_name'', to_str, ''llm_hook_name'')])]"

definition rpc_settings :: "setting list" where
  "rpc_settings = [(''enabled'', rpc_mode, ''fsuae_rpc_enabled''), (''port'', to_int, ''fsuae_rpc_port''),
     (''pause_at_boot'', to_bool, ''fsuae_rpc_pause_at_boot''), (''gdb_port'', to_int, ''fsuae_gdb_port''),
     (''auto_pause_on_crash'', to_bool, ''fsuae_auto_pause_on_crash''),
     (''auto_snapshot_interval_s'', to_int, ''fsuae_auto_snapshot_interval_s''),
     (''auto_snapshot_ring_size'', to_int, ''fsuae_auto_snapshot_ring_size'')]"

definition take_sections :: "(string \<times> setting list) list \<Rightarrow> pydict \<Rightarrow> config \<Rightarrow> config res" where
  "take_sections secs data cfg = fold (\<lambda>(k, ss) r. res_bind r (take_keys ss (section_of data k))) secs (Inr cfg)"

definition take_profiles :: "pydict \<Rightarrow> config \<Rightarrow> config" where
  "take_profiles data cfg =
     (let c1 = (case map_of data ''active_profile'' of Some v \<Rightarrow> dict_set cfg ''active_profile'' (VStr (value_str v)) | None \<Rightarrow> cfg)
      in case map_of data ''profiles'' of Some (VDict ps) \<Rightarrow> dict_set c1 ''profiles'' (VDict ps) | _ \<Rightarrow> c1)"

definition apply_toml :: "pydict \<Rightarrow> config \<Rightarrow> config res" where
  "apply_toml data cfg =
     res_bind (take_sections flat_settings data (take_profiles data cfg)) (\<lambda>c1.
     res_bind (apply_winuae_debug (section_of data ''winuae_debug'') c1)
       (take_keys rpc_settings (section_of data ''fsuae_rpc'')))"

section \<open>Paths and the command line\<close>

text \<open>
  What \<open>pathlib\<close> does on this host: \<open>expanduser\<close>, \<open>resolve\<close>, whether a path is absolute, and joining.
\<close>

record host_paths =
  expand :: "string \<Rightarrow> string"
  resolved :: "string \<Rightarrow> string"
  absolute :: "string \<Rightarrow> bool"
  under :: "string \<Rightarrow> string \<Rightarrow> string"

definition map_path :: "(string \<Rightarrow> string) \<Rightarrow> string \<Rightarrow> config \<Rightarrow> config res" where
  "map_path f name cfg =
     (let v = dict_get cfg name VNone
      in if \<not> truthy v then Inr cfg
         else case v of VStr s \<Rightarrow> Inr (dict_set cfg name (VStr (f s))) | _ \<Rightarrow> Inl TypeError)"

definition anchor_binary :: "host_paths \<Rightarrow> config \<Rightarrow> config res" where
  "anchor_binary h cfg =
     (let b = dict_get cfg ''emulator_binary'' VNone; r = dict_get cfg ''project_root'' VNone
      in if \<not> truthy b \<or> b = VStr ''auto'' then Inr cfg
         else case b of
           VStr s \<Rightarrow>
             if CHR ''/'' \<notin> set s \<or> absolute h s \<or> \<not> truthy r then Inr cfg
             else (case r of VStr root \<Rightarrow> Inr (dict_set cfg ''emulator_binary'' (VStr (under h root s))) | _ \<Rightarrow> Inl TypeError)
         | _ \<Rightarrow> Inl TypeError)"

definition resolve_paths :: "host_paths \<Rightarrow> config \<Rightarrow> config res" where
  "resolve_paths h cfg =
     res_bind (map_path (expand h) ''emulator_config'' cfg) (\<lambda>c1. res_bind (map_path (resolved h) ''project_root'' c1) (\<lambda>c2.
     res_bind (map_path (expand h) ''deploy_dir'' c2) (anchor_binary h)))"

text \<open>\<open>data\<close> is the parsed file of the project at \<open>root\<close>, when there is one.\<close>

definition load_config :: "host_paths \<Rightarrow> string \<Rightarrow> pydict option \<Rightarrow> config res" where
  "load_config h root data =
     (let cfg = dict_set default_config ''project_root'' (VStr root)
      in res_bind (case data of
           None \<Rightarrow> Inr cfg
         | Some d \<Rightarrow> res_bind (apply_toml d cfg) (\<lambda>c1.
             case dict_get c1 ''active_profile'' VNone of
               VStr (c # s) \<Rightarrow> apply_profile (c # s) c1
             | _ \<Rightarrow> Inr c1))
         (resolve_paths h))"

text \<open>The arguments are strings and numbers of the command line; None when they have not been given.\<close>

record cli_args =
  a_profile :: "string option"
  a_mode :: "string option"
  a_serial_host :: "string option"
  a_serial_port :: "int option"
  a_pty_path :: "string option"
  a_port :: "int option"
  a_project_root :: "string option"
  a_deploy_dir :: "string option"
  a_log_level :: "string option"
  a_simulator :: bool

definition override_str :: "string option \<Rightarrow> string \<Rightarrow> string \<Rightarrow> config \<Rightarrow> config" where
  "override_str arg dflt name cfg = (case arg of
       Some s \<Rightarrow> if s = [] \<or> s = dflt then cfg else dict_set cfg name (VStr s) | None \<Rightarrow> cfg)"

definition override_int :: "int option \<Rightarrow> int \<Rightarrow> string \<Rightarrow> config \<Rightarrow> config" where
  "override_int arg dflt name cfg = (case arg of
       Some n \<Rightarrow> if n = 0 \<or> n = dflt then cfg else dict_set cfg name (VInt n) | None \<Rightarrow> cfg)"

definition given :: "string option \<Rightarrow> bool" where
  "given a \<longleftrightarrow> (case a of Some (c # s) \<Rightarrow> True | _ \<Rightarrow> False)"

definition apply_cli_overrides :: "host_paths \<Rightarrow> cli_args \<Rightarrow> config \<Rightarrow> config res" where
  "apply_cli_overrides h args cfg =
     res_bind (case a_profile args of Some (c # s) \<Rightarrow> apply_profile (c # s) cfg | _ \<Rightarrow> Inr cfg) (\<lambda>c0.
       let c1 = override_str (a_mode args) [] ''serial_mode'' c0;
           c2 = override_str (a_serial_host args) [] ''serial_host'' c1;
           c3 = (if given (a_serial_host args) \<and> \<not> given (a_mode args) then dict_set c2 ''serial_mode'' (VStr ''tcp'') else c2);
           c4 = override_int (a_serial_port args) 1234 ''serial_port'' c3;
           c5 = override_str (a_pty_path args) ''/tmp/amiga-serial'' ''pty_path'' c4;
           c6 = override_int (a_port args) 3000 ''server_port'' c5;
           c7 = override_str (map_option (resolved h) (if given (a_project_root args) then a_project_root args else None)) [] ''project_root'' c6;
           c8 = override_str (a_deploy_dir args) [] ''deploy_dir'' c7;
           c9 = override_str (a_log_level args) ''INFO'' ''log_level'' c8;
           c10 = (if a_simulator args then dict_set c9 ''simulator'' (VBool True) else c9)
       in resolve_paths h c10)"

section \<open>Saving\<close>

definition toml_escape :: "string \<Rightarrow> string" where
  "toml_escape s = concat (map (\<lambda>c. if c = CHR 0x5C \<or> c = CHR 0x22 then [CHR 0x5C, c] else [c]) s)"

definition dump_toml_value :: "pyval \<Rightarrow> string" where
  "dump_toml_value v = (case v of
       VBool b \<Rightarrow> if b then ''true'' else ''false''
     | VInt i \<Rightarrow> fmt_dec i
     | _ \<Rightarrow> CHR 0x22 # toml_escape (value_str v) @ [CHR 0x22])"

text \<open>\<open>{cfg.name}\<close>, and the name of a truth value.\<close>

definition attr :: "config \<Rightarrow> string \<Rightarrow> string" where
  "attr cfg name = value_str (dict_get cfg name VNone)"

definition flag :: "config \<Rightarrow> string \<Rightarrow> string" where
  "flag cfg name = (if truthy (dict_get cfg name VNone) then ''true'' else ''false'')"

definition in_quotes :: "string \<Rightarrow> string" where
  "in_quotes s = CHR 0x22 # s @ [CHR 0x22]"

definition profile_lines :: "string \<times> pyval \<Rightarrow> string list" where
  "profile_lines e = (case snd e of
       VDict m \<Rightarrow> [''[profiles.'' @ fst e @ '']''] @ map (\<lambda>(k, v). k @ '' = '' @ dump_toml_value v) m @ [[]]
     | _ \<Rightarrow> [])"

definition sorted_profiles :: "pydict \<Rightarrow> pydict" where
  "sorted_profiles ps = map (\<lambda>k. (k, dict_get ps k VNone)) (sort (map fst ps))"

definition save_lines :: "config \<Rightarrow> string list" where
  "save_lines cfg =
     [''# Amiga DevBench Configuration'', []] @
     (if truthy (dict_get cfg ''active_profile'' VNone)
      then [''active_profile = '' @ in_quotes (toml_escape (attr cfg ''active_profile'')), []] else []) @
     concat (map profile_lines (sorted_profiles (get_profiles cfg))) @
     [''[serial]'',
      ''mode = '' @ in_quotes (attr cfg ''serial_mode''),
      ''host = '' @ in_quotes (attr cfg ''serial_host''),
      ''port = '' @ attr cfg ''serial_port'',
      ''pty_path = '' @ in_quotes (attr cfg ''pty_path''),
      [],
      ''[emulator]'',
      ''binary = '' @ in_quotes (attr cfg ''emulator_binary''),
      ''config = '' @ in_quotes (attr cfg ''emulator_config''),
      ''auto_start = '' @ flag cfg ''emulator_auto_start'',
      [],
      ''[server]'',
      ''port = '' @ attr cfg ''server_port'',
      ''log_level = '' @ in_quotes (attr cfg ''log_level''),
      [],
      ''[paths]'',
      ''deploy_dir = '' @ in_quotes (attr cfg ''deploy_dir''),
      [],
      ''[bridge]'',
      ''crash_handler_auto_enable = '' @ flag cfg ''crash_handler_auto_enable'',
      [],
      ''[build]'',
      ''arch = '' @ in_quotes (toml_escape (attr cfg ''arch'')),
      ''docker_image = '' @ in_quotes (toml_escape (attr cfg ''docker_image'')),
      [],
      ''[winuae_debug]'',
      ''enabled = '' @ flag cfg ''winuae_debug_enabled'',
      ''host = '' @ in_quotes (toml_escape (attr cfg ''winuae_debug_host'')),
      ''port = '' @ attr cfg ''winuae_debug_port'',
      [],
      ''[fsuae_rpc]'',
      ''# Remote-debug HTTP API exposed by the patched fs-uae build'',
      ''# (see https://github.com/geekychris/fsuae_remote_patch). Stock fs-uae'',
      ''# ignores these env vars, so leaving this enabled is safe either way.'',
      ''enabled = '' @ in_quotes (attr cfg ''fsuae_rpc_enabled'') @ ''  # \"auto\" | \"on\" | \"off\"'',
      ''port = '' @ attr cfg ''fsuae_rpc_port'',
      ''pause_at_boot = '' @ flag cfg ''fsuae_rpc_pause_at_boot'',
      ''gdb_port = '' @ attr cfg ''fsuae_gdb_port'' @ ''  # 0 disables the in-emulator GDB stub'',
      ''auto_pause_on_crash = '' @ flag cfg ''fsuae_auto_pause_on_crash'',
      ''# Auto-snapshot ring buffer '' @ [CHR 0xE2, CHR 0x80, CHR 0x94] @ '' OFF by default. Set to e.g. 30 for a snap every 30s.'',
      ''# Each save is ~19MB / ~200ms and DOES affect emulator throughput while saving.'',
      ''auto_snapshot_interval_s = '' @ attr cfg ''fsuae_auto_snapshot_interval_s'' @ ''  # 0 disables'',
      ''auto_snapshot_ring_size = '' @ attr cfg ''fsuae_auto_snapshot_ring_size'' @ ''    # rotating slots'',
      []]"

definition save_config :: "config \<Rightarrow> string" where
  "save_config cfg = py_join [CHR 0x0A] (save_lines cfg)"

end
