(* ===== verification/Config_File.thy ===== *)
theory Config_File
  imports Config
begin

text \<open>
  The saved configuration read again. The reader is the part of TOML that the file needs: comments,
  tables, and keys with a text, a number or a truth value.
\<close>

section \<open>A reader of TOML\<close>

datatype toml_item = Blank | Table "string list" | Pair string pyval

definition printable :: "char \<Rightarrow> bool" where
  "printable c \<longleftrightarrow> (32 \<le> chr_code c \<or> c = CHR 0x09) \<and> chr_code c \<noteq> 127"

definition bare :: "char \<Rightarrow> bool" where
  "bare c \<longleftrightarrow> (48 \<le> chr_code c \<and> chr_code c \<le> 57) \<or> (65 \<le> chr_code c \<and> chr_code c \<le> 90) \<or> (97 \<le> chr_code c \<and> chr_code c \<le> 122) \<or>
     chr_code c = 45 \<or> chr_code c = 95"

text \<open>A text after its opening quote, and what follows it.\<close>

fun toml_text :: "string \<Rightarrow> (string \<times> string) option" where
  "toml_text [] = None"
| "toml_text (c # s) =
     (if c = CHR 0x22 then Some ([], s)
      else if c = CHR 0x5C then
        (case s of
           x # r \<Rightarrow> if x = CHR 0x5C \<or> x = CHR 0x22 then map_option (\<lambda>(t, u). (x # t, u)) (toml_text r) else None
         | [] \<Rightarrow> None)
      else if printable c then map_option (\<lambda>(t, u). (c # t, u)) (toml_text s)
      else None)"

definition word_end :: "char \<Rightarrow> bool" where
  "word_end c \<longleftrightarrow> c = CHR '' '' \<or> c = CHR ''#''"

definition toml_word :: "string \<Rightarrow> pyval option" where
  "toml_word w =
     (if w = ''true'' then Some (VBool True) else if w = ''false'' then Some (VBool False)
      else if list_all bare w then map_option VInt (py_int_opt 10 w) else None)"

definition toml_scalar :: "string \<Rightarrow> (pyval \<times> string) option" where
  "toml_scalar s = (case s of
       c # r \<Rightarrow>
         if c = CHR 0x22 then map_option (\<lambda>(t, u). (VStr t, u)) (toml_text r)
         else map_option (\<lambda>v. (v, dropWhile (\<lambda>c. \<not> word_end c) s)) (toml_word (takeWhile (\<lambda>c. \<not> word_end c) s))
     | [] \<Rightarrow> None)"

definition toml_end :: "string \<Rightarrow> bool" where
  "toml_end s = (case dropWhile (\<lambda>c. c = CHR '' '') s of [] \<Rightarrow> True | c # r \<Rightarrow> c = CHR ''#'')"

definition toml_pair :: "string \<Rightarrow> toml_item option" where
  "toml_pair l =
     (let k = takeWhile bare l; r = dropWhile bare l
      in if k \<noteq> [] \<and> take 3 r = '' = '' then
           (case toml_scalar (drop 3 r) of Some (v, u) \<Rightarrow> if toml_end u then Some (Pair k v) else None | None \<Rightarrow> None)
         else None)"

definition toml_line :: "string \<Rightarrow> toml_item option" where
  "toml_line l = (case l of
       [] \<Rightarrow> Some Blank
     | c # r \<Rightarrow>
         if c = CHR ''#'' then Some Blank
         else if c = CHR ''['' then
           (if r \<noteq> [] \<and> last r = CHR '']'' then
              let ks = split_char CHR ''.'' (butlast r)
              in if list_all (\<lambda>k. k \<noteq> [] \<and> list_all bare k) ks then Some (Table ks) else None
            else None)
         else toml_pair l)"

text \<open>The pairs before the first table, and the tables with their pairs.\<close>

fun toml_tables :: "toml_item list \<Rightarrow> pydict \<times> (string list \<times> pydict) list" where
  "toml_tables [] = ([], [])"
| "toml_tables (Blank # is) = toml_tables is"
| "toml_tables (Pair k v # is) = (case toml_tables is of (ps, ts) \<Rightarrow> ((k, v) # ps, ts))"
| "toml_tables (Table t # is) = (case toml_tables is of (ps, ts) \<Rightarrow> ([], (t, ps) # ts))"

text \<open>A table with a name of one or two parts is put into the root; nothing may be defined twice.\<close>

definition put_table :: "string list \<times> pydict \<Rightarrow> pydict \<Rightarrow> pydict option" where
  "put_table t d = (case t of
       ([a], ps) \<Rightarrow> if map_of d a = None then Some (d @ [(a, VDict ps)]) else None
     | ([a, b], ps) \<Rightarrow>
         (case map_of d a of
            None \<Rightarrow> Some (d @ [(a, VDict [(b, VDict ps)])])
          | Some (VDict e) \<Rightarrow> if map_of e b = None then Some (dict_set d a (VDict (e @ [(b, VDict ps)]))) else None
          | _ \<Rightarrow> None)
     | _ \<Rightarrow> None)"

fun put_tables :: "(string list \<times> pydict) list \<Rightarrow> pydict \<Rightarrow> pydict option" where
  "put_tables [] d = Some d"
| "put_tables (t # ts) d = Option.bind (put_table t d) (put_tables ts)"

definition read_toml :: "string \<Rightarrow> pydict option" where
  "read_toml s =
     Option.bind (those (map toml_line (split_char CHR 0x0A s))) (\<lambda>items.
       case toml_tables items of (ps, ts) \<Rightarrow>
         if distinct (map fst ps) \<and> list_all (\<lambda>t. distinct (map fst (snd t))) ts then put_tables ts ps else None)"

section \<open>Lines\<close>

lemma toml_text_escape: "list_all printable s \<Longrightarrow> toml_text (toml_escape s @ CHR 0x22 # r) = Some (s, r)"
  by (induction s) (auto simp: toml_escape_def)

lemma word_end_split:
  assumes "list_all bare w" and "r = [] \<or> word_end (hd r)"
  shows "takeWhile (\<lambda>c. \<not> word_end c) (w @ r) = w" "dropWhile (\<lambda>c. \<not> word_end c) (w @ r) = r"
proof -
  have w: "\<forall>c \<in> set w. \<not> word_end c" using assms(1) by (auto simp: list_all_iff bare_def word_end_def)
  show "takeWhile (\<lambda>c. \<not> word_end c) (w @ r) = w" "dropWhile (\<lambda>c. \<not> word_end c) (w @ r) = r"
    using w assms(2) by (cases r; simp add: takeWhile_append2 dropWhile_append2)+
qed

definition scalar :: "pyval \<Rightarrow> bool" where
  "scalar v = (case v of VBool b \<Rightarrow> True | VInt i \<Rightarrow> True | VStr s \<Rightarrow> list_all printable s | _ \<Rightarrow> False)"

lemma bare_alnum: "alnum_char c \<Longrightarrow> bare c"
  by (auto simp: alnum_char_def bare_def Let_def)

lemma bare_dec: "list_all bare (fmt_dec i)"
  using fmt_dec_alnum [of _ i] bare_alnum by (simp add: list_all_iff)

lemma dec_word: "toml_word (fmt_dec i) = Some (VInt i)"
proof -
  have "py_int_opt 10 (fmt_dec i) = Some i"
    using py_int_fmt_dec [of i] by (simp add: py_int_def split: option.splits)
  moreover have "py_int_opt 10 ''true'' = None" "py_int_opt 10 ''false'' = None" by code_simp+
  ultimately have "fmt_dec i \<noteq> ''true''" "fmt_dec i \<noteq> ''false''" by auto
  moreover note \<open>py_int_opt 10 (fmt_dec i) = Some i\<close>
  ultimately show ?thesis by (simp add: toml_word_def bare_dec)
qed

lemma scalar_read:
  assumes "scalar v" and "r = [] \<or> word_end (hd r)"
  shows "toml_scalar (dump_toml_value v @ r) = Some (v, r)"
proof (cases v)
  case (VBool b)
  have "list_all bare (if b then ''true'' else ''false'')" by (simp add: bare_def)
  from word_end_split [OF this assms(2)] show ?thesis
    by (cases b) (simp_all add: VBool dump_toml_value_def toml_scalar_def toml_word_def)
next
  case (VInt i)
  obtain c s where f: "fmt_dec i = c # s" by (cases "fmt_dec i") auto
  then have "c \<noteq> CHR 0x22" using bare_dec [of i] by (auto simp: bare_def)
  then show ?thesis
    using word_end_split [OF bare_dec [of i] assms(2)] dec_word [of i] by (simp add: VInt dump_toml_value_def toml_scalar_def f)
next
  case (VStr s)
  then show ?thesis
    using assms(1) by (simp add: dump_toml_value_def toml_scalar_def scalar_def value_str_def toml_text_escape)
qed (use assms in \<open>simp_all add: scalar_def\<close>)

definition line_end :: "string \<Rightarrow> bool" where
  "line_end r \<longleftrightarrow> (r = [] \<or> word_end (hd r)) \<and> toml_end r"

lemma pair_line:
  assumes "k \<noteq> []" and "list_all bare k" and "scalar v" and "line_end r"
  shows "toml_line (k @ '' = '' @ dump_toml_value v @ r) = Some (Pair k v)"
proof -
  have k: "takeWhile bare (k @ CHR '' '' # s) = k" "dropWhile bare (k @ CHR '' '' # s) = CHR '' '' # s" for s
    using assms(2) by (simp_all add: takeWhile_append2 dropWhile_append2 list_all_iff bare_def)
  obtain c s where c: "k = c # s" using assms(1) by (cases k) auto
  then have "c \<noteq> CHR ''#''" "c \<noteq> CHR ''[''" using assms(2) by (auto simp: bare_def)
  then have "toml_line (k @ '' = '' @ dump_toml_value v @ r) = toml_pair (k @ '' = '' @ dump_toml_value v @ r)"
    by (simp add: toml_line_def c)
  also have "\<dots> = Some (Pair k v)"
    using assms(1,4) scalar_read [OF assms(3), of r] by (simp add: toml_pair_def k line_end_def)
  finally show ?thesis .
qed

lemma table_line:
  assumes "list_all bare n" and "n \<noteq> []"
  shows "toml_line (''[profiles.'' @ n @ '']'') = Some (Table [''profiles'', n])"
proof -
  have "CHR ''.'' \<notin> set n" using assms(1) by (auto simp: list_all_iff bare_def)
  then have "split_char CHR ''.'' (py_join [CHR ''.''] [''profiles'', n]) = [''profiles'', n]"
    by (intro split_join) auto
  then have s: "split_char CHR ''.'' (''profiles.'' @ n) = [''profiles'', n]" by simp
  have b: "butlast (''profiles.'' @ n @ '']'') = ''profiles.'' @ n" by (simp add: butlast_append)
  have "list_all bare ''profiles''" by (simp add: bare_def)
  then show ?thesis
    using assms s b by (simp add: toml_line_def)
qed

section \<open>Tables\<close>

lemma tables_pairs: "toml_tables (map (\<lambda>(k, v). Pair k v) m @ is) = (m @ fst (toml_tables is), snd (toml_tables is))"
  by (induction m) (auto split: prod.split)

definition profile_items :: "string \<times> pydict \<Rightarrow> toml_item list" where
  "profile_items p = Table [''profiles'', fst p] # map (\<lambda>(k, v). Pair k v) (snd p) @ [Blank]"

lemma tables_profiles:
  "fst (toml_tables is) = [] \<Longrightarrow>
   toml_tables (concat (map profile_items ps) @ is) = ([], map (\<lambda>p. ([''profiles'', fst p], snd p)) ps @ snd (toml_tables is))"
  by (induction ps) (auto simp: profile_items_def tables_pairs prod_eq_iff split: prod.split)

definition profile_root :: "(string \<times> pydict) list \<Rightarrow> pydict" where
  "profile_root ps = (if ps = [] then [] else [(''profiles'', VDict (map (\<lambda>(n, m). (n, VDict m)) ps))])"

lemma map_of_tables: "map_of (map (\<lambda>(n, m). (n, VDict m)) ps) k = map_option VDict (map_of ps k)"
  by (induction ps) auto

lemma put_profiles:
  assumes "distinct (map fst (qs @ ps))" and "map_of d ''profiles'' = None"
  shows "put_tables (map (\<lambda>p. ([''profiles'', fst p], snd p)) ps @ ts) (d @ profile_root qs) = put_tables ts (d @ profile_root (qs @ ps))"
  using assms(1)
proof (induction ps arbitrary: qs)
  case (Cons p ps)
  obtain n m where p: "p = (n, m)" by (cases p)
  have "map_of qs n = None" using Cons.prems p by (auto simp: map_of_eq_None_iff)
  moreover have "dict_set (d @ [(''profiles'', u)]) ''profiles'' v = d @ [(''profiles'', v)]" for u v
    using assms(2) by (induction d) (auto simp: dict_set_def split: if_splits)
  ultimately have "put_table ([''profiles'', n], m) (d @ profile_root qs) = Some (d @ profile_root (qs @ [(n, m)]))"
    using assms(2) by (simp add: put_table_def profile_root_def map_add_def map_of_tables)
  then show ?case using Cons.IH [of "qs @ [p]"] Cons.prems p by simp
qed simp

lemma put_flat:
  "distinct (map fst d @ map fst ts) \<Longrightarrow>
   put_tables (map (\<lambda>(t, m). ([t], m)) ts) d = Some (d @ map (\<lambda>(t, m). (t, VDict m)) ts)"
proof (induction ts arbitrary: d)
  case (Cons t ts)
  then have "map_of d (fst t) = None" by (auto simp: map_of_eq_None_iff)
  then show ?case using Cons.IH [of "d @ [(fst t, VDict (snd t))]"] Cons.prems by (auto simp: put_table_def split_beta)
qed simp

section \<open>The lines of a file\<close>

datatype layout_line = Fixed string | Entry string string string

definition layout :: "layout_line list" where
  "layout = [
     Fixed ''[serial]'', Entry ''mode'' ''serial_mode'' [], Entry ''host'' ''serial_host'' [], Entry ''port'' ''serial_port'' [],
     Entry ''pty_path'' ''pty_path'' [], Fixed [],
     Fixed ''[emulator]'', Entry ''binary'' ''emulator_binary'' [], Entry ''config'' ''emulator_config'' [],
     Entry ''auto_start'' ''emulator_auto_start'' [], Fixed [],
     Fixed ''[server]'', Entry ''port'' ''server_port'' [], Entry ''log_level'' ''log_level'' [], Fixed [],
     Fixed ''[paths]'', Entry ''deploy_dir'' ''deploy_dir'' [], Fixed [],
     Fixed ''[bridge]'', Entry ''crash_handler_auto_enable'' ''crash_handler_auto_enable'' [], Fixed [],
     Fixed ''[build]'', Entry ''arch'' ''arch'' [], Entry ''docker_image'' ''docker_image'' [], Fixed [],
     Fixed ''[winuae_debug]'', Entry ''enabled'' ''winuae_debug_enabled'' [], Entry ''host'' ''winuae_debug_host'' [],
     Entry ''port'' ''winuae_debug_port'' [], Fixed [],
     Fixed ''[fsuae_rpc]'',
     Fixed ''# Remote-debug HTTP API exposed by the patched fs-uae build'',
     Fixed ''# (see https://github.com/geekychris/fsuae_remote_patch). Stock fs-uae'',
     Fixed ''# ignores these env vars, so leaving this enabled is safe either way.'',
     Entry ''enabled'' ''fsuae_rpc_enabled'' ''  # \"auto\" | \"on\" | \"off\"'',
     Entry ''port'' ''fsuae_rpc_port'' [], Entry ''pause_at_boot'' ''fsuae_rpc_pause_at_boot'' [],
     Entry ''gdb_port'' ''fsuae_gdb_port'' ''  # 0 disables the in-emulator GDB stub'',
     Entry ''auto_pause_on_crash'' ''fsuae_auto_pause_on_crash'' [],
     Fixed (''# Auto-snapshot ring buffer '' @ [CHR 0xE2, CHR 0x80, CHR 0x94] @ '' OFF by default. Set to e.g. 30 for a snap every 30s.''),
     Fixed ''# Each save is ~19MB / ~200ms and DOES affect emulator throughput while saving.'',
     Entry ''auto_snapshot_interval_s'' ''fsuae_auto_snapshot_interval_s'' ''  # 0 disables'',
     Entry ''auto_snapshot_ring_size'' ''fsuae_auto_snapshot_ring_size'' ''    # rotating slots'',
     Fixed []]"

fun layout_text :: "config \<Rightarrow> layout_line \<Rightarrow> string" where
  "layout_text cfg (Fixed l) = l"
| "layout_text cfg (Entry k a r) = k @ '' = '' @ dump_toml_value (dict_get cfg a VNone) @ r"

fun layout_item :: "config \<Rightarrow> layout_line \<Rightarrow> toml_item" where
  "layout_item cfg (Fixed l) = the (toml_line l)"
| "layout_item cfg (Entry k a r) = Pair k (dict_get cfg a VNone)"

fun layout_ok :: "layout_line \<Rightarrow> bool" where
  "layout_ok (Fixed l) = (toml_line l \<noteq> None \<and> CHR 0x0A \<notin> set l)"
| "layout_ok (Entry k a r) = (k \<noteq> [] \<and> list_all bare k \<and> line_end r \<and> CHR 0x0A \<notin> set (k @ r))"

lemma layout_fits: "list_all layout_ok layout"
  by code_simp

text \<open>The tables, with the attributes their keys are saved from.\<close>

definition saved_tables :: "(string \<times> (string \<times> string) list) list" where
  "saved_tables = [
     (''serial'', [(''mode'', ''serial_mode''), (''host'', ''serial_host''), (''port'', ''serial_port''), (''pty_path'', ''pty_path'')]),
     (''emulator'', [(''binary'', ''emulator_binary''), (''config'', ''emulator_config''), (''auto_start'', ''emulator_auto_start'')]),
     (''server'', [(''port'', ''server_port''), (''log_level'', ''log_level'')]),
     (''paths'', [(''deploy_dir'', ''deploy_dir'')]),
     (''bridge'', [(''crash_handler_auto_enable'', ''crash_handler_auto_enable'')]),
     (''build'', [(''arch'', ''arch''), (''docker_image'', ''docker_image'')]),
     (''winuae_debug'', [(''enabled'', ''winuae_debug_enabled''), (''host'', ''winuae_debug_host''), (''port'', ''winuae_debug_port'')]),
     (''fsuae_rpc'', [(''enabled'', ''fsuae_rpc_enabled''), (''port'', ''fsuae_rpc_port''), (''pause_at_boot'', ''fsuae_rpc_pause_at_boot''),
        (''gdb_port'', ''fsuae_gdb_port''), (''auto_pause_on_crash'', ''fsuae_auto_pause_on_crash''),
        (''auto_snapshot_interval_s'', ''fsuae_auto_snapshot_interval_s''), (''auto_snapshot_ring_size'', ''fsuae_auto_snapshot_ring_size'')])]"

definition saved_attributes :: "string list" where
  "saved_attributes = concat (map (\<lambda>(t, ks). map snd ks) saved_tables)"

definition table_values :: "config \<Rightarrow> (string \<times> pydict) list" where
  "table_values cfg = map (\<lambda>(t, ks). (t, map (\<lambda>(k, a). (k, dict_get cfg a VNone)) ks)) saved_tables"

lemma fixed_items:
  "toml_line ''[serial]'' = Some (Table [''serial''])" "toml_line ''[emulator]'' = Some (Table [''emulator''])"
  "toml_line ''[server]'' = Some (Table [''server''])" "toml_line ''[paths]'' = Some (Table [''paths''])"
  "toml_line ''[bridge]'' = Some (Table [''bridge''])" "toml_line ''[build]'' = Some (Table [''build''])"
  "toml_line ''[winuae_debug]'' = Some (Table [''winuae_debug''])" "toml_line ''[fsuae_rpc]'' = Some (Table [''fsuae_rpc''])"
  "toml_line [] = Some Blank" "toml_line (CHR ''#'' # s) = Some Blank"
  by code_simp+

lemma layout_tables: "toml_tables (map (layout_item cfg) layout) = ([], map (\<lambda>(t, m). ([t], m)) (table_values cfg))"
  by (simp add: layout_def fixed_items table_values_def saved_tables_def)

section \<open>Configurations that can be saved\<close>

definition holds :: "(pyval \<Rightarrow> bool) \<Rightarrow> config \<Rightarrow> string \<Rightarrow> bool" where
  "holds P cfg a = P (dict_get cfg a VNone)"

definition any_text :: "pyval \<Rightarrow> bool" where
  "any_text v = (case v of VStr s \<Rightarrow> list_all printable s | _ \<Rightarrow> False)"

definition clean_text :: "pyval \<Rightarrow> bool" where
  "clean_text v = (case v of VStr s \<Rightarrow> list_all (\<lambda>c. printable c \<and> c \<noteq> CHR 0x22 \<and> c \<noteq> CHR 0x5C) s | _ \<Rightarrow> False)"

definition lower_text :: "pyval \<Rightarrow> bool" where
  "lower_text v = (case v of VStr s \<Rightarrow> py_lower s = s | _ \<Rightarrow> False)"

definition a_number :: "pyval \<Rightarrow> bool" where
  "a_number v = (case v of VInt i \<Rightarrow> True | _ \<Rightarrow> False)"

definition a_flag :: "pyval \<Rightarrow> bool" where
  "a_flag v = (case v of VBool b \<Rightarrow> True | _ \<Rightarrow> False)"

text \<open>The texts that are written as they are must hold no quotes and backslashes; the others are escaped.\<close>

definition plain_attributes :: "string list" where
  "plain_attributes = [''serial_mode'', ''serial_host'', ''pty_path'', ''emulator_binary'', ''emulator_config'', ''log_level'', ''deploy_dir'',
     ''fsuae_rpc_enabled'']"

definition wf_attributes :: "config \<Rightarrow> bool" where
  "wf_attributes cfg \<longleftrightarrow>
     list_all (holds clean_text cfg) plain_attributes \<and>
     list_all (holds any_text cfg) [''active_profile'', ''arch'', ''docker_image'', ''winuae_debug_host''] \<and>
     list_all (holds lower_text cfg) [''arch'', ''fsuae_rpc_enabled''] \<and>
     list_all (holds a_number cfg) [''serial_port'', ''server_port'', ''winuae_debug_port'', ''fsuae_rpc_port'', ''fsuae_gdb_port'',
       ''fsuae_auto_snapshot_interval_s'', ''fsuae_auto_snapshot_ring_size''] \<and>
     list_all (holds a_flag cfg) [''emulator_auto_start'', ''crash_handler_auto_enable'', ''winuae_debug_enabled'',
       ''fsuae_rpc_pause_at_boot'', ''fsuae_auto_pause_on_crash''] \<and>
     winuae_host (dict_get cfg ''winuae_debug_host'' VNone) = Inr (dict_get cfg ''winuae_debug_host'' VNone) \<and>
     winuae_port (dict_get cfg ''winuae_debug_port'' VNone) = Inr (dict_get cfg ''winuae_debug_port'' VNone)"

definition wf_profile :: "string \<times> pyval \<Rightarrow> bool" where
  "wf_profile p = (fst p \<noteq> [] \<and> list_all bare (fst p) \<and>
     (case snd p of
        VDict m \<Rightarrow> distinct (map fst m) \<and> list_all (\<lambda>(k, v). k \<noteq> [] \<and> list_all bare k \<and> scalar v) m
      | _ \<Rightarrow> False))"

definition wf_config :: "config \<Rightarrow> bool" where
  "wf_config cfg \<longleftrightarrow>
     wf_attributes cfg \<and> distinct (map fst (get_profiles cfg)) \<and> list_all wf_profile (get_profiles cfg) \<and>
     dict_get cfg ''profiles'' VNone = VDict (get_profiles cfg)"

lemma toml_escape_plain [simp]: "list_all (\<lambda>c. c \<noteq> CHR 0x22 \<and> c \<noteq> CHR 0x5C) s \<Longrightarrow> toml_escape s = s"
  by (induction s) (auto simp: toml_escape_def)

lemma kinds:
  "any_text v \<longleftrightarrow> (\<exists>s. v = VStr s \<and> list_all printable s)"
  "clean_text v \<longleftrightarrow> (\<exists>s. v = VStr s \<and> list_all printable s \<and> list_all (\<lambda>c. c \<noteq> CHR 0x22 \<and> c \<noteq> CHR 0x5C) s)"
  "a_number v \<longleftrightarrow> (\<exists>i. v = VInt i)" "a_flag v \<longleftrightarrow> (\<exists>b. v = VBool b)"
  "lower_text v \<longleftrightarrow> (\<exists>s. v = VStr s \<and> py_lower s = s)"
  by (auto simp: any_text_def clean_text_def a_number_def a_flag_def lower_text_def list_all_iff split: pyval.split)

lemma dumped:
  "clean_text (dict_get cfg a VNone) \<Longrightarrow> in_quotes (attr cfg a) = dump_toml_value (dict_get cfg a VNone)"
  "any_text (dict_get cfg a VNone) \<Longrightarrow> in_quotes (toml_escape (attr cfg a)) = dump_toml_value (dict_get cfg a VNone)"
  "a_number (dict_get cfg a VNone) \<Longrightarrow> attr cfg a = dump_toml_value (dict_get cfg a VNone)"
  "a_flag (dict_get cfg a VNone) \<Longrightarrow> flag cfg a = dump_toml_value (dict_get cfg a VNone)"
  by (auto simp: kinds attr_def flag_def in_quotes_def dump_toml_value_def value_str_def)

lemma scalar_kinds:
  "clean_text v \<Longrightarrow> scalar v" "any_text v \<Longrightarrow> scalar v" "a_number v \<Longrightarrow> scalar v" "a_flag v \<Longrightarrow> scalar v"
  by (auto simp: kinds scalar_def)

definition head_lines :: "config \<Rightarrow> string list" where
  "head_lines cfg = [''# Amiga DevBench Configuration'', []] @
     (if truthy (dict_get cfg ''active_profile'' VNone)
      then [''active_profile'' @ '' = '' @ dump_toml_value (dict_get cfg ''active_profile'' VNone) @ [], []] else [])"

lemma save_lines_layout:
  assumes "wf_attributes cfg"
  shows "save_lines cfg = head_lines cfg @ concat (map profile_lines (sorted_profiles (get_profiles cfg))) @ map (layout_text cfg) layout"
proof -
  note w = assms [unfolded wf_attributes_def plain_attributes_def list.pred_inject holds_def]
  have quotes:
    "in_quotes (attr cfg ''serial_mode'') = dump_toml_value (dict_get cfg ''serial_mode'' VNone)"
    "in_quotes (attr cfg ''serial_host'') = dump_toml_value (dict_get cfg ''serial_host'' VNone)"
    "in_quotes (attr cfg ''pty_path'') = dump_toml_value (dict_get cfg ''pty_path'' VNone)"
    "in_quotes (attr cfg ''emulator_binary'') = dump_toml_value (dict_get cfg ''emulator_binary'' VNone)"
    "in_quotes (attr cfg ''emulator_config'') = dump_toml_value (dict_get cfg ''emulator_config'' VNone)"
    "in_quotes (attr cfg ''log_level'') = dump_toml_value (dict_get cfg ''log_level'' VNone)"
    "in_quotes (attr cfg ''deploy_dir'') = dump_toml_value (dict_get cfg ''deploy_dir'' VNone)"
    "in_quotes (attr cfg ''fsuae_rpc_enabled'') = dump_toml_value (dict_get cfg ''fsuae_rpc_enabled'' VNone)"
    using w by (simp_all only: dumped(1))
  have escaped:
    "in_quotes (toml_escape (attr cfg ''active_profile'')) = dump_toml_value (dict_get cfg ''active_profile'' VNone)"
    "in_quotes (toml_escape (attr cfg ''arch'')) = dump_toml_value (dict_get cfg ''arch'' VNone)"
    "in_quotes (toml_escape (attr cfg ''docker_image'')) = dump_toml_value (dict_get cfg ''docker_image'' VNone)"
    "in_quotes (toml_escape (attr cfg ''winuae_debug_host'')) = dump_toml_value (dict_get cfg ''winuae_debug_host'' VNone)"
    using w by (simp_all only: dumped(2))
  have numbers:
    "attr cfg ''serial_port'' = dump_toml_value (dict_get cfg ''serial_port'' VNone)"
    "attr cfg ''server_port'' = dump_toml_value (dict_get cfg ''server_port'' VNone)"
    "attr cfg ''winuae_debug_port'' = dump_toml_value (dict_get cfg ''winuae_debug_port'' VNone)"
    "attr cfg ''fsuae_rpc_port'' = dump_toml_value (dict_get cfg ''fsuae_rpc_port'' VNone)"
    "attr cfg ''fsuae_gdb_port'' = dump_toml_value (dict_get cfg ''fsuae_gdb_port'' VNone)"
    "attr cfg ''fsuae_auto_snapshot_interval_s'' = dump_toml_value (dict_get cfg ''fsuae_auto_snapshot_interval_s'' VNone)"
    "attr cfg ''fsuae_auto_snapshot_ring_size'' = dump_toml_value (dict_get cfg ''fsuae_auto_snapshot_ring_size'' VNone)"
    using w by (simp_all only: dumped(3))
  have flags:
    "flag cfg ''emulator_auto_start'' = dump_toml_value (dict_get cfg ''emulator_auto_start'' VNone)"
    "flag cfg ''crash_handler_auto_enable'' = dump_toml_value (dict_get cfg ''crash_handler_auto_enable'' VNone)"
    "flag cfg ''winuae_debug_enabled'' = dump_toml_value (dict_get cfg ''winuae_debug_enabled'' VNone)"
    "flag cfg ''fsuae_rpc_pause_at_boot'' = dump_toml_value (dict_get cfg ''fsuae_rpc_pause_at_boot'' VNone)"
    "flag cfg ''fsuae_auto_pause_on_crash'' = dump_toml_value (dict_get cfg ''fsuae_auto_pause_on_crash'' VNone)"
    using w by (simp_all only: dumped(4))
  show ?thesis
    unfolding save_lines_def head_lines_def layout_def quotes escaped numbers flags by simp
qed

lemma layout_scalars:
  assumes "wf_attributes cfg" and "x \<in> set layout"
  shows "case x of Entry k a r \<Rightarrow> scalar (dict_get cfg a VNone) | _ \<Rightarrow> True"
proof -
  note w = assms(1) [unfolded wf_attributes_def plain_attributes_def list.pred_inject holds_def]
  have "list_all (\<lambda>x. case x of Entry k a r \<Rightarrow> scalar (dict_get cfg a VNone) | _ \<Rightarrow> True) layout"
    using w by (simp add: layout_def scalar_kinds)
  then show ?thesis using assms(2) by (simp add: list_all_iff)
qed

lemma layout_read:
  assumes "wf_attributes cfg" and "x \<in> set layout"
  shows "toml_line (layout_text cfg x) = Some (layout_item cfg x)"
proof -
  have x: "layout_ok x" using layout_fits assms(2) by (auto simp: list_all_iff)
  show ?thesis
  proof (cases x)
    case (Entry k a r)
    then show ?thesis using x layout_scalars [OF assms] pair_line [of k "dict_get cfg a VNone" r] by simp
  qed (use x in auto)
qed

lemma no_break_value:
  assumes "scalar v"
  shows "CHR 0x0A \<notin> set (dump_toml_value v)"
proof (cases v)
  case (VInt i)
  have "CHR 0x0A \<notin> set (fmt_dec i)" using fmt_dec_alnum alnum_char_neq(6) by blast
  then show ?thesis by (simp add: VInt dump_toml_value_def)
next
  case (VStr s)
  then have "CHR 0x0A \<notin> set s" using assms by (auto simp: scalar_def list_all_iff printable_def)
  then show ?thesis by (auto simp: VStr dump_toml_value_def value_str_def toml_escape_def split: if_splits)
qed (use assms in \<open>simp_all add: scalar_def dump_toml_value_def\<close>)

lemma layout_no_break:
  assumes "wf_attributes cfg" and "x \<in> set layout"
  shows "CHR 0x0A \<notin> set (layout_text cfg x)"
proof -
  have x: "layout_ok x" using layout_fits assms(2) by (auto simp: list_all_iff)
  show ?thesis
  proof (cases x)
    case (Entry k a r)
    then show ?thesis using x layout_scalars [OF assms] no_break_value by auto
  qed (use x in auto)
qed

section \<open>Profiles in the file\<close>

definition profile_pairs :: "config \<Rightarrow> (string \<times> pydict) list" where
  "profile_pairs cfg = map (\<lambda>k. (k, case dict_get (get_profiles cfg) k VNone of VDict m \<Rightarrow> m | _ \<Rightarrow> [])) (sort (map fst (get_profiles cfg)))"

lemma profile_found:
  assumes "wf_config cfg" and "k \<in> set (map fst (get_profiles cfg))"
  obtains m where "map_of (get_profiles cfg) k = Some (VDict m)" and "wf_profile (k, VDict m)"
proof -
  obtain v where v: "map_of (get_profiles cfg) k = Some v"
    using assms(2) by (cases "map_of (get_profiles cfg) k") (auto simp: map_of_eq_None_iff)
  then have "wf_profile (k, v)" using assms(1) map_of_SomeD [OF v] by (auto simp: wf_config_def list_all_iff)
  then show thesis using that v by (cases v) (auto simp: wf_profile_def)
qed

lemma profile_pairs_sorted:
  assumes "wf_config cfg"
  shows "sorted_profiles (get_profiles cfg) = map (\<lambda>(n, m). (n, VDict m)) (profile_pairs cfg)"
    and "list_all (\<lambda>(n, m). wf_profile (n, VDict m)) (profile_pairs cfg)"
    and "distinct (map fst (profile_pairs cfg))"
    and "map_of (map (\<lambda>(n, m). (n, VDict m)) (profile_pairs cfg)) = map_of (get_profiles cfg)"
proof -
  let ?ps = "get_profiles cfg"
  have f: "dict_get ?ps k VNone = VDict (case dict_get ?ps k VNone of VDict m \<Rightarrow> m | _ \<Rightarrow> []) \<and> wf_profile (k, dict_get ?ps k VNone)"
    if k: "k \<in> set (map fst ?ps)" for k
  proof -
    obtain m where "map_of ?ps k = Some (VDict m)" "wf_profile (k, VDict m)" using profile_found [OF assms k] by blast
    then show ?thesis by (simp add: dict_get_def)
  qed
  show s: "sorted_profiles ?ps = map (\<lambda>(n, m). (n, VDict m)) (profile_pairs cfg)"
    using f by (simp add: sorted_profiles_def profile_pairs_def)
  show "list_all (\<lambda>(n, m). wf_profile (n, VDict m)) (profile_pairs cfg)"
    using f by (auto simp: profile_pairs_def list_all_iff)
  show "distinct (map fst (profile_pairs cfg))"
    using assms by (simp add: profile_pairs_def comp_def wf_config_def)
  have "map_of (map (\<lambda>k. (k, dict_get ?ps k VNone)) (sort (map fst ?ps))) k = map_of ?ps k" for k
  proof (cases "map_of ?ps k")
    case None
    then have "k \<notin> fst ` set ?ps" by (simp add: map_of_eq_None_iff)
    then show ?thesis using None by (simp add: map_of_map_restrict [unfolded comp_def] restrict_map_def)
  next
    case (Some v)
    then have "k \<in> fst ` set ?ps" by (force dest: map_of_SomeD)
    then show ?thesis using Some by (simp add: map_of_map_restrict [unfolded comp_def] restrict_map_def dict_get_def)
  qed
  then show "map_of (map (\<lambda>(n, m). (n, VDict m)) (profile_pairs cfg)) = map_of ?ps"
    unfolding s [symmetric] sorted_profiles_def by blast
qed

lemma profile_read:
  assumes "wf_profile (n, VDict m)"
  shows "map toml_line (profile_lines (n, VDict m)) = map Some (profile_items (n, m))"
    and "\<forall>l \<in> set (profile_lines (n, VDict m)). CHR 0x0A \<notin> set l"
proof -
  have "toml_line (k @ '' = '' @ dump_toml_value v) = Some (Pair k v)" if "(k, v) \<in> set m" for k v
    using assms that pair_line [of k v "[]"] by (auto simp: wf_profile_def list_all_iff line_end_def toml_end_def)
  then show "map toml_line (profile_lines (n, VDict m)) = map Some (profile_items (n, m))"
    using assms table_line [of n] by (auto simp: profile_lines_def profile_items_def wf_profile_def fixed_items)
  have b: "CHR 0x0A \<notin> set k" if "list_all bare k" for k using that by (auto simp: list_all_iff bare_def)
  show "\<forall>l \<in> set (profile_lines (n, VDict m)). CHR 0x0A \<notin> set l"
    using assms no_break_value by (auto simp: profile_lines_def wf_profile_def list_all_iff dest!: b [unfolded list_all_iff])
qed

section \<open>The file is read as it has been saved\<close>

definition active_pair :: "config \<Rightarrow> pydict" where
  "active_pair cfg = (let v = dict_get cfg ''active_profile'' VNone in if truthy v then [(''active_profile'', v)] else [])"

definition saved_data :: "config \<Rightarrow> pydict" where
  "saved_data cfg = (active_pair cfg @ profile_root (profile_pairs cfg)) @ map (\<lambda>(t, m). (t, VDict m)) (table_values cfg)"

lemma those_Some: "those (map Some xs) = Some xs"
  by (induction xs) auto

definition head_items :: "config \<Rightarrow> toml_item list" where
  "head_items cfg = [Blank, Blank] @ concat (map (\<lambda>(k, v). [Pair k v, Blank]) (active_pair cfg))"

lemma head_read:
  assumes "wf_attributes cfg"
  shows "map toml_line (head_lines cfg) = map Some (head_items cfg)" and "\<forall>l \<in> set (head_lines cfg). CHR 0x0A \<notin> set l"
proof -
  let ?v = "dict_get cfg ''active_profile'' VNone"
  have v: "scalar ?v"
    using assms by (intro scalar_kinds(2)) (simp add: wf_attributes_def holds_def)
  have "list_all bare ''active_profile''" "line_end []" by code_simp+
  then have "toml_line (''active_profile'' @ '' = '' @ dump_toml_value ?v @ []) = Some (Pair ''active_profile'' ?v)"
    using v by (intro pair_line) simp_all
  then show "map toml_line (head_lines cfg) = map Some (head_items cfg)"
    by (simp add: head_lines_def head_items_def active_pair_def fixed_items)
  show "\<forall>l \<in> set (head_lines cfg). CHR 0x0A \<notin> set l"
    using no_break_value [OF v] by (auto simp: head_lines_def)
qed

lemma head_tables: "toml_tables (head_items cfg @ is) = (active_pair cfg @ fst (toml_tables is), snd (toml_tables is))"
  by (simp add: head_items_def active_pair_def Let_def split: prod.split)

lemma lines_read:
  assumes "wf_config cfg"
  shows "map toml_line (save_lines cfg) =
      map Some (head_items cfg @ concat (map profile_items (profile_pairs cfg)) @ map (layout_item cfg) layout)"
    and "\<forall>l \<in> set (save_lines cfg). CHR 0x0A \<notin> set l"
proof -
  have a: "wf_attributes cfg" using assms by (simp add: wf_config_def)
  let ?pp = "profile_pairs cfg"
  have lines: "save_lines cfg = head_lines cfg @ concat (map (\<lambda>(n, m). profile_lines (n, VDict m)) ?pp) @ map (layout_text cfg) layout"
    using save_lines_layout [OF a] profile_pairs_sorted(1) [OF assms] by (simp add: comp_def split_def)
  have wf: "wf_profile (n, VDict m)" if "(n, m) \<in> set ?pp" for n m
    using profile_pairs_sorted(2) [OF assms] that by (auto simp: list_all_iff)
  then have "map toml_line (concat (map (\<lambda>(n, m). profile_lines (n, VDict m)) ps)) = map Some (concat (map profile_items ps))"
    if "set ps \<subseteq> set ?pp" for ps
    using that by (induction ps) (auto simp: profile_read(1))
  from this [of ?pp] show "map toml_line (save_lines cfg) =
      map Some (head_items cfg @ concat (map profile_items ?pp) @ map (layout_item cfg) layout)"
    using layout_read [OF a] by (simp add: lines head_read(1) [OF a])
  show "\<forall>l \<in> set (save_lines cfg). CHR 0x0A \<notin> set l"
    using head_read(2) [OF a] layout_no_break [OF a] wf profile_read(2) unfolding lines by fastforce
qed

lemma tables_apart:
  "map fst (table_values cfg) = map fst saved_tables" "list_all (\<lambda>t. distinct (map fst (snd t))) (table_values cfg)"
  by (simp_all add: table_values_def saved_tables_def)

lemma saved_read:
  assumes "wf_config cfg"
  shows "read_toml (save_config cfg) = Some (saved_data cfg)"
proof -
  let ?pp = "profile_pairs cfg"
  let ?items = "head_items cfg @ concat (map profile_items ?pp) @ map (layout_item cfg) layout"
  have "save_lines cfg \<noteq> []" by (simp add: save_lines_def)
  then have "split_char CHR 0x0A (save_config cfg) = save_lines cfg"
    unfolding save_config_def using lines_read(2) [OF assms] by (intro split_join)
  then have items: "those (map toml_line (split_char CHR 0x0A (save_config cfg))) = Some ?items"
    using lines_read(1) [OF assms] by (simp add: those_Some del: map_append)
  have tables: "toml_tables ?items =
      (active_pair cfg, map (\<lambda>p. ([''profiles'', fst p], snd p)) ?pp @ map (\<lambda>(t, m). ([t], m)) (table_values cfg))"
    by (simp add: head_tables tables_profiles layout_tables)
  have a: "distinct (map fst (active_pair cfg))" "map_of (active_pair cfg) ''profiles'' = None"
    by (simp_all add: active_pair_def Let_def)
  have "list_all (\<lambda>p. distinct (map fst (snd p))) ?pp"
    using profile_pairs_sorted(2) [OF assms] by (auto simp: list_all_iff wf_profile_def)
  then have t: "list_all (\<lambda>t. distinct (map fst (snd t))) (map (\<lambda>p. ([''profiles'', fst p], snd p)) ?pp @ map (\<lambda>(t, m). ([t], m)) (table_values cfg))"
    using tables_apart(2) [of cfg] by (auto simp: list_all_iff)
  have "distinct (map fst (active_pair cfg @ profile_root ?pp) @ map fst (table_values cfg))"
    by (auto simp: tables_apart(1) active_pair_def profile_root_def saved_tables_def Let_def)
  from put_flat [OF this] have "put_tables (map (\<lambda>(t, m). ([t], m)) (table_values cfg)) (active_pair cfg @ profile_root ?pp) = Some (saved_data cfg)"
    by (simp only: saved_data_def)
  then have "put_tables (map (\<lambda>p. ([''profiles'', fst p], snd p)) ?pp @ map (\<lambda>(t, m). ([t], m)) (table_values cfg)) (active_pair cfg) =
      Some (saved_data cfg)"
    using put_profiles [of "[]" ?pp "active_pair cfg"] profile_pairs_sorted(3) [OF assms] a(2)
    by (simp add: profile_root_def [of "[]"])
  then show ?thesis using items tables a(1) t by (simp add: read_toml_def)
qed

section \<open>Loading what has been saved\<close>

definition set_all :: "config \<Rightarrow> string list \<Rightarrow> config \<Rightarrow> config" where
  "set_all cfg = fold (\<lambda>a c. dict_set c a (dict_get cfg a VNone))"

lemma get_set: "dict_get (dict_set c a v) b w = (if a = b then v else dict_get c b w)"
  by (simp add: dict_get_def)

lemma get_set_all: "dict_get (set_all cfg as c) b w = (if b \<in> set as then dict_get cfg b VNone else dict_get c b w)"
  by (induction as arbitrary: c) (auto simp: set_all_def get_set)

lemma conversions:
  "as_is v = Inr v" "a_number v \<Longrightarrow> to_int v = Inr v" "a_flag v \<Longrightarrow> to_bool v = Inr v" "any_text v \<Longrightarrow> to_str v = Inr v"
  "lower_text v \<Longrightarrow> to_lower v = Inr v" "lower_text v \<Longrightarrow> rpc_mode v = Inr v" "a_flag v \<Longrightarrow> winuae_enabled v = Inr v"
  by (auto simp: kinds as_is_def to_int_def to_bool_def to_str_def to_lower_def rpc_mode_def winuae_enabled_def value_str_def)

lemma saved_section:
  assumes "t \<noteq> ''active_profile''" and "t \<noteq> ''profiles''"
  shows "section_of (saved_data cfg) t = (case map_of (table_values cfg) t of Some m \<Rightarrow> VDict m | None \<Rightarrow> VDict [])"
  using assms
  by (simp add: section_of_def dict_get_def saved_data_def active_pair_def profile_root_def Let_def map_add_def map_of_tables split: option.split)

lemma take_keys_step:
  "take_keys [] t c = Inr c"
  "member k t = Inr (Some v) \<Longrightarrow> conv v = Inr w \<Longrightarrow> take_keys ((k, conv, a) # ss) t c = take_keys ss t (dict_set c a w)"
  "member k t = Inr None \<Longrightarrow> take_keys ((k, conv, a) # ss) t c = take_keys ss t c"
  by (simp_all add: take_keys_def take_key_def)

lemma member_dict: "member k (VDict m) = Inr (map_of m k)"
  by (simp add: member_def)

lemma take_sections_step:
  "take_sections [] data c = Inr c"
  "take_keys ss (section_of data t) c = Inr c' \<Longrightarrow> take_sections ((t, ss) # secs) data c = take_sections secs data c'"
  by (simp_all add: take_sections_def)

lemma apply_saved:
  assumes "wf_attributes cfg"
  shows "apply_toml (saved_data cfg) c = Inr (set_all cfg saved_attributes (take_profiles (saved_data cfg) c))"
proof -
  note w = assms [unfolded wf_attributes_def plain_attributes_def list.pred_inject holds_def]
  show ?thesis
    using w
    by (simp add: apply_toml_def flat_settings_def rpc_settings_def apply_winuae_debug_def saved_section table_values_def saved_tables_def
      take_sections_step take_keys_step member_dict conversions set_all_def saved_attributes_def)
qed

section \<open>Saving and loading\<close>

text \<open>
  A configuration as it is before the active profile and the paths: what the file holds is that of \<open>cfg\<close>,
  the project's root is the directory of the file, everything else is at its default.
\<close>

definition restored :: "config \<Rightarrow> string \<Rightarrow> config \<Rightarrow> bool" where
  "restored cfg root c \<longleftrightarrow>
     map_of (get_profiles c) = map_of (get_profiles cfg) \<and>
     (\<forall>a. a \<noteq> ''profiles'' \<longrightarrow> dict_get c a VNone =
       (if a \<in> set (''active_profile'' # saved_attributes) then dict_get cfg a VNone
        else if a = ''project_root'' then VStr root else dict_get default_config a VNone))"

text \<open>A path as it is resolved: an empty one stays, and what resolving makes of the others.\<close>

definition path_value :: "(string \<Rightarrow> string) \<Rightarrow> pyval \<Rightarrow> pyval" where
  "path_value f v = (case v of VStr (c # s) \<Rightarrow> VStr (f (c # s)) | _ \<Rightarrow> v)"

definition resolved_from :: "host_paths \<Rightarrow> config \<Rightarrow> config \<Rightarrow> bool" where
  "resolved_from h c c' \<longleftrightarrow>
     (\<forall>a. a \<notin> {''emulator_config'', ''project_root'', ''deploy_dir'', ''emulator_binary''} \<longrightarrow>
        dict_get c' a VNone = dict_get c a VNone) \<and>
     dict_get c' ''emulator_config'' VNone = path_value (expand h) (dict_get c ''emulator_config'' VNone) \<and>
     dict_get c' ''project_root'' VNone = path_value (resolved h) (dict_get c ''project_root'' VNone) \<and>
     dict_get c' ''deploy_dir'' VNone = path_value (expand h) (dict_get c ''deploy_dir'' VNone)"

lemma map_path_text:
  assumes "dict_get c name VNone = VStr s"
  shows "\<exists>c'. map_path f name c = Inr c' \<and>
    (\<forall>a. dict_get c' a VNone = (if a = name then path_value f (VStr s) else dict_get c a VNone))"
proof (cases s)
  case (Cons x xs)
  then show ?thesis
    using assms by (intro exI [of _ "dict_set c name (VStr (f s))"]) (simp add: map_path_def get_set path_value_def Let_def)
qed (use assms in \<open>auto simp: map_path_def path_value_def\<close>)

lemma anchor_text:
  assumes "dict_get c ''emulator_binary'' VNone = VStr s" and "dict_get c ''project_root'' VNone = VStr r"
  shows "\<exists>c'. anchor_binary h c = Inr c' \<and> (\<forall>a. a \<noteq> ''emulator_binary'' \<longrightarrow> dict_get c' a VNone = dict_get c a VNone)"
  using assms by (simp add: anchor_binary_def Let_def get_set)

lemma path_value_text: "\<exists>t. path_value f (VStr s) = VStr t"
  by (cases s) (simp_all add: path_value_def)

lemma resolve_texts:
  assumes "dict_get c ''emulator_config'' VNone = VStr s1" and "dict_get c ''project_root'' VNone = VStr s2"
    and "dict_get c ''deploy_dir'' VNone = VStr s3" and "dict_get c ''emulator_binary'' VNone = VStr s4"
  shows "\<exists>c'. resolve_paths h c = Inr c' \<and> resolved_from h c c'"
proof -
  obtain c1 where c1: "map_path (expand h) ''emulator_config'' c = Inr c1"
    "\<forall>a. dict_get c1 a VNone = (if a = ''emulator_config'' then path_value (expand h) (VStr s1) else dict_get c a VNone)"
    using map_path_text [OF assms(1)] by blast
  then have "dict_get c1 ''project_root'' VNone = VStr s2" using assms(2) by simp
  from map_path_text [OF this] obtain c2 where c2: "map_path (resolved h) ''project_root'' c1 = Inr c2"
    "\<forall>a. dict_get c2 a VNone = (if a = ''project_root'' then path_value (resolved h) (VStr s2) else dict_get c1 a VNone)"
    by blast
  then have "dict_get c2 ''deploy_dir'' VNone = VStr s3" using c1(2) assms(3) by simp
  from map_path_text [OF this] obtain c3 where c3: "map_path (expand h) ''deploy_dir'' c2 = Inr c3"
    "\<forall>a. dict_get c3 a VNone = (if a = ''deploy_dir'' then path_value (expand h) (VStr s3) else dict_get c2 a VNone)"
    by blast
  obtain t where "path_value (resolved h) (VStr s2) = VStr t" using path_value_text by blast
  then have "dict_get c3 ''emulator_binary'' VNone = VStr s4" "dict_get c3 ''project_root'' VNone = VStr t"
    using c1(2) c2(2) c3(2) assms(4) by simp_all
  from anchor_text [OF this] obtain c4 where c4: "anchor_binary h c3 = Inr c4"
    "\<forall>a. a \<noteq> ''emulator_binary'' \<longrightarrow> dict_get c4 a VNone = dict_get c3 a VNone" by blast
  have "resolve_paths h c = Inr c4" by (simp add: resolve_paths_def c1(1) c2(1) c3(1) c4(1))
  moreover have "resolved_from h c c4"
    using c1(2) c2(2) c3(2) c4(2) assms(1-3) by (simp add: resolved_from_def)
  ultimately show ?thesis by blast
qed

lemma restored_saved:
  assumes "wf_config cfg"
  shows "restored cfg root (set_all cfg saved_attributes
    (take_profiles (saved_data cfg) (dict_set default_config ''project_root'' (VStr root))))"
proof -
  let ?d = "dict_set default_config ''project_root'' (VStr root)"
  let ?c = "take_profiles (saved_data cfg) ?d"
  have w: "wf_attributes cfg" using assms by (simp add: wf_config_def)
  have p: "''profiles'' \<notin> set saved_attributes" "''active_profile'' \<notin> set saved_attributes"
    "''project_root'' \<notin> set saved_attributes" by code_simp+
  have d: "dict_get default_config ''active_profile'' VNone = VStr []" "dict_get default_config ''profiles'' VNone = VDict []" by code_simp+
  obtain s where s: "dict_get cfg ''active_profile'' VNone = VStr s"
    using w by (auto simp: wf_attributes_def holds_def kinds)
  have m: "map_of (saved_data cfg) ''active_profile'' = (if s = [] then None else Some (VStr s))"
    "map_of (saved_data cfg) ''profiles'' =
      (if profile_pairs cfg = [] then None else Some (VDict (map (\<lambda>(n, m). (n, VDict m)) (profile_pairs cfg))))"
    by (auto simp: saved_data_def active_pair_def profile_root_def s map_add_def map_of_tables table_values_def saved_tables_def)
  have c: "dict_get ?c a VNone =
      (if a = ''active_profile'' then VStr s
       else if a = ''profiles'' then VDict (map (\<lambda>(n, m). (n, VDict m)) (profile_pairs cfg))
       else if a = ''project_root'' then VStr root else dict_get default_config a VNone)" for a
    by (auto simp: take_profiles_def m get_set d value_str_def)
  have "get_profiles (set_all cfg saved_attributes ?c) = map (\<lambda>(n, m). (n, VDict m)) (profile_pairs cfg)"
    using p by (simp add: get_profiles_def get_set_all c)
  then show ?thesis
    using p s profile_pairs_sorted(4) [OF assms] by (simp add: restored_def get_set_all c)
qed

text \<open>What loading does after the sections of the file have been taken.\<close>

lemma load_saved:
  assumes "wf_config cfg"
    and c: "c = set_all cfg saved_attributes
      (take_profiles (saved_data cfg) (dict_set default_config ''project_root'' (VStr root)))"
  shows "load_config h root (Some (saved_data cfg)) =
    res_bind (case dict_get cfg ''active_profile'' VNone of VStr (x # s) \<Rightarrow> apply_profile (x # s) c | _ \<Rightarrow> Inr c)
      (resolve_paths h)"
proof -
  have w: "wf_attributes cfg" using assms(1) by (simp add: wf_config_def)
  have "dict_get c ''active_profile'' VNone = dict_get cfg ''active_profile'' VNone"
    using restored_saved [OF assms(1), of root] unfolding c by (simp add: restored_def)
  then show ?thesis unfolding c by (simp add: load_config_def Let_def apply_saved [OF w])
qed

lemma restored_resolves:
  assumes "wf_config cfg" and "restored cfg root c"
  shows "\<exists>c'. resolve_paths h c = Inr c' \<and> resolved_from h c c'"
proof -
  have w: "wf_attributes cfg" using assms(1) by (simp add: wf_config_def)
  have "set [''emulator_config'', ''deploy_dir'', ''emulator_binary''] \<subseteq> set saved_attributes"
    "''project_root'' \<notin> set (''active_profile'' # saved_attributes)" by code_simp+
  moreover obtain s1 s3 s4 where "dict_get cfg ''emulator_config'' VNone = VStr s1"
    "dict_get cfg ''deploy_dir'' VNone = VStr s3" "dict_get cfg ''emulator_binary'' VNone = VStr s4"
    using w by (auto simp: wf_attributes_def plain_attributes_def holds_def kinds)
  ultimately have "dict_get c ''emulator_config'' VNone = VStr s1" "dict_get c ''project_root'' VNone = VStr root"
    "dict_get c ''deploy_dir'' VNone = VStr s3" "dict_get c ''emulator_binary'' VNone = VStr s4"
    using assms(2) by (simp_all add: restored_def)
  from resolve_texts [OF this] show ?thesis .
qed

text \<open>C40. A configuration that is saved and loaded again: the text of the saved file is read without error, and gives
  a configuration with the same profiles, the same active one and the same values of all attributes that the file
  holds, whatever texts its profiles hold; all other attributes, those of the language model among them, are back at
  their defaults. Without an active profile, \<open>load_config\<close> returns it with its paths resolved and nothing else
  changed. An active profile that exists is laid over it once more before that, so that the profile's values win over
  the saved ones; one that does not exist makes the saved file impossible to load. Texts that are written without
  escaping must hold no quotes and backslashes.\<close>

theorem config_roundtrip:
  assumes "wf_config cfg" and active: "active = dict_get cfg ''active_profile'' VNone"
  shows "\<exists>data c. read_toml (save_config cfg) = Some data \<and> restored cfg root c \<and>
    (active = VStr [] \<longrightarrow> (\<exists>c'. load_config h root (Some data) = Inr c' \<and> resolved_from h c c')) \<and>
    (\<forall>name. name \<noteq> [] \<and> active = VStr name \<longrightarrow>
      (case map_of (get_profiles cfg) name of
         None \<Rightarrow> \<exists>e. load_config h root (Some data) = Inl (KeyError e)
       | Some p \<Rightarrow> load_config h root (Some data) = res_bind (apply_profile name c) (resolve_paths h)))"
proof -
  obtain c where c: "c = set_all cfg saved_attributes
    (take_profiles (saved_data cfg) (dict_set default_config ''project_root'' (VStr root)))" by blast
  have r: "restored cfg root c" unfolding c by (rule restored_saved [OF assms(1)])
  note load = load_saved [OF assms(1) c, folded active]
  show ?thesis
  proof (rule exI [of _ "saved_data cfg"], rule exI [of _ c], intro conjI impI allI)
    show "read_toml (save_config cfg) = Some (saved_data cfg)" by (rule saved_read [OF assms(1)])
    show "restored cfg root c" by (rule r)
    show "\<exists>c'. load_config h root (Some (saved_data cfg)) = Inr c' \<and> resolved_from h c c'" if "active = VStr []"
      using restored_resolves [OF assms(1) r] by (simp add: load that)
    fix name assume name: "name \<noteq> [] \<and> active = VStr name"
    then have "load_config h root (Some (saved_data cfg)) = res_bind (apply_profile name c) (resolve_paths h)"
      by (cases name) (simp_all add: load)
    moreover have "apply_profile name c = Inl (KeyError (no_profile name (get_profiles c)))" if "map_of (get_profiles cfg) name = None"
      using that r by (simp add: apply_profile_def restored_def)
    ultimately show "case map_of (get_profiles cfg) name of
         None \<Rightarrow> \<exists>e. load_config h root (Some (saved_data cfg)) = Inl (KeyError e)
       | Some p \<Rightarrow> load_config h root (Some (saved_data cfg)) = res_bind (apply_profile name c) (resolve_paths h)"
      by (auto split: option.split)
  qed
qed

definition sample_config :: config where
  "sample_config = dict_set (dict_set default_config ''serial_port'' (VInt 4321)) ''profiles''
     (VDict [(''qemu-os4'', VDict [(''mode'', VStr ''tcp''), (''port'', VInt 5000), (''description'', VStr ''a \"quoted\" name'')])])"

text \<open>A host whose paths are resolved already.\<close>

definition plain_host :: host_paths where
  "plain_host = \<lparr>expand = id, resolved = id, absolute = (\<lambda>s. py_startswith s ''/''), under = (\<lambda>r s. r @ ''/'' @ s)\<rparr>"

theorem config_roundtrip_witness:
  "\<exists>data c. read_toml (save_config sample_config) = Some data \<and> load_config plain_host ''/work'' (Some data) = Inr c \<and>
    dict_get c ''serial_port'' VNone = VInt 4321 \<and> dict_get c ''project_root'' VNone = VStr ''/work'' \<and>
    map_of (get_profiles c) ''qemu-os4'' =
      Some (VDict [(''mode'', VStr ''tcp''), (''port'', VInt 5000), (''description'', VStr ''a \"quoted\" name'')])"
proof -
  have wf: "wf_config sample_config" by code_simp
  have active: "VStr [] = dict_get sample_config ''active_profile'' VNone" by code_simp
  obtain data c c' where c: "read_toml (save_config sample_config) = Some data" "restored sample_config ''/work'' c"
    "load_config plain_host ''/work'' (Some data) = Inr c'" "resolved_from plain_host c c'"
    using config_roundtrip [OF wf active, of "''/work''" plain_host] by blast
  have saved: "''serial_port'' \<in> set (''active_profile'' # saved_attributes)" "''project_root'' \<notin> set (''active_profile'' # saved_attributes)"
    by code_simp+
  have "dict_get sample_config ''serial_port'' VNone = VInt 4321" by code_simp
  then have "dict_get c ''serial_port'' VNone = VInt 4321" "dict_get c ''project_root'' VNone = VStr ''/work''"
    using c(2) saved by (simp_all add: restored_def)
  then have "dict_get c' ''serial_port'' VNone = VInt 4321" "dict_get c' ''project_root'' VNone = VStr ''/work''"
    "get_profiles c' = get_profiles c"
    using c(4) by (simp_all add: resolved_from_def path_value_def plain_host_def get_profiles_def)
  moreover have "map_of (get_profiles sample_config) ''qemu-os4'' =
      Some (VDict [(''mode'', VStr ''tcp''), (''port'', VInt 5000), (''description'', VStr ''a \"quoted\" name'')])" by code_simp
  ultimately show ?thesis using c(1-3) by (simp add: restored_def)
qed

end
