(* ===== verification/Spec2Isabelle.thy ===== *)
theory Spec2Isabelle
  imports Disasm_Operands Copper Listing Stabs Stepping Transfers Screenshot Screenshot_Diff Tool_Results Winuae_Hits
    Winuae_Chipset Winuae_State Winuae_Typing Config_File
begin

text \<open>
  Amiga DevBench: the host side of a development bench for the Amiga
  (\<open>src/amiga-devbench/amiga_devbench\<close>).

  A bridge on the Amiga and the host exchange lines of text over a serial port or TCP. The
  host parses what the bridge reports, writes commands, keeps the debugger's view of the
  target, disassembles memory it has read and serves all of this to its clients.

  Theories and what they model:

  \<^item> \<open>Prelude\<close>: Python exceptions as values of a sum type, Python values and dictionaries,
    bytes and bit fields. \<open>Pystr\<close>: the string methods and conversions the program uses
    (split, strip, join, int, formatting, hexadecimal), with their round trips.
  \<^item> \<open>Protocol_Parse\<close>, \<open>Protocol_Query\<close>: one definition \<open>parse_X\<close> per branch of
    \<open>parse_message\<close> in \<open>protocol.py\<close>, with the entry parsers of the list messages.
    \<open>Protocol\<close>: the dispatch on the message type and what holds of every message: its type,
    when it is refused, which exceptions it raises, which texts survive.
  \<^item> \<open>Protocol_Format\<close>: \<open>format_command\<close> and the hex dumps of \<open>protocol.py\<close>: what the
    bridge reads of a command, against a grammar of the commands with their slots, framing, refusals.
  \<^item> \<open>Lvo\<close>, \<open>Disasm_Stream\<close>, \<open>Disasm\<close>: the tables, the instruction stream, the operand
    decoders and the instruction groups of \<open>disasm.py\<close>; a \<open>reader\<close> is a function on the
    stream that may raise. \<open>Disassemble\<close>: the loop of \<open>disassemble\<close> over any decoder, the
    locale \<open>instruction_decoder\<close> that states what it needs of one, and its interpretation on
    \<open>decode_one\<close>. \<open>Disasm_Operands\<close>: what the texts mean.
  \<^item> \<open>Copper\<close>: the copper list decoder of \<open>copper.py\<close>, against an assembler of copper
    instructions.
  \<^item> \<open>Bus\<close>: the log and the event bus of \<open>state.py\<close>. Tasks are the environment: the relation
    \<open>bus_step\<close> has one rule per call a task can make, and delivery is proved over its runs. The
    locale \<open>bounded_queue\<close> is the contract of a subscriber's queue.
  \<^item> \<open>Debugger\<close>: the state of \<open>debugger.py\<close> and its updates from bridge messages, against the last
    value each message gives for a register; the locale
    \<open>symbol_source\<close> is what it asks of a symbol table. \<open>Symbols\<close>: the tables of \<open>symbols.py\<close>,
    which implement that interface; \<open>Stabs\<close>: loading them from the output of nm and of
    objdump, with source lines, locals and structures. \<open>Listing\<close>: \<open>format_listing\<close> of \<open>disasm.py\<close>, which
    annotates a disassembly from them.

  \<^item> \<open>Serial\<close>: the data path of \<open>serial_conn.py\<close>, from bytes to lines to the shared state and the
    bus; what the connection shares with the program is the record \<open>hub\<close>. The locale
    \<open>reader_property\<close> is what has to hold of one action for a property of all data.
    \<open>Connection\<close>: how the connection comes and goes, as the relation \<open>conn_step\<close> over the
    awaits of its tasks.
  \<^item> \<open>Gdb\<close>: the server of \<open>gdb_server.py\<close> for the GDB remote protocol: framing, the client
    loop and all packets, over the connection of \<open>Serial\<close>. \<open>Gdb_Regs\<close>: what a client that writes
    and reads registers sees.
  \<^item> \<open>Simulator\<close>: the simulated bridge of \<open>simulator.py\<close>, its demo, debugger and commands.
  \<^item> \<open>Delivery\<close>, \<open>Session\<close>, \<open>Stepping\<close>: the components at work together. Lines of the bridge reach a
    waiting task as the events they stand for, however they are cut into chunks and whatever
    else is reported in between; so a GDB client reads the simulator's memory and registers, and
    steps its program. \<open>Stepping\<close> also holds the listeners of \<open>server.py\<close> to the debugger's
    events.
  \<^item> \<open>File_Transfer\<close>: pushing and pulling files over the connection (\<open>file_transfer.py\<close>) with
    retries, resumed connections and checksums. \<open>Transfers\<close>: the commands of a push write the
    file, a checksum tells a damaged byte, and a bridge that answers gets and gives the file.
  \<^item> \<open>Screenshot\<close>: collecting the rows of a screen and turning them into an image
    (\<open>screenshot.py\<close> and its callers), pixel by pixel for coded rows. \<open>Screenshot_Diff\<close>: comparing two images and finding the
    regions that differ (\<open>screenshot_diff.py\<close>), by flood fill.
  \<^item> \<open>Tools\<close>: what the tools of \<open>mcp_tools.py\<close> share: sending a command, collecting events until a
    deadline (\<open>collect\<close> with a turn for every event), files, scripts and directories. \<open>Toolset\<close>,
    \<open>Toolset_System\<close>, \<open>Toolset_Debug\<close>, \<open>Toolset_Run\<close>: the tools, each a task that answers a text.
    \<open>Tool_Runs\<close>, \<open>Tool_Results\<close>: with a bridge that answers, they return what the Amiga holds,
    however the answers are cut and whatever else arrives; and where they cannot: the output of a
    script is read only as far as one answer of the bridge goes, about 4 KB.

  \<^item> \<open>Json\<close>: what \<open>json.loads\<close> and \<open>json.dumps\<close> do with the values that occur. \<open>Rsp\<close>: the connection of
    \<open>winuae_debug.py\<close> to the debugger of WinUAE: packets, the reading task, the record \<open>winuae\<close>. \<open>Winuae\<close>:
    requests and access to memory and registers; an operation is a function of type \<open>dm\<close> on that
    record, and what arrives while it waits is the field \<open>incoming\<close>, with \<open>Silence\<close> for a time-out.
    \<open>Winuae_Ops\<close>: the tasks that handle stops, which get the lock before the next operation.
    \<open>Winuae_Actions\<close>, \<open>Winuae_Access\<close>: connecting, running, stepping, breakpoints, the reset.
    \<open>Winuae_Watch\<close>, \<open>Winuae_Guest\<close>, \<open>Winuae_Chipset\<close>, \<open>Winuae_State\<close>: the feature modules for watchpoints and
    conditions, input and guest output, hardware names, FD files and library calls, checkpoints and
    state files.
  \<^item> \<open>Winuae_Runs\<close>: packets decode, and bytes may arrive in any pieces. \<open>Winuae_Served\<close>: a WinUAE that
    answers requests, as a function from its state and a request to a reply. \<open>Winuae_Memory\<close>,
    \<open>Winuae_Hits\<close>, \<open>Winuae_Typing\<close>: with it, memory is read as it has been written, skip counts and stack
    pointers are right, and a text is typed as it is.

  \<^item> \<open>Logs\<close>: the traffic log (\<open>traffic_log.py\<close>) with its index, and the log file
    (\<open>persistent_log.py\<close>), whose lines a reader of keys and values gets the events back from. \<open>Config\<close>:
    the configuration (\<open>config.py\<close>) as a dictionary of attributes, changed by a TOML file, a profile and the
    command line; \<open>Config_File\<close>: what has been saved is loaded again, by a reader of the part of TOML
    that the file uses, and what the active profile and the resolution of paths then change.

  Strings are lists of 8-bit characters, as every line is decoded as latin-1. Exceptions are
  values of the type \<open>exn\<close>. The loop of \<open>disassemble\<close> counts down from its argument, so it
  needs no other bound; all other recursion is structural or has a measure. Loops that wait
  (the reconnect loop, the waits of the GDB server, the simulation) take what the environment
  does as a list and recurse over it.

  Simplifications: the entries of a message are read at the types the parser gives them; pushing and
  pulling use the chunk size all callers use, 1024; the connection keeps one flag for its TCP read
  loop, so two loops at once after a reconnection are not distinguished; \<open>set_connected\<close> sets the
  connection's own and the shared flag together, as no await lies between the assignments; the tasks of
  the WinUAE connection are merged at their awaits.

  Not modelled: input and output, timers, the HTTP server, the emulators and the tools that only
  call them, the project generators; of the WinUAE modules the screenshot and floppy changes (files
  and processes of the host), the labels of slots, and debug information in DWARF, which third-party
  packages read.
\<close>

end
